(* ===== verification/Prelude.thy ===== *)
theory Prelude
  imports Main "HOL-Library.AList" "HOL-Library.Char_ord" "HOL-Library.List_Lexorder"
    "HOL-Library.Product_Lexorder" "HOL-Library.Multiset"
begin

text \<open>
  Shared vocabulary of the development: the exceptions of the modelled Python code as values,
  the result type of code that may raise, a state-and-exception type for code that also reads
  the clock and writes a store, and the list, dictionary and text operations of Python that
  several components use.
\<close>

section \<open>Hints shared by the components\<close>

named_theorems result_simps \<open>inversion of code that returns normally\<close>
named_theorems store_simps \<open>what a step of a store leaves in each of its tables\<close>
named_theorems validator_defs \<open>unfolding of the record validators\<close>

section \<open>Exceptions and results\<close>

text \<open>
  One constructor per exception class that the modelled code raises or catches.  A
  \<open>ValidationError\<close> carries the field names whose declared constraint failed, or the one message
  of the model validator that raised (pydantic runs the latter only on valid fields).
\<close>

datatype py_error =
    ValueError string
  | KeyError string
  | TypeError string
  | RuntimeError string
  | OverflowError string
  | AttributeError string
  | ZeroDivisionError
  | ValidationError "string list"
  | ResearchBoundaryError string
  | CoverageGateError string
  | BacktestDataError string
  | LeadBookError string
  | LedgerError string
  | BacktestEngineError string

type_synonym 'a result = "py_error + 'a"

text \<open>\<open>except ValueError\<close> also catches the subclasses of ValueError.\<close>

fun is_value_error :: "py_error \<Rightarrow> bool" where
  "is_value_error (ValueError m) = True"
| "is_value_error (ValidationError ms) = True"
| "is_value_error (ResearchBoundaryError m) = True"
| "is_value_error (CoverageGateError m) = True"
| "is_value_error (BacktestDataError m) = True"
| "is_value_error (LeadBookError m) = True"
| "is_value_error (LedgerError m) = True"
| "is_value_error (BacktestEngineError m) = True"
| "is_value_error e = False"

fun is_type_error :: "py_error \<Rightarrow> bool" where
  "is_type_error (TypeError m) = True"
| "is_type_error e = False"

fun is_key_error :: "py_error \<Rightarrow> bool" where
  "is_key_error (KeyError m) = True"
| "is_key_error e = False"

definition bindE :: "'a result \<Rightarrow> ('a \<Rightarrow> 'b result) \<Rightarrow> 'b result" where
  "bindE m f = (case m of Inl e \<Rightarrow> Inl e | Inr x \<Rightarrow> f x)"

definition guardE :: "bool \<Rightarrow> py_error \<Rightarrow> unit result" where
  "guardE b e = (if b then Inr () else Inl e)"

text \<open>\<open>[f(x) for x in xs]\<close>, stopping at the first element that raises.\<close>

fun mapE :: "('a \<Rightarrow> 'b result) \<Rightarrow> 'a list \<Rightarrow> 'b list result" where
  "mapE f [] = Inr []"
| "mapE f (x # xs) = bindE (f x) (\<lambda>y. bindE (mapE f xs) (\<lambda>ys. Inr (y # ys)))"

text \<open>A loop that threads a state and may fail.\<close>

fun foldE :: "('a \<Rightarrow> 's \<Rightarrow> 's result) \<Rightarrow> 'a list \<Rightarrow> 's \<Rightarrow> 's result" where
  "foldE f [] s = Inr s"
| "foldE f (x # xs) s = bindE (f x s) (foldE f xs)"

text \<open>
  A cascade of \<open>if cond: raise error\<close>: the first condition that holds decides.
\<close>

fun raise_first :: "(bool \<times> py_error) list \<Rightarrow> unit result" where
  "raise_first [] = Inr ()"
| "raise_first ((c, e) # cs) = (if c then Inl e else raise_first cs)"

text \<open>
  Construction of a pydantic model: the names of the fields whose constraint fails, or, when
  there is none, the message of the first failing check of the model validator.
\<close>

definition validate_model :: "(bool \<times> string) list \<Rightarrow> (bool \<times> string) list \<Rightarrow> 'a \<Rightarrow> 'a result" where
  "validate_model fields checks r =
     (let bad = map snd (filter (\<lambda>(ok, _). \<not> ok) fields) in
      if bad \<noteq> [] then Inl (ValidationError bad)
      else bindE (raise_first (map (\<lambda>(c, m). (c, ValidationError [m])) checks)) (\<lambda>_. Inr r))"

lemma bindE_simps [simp]:
  "bindE (Inl e) f = Inl e"
  "bindE (Inr x) f = f x"
  by (simp_all add: bindE_def)

lemma bindE_Inr_iff [result_simps]: "bindE m f = Inr y \<longleftrightarrow> (\<exists>x. m = Inr x \<and> f x = Inr y)"
  by (auto simp: bindE_def split: sum.splits)

lemma bindE_Inl_iff: "bindE m f = Inl e \<longleftrightarrow> m = Inl e \<or> (\<exists>x. m = Inr x \<and> f x = Inl e)"
  by (auto simp: bindE_def split: sum.splits)

lemma bindE_assoc: "bindE (bindE m f) g = bindE m (\<lambda>x. bindE (f x) g)"
  by (simp add: bindE_def split: sum.splits)

lemma guardE_Inr_iff [simp, result_simps]: "guardE b e = Inr u \<longleftrightarrow> b"
  by (simp add: guardE_def)

lemma guardE_Inl_iff [simp]: "guardE b e = Inl e' \<longleftrightarrow> \<not> b \<and> e' = e"
  by (auto simp: guardE_def)

lemma guardE_True [simp]: "guardE True e = Inr ()"
  by (simp add: guardE_def)

lemma guardE_False [simp]: "guardE False e = Inl e"
  by (simp add: guardE_def)

lemma mapE_Inr_iff: "mapE f xs = Inr ys \<longleftrightarrow> list_all2 (\<lambda>x y. f x = Inr y) xs ys"
  by (induction xs arbitrary: ys) (auto simp: bindE_Inr_iff list_all2_Cons1)

lemma list_all2_member: "list_all2 P xs ys \<Longrightarrow> y \<in> set ys \<Longrightarrow> \<exists>x \<in> set xs. P x y"
  by (induction rule: list_all2_induct) auto

lemma foldE_append: "foldE f (xs @ ys) s = bindE (foldE f xs s) (foldE f ys)"
  by (induction xs arbitrary: s) (auto simp: bindE_def split: sum.splits)

lemma foldE_cong: "(\<And>x s. x \<in> set xs \<Longrightarrow> f x s = g x s) \<Longrightarrow> foldE f xs s = foldE g xs s"
  by (induction xs arbitrary: s) (auto simp: bindE_def split: sum.splits)

lemma foldE_invariant:
  assumes "foldE f xs s = Inr s'" "P s" "\<And>x s s'. x \<in> set xs \<Longrightarrow> f x s = Inr s' \<Longrightarrow> P s \<Longrightarrow> P s'"
  shows "P s'"
  using assms by (induction xs arbitrary: s) (auto simp: bindE_Inr_iff)

lemma mapE_all: "\<forall>x \<in> set xs. f x = Inr (g x) \<Longrightarrow> mapE f xs = Inr (map g xs)"
  by (induction xs) simp_all

lemma mapE_member: "mapE f xs = Inr ys \<Longrightarrow> x \<in> set xs \<Longrightarrow> \<exists>y. f x = Inr y"
  by (induction xs arbitrary: ys) (auto simp: bindE_Inr_iff)

lemma mapE_length: "mapE f xs = Inr ys \<Longrightarrow> length ys = length xs"
  by (auto simp: mapE_Inr_iff dest: list_all2_lengthD)

lemma raise_first_Inr_iff [simp, result_simps]:
  "raise_first cs = Inr u \<longleftrightarrow> (\<forall>(c, e) \<in> set cs. \<not> c)"
proof (induction cs)
  case (Cons p cs)
  then show ?case by (cases p) simp
qed simp

lemma validate_model_Inr_iff [result_simps]:
  "validate_model fields checks r = Inr r' \<longleftrightarrow>
     r' = r \<and> (\<forall>(ok, n) \<in> set fields. ok) \<and> (\<forall>(c, m) \<in> set checks. \<not> c)"
  by (auto simp: validate_model_def Let_def bindE_Inr_iff filter_empty_conv)

section \<open>Programs that read the clock and write a store\<close>

text \<open>
  A program takes the store and returns its result with the store it leaves; an exception keeps
  whatever was written before it, unless the program runs inside a transaction.
\<close>

type_synonym ('s, 'a) prog = "'s \<Rightarrow> 'a result \<times> 's"

definition retS :: "'a \<Rightarrow> ('s, 'a) prog" where
  "retS x = (\<lambda>s. (Inr x, s))"

definition raiseS :: "py_error \<Rightarrow> ('s, 'a) prog" where
  "raiseS e = (\<lambda>s. (Inl e, s))"

definition liftS :: "'a result \<Rightarrow> ('s, 'a) prog" where
  "liftS r = (\<lambda>s. (r, s))"

definition bindS :: "('s, 'a) prog \<Rightarrow> ('a \<Rightarrow> ('s, 'b) prog) \<Rightarrow> ('s, 'b) prog" where
  "bindS m f = (\<lambda>s. case m s of (Inl e, s') \<Rightarrow> (Inl e, s') | (Inr x, s') \<Rightarrow> f x s')"

definition modifyS :: "('s \<Rightarrow> 's) \<Rightarrow> ('s, unit) prog" where
  "modifyS f = (\<lambda>s. (Inr (), f s))"

definition getS :: "('s \<Rightarrow> 'a) \<Rightarrow> ('s, 'a) prog" where
  "getS f = (\<lambda>s. (Inr (f s), s))"

text \<open>\<open>for x in xs: out.append(f(x))\<close>, leaving the writes made before an exception.\<close>

fun mapS :: "('a \<Rightarrow> ('s, 'b) prog) \<Rightarrow> 'a list \<Rightarrow> ('s, 'b list) prog" where
  "mapS f [] = retS []"
| "mapS f (x # xs) = bindS (f x) (\<lambda>y. bindS (mapS f xs) (\<lambda>ys. retS (y # ys)))"

lemma prog_simps [simp]:
  "retS x s = (Inr x, s)"
  "raiseS e s = (Inl e, s)"
  "liftS r s = (r, s)"
  "modifyS f s = (Inr (), f s)"
  "getS g s = (Inr (g s), s)"
  by (simp_all add: retS_def raiseS_def liftS_def modifyS_def getS_def)

lemma bindS_Inr_iff [result_simps]:
  "bindS m f s = (Inr y, s') \<longleftrightarrow> (\<exists>x s1. m s = (Inr x, s1) \<and> f x s1 = (Inr y, s'))"
  by (auto simp: bindS_def split: sum.splits prod.splits)

lemma bindS_step [simp]: "m s = (Inr x, s1) \<Longrightarrow> bindS m f s = f x s1"
  by (simp add: bindS_def)

lemma bindS_fail [simp]: "m s = (Inl e, s1) \<Longrightarrow> bindS m f s = (Inl e, s1)"
  by (simp add: bindS_def)

section \<open>Lists, dictionaries and text\<close>

text \<open>\<open>tuple(dict.fromkeys(xs))\<close>: the first occurrence of each element, in order.\<close>

fun uniq :: "'a list \<Rightarrow> 'a list" where
  "uniq [] = []"
| "uniq (x # xs) = x # filter (\<lambda>y. y \<noteq> x) (uniq xs)"

lemma set_uniq [simp]: "set (uniq xs) = set xs"
  by (induction xs) auto

lemma distinct_uniq [simp]: "distinct (uniq xs)"
  by (induction xs) auto

lemma uniq_distinct: "distinct xs \<Longrightarrow> uniq xs = xs"
  by (induction xs) (auto simp: filter_id_conv)

lemma uniq_Nil_iff [simp]: "uniq xs = [] \<longleftrightarrow> xs = []"
  by (cases xs) auto

lemma length_uniq_le: "length (uniq xs) \<le> length xs"
proof (induction xs)
  case (Cons x xs)
  have "length (filter (\<lambda>y. y \<noteq> x) (uniq xs)) \<le> length (uniq xs)" by simp
  with Cons.IH have "length (filter (\<lambda>y. y \<noteq> x) (uniq xs)) \<le> length xs" by (rule order.trans[rotated])
  then show ?case by simp
qed simp

lemma uniq_filter: "uniq (filter P xs) = filter P (uniq xs)"
proof (induction xs)
  case (Cons x xs)
  have "filter (\<lambda>y. y \<noteq> x) (filter P (uniq xs)) = filter P (filter (\<lambda>y. y \<noteq> x) (uniq xs))"
    by (simp add: conj_commute)
  moreover have "\<not> P x \<Longrightarrow> filter P (filter (\<lambda>y. y \<noteq> x) (uniq xs)) = filter P (uniq xs)"
    unfolding filter_filter by (rule filter_cong) auto
  ultimately show ?case using Cons.IH by auto
qed simp

text \<open>
  \<open>{k(x): v(x) for x in xs}\<close>: later entries overwrite the value, not the position, of earlier
  ones; \<open>INSERT OR REPLACE\<close>, in contrast, deletes the old row and appends the new one.
\<close>

definition dict_of :: "('k \<times> 'v) list \<Rightarrow> ('k \<times> 'v) list" where
  "dict_of kvs = fold (\<lambda>(k, v) d. AList.update k v d) kvs []"

definition insert_or_replace :: "'k \<Rightarrow> 'v \<Rightarrow> ('k \<times> 'v) list \<Rightarrow> ('k \<times> 'v) list" where
  "insert_or_replace k v t = filter (\<lambda>(k', _). k' \<noteq> k) t @ [(k, v)]"

lemma map_of_filter_ne:
  "map_of (filter (\<lambda>(k', _). k' \<noteq> k) t) k' = (if k' = k then None else map_of t k')"
  by (induction t) auto

lemma map_of_insert_or_replace [simp]:
  "map_of (insert_or_replace k v t) = (map_of t)(k \<mapsto> v)"
  by (rule ext) (auto simp: insert_or_replace_def map_of_filter_ne map_add_def split: option.splits)

lemma set_insert_or_replace:
  "set (insert_or_replace k v t) = {(k', v') \<in> set t. k' \<noteq> k} \<union> {(k, v)}"
  by (auto simp: insert_or_replace_def)

lemma distinct_insert_or_replace:
  "distinct (map fst t) \<Longrightarrow> distinct (map fst (insert_or_replace k v t))"
  by (induction t) (auto simp: insert_or_replace_def)

lemma fst_set_insert_or_replace:
  "fst ` set (insert_or_replace k v t) = insert k (fst ` set t)"
  by (force simp: set_insert_or_replace)

lemma map_of_dict_of_fold:
  "map_of (fold (\<lambda>(k, v) d. AList.update k v d) kvs d) = map_of d ++ map_of (rev kvs)"
  by (induction kvs arbitrary: d) (auto simp: update_conv' map_add_def fun_eq_iff split: option.splits)

lemma map_of_dict_of: "map_of (dict_of kvs) = map_of (rev kvs)"
  by (simp add: dict_of_def map_of_dict_of_fold)

lemma distinct_dict_of: "distinct (map fst (dict_of kvs))"
proof -
  have "distinct (map fst d) \<Longrightarrow>
      distinct (map fst (fold (\<lambda>(k, v) d. AList.update k v d) kvs d))" for d
    by (induction kvs arbitrary: d) (auto simp: distinct_update)
  then show ?thesis by (simp add: dict_of_def)
qed

text \<open>\<open>sep.join(parts)\<close> and decimal text.\<close>

fun join :: "string \<Rightarrow> string list \<Rightarrow> string" where
  "join sep [] = ''''"
| "join sep [x] = x"
| "join sep (x # y # xs) = x @ sep @ join sep (y # xs)"

definition digit_char :: "nat \<Rightarrow> char" where
  "digit_char d = char_of (48 + d)"

fun string_of_nat :: "nat \<Rightarrow> string" where
  "string_of_nat n = (if n < 10 then [digit_char n]
     else string_of_nat (n div 10) @ [digit_char (n mod 10)])"

declare string_of_nat.simps [simp del]

definition string_of_int :: "int \<Rightarrow> string" where
  "string_of_int i = (if 0 \<le> i then string_of_nat (nat i) else CHR ''-'' # string_of_nat (nat \<bar>i\<bar>))"

definition pad_left :: "nat \<Rightarrow> string \<Rightarrow> string" where
  "pad_left w s = replicate (w - length s) CHR ''0'' @ s"

definition zero_pad :: "nat \<Rightarrow> int \<Rightarrow> string" where
  "zero_pad w i = pad_left w (string_of_int i)"

lemma string_of_nat_nonempty [simp]: "string_of_nat n \<noteq> []"
  by (subst string_of_nat.simps) simp

definition is_prefix_of :: "string \<Rightarrow> string \<Rightarrow> bool" where
  "is_prefix_of p s \<longleftrightarrow> take (length p) s = p"

text \<open>\<open>needle in haystack\<close> on text.\<close>

fun contains :: "string \<Rightarrow> string \<Rightarrow> bool" where
  "contains needle [] = (needle = [])"
| "contains needle (c # cs) = (is_prefix_of needle (c # cs) \<or> contains needle cs)"

text \<open>\<open>str.strip()\<close> on the modelled characters and \<open>str.lower()\<close> on ASCII text.\<close>

definition is_space :: "char \<Rightarrow> bool" where
  "is_space c \<longleftrightarrow> of_char c \<in> {9, 10, 11, 12, 13, 28, 29, 30, 31, 32, 133, 160::nat}"

definition strip :: "string \<Rightarrow> string" where
  "strip s = rev (dropWhile is_space (rev (dropWhile is_space s)))"

definition lower_char :: "char \<Rightarrow> char" where
  "lower_char c = (let n = of_char c :: nat in if 65 \<le> n \<and> n \<le> 90 then char_of (n + 32) else c)"

definition lower :: "string \<Rightarrow> string" where
  "lower s = map lower_char s"

text \<open>The truth value of an optional text: the empty text counts as none.\<close>

definition text_given :: "string option \<Rightarrow> bool" where
  "text_given w = (case w of None \<Rightarrow> False | Some s \<Rightarrow> s \<noteq> [])"

lemma text_given_simps [simp]:
  "\<not> text_given None" "text_given (Some s) \<longleftrightarrow> s \<noteq> []"
  by (simp_all add: text_given_def)

text \<open>Stable sort by a key, the smallest first; the order of text and tuples is Python's.\<close>

definition sorted_by :: "('a \<Rightarrow> 'k::linorder) \<Rightarrow> 'a list \<Rightarrow> 'a list" where
  "sorted_by k xs = sort_key k xs"

lemma set_sorted_by [simp]: "set (sorted_by k xs) = set xs"
  by (simp add: sorted_by_def)

lemma length_sorted_by [simp]: "length (sorted_by k xs) = length xs"
  by (simp add: sorted_by_def)

lemma sorted_sorted_by: "sorted (map k (sorted_by k xs))"
  by (simp add: sorted_by_def)

lemma distinct_sorted_by [simp]: "distinct (sorted_by k xs) = distinct xs"
  by (simp add: sorted_by_def)

lemma distinct_map_sorted_by [simp]: "distinct (map f (sorted_by k xs)) = distinct (map f xs)"
proof -
  have "mset (map f (sorted_by k xs)) = mset (map f xs)" by (simp add: sorted_by_def)
  then show ?thesis by (metis mset_eq_imp_distinct_iff)
qed

lemma sorted_by_id: "sorted (map f xs) \<Longrightarrow> sorted_by f xs = xs"
  unfolding sorted_by_def by (rule sort_key_id_if_sorted)

lemma sorted_by_mset_eq:
  assumes "mset xs = mset ys" "inj_on k (set xs)"
  shows "sorted_by k xs = sorted_by k ys"
  unfolding sorted_by_def
  by (rule sort_key_inj_key_eq) (use assms in simp_all)

section \<open>Systems that evolve by steps\<close>

text \<open>
  A component with a state is a set of initial states and a step relation.  The clients of the
  contract are the invariants: what holds initially and is kept by every step holds in every
  reachable state.
\<close>

locale step_system =
  fixes init :: "'s \<Rightarrow> bool" and step :: "'s \<Rightarrow> 's \<Rightarrow> bool" and inv :: "'s \<Rightarrow> bool"
  assumes init_inv: "init s \<Longrightarrow> inv s"
    and step_inv: "inv s \<Longrightarrow> step s s' \<Longrightarrow> inv s'"
begin

lemma steps_inv: "step\<^sup>*\<^sup>* s s' \<Longrightarrow> inv s \<Longrightarrow> inv s'"
  by (induction rule: rtranclp_induct) (auto intro: step_inv)

lemma reachable_inv: "init s \<Longrightarrow> step\<^sup>*\<^sup>* s s' \<Longrightarrow> inv s'"
  by (blast intro: init_inv steps_inv)

end

text \<open>A loop over a list keeps what each of its rounds keeps.\<close>

lemma mapS_keeps:
  assumes "\<And>x s. P s \<Longrightarrow> P (snd (f x s))" and "P s"
  shows "P (snd (mapS f xs s))"
  using assms(2)
proof (induction xs arbitrary: s)
  case (Cons x xs)
  obtain y s1 where 1: "f x s = (y, s1)" by (cases "f x s")
  have s1: "P s1" using assms(1) [OF Cons.prems, of x] 1 by simp
  obtain ys s2 where 2: "mapS f xs s1 = (ys, s2)" by (cases "mapS f xs s1")
  show ?case using Cons.IH [OF s1] s1 1 2 by (cases y; cases ys) (simp_all add: bindS_def)
qed simp

lemma insert_or_replace_twice [simp]:
  "insert_or_replace k v (insert_or_replace k u t) = insert_or_replace k v t"
  by (auto simp: insert_or_replace_def intro!: filter_cong)

end
