(* ===== verification/PyFloat.thy ===== *)
theory PyFloat
  imports Prelude Complex_Main "HOL-Library.Log_Nat"
begin

text \<open>
  Python's float: IEEE 754 binary64 with round-to-nearest-even.  A finite double is the rational
  it denotes (the two zeros are identified: no modelled code can tell them apart), every
  arithmetic result is the rational result rounded by \<open>fl\<close>, and the comparisons are the IEEE
  ones, false on NaN.  The locale \<open>rounding\<close> collects the laws the clients use; it is
  interpreted on \<open>round53\<close>.
\<close>

section \<open>Rounding a rational to 53 bits\<close>

definition pow2 :: "int \<Rightarrow> rat" where
  "pow2 e = (if 0 \<le> e then 2 ^ nat e else 1 / 2 ^ nat (- e))"

text \<open>Round to the nearest integer, ties to even.\<close>

definition round_half_even :: "rat \<Rightarrow> int" where
  "round_half_even x =
     (let f = \<lfloor>x\<rfloor>; d = x - of_int f in
      if d < 1/2 then f else if 1/2 < d then f + 1 else if even f then f else f + 1)"

text \<open>The exponent of the leading bit of a positive rational.\<close>

definition ilog2 :: "rat \<Rightarrow> int" where
  "ilog2 x = (let (n, d) = quotient_of x; e = bitlen n - bitlen d in
      if pow2 e \<le> x then e else e - 1)"

text \<open>The exponent of the last bit kept: 53 bits, or fewer below the normal range.\<close>

definition ulp_exp :: "rat \<Rightarrow> int" where
  "ulp_exp x = max (ilog2 x - 52) (-1074)"

definition round53_pos :: "rat \<Rightarrow> rat" where
  "round53_pos x = of_int (round_half_even (x / pow2 (ulp_exp x))) * pow2 (ulp_exp x)"

definition round53 :: "rat \<Rightarrow> rat" where
  "round53 x = (if x = 0 then 0 else if 0 < x then round53_pos x else - round53_pos (- x))"

subsection \<open>Powers of two\<close>

lemma pow2_pos [simp]: "0 < pow2 e"
  by (simp add: pow2_def)

lemma pow2_nz [simp]: "pow2 e \<noteq> 0"
  using pow2_pos [of e] by linarith

lemma pow2_nonneg [simp]: "0 \<le> pow2 e"
  by (rule less_imp_le) (rule pow2_pos)

lemma pow2_eq_powi: "pow2 e = 2 powi e"
  by (simp add: pow2_def power_int_def inverse_eq_divide power_one_over)

lemma pow2_add: "pow2 (a + b) = pow2 a * pow2 b"
  by (simp add: pow2_eq_powi power_int_add)

lemma pow2_0 [simp]: "pow2 0 = 1"
  by (simp add: pow2_def)

lemma pow2_Suc: "pow2 (e + 1) = 2 * pow2 e"
  by (simp add: pow2_add) (simp add: pow2_def)

lemma pow2_mono: "a \<le> b \<Longrightarrow> pow2 a \<le> pow2 b"
  by (simp add: pow2_eq_powi power_int_increasing)

lemma pow2_strict_mono: "a < b \<Longrightarrow> pow2 a < pow2 b"
  by (simp add: pow2_eq_powi power_int_strict_increasing)

lemma pow2_less_iff: "pow2 a < pow2 b \<longleftrightarrow> a < b"
  by (metis linorder_not_less pow2_mono pow2_strict_mono)

lemma pow2_nat: "pow2 (int n) = of_int (2 ^ n)"
  by (simp add: pow2_def)

subsection \<open>Rounding to an integer\<close>

lemma round_half_even_of_int [simp]: "round_half_even (of_int n) = n"
  by (simp add: round_half_even_def Let_def)

lemma round_half_even_bounds:
  "\<lfloor>x\<rfloor> \<le> round_half_even x \<and> round_half_even x \<le> \<lfloor>x\<rfloor> + 1"
  by (simp add: round_half_even_def Let_def)

lemma round_half_even_mono: "x \<le> y \<Longrightarrow> round_half_even x \<le> round_half_even y"
proof -
  assume le: "x \<le> y"
  show ?thesis
  proof (cases "\<lfloor>x\<rfloor> = \<lfloor>y\<rfloor>")
    case True
    then show ?thesis using le by (auto simp: round_half_even_def Let_def)
  next
    case False
    with floor_mono [OF le] have "\<lfloor>x\<rfloor> + 1 \<le> \<lfloor>y\<rfloor>" by linarith
    with round_half_even_bounds [of x] round_half_even_bounds [of y] show ?thesis by linarith
  qed
qed

subsection \<open>The leading exponent\<close>

lemma quotient_of_pos:
  assumes "0 < x" and "quotient_of x = (n, d)"
  shows "0 < n" "0 < d" "x = of_int n / of_int d"
proof -
  show d: "0 < d" using quotient_of_denom_pos [OF assms(2)] .
  show x: "x = of_int n / of_int d" using quotient_of_div [OF assms(2)] .
  have "0 < x * of_int d" using assms(1) d by simp
  then show "0 < n" using x d by simp
qed

lemma bitlen_pow2_bounds:
  assumes "0 < n"
  shows "pow2 (bitlen n - 1) \<le> of_int n" "of_int n < pow2 (bitlen n)"
proof -
  have b: "2 ^ nat (bitlen n - 1) \<le> n \<and> n < 2 ^ nat (bitlen n)"
    using bitlen_bounds [OF assms] .
  have p: "0 < bitlen n" using assms by (simp add: bitlen_def floorlog_eq_zero_iff zero_less_iff_neq_zero)
  have "(of_int (2 ^ nat (bitlen n - 1)) :: rat) \<le> of_int n"
    using b by (simp only: of_int_le_iff)
  then show "pow2 (bitlen n - 1) \<le> of_int n" using p by (simp add: pow2_def)
  have "(of_int n :: rat) < of_int (2 ^ nat (bitlen n))"
    using b by (simp only: of_int_less_iff)
  then show "of_int n < pow2 (bitlen n)" using p by (simp add: pow2_def)
qed

lemma ilog2_bounds:
  assumes "0 < x"
  shows "pow2 (ilog2 x) \<le> x" "x < pow2 (ilog2 x + 1)"
proof -
  obtain n d where q: "quotient_of x = (n, d)" by (cases "quotient_of x")
  note nd = quotient_of_pos [OF assms q]
  note bn = bitlen_pow2_bounds [OF nd(1)] and bd = bitlen_pow2_bounds [OF nd(2)]
  let ?e = "bitlen n - bitlen d"
  have d: "(0::rat) < of_int d" using nd(2) by simp
  have up: "x < pow2 (?e + 1)"
  proof -
    have "of_int n < pow2 (?e + 1) * pow2 (bitlen d - 1)"
      using bn(2) by (simp flip: pow2_add)
    also have "\<dots> \<le> pow2 (?e + 1) * of_int d"
      using bd(1) by (intro mult_left_mono) simp_all
    finally show ?thesis using d by (simp add: nd(3) divide_less_eq)
  qed
  have lo: "pow2 (?e - 1) \<le> x"
  proof -
    have "pow2 (?e - 1) * of_int d \<le> pow2 (?e - 1) * pow2 (bitlen d)"
      using bd(2) by (intro mult_left_mono) simp_all
    also have "\<dots> \<le> of_int n" using bn(1) by (simp flip: pow2_add add: algebra_simps)
    finally show ?thesis using d by (simp add: nd(3) le_divide_eq)
  qed
  show "pow2 (ilog2 x) \<le> x" "x < pow2 (ilog2 x + 1)"
    using up lo by (auto simp: ilog2_def q Let_def)
qed

lemma ilog2_unique:
  assumes "0 < x" "pow2 e \<le> x" "x < pow2 (e + 1)"
  shows "ilog2 x = e"
proof -
  note b = ilog2_bounds [OF assms(1)]
  have "pow2 e < pow2 (ilog2 x + 1)" using assms(2) b(2) by linarith
  moreover have "pow2 (ilog2 x) < pow2 (e + 1)" using assms(3) b(1) by linarith
  ultimately show ?thesis by (simp add: pow2_less_iff)
qed

lemma ilog2_mono: "0 < x \<Longrightarrow> x \<le> y \<Longrightarrow> ilog2 x \<le> ilog2 y"
proof -
  assume x: "0 < x" and le: "x \<le> y"
  have "pow2 (ilog2 x) < pow2 (ilog2 y + 1)"
    using ilog2_bounds [OF x] ilog2_bounds [of y] x le by linarith
  then show ?thesis by (simp add: pow2_less_iff)
qed

subsection \<open>The rounding is monotone and exact on representable values\<close>

lemma ulp_exp_mono: "0 < x \<Longrightarrow> x \<le> y \<Longrightarrow> ulp_exp x \<le> ulp_exp y"
  using ilog2_mono [of x y] by (simp add: ulp_exp_def max_def)

lemma round_scaled_exact:
  assumes "u \<le> e"
  shows "of_int (round_half_even (of_int m * pow2 e / pow2 u)) * pow2 u = of_int m * pow2 e"
proof -
  have "pow2 e = pow2 (e - u) * pow2 u" by (simp flip: pow2_add)
  moreover have "pow2 (e - u) = of_int (2 ^ nat (e - u))"
    using assms pow2_nat [of "nat (e - u)"] by simp
  ultimately have s: "of_int m * pow2 e / pow2 u = of_int (m * 2 ^ nat (e - u))" by simp
  show ?thesis unfolding s round_half_even_of_int
    using assms by (simp add: \<open>pow2 e = _\<close> \<open>pow2 (e - u) = _\<close>)
qed

lemma round53_pos_le_pow2:
  assumes "0 < x" "x \<le> pow2 e" "ulp_exp x \<le> e"
  shows "round53_pos x \<le> pow2 e"
proof -
  have "x / pow2 (ulp_exp x) \<le> of_int 1 * pow2 e / pow2 (ulp_exp x)"
    using assms(2) by (simp add: divide_right_mono)
  then have "of_int (round_half_even (x / pow2 (ulp_exp x))) * pow2 (ulp_exp x)
      \<le> of_int (round_half_even (of_int 1 * pow2 e / pow2 (ulp_exp x))) * pow2 (ulp_exp x)"
    by (intro mult_right_mono) (simp_all only: of_int_le_iff round_half_even_mono pow2_nonneg)
  also have "\<dots> = of_int 1 * pow2 e" by (rule round_scaled_exact [OF assms(3)])
  finally show ?thesis by (simp add: round53_pos_def)
qed

lemma pow2_le_round53_pos:
  assumes "pow2 e \<le> y" "ulp_exp y \<le> e"
  shows "pow2 e \<le> round53_pos y"
proof -
  have "pow2 e = of_int (round_half_even (of_int 1 * pow2 e / pow2 (ulp_exp y))) * pow2 (ulp_exp y)"
    using round_scaled_exact [OF assms(2), of 1] by simp
  also have "\<dots> \<le> of_int (round_half_even (y / pow2 (ulp_exp y))) * pow2 (ulp_exp y)"
    using assms(1)
    by (intro mult_right_mono) (simp_all only: of_int_le_iff round_half_even_mono divide_right_mono pow2_nonneg of_int_1 mult_1)
  finally show ?thesis by (simp add: round53_pos_def)
qed

lemma round53_pos_mono:
  assumes "0 < x" "x \<le> y"
  shows "round53_pos x \<le> round53_pos y"
proof (cases "ulp_exp x = ulp_exp y")
  case True
  have "x / pow2 (ulp_exp y) \<le> y / pow2 (ulp_exp y)"
    using assms(2) by (simp add: divide_right_mono)
  then show ?thesis unfolding round53_pos_def True
    by (intro mult_right_mono) (simp_all add: round_half_even_mono)
next
  case False
  let ?e = "ilog2 y"
  have lt: "ulp_exp x < ulp_exp y" using False ulp_exp_mono [OF assms] by linarith
  then have uy: "ulp_exp y = ?e - 52" by (auto simp: ulp_exp_def max_def split: if_splits)
  have lx: "ilog2 x + 1 \<le> ?e" using lt uy by (auto simp: ulp_exp_def max_def split: if_splits)
  have "x \<le> pow2 ?e" using ilog2_bounds(2) [OF assms(1)] pow2_mono [OF lx] by linarith
  then have "round53_pos x \<le> pow2 ?e"
    by (rule round53_pos_le_pow2 [OF assms(1)]) (use lt uy in linarith)
  also have "\<dots> \<le> round53_pos y"
    by (rule pow2_le_round53_pos) (use ilog2_bounds(1) [of y] assms uy in auto)
  finally show ?thesis .
qed

lemma round53_pos_nonneg: "0 < x \<Longrightarrow> 0 \<le> round53_pos x"
proof -
  assume "0 < x"
  then have "round_half_even 0 \<le> round_half_even (x / pow2 (ulp_exp x))"
    by (intro round_half_even_mono) simp
  then show ?thesis using round_half_even_of_int [of 0] by (simp add: round53_pos_def)
qed

lemma round53_0 [simp]: "round53 0 = 0"
  by (simp add: round53_def)

lemma round53_minus [simp]: "round53 (- x) = - round53 x"
  by (simp add: round53_def)

lemma round53_mono: "x \<le> y \<Longrightarrow> round53 x \<le> round53 y"
proof -
  assume le: "x \<le> y"
  consider "0 < x" | "y < 0" | "x \<le> 0" "0 \<le> y" by linarith
  then show ?thesis
  proof cases
    case 1
    then show ?thesis using le round53_pos_mono [of x y] by (simp add: round53_def)
  next
    case 2
    then show ?thesis using le round53_pos_mono [of "- y" "- x"] by (simp add: round53_def)
  next
    case 3
    then show ?thesis using round53_pos_nonneg [of y] round53_pos_nonneg [of "- x"]
      by (auto simp: round53_def)
  qed
qed

lemma round53_exact:
  assumes "\<bar>m\<bar> < 2 ^ 53" "-1074 \<le> e"
  shows "round53 (of_int m * pow2 e) = of_int m * pow2 e"
proof -
  have pos: "round53_pos (of_int k * pow2 e) = of_int k * pow2 e" if k: "0 < k" "k < 2 ^ 53" for k
  proof -
    let ?x = "of_int k * pow2 e"
    have xp: "0 < ?x" using k by simp
    have "(of_int k :: rat) < of_int (2 ^ 53)" using k(2) by (simp only: of_int_less_iff)
    then have "(of_int k :: rat) < pow2 53" by (simp add: pow2_def)
    then have "?x < pow2 53 * pow2 e" by (intro mult_strict_right_mono) simp_all
    with ilog2_bounds(1) [OF xp] have "pow2 (ilog2 ?x) < pow2 53 * pow2 e"
      by (rule order.strict_trans1)
    then have "pow2 (ilog2 ?x) < pow2 (53 + e)" by (simp only: pow2_add)
    then have "ulp_exp ?x \<le> e" using assms(2) by (simp add: pow2_less_iff ulp_exp_def)
    then show ?thesis by (simp only: round53_pos_def round_scaled_exact)
  qed
  consider "m = 0" | "0 < m" | "m < 0" by linarith
  then show ?thesis
  proof cases
    case 2
    then show ?thesis using pos [of m] assms(1) by (simp add: round53_def zero_less_mult_iff)
  next
    case 3
    have "of_int m * pow2 e < 0" using 3 by (simp add: mult_less_0_iff)
    then show ?thesis using 3 pos [of "- m"] assms(1) by (simp add: round53_def)
  qed simp
qed

lemma round53_of_int: "\<bar>m\<bar> < 2 ^ 53 \<Longrightarrow> round53 (of_int m) = of_int m"
  using round53_exact [of m 0] by simp

lemma round53_1 [simp]: "round53 1 = 1"
  using round53_of_int [of 1] by simp

lemma round53_pow2: "-1074 \<le> e \<Longrightarrow> round53 (pow2 e) = pow2 e"
  using round53_exact [of 1 e] by simp

section \<open>What clients rely on\<close>

text \<open>
  The clients need only that rounding is monotone, odd, and exact on the representable values;
  \<open>representable\<close> is the set of values the rounding does not move.
\<close>

locale rounding =
  fixes rnd :: "rat \<Rightarrow> rat"
  assumes rnd_mono: "x \<le> y \<Longrightarrow> rnd x \<le> rnd y"
    and rnd_minus: "rnd (- x) = - rnd x"
    and rnd_zero: "rnd 0 = 0"
    and rnd_one: "rnd 1 = 1"
begin

lemma rnd_nonneg: "0 \<le> x \<Longrightarrow> 0 \<le> rnd x"
  using rnd_mono [of 0 x] by (simp add: rnd_zero)

lemma rnd_nonpos: "x \<le> 0 \<Longrightarrow> rnd x \<le> 0"
  using rnd_mono [of x 0] by (simp add: rnd_zero)

lemma rnd_unit: "0 \<le> x \<Longrightarrow> x \<le> 1 \<Longrightarrow> 0 \<le> rnd x \<and> rnd x \<le> 1"
  using rnd_mono [of x 1] rnd_nonneg [of x] by (simp add: rnd_one)

lemma rnd_le_representable: "rnd c = c \<Longrightarrow> x \<le> c \<Longrightarrow> rnd x \<le> c"
  using rnd_mono [of x c] by simp

lemma rnd_ge_representable: "rnd c = c \<Longrightarrow> c \<le> x \<Longrightarrow> c \<le> rnd x"
  using rnd_mono [of c x] by simp

lemma rnd_abs: "rnd \<bar>x\<bar> = \<bar>rnd x\<bar>"
  using rnd_nonneg [of x] rnd_nonpos [of x] by (cases "0 \<le> x") (simp_all add: rnd_minus)

end

interpretation fl53: rounding round53
  by unfold_locales (simp_all add: round53_mono)

section \<open>Doubles\<close>

datatype pyfloat = Fin rat | PInf | NInf | NaN

text \<open>The double nearest to a rational, or an infinity beyond the largest finite double.\<close>

definition fl :: "rat \<Rightarrow> pyfloat" where
  "fl x = (let r = round53 x in
      if pow2 1024 \<le> r then PInf else if r \<le> - pow2 1024 then NInf else Fin r)"

fun f_lt :: "pyfloat \<Rightarrow> pyfloat \<Rightarrow> bool" where
  "f_lt (Fin a) (Fin b) = (a < b)"
| "f_lt (Fin a) PInf = True"
| "f_lt NInf (Fin b) = True"
| "f_lt NInf PInf = True"
| "f_lt a b = False"

fun f_eq :: "pyfloat \<Rightarrow> pyfloat \<Rightarrow> bool" where
  "f_eq NaN b = False"
| "f_eq a b = (a = b)"

definition f_le :: "pyfloat \<Rightarrow> pyfloat \<Rightarrow> bool" where
  "f_le a b = (f_lt a b \<or> f_eq a b)"

abbreviation f_gt :: "pyfloat \<Rightarrow> pyfloat \<Rightarrow> bool" where
  "f_gt a b \<equiv> f_lt b a"

abbreviation f_ge :: "pyfloat \<Rightarrow> pyfloat \<Rightarrow> bool" where
  "f_ge a b \<equiv> f_le b a"

fun isfinite :: "pyfloat \<Rightarrow> bool" where
  "isfinite (Fin a) = True"
| "isfinite a = False"

fun f_neg :: "pyfloat \<Rightarrow> pyfloat" where
  "f_neg (Fin a) = Fin (- a)"
| "f_neg PInf = NInf"
| "f_neg NInf = PInf"
| "f_neg NaN = NaN"

fun f_abs :: "pyfloat \<Rightarrow> pyfloat" where
  "f_abs (Fin a) = Fin \<bar>a\<bar>"
| "f_abs PInf = PInf"
| "f_abs NInf = PInf"
| "f_abs NaN = NaN"

fun f_add :: "pyfloat \<Rightarrow> pyfloat \<Rightarrow> pyfloat" where
  "f_add (Fin a) (Fin b) = fl (a + b)"
| "f_add NaN b = NaN"
| "f_add a NaN = NaN"
| "f_add PInf NInf = NaN"
| "f_add NInf PInf = NaN"
| "f_add PInf b = PInf"
| "f_add a PInf = PInf"
| "f_add NInf b = NInf"
| "f_add a NInf = NInf"

definition f_sub :: "pyfloat \<Rightarrow> pyfloat \<Rightarrow> pyfloat" where
  "f_sub a b = f_add a (f_neg b)"

text \<open>
  The sign of a zero decides the sign of an infinite quotient only in a division by zero, which
  Python turns into an exception, so the identification of the two zeros is sound here.
\<close>

fun f_mul :: "pyfloat \<Rightarrow> pyfloat \<Rightarrow> pyfloat" where
  "f_mul (Fin a) (Fin b) = fl (a * b)"
| "f_mul NaN b = NaN"
| "f_mul a NaN = NaN"
| "f_mul PInf PInf = PInf"
| "f_mul NInf NInf = PInf"
| "f_mul PInf NInf = NInf"
| "f_mul NInf PInf = NInf"
| "f_mul PInf (Fin b) = (if b = 0 then NaN else if 0 < b then PInf else NInf)"
| "f_mul NInf (Fin b) = (if b = 0 then NaN else if 0 < b then NInf else PInf)"
| "f_mul (Fin a) PInf = (if a = 0 then NaN else if 0 < a then PInf else NInf)"
| "f_mul (Fin a) NInf = (if a = 0 then NaN else if 0 < a then NInf else PInf)"

fun f_div_raw :: "pyfloat \<Rightarrow> pyfloat \<Rightarrow> pyfloat" where
  "f_div_raw (Fin a) (Fin b) = fl (a / b)"
| "f_div_raw (Fin a) PInf = Fin 0"
| "f_div_raw (Fin a) NInf = Fin 0"
| "f_div_raw PInf (Fin b) = (if 0 \<le> b then PInf else NInf)"
| "f_div_raw NInf (Fin b) = (if 0 \<le> b then NInf else PInf)"
| "f_div_raw a b = NaN"

definition f_div :: "pyfloat \<Rightarrow> pyfloat \<Rightarrow> pyfloat result" where
  "f_div a b = (if b = Fin 0 then Inl ZeroDivisionError else Inr (f_div_raw a b))"

text \<open>\<open>max(a, b)\<close> and \<open>min(a, b)\<close> return the first argument unless the second is beyond it.\<close>

definition f_max :: "pyfloat \<Rightarrow> pyfloat \<Rightarrow> pyfloat" where
  "f_max a b = (if f_lt a b then b else a)"

definition f_min :: "pyfloat \<Rightarrow> pyfloat \<Rightarrow> pyfloat" where
  "f_min a b = (if f_lt b a then b else a)"

text \<open>\<open>float(n)\<close> and \<open>m / n\<close> on integers are correctly rounded and raise on overflow.\<close>

definition float_of_int :: "int \<Rightarrow> pyfloat result" where
  "float_of_int n = (if isfinite (fl (of_int n)) then Inr (fl (of_int n))
     else Inl (OverflowError ''int too large to convert to float''))"

definition int_truediv :: "int \<Rightarrow> int \<Rightarrow> pyfloat result" where
  "int_truediv m n = (if n = 0 then Inl ZeroDivisionError
     else if isfinite (fl (of_int m / of_int n)) then Inr (fl (of_int m / of_int n))
     else Inl (OverflowError ''integer division result too large for a float''))"

definition trunc_rat :: "rat \<Rightarrow> int" where
  "trunc_rat x = (if 0 \<le> x then \<lfloor>x\<rfloor> else \<lceil>x\<rceil>)"

text \<open>\<open>int(x)\<close> truncates towards zero.\<close>

fun int_of_float :: "pyfloat \<Rightarrow> int result" where
  "int_of_float (Fin a) = Inr (trunc_rat a)"
| "int_of_float NaN = Inl (ValueError ''cannot convert float NaN to integer'')"
| "int_of_float a = Inl (OverflowError ''cannot convert float infinity to integer'')"

text \<open>
  \<open>a // b\<close> on finite doubles, step by step as the interpreter computes it: the exact remainder of
  the truncated division, the quotient of the difference, the correction when remainder and
  divisor differ in sign, and the final snap to an integer.
\<close>

definition fmod :: "rat \<Rightarrow> rat \<Rightarrow> rat" where
  "fmod a b = a - b * of_int (trunc_rat (a / b))"

fun snap_floor :: "pyfloat \<Rightarrow> pyfloat" where
  "snap_floor (Fin q) = (if q = 0 then Fin 0
     else let f = Fin (of_int \<lfloor>q\<rfloor>) in
       if f_gt (f_sub (Fin q) f) (Fin (1/2)) then f_add f (Fin 1) else f)"
| "snap_floor x = x"

fun f_floordiv :: "pyfloat \<Rightarrow> pyfloat \<Rightarrow> pyfloat result" where
  "f_floordiv (Fin a) (Fin b) =
     (if b = 0 then Inl ZeroDivisionError
      else let m = fmod a b;
               q = f_div_raw (f_sub (Fin a) (Fin m)) (Fin b);
               q' = (if m \<noteq> 0 \<and> (b < 0) \<noteq> (m < 0) then f_sub q (Fin 1) else q)
           in Inr (snap_floor q'))"
| "f_floordiv (Fin a) PInf = Inr (if a < 0 then Fin (-1) else Fin 0)"
| "f_floordiv (Fin a) NInf = Inr (if 0 < a then Fin (-1) else Fin 0)"
| "f_floordiv a b = (if b = Fin 0 then Inl ZeroDivisionError else Inr NaN)"

text \<open>\<open>round(x, n)\<close>: the exact value rounded in decimal, ties to even, then back to a double.\<close>

fun f_round :: "nat \<Rightarrow> pyfloat \<Rightarrow> pyfloat" where
  "f_round n (Fin a) = fl (of_int (round_half_even (a * 10 ^ n)) / 10 ^ n)"
| "f_round n x = x"

section \<open>Facts about doubles\<close>

text \<open>
  Sorting needs a total order: the IEEE order on the numbers, with NaN last.  On lists without a
  NaN it is the order Python's sort sees.
\<close>

fun f_rank :: "pyfloat \<Rightarrow> nat \<times> rat" where
  "f_rank NInf = (0, 0)"
| "f_rank (Fin a) = (1, a)"
| "f_rank PInf = (2, 0)"
| "f_rank NaN = (3, 0)"

lemma f_rank_inj: "f_rank a = f_rank b \<Longrightarrow> a = b"
  by (cases a; cases b) auto

instantiation pyfloat :: linorder
begin

definition less_eq_pyfloat :: "pyfloat \<Rightarrow> pyfloat \<Rightarrow> bool" where
  "a \<le> b \<longleftrightarrow> f_rank a \<le> f_rank b"

definition less_pyfloat :: "pyfloat \<Rightarrow> pyfloat \<Rightarrow> bool" where
  "a < b \<longleftrightarrow> f_rank a < f_rank b"

instance
  by standard (auto simp: less_eq_pyfloat_def less_pyfloat_def dest: f_rank_inj)

end

lemma f_lt_iff_less: "a \<noteq> NaN \<Longrightarrow> b \<noteq> NaN \<Longrightarrow> f_lt a b \<longleftrightarrow> a < b"
  by (cases a; cases b) (auto simp: less_pyfloat_def less_prod_def)

lemma f_le_iff_le: "a \<noteq> NaN \<Longrightarrow> b \<noteq> NaN \<Longrightarrow> f_le a b \<longleftrightarrow> a \<le> b"
  by (cases a; cases b) (auto simp: f_le_def less_eq_pyfloat_def less_eq_prod_def)

lemma f_eq_iff_eq: "a \<noteq> NaN \<Longrightarrow> f_eq a b \<longleftrightarrow> a = b"
  by (cases a; cases b) auto

lemma f_le_Fin [simp]: "f_le (Fin a) (Fin b) \<longleftrightarrow> a \<le> b"
  by (auto simp: f_le_def)

lemma f_lt_NaN [simp]: "\<not> f_lt NaN b" "\<not> f_lt a NaN"
  by (cases b; simp) (cases a; simp)

lemma f_le_NaN [simp]: "\<not> f_le NaN b" "\<not> f_le a NaN"
  by (simp add: f_le_def) (cases a; simp add: f_le_def)

lemma f_lt_irrefl [simp]: "\<not> f_lt a a"
  by (cases a) simp_all

lemma round53_bounded: "\<bar>x\<bar> \<le> pow2 1023 \<Longrightarrow> \<bar>round53 x\<bar> \<le> pow2 1023"
  using fl53.rnd_le_representable [of "pow2 1023" "\<bar>x\<bar>"] round53_pow2 [of 1023]
  by (simp add: fl53.rnd_abs)

lemma fl_Fin: "\<bar>x\<bar> \<le> pow2 1023 \<Longrightarrow> fl x = Fin (round53 x)"
proof -
  assume "\<bar>x\<bar> \<le> pow2 1023"
  from round53_bounded [OF this] have "\<bar>round53 x\<bar> < pow2 1024"
    by (rule order.strict_trans1) (simp add: pow2_strict_mono del: abs_le_iff)
  then have "\<not> pow2 1024 \<le> round53 x" "\<not> round53 x \<le> - pow2 1024" by linarith+
  then show ?thesis by (simp add: fl_def Let_def)
qed

lemma unit_le_pow2: "\<bar>x\<bar> \<le> 1 \<Longrightarrow> \<bar>x\<bar> \<le> pow2 1023"
  using pow2_mono [of 0 1023] by simp

lemma int_le_pow2: "\<bar>m\<bar> < 2 ^ 53 \<Longrightarrow> \<bar>of_int m\<bar> \<le> pow2 1023"
proof -
  assume "\<bar>m\<bar> < 2 ^ 53"
  then have "(of_int \<bar>m\<bar> :: rat) < of_int (2 ^ 53)" by (simp only: of_int_less_iff)
  then have "\<bar>of_int m\<bar> < pow2 53" by (simp add: pow2_def)
  with pow2_mono [of 53 1023] show ?thesis by simp
qed

lemma fl_of_int: "\<bar>m\<bar> < 2 ^ 53 \<Longrightarrow> fl (of_int m) = Fin (of_int m)"
  by (simp add: fl_Fin int_le_pow2 round53_of_int)

lemma fl_0 [simp]: "fl 0 = Fin 0"
  using fl_of_int [of 0] by simp

lemma fl_1 [simp]: "fl 1 = Fin 1"
  using fl_of_int [of 1] by simp

text \<open>A proportion of a non-empty whole is a double between 0 and 1.\<close>

lemma int_truediv_ratio:
  assumes "0 \<le> k" "k \<le> n" "0 < n"
  shows "int_truediv k n = Inr (Fin (round53 (of_int k / of_int n)))"
    and "0 \<le> round53 (of_int k / of_int n)" and "round53 (of_int k / of_int n) \<le> 1"
proof -
  have u: "0 \<le> (of_int k / of_int n :: rat)" "(of_int k / of_int n :: rat) \<le> 1"
    using assms by (simp_all add: divide_le_eq)
  have "fl (of_int k / of_int n) = Fin (round53 (of_int k / of_int n))"
    by (rule fl_Fin, rule unit_le_pow2) (use u in simp)
  then show "int_truediv k n = Inr (Fin (round53 (of_int k / of_int n)))"
    using assms(3) by (simp add: int_truediv_def)
  show "0 \<le> round53 (of_int k / of_int n)" "round53 (of_int k / of_int n) \<le> 1"
    using fl53.rnd_unit [OF u] by auto
qed

lemma trunc_rat_of_int_div: "0 \<le> a \<Longrightarrow> 0 < b \<Longrightarrow> trunc_rat (of_int a / of_int b) = a div b"
  by (simp add: trunc_rat_def floor_divide_of_int_eq)

text \<open>On non-negative integers below \<open>2^53\<close>, \<open>//\<close> of doubles is the integer division.\<close>

lemma f_floordiv_ints:
  assumes "0 \<le> a" "a < 2 ^ 53" "0 < b"
  shows "f_floordiv (Fin (of_int a)) (Fin (of_int b)) = Inr (Fin (of_int (a div b)))"
proof -
  let ?q = "a div b"
  have m: "fmod (of_int a) (of_int b) = of_int (a mod b)"
    using assms by (simp add: fmod_def trunc_rat_of_int_div minus_div_mult_eq_mod [symmetric] algebra_simps)
  have q0: "0 \<le> ?q" using assms by (simp add: pos_imp_zdiv_nonneg_iff)
  have qb: "b * ?q \<le> a"
    using pos_mod_sign [of b a] assms(3) by (simp add: minus_mod_eq_mult_div [symmetric])
  have "1 * ?q \<le> b * ?q" by (rule mult_right_mono) (use assms(3) q0 in auto)
  then have q: "0 \<le> ?q" "?q \<le> a" "b * ?q \<le> a" "0 \<le> b * ?q"
    using q0 qb by auto
  have s: "f_sub (Fin (of_int a)) (Fin (of_int (a mod b))) = Fin (of_int (b * ?q))"
  proof -
    have "(of_int a + - of_int (a mod b) :: rat) = of_int (b * ?q)"
      by (simp add: minus_mod_eq_mult_div [symmetric])
    then show ?thesis using fl_of_int [of "b * ?q"] q assms by (simp add: f_sub_def)
  qed
  have d: "f_div_raw (Fin (of_int (b * ?q))) (Fin (of_int b)) = Fin (of_int ?q)"
    using assms q fl_of_int [of ?q] by simp
  have sg: "\<not> (a mod b \<noteq> 0 \<and> (b < 0) \<noteq> (a mod b < 0))"
    using assms pos_mod_sign [of b a] by linarith
  have sn: "snap_floor (Fin (of_int ?q)) = Fin (of_int ?q)"
    by (simp add: f_sub_def Let_def)
  have b: "(b = 0) = False" using assms(3) by simp
  show ?thesis
    by (simp only: f_floordiv.simps(1) Let_def m s d sn of_int_eq_0_iff of_int_less_0_iff b sg if_False)
qed

end
