(* ===== verification/PyTime.thy ===== *)
theory PyTime
  imports PyFloat
begin

text \<open>
  The timestamps of \<open>config/time.py\<close> and the part of Python's datetime module the modelled code
  uses.  An instant in UTC is the number of microseconds since 0001-01-01T00:00:00Z; a datetime
  is naive, or aware with its offset; a date is a triple (year, month, day), whose tuple order is
  Python's order of dates.  The calendar is the proleptic Gregorian calendar of datetime.
\<close>

section \<open>Instants\<close>

type_synonym instant = int

definition us_per_second :: int where "us_per_second = 1000000"
definition us_per_day :: int where "us_per_day = 86400000000"

text \<open>\<open>datetime.max\<close> is 9999-12-31T23:59:59.999999; the last ordinal is 3652059.\<close>

definition max_ordinal :: int where "max_ordinal = 3652059"

definition valid_instant :: "instant \<Rightarrow> bool" where
  "valid_instant t \<longleftrightarrow> 0 \<le> t \<and> t < max_ordinal * us_per_day"

datatype pydatetime =
    Naive (local_us: int)
  | Aware (local_us: int) (offset_us: int)

definition ensure_utc :: "pydatetime \<Rightarrow> instant result" where
  "ensure_utc v = (case v of
      Naive _ \<Rightarrow> Inl (ValueError ''v2 timestamps must be timezone-aware UTC values'')
    | Aware l off \<Rightarrow>
        if valid_instant (l - off) then Inr (l - off)
        else Inl (OverflowError ''date value out of range''))"

text \<open>
  Comparing an aware with a naive datetime raises a TypeError, which pydantic does not turn into
  a validation failure; two of a kind compare by the instant or the local time they denote.
\<close>

fun datetime_less :: "pydatetime \<Rightarrow> pydatetime \<Rightarrow> bool result" where
  "datetime_less (Naive a) (Naive b) = Inr (a < b)"
| "datetime_less (Aware a oa) (Aware b ob) = Inr (a - oa < b - ob)"
| "datetime_less a b = Inl (TypeError ''can't compare offset-naive and offset-aware datetimes'')"

definition datetime_le :: "pydatetime \<Rightarrow> pydatetime \<Rightarrow> bool result" where
  "datetime_le a b = bindE (datetime_less b a) (\<lambda>x. Inr (\<not> x))"

text \<open>Datetime arithmetic leaves the representable range with an OverflowError.\<close>

definition add_us :: "instant \<Rightarrow> int \<Rightarrow> instant result" where
  "add_us t d = (if valid_instant (t + d) then Inr (t + d)
     else Inl (OverflowError ''date value out of range''))"

text \<open>\<open>timedelta.total_seconds()\<close> of a number of microseconds: a correctly rounded quotient.\<close>

definition total_seconds :: "int \<Rightarrow> pyfloat" where
  "total_seconds d = fl (of_int d / 10 ^ 6)"

lemma total_seconds_whole:
  assumes "\<bar>k\<bar> < 2 ^ 53"
  shows "total_seconds (k * us_per_second) = Fin (of_int k)"
  using fl_of_int [OF assms] by (simp add: total_seconds_def us_per_second_def)

section \<open>The calendar\<close>

definition is_leap :: "int \<Rightarrow> bool" where
  "is_leap y \<longleftrightarrow> y mod 4 = 0 \<and> (y mod 100 \<noteq> 0 \<or> y mod 400 = 0)"

definition days_before_year :: "int \<Rightarrow> int" where
  "days_before_year y = (let z = y - 1 in z * 365 + z div 4 - z div 100 + z div 400)"

definition month_lengths :: "int list" where
  "month_lengths = [31, 28, 31, 30, 31, 30, 31, 31, 30, 31, 30, 31]"

definition days_in_month :: "int \<Rightarrow> int \<Rightarrow> int" where
  "days_in_month y m = (if m = 2 \<and> is_leap y then 29 else month_lengths ! nat (m - 1))"

definition days_before_month :: "int \<Rightarrow> int \<Rightarrow> int" where
  "days_before_month y m =
     sum_list (take (nat (m - 1)) month_lengths) + (if 2 < m \<and> is_leap y then 1 else 0)"

definition ymd2ord :: "int \<Rightarrow> int \<Rightarrow> int \<Rightarrow> int" where
  "ymd2ord y m d = days_before_year y + days_before_month y m + d"

type_synonym pydate = "int \<times> int \<times> int"

definition valid_date :: "pydate \<Rightarrow> bool" where
  "valid_date dt = (case dt of (y, m, d) \<Rightarrow>
     1 \<le> y \<and> y \<le> 9999 \<and> 1 \<le> m \<and> m \<le> 12 \<and> 1 \<le> d \<and> d \<le> days_in_month y m)"

text \<open>\<open>date(y, m, d)\<close>\<close>

definition make_date :: "int \<Rightarrow> int \<Rightarrow> int \<Rightarrow> pydate result" where
  "make_date y m d =
     (if \<not> (1 \<le> y \<and> y \<le> 9999) then Inl (ValueError ''year is out of range'')
      else if \<not> (1 \<le> m \<and> m \<le> 12) then Inl (ValueError ''month must be in 1..12'')
      else if \<not> (1 \<le> d \<and> d \<le> days_in_month y m) then Inl (ValueError ''day is out of range for month'')
      else Inr (y, m, d))"

definition date_ord :: "pydate \<Rightarrow> int" where
  "date_ord dt = (case dt of (y, m, d) \<Rightarrow> ymd2ord y m d)"

text \<open>The year of an ordinal: the mean year gives it up to one, and the year boundaries decide.\<close>

definition ord_year :: "int \<Rightarrow> int" where
  "ord_year n = (let y = 400 * (n - 1) div 146097 + 1 in
      if n - 1 < days_before_year y then y - 1
      else if days_before_year (y + 1) \<le> n - 1 then y + 1 else y)"

definition ord_month :: "int \<Rightarrow> int \<Rightarrow> int" where
  "ord_month y r = (case find (\<lambda>m. days_before_month y m \<le> r) (map (\<lambda>i. 12 - int i) [0..<12])
     of Some m \<Rightarrow> m | None \<Rightarrow> 1)"

definition ord2ymd :: "int \<Rightarrow> pydate" where
  "ord2ymd n = (let y = ord_year n; r = n - 1 - days_before_year y; m = ord_month y r in
      (y, m, r - days_before_month y m + 1))"

definition date_of :: "instant \<Rightarrow> pydate" where
  "date_of t = ord2ymd (t div us_per_day + 1)"

text \<open>\<open>datetime.combine(d, datetime.min.time(), tzinfo=UTC)\<close>\<close>

definition midnight :: "pydate \<Rightarrow> instant" where
  "midnight dt = (date_ord dt - 1) * us_per_day"

text \<open>\<open>date.isoformat()\<close>, \<open>datetime.isoformat()\<close> of a UTC datetime, and \<open>utc_isoformat\<close>.\<close>

definition date_isoformat :: "pydate \<Rightarrow> string" where
  "date_isoformat dt = (case dt of (y, m, d) \<Rightarrow>
     zero_pad 4 y @ ''-'' @ zero_pad 2 m @ ''-'' @ zero_pad 2 d)"

definition time_isoformat :: "int \<Rightarrow> string" where
  "time_isoformat u = (let s = u div us_per_second; f = u mod us_per_second in
     zero_pad 2 (s div 3600) @ '':'' @ zero_pad 2 (s div 60 mod 60) @ '':'' @ zero_pad 2 (s mod 60)
     @ (if f = 0 then '''' else ''.'' @ zero_pad 6 f))"

definition iso_of_instant :: "instant \<Rightarrow> string" where
  "iso_of_instant t = date_isoformat (date_of t) @ ''T'' @ time_isoformat (t mod us_per_day) @ ''Z''"

definition utc_isoformat :: "pydatetime \<Rightarrow> string result" where
  "utc_isoformat v = bindE (ensure_utc v) (\<lambda>t. Inr (iso_of_instant t))"

lemma ensure_utc_Naive [simp]: "ensure_utc (Naive l) = Inl (ValueError ''v2 timestamps must be timezone-aware UTC values'')"
  by (simp add: ensure_utc_def)

lemma ensure_utc_Aware: "ensure_utc (Aware l off) = Inr t \<longleftrightarrow> t = l - off \<and> valid_instant t"
  by (auto simp: ensure_utc_def)

lemma ensure_utc_valid: "ensure_utc v = Inr t \<Longrightarrow> valid_instant t"
  by (auto simp: ensure_utc_def split: pydatetime.splits if_splits)

section \<open>The calendar is a bijection that respects the order\<close>

lemma div_bounds:
  assumes "0 < (k::int)"
  shows "k * (z div k) \<le> z" "z < k * (z div k) + k"
proof -
  have "z = k * (z div k) + z mod k" by simp
  then show "k * (z div k) \<le> z" "z < k * (z div k) + k"
    using pos_mod_sign [OF assms, of z] pos_mod_bound [OF assms, of z] by linarith+
qed

lemma div_pred:
  assumes "0 < (k::int)"
  shows "y div k = (y - 1) div k + (if y mod k = 0 then 1 else 0)"
proof -
  have y: "y = k * (y div k) + y mod k" by simp
  show ?thesis
  proof (cases "y mod k = 0")
    case True
    have "k * (y div k - 1) = k * (y div k) - k" by (simp add: right_diff_distrib)
    then have e: "y - 1 = k * (y div k - 1) + (k - 1)" using y True by linarith
    have "(y - 1) div k = y div k - 1" by (rule int_div_pos_eq [OF e]) (use assms in auto)
    then show ?thesis using True by simp
  next
    case False
    then have "0 \<le> y mod k - 1" "y mod k - 1 < k"
      using pos_mod_sign [OF assms, of y] pos_mod_bound [OF assms, of y] by linarith+
    moreover have "y - 1 = k * (y div k) + (y mod k - 1)" using y by linarith
    ultimately have "(y - 1) div k = y div k" by (intro int_div_pos_eq) auto
    then show ?thesis using False by simp
  qed
qed

lemma days_before_year_step:
  "days_before_year (y + 1) = days_before_year y + 365 + (if is_leap y then 1 else 0)"
proof -
  have "y mod 400 = 0 \<Longrightarrow> y mod 100 = 0" "y mod 100 = 0 \<Longrightarrow> y mod 4 = 0"
    by (auto simp: mod_eq_0_iff_dvd elim: dvd_trans [rotated])
  moreover have "days_before_year (y + 1) - days_before_year y = 365
      + (if y mod 4 = 0 then 1 else 0) - (if y mod 100 = 0 then 1 else 0) + (if y mod 400 = 0 then 1 else 0)"
    unfolding days_before_year_def Let_def add_diff_cancel
      div_pred [of 4 y, simplified] div_pred [of 100 y, simplified] div_pred [of 400 y, simplified]
    by (simp only: right_diff_distrib left_diff_distrib)
  ultimately show ?thesis unfolding is_leap_def by (simp split: if_splits)
qed

lemma days_before_year_mono: "y \<le> z \<Longrightarrow> days_before_year y \<le> days_before_year z"
proof (induction z rule: int_ge_induct)
  case (step i)
  then show ?case by (simp add: days_before_year_step split: if_splits)
qed simp

lemma days_before_year_bounds:
  "146097 * y - 146897 \<le> 400 * days_before_year y" "400 * days_before_year y \<le> 146097 * y - 145697"
proof -
  define z where "z = y - 1"
  have d: "days_before_year y = z * 365 + z div 4 - z div 100 + z div 400"
    by (simp add: days_before_year_def z_def Let_def)
  define a b c where abc: "a = z div 4" "b = z div 100" "c = z div 400"
  have "4 * a \<le> z" "z < 4 * a + 4" "100 * b \<le> z" "z < 100 * b + 100" "400 * c \<le> z" "z < 400 * c + 400"
    unfolding abc by (intro div_bounds; simp)+
  moreover have "days_before_year y = z * 365 + a - b + c" unfolding d abc ..
  ultimately have "146097 * z - 800 \<le> 400 * days_before_year y" "400 * days_before_year y \<le> 146097 * z + 400"
    by linarith+
  then show "146097 * y - 146897 \<le> 400 * days_before_year y"
    "400 * days_before_year y \<le> 146097 * y - 145697" by (simp_all add: z_def)
qed

lemma ord_year_bounds:
  "days_before_year (ord_year n) \<le> n - 1" "n - 1 < days_before_year (ord_year n + 1)"
proof -
  define e where "e = 400 * (n - 1) div 146097"
  have "146097 * e \<le> 400 * (n - 1)" "400 * (n - 1) < 146097 * e + 146097"
    unfolding e_def by (intro div_bounds; simp)+
  then have e: "146097 * e \<le> 400 * n - 400" "400 * n - 400 < 146097 * e + 146097" by simp_all
  have lo: "days_before_year e \<le> n - 1"
    using days_before_year_bounds(2) [of e] e by linarith
  have hi: "n - 1 < days_before_year (e + 3)"
    using days_before_year_bounds(1) [of "e + 3"] e by (simp add: distrib_left)
  have y: "ord_year n = (if n - 1 < days_before_year (e + 1) then e
      else if days_before_year (e + 2) \<le> n - 1 then e + 2 else e + 1)"
    by (simp only: ord_year_def Let_def flip: e_def) (simp add: algebra_simps)
  show "days_before_year (ord_year n) \<le> n - 1" "n - 1 < days_before_year (ord_year n + 1)"
    using lo hi by (simp_all add: y add.assoc)
qed

lemma year_unique:
  assumes "days_before_year y \<le> k" "k < days_before_year (y + 1)"
    and "days_before_year z \<le> k" "k < days_before_year (z + 1)"
  shows "y = z"
proof (rule ccontr)
  assume "y \<noteq> z"
  then consider "y + 1 \<le> z" | "z + 1 \<le> y" by linarith
  then show False
    using days_before_year_mono [of "y + 1" z] days_before_year_mono [of "z + 1" y] assms
    by cases linarith+
qed

lemma month_cases:
  assumes "1 \<le> m" "m \<le> (12::int)"
  obtains "m = 1" | "m = 2" | "m = 3" | "m = 4" | "m = 5" | "m = 6" | "m = 7" | "m = 8" | "m = 9"
    | "m = 10" | "m = 11" | "m = 12"
proof -
  have "m = 1 \<or> m = 2 \<or> m = 3 \<or> m = 4 \<or> m = 5 \<or> m = 6 \<or> m = 7 \<or> m = 8 \<or> m = 9
    \<or> m = 10 \<or> m = 11 \<or> m = 12" using assms by arith
  then show thesis using that by blast
qed

lemmas month_defs = days_before_month_def days_in_month_def month_lengths_def

lemma days_before_month_step:
  assumes "1 \<le> m" "m \<le> 11"
  shows "days_before_month y (m + 1) = days_before_month y m + days_in_month y m"
proof -
  have "1 \<le> m" "m \<le> 12" using assms by auto
  then show ?thesis using assms(2)
    by (cases rule: month_cases) (simp_all add: month_defs)
qed

lemma days_before_month_12:
  "days_before_month y 12 + days_in_month y 12 = 365 + (if is_leap y then 1 else 0)"
  by (simp add: month_defs)

lemma days_in_month_pos: "1 \<le> m \<Longrightarrow> m \<le> 12 \<Longrightarrow> 28 \<le> days_in_month y m \<and> days_in_month y m \<le> 31"
  by (erule month_cases) (simp_all add: month_defs)

lemma days_before_month_1 [simp]: "days_before_month y 1 = 0"
  by (simp add: month_defs)

lemma days_before_month_mono:
  assumes "1 \<le> m" "m < m'" "m' \<le> 12"
  shows "days_before_month y m + days_in_month y m \<le> days_before_month y m'"
  using assms(2,3)
proof (induction m' rule: int_gr_induct)
  case base
  then show ?case using days_before_month_step [of m y] assms(1) by simp
next
  case (step i)
  then have "days_before_month y m + days_in_month y m \<le> days_before_month y i" by simp
  also have "\<dots> \<le> days_before_month y (i + 1)"
    using days_before_month_step [of i y] days_in_month_pos [of i y] step assms(1) by simp
  finally show ?case .
qed

lemma ord_month_bounds:
  assumes "0 \<le> r" "r < 365 + (if is_leap y then 1 else 0)"
  shows "1 \<le> ord_month y r" "ord_month y r \<le> 12"
    "days_before_month y (ord_month y r) \<le> r"
    "r < days_before_month y (ord_month y r) + days_in_month y (ord_month y r)"
proof -
  let ?P = "\<lambda>m. days_before_month y m \<le> r" and ?ms = "map (\<lambda>i. 12 - int i) [0..<12]"
  have "\<exists>m \<in> set ?ms. ?P m" using assms(1) by (intro bexI [of _ 1]) (auto simp: image_iff intro!: bexI [of _ 11])
  then obtain m where f: "find ?P ?ms = Some m" by (metis find_None_iff option.exhaust)
  then obtain i where i: "i < 12" "?P m" "m = 12 - int i" "\<forall>j<i. \<not> ?P (12 - int j)"
    by (auto simp: find_Some_iff)
  have m: "1 \<le> m" "m \<le> 12" using i by auto
  have "r < days_before_month y m + days_in_month y m"
  proof (cases "m = 12")
    case True
    then show ?thesis using days_before_month_12 [of y] assms(2) by simp
  next
    case False
    then have i0: "0 < i" using i(3) by (cases i) auto
    then have "\<not> ?P (12 - int (i - 1))" using i(4) by (metis diff_less zero_less_one)
    moreover have "12 - int (i - 1) = m + 1" using i(3) i0 by (simp add: of_nat_diff)
    ultimately have "\<not> days_before_month y (m + 1) \<le> r" by metis
    then show ?thesis using days_before_month_step [of m y] m False by simp
  qed
  then show "1 \<le> ord_month y r" "ord_month y r \<le> 12"
    "days_before_month y (ord_month y r) \<le> r"
    "r < days_before_month y (ord_month y r) + days_in_month y (ord_month y r)"
    using m i f by (simp_all add: ord_month_def)
qed

lemma date_in_year:
  assumes "valid_date (y, m, d)"
  shows "0 \<le> days_before_month y m + d - 1"
    "days_before_month y m + d - 1 < 365 + (if is_leap y then 1 else 0)"
proof -
  have md: "1 \<le> m" "m \<le> 12" "1 \<le> d" "d \<le> days_in_month y m" using assms by (auto simp: valid_date_def)
  have a: "0 \<le> days_before_month y m"
    using days_before_month_mono [of 1 m y] days_in_month_pos [of 1 y] md by (cases "m = 1") auto
  have b: "days_before_month y m + days_in_month y m \<le> 365 + (if is_leap y then 1 else 0)"
    using days_before_month_mono [of m 12 y] days_in_month_pos [of 12 y] days_before_month_12 [of y] md
    by (cases "m = 12") auto
  show "0 \<le> days_before_month y m + d - 1" using a md by simp
  show "days_before_month y m + d - 1 < 365 + (if is_leap y then 1 else 0)" using b md by simp
qed

lemma month_unique:
  assumes "1 \<le> m" "m \<le> 12" "days_before_month y m \<le> r" "r < days_before_month y m + days_in_month y m"
    and "1 \<le> k" "k \<le> 12" "days_before_month y k \<le> r" "r < days_before_month y k + days_in_month y k"
  shows "m = k"
proof (rule ccontr)
  assume "m \<noteq> k"
  then consider "m < k" | "k < m" by linarith
  then show False
    using days_before_month_mono [of m k y] days_before_month_mono [of k m y] assms by cases linarith+
qed

theorem ord2ymd_date_ord:
  assumes v: "valid_date (y, m, d)"
  shows "ord2ymd (date_ord (y, m, d)) = (y, m, d)"
proof -
  let ?n = "date_ord (y, m, d)"
  let ?r = "days_before_month y m + d - 1"
  have md: "1 \<le> m" "m \<le> 12" "1 \<le> d" "d \<le> days_in_month y m" using v by (auto simp: valid_date_def)
  have n: "?n - 1 = days_before_year y + ?r" by (simp add: date_ord_def ymd2ord_def)
  note r = date_in_year [OF v]
  have yr: "ord_year ?n = y"
    using ord_year_bounds [of ?n] n r by (intro year_unique) (auto simp: days_before_year_step)
  have mo: "ord_month y ?r = m"
    using ord_month_bounds [OF r] md by (intro month_unique [of _ y ?r]) auto
  have "?n - 1 - days_before_year y = ?r" using n by simp
  then show ?thesis by (simp only: ord2ymd_def Let_def yr mo) simp
qed

lemma ord2ymd_spec:
  assumes "1 \<le> n" "n \<le> max_ordinal"
  shows "valid_date (ord2ymd n)" "date_ord (ord2ymd n) = n"
proof -
  define y where "y = ord_year n"
  define r where "r = n - 1 - days_before_year y"
  define m where "m = ord_month y r"
  have o: "ord2ymd n = (y, m, r - days_before_month y m + 1)"
    by (simp add: ord2ymd_def Let_def y_def r_def m_def)
  have r: "0 \<le> r" "r < 365 + (if is_leap y then 1 else 0)"
    using ord_year_bounds [of n] by (auto simp: y_def r_def days_before_year_step)
  note mb = ord_month_bounds [OF r, folded m_def]
  have y1: "1 \<le> y"
  proof (rule ccontr)
    assume "\<not> 1 \<le> y"
    then have "days_before_year (y + 1) \<le> days_before_year 1" by (intro days_before_year_mono) simp
    then show False using ord_year_bounds(2) [of n] assms(1) by (simp add: y_def days_before_year_def)
  qed
  have y2: "y \<le> 9999"
  proof (rule ccontr)
    assume "\<not> y \<le> 9999"
    then have "days_before_year 10000 \<le> days_before_year y" by (intro days_before_year_mono) simp
    then show False using ord_year_bounds(1) [of n] assms(2)
      by (simp add: y_def days_before_year_def max_ordinal_def)
  qed
  show "valid_date (ord2ymd n)" using mb y1 y2 by (simp add: o valid_date_def)
  show "date_ord (ord2ymd n) = n" by (simp add: o date_ord_def ymd2ord_def r_def)
qed

lemma date_ord_less:
  assumes "valid_date a" "valid_date b" "a < b"
  shows "date_ord a < date_ord b"
proof -
  obtain y m d z k e where ab: "a = (y, m, d)" "b = (z, k, e)" by (metis prod_cases3)
  note va = assms(1) [unfolded ab] and vb = assms(2) [unfolded ab]
  have mds: "1 \<le> m" "m \<le> 12" "d \<le> days_in_month y m" "1 \<le> k" "k \<le> 12" "1 \<le> e"
    using va vb by (auto simp: valid_date_def)
  from assms(3) consider "y < z" | "y = z" "m < k" | "y = z" "m = k" "d < e"
    unfolding ab less_prod_simp by linarith
  then show ?thesis
  proof cases
    case 1
    then have "days_before_year (y + 1) \<le> days_before_year z" by (intro days_before_year_mono) simp
    then show ?thesis using date_in_year [OF va] date_in_year [OF vb]
      by (simp add: ab date_ord_def ymd2ord_def days_before_year_step)
  next
    case 2
    then show ?thesis using days_before_month_mono [of m k y] mds
      by (simp add: ab date_ord_def ymd2ord_def)
  qed (simp add: ab date_ord_def ymd2ord_def)
qed

lemma date_ord_le_iff:
  assumes "valid_date a" "valid_date b"
  shows "date_ord a \<le> date_ord b \<longleftrightarrow> a \<le> b"
  using date_ord_less [OF assms] date_ord_less [OF assms(2,1)]
  by (metis linorder_not_less order_le_less)

lemma date_ord_bounds:
  assumes "valid_date a"
  shows "1 \<le> date_ord a" "date_ord a \<le> max_ordinal"
proof -
  have v: "valid_date (1, 1, 1)" "valid_date (9999, 12, 31)" by (simp_all add: valid_date_def month_defs)
  obtain y m d where a: "a = (y, m, d)" by (metis prod_cases3)
  have "days_in_month y m \<le> 31" using assms days_in_month_pos [of m y] by (simp add: a valid_date_def)
  then have "(1, 1, 1) \<le> a" "a \<le> (9999, 12, 31)"
    using assms by (auto simp: a valid_date_def less_eq_prod_def less_prod_def)
  then have "date_ord (1, 1, 1) \<le> date_ord a" "date_ord a \<le> date_ord (9999, 12, 31)"
    using assms v by (simp_all only: date_ord_le_iff)
  then show "1 \<le> date_ord a" "date_ord a \<le> max_ordinal"
    by (simp_all add: date_ord_def ymd2ord_def days_before_year_def month_defs max_ordinal_def is_leap_def)
qed

lemma midnight_valid: "valid_date a \<Longrightarrow> valid_instant (midnight a)"
  using date_ord_bounds [of a] by (simp add: midnight_def valid_instant_def us_per_day_def)

lemma midnight_le_iff: "valid_date a \<Longrightarrow> valid_date b \<Longrightarrow> midnight a \<le> midnight b \<longleftrightarrow> a \<le> b"
  by (simp add: midnight_def us_per_day_def date_ord_le_iff)

lemma midnight_less_iff: "valid_date a \<Longrightarrow> valid_date b \<Longrightarrow> midnight a < midnight b \<longleftrightarrow> a < b"
  by (meson linorder_not_less midnight_le_iff)

lemma date_of_midnight: "valid_date a \<Longrightarrow> date_of (midnight a) = a"
  by (cases a rule: prod_cases3) (simp add: date_of_def midnight_def us_per_day_def ord2ymd_date_ord)

lemma date_of_valid:
  assumes "valid_instant t"
  shows "valid_date (date_of t)" "midnight (date_of t) \<le> t" "t < midnight (date_of t) + us_per_day"
proof -
  have n: "1 \<le> t div us_per_day + 1" "t div us_per_day + 1 \<le> max_ordinal"
    using assms by (auto simp: valid_instant_def us_per_day_def max_ordinal_def)
  show "valid_date (date_of t)" unfolding date_of_def by (rule ord2ymd_spec(1) [OF n])
  have "midnight (date_of t) = (t div us_per_day) * us_per_day"
    unfolding midnight_def date_of_def ord2ymd_spec(2) [OF n] by simp
  then show "midnight (date_of t) \<le> t" "t < midnight (date_of t) + us_per_day"
    using div_bounds [of us_per_day t] by (simp_all add: us_per_day_def mult.commute)
qed

text \<open>A date comparison against an instant is a comparison with the date's midnight.\<close>

lemma date_of_less_iff:
  assumes "valid_instant t" "valid_date a"
  shows "date_of t < a \<longleftrightarrow> t < midnight a"
proof -
  note d = date_of_valid [OF assms(1)]
  have "midnight b + us_per_day \<le> midnight a" if "valid_date b" "b < a" for b
    using date_ord_less [OF that(1) assms(2) that(2)] by (simp add: midnight_def us_per_day_def)
  then show ?thesis using d midnight_le_iff [OF assms(2) d(1)] by (meson linorder_not_less order.strict_trans1 order.strict_trans2)
qed

end
