(* ===== verification/Hashing.thy ===== *)
theory Hashing
  imports PyTime "HOL-Library.Word"
begin

text \<open>
  \<open>archive/hashing.py\<close>: the canonical JSON text of a value (sorted keys, no blanks, ASCII only, no
  NaN or infinities) and its SHA-256 digest in hexadecimal, which names every record of the
  platform, and the digest of a manifest, which does not depend on the order of its rows.
  Text is modelled on the characters U+0000 to U+00FF.  SHA-256 and the shortest float
  representation belong to Python's standard library and are written out here.
\<close>

unbundle bit_operations_syntax

section \<open>JSON values and their canonical text\<close>

datatype json =
    JNull
  | JBool bool
  | JInt int
  | JFloat pyfloat
  | JStr string
  | JList "json list"
  | JObj "(string \<times> json) list"

text \<open>A value inside a list or an object is smaller than it.\<close>

lemma size_zip_member: "(i, x) \<in> set (zip is xs) \<Longrightarrow> size x \<le> size_list size xs"
  by (induction "is" xs rule: list_induct2') auto

lemma size_pair_member: "(k, x) \<in> set kvs \<Longrightarrow> size x \<le> size_list (size_prod (\<lambda>x. 0) size) kvs"
  by (induction kvs) auto

definition hex_digit :: "nat \<Rightarrow> char" where
  "hex_digit d = (if d < 10 then char_of (48 + d) else char_of (87 + d))"

definition json_escape_char :: "char \<Rightarrow> string" where
  "json_escape_char c = (let n = of_char c :: nat in
     if n = 34 then [char_of (92::nat), char_of (34::nat)]
     else if n = 92 then [char_of (92::nat), char_of (92::nat)]
     else if n = 10 then char_of (92::nat) # ''n''
     else if n = 13 then char_of (92::nat) # ''r''
     else if n = 9 then char_of (92::nat) # ''t''
     else if n = 12 then char_of (92::nat) # ''f''
     else if n = 8 then char_of (92::nat) # ''b''
     else if 32 \<le> n \<and> n \<le> 126 then [c]
     else char_of (92::nat) # ''u00'' @ [hex_digit (n div 16), hex_digit (n mod 16)])"

definition json_string :: "string \<Rightarrow> string" where
  "json_string s = [char_of (34::nat)] @ concat (map json_escape_char s) @ [char_of (34::nat)]"

text \<open>
  \<open>repr(x)\<close>: the fewest significant digits that read back as \<open>x\<close>, the nearest such decimal.
  \<open>dec_candidates x p\<close> are the two multiples of \<open>10^-p\<close> around \<open>x\<close>, the nearer first.
\<close>

definition pow10 :: "int \<Rightarrow> rat" where
  "pow10 e = (if 0 \<le> e then 10 ^ nat e else 1 / 10 ^ nat (- e))"

definition dec_candidates :: "rat \<Rightarrow> int \<Rightarrow> int list" where
  "dec_candidates x p = (let s = x * pow10 p; lo = \<lfloor>s\<rfloor> in
     if round_half_even s = lo then [lo, lo + 1] else [lo + 1, lo])"

text \<open>The decimal exponent: \<open>10^e \<le> x < 10^(e+1)\<close>, from the binary one with a correction.\<close>

definition ilog10 :: "rat \<Rightarrow> int" where
  "ilog10 x = (let e = ilog2 x * 30103 div 100000 in
     if x < pow10 e then e - 1 else if pow10 (e + 1) \<le> x then e + 1 else e)"

definition shortest_decimal :: "rat \<Rightarrow> int \<times> int" where
  "shortest_decimal x =
     (let e = ilog10 x;
          tries = concat (map (\<lambda>n. map (\<lambda>m. (m, int n - e)) (dec_candidates x (int n - e))) [0..<17])
      in case find (\<lambda>(m, p). fl (of_int m * pow10 (- p)) = Fin x) tries of
           Some mp \<Rightarrow> mp | None \<Rightarrow> (0, 0))"

fun strip_zeros :: "string \<Rightarrow> string" where
  "strip_zeros s = rev (dropWhile (\<lambda>c. c = CHR ''0'') (rev s))"

definition digits_repr :: "int \<Rightarrow> int \<Rightarrow> string" where
  "digits_repr m p =
     (let ds = strip_zeros (string_of_int m);
          pt = int (length (string_of_int m)) - p in
      if -4 < pt \<and> pt \<le> 16 then
        (if pt \<le> 0 then ''0.'' @ replicate (nat (- pt)) CHR ''0'' @ ds
         else if int (length ds) \<le> pt then ds @ replicate (nat pt - length ds) CHR ''0'' @ ''.0''
         else take (nat pt) ds @ ''.'' @ drop (nat pt) ds)
      else
        (let ex = pt - 1 in
         take 1 ds @ (if length ds = 1 then '''' else ''.'' @ drop 1 ds)
         @ ''e'' @ (if ex < 0 then ''-'' else ''+'') @ zero_pad 2 \<bar>ex\<bar>))"

fun float_repr :: "pyfloat \<Rightarrow> string" where
  "float_repr (Fin x) = (if x = 0 then ''0.0''
     else if x < 0 then (case shortest_decimal (- x) of (m, p) \<Rightarrow> ''-'' @ digits_repr m p)
     else (case shortest_decimal x of (m, p) \<Rightarrow> digits_repr m p))"
| "float_repr PInf = ''inf''"
| "float_repr NInf = ''-inf''"
| "float_repr NaN = ''nan''"

lemma mapE_cong [fundef_cong]:
  "xs = ys \<Longrightarrow> (\<And>x. x \<in> set ys \<Longrightarrow> f x = g x) \<Longrightarrow> mapE f xs = mapE g ys"
  by (induction ys arbitrary: xs) auto

text \<open>\<open>json.dumps(value, sort_keys=True, separators=(",", ":"), ensure_ascii=True, allow_nan=False)\<close>\<close>

fun json_dumps :: "json \<Rightarrow> string result" where
  "json_dumps JNull = Inr ''null''"
| "json_dumps (JBool b) = Inr (if b then ''true'' else ''false'')"
| "json_dumps (JInt i) = Inr (string_of_int i)"
| "json_dumps (JFloat x) = (if isfinite x then Inr (float_repr x)
     else Inl (ValueError ''Out of range float values are not JSON compliant''))"
| "json_dumps (JStr s) = Inr (json_string s)"
| "json_dumps (JList xs) =
     bindE (mapE json_dumps xs) (\<lambda>ts. Inr (''['' @ join '','' ts @ '']''))"
| "json_dumps (JObj kvs) =
     bindE (mapE (\<lambda>kv. bindE (json_dumps (snd kv)) (\<lambda>t. Inr (json_string (fst kv) @ '':'' @ t)))
             (sorted_by fst kvs))
       (\<lambda>ts. Inr (''{'' @ join '','' ts @ ''}''))"

definition canonical_json_bytes :: "json \<Rightarrow> string result" where
  "canonical_json_bytes v = json_dumps v"

text \<open>\<open>None\<close> or a text.\<close>

definition opt_json :: "string option \<Rightarrow> json" where
  "opt_json w = (case w of None \<Rightarrow> JNull | Some s \<Rightarrow> JStr s)"

section \<open>SHA-256\<close>

text \<open>
  The constants are the first 32 bits of the fractional parts of the cube roots of the first 64
  primes and, for the initial state, of the square roots of the first eight.
\<close>

definition first_primes :: "nat list" where
  "first_primes = filter (\<lambda>n. list_all (\<lambda>d. n mod d \<noteq> 0) [2..<n]) [2..<312]"

definition floor_root :: "nat \<Rightarrow> nat \<Rightarrow> nat" where
  "floor_root k n = fold (\<lambda>i r. if (r + 2 ^ i) ^ k \<le> n then r + 2 ^ i else r) (rev [0..<40]) 0"

definition root_bits :: "nat \<Rightarrow> nat \<Rightarrow> 32 word" where
  "root_bits k p = of_nat (floor_root k (p * 2 ^ (32 * k)))"

definition sha_k :: "32 word list" where
  "sha_k = map (root_bits 3) first_primes"

type_synonym sha_state =
  "32 word \<times> 32 word \<times> 32 word \<times> 32 word \<times> 32 word \<times> 32 word \<times> 32 word \<times> 32 word"

definition sha_init :: sha_state where
  "sha_init = (root_bits 2 2, root_bits 2 3, root_bits 2 5, root_bits 2 7, root_bits 2 11, root_bits 2 13,
     root_bits 2 17, root_bits 2 19)"

definition rotr32 :: "nat \<Rightarrow> 32 word \<Rightarrow> 32 word" where
  "rotr32 n x = (drop_bit n x OR push_bit (32 - n) x)"

text \<open>The message schedule grows from 16 words to 64.\<close>

definition sha_next_w :: "32 word list \<Rightarrow> 32 word" where
  "sha_next_w w = (let n = length w; a = w ! (n - 15); b = w ! (n - 2);
      s0 = rotr32 7 a XOR rotr32 18 a XOR drop_bit 3 a;
      s1 = rotr32 17 b XOR rotr32 19 b XOR drop_bit 10 b in
      w ! (n - 16) + s0 + w ! (n - 7) + s1)"

definition sha_schedule :: "32 word list \<Rightarrow> 32 word list" where
  "sha_schedule w = ((\<lambda>w. w @ [sha_next_w w]) ^^ 48) w"

definition sha_round :: "32 word \<times> 32 word \<Rightarrow> sha_state \<Rightarrow> sha_state" where
  "sha_round kw s = (case kw of (k, w) \<Rightarrow> case s of (a, b, c, d, e, f, g, h) \<Rightarrow>
      let s1 = rotr32 6 e XOR rotr32 11 e XOR rotr32 25 e;
          ch = (e AND f) XOR (NOT e AND g);
          t1 = h + s1 + ch + k + w;
          s0 = rotr32 2 a XOR rotr32 13 a XOR rotr32 22 a;
          mj = (a AND b) XOR (a AND c) XOR (b AND c);
          t2 = s0 + mj
      in (t1 + t2, a, b, c, d + t1, e, f, g))"

fun sha_add :: "sha_state \<Rightarrow> sha_state \<Rightarrow> sha_state" where
  "sha_add (a, b, c, d, e, f, g, h) (a', b', c', d', e', f', g', h') =
     (a + a', b + b', c + c', d + d', e + e', f + f', g + g', h + h')"

definition sha_block :: "32 word list \<Rightarrow> sha_state \<Rightarrow> sha_state" where
  "sha_block w s = sha_add s (fold sha_round (zip sha_k (sha_schedule w)) s)"

text \<open>Padding: a one bit, zeros to 56 modulo 64 bytes, the bit length in eight bytes.\<close>

definition be_bytes :: "nat \<Rightarrow> nat \<Rightarrow> nat list" where
  "be_bytes n x = map (\<lambda>i. x div 256 ^ (n - 1 - i) mod 256) [0..<n]"

definition sha_pad :: "nat list \<Rightarrow> nat list" where
  "sha_pad bs = (let l = length bs; z = (119 - l mod 64) mod 64 in
     bs @ [128] @ replicate z 0 @ be_bytes 8 (8 * l))"

fun be_words :: "nat list \<Rightarrow> 32 word list" where
  "be_words (a # b # c # d # xs) =
     of_nat (((a * 256 + b) * 256 + c) * 256 + d) # be_words xs"
| "be_words xs = []"

fun sha_blocks :: "32 word list \<Rightarrow> sha_state \<Rightarrow> sha_state" where
  "sha_blocks ws s = (if length ws < 16 then s else sha_blocks (drop 16 ws) (sha_block (take 16 ws) s))"

declare sha_blocks.simps [simp del]

definition hex_word :: "32 word \<Rightarrow> string" where
  "hex_word w = map (\<lambda>i. hex_digit (unat w div 16 ^ (7 - i) mod 16)) [0..<8]"

definition sha256_hexdigest :: "string \<Rightarrow> string" where
  "sha256_hexdigest bytes =
     (case sha_blocks (be_words (sha_pad (map of_char bytes))) sha_init of
        (a, b, c, d, e, f, g, h) \<Rightarrow> concat (map hex_word [a, b, c, d, e, f, g, h]))"

section \<open>Digests of values and of manifests\<close>

definition canonical_json_hash :: "json \<Rightarrow> string result" where
  "canonical_json_hash v = bindE (canonical_json_bytes v) (\<lambda>b. Inr (sha256_hexdigest b))"

text \<open>Feeding the chunks to one digest object is hashing their concatenation.\<close>

definition file_sha256 :: "string list \<Rightarrow> string" where
  "file_sha256 chunks = sha256_hexdigest (concat chunks)"

definition manifest_rows_hash :: "(string \<times> json) list list \<Rightarrow> string result" where
  "manifest_rows_hash rows =
     bindE (mapE (\<lambda>r. canonical_json_bytes (JObj r)) rows)
       (\<lambda>bs. Inr (sha256_hexdigest (concat (map (\<lambda>b. b @ [char_of (10::nat)]) (sorted_by id bs)))))"

lemma length_sha256 [simp]: "length (sha256_hexdigest b) = 64"
  by (simp add: sha256_hexdigest_def hex_word_def split: prod.splits)

lemma canonical_json_hash_length: "canonical_json_hash v = Inr h \<Longrightarrow> length h = 64"
  by (auto simp: canonical_json_hash_def bindE_Inr_iff)

subsection \<open>What can go wrong\<close>

text \<open>The only value without a digest is one that holds a NaN or an infinity somewhere.\<close>

fun all_finite :: "json \<Rightarrow> bool" where
  "all_finite (JFloat x) = isfinite x"
| "all_finite (JList xs) = list_all all_finite xs"
| "all_finite (JObj kvs) = list_all (\<lambda>kv. all_finite (snd kv)) kvs"
| "all_finite v = True"

abbreviation json_nan_error :: py_error where
  "json_nan_error \<equiv> ValueError ''Out of range float values are not JSON compliant''"

lemma mapE_cases:
  assumes "\<And>x. x \<in> set xs \<Longrightarrow> f x = (if P x then Inr (g x) else Inl e)"
  shows "mapE f xs = (if list_all P xs then Inr (map g xs) else Inl e)"
  using assms by (induction xs) auto

definition dumps_text :: "json \<Rightarrow> string" where
  "dumps_text v = (case json_dumps v of Inr t \<Rightarrow> t | Inl _ \<Rightarrow> [])"

lemma json_dumps_cases:
  "json_dumps v = (if all_finite v then Inr (dumps_text v) else Inl json_nan_error)"
proof (induction v)
  case (JList xs)
  have m: "mapE json_dumps xs = (if list_all all_finite xs then Inr (map dumps_text xs) else Inl json_nan_error)"
    by (rule mapE_cases) (rule JList.IH)
  show ?case by (auto simp: m dumps_text_def)
next
  case (JObj kvs)
  let ?f = "\<lambda>kv. bindE (json_dumps (snd kv)) (\<lambda>t. Inr (json_string (fst kv) @ '':'' @ t))"
  have "mapE ?f (sorted_by fst kvs) = (if list_all (\<lambda>kv. all_finite (snd kv)) (sorted_by fst kvs)
      then Inr (map (\<lambda>kv. json_string (fst kv) @ '':'' @ dumps_text (snd kv)) (sorted_by fst kvs))
      else Inl json_nan_error)"
  proof (rule mapE_cases)
    fix kv assume "kv \<in> set (sorted_by fst kvs)"
    then have "json_dumps (snd kv) = (if all_finite (snd kv) then Inr (dumps_text (snd kv)) else Inl json_nan_error)"
      using JObj.IH [of kv "snd kv"] by (simp add: snds.simps)
    then show "?f kv = (if all_finite (snd kv) then Inr (json_string (fst kv) @ '':'' @ dumps_text (snd kv)) else Inl json_nan_error)"
      by auto
  qed
  moreover have "list_all (\<lambda>kv. all_finite (snd kv)) (sorted_by fst kvs) = list_all (\<lambda>kv. all_finite (snd kv)) kvs"
    by (simp add: list_all_iff)
  ultimately show ?case by (simp add: dumps_text_def)
qed (simp_all add: dumps_text_def)

lemma canonical_json_hash_finite:
  "all_finite v \<Longrightarrow> \<exists>h. canonical_json_hash v = Inr h \<and> length h = 64"
  by (auto simp: canonical_json_hash_def canonical_json_bytes_def json_dumps_cases)

lemma canonical_json_hash_Inl: "canonical_json_hash v = Inl e \<longleftrightarrow> \<not> all_finite v \<and> e = json_nan_error"
  by (auto simp: canonical_json_hash_def canonical_json_bytes_def json_dumps_cases)

lemma mapE_map: "list_all P xs \<Longrightarrow> (\<And>x. P x \<Longrightarrow> f x = Inr (g x)) \<Longrightarrow> mapE f xs = Inr (map g xs)"
  by (induction xs) auto

lemma manifest_rows_hash_finite:
  assumes "\<forall>r \<in> set rows. all_finite (JObj r)"
  shows "\<exists>h. manifest_rows_hash rows = Inr h \<and> length h = 64"
proof -
  have "mapE (\<lambda>r. canonical_json_bytes (JObj r)) rows = Inr (map (\<lambda>r. dumps_text (JObj r)) rows)"
    by (rule mapE_all) (use assms in \<open>simp only: canonical_json_bytes_def json_dumps_cases if_True\<close>, simp)
  then show ?thesis by (simp add: manifest_rows_hash_def)
qed

text \<open>The digest of a manifest does not depend on the order in which its rows are listed.\<close>

theorem manifest_rows_hash_order:
  assumes "mset rows = mset rows'"
  shows "manifest_rows_hash rows = manifest_rows_hash rows'"
proof -
  have s: "set rows = set rows'" using assms by (rule mset_eq_setD)
  have m: "mapE (\<lambda>r. canonical_json_bytes (JObj r)) rs = (if list_all (\<lambda>r. all_finite (JObj r)) rs
      then Inr (map (\<lambda>r. dumps_text (JObj r)) rs) else Inl json_nan_error)" for rs
    by (rule mapE_cases) (simp only: canonical_json_bytes_def json_dumps_cases)
  have "sorted_by id (map (\<lambda>r. dumps_text (JObj r)) rows) = sorted_by id (map (\<lambda>r. dumps_text (JObj r)) rows')"
    by (rule sorted_by_mset_eq) (simp_all add: assms)
  then show ?thesis by (simp only: manifest_rows_hash_def m list_all_iff s) simp
qed

lemma manifest_rows_hash_order_witness:
  "manifest_rows_hash [[(''a'', JInt 1)], [(''b'', JNull)]] = manifest_rows_hash [[(''b'', JNull)], [(''a'', JInt 1)]]"
  by (rule manifest_rows_hash_order) simp

text \<open>The digest of a dictionary does not depend on the order in which its keys were inserted.\<close>

theorem canonical_hash_key_order:
  assumes "mset kvs = mset kvs'" and "distinct (map fst kvs)"
  shows "canonical_json_hash (JObj kvs) = canonical_json_hash (JObj kvs')"
proof -
  have "sorted_by fst kvs = sorted_by fst kvs'"
    by (rule sorted_by_mset_eq [OF assms(1)]) (use assms(2) in \<open>simp add: distinct_map\<close>)
  then show ?thesis by (simp add: canonical_json_hash_def canonical_json_bytes_def)
qed

lemma canonical_hash_key_order_witness:
  "canonical_json_hash (JObj [(''a'', JInt 1), (''b'', JNull)]) = canonical_json_hash (JObj [(''b'', JNull), (''a'', JInt 1)])"
  by (rule canonical_hash_key_order) simp_all

end
