(* ===== verification/Boundary.thy ===== *)
theory Boundary
  imports Hashing
begin

text \<open>
  The research boundary: the ten flags of \<open>config/schemas.py\<close> that every artifact of the platform
  carries, the central policy of \<open>security/boundary.py\<close> that reads them off a mapping or an object,
  and the check that the record validators repeat.  Also the dynamically typed values that rows
  and payloads hold.
\<close>

section \<open>Dynamically typed values\<close>

datatype pyval =
    VNone
  | VBool bool
  | VInt int
  | VFloat pyfloat
  | VStr string
  | VTime pydatetime

text \<open>\<open>bool(value)\<close>\<close>

fun truthy :: "pyval \<Rightarrow> bool" where
  "truthy VNone = False"
| "truthy (VBool b) = b"
| "truthy (VInt i) = (i \<noteq> 0)"
| "truthy (VFloat x) = (x \<noteq> Fin 0)"
| "truthy (VStr s) = (s \<noteq> [])"
| "truthy (VTime t) = True"

text \<open>A row or payload: its keys with their values, as a dict or an object's attributes.\<close>

type_synonym pyrow = "(string \<times> pyval) list"

section \<open>The central policy\<close>

definition V2_SCHEMA_VERSION :: string where
  "V2_SCHEMA_VERSION = ''redx-v2-phase1-shell-v1''"

definition RESEARCH_BOUNDARY :: "(string \<times> bool) list" where
  "RESEARCH_BOUNDARY = [
     (''research_only'', True), (''observe_only'', True), (''promotion_ready'', False),
     (''candidate_evidence'', False), (''candidate_pack_eligible'', False), (''live_signal'', False),
     (''paper_signal'', False), (''sizing_instruction'', False),
     (''order_placement_instruction'', False), (''runtime_mode_change'', False)]"

definition BOUNDARY_FALSE_FIELDS :: "string list" where
  "BOUNDARY_FALSE_FIELDS = map fst (filter (\<lambda>(f, expected). \<not> expected) RESEARCH_BOUNDARY)"

definition research_boundary_defaults :: pyrow where
  "research_boundary_defaults = map (\<lambda>(f, b). (f, VBool b)) RESEARCH_BOUNDARY"

definition read_field :: "pyrow \<Rightarrow> string \<Rightarrow> pyval option" where
  "read_field payload field = map_of payload field"

definition field_reasons :: "pyrow \<Rightarrow> bool \<Rightarrow> string \<times> bool \<Rightarrow> string list" where
  "field_reasons payload require_all_fields fe = (case fe of (field, expected) \<Rightarrow>
     (case read_field payload field of
        None \<Rightarrow> if require_all_fields then [field @ ''_missing''] else []
      | Some observed \<Rightarrow>
          if truthy observed \<noteq> expected
          then [field @ ''_must_be_'' @ (if expected then ''true'' else ''false'')] else []))"

definition boundary_violation_reasons :: "pyrow \<Rightarrow> bool \<Rightarrow> string list" where
  "boundary_violation_reasons payload require_all_fields =
     concat (map (field_reasons payload require_all_fields) RESEARCH_BOUNDARY)"

definition require_research_boundary :: "pyrow \<Rightarrow> string \<Rightarrow> bool \<Rightarrow> unit result" where
  "require_research_boundary payload context_name require_all_fields =
     (let reasons = boundary_violation_reasons payload require_all_fields in
      if reasons \<noteq> [] then Inl (ResearchBoundaryError
        (context_name @ '' violates v2 research boundary: '' @ join '','' reasons))
      else Inr ())"

definition boundary_subset_payload :: "pyrow \<Rightarrow> (string \<times> bool option) list" where
  "boundary_subset_payload payload =
     map (\<lambda>(f, _). (f, map_option truthy (read_field payload f))) RESEARCH_BOUNDARY"

section \<open>The flags as record fields\<close>

record flags =
  research_only :: bool
  observe_only :: bool
  promotion_ready :: bool
  candidate_evidence :: bool
  candidate_pack_eligible :: bool
  live_signal :: bool
  paper_signal :: bool
  sizing_instruction :: bool
  order_placement_instruction :: bool
  runtime_mode_change :: bool

definition default_flags :: flags where
  "default_flags = \<lparr>research_only = True, observe_only = True, promotion_ready = False,
     candidate_evidence = False, candidate_pack_eligible = False, live_signal = False,
     paper_signal = False, sizing_instruction = False, order_placement_instruction = False,
     runtime_mode_change = False\<rparr>"

text \<open>The conjunction that the record validators evaluate, in full and in the three-flag form.\<close>

definition boundary_ok :: "flags \<Rightarrow> bool" where
  "boundary_ok f \<longleftrightarrow> research_only f \<and> observe_only f \<and> \<not> promotion_ready f \<and> \<not> candidate_evidence f
     \<and> \<not> candidate_pack_eligible f \<and> \<not> live_signal f \<and> \<not> paper_signal f \<and> \<not> sizing_instruction f
     \<and> \<not> order_placement_instruction f \<and> \<not> runtime_mode_change f"

definition basic_boundary_ok :: "flags \<Rightarrow> bool" where
  "basic_boundary_ok f \<longleftrightarrow> research_only f \<and> observe_only f \<and> \<not> promotion_ready f"

definition flags_payload :: "flags \<Rightarrow> pyrow" where
  "flags_payload f = [
     (''research_only'', VBool (research_only f)), (''observe_only'', VBool (observe_only f)),
     (''promotion_ready'', VBool (promotion_ready f)),
     (''candidate_evidence'', VBool (candidate_evidence f)),
     (''candidate_pack_eligible'', VBool (candidate_pack_eligible f)),
     (''live_signal'', VBool (live_signal f)), (''paper_signal'', VBool (paper_signal f)),
     (''sizing_instruction'', VBool (sizing_instruction f)),
     (''order_placement_instruction'', VBool (order_placement_instruction f)),
     (''runtime_mode_change'', VBool (runtime_mode_change f))]"

lemma boundary_ok_default [simp]: "boundary_ok default_flags" "basic_boundary_ok default_flags"
  by (simp_all add: boundary_ok_def basic_boundary_ok_def default_flags_def)

lemma boundary_ok_iff_default: "boundary_ok f \<longleftrightarrow> f = default_flags"
  by (cases f) (auto simp: boundary_ok_def default_flags_def)

text \<open>The check of a record's own flags among the checks of its model validator.\<close>

definition boundary_entry :: "string \<Rightarrow> flags \<Rightarrow> bool \<times> string" where
  "boundary_entry context_name f = (let reasons = boundary_violation_reasons (flags_payload f) True in
     (reasons \<noteq> [], context_name @ '' violates v2 research boundary: '' @ join '','' reasons))"

section \<open>The policy is exactly the ten expectations\<close>

lemma field_reasons_Nil_iff:
  "field_reasons payload req (f, e) = [] \<longleftrightarrow>
     (case map_of payload f of None \<Rightarrow> \<not> req | Some v \<Rightarrow> truthy v = e)"
  by (simp add: field_reasons_def read_field_def split: option.splits)

lemma boundary_reasons_Nil_iff:
  "boundary_violation_reasons payload req = [] \<longleftrightarrow>
     (\<forall>(f, e) \<in> set RESEARCH_BOUNDARY. case map_of payload f of None \<Rightarrow> \<not> req | Some v \<Rightarrow> truthy v = e)"
  by (auto simp: boundary_violation_reasons_def field_reasons_Nil_iff)

lemma require_boundary_Inr_iff:
  "require_research_boundary payload c req = Inr () \<longleftrightarrow> boundary_violation_reasons payload req = []"
  by (simp add: require_research_boundary_def Let_def)

text \<open>
  The central policy accepts an artifact, all fields required, exactly when each of the ten
  boundary fields is present with the canonical truth value; in every other case it raises a
  ResearchBoundaryError.
\<close>

theorem require_boundary_sound:
  "(if list_all (\<lambda>(f, e). map_option truthy (map_of payload f) = Some e) RESEARCH_BOUNDARY
    then require_research_boundary payload c True = Inr ()
    else \<exists>m. require_research_boundary payload c True = Inl (ResearchBoundaryError m))"
proof -
  have "(case map_of payload f of None \<Rightarrow> \<not> True | Some v \<Rightarrow> truthy v = e)
      \<longleftrightarrow> map_option truthy (map_of payload f) = Some e" for f e
    by (simp split: option.splits)
  then have "list_all (\<lambda>(f, e). map_option truthy (map_of payload f) = Some e) RESEARCH_BOUNDARY
      \<longleftrightarrow> boundary_violation_reasons payload True = []"
    unfolding boundary_reasons_Nil_iff list_all_iff by simp
  then show ?thesis by (auto simp: require_research_boundary_def Let_def)
qed

text \<open>
  The conjunction that the record validators repeat agrees with the central policy on the
  record's own flags, and only one assignment of the ten flags passes.
\<close>

theorem boundary_ok_is_policy:
  "(boundary_ok f \<longleftrightarrow> require_research_boundary (flags_payload f) c True = Inr ())
   \<and> (boundary_ok f \<longleftrightarrow> f = default_flags)"
proof -
  have "boundary_ok f \<longleftrightarrow> boundary_violation_reasons (flags_payload f) True = []"
    unfolding boundary_reasons_Nil_iff
    by (auto simp: RESEARCH_BOUNDARY_def flags_payload_def boundary_ok_def)
  then show ?thesis by (simp add: require_boundary_Inr_iff boundary_ok_iff_default)
qed

lemma boundary_entry_default [simp]: "fst (boundary_entry c default_flags) = False"
  by (simp add: boundary_entry_def Let_def boundary_reasons_Nil_iff RESEARCH_BOUNDARY_def flags_payload_def default_flags_def)

lemma fst_boundary_entry: "fst (boundary_entry c f) \<longleftrightarrow> f \<noteq> default_flags"
  using boundary_ok_is_policy [of f c] by (auto simp: boundary_entry_def Let_def require_boundary_Inr_iff)

lemma boundary_false_fields:
  "BOUNDARY_FALSE_FIELDS = map fst (drop 2 RESEARCH_BOUNDARY)"
  by (simp add: BOUNDARY_FALSE_FIELDS_def RESEARCH_BOUNDARY_def)

end
