(* ===== verification/WorkerModels.thy ===== *)
theory WorkerModels
  imports Boundary
begin

text \<open>
  \<open>workers/models.py\<close>: the durable job record with its statuses and kinds, and the heartbeat,
  transition and gap records, each with the constraints its construction enforces.  Timestamps
  written by the store itself are instants; those supplied by a caller are datetimes.
\<close>

section \<open>Statuses and kinds\<close>

datatype status = QUEUED | CLAIMED | RUNNING | SUCCEEDED | FAILED | RETRYING | CANCELLED | STALE

fun status_value :: "status \<Rightarrow> string" where
  "status_value QUEUED = ''queued''"
| "status_value CLAIMED = ''claimed''"
| "status_value RUNNING = ''running''"
| "status_value SUCCEEDED = ''succeeded''"
| "status_value FAILED = ''failed''"
| "status_value RETRYING = ''retrying''"
| "status_value CANCELLED = ''cancelled''"
| "status_value STALE = ''stale''"

definition all_statuses :: "status list" where
  "all_statuses = [QUEUED, CLAIMED, RUNNING, SUCCEEDED, FAILED, RETRYING, CANCELLED, STALE]"

datatype kind =
    UNIVERSE_REFRESH | RECENT_CANDLE_BOOTSTRAP | FUNDING_BACKFILL | WEBSOCKET_CAPTURE
  | WEBSOCKET_TRADE_CAPTURE | WEBSOCKET_L2_BBO_CAPTURE | OFFICIAL_S3_BACKFILL
  | BINANCE_DERIVATIVES_CONTEXT_BACKFILL | COVERAGE_AUDIT | STRATEGY_QUEUE_SCAN
  | BACKTEST_DATA_LOAD | BACKTEST | VECTORIZED_BACKTEST | EVENT_DRIVEN_SIMULATION
  | VALIDATION_GATE | LEDGER_APPEND_EXPORT | LEAD_BOOK_SCAN | LEAD_BOOK_UPSERT | AUDIT_CHECK

fun kind_value :: "kind \<Rightarrow> string" where
  "kind_value UNIVERSE_REFRESH = ''universe_refresh''"
| "kind_value RECENT_CANDLE_BOOTSTRAP = ''recent_candle_bootstrap''"
| "kind_value FUNDING_BACKFILL = ''funding_backfill''"
| "kind_value WEBSOCKET_CAPTURE = ''websocket_capture''"
| "kind_value WEBSOCKET_TRADE_CAPTURE = ''websocket_trade_capture''"
| "kind_value WEBSOCKET_L2_BBO_CAPTURE = ''websocket_l2_bbo_capture''"
| "kind_value OFFICIAL_S3_BACKFILL = ''official_s3_backfill''"
| "kind_value BINANCE_DERIVATIVES_CONTEXT_BACKFILL = ''binance_derivatives_context_backfill''"
| "kind_value COVERAGE_AUDIT = ''coverage_audit''"
| "kind_value STRATEGY_QUEUE_SCAN = ''strategy_queue_scan''"
| "kind_value BACKTEST_DATA_LOAD = ''backtest_data_load''"
| "kind_value BACKTEST = ''backtest''"
| "kind_value VECTORIZED_BACKTEST = ''vectorized_backtest''"
| "kind_value EVENT_DRIVEN_SIMULATION = ''event_driven_simulation''"
| "kind_value VALIDATION_GATE = ''validation_gate''"
| "kind_value LEDGER_APPEND_EXPORT = ''ledger_append_export''"
| "kind_value LEAD_BOOK_SCAN = ''lead_book_scan''"
| "kind_value LEAD_BOOK_UPSERT = ''lead_book_upsert''"
| "kind_value AUDIT_CHECK = ''audit_check''"

definition all_kinds :: "kind list" where
  "all_kinds = [UNIVERSE_REFRESH, RECENT_CANDLE_BOOTSTRAP, FUNDING_BACKFILL, WEBSOCKET_CAPTURE,
     WEBSOCKET_TRADE_CAPTURE, WEBSOCKET_L2_BBO_CAPTURE, OFFICIAL_S3_BACKFILL,
     BINANCE_DERIVATIVES_CONTEXT_BACKFILL, COVERAGE_AUDIT, STRATEGY_QUEUE_SCAN, BACKTEST_DATA_LOAD,
     BACKTEST, VECTORIZED_BACKTEST, EVENT_DRIVEN_SIMULATION, VALIDATION_GATE,
     LEDGER_APPEND_EXPORT, LEAD_BOOK_SCAN, LEAD_BOOK_UPSERT, AUDIT_CHECK]"

text \<open>\<open>WorkerJobKind(text)\<close> and \<open>WorkerJobStatus(text)\<close>\<close>

definition job_kind_of :: "string \<Rightarrow> kind result" where
  "job_kind_of t = (case find (\<lambda>k. kind_value k = t) all_kinds of
     Some k \<Rightarrow> Inr k | None \<Rightarrow> Inl (ValueError (t @ '' is not a valid WorkerJobKind'')))"

definition job_status_of :: "string \<Rightarrow> status result" where
  "job_status_of t = (case find (\<lambda>k. status_value k = t) all_statuses of
     Some k \<Rightarrow> Inr k | None \<Rightarrow> Inl (ValueError (t @ '' is not a valid WorkerJobStatus'')))"

definition TERMINAL_STATUSES :: "status list" where
  "TERMINAL_STATUSES = [SUCCEEDED, FAILED, CANCELLED]"

lemma status_value_inj [simp]: "status_value a = status_value b \<longleftrightarrow> a = b"
  by (cases a; cases b) simp_all

lemma kind_value_inj: "inj kind_value"
proof -
  have d: "distinct (map kind_value all_kinds)" by (simp add: all_kinds_def)
  have "UNIV \<subseteq> set all_kinds"
  proof
    fix k show "k \<in> set all_kinds" by (cases k) (simp_all add: all_kinds_def)
  qed
  then show ?thesis using d by (metis distinct_map inj_on_subset)
qed

lemma kind_value_eq [simp]: "kind_value a = kind_value b \<longleftrightarrow> a = b"
  by (rule inj_eq [OF kind_value_inj])

lemma all_kinds_complete [simp]: "k \<in> set all_kinds"
  by (cases k) (simp_all add: all_kinds_def)

lemma job_kind_of_value [simp]: "job_kind_of (kind_value k) = Inr k"
proof (cases "find (\<lambda>k'. kind_value k' = kind_value k) all_kinds")
  case None
  then show ?thesis using all_kinds_complete [of k] by (auto simp: find_None_iff)
next
  case (Some k')
  then have "k' = k" by (auto simp: find_Some_iff)
  with Some show ?thesis by (simp add: job_kind_of_def)
qed

lemma job_kind_of_Inr: "job_kind_of t = Inr k \<longleftrightarrow> t = kind_value k"
proof
  assume "job_kind_of t = Inr k"
  then show "t = kind_value k" by (auto simp: job_kind_of_def find_Some_iff split: option.splits)
qed simp

lemma job_status_of_value [simp]: "job_status_of (status_value k) = Inr k"
  by (cases k) (simp_all add: job_status_of_def all_statuses_def)

section \<open>Records\<close>

record job =
  j_id :: string
  j_kind :: kind
  j_status :: status
  j_spec_hash :: string
  j_spec :: "(string \<times> json) list"
  j_attempts :: int
  j_max_attempts :: int
  j_queued_at :: instant
  j_claimed_at :: "instant option"
  j_started_at :: "instant option"
  j_finished_at :: "instant option"
  j_heartbeat_at :: "instant option"
  j_lock_owner :: "string option"
  j_output_refs :: "string list"
  j_archive_refs :: "string list"
  j_gap_ids :: "string list"
  j_failure_reason :: "string option"
  j_retry_after :: "instant option"
  j_terminal :: bool
  j_schema :: string
  j_flags :: flags

text \<open>\<open>not self.lock_owner\<close>: the empty text counts as no owner (\<open>text_given\<close>).\<close>

definition validate_job :: "job \<Rightarrow> job result" where
  "validate_job r = validate_model
     [(j_id r \<noteq> [], ''job_id''),
      (length (j_spec_hash r) = 64, ''input_spec_hash''),
      (0 \<le> j_attempts r, ''attempts''),
      (1 \<le> j_max_attempts r, ''max_attempts'')]
     [(j_status r \<in> set TERMINAL_STATUSES \<and> \<not> j_terminal r, ''terminal worker statuses must set terminal_state''),
      (j_status r \<notin> set TERMINAL_STATUSES \<and> j_terminal r, ''non-terminal worker statuses cannot set terminal_state''),
      (j_attempts r > j_max_attempts r, ''attempts cannot exceed max_attempts''),
      (j_status r \<in> {CLAIMED, RUNNING} \<and> \<not> text_given (j_lock_owner r), ''claimed/running jobs require a lock_owner''),
      (\<not> boundary_ok (j_flags r), ''worker job records must preserve the v2 research boundary'')] r"

record heartbeat =
  h_id :: string
  h_job :: string
  h_worker :: string
  h_status :: status
  h_at :: instant
  h_details :: "(string \<times> string) list"

definition validate_heartbeat :: "heartbeat \<Rightarrow> heartbeat result" where
  "validate_heartbeat r = validate_model
     [(length (h_id r) = 64, ''heartbeat_id''), (h_job r \<noteq> [], ''job_id''), (h_worker r \<noteq> [], ''worker_id'')] [] r"

record transition =
  t_id :: string
  t_job :: string
  t_from :: "status option"
  t_to :: status
  t_worker :: "string option"
  t_reason :: string
  t_at :: instant

definition validate_transition :: "transition \<Rightarrow> transition result" where
  "validate_transition r = validate_model
     [(length (t_id r) = 64, ''transition_id''), (t_job r \<noteq> [], ''job_id''), (t_reason r \<noteq> [], ''reason'')] [] r"

record gap_record =
  g_id :: string
  g_job :: string
  g_worker :: "string option"
  g_kind :: kind
  g_reason :: string
  g_start :: "pydatetime option"
  g_end :: "pydatetime option"
  g_backoff :: int
  g_reconnects :: int
  g_scope :: string
  g_created_at :: instant
  g_flags :: flags

definition validate_gap :: "gap_record \<Rightarrow> gap_record result" where
  "validate_gap r =
     bindE (validate_model
       [(length (g_id r) = 64, ''gap_record_id''), (g_job r \<noteq> [], ''job_id''), (g_reason r \<noteq> [], ''reason''),
        (0 \<le> g_backoff r, ''backoff_seconds''), (0 \<le> g_reconnects r, ''reconnect_attempts'')] [] r) (\<lambda>_.
     bindE (case (g_start r, g_end r) of (Some a, Some b) \<Rightarrow> datetime_less b a | _ \<Rightarrow> Inr False) (\<lambda>backwards.
     validate_model []
       [(backwards, ''gap end_ts must be >= start_ts''),
        (\<not> basic_boundary_ok (g_flags r), ''gap records must preserve the v2 research boundary'')] r))"

record run_result =
  rr_job :: string
  rr_status :: status
  rr_output_refs :: "string list"
  rr_archive_refs :: "string list"
  rr_gap_ids :: "string list"
  rr_failure_reason :: "string option"

definition validate_run_result :: "run_result \<Rightarrow> run_result result" where
  "validate_run_result r = validate_model [(rr_job r \<noteq> [], ''job_id'')] [] r"

section \<open>Valid job records\<close>

definition job_ok :: "job \<Rightarrow> bool" where
  "job_ok r \<longleftrightarrow> j_id r \<noteq> [] \<and> length (j_spec_hash r) = 64 \<and> 0 \<le> j_attempts r \<and> j_attempts r \<le> j_max_attempts r
     \<and> 1 \<le> j_max_attempts r \<and> (j_terminal r \<longleftrightarrow> j_status r \<in> set TERMINAL_STATUSES)
     \<and> (j_status r \<in> {CLAIMED, RUNNING} \<longrightarrow> text_given (j_lock_owner r)) \<and> boundary_ok (j_flags r)"

lemma validate_job_Inr [result_simps]: "validate_job r = Inr r' \<longleftrightarrow> r' = r \<and> job_ok r"
  unfolding validate_job_def validate_model_Inr_iff job_ok_def by auto

lemma validate_job_ok: "job_ok r \<Longrightarrow> validate_job r = Inr r"
  by (simp add: validate_job_Inr)

lemma validate_job_Inl: "(\<exists>ms. validate_job r = Inl ms) \<longleftrightarrow> \<not> job_ok r"
  by (metis validate_job_Inr sum.exhaust sum.distinct(1))

lemma validate_transition_Inr [result_simps]:
  "validate_transition r = Inr r' \<longleftrightarrow> r' = r \<and> length (t_id r) = 64 \<and> t_job r \<noteq> [] \<and> t_reason r \<noteq> []"
  unfolding validate_transition_def validate_model_Inr_iff by auto

lemma validate_heartbeat_Inr [result_simps]:
  "validate_heartbeat r = Inr r' \<longleftrightarrow> r' = r \<and> length (h_id r) = 64 \<and> h_job r \<noteq> [] \<and> h_worker r \<noteq> []"
  unfolding validate_heartbeat_def validate_model_Inr_iff by auto

end
