(* ===== verification/WorkerStore.thy ===== *)
theory WorkerStore
  imports WorkerModels
begin

text \<open>
  \<open>workers/job_store.py\<close>: the SQLite store of worker jobs.  The state holds the four tables, each
  an association list from the primary key in rowid order (\<open>INSERT OR REPLACE\<close> deletes the old
  row and appends the new one), and the clock, a stream of readings with a position.  An operation
  is a program on the store; a \<open>with connection\<close> block is a transaction, which undoes the writes
  (but not the clock readings) of a block that raises.  A record written as JSON reads back as
  itself and is validated again, so \<open>model_validate_json\<close> is the validation of the stored record.
  The column \<open>input_spec_json\<close>, which no code reads, is left out.
\<close>

section \<open>Tables\<close>

record job_row =
  w_kind :: string
  w_status :: string
  w_spec_hash :: string
  w_queued_at :: string
  w_updated_at :: string
  w_record :: job

record wstore =
  jobs :: "(string \<times> job_row) list"
  transitions :: "(string \<times> transition) list"
  heartbeats :: "(string \<times> heartbeat) list"
  gaps :: "(string \<times> gap_record) list"
  clock :: "nat \<Rightarrow> instant"
  tick :: nat

definition utc_now :: "(wstore, instant) prog" where
  "utc_now = (\<lambda>s. (Inr (clock s (tick s)), s\<lparr>tick := Suc (tick s)\<rparr>))"

definition transaction :: "(wstore, 'a) prog \<Rightarrow> (wstore, 'a) prog" where
  "transaction p = (\<lambda>s. case p s of
      (Inl e, s') \<Rightarrow> (Inl e, s\<lparr>tick := tick s'\<rparr>)
    | (Inr x, s') \<Rightarrow> (Inr x, s'))"

section \<open>Reading and writing rows\<close>

definition load_job_row :: "string \<Rightarrow> (wstore, job option) prog" where
  "load_job_row jid = bindS (getS (\<lambda>s. map_of (jobs s) jid)) (\<lambda>row.
     (case row of None \<Rightarrow> retS None
      | Some w \<Rightarrow> bindS (liftS (validate_job (w_record w))) (\<lambda>r. retS (Some r))))"

definition require_job :: "string \<Rightarrow> (wstore, job) prog" where
  "require_job jid = bindS (load_job_row jid) (\<lambda>r.
     (case r of None \<Rightarrow> raiseS (KeyError jid) | Some r \<Rightarrow> retS r))"

definition job_row_of :: "job \<Rightarrow> instant \<Rightarrow> job_row" where
  "job_row_of r now = \<lparr>w_kind = kind_value (j_kind r), w_status = status_value (j_status r),
     w_spec_hash = j_spec_hash r, w_queued_at = iso_of_instant (j_queued_at r),
     w_updated_at = iso_of_instant now, w_record = r\<rparr>"

definition upsert_job :: "job \<Rightarrow> (wstore, unit) prog" where
  "upsert_job r = bindS utc_now (\<lambda>now.
     modifyS (\<lambda>s. s\<lparr>jobs := insert_or_replace (j_id r) (job_row_of r now) (jobs s)\<rparr>))"

definition transition_identity ::
  "string \<Rightarrow> status option \<Rightarrow> status \<Rightarrow> string option \<Rightarrow> string \<Rightarrow> instant \<Rightarrow> json" where
  "transition_identity jid from_st to_st worker reason now = JObj [
     (''job_id'', JStr jid), (''from_status'', opt_json (map_option status_value from_st)),
     (''to_status'', JStr (status_value to_st)), (''worker_id'', opt_json worker),
     (''reason'', JStr reason), (''transitioned_at'', JStr (iso_of_instant now))]"

definition insert_transition ::
  "string \<Rightarrow> status option \<Rightarrow> status \<Rightarrow> string option \<Rightarrow> string \<Rightarrow> (wstore, transition) prog" where
  "insert_transition jid from_st to_st worker reason = bindS utc_now (\<lambda>now.
     bindS (liftS (canonical_json_hash (transition_identity jid from_st to_st worker reason now))) (\<lambda>h.
     bindS (liftS (validate_transition \<lparr>t_id = h, t_job = jid, t_from = from_st, t_to = to_st,
        t_worker = worker, t_reason = reason, t_at = now\<rparr>)) (\<lambda>t.
     bindS (modifyS (\<lambda>s. s\<lparr>transitions := insert_or_replace (t_id t) t (transitions s)\<rparr>)) (\<lambda>_.
     retS t))))"

section \<open>Queueing\<close>

definition new_job_id :: "kind \<Rightarrow> (string \<times> json) list \<Rightarrow> string result" where
  "new_job_id k spec = bindE (canonical_json_hash (JObj [(''kind'', JStr (kind_value k)), (''spec'', JObj spec)]))
     (\<lambda>h. Inr (''JOB-'' @ take 24 h))"

text \<open>\<open>job_id or f"JOB-{...}"\<close>\<close>

definition enqueue_id :: "string option \<Rightarrow> kind \<Rightarrow> (string \<times> json) list \<Rightarrow> string result" where
  "enqueue_id job_id k spec = (if text_given job_id then Inr (the job_id) else new_job_id k spec)"

definition fresh_job :: "string \<Rightarrow> kind \<Rightarrow> string \<Rightarrow> (string \<times> json) list \<Rightarrow> int \<Rightarrow> instant \<Rightarrow> job" where
  "fresh_job jid k h spec max_attempts now = \<lparr>j_id = jid, j_kind = k, j_status = QUEUED, j_spec_hash = h,
     j_spec = spec, j_attempts = 0, j_max_attempts = max_attempts, j_queued_at = now,
     j_claimed_at = None, j_started_at = None, j_finished_at = None, j_heartbeat_at = None,
     j_lock_owner = None, j_output_refs = [], j_archive_refs = [], j_gap_ids = [],
     j_failure_reason = None, j_retry_after = None, j_terminal = False,
     j_schema = V2_SCHEMA_VERSION, j_flags = default_flags\<rparr>"

text \<open>The input is a JSON value already, on which \<open>_jsonable\<close> is the identity.\<close>

definition enqueue ::
  "string \<Rightarrow> (string \<times> json) list \<Rightarrow> string option \<Rightarrow> int \<Rightarrow> string \<Rightarrow> (wstore, job) prog" where
  "enqueue kind_text spec job_id max_attempts reason =
     bindS (liftS (job_kind_of kind_text)) (\<lambda>k.
     bindS (liftS (canonical_json_hash (JObj spec))) (\<lambda>h.
     bindS (liftS (enqueue_id job_id k spec)) (\<lambda>jid.
     bindS utc_now (\<lambda>now.
     bindS (liftS (validate_job (fresh_job jid k h spec max_attempts now))) (\<lambda>r.
     transaction (
       bindS (load_job_row jid) (\<lambda>old.
       bindS (liftS (guardE (old = None) (ValueError (''job already exists: '' @ jid)))) (\<lambda>_.
       bindS (upsert_job r) (\<lambda>_.
       bindS (insert_transition (j_id r) None (j_status r) None reason) (\<lambda>_.
       retS r)))))))))) "

definition load_job :: "string \<Rightarrow> (wstore, job option) prog" where
  "load_job jid = transaction (load_job_row jid)"

text \<open>\<open>ORDER BY queued_at, job_id\<close> compares the ISO texts.\<close>

definition queue_key :: "string \<times> job_row \<Rightarrow> string \<times> string" where
  "queue_key kr = (w_queued_at (snd kr), fst kr)"

definition list_jobs :: "string option \<Rightarrow> string option \<Rightarrow> (wstore, job list) prog" where
  "list_jobs kind_text status_text =
     bindS (liftS (case kind_text of None \<Rightarrow> Inr None | Some t \<Rightarrow> bindE (job_kind_of t) (\<lambda>k. Inr (Some (kind_value k))))) (\<lambda>k.
     bindS (liftS (case status_text of None \<Rightarrow> Inr None | Some t \<Rightarrow> bindE (job_status_of t) (\<lambda>st. Inr (Some (status_value st))))) (\<lambda>st.
     bindS (getS (\<lambda>s. sorted_by queue_key (filter (\<lambda>(_, w).
         (case k of None \<Rightarrow> True | Some t \<Rightarrow> w_kind w = t) \<and>
         (case st of None \<Rightarrow> True | Some t \<Rightarrow> w_status w = t)) (jobs s)))) (\<lambda>rows.
     liftS (mapE (\<lambda>(_, w). validate_job (w_record w)) rows))))"

definition update_queued_input_spec ::
  "string \<Rightarrow> (string \<times> json) list \<Rightarrow> string option \<Rightarrow> string \<Rightarrow> (wstore, job) prog" where
  "update_queued_input_spec jid spec worker reason =
     bindS (liftS (canonical_json_hash (JObj spec))) (\<lambda>h.
     transaction (
       bindS (require_job jid) (\<lambda>current.
       bindS (liftS (guardE (j_status current = QUEUED)
          (ValueError (''cannot update input_spec for job in status '' @ status_value (j_status current))))) (\<lambda>_.
       let updated = current\<lparr>j_spec_hash := h, j_spec := spec\<rparr> in
       bindS (upsert_job updated) (\<lambda>_.
       bindS (insert_transition jid (Some (j_status current)) (j_status updated) worker reason) (\<lambda>_.
       retS updated))))))"

section \<open>Claiming and running\<close>

definition claim_row :: "string \<Rightarrow> string \<Rightarrow> job_row \<Rightarrow> (wstore, job option) prog" where
  "claim_row worker reason w =
     bindS (liftS (validate_job (w_record w))) (\<lambda>current.
     bindS utc_now (\<lambda>now.
     let claimed = current\<lparr>j_status := CLAIMED, j_attempts := j_attempts current + 1,
           j_claimed_at := Some now, j_lock_owner := Some worker, j_terminal := False\<rparr> in
     bindS (upsert_job claimed) (\<lambda>_.
     bindS (insert_transition (j_id claimed) (Some (j_status current)) (j_status claimed) (Some worker) reason) (\<lambda>_.
     retS (Some claimed)))))"

definition claim_next :: "string \<Rightarrow> string \<Rightarrow> string \<Rightarrow> (wstore, job option) prog" where
  "claim_next kind_text worker reason =
     bindS (liftS (job_kind_of kind_text)) (\<lambda>k.
     transaction (
       bindS (getS (\<lambda>s. sorted_by queue_key (filter (\<lambda>(_, w).
           w_kind w = kind_value k \<and> w_status w = status_value QUEUED) (jobs s)))) (\<lambda>rows.
       (case rows of [] \<Rightarrow> retS None | kw # _ \<Rightarrow> claim_row worker reason (snd kw)))))"

definition transition_job ::
  "string \<Rightarrow> status \<Rightarrow> string option \<Rightarrow> string \<Rightarrow> (job \<Rightarrow> job) \<Rightarrow> status list \<Rightarrow> (wstore, job) prog" where
  "transition_job jid to_st worker reason upd allowed_from =
     transaction (
       bindS (require_job jid) (\<lambda>current.
       bindS (liftS (guardE (j_status current \<in> set allowed_from)
          (ValueError (''cannot transition '' @ jid @ '' from '' @ status_value (j_status current)
             @ ''; allowed: '' @ join '','' (sorted_by id (map status_value allowed_from)))))) (\<lambda>_.
       let updated = upd (current\<lparr>j_status := to_st\<rparr>) in
       bindS (upsert_job updated) (\<lambda>_.
       bindS (insert_transition jid (Some (j_status current)) to_st worker reason) (\<lambda>_.
       retS updated)))))"

definition start_job :: "string \<Rightarrow> string \<Rightarrow> string \<Rightarrow> (wstore, job) prog" where
  "start_job jid worker reason =
     bindS utc_now (\<lambda>t1. bindS utc_now (\<lambda>t2.
     transition_job jid RUNNING (Some worker) reason
       (\<lambda>r. r\<lparr>j_started_at := Some t1, j_heartbeat_at := Some t2, j_lock_owner := Some worker\<rparr>)
       [CLAIMED]))"

definition heartbeat_identity :: "string \<Rightarrow> string \<Rightarrow> status \<Rightarrow> instant \<Rightarrow> (string \<times> string) list \<Rightarrow> json" where
  "heartbeat_identity jid worker st now details = JObj [
     (''job_id'', JStr jid), (''worker_id'', JStr worker), (''status'', JStr (status_value st)),
     (''heartbeat_at'', JStr (iso_of_instant now)),
     (''details'', JObj (map (\<lambda>(k, v). (k, JStr v)) details))]"

definition record_heartbeat :: "string \<Rightarrow> string \<Rightarrow> (string \<times> string) list \<Rightarrow> (wstore, heartbeat) prog" where
  "record_heartbeat jid worker details =
     transaction (
       bindS (require_job jid) (\<lambda>current.
       bindS (liftS (guardE (j_status current \<in> {CLAIMED, RUNNING})
          (ValueError (''cannot heartbeat job in status '' @ status_value (j_status current))))) (\<lambda>_.
       bindS utc_now (\<lambda>now.
       bindS (liftS (canonical_json_hash (heartbeat_identity jid worker (j_status current) now details))) (\<lambda>h.
       bindS (liftS (validate_heartbeat \<lparr>h_id = h, h_job = jid, h_worker = worker,
          h_status = j_status current, h_at = now, h_details = details\<rparr>)) (\<lambda>hb.
       bindS (upsert_job (current\<lparr>j_heartbeat_at := Some now, j_lock_owner := Some worker\<rparr>)) (\<lambda>_.
       bindS (modifyS (\<lambda>s. s\<lparr>heartbeats := insert_or_replace (h_id hb) hb (heartbeats s)\<rparr>)) (\<lambda>_.
       retS hb))))))))"

section \<open>Finishing\<close>

definition succeed_job ::
  "string \<Rightarrow> string \<Rightarrow> string list \<Rightarrow> string list \<Rightarrow> string list \<Rightarrow> string \<Rightarrow> (wstore, job) prog" where
  "succeed_job jid worker output_refs archive_refs gap_ids reason =
     bindS (load_job jid) (\<lambda>found.
     (case found of None \<Rightarrow> raiseS (KeyError jid)
      | Some current \<Rightarrow>
        bindS utc_now (\<lambda>now.
        transition_job jid SUCCEEDED (Some worker) reason
          (\<lambda>r. r\<lparr>j_finished_at := Some now, j_terminal := True,
             j_output_refs := uniq (j_output_refs current @ output_refs),
             j_archive_refs := uniq (j_archive_refs current @ archive_refs),
             j_gap_ids := uniq (j_gap_ids current @ gap_ids)\<rparr>)
          [RUNNING, CLAIMED])))"

definition failed_job ::
  "job \<Rightarrow> instant \<Rightarrow> string \<Rightarrow> bool \<Rightarrow> string list \<Rightarrow> string list \<Rightarrow> string list \<Rightarrow> job" where
  "failed_job r now reason retryable output_refs archive_refs gap_ids =
     r\<lparr>j_status := FAILED, j_finished_at := Some now, j_failure_reason := Some reason,
       j_terminal := \<not> (retryable \<and> j_attempts r < j_max_attempts r),
       j_output_refs := uniq (j_output_refs r @ output_refs),
       j_archive_refs := uniq (j_archive_refs r @ archive_refs),
       j_gap_ids := uniq (j_gap_ids r @ gap_ids)\<rparr>"

definition retrying_job :: "job \<Rightarrow> instant \<Rightarrow> job" where
  "retrying_job r now = r\<lparr>j_status := RETRYING, j_terminal := False, j_retry_after := Some now\<rparr>"

definition requeued_job :: "job \<Rightarrow> job" where
  "requeued_job r = r\<lparr>j_status := QUEUED, j_lock_owner := None, j_claimed_at := None,
     j_started_at := None, j_heartbeat_at := None, j_terminal := False\<rparr>"

text \<open>The end of \<open>fail_job\<close> for a retryable failure: by way of \<open>retrying\<close> back to \<open>queued\<close>.\<close>

definition requeue_failed :: "string \<Rightarrow> string \<Rightarrow> instant \<Rightarrow> job \<Rightarrow> (wstore, job) prog" where
  "requeue_failed jid worker now failed =
     (let retrying = retrying_job failed now; queued = requeued_job retrying in
      bindS (upsert_job retrying) (\<lambda>_.
      bindS (insert_transition jid (Some FAILED) RETRYING (Some worker) ''retry_scheduled'') (\<lambda>_.
      bindS (upsert_job queued) (\<lambda>_.
      bindS (insert_transition jid (Some RETRYING) QUEUED (Some worker) ''retry_requeued'') (\<lambda>_.
      retS queued)))))"

definition fail_job ::
  "string \<Rightarrow> string \<Rightarrow> string \<Rightarrow> bool \<Rightarrow> string list \<Rightarrow> string list \<Rightarrow> string list \<Rightarrow> (wstore, job) prog" where
  "fail_job jid worker reason retryable output_refs archive_refs gap_ids =
     transaction (
       bindS (require_job jid) (\<lambda>current.
       bindS (liftS (guardE (j_status current \<notin> set TERMINAL_STATUSES)
          (ValueError (''cannot fail terminal job '' @ jid)))) (\<lambda>_.
       bindS utc_now (\<lambda>now.
       let failed = failed_job current now reason retryable output_refs archive_refs gap_ids in
       bindS (upsert_job failed) (\<lambda>_.
       bindS (insert_transition jid (Some (j_status current)) FAILED (Some worker) reason) (\<lambda>_.
       if \<not> retryable \<or> j_attempts current \<ge> j_max_attempts current then retS failed
       else requeue_failed jid worker now failed))))))"

definition retry_job :: "string \<Rightarrow> string \<Rightarrow> string \<Rightarrow> (wstore, job) prog" where
  "retry_job jid worker reason =
     transition_job jid QUEUED (Some worker) reason
       (\<lambda>r. r\<lparr>j_terminal := False, j_failure_reason := None, j_finished_at := None, j_lock_owner := None,
          j_claimed_at := None, j_started_at := None, j_heartbeat_at := None\<rparr>)
       [FAILED, STALE, CANCELLED]"

definition cancel_job :: "string \<Rightarrow> string \<Rightarrow> string \<Rightarrow> (wstore, job) prog" where
  "cancel_job jid worker reason =
     bindS utc_now (\<lambda>now.
     transition_job jid CANCELLED (Some worker) reason
       (\<lambda>r. r\<lparr>j_finished_at := Some now, j_terminal := True\<rparr>)
       [QUEUED, CLAIMED, RUNNING])"

section \<open>Stale jobs and gaps\<close>

definition last_sign_of_life :: "job \<Rightarrow> instant option" where
  "last_sign_of_life r = (case j_heartbeat_at r of Some t \<Rightarrow> Some t | None \<Rightarrow>
     (case j_started_at r of Some t \<Rightarrow> Some t | None \<Rightarrow> j_claimed_at r))"

definition is_stale :: "instant \<Rightarrow> job \<Rightarrow> bool" where
  "is_stale cutoff r \<longleftrightarrow> j_status r \<in> {CLAIMED, RUNNING} \<and>
     (case last_sign_of_life r of None \<Rightarrow> False | Some t \<Rightarrow> \<not> t > cutoff)"

definition stale_one :: "string \<Rightarrow> string \<Rightarrow> job \<Rightarrow> (wstore, job) prog" where
  "stale_one worker reason r = bindS utc_now (\<lambda>now.
     transition_job (j_id r) STALE (Some worker) reason
       (\<lambda>r. r\<lparr>j_finished_at := Some now, j_failure_reason := Some reason, j_terminal := False\<rparr>)
       [j_status r])"

text \<open>The loop skips the other jobs, so it runs over those of the listing that are stale.\<close>

definition mark_stale_jobs :: "int \<Rightarrow> string \<Rightarrow> string \<Rightarrow> (wstore, job list) prog" where
  "mark_stale_jobs stale_after worker reason =
     bindS utc_now (\<lambda>now.
     bindS (liftS (add_us now (- stale_after))) (\<lambda>cutoff.
     bindS (list_jobs None None) (\<lambda>listed.
     mapS (stale_one worker reason) (filter (is_stale cutoff) listed))))"

definition opt_iso :: "pydatetime option \<Rightarrow> json result" where
  "opt_iso t = (case t of None \<Rightarrow> Inr JNull | Some v \<Rightarrow> bindE (utc_isoformat v) (\<lambda>x. Inr (JStr x)))"

definition record_gap ::
  "string \<Rightarrow> string \<Rightarrow> string \<Rightarrow> string option \<Rightarrow> pydatetime option \<Rightarrow> pydatetime option \<Rightarrow> int \<Rightarrow> int
    \<Rightarrow> (wstore, gap_record) prog" where
  "record_gap jid kind_text reason worker start_ts end_ts backoff reconnects =
     bindS (liftS (job_kind_of kind_text)) (\<lambda>k.
     bindS (liftS (opt_iso start_ts)) (\<lambda>st.
     bindS (liftS (opt_iso end_ts)) (\<lambda>en.
     bindS utc_now (\<lambda>t1.
     bindS (liftS (canonical_json_hash (JObj [
        (''job_id'', JStr jid), (''kind'', JStr (kind_value k)), (''reason'', JStr reason),
        (''worker_id'', opt_json worker), (''start_ts'', st), (''end_ts'', en),
        (''backoff_seconds'', JInt backoff), (''reconnect_attempts'', JInt reconnects),
        (''created_at'', JStr (iso_of_instant t1))]))) (\<lambda>h.
     bindS utc_now (\<lambda>t2.
     bindS (liftS (validate_gap \<lparr>g_id = h, g_job = jid, g_worker = worker, g_kind = k, g_reason = reason,
        g_start = start_ts, g_end = end_ts, g_backoff = backoff, g_reconnects = reconnects,
        g_scope = ''diagnostic_gap_record'', g_created_at = t2, g_flags = default_flags\<rparr>)) (\<lambda>gap.
     bindS (transaction (
       bindS (require_job jid) (\<lambda>current.
       bindS (upsert_job (current\<lparr>j_gap_ids := uniq (j_gap_ids current @ [g_id gap])\<rparr>)) (\<lambda>_.
       modifyS (\<lambda>s. s\<lparr>gaps := insert_or_replace (g_id gap) gap (gaps s)\<rparr>))))) (\<lambda>_.
     retS gap))))))))"

section \<open>Listings\<close>

definition list_transitions :: "string option \<Rightarrow> (wstore, transition list) prog" where
  "list_transitions jid = bindS (getS (\<lambda>s. sorted_by (\<lambda>t. iso_of_instant (t_at t))
      (filter (\<lambda>t. case jid of None \<Rightarrow> True | Some j \<Rightarrow> t_job t = j) (map snd (transitions s))))) (\<lambda>ts.
     liftS (mapE validate_transition ts))"

definition list_heartbeats :: "string option \<Rightarrow> (wstore, heartbeat list) prog" where
  "list_heartbeats jid = bindS (getS (\<lambda>s. sorted_by (\<lambda>h. (iso_of_instant (h_at h), h_id h))
      (filter (\<lambda>h. case jid of None \<Rightarrow> True | Some j \<Rightarrow> h_job h = j) (map snd (heartbeats s))))) (\<lambda>hs.
     liftS (mapE validate_heartbeat hs))"

definition list_gap_records :: "string option \<Rightarrow> (wstore, gap_record list) prog" where
  "list_gap_records jid = bindS (getS (\<lambda>s. sorted_by (\<lambda>g. (iso_of_instant (g_created_at g), g_id g))
      (filter (\<lambda>g. case jid of None \<Rightarrow> True | Some j \<Rightarrow> g_job g = j) (map snd (gaps s))))) (\<lambda>gs.
     liftS (mapE validate_gap gs))"

end
