(* ===== verification/WorkerProps.thy ===== *)
theory WorkerProps
  imports WorkerStore
begin

text \<open>
  Correctness of the worker store: what each operation does when it returns, that it leaves the
  tables alone when it raises, the invariant of every reachable store, and the state machine of
  job statuses that the operations implement.
\<close>

section \<open>What the building blocks do\<close>

definition digest :: "json \<Rightarrow> string" where
  "digest v = sha256_hexdigest (dumps_text v)"

lemma length_digest [simp]: "length (digest v) = 64"
  by (simp add: digest_def)

lemma canonical_json_hash_digest: "all_finite v \<Longrightarrow> canonical_json_hash v = Inr (digest v)"
  by (simp add: canonical_json_hash_def canonical_json_bytes_def json_dumps_cases digest_def)

text \<open>A raising operation leaves everything but the position in the clock as it was.\<close>

definition same_tables :: "wstore \<Rightarrow> wstore \<Rightarrow> bool" where
  "same_tables s s' \<longleftrightarrow> s' = s\<lparr>tick := tick s'\<rparr>"

lemma same_tables_refl [simp]: "same_tables s s"
  by (simp add: same_tables_def)

lemma same_tables_tick [simp]: "same_tables s (s\<lparr>tick := n\<rparr>)"
  by (simp add: same_tables_def)

lemma same_tables_trans: "same_tables s s1 \<Longrightarrow> same_tables s1 s2 \<Longrightarrow> same_tables s s2"
  by (cases s; cases s1; cases s2) (simp add: same_tables_def)

lemma same_tables_tables:
  assumes "same_tables s s'"
  shows "jobs s' = jobs s" "transitions s' = transitions s" "heartbeats s' = heartbeats s"
    "gaps s' = gaps s" "clock s' = clock s"
  by (subst assms [unfolded same_tables_def], simp)+

lemma same_tables_ticked [simp]: "same_tables (s\<lparr>tick := n\<rparr>) s' \<longleftrightarrow> same_tables s s'"
  by (cases s; cases s') (simp add: same_tables_def)

lemma utc_now_step [simp]: "utc_now s = (Inr (clock s (tick s)), s\<lparr>tick := Suc (tick s)\<rparr>)"
  by (simp add: utc_now_def)

lemma transaction_Inr [simp]: "transaction p s = (Inr x, s') \<longleftrightarrow> p s = (Inr x, s')"
  by (auto simp: transaction_def split: prod.splits sum.splits)

lemma transaction_Inl: "transaction p s = (Inl e, s') \<Longrightarrow> same_tables s s'"
  by (auto simp: transaction_def split: prod.splits sum.splits)

lemma bindS_Inl_iff:
  "bindS m f s = (Inl e, s') \<longleftrightarrow> m s = (Inl e, s') \<or> (\<exists>x s1. m s = (Inr x, s1) \<and> f x s1 = (Inl e, s'))"
  by (auto simp: bindS_def split: prod.splits sum.splits)

lemma liftS_iff [result_simps]: "liftS r s = (x, s') \<longleftrightarrow> r = x \<and> s' = s"
  by auto

lemma retS_iff [result_simps]: "retS x s = (y, s') \<longleftrightarrow> y = Inr x \<and> s' = s"
  by auto

lemma getS_iff [result_simps]: "getS f s = (y, s') \<longleftrightarrow> y = Inr (f s) \<and> s' = s"
  by auto

lemma raiseS_iff [result_simps]: "raiseS e s = (y, s') \<longleftrightarrow> y = Inl e \<and> s' = s"
  by auto

lemma modifyS_iff [result_simps]: "modifyS f s = (y, s') \<longleftrightarrow> y = Inr () \<and> s' = f s"
  by auto

lemma load_job_row_state: "load_job_row jid s = (x, s') \<Longrightarrow> s' = s"
  by (auto simp: load_job_row_def bindS_def split: option.splits sum.splits)

lemma load_job_row_Inr [result_simps]:
  "load_job_row jid s = (Inr x, s') \<longleftrightarrow> s' = s \<and>
     (case map_of (jobs s) jid of None \<Rightarrow> x = None | Some w \<Rightarrow> x = Some (w_record w) \<and> job_ok (w_record w))"
  by (auto simp: load_job_row_def bindS_def validate_job_Inr validate_job_ok split: option.splits sum.splits)

lemma require_job_state: "require_job jid s = (x, s') \<Longrightarrow> s' = s"
  by (auto simp: require_job_def bindS_def split: option.splits sum.splits prod.splits dest: load_job_row_state)

lemma require_job_Inr [result_simps]:
  "require_job jid s = (Inr r, s') \<longleftrightarrow>
     s' = s \<and> (\<exists>w. map_of (jobs s) jid = Some w \<and> r = w_record w \<and> job_ok r)"
proof
  assume "require_job jid s = (Inr r, s')"
  then show "s' = s \<and> (\<exists>w. map_of (jobs s) jid = Some w \<and> r = w_record w \<and> job_ok r)"
    unfolding require_job_def bindS_Inr_iff load_job_row_Inr by (auto split: option.splits)
next
  assume "s' = s \<and> (\<exists>w. map_of (jobs s) jid = Some w \<and> r = w_record w \<and> job_ok r)"
  then show "require_job jid s = (Inr r, s')"
    unfolding require_job_def bindS_Inr_iff load_job_row_Inr
    by (intro exI [of _ "Some r"] exI [of _ s]) auto
qed

lemma upsert_job_step [simp]:
  "upsert_job r s = (Inr (), s\<lparr>jobs := insert_or_replace (j_id r) (job_row_of r (clock s (tick s))) (jobs s),
     tick := Suc (tick s)\<rparr>)"
  by (simp add: upsert_job_def bindS_def)

definition new_transition ::
  "string \<Rightarrow> status option \<Rightarrow> status \<Rightarrow> string option \<Rightarrow> string \<Rightarrow> instant \<Rightarrow> transition" where
  "new_transition jid from_st to_st worker reason now =
     \<lparr>t_id = digest (transition_identity jid from_st to_st worker reason now), t_job = jid,
      t_from = from_st, t_to = to_st, t_worker = worker, t_reason = reason, t_at = now\<rparr>"

definition log_transition :: "transition \<Rightarrow> wstore \<Rightarrow> wstore" where
  "log_transition t s = s\<lparr>transitions := insert_or_replace (t_id t) t (transitions s)\<rparr>"

lemma all_finite_opt_json [simp]: "all_finite (opt_json w)"
  by (simp add: opt_json_def split: option.splits)

lemma transition_identity_finite: "all_finite (transition_identity jid f t w r now)"
  by (simp add: transition_identity_def)

lemma insert_transition_ok:
  assumes "jid \<noteq> []" "reason \<noteq> []"
  shows "insert_transition jid f t w reason s =
     (Inr (new_transition jid f t w reason (clock s (tick s))),
      log_transition (new_transition jid f t w reason (clock s (tick s))) (s\<lparr>tick := Suc (tick s)\<rparr>))"
  using assms
  by (simp add: insert_transition_def bindS_def new_transition_def log_transition_def
      canonical_json_hash_digest [OF transition_identity_finite] validate_transition_def validate_model_def)

lemma insert_transition_bad:
  assumes "jid = [] \<or> reason = []"
  shows "\<exists>e. insert_transition jid f t w reason s = (Inl e, s\<lparr>tick := Suc (tick s)\<rparr>)"
  using assms
  by (auto simp: insert_transition_def bindS_def canonical_json_hash_digest [OF transition_identity_finite]
      validate_transition_def validate_model_def)

lemma insert_transition_Inr [result_simps]:
  "insert_transition jid f t w reason s = (Inr x, s') \<longleftrightarrow> jid \<noteq> [] \<and> reason \<noteq> [] \<and>
     x = new_transition jid f t w reason (clock s (tick s)) \<and> s' = log_transition x (s\<lparr>tick := Suc (tick s)\<rparr>)"
proof (cases "jid \<noteq> [] \<and> reason \<noteq> []")
  case True
  then show ?thesis by (auto simp: insert_transition_ok)
next
  case False
  then obtain e where "insert_transition jid f t w reason s = (Inl e, s\<lparr>tick := Suc (tick s)\<rparr>)"
    using insert_transition_bad by blast
  then show ?thesis using False by auto
qed

lemma log_transition_fields [simp]:
  "jobs (log_transition t s) = jobs s" "tick (log_transition t s) = tick s"
  "clock (log_transition t s) = clock s" "heartbeats (log_transition t s) = heartbeats s"
  "gaps (log_transition t s) = gaps s"
  "transitions (log_transition t s) = insert_or_replace (t_id t) t (transitions s)"
  by (simp_all add: log_transition_def)

text \<open>Writing a job and its transition, the pair every status change consists of.\<close>

definition write_job :: "job \<Rightarrow> transition \<Rightarrow> wstore \<Rightarrow> wstore" where
  "write_job r t s = log_transition t
     (s\<lparr>jobs := insert_or_replace (j_id r) (job_row_of r (clock s (tick s))) (jobs s), tick := Suc (Suc (tick s))\<rparr>)"

lemma write_job_fields [simp]:
  "jobs (write_job r t s) = insert_or_replace (j_id r) (job_row_of r (clock s (tick s))) (jobs s)"
  "tick (write_job r t s) = Suc (Suc (tick s))" "clock (write_job r t s) = clock s"
  "heartbeats (write_job r t s) = heartbeats s" "gaps (write_job r t s) = gaps s"
  "transitions (write_job r t s) = insert_or_replace (t_id t) t (transitions s)"
  by (simp_all add: write_job_def)

section \<open>What the operations do\<close>

lemma transition_job_Inr [result_simps]:
  "transition_job jid to_st worker reason upd allowed s = (Inr r, s') \<longleftrightarrow>
     (\<exists>w. map_of (jobs s) jid = Some w \<and> job_ok (w_record w) \<and> j_status (w_record w) \<in> set allowed \<and>
        jid \<noteq> [] \<and> reason \<noteq> [] \<and> r = upd ((w_record w)\<lparr>j_status := to_st\<rparr>) \<and>
        s' = write_job r (new_transition jid (Some (j_status (w_record w))) to_st worker reason
               (clock s (Suc (tick s)))) s)"
  unfolding transition_job_def transaction_Inr
  by (simp add: bindS_Inr_iff require_job_Inr insert_transition_Inr liftS_iff Let_def write_job_def del: prog_simps)
     (auto simp: retS_iff)

lemma transition_job_Inl: "transition_job jid to_st worker reason upd allowed s = (Inl e, s') \<Longrightarrow> same_tables s s'"
  unfolding transition_job_def by (rule transaction_Inl)

definition claim_candidates :: "wstore \<Rightarrow> kind \<Rightarrow> (string \<times> job_row) list" where
  "claim_candidates s k = sorted_by queue_key
     (filter (\<lambda>(_, w). w_kind w = kind_value k \<and> w_status w = status_value QUEUED) (jobs s))"

definition claimed_job :: "job \<Rightarrow> instant \<Rightarrow> string \<Rightarrow> job" where
  "claimed_job r now worker = r\<lparr>j_status := CLAIMED, j_attempts := j_attempts r + 1,
     j_claimed_at := Some now, j_lock_owner := Some worker, j_terminal := False\<rparr>"

lemma claim_next_Inl: "claim_next kt worker reason s = (Inl e, s') \<Longrightarrow> same_tables s s'"
  unfolding claim_next_def bindS_Inl_iff liftS_iff by (auto dest: transaction_Inl)

lemma claim_row_Inr:
  "claim_row worker reason w s = (Inr x, s') \<longleftrightarrow> job_ok (w_record w) \<and> reason \<noteq> [] \<and>
     x = Some (claimed_job (w_record w) (clock s (tick s)) worker) \<and>
     s' = write_job (the x) (new_transition (j_id (w_record w)) (Some (j_status (w_record w))) CLAIMED
            (Some worker) reason (clock s (tick s + 2))) (s\<lparr>tick := Suc (tick s)\<rparr>)"
proof -
  have ne: "job_ok y \<Longrightarrow> j_id y \<noteq> []" for y by (simp add: job_ok_def)
  show ?thesis unfolding claim_row_def claimed_job_def write_job_def
    by (auto simp: result_simps Let_def ne simp del: prog_simps)
qed

lemma claim_next_None [result_simps]:
  "claim_next kt worker reason s = (Inr None, s') \<longleftrightarrow>
     (\<exists>k. job_kind_of kt = Inr k \<and> claim_candidates s k = [] \<and> s' = s)"
proof -
  have "(case rows of [] \<Rightarrow> retS None | kw # _ \<Rightarrow> claim_row worker reason (snd kw)) s1 = (Inr None, s')
      \<longleftrightarrow> rows = [] \<and> s' = s1" for rows s1
    by (cases rows) (auto simp: claim_row_Inr retS_iff)
  note rows = this
  show ?thesis unfolding claim_next_def claim_candidates_def transaction_Inr bindS_Inr_iff liftS_iff getS_iff
    by (simp add: rows transaction_Inr bindS_Inr_iff getS_iff del: prog_simps)
qed

lemma claim_next_Some [result_simps]:
  "claim_next kt worker reason s = (Inr (Some r), s') \<longleftrightarrow>
     (\<exists>k kw rest. job_kind_of kt = Inr k \<and> claim_candidates s k = kw # rest \<and>
        claim_row worker reason (snd kw) s = (Inr (Some r), s'))"
proof -
  have "(case rows of [] \<Rightarrow> retS None | kw # _ \<Rightarrow> claim_row worker reason (snd kw)) s1 = (Inr (Some r), s')
      \<longleftrightarrow> (\<exists>kw rest. rows = kw # rest \<and> claim_row worker reason (snd kw) s1 = (Inr (Some r), s'))" for rows s1
    by (cases rows) (auto simp: retS_iff)
  note rows = this
  show ?thesis unfolding claim_next_def claim_candidates_def transaction_Inr bindS_Inr_iff liftS_iff getS_iff
    by (simp add: rows transaction_Inr bindS_Inr_iff getS_iff del: prog_simps)
qed

lemma enqueue_Inl: "enqueue kt spec jid m reason s = (Inl e, s') \<Longrightarrow> same_tables s s'"
  unfolding enqueue_def bindS_Inl_iff liftS_iff
  by (auto dest!: transaction_Inl)

lemma enqueue_Inr [result_simps]:
  "enqueue kt spec jid m reason s = (Inr r, s') \<longleftrightarrow>
     (\<exists>k h i. job_kind_of kt = Inr k \<and> canonical_json_hash (JObj spec) = Inr h \<and>
        enqueue_id jid k spec = Inr i \<and>
        r = fresh_job i k h spec m (clock s (tick s)) \<and> job_ok r \<and> map_of (jobs s) i = None \<and> reason \<noteq> [] \<and>
        s' = write_job r (new_transition i None QUEUED None reason (clock s (tick s + 2)))
               (s\<lparr>tick := Suc (tick s)\<rparr>))"
proof -
  have ne: "job_ok (fresh_job i k h spec m t) \<Longrightarrow> i \<noteq> []" for i k h t by (simp add: job_ok_def fresh_job_def)
  have f: "j_id (fresh_job i k h spec m t) = i" "j_status (fresh_job i k h spec m t) = QUEUED" for i k h t
    by (simp_all add: fresh_job_def)
  show ?thesis
    unfolding enqueue_def write_job_def
    apply (auto simp: result_simps ne f simp del: prog_simps split: option.splits)
    subgoal for k h i by (rule exI [of _ i]) (auto simp: ne)
    done
qed

lemma update_spec_Inl: "update_queued_input_spec jid spec worker reason s = (Inl e, s') \<Longrightarrow> same_tables s s'"
  unfolding update_queued_input_spec_def bindS_Inl_iff liftS_iff
  by (auto dest!: transaction_Inl)

lemma update_spec_Inr [result_simps]:
  "update_queued_input_spec jid spec worker reason s = (Inr r, s') \<longleftrightarrow>
     (\<exists>w h. canonical_json_hash (JObj spec) = Inr h \<and> map_of (jobs s) jid = Some w \<and> job_ok (w_record w) \<and>
        j_status (w_record w) = QUEUED \<and> jid \<noteq> [] \<and> reason \<noteq> [] \<and>
        r = (w_record w)\<lparr>j_spec_hash := h, j_spec := spec\<rparr> \<and>
        s' = write_job r (new_transition jid (Some QUEUED) QUEUED worker reason (clock s (Suc (tick s)))) s)"
  unfolding update_queued_input_spec_def write_job_def
  by (auto simp: result_simps Let_def simp del: prog_simps)

lemma record_heartbeat_Inl: "record_heartbeat jid worker details s = (Inl e, s') \<Longrightarrow> same_tables s s'"
  unfolding record_heartbeat_def by (rule transaction_Inl)

lemma heartbeat_identity_finite: "all_finite (heartbeat_identity jid worker st now details)"
  by (auto simp: heartbeat_identity_def list_all_iff)

definition new_heartbeat :: "string \<Rightarrow> string \<Rightarrow> status \<Rightarrow> instant \<Rightarrow> (string \<times> string) list \<Rightarrow> heartbeat" where
  "new_heartbeat jid worker st now details = \<lparr>h_id = digest (heartbeat_identity jid worker st now details),
     h_job = jid, h_worker = worker, h_status = st, h_at = now, h_details = details\<rparr>"

lemma record_heartbeat_Inr [result_simps]:
  "record_heartbeat jid worker details s = (Inr h, s') \<longleftrightarrow>
     (\<exists>w r. map_of (jobs s) jid = Some w \<and> job_ok (w_record w) \<and> j_status (w_record w) \<in> {CLAIMED, RUNNING} \<and>
        jid \<noteq> [] \<and> worker \<noteq> [] \<and>
        h = new_heartbeat jid worker (j_status (w_record w)) (clock s (tick s)) details \<and>
        r = (w_record w)\<lparr>j_heartbeat_at := Some (clock s (tick s)), j_lock_owner := Some worker\<rparr> \<and>
        s' = s\<lparr>jobs := insert_or_replace (j_id r) (job_row_of r (clock s (Suc (tick s)))) (jobs s),
               tick := Suc (Suc (tick s)), heartbeats := insert_or_replace (h_id h) h (heartbeats s)\<rparr>)"
  unfolding record_heartbeat_def new_heartbeat_def
  by (auto simp: result_simps canonical_json_hash_digest [OF heartbeat_identity_finite] simp del: prog_simps)

lemmas fail_records = failed_job_def retrying_job_def requeued_job_def

lemma fail_records_id [simp]:
  "j_id (failed_job r n w b x y z) = j_id r" "j_id (retrying_job r n) = j_id r" "j_id (requeued_job r) = j_id r"
  by (simp_all add: fail_records)

definition can_retry :: "bool \<Rightarrow> job \<Rightarrow> bool" where
  "can_retry retryable r \<longleftrightarrow> retryable \<and> j_attempts r < j_max_attempts r"

text \<open>The first write of \<open>fail_job\<close>, and the three writes of a failure that is retried.\<close>

definition fail_write :: "job \<Rightarrow> string \<Rightarrow> string \<Rightarrow> string \<Rightarrow> bool \<Rightarrow> string list \<Rightarrow> string list \<Rightarrow> string list \<Rightarrow> wstore \<Rightarrow> wstore" where
  "fail_write cur jid worker reason retryable o_refs a_refs g_ids s =
     write_job (failed_job cur (clock s (tick s)) reason retryable o_refs a_refs g_ids)
       (new_transition jid (Some (j_status cur)) FAILED (Some worker) reason (clock s (tick s + 2)))
       (s\<lparr>tick := Suc (tick s)\<rparr>)"

definition retry_writes :: "job \<Rightarrow> string \<Rightarrow> string \<Rightarrow> wstore \<Rightarrow> wstore" where
  "retry_writes retrying jid worker s =
     (let s1 = write_job retrying (new_transition jid (Some FAILED) RETRYING (Some worker) ''retry_scheduled''
                 (clock s (Suc (tick s)))) s
      in write_job (requeued_job retrying) (new_transition jid (Some RETRYING) QUEUED (Some worker) ''retry_requeued''
                 (clock s1 (Suc (tick s1)))) s1)"

lemma fail_job_Inl: "fail_job jid worker reason b o_refs a_refs g_ids s = (Inl e, s') \<Longrightarrow> same_tables s s'"
  unfolding fail_job_def by (rule transaction_Inl)

lemma requeue_failed_step:
  assumes "jid \<noteq> []"
  shows "requeue_failed jid worker now failed s =
    (Inr (requeued_job (retrying_job failed now)), retry_writes (retrying_job failed now) jid worker s)"
  using assms
  by (simp add: requeue_failed_def Let_def bindS_def insert_transition_ok retry_writes_def write_job_def)

lemma fail_job_step:
  assumes "map_of (jobs s) jid = Some w" "job_ok (w_record w)" "j_status (w_record w) \<notin> set TERMINAL_STATUSES"
    and "jid \<noteq> []" "reason \<noteq> []"
  shows "fail_job jid worker reason b o_refs a_refs g_ids s =
    (let cur = w_record w; now = clock s (tick s); failed = failed_job cur now reason b o_refs a_refs g_ids;
         s1 = fail_write cur jid worker reason b o_refs a_refs g_ids s in
     if can_retry b cur then (Inr (requeued_job (retrying_job failed now)), retry_writes (retrying_job failed now) jid worker s1)
     else (Inr failed, s1))"
proof -
  have req: "require_job jid s = (Inr (w_record w), s)" using assms by (simp add: require_job_Inr)
  have g: "guardE (j_status (w_record w) \<notin> set TERMINAL_STATUSES) e = Inr ()" for e
    using assms(3) by simp
  show ?thesis
    unfolding fail_job_def transaction_def
    by (simp add: bindS_def req g Let_def insert_transition_ok assms(4,5)
        can_retry_def fail_write_def write_job_def linorder_not_le split del: if_split)
       (auto simp: requeue_failed_step [OF assms(4)])
qed

lemma fail_job_Inr [result_simps]:
  "fail_job jid worker reason b o_refs a_refs g_ids s = (Inr r, s') \<longleftrightarrow>
     (\<exists>w cur now s1. map_of (jobs s) jid = Some w \<and> cur = w_record w \<and> job_ok cur \<and>
        j_status cur \<notin> set TERMINAL_STATUSES \<and> jid \<noteq> [] \<and> reason \<noteq> [] \<and> now = clock s (tick s) \<and>
        s1 = fail_write cur jid worker reason b o_refs a_refs g_ids s \<and>
        (if can_retry b cur
         then r = requeued_job (retrying_job (failed_job cur now reason b o_refs a_refs g_ids) now) \<and>
              s' = retry_writes (retrying_job (failed_job cur now reason b o_refs a_refs g_ids) now) jid worker s1
         else r = failed_job cur now reason b o_refs a_refs g_ids \<and> s' = s1))"
    (is "?lhs \<longleftrightarrow> ?rhs")
proof
  assume l: ?lhs
  then obtain w where w: "map_of (jobs s) jid = Some w" "job_ok (w_record w)"
    "j_status (w_record w) \<notin> set TERMINAL_STATUSES" "jid \<noteq> []" "reason \<noteq> []"
    unfolding fail_job_def transaction_Inr bindS_Inr_iff require_job_Inr liftS_iff guardE_Inr_iff Let_def
      insert_transition_Inr by blast
  show ?rhs using l w unfolding fail_job_step [OF w] Let_def by (auto split: if_splits)
next
  assume ?rhs
  then show ?lhs using fail_job_step [of s jid _ reason worker b o_refs a_refs g_ids]
    by (auto simp: Let_def split: if_splits)
qed

lemma succeed_job_unfold:
  "succeed_job jid worker o_refs a_refs g_ids reason s = (Inr r, s') \<longleftrightarrow>
     (\<exists>w. map_of (jobs s) jid = Some w \<and> job_ok (w_record w) \<and>
       transition_job jid SUCCEEDED (Some worker) reason
          (\<lambda>r. r\<lparr>j_finished_at := Some (clock s (tick s)), j_terminal := True,
             j_output_refs := uniq (j_output_refs (w_record w) @ o_refs),
             j_archive_refs := uniq (j_archive_refs (w_record w) @ a_refs),
             j_gap_ids := uniq (j_gap_ids (w_record w) @ g_ids)\<rparr>)
          [RUNNING, CLAIMED] (s\<lparr>tick := Suc (tick s)\<rparr>) = (Inr r, s'))"
  unfolding succeed_job_def load_job_def bindS_Inr_iff transaction_Inr load_job_row_Inr
  by (cases "map_of (jobs s) jid") (auto simp: raiseS_iff bindS_Inr_iff simp del: prog_simps)

lemma succeed_job_Inr [result_simps]:
  "succeed_job jid worker o_refs a_refs g_ids reason s = (Inr r, s') \<longleftrightarrow>
     (\<exists>w cur. map_of (jobs s) jid = Some w \<and> cur = w_record w \<and> job_ok cur \<and>
        j_status cur \<in> {RUNNING, CLAIMED} \<and> jid \<noteq> [] \<and> reason \<noteq> [] \<and>
        r = cur\<lparr>j_status := SUCCEEDED, j_finished_at := Some (clock s (tick s)), j_terminal := True,
             j_output_refs := uniq (j_output_refs cur @ o_refs),
             j_archive_refs := uniq (j_archive_refs cur @ a_refs),
             j_gap_ids := uniq (j_gap_ids cur @ g_ids)\<rparr> \<and>
        s' = write_job r (new_transition jid (Some (j_status cur)) SUCCEEDED (Some worker) reason
               (clock s (tick s + 2))) (s\<lparr>tick := Suc (tick s)\<rparr>))"
  unfolding succeed_job_unfold transition_job_Inr by fastforce

lemma succeed_job_Inl: "succeed_job jid worker o_refs a_refs g_ids reason s = (Inl e, s') \<Longrightarrow> same_tables s s'"
  unfolding succeed_job_def load_job_def
  by (auto simp: bindS_Inl_iff transaction_Inr raiseS_iff simp del: prog_simps split: option.splits
      dest!: transaction_Inl transition_job_Inl load_job_row_state)

lemma start_job_Inl: "start_job jid worker reason s = (Inl e, s') \<Longrightarrow> same_tables s s'"
  unfolding start_job_def by (auto simp: bindS_Inl_iff dest!: transition_job_Inl)

lemma retry_job_Inl: "retry_job jid worker reason s = (Inl e, s') \<Longrightarrow> same_tables s s'"
  unfolding retry_job_def by (rule transition_job_Inl)

lemma cancel_job_Inl: "cancel_job jid worker reason s = (Inl e, s') \<Longrightarrow> same_tables s s'"
  unfolding cancel_job_def by (auto simp: bindS_Inl_iff dest!: transition_job_Inl)

lemma stale_one_Inl: "stale_one worker reason r s = (Inl e, s') \<Longrightarrow> same_tables s s'"
  unfolding stale_one_def by (auto simp: bindS_Inl_iff dest!: transition_job_Inl)

lemma record_gap_Inl: "record_gap jid kt reason worker st en b n s = (Inl e, s') \<Longrightarrow> same_tables s s'"
  unfolding record_gap_def
  by (auto simp: bindS_Inl_iff liftS_iff retS_iff simp del: prog_simps dest!: transaction_Inl)

lemma record_gap_Inr:
  assumes "record_gap jid kt reason worker st en b n s = (Inr g, s')"
  shows "\<exists>w r u. map_of (jobs s) jid = Some w \<and> job_ok (w_record w) \<and> validate_gap g = Inr g \<and>
     r = (w_record w)\<lparr>j_gap_ids := uniq (j_gap_ids (w_record w) @ [g_id g])\<rparr> \<and>
     jobs s' = insert_or_replace (j_id r) (job_row_of r u) (jobs s) \<and>
     gaps s' = insert_or_replace (g_id g) g (gaps s) \<and>
     transitions s' = transitions s \<and> heartbeats s' = heartbeats s \<and> clock s' = clock s"
proof -
  have v: "validate_gap x = Inr y \<Longrightarrow> y = x" for x y
    by (auto simp: validate_gap_def bindE_Inr_iff validate_model_Inr_iff)
  obtain x where x: "validate_gap x = Inr g" and t: "(\<exists>s1 u n. transaction (
       bindS (require_job jid) (\<lambda>current.
       bindS (upsert_job (current\<lparr>j_gap_ids := uniq (j_gap_ids current @ [g_id g])\<rparr>)) (\<lambda>_.
       modifyS (\<lambda>s. s\<lparr>gaps := insert_or_replace (g_id g) g (gaps s)\<rparr>)))) (s\<lparr>tick := n\<rparr>) = (Inr u, s1) \<and> s' = s1)"
    using assms unfolding record_gap_def bindS_Inr_iff liftS_iff utc_now_step retS_iff
    by (elim exE conjE) (auto simp del: transaction_Inr)
  show ?thesis using t v [OF x] x
    by (auto simp: bindS_Inr_iff require_job_Inr modifyS_iff simp del: prog_simps)
qed

end
