(* ===== verification/WorkerSafety.thy ===== *)
theory WorkerSafety
  imports WorkerProps
begin

text \<open>
  The invariant of the worker store and the status state machine.  The steps are the calls of the
  store's operations, whatever they return; the side conditions of a step are what the callers
  under \<open>workers/\<close> keep and the operations do not check themselves: a worker has a name, and a
  job is retried by hand only while it has attempts left.
\<close>

section \<open>The invariant\<close>

definition row_ok :: "string \<Rightarrow> job_row \<Rightarrow> bool" where
  "row_ok k w \<longleftrightarrow> k = j_id (w_record w) \<and> w = (job_row_of (w_record w) 0)\<lparr>w_updated_at := w_updated_at w\<rparr> \<and>
     job_ok (w_record w) \<and> j_status (w_record w) \<noteq> RETRYING \<and>
     (j_status (w_record w) = QUEUED \<longrightarrow> j_attempts (w_record w) < j_max_attempts (w_record w))"

definition store_ok :: "wstore \<Rightarrow> bool" where
  "store_ok s \<longleftrightarrow> distinct (map fst (jobs s)) \<and> (\<forall>(k, w) \<in> set (jobs s). row_ok k w) \<and>
     (\<forall>(k, t) \<in> set (transitions s). validate_transition t = Inr t) \<and>
     (\<forall>(k, h) \<in> set (heartbeats s). validate_heartbeat h = Inr h) \<and>
     (\<forall>(k, g) \<in> set (gaps s). validate_gap g = Inr g)"

definition empty_store :: "wstore \<Rightarrow> bool" where
  "empty_store s \<longleftrightarrow> jobs s = [] \<and> transitions s = [] \<and> heartbeats s = [] \<and> gaps s = []"

text \<open>A record that may be written: valid, and with an attempt left when it is queued.\<close>

definition job_safe :: "job \<Rightarrow> bool" where
  "job_safe r \<longleftrightarrow> job_ok r \<and> j_status r \<noteq> RETRYING \<and> (j_status r = QUEUED \<longrightarrow> j_attempts r < j_max_attempts r)"

lemma row_ok_row_of [simp]: "row_ok k (job_row_of r u) \<longleftrightarrow> k = j_id r \<and> job_safe r"
  by (auto simp: row_ok_def job_row_of_def job_safe_def)

lemma store_ok_row: "store_ok s \<Longrightarrow> map_of (jobs s) k = Some w \<Longrightarrow> row_ok k w"
  by (auto simp: store_ok_def dest!: map_of_SomeD)

lemma row_ok_safe: "row_ok k w \<Longrightarrow> job_safe (w_record w)"
  by (simp add: row_ok_def job_safe_def)

lemma row_ok_id: "row_ok k w \<Longrightarrow> j_id (w_record w) = k"
  by (simp add: row_ok_def)

lemma row_ok_columns:
  assumes "row_ok k w"
  shows "w_kind w = kind_value (j_kind (w_record w))" "w_status w = status_value (j_status (w_record w))"
    "w_queued_at w = iso_of_instant (j_queued_at (w_record w))"
  using assms unfolding row_ok_def by (metis job_row_of_def job_row.simps(1,2,4) job_row.update_convs(5) job_row.surjective job_row.ext_inject)+

lemma store_ok_jobs:
  assumes "store_ok s" "jobs s' = insert_or_replace (j_id r) (job_row_of r u) (jobs s)" "job_safe r"
    and "\<forall>(k, t) \<in> set (transitions s'). validate_transition t = Inr t"
    and "\<forall>(k, h) \<in> set (heartbeats s'). validate_heartbeat h = Inr h"
    and "\<forall>(k, g) \<in> set (gaps s'). validate_gap g = Inr g"
  shows "store_ok s'"
  using assms by (auto simp: store_ok_def distinct_insert_or_replace set_insert_or_replace)

lemma store_ok_same: "store_ok s \<Longrightarrow> same_tables s s' \<Longrightarrow> store_ok s'"
  by (auto simp: store_ok_def same_tables_tables)

lemma new_transition_valid:
  "jid \<noteq> [] \<Longrightarrow> reason \<noteq> [] \<Longrightarrow> validate_transition (new_transition jid f t w reason now) = Inr (new_transition jid f t w reason now)"
  by (simp add: validate_transition_Inr new_transition_def)

lemma store_ok_write_job:
  assumes "store_ok s" "job_safe r" "jid \<noteq> []" "reason \<noteq> []"
  shows "store_ok (write_job r (new_transition jid f t w reason now) s)"
  by (rule store_ok_jobs [OF assms(1) _ assms(2)])
     (use assms in \<open>auto simp: store_ok_def set_insert_or_replace new_transition_valid\<close>)

lemma store_ok_tick [simp]: "store_ok (s\<lparr>tick := n\<rparr>) = store_ok s"
  by (simp add: store_ok_def)

lemma job_ok_nonempty: "job_ok r \<Longrightarrow> j_id r \<noteq> []"
  by (simp add: job_ok_def)

lemmas safe_defs = job_safe_def job_ok_def TERMINAL_STATUSES_def text_given_def

lemma claim_candidates_member:
  assumes "claim_candidates s k = kw # rest"
  shows "kw \<in> set (jobs s)" "w_kind (snd kw) = kind_value k" "w_status (snd kw) = status_value QUEUED"
proof -
  have "kw \<in> set (claim_candidates s k)" using assms by simp
  then show "kw \<in> set (jobs s)" "w_kind (snd kw) = kind_value k" "w_status (snd kw) = status_value QUEUED"
    by (auto simp: claim_candidates_def)
qed

lemma store_ok_member: "store_ok s \<Longrightarrow> kw \<in> set (jobs s) \<Longrightarrow> row_ok (fst kw) (snd kw)"
  by (auto simp: store_ok_def)

section \<open>Every operation keeps it\<close>

lemma claim_next_ok:
  assumes s: "store_ok s" and w: "worker \<noteq> []" and c: "claim_next kt worker reason s = (x, s')"
  shows "store_ok s'"
proof (cases x)
  case (Inl e)
  then show ?thesis using c claim_next_Inl store_ok_same [OF s] by blast
next
  case (Inr y)
  show ?thesis
  proof (cases y)
    case None
    then show ?thesis using c s Inr by (auto simp: claim_next_None)
  next
    case (Some r)
    then obtain k kw rest where cc: "claim_candidates s k = kw # rest"
      and r: "claim_row worker reason (snd kw) s = (Inr (Some r), s')" using c Inr by (auto simp: claim_next_Some)
    have ok: "row_ok (fst kw) (snd kw)" using store_ok_member [OF s] claim_candidates_member(1) [OF cc] by blast
    have "j_status (w_record (snd kw)) = QUEUED"
      using row_ok_columns(2) [OF ok] claim_candidates_member(3) [OF cc] by (metis status_value_inj)
    then have "job_safe (claimed_job (w_record (snd kw)) (clock s (tick s)) worker)"
      using row_ok_safe [OF ok] w by (auto simp: safe_defs claimed_job_def)
    then show ?thesis using r s by (auto simp: claim_row_Inr job_ok_nonempty intro!: store_ok_write_job)
  qed
qed

lemma enqueue_ok:
  assumes s: "store_ok s" and c: "enqueue kt spec jid m reason s = (x, s')"
  shows "store_ok s'"
proof (cases x)
  case (Inl e)
  then show ?thesis using c enqueue_Inl store_ok_same [OF s] by blast
next
  case (Inr r)
  have "job_ok (fresh_job i k h spec m t) \<Longrightarrow> job_safe (fresh_job i k h spec m t) \<and> i \<noteq> []" for i k h t
    by (auto simp: job_safe_def job_ok_def fresh_job_def)
  then show ?thesis using c s Inr by (auto simp: enqueue_Inr intro!: store_ok_write_job)
qed

lemma update_spec_ok:
  assumes s: "store_ok s" and c: "update_queued_input_spec jid spec worker reason s = (x, s')"
  shows "store_ok s'"
proof (cases x)
  case (Inl e)
  then show ?thesis using c update_spec_Inl store_ok_same [OF s] by blast
next
  case (Inr r)
  then obtain w h where w: "map_of (jobs s) jid = Some w" "canonical_json_hash (JObj spec) = Inr h"
    "jid \<noteq> []" "reason \<noteq> []" "s' = write_job ((w_record w)\<lparr>j_spec_hash := h, j_spec := spec\<rparr>)
       (new_transition jid (Some QUEUED) QUEUED worker reason (clock s (Suc (tick s)))) s"
    using c by (auto simp: update_spec_Inr)
  have "job_safe ((w_record w)\<lparr>j_spec_hash := h, j_spec := spec\<rparr>)"
    using row_ok_safe [OF store_ok_row [OF s w(1)]] canonical_json_hash_length [OF w(2)] by (simp add: safe_defs)
  then show ?thesis using w s by (auto intro!: store_ok_write_job)
qed

lemma transition_job_ok:
  assumes s: "store_ok s" and c: "transition_job jid to_st worker reason upd allowed s = (x, s')"
    and u: "\<And>w. map_of (jobs s) jid = Some w \<Longrightarrow> job_safe (w_record w) \<Longrightarrow> j_status (w_record w) \<in> set allowed
      \<Longrightarrow> job_safe (upd ((w_record w)\<lparr>j_status := to_st\<rparr>))"
  shows "store_ok s'"
proof (cases x)
  case (Inl e)
  then show ?thesis using c transition_job_Inl store_ok_same [OF s] by blast
next
  case (Inr r)
  then show ?thesis using c s u row_ok_safe [OF store_ok_row [OF s]]
    by (auto simp: transition_job_Inr intro!: store_ok_write_job)
qed

lemma start_job_ok:
  assumes s: "store_ok s" and w: "worker \<noteq> []" and c: "start_job jid worker reason s = (x, s')"
  shows "store_ok s'"
proof (rule transition_job_ok)
  show "store_ok (s\<lparr>tick := Suc (Suc (tick s))\<rparr>)" using s by simp
qed (use c w in \<open>auto simp: start_job_def bindS_def safe_defs\<close>)

lemma retry_job_ok:
  assumes s: "store_ok s" and c: "retry_job jid worker reason s = (x, s')"
    and a: "\<And>w. map_of (jobs s) jid = Some w \<Longrightarrow> j_attempts (w_record w) < j_max_attempts (w_record w)"
  shows "store_ok s'"
  by (rule transition_job_ok [OF s c [unfolded retry_job_def]]) (use a in \<open>auto simp: safe_defs\<close>)

lemma cancel_job_ok:
  assumes s: "store_ok s" and c: "cancel_job jid worker reason s = (x, s')"
  shows "store_ok s'"
proof (rule transition_job_ok)
  show "store_ok (s\<lparr>tick := Suc (tick s)\<rparr>)" using s by simp
qed (use c in \<open>auto simp: cancel_job_def bindS_def safe_defs\<close>)

lemma stale_one_ok:
  assumes s: "store_ok s" and c: "stale_one worker reason r s = (x, s')"
  shows "store_ok s'"
proof -
  have t: "transition_job (j_id r) STALE (Some worker) reason
      (\<lambda>r. r\<lparr>j_finished_at := Some (clock s (tick s)), j_failure_reason := Some reason, j_terminal := False\<rparr>)
      [j_status r] (s\<lparr>tick := Suc (tick s)\<rparr>) = (x, s')"
    using c by (simp add: stale_one_def bindS_def)
  show ?thesis by (rule transition_job_ok [OF _ t]) (use s in \<open>simp_all add: safe_defs\<close>)
qed

lemma succeed_job_ok:
  assumes s: "store_ok s" and c: "succeed_job jid worker o_refs a_refs g_ids reason s = (x, s')"
  shows "store_ok s'"
proof (cases x)
  case (Inl e)
  then show ?thesis using c succeed_job_Inl store_ok_same [OF s] by blast
next
  case (Inr r)
  obtain w :: job_row where w: "transition_job jid SUCCEEDED (Some worker) reason
      (\<lambda>r. r\<lparr>j_finished_at := Some (clock s (tick s)), j_terminal := True,
             j_output_refs := uniq (j_output_refs (w_record w) @ o_refs),
             j_archive_refs := uniq (j_archive_refs (w_record w) @ a_refs),
             j_gap_ids := uniq (j_gap_ids (w_record w) @ g_ids)\<rparr>) [RUNNING, CLAIMED] (s\<lparr>tick := Suc (tick s)\<rparr>) = (Inr r, s')"
    using c unfolding Inr succeed_job_unfold by blast
  show ?thesis by (rule transition_job_ok [OF _ w]) (use s in \<open>auto simp: safe_defs\<close>)
qed

lemma fail_job_ok:
  assumes s: "store_ok s" and c: "fail_job jid worker reason b o_refs a_refs g_ids s = (x, s')"
  shows "store_ok s'"
proof (cases x)
  case (Inl e)
  then show ?thesis using c fail_job_Inl store_ok_same [OF s] by blast
next
  case (Inr r)
  let ?F = "\<lambda>cur. failed_job cur (clock s (tick s)) reason b o_refs a_refs g_ids"
  obtain w where w: "map_of (jobs s) jid = Some w" "jid \<noteq> []" "reason \<noteq> []"
    and r: "if can_retry b (w_record w)
      then s' = retry_writes (retrying_job (?F (w_record w)) (clock s (tick s))) jid worker
                  (fail_write (w_record w) jid worker reason b o_refs a_refs g_ids s)
      else s' = fail_write (w_record w) jid worker reason b o_refs a_refs g_ids s"
    using c Inr by (auto simp: fail_job_Inr split: if_splits)
  have safe: "job_safe (w_record w)" using row_ok_safe [OF store_ok_row [OF s w(1)]] .
  show ?thesis
  proof (cases "can_retry b (w_record w)")
    case True
    have q: "job_safe (requeued_job (retrying_job (?F (w_record w)) (clock s (tick s))))"
      using safe True by (auto simp: safe_defs fail_records can_retry_def)
    show ?thesis
      by (rule store_ok_jobs [OF s _ q, where u = "clock s (Suc (Suc (Suc (Suc (Suc (tick s))))))"])
         (use r True s w in \<open>auto simp: retry_writes_def fail_write_def Let_def store_ok_def set_insert_or_replace new_transition_valid\<close>)
  next
    case False
    then have "job_safe (?F (w_record w))" using safe by (auto simp: safe_defs fail_records can_retry_def)
    then show ?thesis using r False w s by (simp add: fail_write_def store_ok_write_job)
  qed
qed

lemma record_heartbeat_ok:
  assumes s: "store_ok s" and c: "record_heartbeat jid worker details s = (x, s')"
  shows "store_ok s'"
proof (cases x)
  case (Inl e)
  then show ?thesis using c record_heartbeat_Inl store_ok_same [OF s] by blast
next
  case (Inr h)
  then obtain w r where w: "map_of (jobs s) jid = Some w" "jid \<noteq> []" "worker \<noteq> []"
    "r = (w_record w)\<lparr>j_heartbeat_at := Some (clock s (tick s)), j_lock_owner := Some worker\<rparr>"
    "h = new_heartbeat jid worker (j_status (w_record w)) (clock s (tick s)) details"
    "s' = s\<lparr>jobs := insert_or_replace (j_id r) (job_row_of r (clock s (Suc (tick s)))) (jobs s),
            tick := Suc (Suc (tick s)), heartbeats := insert_or_replace (h_id h) h (heartbeats s)\<rparr>"
    using c by (auto simp: record_heartbeat_Inr)
  have safe: "job_safe r" using row_ok_safe [OF store_ok_row [OF s w(1)]] w(3,4) by (simp add: safe_defs)
  have v: "validate_heartbeat h = Inr h" using w by (simp add: validate_heartbeat_Inr new_heartbeat_def)
  have j: "jobs s' = insert_or_replace (j_id r) (job_row_of r (clock s (Suc (tick s)))) (jobs s)" using w(6) by simp
  show ?thesis by (rule store_ok_jobs [OF s j safe])
    (use w(6) v s in \<open>auto simp: store_ok_def set_insert_or_replace\<close>)
qed

lemma record_gap_ok:
  assumes s: "store_ok s" and c: "record_gap jid kt reason worker st en b n s = (x, s')"
  shows "store_ok s'"
proof (cases x)
  case (Inl e)
  then show ?thesis using c record_gap_Inl store_ok_same [OF s] by blast
next
  case (Inr g)
  from record_gap_Inr [OF c [unfolded Inr]] obtain w r u where
    w: "map_of (jobs s) jid = Some w" "validate_gap g = Inr g"
      "r = (w_record w)\<lparr>j_gap_ids := uniq (j_gap_ids (w_record w) @ [g_id g])\<rparr>"
      "jobs s' = insert_or_replace (j_id r) (job_row_of r u) (jobs s)"
      "gaps s' = insert_or_replace (g_id g) g (gaps s)" "transitions s' = transitions s" "heartbeats s' = heartbeats s"
    by blast
  have safe: "job_safe r" using row_ok_safe [OF store_ok_row [OF s w(1)]] w(3) by (simp add: safe_defs)
  show ?thesis by (rule store_ok_jobs [OF s w(4) safe])
    (use w s in \<open>auto simp: store_ok_def set_insert_or_replace\<close>)
qed

lemma list_jobs_state: "list_jobs k st s = (x, s') \<Longrightarrow> s' = s"
  by (auto simp: list_jobs_def bindS_def split: sum.splits)

lemma mark_stale_ok:
  assumes s: "store_ok s" and c: "mark_stale_jobs d worker reason s = (x, s')"
  shows "store_ok s'"
proof -
  have loop: "store_ok s1 \<Longrightarrow> mapS (stale_one worker reason) rs s1 = (y, s2) \<Longrightarrow> store_ok s2" for rs s1 s2 y
    using mapS_keeps [of store_ok "stale_one worker reason" s1 rs] stale_one_ok [of _ worker reason]
    by (metis prod.collapse snd_conv)
  show ?thesis using c s
    by (auto simp: mark_stale_jobs_def bindS_def split: sum.splits prod.splits dest!: list_jobs_state dest: loop [rotated])
qed

end
