(* ===== verification/WorkerMachine.thy ===== *)
theory WorkerMachine
  imports WorkerSafety
begin

text \<open>
  The worker store as a system of calls: the step relation, its reachable stores, and the state
  machine of job statuses that \<open>docs/contracts/worker_job_contract.md\<close> describes, which every
  call refines.
\<close>

section \<open>Calls and steps\<close>

datatype wcall =
    Enqueue string "(string \<times> json) list" "string option" int string
  | UpdateSpec string "(string \<times> json) list" "string option" string
  | Claim string string string
  | Start string string string
  | Heartbeat string string "(string \<times> string) list"
  | Succeed string string "string list" "string list" "string list" string
  | Fail string string string bool "string list" "string list" "string list"
  | Retry string string string
  | Cancel string string string
  | MarkStale int string string
  | RecordGap string string string "string option" "pydatetime option" "pydatetime option" int int

definition voidS :: "('s, 'a) prog \<Rightarrow> ('s, unit) prog" where
  "voidS p = bindS p (\<lambda>_. retS ())"

fun run_call :: "wcall \<Rightarrow> (wstore, unit) prog" where
  "run_call (Enqueue k spec j m reason) = voidS (enqueue k spec j m reason)"
| "run_call (UpdateSpec j spec w reason) = voidS (update_queued_input_spec j spec w reason)"
| "run_call (Claim k w reason) = voidS (claim_next k w reason)"
| "run_call (Start j w reason) = voidS (start_job j w reason)"
| "run_call (Heartbeat j w d) = voidS (record_heartbeat j w d)"
| "run_call (Succeed j w o_refs a_refs g_ids reason) = voidS (succeed_job j w o_refs a_refs g_ids reason)"
| "run_call (Fail j w reason b o_refs a_refs g_ids) = voidS (fail_job j w reason b o_refs a_refs g_ids)"
| "run_call (Retry j w reason) = voidS (retry_job j w reason)"
| "run_call (Cancel j w reason) = voidS (cancel_job j w reason)"
| "run_call (MarkStale d w reason) = voidS (mark_stale_jobs d w reason)"
| "run_call (RecordGap j k reason w st en b n) = voidS (record_gap j k reason w st en b n)"

text \<open>What the callers keep and the operations do not check.\<close>

fun call_allowed :: "wstore \<Rightarrow> wcall \<Rightarrow> bool" where
  "call_allowed s (Claim k w reason) = (w \<noteq> [])"
| "call_allowed s (Start j w reason) = (w \<noteq> [])"
| "call_allowed s (Retry j w reason) = (case map_of (jobs s) j of None \<Rightarrow> True
     | Some row \<Rightarrow> j_attempts (w_record row) < j_max_attempts (w_record row))"
| "call_allowed s c = True"

inductive wstep :: "wstore \<Rightarrow> wstore \<Rightarrow> bool" where
  call: "call_allowed s c \<Longrightarrow> run_call c s = (x, s') \<Longrightarrow> wstep s s'"

inductive_cases wstepE: "wstep s s'"

inductive_simps wstep_iff: "wstep s s'"

lemma voidS_iff: "voidS p s = (y, s') \<longleftrightarrow> (\<exists>x. p s = (x, s') \<and> y = map_sum id (\<lambda>_. ()) x)"
  by (cases "p s"; cases "fst (p s)") (auto simp: voidS_def bindS_def)

lemma voidS_Inl: "voidS p s = (Inl e, s') \<longleftrightarrow> p s = (Inl e, s')"
  by (auto simp: voidS_def bindS_def split: sum.splits prod.splits)

lemma wstep_call: "call_allowed s c \<Longrightarrow> wstep s (snd (run_call c s))"
  by (rule wstep.call [where c = c and x = "fst (run_call c s)"]) simp_all

lemma run_call_ok: "store_ok s \<Longrightarrow> call_allowed s c \<Longrightarrow> run_call c s = (x, s') \<Longrightarrow> store_ok s'"
  by (cases c) (auto simp: voidS_iff split: option.splits
      dest: enqueue_ok update_spec_ok claim_next_ok [rotated 2] start_job_ok [rotated 2] record_heartbeat_ok
        succeed_job_ok fail_job_ok retry_job_ok cancel_job_ok mark_stale_ok record_gap_ok)

interpretation worker_store: step_system empty_store wstep store_ok
  by unfold_locales
    (auto simp: empty_store_def store_ok_def elim!: wstepE dest: run_call_ok [unfolded store_ok_def, rotated 2])

section \<open>Status moves\<close>

text \<open>The abstract contract: the moves between statuses that one call may make.\<close>

fun allowed_move :: "status \<Rightarrow> status \<Rightarrow> bool" where
  "allowed_move QUEUED b = (b \<in> {CLAIMED, CANCELLED, FAILED})"
| "allowed_move CLAIMED b = (b \<in> {RUNNING, SUCCEEDED, CANCELLED, STALE, FAILED, QUEUED})"
| "allowed_move RUNNING b = (b \<in> {SUCCEEDED, CANCELLED, STALE, FAILED, QUEUED})"
| "allowed_move STALE b = (b \<in> {QUEUED, FAILED})"
| "allowed_move FAILED b = (b = QUEUED)"
| "allowed_move CANCELLED b = (b = QUEUED)"
| "allowed_move SUCCEEDED b = False"
| "allowed_move RETRYING b = False"

definition job_status :: "wstore \<Rightarrow> string \<Rightarrow> status option" where
  "job_status s j = map_option (\<lambda>w. j_status (w_record w)) (map_of (jobs s) j)"

definition moves :: "wstore \<Rightarrow> wstore \<Rightarrow> bool" where
  "moves s s' \<longleftrightarrow> (\<forall>j a. job_status s j = Some a \<longrightarrow>
     (\<exists>b. job_status s' j = Some b \<and> (a = b \<or> allowed_move a b)))"

lemma moves_refl [simp]: "moves s s"
  by (simp add: moves_def)

lemma moves_same: "same_tables s s' \<Longrightarrow> moves s s'"
  by (auto simp: moves_def job_status_def same_tables_tables)

lemma moves_tick [simp]: "moves (s\<lparr>tick := n\<rparr>) s' = moves s s'"
  by (simp add: moves_def job_status_def)

lemma moves_write:
  assumes "jobs s' = insert_or_replace (j_id r) (job_row_of r u) (jobs s)"
    and "\<And>w. map_of (jobs s) (j_id r) = Some w \<Longrightarrow>
      j_status (w_record w) = j_status r \<or> allowed_move (j_status (w_record w)) (j_status r)"
  shows "moves s s'"
  using assms by (auto simp: moves_def job_status_def job_row_of_def)

text \<open>The write of a status change, whose job is stored under its own identity.\<close>

lemma moves_write_job:
  assumes s: "store_ok s" and w: "map_of (jobs s) jid = Some w" and "j_id r = j_id (w_record w)"
    and "j_status (w_record w) = j_status r \<or> allowed_move (j_status (w_record w)) (j_status r)"
    and "jobs s1 = jobs s"
  shows "moves s (write_job r t s1)"
  by (rule moves_write [where r = r and u = "clock s1 (tick s1)"])
     (use row_ok_id [OF store_ok_row [OF s w]] assms in auto)

lemma transition_job_moves:
  assumes s: "store_ok s" and c: "transition_job jid to_st worker reason upd allowed s = (x, s')"
    and u: "\<And>r. j_id (upd r) = j_id r \<and> j_status (upd r) = j_status r"
    and a: "\<And>a. a \<in> set allowed \<Longrightarrow> allowed_move a to_st"
  shows "moves s s'"
proof (cases x)
  case (Inl e)
  then show ?thesis using c transition_job_Inl moves_same by blast
next
  case (Inr r)
  then show ?thesis using c a by (auto simp: transition_job_Inr u intro!: moves_write_job [OF s])
qed

lemma claim_next_moves:
  assumes s: "store_ok s" and c: "claim_next kt worker reason s = (x, s')"
  shows "moves s s'"
proof (cases x)
  case (Inl e)
  then show ?thesis using c claim_next_Inl moves_same by blast
next
  case (Inr y)
  show ?thesis
  proof (cases y)
    case None
    then show ?thesis using c Inr by (auto simp: claim_next_None)
  next
    case (Some r)
    then obtain k kw rest where cc: "claim_candidates s k = kw # rest"
      and r: "claim_row worker reason (snd kw) s = (Inr (Some r), s')" using c Inr by (auto simp: claim_next_Some)
    have m: "map_of (jobs s) (fst kw) = Some (snd kw)"
      using claim_candidates_member(1) [OF cc] s by (simp add: store_ok_def)
    have ok: "row_ok (fst kw) (snd kw)" using store_ok_row [OF s m] .
    have q: "j_status (w_record (snd kw)) = QUEUED"
      using row_ok_columns(2) [OF ok] claim_candidates_member(3) [OF cc] by (metis status_value_inj)
    show ?thesis using r q s m
      by (auto simp: claim_row_Inr claimed_job_def intro!: moves_write_job [where jid = "fst kw"])
  qed
qed

lemma enqueue_moves: "enqueue kt spec jid m reason s = (x, s') \<Longrightarrow> moves s s'"
proof (cases x)
  case (Inl e)
  then show "enqueue kt spec jid m reason s = (x, s') \<Longrightarrow> moves s s'" using enqueue_Inl moves_same by blast
next
  case (Inr r)
  assume c: "enqueue kt spec jid m reason s = (x, s')"
  then obtain t s1 where "s' = write_job r t s1" "jobs s1 = jobs s" "map_of (jobs s) (j_id r) = None"
    using Inr by (auto simp: enqueue_Inr fresh_job_def)
  then show "moves s s'" by (intro moves_write [of s' r]) auto
qed

lemma update_spec_moves:
  assumes s: "store_ok s" and c: "update_queued_input_spec jid spec worker reason s = (x, s')"
  shows "moves s s'"
proof (cases x)
  case (Inl e)
  then show ?thesis using c update_spec_Inl moves_same by blast
qed (use c s in \<open>auto simp: update_spec_Inr intro!: moves_write_job\<close>)

lemma start_job_moves:
  assumes s: "store_ok s" and c: "start_job jid worker reason s = (x, s')"
  shows "moves s s'"
proof -
  have t: "transition_job jid RUNNING (Some worker) reason
      (\<lambda>r. r\<lparr>j_started_at := Some (clock s (tick s)), j_heartbeat_at := Some (clock s (Suc (tick s))),
        j_lock_owner := Some worker\<rparr>) [CLAIMED] (s\<lparr>tick := Suc (Suc (tick s))\<rparr>) = (x, s')"
    using c by (simp add: start_job_def bindS_def)
  have "moves (s\<lparr>tick := Suc (Suc (tick s))\<rparr>) s'"
    by (rule transition_job_moves [OF _ t]) (use s in auto)
  then show ?thesis by simp
qed

lemma retry_job_moves: "store_ok s \<Longrightarrow> retry_job jid worker reason s = (x, s') \<Longrightarrow> moves s s'"
  unfolding retry_job_def by (rule transition_job_moves, assumption, assumption) auto

lemma cancel_job_moves:
  assumes s: "store_ok s" and c: "cancel_job jid worker reason s = (x, s')"
  shows "moves s s'"
proof -
  have t: "transition_job jid CANCELLED (Some worker) reason
      (\<lambda>r. r\<lparr>j_finished_at := Some (clock s (tick s)), j_terminal := True\<rparr>)
      [QUEUED, CLAIMED, RUNNING] (s\<lparr>tick := Suc (tick s)\<rparr>) = (x, s')"
    using c by (simp add: cancel_job_def bindS_def)
  have "moves (s\<lparr>tick := Suc (tick s)\<rparr>) s'"
    by (rule transition_job_moves [OF _ t]) (use s in auto)
  then show ?thesis by simp
qed

lemma succeed_job_moves:
  assumes s: "store_ok s" and c: "succeed_job jid worker o_refs a_refs g_ids reason s = (x, s')"
  shows "moves s s'"
proof (cases x)
  case (Inl e)
  then show ?thesis using c succeed_job_Inl moves_same by blast
qed (use c s in \<open>auto simp: succeed_job_Inr intro!: moves_write_job\<close>)

lemma fail_records_status [simp]:
  "j_status (failed_job r n reason b x y z) = FAILED" "j_status (retrying_job r n) = RETRYING"
  "j_status (requeued_job r) = QUEUED"
  by (simp_all add: fail_records)

lemma fail_job_effect:
  assumes "fail_job jid worker reason b o_refs a_refs g_ids s = (Inr r, s')"
  shows "\<exists>w u. map_of (jobs s) jid = Some w \<and> j_status (w_record w) \<notin> set TERMINAL_STATUSES \<and>
    j_status r = (if can_retry b (w_record w) then QUEUED else FAILED) \<and> j_id r = j_id (w_record w) \<and>
    jobs s' = insert_or_replace (j_id r) (job_row_of r u) (jobs s)"
proof -
  from assms [unfolded fail_job_Inr] obtain w where w: "map_of (jobs s) jid = Some w"
    "j_status (w_record w) \<notin> set TERMINAL_STATUSES"
    and r: "if can_retry b (w_record w)
      then r = requeued_job (retrying_job (failed_job (w_record w) (clock s (tick s)) reason b o_refs a_refs g_ids) (clock s (tick s))) \<and>
        s' = retry_writes (retrying_job (failed_job (w_record w) (clock s (tick s)) reason b o_refs a_refs g_ids) (clock s (tick s)))
          jid worker (fail_write (w_record w) jid worker reason b o_refs a_refs g_ids s)
      else r = failed_job (w_record w) (clock s (tick s)) reason b o_refs a_refs g_ids \<and>
        s' = fail_write (w_record w) jid worker reason b o_refs a_refs g_ids s" by blast
  show ?thesis
  proof (cases "can_retry b (w_record w)")
    case True
    then show ?thesis using w r
      by (intro exI [of _ w] exI [of _ "clock s (Suc (Suc (Suc (Suc (Suc (tick s))))))"])
        (auto simp: retry_writes_def fail_write_def Let_def)
  next
    case False
    then show ?thesis using w r
      by (intro exI [of _ w] exI [of _ "clock s (Suc (tick s))"]) (auto simp: fail_write_def)
  qed
qed

lemma fail_job_moves:
  assumes s: "store_ok s" and c: "fail_job jid worker reason b o_refs a_refs g_ids s = (x, s')"
  shows "moves s s'"
proof (cases x)
  case (Inl e)
  then show ?thesis using c fail_job_Inl moves_same by blast
next
  case (Inr r)
  from fail_job_effect [OF c [unfolded this]] obtain w u where
    w: "map_of (jobs s) jid = Some w" "j_status (w_record w) \<notin> set TERMINAL_STATUSES"
      "j_status r = (if can_retry b (w_record w) then QUEUED else FAILED)" "j_id r = j_id (w_record w)"
    and u: "jobs s' = insert_or_replace (j_id r) (job_row_of r u) (jobs s)" by blast
  have ok: "row_ok jid w" using store_ok_row [OF s w(1)] .
  have r: "j_status (w_record w) \<noteq> RETRYING" "j_id (w_record w) = jid" using ok by (auto simp: row_ok_def)
  have m: "allowed_move a FAILED" "a \<noteq> QUEUED \<Longrightarrow> allowed_move a QUEUED"
    if "a \<noteq> RETRYING" "a \<notin> set TERMINAL_STATUSES" for a
    using that by (cases a; simp add: TERMINAL_STATUSES_def)+
  show ?thesis
  proof (rule moves_write [OF u])
    fix w' assume "map_of (jobs s) (j_id r) = Some w'"
    then have "w' = w" using w r by simp
    then show "j_status (w_record w') = j_status r \<or> allowed_move (j_status (w_record w')) (j_status r)"
      using m [of "j_status (w_record w)"] r w by auto
  qed
qed

lemma record_heartbeat_moves:
  assumes s: "store_ok s" and c: "record_heartbeat jid worker details s = (x, s')"
  shows "moves s s'"
proof (cases x)
  case (Inl e)
  then show ?thesis using c record_heartbeat_Inl moves_same by blast
next
  case (Inr h)
  from c [unfolded Inr record_heartbeat_Inr] obtain w r where w: "map_of (jobs s) jid = Some w"
      "r = (w_record w)\<lparr>j_heartbeat_at := Some (clock s (tick s)), j_lock_owner := Some worker\<rparr>"
    and s': "s' = s\<lparr>jobs := insert_or_replace (j_id r) (job_row_of r (clock s (Suc (tick s)))) (jobs s),
               tick := Suc (Suc (tick s)), heartbeats := insert_or_replace (h_id h) h (heartbeats s)\<rparr>" by blast
  have u: "jobs s' = insert_or_replace (j_id r) (job_row_of r (clock s (Suc (tick s)))) (jobs s)"
    using s' by simp
  show ?thesis by (rule moves_write [OF u]) (use w row_ok_id [OF store_ok_row [OF s w(1)]] in auto)
qed

lemma record_gap_moves:
  assumes s: "store_ok s" and c: "record_gap jid kt reason worker st en b n s = (x, s')"
  shows "moves s s'"
proof (cases x)
  case (Inl e)
  then show ?thesis using c record_gap_Inl moves_same by blast
next
  case (Inr g)
  from record_gap_Inr [OF c [unfolded Inr]] obtain w r u where
    w: "map_of (jobs s) jid = Some w" "r = (w_record w)\<lparr>j_gap_ids := uniq (j_gap_ids (w_record w) @ [g_id g])\<rparr>"
    and u: "jobs s' = insert_or_replace (j_id r) (job_row_of r u) (jobs s)" by blast
  show ?thesis by (rule moves_write [OF u]) (use w row_ok_id [OF store_ok_row [OF s w(1)]] in auto)
qed

section \<open>The stale monitor\<close>

definition stored :: "wstore \<Rightarrow> job \<Rightarrow> bool" where
  "stored s r \<longleftrightarrow> job_ok r \<and> (\<exists>w. map_of (jobs s) (j_id r) = Some w \<and> w_record w = r)"

lemma stale_one_step:
  assumes "stored s r" "reason \<noteq> []"
  shows "\<exists>r' t. stale_one worker reason r s = (Inr r', write_job r' t (s\<lparr>tick := Suc (tick s)\<rparr>)) \<and>
    j_id r' = j_id r \<and> j_status r' = STALE"
proof -
  obtain w where w: "map_of (jobs s) (j_id r) = Some w" "w_record w = r" "job_ok r"
    using assms(1) by (auto simp: stored_def)
  let ?upd = "\<lambda>r. r\<lparr>j_finished_at := Some (clock s (tick s)), j_failure_reason := Some reason, j_terminal := False\<rparr>"
  have "\<exists>r' s'. transition_job (j_id r) STALE (Some worker) reason ?upd [j_status r] (s\<lparr>tick := Suc (tick s)\<rparr>) = (Inr r', s')
      \<and> r' = ?upd (r\<lparr>j_status := STALE\<rparr>) \<and> (\<exists>t. s' = write_job r' t (s\<lparr>tick := Suc (tick s)\<rparr>))"
    unfolding transition_job_Inr using w assms(2) job_ok_nonempty [OF w(3)] by auto
  then show ?thesis by (auto simp: stale_one_def bindS_def)
qed

lemma stale_loop:
  assumes "\<forall>r \<in> set rs. stored s r" "distinct (map j_id rs)" "reason \<noteq> []"
  shows "\<exists>ys s'. mapS (stale_one worker reason) rs s = (Inr ys, s') \<and> map j_id ys = map j_id rs \<and>
    (\<forall>j. map_of (jobs s') j = map_of (jobs s) j \<or> j \<in> j_id ` set rs) \<and>
    (\<forall>r \<in> set rs. job_status s' (j_id r) = Some STALE)"
  using assms
proof (induction rs arbitrary: s)
  case (Cons r rs)
  obtain r' t where 1: "stale_one worker reason r s = (Inr r', write_job r' t (s\<lparr>tick := Suc (tick s)\<rparr>))"
    and r': "j_id r' = j_id r" "j_status r' = STALE" using stale_one_step [of s r reason worker] Cons.prems by auto
  let ?s1 = "write_job r' t (s\<lparr>tick := Suc (tick s)\<rparr>)"
  have o: "map_of (jobs ?s1) j = map_of (jobs s) j" if "j \<noteq> j_id r" for j using that r' by simp
  have "\<forall>x \<in> set rs. stored ?s1 x" using Cons.prems o unfolding stored_def by (metis image_eqI distinct.simps(2) list.set_map list.simps(9) list.set_intros(2))
  from Cons.IH [OF this] Cons.prems obtain ys s2 where
    2: "mapS (stale_one worker reason) rs ?s1 = (Inr ys, s2)" "map j_id ys = map j_id rs"
      "\<forall>j. map_of (jobs s2) j = map_of (jobs ?s1) j \<or> j \<in> j_id ` set rs"
      "\<forall>x \<in> set rs. job_status s2 (j_id x) = Some STALE" by auto
  have "job_status s2 (j_id r) = Some STALE"
  proof -
    have "j_id r \<notin> j_id ` set rs" using Cons.prems by auto
    then have "map_of (jobs s2) (j_id r) = map_of (jobs ?s1) (j_id r)" using 2(3) by blast
    then show ?thesis using r' by (simp add: job_status_def job_row_of_def)
  qed
  moreover have "map_of (jobs s2) j = map_of (jobs s) j \<or> j \<in> j_id ` set (r # rs)" for j
  proof (cases "j = j_id r")
    case False
    then show ?thesis using spec [OF 2(3), of j] o [OF False] by (metis image_insert insertCI list.simps(15))
  qed simp
  ultimately show ?case using 1 2 r' by (auto simp: bindS_def)
qed simp

lemma list_all_jobs:
  assumes "store_ok s"
  shows "list_jobs None None s = (Inr (map (\<lambda>kw. w_record (snd kw)) (sorted_by queue_key (jobs s))), s)"
proof -
  have "mapE (\<lambda>(_, w). validate_job (w_record w)) (sorted_by queue_key (jobs s)) =
      Inr (map (\<lambda>kw. w_record (snd kw)) (sorted_by queue_key (jobs s)))"
    by (rule mapE_all) (use assms in \<open>auto simp: store_ok_def row_ok_def intro!: validate_job_ok\<close>)
  then show ?thesis by (simp add: list_jobs_def bindS_def)
qed

lemma store_ok_lookup: "store_ok s \<Longrightarrow> kw \<in> set (jobs s) \<Longrightarrow> map_of (jobs s) (fst kw) = Some (snd kw)"
  by (simp add: store_ok_def)

lemma stored_iff:
  assumes s: "store_ok s"
  shows "stored s r \<longleftrightarrow> (\<exists>kw \<in> set (jobs s). w_record (snd kw) = r)"
proof
  assume "stored s r"
  then obtain w where "map_of (jobs s) (j_id r) = Some w" "w_record w = r" by (auto simp: stored_def)
  then show "\<exists>kw \<in> set (jobs s). w_record (snd kw) = r" by (force dest: map_of_SomeD)
next
  assume "\<exists>kw \<in> set (jobs s). w_record (snd kw) = r"
  then obtain kw where kw: "kw \<in> set (jobs s)" "w_record (snd kw) = r" by blast
  then show "stored s r" using store_ok_lookup [OF s kw(1)] store_ok_member [OF s kw(1)]
    unfolding stored_def row_ok_def by auto
qed

lemma mark_stale_loop:
  assumes s: "store_ok s" and r: "reason \<noteq> []" and c: "add_us (clock s (tick s)) (- d) = Inr cutoff"
  shows "\<exists>ys s'. mark_stale_jobs d worker reason s = (Inr ys, s') \<and>
    (\<forall>j w. map_of (jobs s) j = Some w \<longrightarrow>
       (if is_stale cutoff (w_record w) then job_status s' j = Some STALE \<and> j \<in> set (map j_id ys)
        else map_of (jobs s') j = Some w \<and> j \<notin> set (map j_id ys))) \<and>
    dom (map_of (jobs s')) = dom (map_of (jobs s))"
proof -
  let ?rs = "filter (is_stale cutoff) (map (\<lambda>kw. w_record (snd kw)) (sorted_by queue_key (jobs s)))"
  let ?s = "s\<lparr>tick := Suc (tick s)\<rparr>"
  have st: "\<forall>r \<in> set ?rs. stored ?s r" using stored_iff [OF s] by (auto simp: stored_def)
  have eq: "map j_id (map (\<lambda>kw. w_record (snd kw)) (sorted_by queue_key (jobs s))) = map fst (sorted_by queue_key (jobs s))"
    using s by (auto simp: store_ok_def row_ok_def)
  have "distinct (map j_id (map (\<lambda>kw. w_record (snd kw)) (sorted_by queue_key (jobs s))))"
    unfolding eq using s by (simp add: store_ok_def)
  then have di: "distinct (map j_id ?rs)" by (rule distinct_map_filter)
  from stale_loop [OF st di r] obtain ys s' where
    l: "mapS (stale_one worker reason) ?rs ?s = (Inr ys, s')" "map j_id ys = map j_id ?rs"
      "\<forall>j. map_of (jobs s') j = map_of (jobs ?s) j \<or> j \<in> j_id ` set ?rs"
      "\<forall>r \<in> set ?rs. job_status s' (j_id r) = Some STALE" by blast
  have m: "mark_stale_jobs d worker reason s = (Inr ys, s')"
    using list_all_jobs [of ?s] s l(1) by (simp add: mark_stale_jobs_def bindS_def c)
  have mem: "j \<in> j_id ` set ?rs \<longleftrightarrow> (\<exists>w. map_of (jobs s) j = Some w \<and> is_stale cutoff (w_record w))" for j
  proof
    assume "j \<in> j_id ` set ?rs"
    then obtain kw where kw: "kw \<in> set (jobs s)" "is_stale cutoff (w_record (snd kw))" "j = j_id (w_record (snd kw))" by auto
    then show "\<exists>w. map_of (jobs s) j = Some w \<and> is_stale cutoff (w_record w)"
      using store_ok_lookup [OF s kw(1)] row_ok_id [OF store_ok_member [OF s kw(1)]] by auto
  next
    assume "\<exists>w. map_of (jobs s) j = Some w \<and> is_stale cutoff (w_record w)"
    then obtain w where w: "map_of (jobs s) j = Some w" "is_stale cutoff (w_record w)" by blast
    have "w_record w \<in> set ?rs" using w map_of_SomeD [OF w(1)] by force
    then show "j \<in> j_id ` set ?rs" using row_ok_id [OF store_ok_row [OF s w(1)]] by force
  qed
  have ysm: "set (map j_id ys) = j_id ` set ?rs" unfolding l(2) by simp
  have "dom (map_of (jobs s')) = dom (map_of (jobs s))"
  proof (intro set_eqI)
    fix j show "j \<in> dom (map_of (jobs s')) \<longleftrightarrow> j \<in> dom (map_of (jobs s))"
    proof (cases "j \<in> j_id ` set ?rs")
      case True
      then have "job_status s' j = Some STALE" using l(4) by auto
      then show ?thesis using True mem [of j] by (auto simp: job_status_def)
    next
      case False
      then have "map_of (jobs s') j = map_of (jobs s) j" using spec [OF l(3), of j] by simp
      then show ?thesis by (simp only: domIff)
    qed
  qed
  moreover have "if is_stale cutoff (w_record w) then job_status s' j = Some STALE \<and> j \<in> set (map j_id ys)
        else map_of (jobs s') j = Some w \<and> j \<notin> set (map j_id ys)" if w: "map_of (jobs s) j = Some w" for j w
  proof (cases "is_stale cutoff (w_record w)")
    case True
    then have "j \<in> j_id ` set ?rs" using mem w by blast
    then show ?thesis using True l(4) ysm by auto
  next
    case False
    then have "j \<notin> j_id ` set ?rs" using mem w by force
    then have "map_of (jobs s') j = map_of (jobs s) j" "j \<notin> set (map j_id ys)"
      using spec [OF l(3), of j] ysm by auto
    then show ?thesis using False w by simp
  qed
  ultimately show ?thesis using m by blast
qed

lemma mark_stale_moves:
  assumes s: "store_ok s" and c: "mark_stale_jobs d worker reason s = (x, s')"
  shows "moves s s'"
proof (cases "add_us (clock s (tick s)) (- d)")
  case (Inl e)
  then show ?thesis using c by (auto simp: mark_stale_jobs_def bindS_def intro!: moves_same)
next
  case (Inr cutoff)
  show ?thesis
  proof (cases "reason = []")
    case False
    from mark_stale_loop [OF s False Inr, of worker] c
    have l: "\<forall>j w. map_of (jobs s) j = Some w \<longrightarrow>
       (if is_stale cutoff (w_record w) then job_status s' j = Some STALE
        else map_of (jobs s') j = Some w)" by fastforce
    have "allowed_move (j_status r) STALE" if "is_stale cutoff r" for r
      using that by (auto simp: is_stale_def)
    note stale = this
    show ?thesis unfolding moves_def
    proof (intro allI impI)
      fix j a assume "job_status s j = Some a"
      then obtain w where w: "map_of (jobs s) j = Some w" "a = j_status (w_record w)" by (auto simp: job_status_def)
      show "\<exists>b. job_status s' j = Some b \<and> (a = b \<or> allowed_move a b)"
        using l [rule_format, OF w(1)] w stale [of "w_record w"]
        by (cases "is_stale cutoff (w_record w)") (auto simp: job_status_def)
    qed
  next
    case True
    have stuck: "\<exists>y s2. mapS (stale_one worker reason) rs s1 = (y, s2) \<and> same_tables s1 s2" for rs s1
    proof (cases rs)
      case (Cons r rs')
      obtain y s2 where 1: "stale_one worker reason r s1 = (y, s2)" by (cases "stale_one worker reason r s1")
      show ?thesis
      proof (cases y)
        case (Inl e)
        then show ?thesis using 1 Cons stale_one_Inl by (auto simp: bindS_def)
      next
        case (Inr r')
        then have False using 1 True by (auto simp: stale_one_def bindS_def transition_job_Inr)
        then show ?thesis ..
      qed
    qed simp
    obtain y s2 where m: "mapS (stale_one worker reason) (filter (is_stale cutoff)
        (map (\<lambda>kw. w_record (snd kw)) (sorted_by queue_key (jobs s)))) (s\<lparr>tick := Suc (tick s)\<rparr>) = (y, s2)"
      and st: "same_tables (s\<lparr>tick := Suc (tick s)\<rparr>) s2"
      using stuck by blast
    have "s' = s2"
      using c list_all_jobs [of "s\<lparr>tick := Suc (tick s)\<rparr>"] s m by (simp add: mark_stale_jobs_def bindS_def Inr)
    then show ?thesis using st moves_same by simp
  qed
qed

lemma run_call_moves: "store_ok s \<Longrightarrow> run_call c s = (x, s') \<Longrightarrow> moves s s'"
  by (cases c) (auto simp: voidS_iff
      dest: enqueue_moves update_spec_moves claim_next_moves start_job_moves record_heartbeat_moves
        succeed_job_moves fail_job_moves retry_job_moves cancel_job_moves mark_stale_moves record_gap_moves)

end
