(* ===== verification/WorkerRunner.thy ===== *)
theory WorkerRunner
  imports WorkerMachine
begin

text \<open>
  \<open>workers/runner.py\<close>: one durable job at a time is claimed, started, handed to the job module of
  its kind, and failed when that module raises.  The job modules are a parameter, a program for
  each family of kinds, and so is the text of an exception.  The properties of the worker
  component, store and runner, follow.
\<close>

section \<open>Dispatch\<close>

datatype family =
    Collector | DataQuality | StrategyQueue | BacktestData | Backtest | Validation | Ledger | LeadBook | Audit

definition COLLECTOR_KINDS :: "kind list" where
  "COLLECTOR_KINDS = [UNIVERSE_REFRESH, RECENT_CANDLE_BOOTSTRAP, FUNDING_BACKFILL, WEBSOCKET_CAPTURE,
     WEBSOCKET_TRADE_CAPTURE, WEBSOCKET_L2_BBO_CAPTURE, OFFICIAL_S3_BACKFILL,
     BINANCE_DERIVATIVES_CONTEXT_BACKFILL]"

definition DATA_QUALITY_KINDS :: "kind list" where "DATA_QUALITY_KINDS = [COVERAGE_AUDIT]"
definition STRATEGY_QUEUE_KINDS :: "kind list" where "STRATEGY_QUEUE_KINDS = [STRATEGY_QUEUE_SCAN]"
definition BACKTEST_DATA_KINDS :: "kind list" where "BACKTEST_DATA_KINDS = [BACKTEST_DATA_LOAD]"
definition BACKTEST_KINDS :: "kind list" where "BACKTEST_KINDS = [BACKTEST, VECTORIZED_BACKTEST]"
definition VALIDATION_KINDS :: "kind list" where "VALIDATION_KINDS = [VALIDATION_GATE]"
definition LEDGER_KINDS :: "kind list" where "LEDGER_KINDS = [LEDGER_APPEND_EXPORT]"
definition LEAD_BOOK_KINDS :: "kind list" where "LEAD_BOOK_KINDS = [LEAD_BOOK_SCAN, LEAD_BOOK_UPSERT]"
definition AUDIT_KINDS :: "kind list" where "AUDIT_KINDS = [AUDIT_CHECK]"

type_synonym handlers = "family \<Rightarrow> job \<Rightarrow> string \<Rightarrow> (wstore, run_result) prog"

definition dispatch :: "handlers \<Rightarrow> kind \<Rightarrow> job \<Rightarrow> string \<Rightarrow> (wstore, run_result) prog" where
  "dispatch run k running worker =
     (if k \<in> set COLLECTOR_KINDS then run Collector running worker
      else if k \<in> set DATA_QUALITY_KINDS then run DataQuality running worker
      else if k \<in> set STRATEGY_QUEUE_KINDS then run StrategyQueue running worker
      else if k \<in> set BACKTEST_DATA_KINDS then run BacktestData running worker
      else if k \<in> set BACKTEST_KINDS then run Backtest running worker
      else if k \<in> set VALIDATION_KINDS then run Validation running worker
      else if k \<in> set LEDGER_KINDS then run Ledger running worker
      else if k \<in> set LEAD_BOOK_KINDS then run LeadBook running worker
      else if k \<in> set AUDIT_KINDS then run Audit running worker
      else raiseS (ValueError (''worker kind is not implemented in Phase 7: '' @ kind_value k)))"

text \<open>\<open>try: ... except Exception as exc: ...\<close>\<close>

definition catchS :: "('s, 'a) prog \<Rightarrow> (py_error \<Rightarrow> ('s, 'a) prog) \<Rightarrow> ('s, 'a) prog" where
  "catchS p h = (\<lambda>s. case p s of (Inl e, s') \<Rightarrow> h e s' | (Inr x, s') \<Rightarrow> (Inr x, s'))"

definition failure_result :: "string \<Rightarrow> job \<Rightarrow> run_result" where
  "failure_result jid failed = \<lparr>rr_job = jid, rr_status = j_status failed, rr_output_refs = j_output_refs failed,
     rr_archive_refs = j_archive_refs failed, rr_gap_ids = j_gap_ids failed,
     rr_failure_reason = j_failure_reason failed\<rparr>"

definition run_claimed :: "handlers \<Rightarrow> (py_error \<Rightarrow> string) \<Rightarrow> kind \<Rightarrow> job \<Rightarrow> string \<Rightarrow> (wstore, run_result) prog" where
  "run_claimed run exc_text k running worker =
     catchS (dispatch run k running worker) (\<lambda>e.
       bindS (fail_job (j_id running) worker (exc_text e)
          (j_attempts running < j_max_attempts running) [] [] []) (\<lambda>failed.
       liftS (validate_run_result (failure_result (j_id running) failed))))"

definition run_one_job ::
  "handlers \<Rightarrow> (py_error \<Rightarrow> string) \<Rightarrow> string \<Rightarrow> string \<Rightarrow> bool \<Rightarrow> (wstore, run_result option) prog" where
  "run_one_job run exc_text kind_text worker forbid_asgi =
     (if forbid_asgi then raiseS (RuntimeError ''worker jobs must not run inside ASGI/operator process'')
      else
        bindS (liftS (job_kind_of kind_text)) (\<lambda>k.
        bindS (claim_next (kind_value k) worker ''job_claimed'') (\<lambda>claimed.
        (case claimed of None \<Rightarrow> retS None
         | Some c \<Rightarrow>
           bindS (start_job (j_id c) worker ''job_started'') (\<lambda>running.
           bindS (record_heartbeat (j_id running) worker [(''phase'', ''running'')]) (\<lambda>_.
           bindS (run_claimed run exc_text k running worker) (\<lambda>r. retS (Some r))))))))"

section \<open>Facts about claiming\<close>

definition queued_jobs :: "wstore \<Rightarrow> kind \<Rightarrow> job set" where
  "queued_jobs s k = {r. \<exists>j w. map_of (jobs s) j = Some w \<and> w_record w = r \<and> j_kind r = k \<and> j_status r = QUEUED}"

lemma queued_jobsI:
  "map_of (jobs s) j = Some w \<Longrightarrow> j_kind (w_record w) = k \<Longrightarrow> j_status (w_record w) = QUEUED
    \<Longrightarrow> w_record w \<in> queued_jobs s k"
  unfolding queued_jobs_def by blast

lemma w_record_row_of [simp]: "w_record (job_row_of r u) = r"
  by (simp add: job_row_of_def)

definition job_key :: "job \<Rightarrow> string \<times> string" where
  "job_key r = (iso_of_instant (j_queued_at r), j_id r)"

lemma candidates_set:
  assumes s: "store_ok s"
  shows "kw \<in> set (claim_candidates s k) \<longleftrightarrow>
    kw \<in> set (jobs s) \<and> j_kind (w_record (snd kw)) = k \<and> j_status (w_record (snd kw)) = QUEUED"
proof -
  have "kw \<in> set (jobs s) \<Longrightarrow> w_kind (snd kw) = kind_value (j_kind (w_record (snd kw))) \<and>
      w_status (snd kw) = status_value (j_status (w_record (snd kw)))"
    using row_ok_columns [OF store_ok_member [OF s]] by blast
  moreover have "kw \<in> set (claim_candidates s k) \<longleftrightarrow> kw \<in> set (jobs s) \<and> w_kind (snd kw) = kind_value k
      \<and> w_status (snd kw) = status_value QUEUED" by (cases kw) (simp add: claim_candidates_def)
  ultimately show ?thesis by (metis kind_value_eq status_value_inj)
qed

lemma queued_jobs_candidates:
  assumes s: "store_ok s"
  shows "queued_jobs s k = (\<lambda>kw. w_record (snd kw)) ` set (claim_candidates s k)"
proof (intro set_eqI iffI)
  fix r assume "r \<in> queued_jobs s k"
  then obtain j w where "map_of (jobs s) j = Some w" "w_record w = r" "j_kind r = k" "j_status r = QUEUED"
    by (auto simp: queued_jobs_def)
  then show "r \<in> (\<lambda>kw. w_record (snd kw)) ` set (claim_candidates s k)"
    using candidates_set [OF s, of "(j, w)" k] map_of_SomeD by force
next
  fix r assume "r \<in> (\<lambda>kw. w_record (snd kw)) ` set (claim_candidates s k)"
  then obtain kw where kw: "kw \<in> set (claim_candidates s k)" "r = w_record (snd kw)" by blast
  then show "r \<in> queued_jobs s k"
    using candidates_set [OF s, of kw k] store_ok_lookup [OF s, of kw] by (auto simp: queued_jobs_def)
qed

lemma queue_key_job_key:
  assumes s: "store_ok s" and kw: "kw \<in> set (jobs s)"
  shows "queue_key kw = job_key (w_record (snd kw))"
  using row_ok_columns(3) [OF store_ok_member [OF s kw]] row_ok_id [OF store_ok_member [OF s kw]]
  by (simp add: queue_key_def job_key_def)

lemma head_least:
  assumes s: "store_ok s" and c: "claim_candidates s k = kw # rest" and r: "r \<in> queued_jobs s k"
  shows "job_key (w_record (snd kw)) \<le> job_key r"
proof -
  obtain x where x: "x \<in> set (claim_candidates s k)" "r = w_record (snd x)"
    using r queued_jobs_candidates [OF s] by auto
  have "sorted (map queue_key (claim_candidates s k))"
    unfolding claim_candidates_def by (rule sorted_sorted_by)
  then have "queue_key kw \<le> queue_key x" using x(1) c by auto
  moreover have "kw \<in> set (jobs s)" "x \<in> set (jobs s)"
    using x(1) c candidates_set [OF s, of _ k] by (metis list.set_intros(1))+
  ultimately show ?thesis using queue_key_job_key [OF s] x(2) by metis
qed

text \<open>What a claim does to a store in order.\<close>

lemma claim_next_total:
  assumes s: "store_ok s" and r: "reason \<noteq> []" and q: "queued_jobs s k \<noteq> {}"
  shows "\<exists>q t. q \<in> queued_jobs s k \<and> (\<forall>q' \<in> queued_jobs s k. job_key q \<le> job_key q') \<and>
    claim_next (kind_value k) worker reason s =
      (Inr (Some (claimed_job q (clock s (tick s)) worker)),
       write_job (claimed_job q (clock s (tick s)) worker) t (s\<lparr>tick := Suc (tick s)\<rparr>)) \<and>
    (\<exists>w. map_of (jobs s) (j_id q) = Some w \<and> w_record w = q)"
proof -
  have "claim_candidates s k \<noteq> []" using q queued_jobs_candidates [OF s, of k] by auto
  then obtain kw rest where c: "claim_candidates s k = kw # rest" by (cases "claim_candidates s k") auto
  let ?q = "w_record (snd kw)"
  have m: "kw \<in> set (jobs s)" using claim_candidates_member(1) [OF c] .
  have ok: "row_ok (fst kw) (snd kw)" using store_ok_member [OF s m] .
  have q: "?q \<in> queued_jobs s k" using queued_jobs_candidates [OF s, of k] c by simp
  have jok: "job_ok ?q" using ok by (simp add: row_ok_def)
  let ?c = "claimed_job ?q (clock s (tick s)) worker"
  let ?t = "new_transition (j_id ?q) (Some (j_status ?q)) CLAIMED (Some worker) reason (clock s (tick s + 2))"
  have "claim_row worker reason (snd kw) s = (Inr (Some ?c), write_job ?c ?t (s\<lparr>tick := Suc (tick s)\<rparr>))"
    unfolding claim_row_Inr using jok r by simp
  then have "claim_next (kind_value k) worker reason s = (Inr (Some ?c), write_job ?c ?t (s\<lparr>tick := Suc (tick s)\<rparr>))"
    unfolding claim_next_Some using c job_kind_of_value by blast
  moreover have "\<forall>q' \<in> queued_jobs s k. job_key ?q \<le> job_key q'" using head_least [OF s c] by blast
  moreover have "map_of (jobs s) (j_id ?q) = Some (snd kw)" using store_ok_lookup [OF s m] row_ok_id [OF ok] by simp
  ultimately show ?thesis using q by blast
qed

section \<open>Facts about running\<close>

lemma job_status_write [simp]:
  "job_status (write_job r t s) j = (if j = j_id r then Some (j_status r) else job_status s j)"
  by (simp add: job_status_def job_row_of_def)

lemma job_status_tick [simp]: "job_status (s\<lparr>tick := n\<rparr>) j = job_status s j"
  by (simp add: job_status_def)

text \<open>The part of a job record that its worker's calls never change.\<close>

definition same_job :: "job \<Rightarrow> job \<Rightarrow> bool" where
  "same_job a b \<longleftrightarrow> j_id a = j_id b \<and> j_kind a = j_kind b \<and> j_attempts a = j_attempts b \<and>
     j_max_attempts a = j_max_attempts b"

lemma stored_written: "job_ok r \<Longrightarrow> jobs s' = insert_or_replace (j_id r) (job_row_of r u) t \<Longrightarrow> stored s' r"
  by (simp add: stored_def job_row_of_def)

lemma stored_safe: "store_ok s \<Longrightarrow> stored s r \<Longrightarrow> job_safe r"
  unfolding stored_def using store_ok_row row_ok_safe by blast

lemma start_job_step:
  assumes s: "store_ok s" and c: "stored s c" "j_status c = CLAIMED" and n: "reason \<noteq> []" "worker \<noteq> []"
  shows "\<exists>r s'. start_job (j_id c) worker reason s = (Inr r, s') \<and> store_ok s' \<and> stored s' r \<and>
    same_job r c \<and> j_status r = RUNNING \<and> j_lock_owner r = Some worker"
proof -
  obtain w where w: "map_of (jobs s) (j_id c) = Some w" "w_record w = c" "job_ok c"
    using c(1) by (auto simp: stored_def)
  let ?s = "s\<lparr>tick := Suc (Suc (tick s))\<rparr>"
  let ?upd = "\<lambda>r. r\<lparr>j_started_at := Some (clock s (tick s)), j_heartbeat_at := Some (clock s (Suc (tick s))),
      j_lock_owner := Some worker\<rparr>"
  let ?r = "?upd (c\<lparr>j_status := RUNNING\<rparr>)"
  let ?t = "new_transition (j_id c) (Some CLAIMED) RUNNING (Some worker) reason (clock ?s (Suc (tick ?s)))"
  have "transition_job (j_id c) RUNNING (Some worker) reason ?upd [CLAIMED] ?s = (Inr ?r, write_job ?r ?t ?s)"
    unfolding transition_job_Inr using w c n job_ok_nonempty [OF w(3)] by auto
  then have st: "start_job (j_id c) worker reason s = (Inr ?r, write_job ?r ?t ?s)"
    by (simp add: start_job_def bindS_def)
  have "job_ok ?r" using stored_safe [OF s c(1)] c(2) n by (simp add: safe_defs)
  then have "stored (write_job ?r ?t ?s) ?r" by (rule stored_written) simp
  then show ?thesis using st start_job_ok [OF s n(2) st] by (auto simp: same_job_def)
qed

lemma record_heartbeat_step:
  assumes s: "store_ok s" and c: "stored s c" "j_status c \<in> {CLAIMED, RUNNING}" and n: "worker \<noteq> []"
  shows "\<exists>h r s'. record_heartbeat (j_id c) worker details s = (Inr h, s') \<and> store_ok s' \<and> stored s' r \<and>
    same_job r c \<and> j_status r = j_status c \<and> j_lock_owner r = Some worker"
proof -
  obtain w where w: "map_of (jobs s) (j_id c) = Some w" "w_record w = c" "job_ok c"
    using c(1) by (auto simp: stored_def)
  have "\<exists>h s'. record_heartbeat (j_id c) worker details s = (Inr h, s')"
    unfolding record_heartbeat_Inr using w c n job_ok_nonempty [OF w(3)] by auto
  then obtain h s' where h: "record_heartbeat (j_id c) worker details s = (Inr h, s')" by blast
  let ?r = "c\<lparr>j_heartbeat_at := Some (clock s (tick s)), j_lock_owner := Some worker\<rparr>"
  have "jobs s' = insert_or_replace (j_id ?r) (job_row_of ?r (clock s (Suc (tick s)))) (jobs s)"
    using h [unfolded record_heartbeat_Inr] w by auto
  moreover have "job_ok ?r" using stored_safe [OF s c(1)] n by (simp add: safe_defs)
  ultimately have "stored s' ?r" by (intro stored_written)
  then show ?thesis using h record_heartbeat_ok [OF s h] by (auto simp: same_job_def)
qed

lemma claim_next_step:
  assumes s: "store_ok s" and n: "worker \<noteq> []" "reason \<noteq> []" and q: "queued_jobs s k \<noteq> {}"
  shows "\<exists>q c s'. q \<in> queued_jobs s k \<and> (\<forall>q' \<in> queued_jobs s k. job_key q \<le> job_key q') \<and>
    claim_next (kind_value k) worker reason s = (Inr (Some c), s') \<and> store_ok s' \<and> stored s' c \<and>
    c = claimed_job q (clock s (tick s)) worker \<and>
    (\<forall>j. j \<noteq> j_id q \<longrightarrow> map_of (jobs s') j = map_of (jobs s) j)"
proof -
  obtain q t where q: "q \<in> queued_jobs s k" "\<forall>q' \<in> queued_jobs s k. job_key q \<le> job_key q'"
    and c: "claim_next (kind_value k) worker reason s =
      (Inr (Some (claimed_job q (clock s (tick s)) worker)),
       write_job (claimed_job q (clock s (tick s)) worker) t (s\<lparr>tick := Suc (tick s)\<rparr>))"
    using claim_next_total [OF s n(2) q, of worker] by blast
  let ?c = "claimed_job q (clock s (tick s)) worker"
  let ?s' = "write_job ?c t (s\<lparr>tick := Suc (tick s)\<rparr>)"
  have s': "store_ok ?s'" by (rule claim_next_ok [OF s n(1) c])
  have "map_of (jobs ?s') (j_id ?c) = Some (job_row_of ?c (clock s (Suc (tick s))))" by simp
  from store_ok_row [OF s' this] have "job_ok ?c" by (simp add: job_safe_def)
  then have "stored ?s' ?c" by (rule stored_written) simp
  moreover have "j_id ?c = j_id q" by (simp add: claimed_job_def)
  ultimately show ?thesis using q c s'
    by (intro exI [of _ q] exI [of _ ?c] exI [of _ ?s']) simp
qed

lemma claimed_job_simps [simp]:
  "j_id (claimed_job q t w) = j_id q" "j_kind (claimed_job q t w) = j_kind q"
  "j_status (claimed_job q t w) = CLAIMED" "j_attempts (claimed_job q t w) = j_attempts q + 1"
  "j_max_attempts (claimed_job q t w) = j_max_attempts q" "j_lock_owner (claimed_job q t w) = Some w"
  by (simp_all add: claimed_job_def)

text \<open>What the prelude of the runner leaves: the first queued job, claimed, running and with a heartbeat.\<close>

lemma run_prelude:
  assumes s: "store_ok s" and w: "worker \<noteq> []" and q: "queued_jobs s k \<noteq> {}"
  shows "\<exists>q running r s'. q \<in> queued_jobs s k \<and> (\<forall>q' \<in> queued_jobs s k. job_key q \<le> job_key q') \<and>
     store_ok s' \<and> stored s' r \<and> same_job r running \<and> j_status r = RUNNING \<and> j_lock_owner r = Some worker \<and>
     j_id running = j_id q \<and> j_status running = RUNNING \<and> j_attempts running = j_attempts q + 1 \<and>
     j_max_attempts running = j_max_attempts q \<and>
     run_one_job run exc_text (kind_value k) worker False s =
       bindS (run_claimed run exc_text k running worker) (\<lambda>r. retS (Some r)) s'"
proof -
  have rs: "''job_claimed'' \<noteq> []" "''job_started'' \<noteq> []" by simp_all
  obtain q c s1 where q: "q \<in> queued_jobs s k" "\<forall>q' \<in> queued_jobs s k. job_key q \<le> job_key q'"
    and c: "claim_next (kind_value k) worker ''job_claimed'' s = (Inr (Some c), s1)" "store_ok s1" "stored s1 c"
      "c = claimed_job q (clock s (tick s)) worker"
    using claim_next_step [OF s w rs(1) q] by blast
  have cs: "j_status c = CLAIMED" "j_id c = j_id q" "j_attempts c = j_attempts q + 1" "j_max_attempts c = j_max_attempts q"
    using c(4) by simp_all
  obtain running s2 where st: "start_job (j_id c) worker ''job_started'' s1 = (Inr running, s2)" "store_ok s2"
      "stored s2 running" "same_job running c" "j_status running = RUNNING"
    using start_job_step [OF c(2,3) cs(1) rs(2) w] by blast
  obtain h r s3 where hb: "record_heartbeat (j_id running) worker [(''phase'', ''running'')] s2 = (Inr h, s3)"
      "store_ok s3" "stored s3 r" "same_job r running" "j_status r = RUNNING" "j_lock_owner r = Some worker"
    using record_heartbeat_step [OF st(2,3) _ w] st(5) by (metis insertCI)
  have "run_one_job run exc_text (kind_value k) worker False s =
      bindS (run_claimed run exc_text k running worker) (\<lambda>r. retS (Some r)) s3"
    by (simp add: run_one_job_def bindS_def c(1) st(1) hb(1))
  then show ?thesis using q hb st(4,5) cs unfolding same_job_def
    by (intro exI [of _ q] exI [of _ running] exI [of _ r] exI [of _ s3]) simp
qed

end
