(* ===== verification/WorkerClaims.thy ===== *)
theory WorkerClaims
  imports WorkerRunner
begin

text \<open>
  The properties of the worker component: the invariant of every reachable store, the state
  machine its calls refine, claiming, failing and retrying, the stale monitor, the runner, and
  the stores that a hand retry of an exhausted job makes unreadable.  A concrete store and a
  sequence of calls on it witness the hypotheses.
\<close>

section \<open>A concrete run\<close>

definition run_calls :: "wcall list \<Rightarrow> wstore \<Rightarrow> wstore" where
  "run_calls cs s = fold (\<lambda>c s. snd (run_call c s)) cs s"

definition store0 :: wstore where
  "store0 = \<lparr>jobs = [], transitions = [], heartbeats = [], gaps = [],
     clock = (\<lambda>n. 63853920000000000 + 1000 * int n), tick = 0\<rparr>"

definition demo_job :: "string \<Rightarrow> instant \<Rightarrow> job" where
  "demo_job i t = fresh_job i BACKTEST (replicate 64 CHR ''0'') [] 1 t"

definition demo_store :: "job list \<Rightarrow> wstore" where
  "demo_store rs = store0\<lparr>jobs := map (\<lambda>r. (j_id r, job_row_of r 0)) rs\<rparr>"

lemma empty_store0: "empty_store store0"
  by (simp add: empty_store_def store0_def)

lemma demo_store_ok:
  "distinct (map j_id rs) \<Longrightarrow> list_all job_safe rs \<Longrightarrow> store_ok (demo_store rs)"
  by (auto simp: store_ok_def demo_store_def store0_def list_all_iff o_def)

lemma demo_job_safe: "i \<noteq> [] \<Longrightarrow> job_safe (demo_job i t)"
  by (simp add: demo_job_def fresh_job_def safe_defs)

lemma demo_job_simps [simp]:
  "j_id (demo_job i t) = i" "j_kind (demo_job i t) = BACKTEST" "j_status (demo_job i t) = QUEUED"
  "j_attempts (demo_job i t) = 0" "j_max_attempts (demo_job i t) = 1" "j_queued_at (demo_job i t) = t"
  by (simp_all add: demo_job_def fresh_job_def)

definition demo2 :: wstore where
  "demo2 = demo_store [demo_job ''a'' 1000000, demo_job ''b'' 2000000]"

lemma demo2_ok: "store_ok demo2"
  unfolding demo2_def by (rule demo_store_ok) (simp_all add: demo_job_safe)

lemma demo2_jobs: "map_of (jobs demo2) ''a'' = Some (job_row_of (demo_job ''a'' 1000000) 0)"
  by (simp add: demo2_def demo_store_def store0_def)

lemma demo2_jobs_b: "map_of (jobs demo2) ''b'' = Some (job_row_of (demo_job ''b'' 2000000) 0)"
  by (simp add: demo2_def demo_store_def store0_def)

lemma demo2_queued: "queued_jobs demo2 BACKTEST \<noteq> {}"
proof -
  have "demo_job ''a'' 1000000 \<in> queued_jobs demo2 BACKTEST"
    unfolding queued_jobs_def
    by (rule CollectI, rule exI [of _ "''a''"], rule exI [of _ "job_row_of (demo_job ''a'' 1000000) 0"])
       (simp only: demo2_jobs, simp add: job_row_of_def)
  then show ?thesis by blast
qed

section \<open>The invariant\<close>


lemma demo_steps:
  assumes "\<And>i. i < length cs \<Longrightarrow> call_allowed (run_calls (take i cs) s) (cs ! i)"
  shows "wstep\<^sup>*\<^sup>* s (run_calls cs s)"
  using assms
proof (induction cs rule: rev_induct)
  case (snoc c cs)
  have "wstep\<^sup>*\<^sup>* s (run_calls cs s)"
  proof (rule snoc.IH)
    fix i assume "i < length cs"
    then show "call_allowed (run_calls (take i cs) s) (cs ! i)"
      using snoc.prems [of i] by (simp add: nth_append)
  qed
  moreover have "wstep (run_calls cs s) (run_calls (cs @ [c]) s)"
    using snoc.prems [of "length cs"] wstep_call [of "run_calls cs s" c]
    by (simp add: run_calls_def nth_append)
  ultimately show ?case by simp
qed (simp add: run_calls_def)

definition demo_calls :: "wcall list" where
  "demo_calls = [Enqueue ''backtest'' [] None 3 ''job_enqueued'', Claim ''backtest'' ''w1'' ''job_claimed'']"




text \<open>
  Success is final: whatever calls follow, from however many workers and in whatever order, a
  job that has succeeded stays succeeded.
\<close>

theorem succeeded_is_final:
  assumes "store_ok s" and "wstep\<^sup>*\<^sup>* s s'" and "job_status s j = Some SUCCEEDED"
  shows "job_status s' j = Some SUCCEEDED"
proof -
  from assms(2) have "job_status s' j = Some SUCCEEDED \<and> store_ok s'"
  proof (induction rule: rtranclp_induct)
    case (step y z)
    obtain c x where "run_call c y = (x, z)" using step.hyps(2) by (auto elim: wstepE)
    then have "moves y z" using run_call_moves step.IH by blast
    then obtain b where "job_status z j = Some b" "SUCCEEDED = b \<or> allowed_move SUCCEEDED b"
      using step.IH unfolding moves_def by blast
    then have "job_status z j = Some SUCCEEDED" by simp
    moreover have "store_ok z" using step by (blast intro: worker_store.step_inv)
    ultimately show ?case by blast
  qed (use assms in simp)
  then show ?thesis ..
qed

definition done_job :: job where
  "done_job = (demo_job ''a'' 1000000)\<lparr>j_status := SUCCEEDED, j_terminal := True\<rparr>"

lemma succeeded_is_final_witness:
  "job_status (run_calls [Retry ''a'' ''w1'' ''again''] (demo_store [done_job])) ''a'' = Some SUCCEEDED"
proof -
  have ok: "store_ok (demo_store [done_job])"
    by (rule demo_store_ok) (simp_all add: done_job_def demo_job_def fresh_job_def safe_defs)
  have st: "job_status (demo_store [done_job]) ''a'' = Some SUCCEEDED"
    by (simp add: job_status_def demo_store_def done_job_def job_row_of_def)
  have "wstep\<^sup>*\<^sup>* (demo_store [done_job]) (run_calls [Retry ''a'' ''w1'' ''again''] (demo_store [done_job]))"
    by (rule demo_steps) (simp add: run_calls_def demo_store_def done_job_def job_row_of_def)
  from succeeded_is_final [OF ok this st] show ?thesis .
qed

text \<open>
  A call that raises is rolled back: it leaves all four tables exactly as they were.  The
  stale monitor, which commits job by job, is the one exception.
\<close>

theorem failed_call_is_rolled_back:
  assumes "run_call c s = (Inl e, s')" and "\<not> (\<exists>d w r. c = MarkStale d w r)"
  shows "jobs s' = jobs s \<and> transitions s' = transitions s \<and> heartbeats s' = heartbeats s \<and> gaps s' = gaps s"
proof -
  have "same_tables s s'" using assms
    by (cases c) (auto simp: voidS_Inl
      dest: enqueue_Inl update_spec_Inl claim_next_Inl start_job_Inl record_heartbeat_Inl succeed_job_Inl
        fail_job_Inl retry_job_Inl cancel_job_Inl record_gap_Inl)
  then show ?thesis by (simp add: same_tables_tables)
qed

lemma failed_call_is_rolled_back_witness:
  "jobs (snd (run_call (Retry ''nope'' ''w1'' ''again'') demo2)) = jobs demo2"
proof -
  obtain e s' where c: "run_call (Retry ''nope'' ''w1'' ''again'') demo2 = (Inl e, s')"
  proof (cases "retry_job ''nope'' ''w1'' ''again'' demo2")
    case (Pair x s')
    show thesis
    proof (cases x)
      case (Inl e)
      then show thesis using Pair that by (simp add: voidS_Inl)
    next
      case (Inr r)
      then show thesis using Pair
        by (auto simp: retry_job_def transition_job_Inr demo2_def demo_store_def store0_def)
    qed
  qed
  then show ?thesis using failed_call_is_rolled_back [OF c] by simp
qed

section \<open>Claiming\<close>

text \<open>
  C20: a claim takes from the queue of its kind a job whose (queue-time text, id) key is the least,
  writes it back claimed with one attempt more and the worker as its owner, and touches no other
  job; it returns nothing, and writes nothing, exactly when no job of the kind is queued.
\<close>

theorem claim_takes_first:
  assumes "store_ok s" and "worker \<noteq> []" and "reason \<noteq> []"
  shows "if queued_jobs s k = {} then claim_next (kind_value k) worker reason s = (Inr None, s)
    else \<exists>q c s'. q \<in> queued_jobs s k \<and> (\<forall>q' \<in> queued_jobs s k. job_key q \<le> job_key q') \<and>
      claim_next (kind_value k) worker reason s = (Inr (Some c), s') \<and> stored s' c \<and>
      c = claimed_job q (clock s (tick s)) worker \<and>
      (\<forall>j. j \<noteq> j_id q \<longrightarrow> map_of (jobs s') j = map_of (jobs s) j)"
proof (cases "queued_jobs s k = {}")
  case True
  then have "claim_candidates s k = []" using queued_jobs_candidates [OF assms(1), of k] by auto
  then have "claim_next (kind_value k) worker reason s = (Inr None, s)" by (simp add: claim_next_None)
  then show ?thesis using True by simp
next
  case False
  then show ?thesis using claim_next_step [OF assms False] by auto
qed

lemma claim_takes_first_witness:
  "\<exists>c s'. claim_next (kind_value BACKTEST) ''w1'' ''job_claimed'' demo2 = (Inr (Some c), s') \<and> stored s' c"
  using claim_takes_first [OF demo2_ok, of "''w1''" "''job_claimed''" BACKTEST] demo2_queued by auto

text \<open>
  Two claims in a row, by whatever workers, never hand out the same job.
\<close>

theorem claims_are_exclusive:
  assumes "store_ok s" and "w1 \<noteq> []"
    and "claim_next k1 w1 r1 s = (Inr (Some a), s1)" and "claim_next k2 w2 r2 s1 = (Inr (Some b), s2)"
  shows "j_id a \<noteq> j_id b"
proof
  assume eq: "j_id a = j_id b"
  have s1: "store_ok s1" by (rule claim_next_ok [OF assms(1-3)])
  have "job_status s1 (j_id a) = Some CLAIMED"
    using assms(3) by (auto simp: claim_next_Some claim_row_Inr)
  moreover have "job_status s1 (j_id b) = Some QUEUED"
  proof -
    obtain k kw rest where c: "claim_candidates s1 k = kw # rest" "claim_row w2 r2 (snd kw) s1 = (Inr (Some b), s2)"
      using assms(4) by (auto simp: claim_next_Some)
    have m: "kw \<in> set (jobs s1)" "j_status (w_record (snd kw)) = QUEUED"
      using c(1) candidates_set [OF s1, of kw k] by auto
    have "j_id b = fst kw" using c(2) row_ok_id [OF store_ok_member [OF s1 m(1)]] by (auto simp: claim_row_Inr)
    then show ?thesis using store_ok_lookup [OF s1 m(1)] m(2) by (simp add: job_status_def)
  qed
  ultimately show False using eq by simp
qed

lemma claims_are_exclusive_witness:
  "\<exists>a b s1 s2. claim_next (kind_value BACKTEST) ''w1'' ''c'' demo2 = (Inr (Some a), s1) \<and>
     claim_next (kind_value BACKTEST) ''w2'' ''c'' s1 = (Inr (Some b), s2) \<and> j_id a \<noteq> j_id b"
proof -
  have n: "''w1'' \<noteq> []" "''w2'' \<noteq> []" "''c'' \<noteq> []" by simp_all
  obtain q :: job and a s1 where a: "claim_next (kind_value BACKTEST) ''w1'' ''c'' demo2 = (Inr (Some a), s1)"
    "store_ok s1" and o: "\<forall>j. j \<noteq> j_id q \<longrightarrow> map_of (jobs s1) j = map_of (jobs demo2) j"
    using claim_next_step [OF demo2_ok n(1,3) demo2_queued] by blast
  obtain i t where i: "i \<noteq> j_id q" "map_of (jobs demo2) i = Some (job_row_of (demo_job i t) 0)"
  proof (cases "j_id q = ''a''")
    case True
    then show thesis using that [of "''b''"] demo2_jobs_b by simp
  next
    case False
    then show thesis using that [of "''a''"] demo2_jobs by auto
  qed
  then have "map_of (jobs s1) i = Some (job_row_of (demo_job i t) 0)" using o by simp
  from queued_jobsI [OF this, of BACKTEST] have "demo_job i t \<in> queued_jobs s1 BACKTEST" by simp
  then obtain b s2 where b: "claim_next (kind_value BACKTEST) ''w2'' ''c'' s1 = (Inr (Some b), s2)"
    using claim_next_step [OF a(2) n(2,3), of BACKTEST] by blast
  show ?thesis using a(1) b claims_are_exclusive [OF demo2_ok n(1) a(1) b] by blast
qed

section \<open>Failing and retrying\<close>

lemma new_transition_simps [simp]:
  "t_from (new_transition j f t w r n) = f" "t_to (new_transition j f t w r n) = t"
  by (simp_all add: new_transition_def)

lemma fail_write_log:
  "\<exists>t. transitions (fail_write cur j w reason b x y z s) = insert_or_replace (t_id t) t (transitions s) \<and>
    t_from t = Some (j_status cur) \<and> t_to t = FAILED"
proof -
  have "\<exists>n r. fail_write cur j w reason b x y z s =
      write_job r (new_transition j (Some (j_status cur)) FAILED (Some w) reason n) (s\<lparr>tick := Suc (tick s)\<rparr>)"
    unfolding fail_write_def by blast
  then show ?thesis by auto
qed

lemma retry_writes_log:
  "\<exists>t2 t3. transitions (retry_writes r j w s) =
      insert_or_replace (t_id t3) t3 (insert_or_replace (t_id t2) t2 (transitions s)) \<and>
    (t_from t2, t_to t2) = (Some FAILED, RETRYING) \<and> (t_from t3, t_to t3) = (Some RETRYING, QUEUED)"
proof -
  obtain n2 n3 where "retry_writes r j w s =
      write_job (requeued_job r) (new_transition j (Some RETRYING) QUEUED (Some w) ''retry_requeued'' n3)
        (write_job r (new_transition j (Some FAILED) RETRYING (Some w) ''retry_scheduled'' n2) s)"
    unfolding retry_writes_def Let_def by blast
  then show ?thesis
    by (intro exI [of _ "new_transition j (Some FAILED) RETRYING (Some w) ''retry_scheduled'' n2"]
        exI [of _ "new_transition j (Some RETRYING) QUEUED (Some w) ''retry_requeued'' n3"]) simp
qed

lemma fail_requeues_or_ends_aux:
  assumes "store_ok s" and "stored s cur" and "j_status cur \<notin> set TERMINAL_STATUSES" and "reason \<noteq> []"
  shows "\<exists>r s'. fail_job (j_id cur) worker reason retryable o_refs a_refs g_ids s = (Inr r, s') \<and>
    store_ok s' \<and> stored s' r \<and> same_job r cur \<and> j_failure_reason r = Some reason \<and>
    (if retryable \<and> j_attempts cur < j_max_attempts cur
     then j_status r = QUEUED \<and> \<not> j_terminal r \<and> j_lock_owner r = None \<and> j_heartbeat_at r = None \<and>
       (\<exists>t1 t2 t3. transitions s' = insert_or_replace (t_id t3) t3
            (insert_or_replace (t_id t2) t2 (insert_or_replace (t_id t1) t1 (transitions s))) \<and>
          map (\<lambda>t. (t_from t, t_to t)) [t1, t2, t3] =
            [(Some (j_status cur), FAILED), (Some FAILED, RETRYING), (Some RETRYING, QUEUED)])
     else j_status r = FAILED \<and> j_terminal r \<and>
       (\<exists>t. transitions s' = insert_or_replace (t_id t) t (transitions s) \<and>
          t_from t = Some (j_status cur) \<and> t_to t = FAILED))"
proof -
  obtain w where w: "map_of (jobs s) (j_id cur) = Some w" "w_record w = cur" "job_ok cur"
    using assms(2) by (auto simp: stored_def)
  note step = fail_job_step [of s "j_id cur" w reason worker retryable o_refs a_refs g_ids, unfolded w(2) Let_def,
      OF w(1,3) assms(3) job_ok_nonempty [OF w(3)] assms(4)]
  let ?f = "failed_job cur (clock s (tick s)) reason retryable o_refs a_refs g_ids"
  let ?q = "requeued_job (retrying_job ?f (clock s (tick s)))"
  show ?thesis
  proof (cases "can_retry retryable cur")
    case True
    let ?s' = "retry_writes (retrying_job ?f (clock s (tick s))) (j_id cur) worker
      (fail_write cur (j_id cur) worker reason retryable o_refs a_refs g_ids s)"
    have c: "fail_job (j_id cur) worker reason retryable o_refs a_refs g_ids s = (Inr ?q, ?s')"
      using step True by simp
    have ok: "store_ok ?s'" by (rule fail_job_ok [OF assms(1) c])
    have "map_of (jobs ?s') (j_id ?q) = Some (job_row_of ?q (clock s (Suc (Suc (Suc (Suc (Suc (tick s))))))))"
      by (simp add: retry_writes_def fail_write_def Let_def)
    moreover from store_ok_row [OF ok this] have "job_ok ?q" by (simp add: job_safe_def)
    ultimately have st: "stored ?s' ?q" by (simp add: stored_def job_row_of_def)
    have rec: "same_job ?q cur" "j_failure_reason ?q = Some reason" "j_status ?q = QUEUED" "\<not> j_terminal ?q"
        "j_lock_owner ?q = None" "j_heartbeat_at ?q = None"
      by (simp_all add: same_job_def fail_records)
    have log: "\<exists>t1 t2 t3. transitions ?s' = insert_or_replace (t_id t3) t3
          (insert_or_replace (t_id t2) t2 (insert_or_replace (t_id t1) t1 (transitions s))) \<and>
        map (\<lambda>t. (t_from t, t_to t)) [t1, t2, t3] =
          [(Some (j_status cur), FAILED), (Some FAILED, RETRYING), (Some RETRYING, QUEUED)]"
    proof -
      obtain t1 where "transitions (fail_write cur (j_id cur) worker reason retryable o_refs a_refs g_ids s) =
          insert_or_replace (t_id t1) t1 (transitions s)" "t_from t1 = Some (j_status cur)" "t_to t1 = FAILED"
        using fail_write_log by blast
      moreover obtain t2 t3 where "transitions ?s' = insert_or_replace (t_id t3) t3 (insert_or_replace (t_id t2) t2
          (transitions (fail_write cur (j_id cur) worker reason retryable o_refs a_refs g_ids s)))"
        "(t_from t2, t_to t2) = (Some FAILED, RETRYING)" "(t_from t3, t_to t3) = (Some RETRYING, QUEUED)"
        using retry_writes_log by blast
      ultimately show ?thesis by (intro exI [of _ t1] exI [of _ t2] exI [of _ t3]) simp
    qed
    have cond: "(retryable \<and> j_attempts cur < j_max_attempts cur) = True" using True by (simp add: can_retry_def)
    show ?thesis unfolding cond if_True
      by (rule exI [of _ ?q], rule exI [of _ ?s'], intro conjI) (fact c ok st rec log)+
  next
    case False
    let ?s' = "fail_write cur (j_id cur) worker reason retryable o_refs a_refs g_ids s"
    have c: "fail_job (j_id cur) worker reason retryable o_refs a_refs g_ids s = (Inr ?f, ?s')"
      using step False by simp
    have ok: "store_ok ?s'" by (rule fail_job_ok [OF assms(1) c])
    have "map_of (jobs ?s') (j_id ?f) = Some (job_row_of ?f (clock s (Suc (tick s))))"
      by (simp add: fail_write_def)
    moreover from store_ok_row [OF ok this] have "job_ok ?f" by (simp add: job_safe_def)
    ultimately have st: "stored ?s' ?f" by (simp add: stored_def job_row_of_def)
    have rec: "same_job ?f cur" "j_failure_reason ?f = Some reason" "j_status ?f = FAILED" "j_terminal ?f"
      using False by (simp_all add: same_job_def fail_records can_retry_def)
    have cond: "(retryable \<and> j_attempts cur < j_max_attempts cur) = False" using False by (simp add: can_retry_def)
    show ?thesis unfolding cond if_False
      by (rule exI [of _ ?f], rule exI [of _ ?s'], intro conjI) (fact c ok st rec fail_write_log)+
  qed
qed


lemma demo2_stored: "stored demo2 (demo_job ''a'' 1000000)"
  unfolding stored_def using demo2_jobs demo_job_safe [of "''a''"] by (simp add: job_safe_def job_row_of_def)


text \<open>
  C37: the hole in the manual retry.  A job whose attempts are used up may be retried by hand and
  claimed again; the claim then commits an attempt count above the maximum, and from then on the
  stored record fails its own validation: loading the job raises, and so does listing the store,
  whatever other jobs it holds.
\<close>

theorem exhausted_retry_poisons_store:
  assumes "store_ok s" and "map_of (jobs s) j = Some w" and "j_attempts (w_record w) = j_max_attempts (w_record w)"
    and "retry_job j worker reason s = (Inr r, s1)"
    and "claim_next kt worker2 reason2 s1 = (Inr (Some c), s2)" and "j_id c = j"
  shows "j_attempts c = j_max_attempts c + 1 \<and>
    load_job j s2 = (Inl (ValidationError [''attempts cannot exceed max_attempts'']), s2) \<and>
    (\<exists>e. list_jobs None None s2 = (Inl e, s2))"
proof -
  have w: "job_ok (w_record w)" "j_id (w_record w) = j"
    using store_ok_row [OF assms(1,2)] by (simp_all add: row_ok_def)
  have r: "map_of (jobs s1) j = Some (job_row_of r (clock s (tick s)))" "j_attempts r = j_max_attempts r"
      "j_id r = j" "j_status r = QUEUED" "\<not> j_terminal r" "job_ok r"
    using assms(2-4) w by (auto simp: retry_job_def transition_job_Inr job_ok_def TERMINAL_STATUSES_def)
  obtain k kw rest where cc: "claim_candidates s1 k = kw # rest"
    and cr: "claim_row worker2 reason2 (snd kw) s1 = (Inr (Some c), s2)"
    using assms(5) by (auto simp: claim_next_Some)
  have d1: "distinct (map fst (jobs s1))"
    using assms(1,4) by (auto simp: retry_job_def transition_job_Inr store_ok_def intro: distinct_insert_or_replace)
  have m: "map_of (jobs s1) (fst kw) = Some (snd kw)"
    using claim_candidates_member(1) [OF cc] d1 by simp
  have rows: "j_id (w_record v) = i" if "map_of (jobs s1) i = Some v" for i v
    using that assms(4) store_ok_row [OF assms(1), of i v] w(2)
    by (auto simp: retry_job_def transition_job_Inr row_ok_def split: if_splits)
  have "fst kw = j" using rows [OF m] assms(6) cr by (auto simp: claim_row_Inr)
  then have kw: "snd kw = job_row_of r (clock s (tick s))" using m r(1) by simp
  have c: "c = claimed_job r (clock s1 (tick s1)) worker2" and j2: "map_of (jobs s2) j = Some (job_row_of c (clock s1 (Suc (tick s1))))"
    using cr kw r(3) by (auto simp: claim_row_Inr)
  have bad: "validate_job c = Inl (ValidationError [''attempts cannot exceed max_attempts''])"
    using r by (auto simp: c validate_job_def validate_model_def job_ok_def TERMINAL_STATUSES_def claimed_job_def)
  have "load_job j s2 = (Inl (ValidationError [''attempts cannot exceed max_attempts'']), s2)"
    by (simp add: load_job_def transaction_def load_job_row_def bindS_def j2 bad)
  moreover have "\<exists>e. list_jobs None None s2 = (Inl e, s2)"
  proof -
    have "(j, job_row_of c (clock s1 (Suc (tick s1)))) \<in> set (sorted_by queue_key (jobs s2))"
      using map_of_SomeD [OF j2] by simp
    then have "mapE (\<lambda>(_, w). validate_job (w_record w)) (sorted_by queue_key (jobs s2)) \<noteq> Inr ys" for ys
      using bad by (auto dest: mapE_member)
    then obtain e where "mapE (\<lambda>(_, w). validate_job (w_record w)) (sorted_by queue_key (jobs s2)) = Inl e"
      by (meson sum.exhaust)
    then show ?thesis by (auto simp: list_jobs_def bindS_def)
  qed
  ultimately show ?thesis using r(2) by (simp add: c)
qed

definition spent_job :: job where
  "spent_job = (demo_job ''a'' 1000000)\<lparr>j_status := FAILED, j_terminal := True, j_attempts := 1\<rparr>"

lemma exhausted_retry_poisons_store_witness:
  "\<exists>r s1 c s2. retry_job ''a'' ''w1'' ''again'' (demo_store [spent_job]) = (Inr r, s1) \<and>
    claim_next (kind_value BACKTEST) ''w1'' ''c'' s1 = (Inr (Some c), s2) \<and>
    (\<exists>e. list_jobs None None s2 = (Inl e, s2))"
proof -
  let ?s = "demo_store [spent_job]"
  have ok: "store_ok ?s"
    by (rule demo_store_ok) (simp_all add: spent_job_def demo_job_def fresh_job_def safe_defs)
  have m: "map_of (jobs ?s) ''a'' = Some (job_row_of spent_job 0)"
    by (simp add: demo_store_def spent_job_def)
  have jok: "job_ok spent_job" by (simp add: spent_job_def demo_job_def fresh_job_def job_ok_def TERMINAL_STATUSES_def)
  have at: "j_attempts (w_record (job_row_of spent_job 0)) = j_max_attempts (w_record (job_row_of spent_job 0))"
    by (simp add: spent_job_def)
  obtain r s1 where r: "retry_job ''a'' ''w1'' ''again'' ?s = (Inr r, s1)"
    using m jok unfolding retry_job_def by (auto simp: transition_job_Inr spent_job_def)
  then have j1: "jobs s1 = [(''a'', job_row_of r (clock ?s (tick ?s)))]"
    and rr: "job_ok r" "j_kind r = BACKTEST" "j_status r = QUEUED" "j_id r = ''a''"
    using m jok by (auto simp: retry_job_def transition_job_Inr demo_store_def insert_or_replace_def spent_job_def
        job_ok_def TERMINAL_STATUSES_def)
  have cc: "claim_candidates s1 BACKTEST = [(''a'', job_row_of r (clock ?s (tick ?s)))]"
    using rr by (simp add: claim_candidates_def j1 sorted_by_def job_row_of_def)
  obtain c s2 where cr: "claim_row ''w1'' ''c'' (job_row_of r (clock ?s (tick ?s))) s1 = (Inr (Some c), s2)"
    and i: "j_id c = ''a''" using rr by (auto simp: claim_row_Inr)
  have c: "claim_next (kind_value BACKTEST) ''w1'' ''c'' s1 = (Inr (Some c), s2)"
    unfolding claim_next_Some
    by (rule exI [of _ BACKTEST], rule exI [of _ "(''a'', job_row_of r (clock ?s (tick ?s)))"], rule exI [of _ "[]"])
       (simp only: cc cr job_kind_of_value snd_conv simp_thms)
  show ?thesis using exhausted_retry_poisons_store [OF ok m at r c i] r c by blast
qed

section \<open>The stale monitor\<close>

text \<open>
  With a reason and a representable cutoff the stale monitor always returns; it marks stale
  exactly the claimed and running jobs whose last sign of life is not after the cutoff, leaves
  every other row as it is, and adds or removes no job.
\<close>

theorem mark_stale_exact:
  assumes "store_ok s" and "reason \<noteq> []" and "add_us (clock s (tick s)) (- d) = Inr cutoff"
  shows "\<exists>ys s'. mark_stale_jobs d worker reason s = (Inr ys, s') \<and>
    (\<forall>j w. map_of (jobs s) j = Some w \<longrightarrow>
       (if is_stale cutoff (w_record w) then job_status s' j = Some STALE \<and> j \<in> set (map j_id ys)
        else map_of (jobs s') j = Some w \<and> j \<notin> set (map j_id ys))) \<and>
    dom (map_of (jobs s')) = dom (map_of (jobs s))"
  by (rule mark_stale_loop [OF assms])

definition silent_job :: job where
  "silent_job = (demo_job ''a'' 1000000)\<lparr>j_status := RUNNING, j_attempts := 1, j_lock_owner := Some ''w1'',
     j_claimed_at := Some 2000000\<rparr>"

lemma mark_stale_exact_witness:
  "\<exists>ys s'. mark_stale_jobs 60000000 ''m'' ''heartbeat_stale'' (demo_store [silent_job]) = (Inr ys, s') \<and>
    job_status s' ''a'' = Some STALE"
proof -
  let ?s = "demo_store [silent_job]"
  have ok: "store_ok ?s"
    by (rule demo_store_ok) (simp_all add: silent_job_def demo_job_def fresh_job_def safe_defs)
  have c: "add_us (clock ?s (tick ?s)) (- 60000000) = Inr 63853919940000000"
    by (simp add: demo_store_def store0_def add_us_def valid_instant_def max_ordinal_def us_per_day_def)
  have m: "map_of (jobs ?s) ''a'' = Some (job_row_of silent_job 0)" by (simp add: demo_store_def silent_job_def)
  have n: "''heartbeat_stale'' \<noteq> []" by simp
  have st: "is_stale 63853919940000000 silent_job"
    by (simp add: is_stale_def last_sign_of_life_def silent_job_def demo_job_def fresh_job_def)
  from mark_stale_exact [OF ok n c, of "''m''"] obtain ys s' where
    *: "mark_stale_jobs 60000000 ''m'' ''heartbeat_stale'' ?s = (Inr ys, s')"
    "\<forall>j w. map_of (jobs ?s) j = Some w \<longrightarrow>
       (if is_stale 63853919940000000 (w_record w) then job_status s' j = Some STALE \<and> j \<in> set (map j_id ys)
        else map_of (jobs s') j = Some w \<and> j \<notin> set (map j_id ys))" by blast
  from *(2) [rule_format, OF m] st have "job_status s' ''a'' = Some STALE" by (simp del: map_of_eq_Some_iff)
  then show ?thesis using *(1) by blast
qed

section \<open>The runner\<close>

text \<open>
  A call of the runner from an operator process is refused before it touches the store.  On a
  store in order it returns nothing when no job of the kind is queued, and otherwise the first one
  reaches its job module claimed by this worker, running and valid, with one attempt more; the
  runner's own bookkeeping before that never raises.
\<close>

theorem runner_reaches_module:
  assumes "store_ok s" and "worker \<noteq> []"
  shows "run_one_job run exc_text kt worker True s =
      (Inl (RuntimeError ''worker jobs must not run inside ASGI/operator process''), s) \<and>
    (if queued_jobs s k = {} then run_one_job run exc_text (kind_value k) worker False s = (Inr None, s)
     else \<exists>q running r s'. q \<in> queued_jobs s k \<and> (\<forall>q' \<in> queued_jobs s k. job_key q \<le> job_key q') \<and>
       store_ok s' \<and> stored s' r \<and> same_job r running \<and> j_status r = RUNNING \<and> j_lock_owner r = Some worker \<and>
       j_id running = j_id q \<and> j_status running = RUNNING \<and> j_attempts running = j_attempts q + 1 \<and>
       j_max_attempts running = j_max_attempts q \<and>
       run_one_job run exc_text (kind_value k) worker False s =
         bindS (run_claimed run exc_text k running worker) (\<lambda>r. retS (Some r)) s')"
proof (cases "queued_jobs s k = {}")
  case True
  then have "claim_candidates s k = []" using queued_jobs_candidates [OF assms(1), of k] by auto
  then have "claim_next (kind_value k) worker ''job_claimed'' s = (Inr None, s)" by (simp add: claim_next_None)
  then show ?thesis using True by (simp add: run_one_job_def bindS_def)
next
  case False
  then show ?thesis using run_prelude [OF assms False, of run exc_text] by (simp add: run_one_job_def)
qed

lemma runner_reaches_module_witness:
  "\<exists>q \<in> queued_jobs demo2 BACKTEST. \<exists>r s'. stored s' r \<and> j_id r = j_id q \<and> j_status r = RUNNING"
proof -
  have n: "''w1'' \<noteq> []" by simp
  note t = runner_reaches_module [OF demo2_ok n, of "\<lambda>f r w. raiseS (ValueError ''x'')" "\<lambda>e. ''x''" "''backtest''" BACKTEST]
  obtain q running r s' where "q \<in> queued_jobs demo2 BACKTEST" "stored s' r" "same_job r running" "j_status r = RUNNING"
    "j_id running = j_id q"
    using conjunct2 [OF t] unfolding if_not_P [OF demo2_queued] by blast
  then show ?thesis unfolding same_job_def by metis
qed

text \<open>
  C36: when the job module raises and leaves the store as it found it, the job is queued again while
  it has attempts left and failed for good otherwise, and the result of the runner says so, with
  the text of the exception as the reason.  An exception with an empty text is different: the
  failure cannot be recorded, the runner itself raises, and the job is left running.
\<close>

theorem runner_records_failure:
  assumes s: "store_ok s" and w: "worker \<noteq> []" and q: "queued_jobs s k \<noteq> {}"
    and h: "\<And>running s. dispatch run k running worker s = (Inl e, s)"
  shows "\<exists>q \<in> queued_jobs s k. \<exists>x s'. run_one_job run exc_text (kind_value k) worker False s = (x, s') \<and>
    (if exc_text e = [] then (\<exists>m. x = Inl (ValidationError m)) \<and> job_status s' (j_id q) = Some RUNNING
     else \<exists>r. x = Inr (Some r) \<and> rr_job r = j_id q \<and> rr_failure_reason r = Some (exc_text e) \<and>
       rr_status r = (if j_attempts q + 1 < j_max_attempts q then QUEUED else FAILED) \<and>
       job_status s' (j_id q) = Some (rr_status r))"
proof -
  obtain q running r s1 where q: "q \<in> queued_jobs s k" and s1: "store_ok s1" "stored s1 r" "same_job r running" "j_status r = RUNNING"
    and i: "j_id running = j_id q" "j_attempts running = j_attempts q + 1" "j_max_attempts running = j_max_attempts q"
    and run: "run_one_job run exc_text (kind_value k) worker False s =
       bindS (run_claimed run exc_text k running worker) (\<lambda>r. retS (Some r)) s1"
    using run_prelude [OF s w q, of run exc_text] by blast
  let ?b = "j_attempts running < j_max_attempts running"
  have rid: "j_id r = j_id running" "j_attempts r = j_attempts running" "j_max_attempts r = j_max_attempts running"
    using s1(3) by (simp_all add: same_job_def)
  obtain w0 where w0: "map_of (jobs s1) (j_id r) = Some w0" "w_record w0 = r" "job_ok r"
    using s1(2) by (auto simp: stored_def)
  show ?thesis
  proof (cases "exc_text e = []")
    case True
    have "\<exists>m s2. fail_job (j_id running) worker [] ?b [] [] [] s1 = (Inl (ValidationError m), s2) \<and> same_tables s1 s2"
    proof -
      have req: "require_job (j_id running) s1 = (Inr r, s1)" using w0 rid by (simp add: require_job_Inr)
      have "\<exists>m s2. fail_job (j_id running) worker [] ?b [] [] [] s1 = (Inl (ValidationError m), s2)"
        unfolding fail_job_def transaction_def
        by (simp add: bindS_def req s1(4) TERMINAL_STATUSES_def Let_def insert_transition_def
            canonical_json_hash_digest [OF transition_identity_finite] validate_transition_def validate_model_def)
      then show ?thesis using fail_job_Inl by blast
    qed
    then obtain m s2 where f: "fail_job (j_id running) worker [] ?b [] [] [] s1 = (Inl (ValidationError m), s2)" "same_tables s1 s2" by blast
    have "run_one_job run exc_text (kind_value k) worker False s = (Inl (ValidationError m), s2)"
      unfolding run run_claimed_def catchS_def by (simp add: bindS_def h True f(1))
    moreover have "job_status s2 (j_id q) = Some RUNNING"
      using w0 s1(4) rid i same_tables_tables(1) [OF f(2)] by (simp add: job_status_def)
    ultimately show ?thesis using q True by auto
  next
    case False
    have "j_status r \<notin> set TERMINAL_STATUSES" using s1(4) by (simp add: TERMINAL_STATUSES_def)
    from fail_requeues_or_ends_aux [OF s1(1,2) this False, of worker ?b "[]" "[]" "[]"] obtain r' s2 where
      f: "fail_job (j_id running) worker (exc_text e) ?b [] [] [] s1 = (Inr r', s2)" and r': "stored s2 r'" "same_job r' r"
        "j_failure_reason r' = Some (exc_text e)" "j_status r' = (if ?b then QUEUED else FAILED)"
      unfolding rid by auto
    have v: "validate_run_result (failure_result (j_id running) r') = Inr (failure_result (j_id running) r')"
      using job_ok_nonempty [OF w0(3)] rid by (simp add: validate_run_result_def validate_model_def failure_result_def)
    have "run_one_job run exc_text (kind_value k) worker False s = (Inr (Some (failure_result (j_id running) r')), s2)"
      unfolding run run_claimed_def catchS_def by (simp add: bindS_def h f v)
    moreover have "job_status s2 (j_id q) = Some (j_status r')"
      using r'(1,2) rid i by (auto simp: stored_def job_status_def same_job_def)
    ultimately show ?thesis using q False r'(3,4) i
      by (intro bexI [OF _ q]) (auto simp: failure_result_def)
  qed
qed

lemma runner_records_failure_witness:
  "\<exists>x s'. run_one_job (\<lambda>f r w. raiseS (ValueError ''x'')) (\<lambda>e. []) (kind_value BACKTEST) ''w1'' False demo2 = (x, s') \<and>
     (\<exists>m. x = Inl (ValidationError m))"
proof -
  have n: "''w1'' \<noteq> []" by simp
  have h: "dispatch (\<lambda>f r w. raiseS (ValueError ''x'')) BACKTEST running ''w1'' s = (Inl (ValueError ''x''), s)" for running s
    by (simp add: dispatch_def BACKTEST_KINDS_def)
  from runner_records_failure [OF demo2_ok n demo2_queued h, of "\<lambda>e. []"] show ?thesis
    unfolding if_P [OF refl] by blast
qed

end
