(* ===== verification/QualityModels.thy ===== *)
theory QualityModels
  imports Boundary
begin

text \<open>
  \<open>data_quality/schemas.py\<close>: the coverage report and the quality check with the constraints their
  construction enforces, and how the code reads numbers, texts and timestamps off the
  dynamically typed values of a row.  Parsing an ISO timestamp and parsing a number from text are
  parameters of the code that uses them (a record of two functions).
\<close>

section \<open>Reading values\<close>

record pyenv =
  fromisoformat :: "string \<Rightarrow> pydatetime result"
  float_of_text :: "string \<Rightarrow> pyfloat result"

text \<open>\<open>str(value)\<close>\<close>

definition offset_text :: "int \<Rightarrow> string" where
  "offset_text off = (let a = \<bar>off\<bar>; s = a div us_per_second; f = a mod us_per_second in
     (if off < 0 then ''-'' else ''+'') @ zero_pad 2 (s div 3600) @ '':'' @ zero_pad 2 (s div 60 mod 60)
     @ (if s mod 60 = 0 \<and> f = 0 then '''' else '':'' @ zero_pad 2 (s mod 60))
     @ (if f = 0 then '''' else ''.'' @ zero_pad 6 f))"

fun py_str :: "pyval \<Rightarrow> string" where
  "py_str VNone = ''None''"
| "py_str (VBool b) = (if b then ''True'' else ''False'')"
| "py_str (VInt i) = string_of_int i"
| "py_str (VFloat x) = float_repr x"
| "py_str (VStr s) = s"
| "py_str (VTime (Naive l)) = date_isoformat (date_of l) @ '' '' @ time_isoformat (l mod us_per_day)"
| "py_str (VTime (Aware l off)) =
     date_isoformat (date_of l) @ '' '' @ time_isoformat (l mod us_per_day) @ offset_text off"

text \<open>\<open>float(value)\<close>\<close>

fun py_float :: "pyenv \<Rightarrow> pyval \<Rightarrow> pyfloat result" where
  "py_float env (VBool b) = Inr (if b then Fin 1 else Fin 0)"
| "py_float env (VInt i) = float_of_int i"
| "py_float env (VFloat x) = Inr x"
| "py_float env (VStr s) = float_of_text env s"
| "py_float env v = Inl (TypeError ''float() argument must be a string or a real number'')"

text \<open>\<open>value.replace("Z", "+00:00")\<close> and the timestamp parser of \<open>data_quality/checks.py\<close>.\<close>

definition replace_z :: "string \<Rightarrow> string" where
  "replace_z s = concat (map (\<lambda>c. if c = CHR ''Z'' then ''+00:00'' else [c]) s)"

fun parse_timestamp :: "pyenv \<Rightarrow> pyval \<Rightarrow> instant result" where
  "parse_timestamp env (VTime t) = ensure_utc t"
| "parse_timestamp env (VStr s) = bindE (fromisoformat env (replace_z s)) ensure_utc"
| "parse_timestamp env v = Inl (ValueError ''unsupported timestamp value'')"

text \<open>\<open>except (KeyError, TypeError, ValueError)\<close>, and \<open>row[field]\<close>, \<open>row.get(field)\<close>\<close>

definition is_parse_error :: "py_error \<Rightarrow> bool" where
  "is_parse_error e \<longleftrightarrow> is_key_error e \<or> is_type_error e \<or> is_value_error e"

definition row_item :: "pyrow \<Rightarrow> string \<Rightarrow> pyval result" where
  "row_item row field = (case map_of row field of None \<Rightarrow> Inl (KeyError field) | Some v \<Rightarrow> Inr v)"

definition row_get :: "pyrow \<Rightarrow> string \<Rightarrow> pyval" where
  "row_get row field = (case map_of row field of None \<Rightarrow> VNone | Some v \<Rightarrow> v)"

lemma parse_timestamp_valid: "parse_timestamp env v = Inr t \<Longrightarrow> valid_instant t"
  by (cases "(env, v)" rule: parse_timestamp.cases) (auto simp: bindE_Inr_iff dest: ensure_utc_valid)

section \<open>Records\<close>

datatype evidence_mode = ACCEPTED_RESEARCH | REPORTED_EVIDENCE | SANDBOX_DIAGNOSTIC

fun mode_value :: "evidence_mode \<Rightarrow> string" where
  "mode_value ACCEPTED_RESEARCH = ''accepted_research''"
| "mode_value REPORTED_EVIDENCE = ''reported_evidence''"
| "mode_value SANDBOX_DIAGNOSTIC = ''sandbox_diagnostic''"

datatype quality_status = Q_PASS | Q_FAIL | Q_NON_EVIDENCE

record coverage_report =
  cr_id :: string
  cr_created_at :: instant
  cr_venue :: string
  cr_instrument :: string
  cr_family :: string
  cr_timeframe :: string
  cr_start :: instant
  cr_end :: instant
  cr_expected :: int
  cr_observed :: int
  cr_source_rows :: int
  cr_ratio :: pyfloat
  cr_min :: pyfloat
  cr_missing :: int
  cr_missing_sample :: "string list"
  cr_missing_days :: "string list"
  cr_duplicates :: int
  cr_stale :: int
  cr_zero_volume :: int
  cr_return_outliers :: int
  cr_spread_outliers :: int
  cr_funding_outliers :: int
  cr_outliers :: int
  cr_parse_failures :: int
  cr_caveats :: "string list"
  cr_mode :: evidence_mode
  cr_status :: quality_status
  cr_eligible :: bool
  cr_blockers :: "string list"
  cr_flags :: flags

definition in_unit :: "pyfloat \<Rightarrow> bool" where
  "in_unit x \<longleftrightarrow> f_ge x (Fin 0) \<and> f_le x (Fin 1)"

definition validate_coverage :: "coverage_report \<Rightarrow> coverage_report result" where
  "validate_coverage r = validate_model
     [(length (cr_id r) = 64, ''coverage_report_id''), (cr_venue r \<noteq> [], ''venue''),
      (cr_instrument r \<noteq> [], ''instrument_id''), (cr_family r \<noteq> [], ''family''),
      (cr_timeframe r \<noteq> [], ''timeframe''), (0 \<le> cr_expected r, ''expected_rows''),
      (0 \<le> cr_observed r, ''observed_rows''), (0 \<le> cr_source_rows r, ''source_row_count''),
      (in_unit (cr_ratio r), ''coverage_ratio''), (in_unit (cr_min r), ''coverage_min''),
      (0 \<le> cr_missing r, ''missing_timestamp_count''), (0 \<le> cr_duplicates r, ''duplicate_timestamp_count''),
      (0 \<le> cr_stale r, ''stale_segment_count''), (0 \<le> cr_zero_volume r, ''zero_volume_count''),
      (0 \<le> cr_return_outliers r, ''return_outlier_count''), (0 \<le> cr_spread_outliers r, ''spread_outlier_count''),
      (0 \<le> cr_funding_outliers r, ''funding_outlier_count''), (0 \<le> cr_outliers r, ''outlier_count''),
      (0 \<le> cr_parse_failures r, ''parse_failure_count'')]
     [(cr_end r \<le> cr_start r, ''end_ts must be greater than start_ts''),
      (cr_observed r > cr_expected r \<and> cr_expected r > 0, ''observed_rows cannot exceed expected_rows''),
      (cr_outliers r \<noteq> cr_return_outliers r + cr_spread_outliers r + cr_funding_outliers r,
         ''outlier_count must equal the sum of outlier families''),
      (\<not> boundary_ok (cr_flags r), ''coverage reports must preserve the v2 research boundary''),
      (cr_mode r = SANDBOX_DIAGNOSTIC \<and> cr_eligible r, ''sandbox diagnostics cannot be evidence eligible''),
      (cr_mode r = SANDBOX_DIAGNOSTIC \<and> ''sandbox_diagnostic_non_evidence'' \<notin> set (cr_blockers r),
         ''sandbox diagnostics must be labeled non-evidence''),
      (cr_eligible r \<and> cr_blockers r \<noteq> [], ''evidence eligible reports cannot have blocker reasons'')] r"

record quality_check =
  qc_id :: string
  qc_created_at :: instant
  qc_venue :: string
  qc_instrument :: string
  qc_family :: string
  qc_timeframe :: string
  qc_start :: instant
  qc_end :: instant
  qc_type :: string
  qc_status :: quality_status
  qc_affected :: int
  qc_sample :: "string list"
  qc_severity :: string
  qc_details :: "(string \<times> string) list"
  qc_mode :: evidence_mode
  qc_flags :: flags

definition validate_check :: "quality_check \<Rightarrow> quality_check result" where
  "validate_check r = validate_model
     [(length (qc_id r) = 64, ''check_id''), (qc_venue r \<noteq> [], ''venue''), (qc_instrument r \<noteq> [], ''instrument_id''),
      (qc_family r \<noteq> [], ''family''), (qc_timeframe r \<noteq> [], ''timeframe''), (qc_type r \<noteq> [], ''check_type''),
      (0 \<le> qc_affected r, ''affected_count'')]
     [(qc_end r \<le> qc_start r, ''end_ts must be greater than start_ts''),
      (\<not> basic_boundary_ok (qc_flags r), ''quality checks must preserve the v2 research boundary''),
      (qc_status r = Q_PASS \<and> qc_affected r \<noteq> 0, ''passing quality checks cannot have affected rows'')] r"

text \<open>What the constraints of a coverage report amount to.\<close>

definition coverage_ok :: "coverage_report \<Rightarrow> bool" where
  "coverage_ok r \<longleftrightarrow> length (cr_id r) = 64 \<and> cr_venue r \<noteq> [] \<and> cr_instrument r \<noteq> [] \<and> cr_family r \<noteq> [] \<and>
     cr_timeframe r \<noteq> [] \<and> list_all (\<lambda>n. 0 \<le> n) [cr_expected r, cr_observed r, cr_source_rows r, cr_missing r,
       cr_duplicates r, cr_stale r, cr_zero_volume r, cr_return_outliers r, cr_spread_outliers r,
       cr_funding_outliers r, cr_outliers r, cr_parse_failures r] \<and>
     in_unit (cr_ratio r) \<and> in_unit (cr_min r) \<and> cr_start r < cr_end r \<and>
     (cr_expected r > 0 \<longrightarrow> cr_observed r \<le> cr_expected r) \<and>
     cr_outliers r = cr_return_outliers r + cr_spread_outliers r + cr_funding_outliers r \<and>
     boundary_ok (cr_flags r) \<and>
     (cr_mode r = SANDBOX_DIAGNOSTIC \<longrightarrow> \<not> cr_eligible r \<and> ''sandbox_diagnostic_non_evidence'' \<in> set (cr_blockers r)) \<and>
     (cr_eligible r \<longrightarrow> cr_blockers r = [])"

lemma validate_coverage_Inr [result_simps]: "validate_coverage r = Inr r' \<longleftrightarrow> r' = r \<and> coverage_ok r"
  unfolding validate_coverage_def validate_model_Inr_iff coverage_ok_def by (auto simp: not_le not_less)

lemma validate_check_Inr [result_simps]:
  "validate_check r = Inr r' \<longleftrightarrow> r' = r \<and> length (qc_id r) = 64 \<and> qc_venue r \<noteq> [] \<and> qc_instrument r \<noteq> [] \<and>
     qc_family r \<noteq> [] \<and> qc_timeframe r \<noteq> [] \<and> qc_type r \<noteq> [] \<and> 0 \<le> qc_affected r \<and> qc_start r < qc_end r \<and>
     basic_boundary_ok (qc_flags r) \<and> (qc_status r = Q_PASS \<longrightarrow> qc_affected r = 0)"
  unfolding validate_check_def validate_model_Inr_iff by (auto simp: not_le)

end
