(* ===== verification/QualityChecks.thy ===== *)
theory QualityChecks
  imports QualityModels
begin

text \<open>
  \<open>data_quality/checks.py\<close>: the six detectors over the rows whose timestamp parses, and the quality
  check record built from each.  \<open>created_at\<close> is an argument, one reading of the clock for all the
  records of a call.
\<close>

section \<open>Arguments\<close>

record series =
  s_venue :: string
  s_instrument :: string
  s_family :: string
  s_timeframe :: string

record row_fields =
  ts_field :: string
  volume_field :: string
  price_field :: string
  spread_field :: string
  funding_field :: string

record thresholds =
  stale_min_run :: int
  max_abs_return :: pyfloat
  max_spread :: pyfloat
  max_abs_funding :: pyfloat

definition default_thresholds :: thresholds where
  "default_thresholds = \<lparr>stale_min_run = 3, max_abs_return = fl (1/2), max_spread = fl (1/10),
     max_abs_funding = fl (1/10)\<rparr>"

type_synonym parsed_row = "instant \<times> pyrow"

section \<open>Detectors\<close>

text \<open>\<open>_parse_rows\<close>: rows whose timestamp is missing or does not parse are skipped.\<close>

fun parse_rows :: "pyenv \<Rightarrow> string \<Rightarrow> pyrow list \<Rightarrow> parsed_row list result" where
  "parse_rows env tsf [] = Inr []"
| "parse_rows env tsf (row # rows) =
     (case bindE (row_item row tsf) (parse_timestamp env) of
        Inr ts \<Rightarrow> bindE (parse_rows env tsf rows) (\<lambda>ps. Inr ((ts, row) # ps))
      | Inl e \<Rightarrow> if is_parse_error e then parse_rows env tsf rows else Inl e)"

definition optional_float :: "pyenv \<Rightarrow> pyval \<Rightarrow> pyfloat option result" where
  "optional_float env v =
     (if v = VNone then Inr None
      else case py_float env v of
        Inr x \<Rightarrow> Inr (Some x)
      | Inl e \<Rightarrow> if is_type_error e \<or> is_value_error e then Inr None else Inl e)"

definition detect_duplicate_timestamps :: "parsed_row list \<Rightarrow> instant list" where
  "detect_duplicate_timestamps ps = sorted_by id
     (filter (\<lambda>t. 1 < length (filter (\<lambda>u. u = t) (map fst ps))) (uniq (map fst ps)))"

definition field_floats :: "pyenv \<Rightarrow> string \<Rightarrow> parsed_row list \<Rightarrow> (instant \<times> pyfloat option) list result" where
  "field_floats env field ps =
     mapE (\<lambda>(ts, row). bindE (optional_float env (row_get row field)) (\<lambda>v. Inr (ts, v))) ps"

definition detect_zero_volume :: "pyenv \<Rightarrow> string \<Rightarrow> parsed_row list \<Rightarrow> instant list result" where
  "detect_zero_volume env field ps = bindE (field_floats env field ps) (\<lambda>vs.
     Inr (map fst (filter (\<lambda>(ts, v). case v of None \<Rightarrow> False | Some x \<Rightarrow> f_eq x (Fin 0)) vs)))"

fun stale_loop :: "int \<Rightarrow> string \<Rightarrow> parsed_row list \<Rightarrow> string option \<Rightarrow> instant list \<Rightarrow> instant list" where
  "stale_loop n field [] cur run = (if int (length run) \<ge> n then [hd run] else [])"
| "stale_loop n field ((ts, row) # rest) cur run =
     (if row_get row field = VNone then stale_loop n field rest None []
      else let value = py_str (row_get row field) in
        if Some value = cur then stale_loop n field rest cur (run @ [ts])
        else (if int (length run) \<ge> n then [hd run] else []) @ stale_loop n field rest (Some value) [ts])"

definition detect_stale_segments :: "string \<Rightarrow> int \<Rightarrow> parsed_row list \<Rightarrow> instant list result" where
  "detect_stale_segments field n ps =
     bindE (guardE (\<not> n < 2) (ValueError ''min_run_length must be >= 2'')) (\<lambda>_.
     Inr (stale_loop n field (sorted_by fst ps) None []))"

fun return_loop :: "pyfloat \<Rightarrow> (instant \<times> pyfloat option) list \<Rightarrow> pyfloat option \<Rightarrow> instant list" where
  "return_loop m [] prev = []"
| "return_loop m ((ts, None) # rest) prev = return_loop m rest None"
| "return_loop m ((ts, Some price) # rest) prev =
     (if f_le price (Fin 0) then return_loop m rest (Some price)
      else (case prev of
          None \<Rightarrow> []
        | Some p \<Rightarrow> if f_gt p (Fin 0) \<and> f_gt (f_abs (f_sub (f_div_raw price p) (Fin 1))) m then [ts] else [])
        @ return_loop m rest (Some price))"

definition detect_return_outliers :: "pyenv \<Rightarrow> string \<Rightarrow> pyfloat \<Rightarrow> parsed_row list \<Rightarrow> instant list result" where
  "detect_return_outliers env field m ps =
     bindE (guardE (\<not> f_le m (Fin 0)) (ValueError ''max_abs_return must be positive'')) (\<lambda>_.
     bindE (field_floats env field (sorted_by fst ps)) (\<lambda>vs. Inr (return_loop m vs None)))"

definition detect_spread_outliers :: "pyenv \<Rightarrow> string \<Rightarrow> pyfloat \<Rightarrow> parsed_row list \<Rightarrow> instant list result" where
  "detect_spread_outliers env field m ps =
     bindE (guardE (\<not> f_lt m (Fin 0)) (ValueError ''max_spread must be non-negative'')) (\<lambda>_.
     bindE (field_floats env field ps) (\<lambda>vs.
     Inr (map fst (filter (\<lambda>(ts, v). case v of None \<Rightarrow> False | Some x \<Rightarrow> f_gt x m) vs))))"

definition detect_funding_outliers :: "pyenv \<Rightarrow> string \<Rightarrow> pyfloat \<Rightarrow> parsed_row list \<Rightarrow> instant list result" where
  "detect_funding_outliers env field m ps =
     bindE (guardE (\<not> f_lt m (Fin 0)) (ValueError ''max_abs_funding must be non-negative'')) (\<lambda>_.
     bindE (field_floats env field ps) (\<lambda>vs.
     Inr (map fst (filter (\<lambda>(ts, v). case v of None \<Rightarrow> False | Some x \<Rightarrow> f_gt (f_abs x) m) vs))))"

section \<open>Check records\<close>

definition new_check :: "series \<Rightarrow> instant \<Rightarrow> instant \<Rightarrow> string \<Rightarrow> instant list \<Rightarrow> evidence_mode \<Rightarrow> instant \<Rightarrow> quality_check result" where
  "new_check sr start_ts end_ts check_type affected mode now =
     (let sample = map iso_of_instant (take 50 affected);
          st = (if mode = SANDBOX_DIAGNOSTIC then Q_NON_EVIDENCE else if affected \<noteq> [] then Q_FAIL else Q_PASS)
      in bindE (canonical_json_hash (JObj [
           (''venue'', JStr (s_venue sr)), (''instrument_id'', JStr (s_instrument sr)),
           (''family'', JStr (s_family sr)), (''timeframe'', JStr (s_timeframe sr)),
           (''start_ts'', JStr (iso_of_instant start_ts)), (''end_ts'', JStr (iso_of_instant end_ts)),
           (''check_type'', JStr check_type), (''affected_timestamps_sample'', JList (map JStr sample)),
           (''affected_count'', JInt (int (length affected))), (''evidence_mode'', JStr (mode_value mode))])) (\<lambda>h.
         validate_check \<lparr>qc_id = h, qc_created_at = now, qc_venue = s_venue sr, qc_instrument = s_instrument sr,
           qc_family = s_family sr, qc_timeframe = s_timeframe sr, qc_start = start_ts, qc_end = end_ts,
           qc_type = check_type, qc_status = st, qc_affected = int (length affected), qc_sample = sample,
           qc_severity = (if st = Q_NON_EVIDENCE then ''non_evidence'' else ''blocker''),
           qc_details = [(''sample_limit'', ''50'')], qc_mode = mode, qc_flags = default_flags\<rparr>))"

definition build_quality_checks ::
  "pyenv \<Rightarrow> pyrow list \<Rightarrow> series \<Rightarrow> pydatetime \<Rightarrow> pydatetime \<Rightarrow> row_fields \<Rightarrow> thresholds \<Rightarrow> evidence_mode \<Rightarrow> instant
    \<Rightarrow> quality_check list result" where
  "build_quality_checks env rows sr start_ts end_ts fs th mode now =
     bindE (ensure_utc start_ts) (\<lambda>st.
     bindE (ensure_utc end_ts) (\<lambda>en.
     bindE (parse_rows env (ts_field fs) rows) (\<lambda>all_rows.
     let ps = filter (\<lambda>(ts, row). st \<le> ts \<and> ts < en) all_rows;
         check = (\<lambda>ty affected. new_check sr st en ty affected mode now) in
     bindE (check ''duplicate_timestamps'' (detect_duplicate_timestamps ps)) (\<lambda>c1.
     bindE (detect_zero_volume env (volume_field fs) ps) (\<lambda>a2.
     bindE (check ''zero_volume'' a2) (\<lambda>c2.
     bindE (detect_stale_segments (price_field fs) (stale_min_run th) ps) (\<lambda>a3.
     bindE (check ''stale_segments'' a3) (\<lambda>c3.
     bindE (detect_return_outliers env (price_field fs) (max_abs_return th) ps) (\<lambda>a4.
     bindE (check ''return_outliers'' a4) (\<lambda>c4.
     bindE (detect_spread_outliers env (spread_field fs) (max_spread th) ps) (\<lambda>a5.
     bindE (check ''spread_outliers'' a5) (\<lambda>c5.
     bindE (detect_funding_outliers env (funding_field fs) (max_abs_funding th) ps) (\<lambda>a6.
     bindE (check ''funding_outliers'' a6) (\<lambda>c6.
     Inr [c1, c2, c3, c4, c5, c6]))))))))))))))"

section \<open>Duplicates\<close>

lemma count_list_filter: "length (filter (\<lambda>u. u = t) xs) = count_list xs t"
  by (induction xs) auto

text \<open>
  The duplicate detector returns, in increasing order and once each, exactly the timestamps that
  occur more than once.
\<close>

theorem duplicates_exact:
  "sorted (detect_duplicate_timestamps ps) \<and> distinct (detect_duplicate_timestamps ps) \<and>
   set (detect_duplicate_timestamps ps) = {t. 1 < count_list (map fst ps) t}"
proof -
  have "t \<in> set (map fst ps)" if "1 < count_list (map fst ps) t" for t
    using that by (metis count_notin not_one_less_zero)
  moreover have "sorted (detect_duplicate_timestamps ps)"
    unfolding detect_duplicate_timestamps_def using sorted_sorted_by [of id] by simp
  ultimately show ?thesis by (auto simp: detect_duplicate_timestamps_def count_list_filter)
qed

section \<open>Stale segments\<close>

text \<open>The maximal runs of consecutive rows with the same value, a missing value being a value.\<close>

fun value_runs :: "(instant \<times> string option) list \<Rightarrow> (string option \<times> instant list) list" where
  "value_runs [] = []"
| "value_runs ((t, v) # rest) =
     (case value_runs rest of
        (v', ts) # gs \<Rightarrow> if v = v' then (v, t # ts) # gs else (v, [t]) # (v', ts) # gs
      | [] \<Rightarrow> [(v, [t])])"

definition row_value :: "string \<Rightarrow> parsed_row \<Rightarrow> instant \<times> string option" where
  "row_value field p = (fst p, if row_get (snd p) field = VNone then None else Some (py_str (row_get (snd p) field)))"

text \<open>The first timestamp of every long run of a value, unless a missing value ends the run.\<close>

fun stale_starts :: "int \<Rightarrow> (string option \<times> instant list) list \<Rightarrow> instant list" where
  "stale_starts n [] = []"
| "stale_starts n ((v, ts) # gs) =
     (if v \<noteq> None \<and> int (length ts) \<ge> n \<and> (gs = [] \<or> fst (hd gs) \<noteq> None) then [hd ts] else []) @ stale_starts n gs"

text \<open>A run that is open when the loop goes on: the rows seen join the first group if it has their value.\<close>

definition with_run :: "string option \<Rightarrow> instant list \<Rightarrow> (string option \<times> instant list) list \<Rightarrow> (string option \<times> instant list) list" where
  "with_run cur run gs = (if cur = None then gs else case gs of
      [] \<Rightarrow> [(cur, run)]
    | (v, ts) # gs' \<Rightarrow> if v = cur then (cur, run @ ts) # gs' else (cur, run) # gs)"

lemma value_runs_nonempty: "value_runs xs = [] \<longleftrightarrow> xs = []"
  by (cases xs rule: value_runs.cases) (auto split: list.splits prod.splits if_splits)

lemma value_runs_hd: "value_runs ((t, v) # rest) \<noteq> [] \<and> fst (hd (value_runs ((t, v) # rest))) = v"
  by (auto split: list.splits prod.splits if_splits)

lemma stale_starts_None: "stale_starts n ((None, ts) # gs) = stale_starts n gs"
  by simp

lemma stale_starts_skip:
  "stale_starts n (value_runs ((t, None) # rest)) = stale_starts n (value_runs rest)"
  by (auto split: list.splits prod.splits)

lemma stale_loop_runs:
  assumes "2 \<le> n" and "(cur = None) = (run = [])"
  shows "stale_loop n field ps cur run = stale_starts n (with_run cur run (value_runs (map (row_value field) ps)))"
  using assms(2)
proof (induction ps arbitrary: cur run)
  case Nil
  then show ?case using assms(1) by (cases cur) (auto simp: with_run_def)
next
  case (Cons p rest)
  obtain ts row where p: "p = (ts, row)" by (cases p)
  let ?gs = "value_runs (map (row_value field) rest)"
  have n0: "\<not> int (length ([] :: instant list)) \<ge> n" using assms(1) by simp
  show ?case
  proof (cases "row_get row field = VNone")
    case True
    have v: "row_value field p = (ts, None)" using True by (simp add: row_value_def p)
    have "stale_loop n field (p # rest) cur run = stale_starts n ?gs"
      using True Cons.IH [of None "[]"] by (simp add: p with_run_def)
    also have "\<dots> = stale_starts n (value_runs ((ts, None) # map (row_value field) rest))"
      by (rule stale_starts_skip [symmetric])
    also have "\<dots> = stale_starts n (with_run cur run (value_runs ((ts, None) # map (row_value field) rest)))"
      by (cases cur) (auto simp: with_run_def split: list.splits prod.splits)
    finally show ?thesis by (simp add: v)
  next
    case False
    define x where "x = py_str (row_get row field)"
    have v: "row_value field p = (ts, Some x)" using False by (simp add: row_value_def p x_def)
    have w: "value_runs ((ts, Some x) # map (row_value field) rest) = with_run (Some x) [ts] ?gs"
      by (auto simp: with_run_def split: list.splits prod.splits)
    show ?thesis
    proof (cases "cur = Some x")
      case True
      have "stale_loop n field (p # rest) cur run = stale_loop n field rest cur (run @ [ts])"
        using False True by (simp add: p x_def Let_def)
      also have "\<dots> = stale_starts n (with_run cur (run @ [ts]) ?gs)" using Cons.IH [of cur "run @ [ts]"] True by simp
      also have "with_run cur (run @ [ts]) ?gs = with_run cur run (with_run (Some x) [ts] ?gs)"
        using True by (auto simp: with_run_def split: list.splits prod.splits)
      finally show ?thesis using w by (simp add: v)
    next
      case False': False
      have "stale_loop n field (p # rest) cur run =
          (if int (length run) \<ge> n then [hd run] else []) @ stale_loop n field rest (Some x) [ts]"
        using False False' by (auto simp: p x_def Let_def)
      also have "stale_loop n field rest (Some x) [ts] = stale_starts n (with_run (Some x) [ts] ?gs)"
        using Cons.IH [of "Some x" "[ts]"] by simp
      also have "(if int (length run) \<ge> n then [hd run] else []) @ stale_starts n (with_run (Some x) [ts] ?gs)
          = stale_starts n (with_run cur run (with_run (Some x) [ts] ?gs))"
        using False' Cons.prems assms(1) by (cases cur) (auto simp: with_run_def split: list.splits prod.splits)
      finally show ?thesis using w by (simp add: v)
    qed
  qed
qed

text \<open>
  The stale-segment detector equals its specification by runs: over the rows in time order, it
  reports the first timestamp of every maximal run of at least \<open>min_run_length\<close> equal values, except
  that a run which a row with a missing value ends is not reported.
\<close>

theorem stale_segments_by_runs:
  "detect_stale_segments field n ps =
     (if n < 2 then Inl (ValueError ''min_run_length must be >= 2'')
      else Inr (stale_starts n (value_runs (map (row_value field) (sorted_by fst ps)))))"
  using stale_loop_runs [of n None "[]" field]
  by (simp add: detect_stale_segments_def guardE_def with_run_def)

text \<open>
  The exception matters: three equal prices followed by a row without a price are not reported,
  although the same three prices are when the row is absent.
\<close>

theorem stale_run_before_gap_is_lost:
  "let rows = map (\<lambda>t. (t, [(''close'', VStr ''7'')])) [1, 2, 3] in
   detect_stale_segments ''close'' 3 rows = Inr [1] \<and>
   detect_stale_segments ''close'' 3 (rows @ [(4, [(''close'', VNone)])]) = Inr []"
  by (simp add: detect_stale_segments_def sorted_by_def row_get_def)

end
