(* ===== verification/Coverage.thy ===== *)
theory Coverage
  imports QualityChecks
begin

text \<open>
  \<open>data_quality/coverage.py\<close>: the expected bars of a window, the coverage report of a bar series and
  the coverage report of timestamped events by buckets.  Durations are microseconds, and the
  quotient of two durations goes through doubles as in the code.
\<close>

section \<open>Timeframes and expected bars\<close>

definition is_digit :: "char \<Rightarrow> bool" where
  "is_digit c \<longleftrightarrow> 48 \<le> (of_char c :: nat) \<and> (of_char c :: nat) \<le> 57"

definition int_of_digits :: "string \<Rightarrow> int" where
  "int_of_digits ds = foldl (\<lambda>n c. n * 10 + (of_char c - 48)) 0 ds"

text \<open>A duration in whole seconds; \<open>timedelta\<close> refuses more than 999999999 days.\<close>

definition make_timedelta :: "int \<Rightarrow> int result" where
  "make_timedelta us = (if us div us_per_day \<le> 999999999 then Inr us
     else Inl (OverflowError ''days must have magnitude <= 999999999''))"

definition timeframe_to_timedelta :: "string \<Rightarrow> int result" where
  "timeframe_to_timedelta tf =
     (let ds = butlast tf in
      if ds = [] \<or> \<not> list_all is_digit ds \<or> hd ds = CHR ''0'' \<or> last tf \<notin> {CHR ''m'', CHR ''h'', CHR ''d''}
      then Inl (ValueError ''unsupported bar timeframe'')
      else if last tf = CHR ''m'' then make_timedelta (int_of_digits ds * 60 * us_per_second)
      else if last tf = CHR ''h'' then make_timedelta (int_of_digits ds * 3600 * us_per_second)
      else make_timedelta (int_of_digits ds * us_per_day))"

definition expected_bar_count :: "pydatetime \<Rightarrow> pydatetime \<Rightarrow> string \<Rightarrow> int result" where
  "expected_bar_count start_ts end_ts tf =
     bindE (ensure_utc start_ts) (\<lambda>st.
     bindE (ensure_utc end_ts) (\<lambda>en.
     bindE (guardE (\<not> en \<le> st) (ValueError ''end_ts must be greater than start_ts'')) (\<lambda>_.
     bindE (timeframe_to_timedelta tf) (\<lambda>step.
     bindE (f_floordiv (total_seconds (en - st)) (total_seconds step)) int_of_float))))"

text \<open>The generator adds the step after every yield, the last one included.\<close>

fun yield_bars :: "nat \<Rightarrow> instant \<Rightarrow> int \<Rightarrow> instant list result" where
  "yield_bars 0 cur step = Inr []"
| "yield_bars (Suc n) cur step = bindE (add_us cur step) (\<lambda>nxt.
     bindE (yield_bars n nxt step) (\<lambda>rest. Inr (cur # rest)))"

definition iter_expected_bar_timestamps :: "pydatetime \<Rightarrow> pydatetime \<Rightarrow> string \<Rightarrow> instant list result" where
  "iter_expected_bar_timestamps start_ts end_ts tf =
     bindE (ensure_utc start_ts) (\<lambda>st.
     bindE (timeframe_to_timedelta tf) (\<lambda>step.
     bindE (expected_bar_count (Aware st 0) end_ts tf) (\<lambda>n.
     yield_bars (nat n) st step)))"

section \<open>Blockers\<close>

definition blocker_reasons :: "pyfloat \<Rightarrow> pyfloat \<Rightarrow> evidence_mode \<Rightarrow> int \<Rightarrow> int \<Rightarrow> int \<Rightarrow> int \<Rightarrow> int \<Rightarrow> string list" where
  "blocker_reasons ratio cmin mode dups zeros stales outliers failures =
     (if mode = SANDBOX_DIAGNOSTIC then [''sandbox_diagnostic_non_evidence'']
      else (if f_lt ratio cmin then [''coverage_below_minimum''] else [])
        @ (if dups \<noteq> 0 then [''duplicate_timestamps''] else [])
        @ (if zeros \<noteq> 0 then [''zero_volume_rows''] else [])
        @ (if stales \<noteq> 0 then [''stale_segments''] else [])
        @ (if outliers \<noteq> 0 then [''outliers''] else [])
        @ (if failures \<noteq> 0 then [''parse_failures''] else []))"

definition timestamped_blocker_reasons :: "pyfloat \<Rightarrow> pyfloat \<Rightarrow> evidence_mode \<Rightarrow> int \<Rightarrow> int \<Rightarrow> string option \<Rightarrow> string list" where
  "timestamped_blocker_reasons ratio cmin mode dups failures force =
     (if mode = SANDBOX_DIAGNOSTIC then [''sandbox_diagnostic_non_evidence'']
      else (if f_lt ratio cmin then [''coverage_below_minimum''] else [])
        @ (if dups \<noteq> 0 then [''duplicate_event_keys''] else [])
        @ (if failures \<noteq> 0 then [''parse_failures''] else [])
        @ (if text_given force then [the force] else []))"

section \<open>Counting\<close>

text \<open>The timestamps that parse and lie in the window, and the number of rows that fail.\<close>

fun scan_rows :: "pyenv \<Rightarrow> string \<Rightarrow> instant \<Rightarrow> instant \<Rightarrow> pyrow list \<Rightarrow> (parsed_row list \<times> int) result" where
  "scan_rows env tsf st en [] = Inr ([], 0)"
| "scan_rows env tsf st en (row # rows) =
     (case bindE (row_item row tsf) (parse_timestamp env) of
        Inr ts \<Rightarrow> bindE (scan_rows env tsf st en rows) (\<lambda>(ps, n).
          Inr (if st \<le> ts \<and> ts < en then (ts, row) # ps else ps, n))
      | Inl e \<Rightarrow> if is_parse_error e
          then bindE (scan_rows env tsf st en rows) (\<lambda>(ps, n). Inr (ps, n + 1)) else Inl e)"

text \<open>\<open>sum(count - 1 for count in Counter(xs).values() if count > 1)\<close>\<close>

definition surplus :: "'a list \<Rightarrow> int" where
  "surplus xs = sum_list (map (\<lambda>x. int (count_list xs x) - 1) (filter (\<lambda>x. 1 < count_list xs x) (uniq xs)))"

definition observed_of :: "instant list \<Rightarrow> instant list \<Rightarrow> instant list" where
  "observed_of expected seen = filter (\<lambda>t. t \<in> set expected) (uniq seen)"

definition missing_of :: "instant list \<Rightarrow> instant list \<Rightarrow> instant list" where
  "missing_of expected seen = sorted_by id (filter (\<lambda>t. t \<notin> set (observed_of expected seen)) (uniq expected))"

definition missing_days_of :: "instant list \<Rightarrow> string list" where
  "missing_days_of missing = sorted_by id (uniq (map (\<lambda>t. date_isoformat (date_of t)) missing))"

definition coverage_ratio_of :: "int \<Rightarrow> int \<Rightarrow> pyfloat result" where
  "coverage_ratio_of obs expd = (if expd \<noteq> 0 then int_truediv obs expd else Inr (Fin 0))"

definition check_count :: "quality_check list \<Rightarrow> string \<Rightarrow> int" where
  "check_count cs ty = (case map_of (rev (map (\<lambda>c. (qc_type c, qc_affected c)) cs)) ty of None \<Rightarrow> 0 | Some n \<Rightarrow> n)"

section \<open>Reports\<close>

definition coverage_report_for_bars ::
  "pyenv \<Rightarrow> pyrow list \<Rightarrow> series \<Rightarrow> pydatetime \<Rightarrow> pydatetime \<Rightarrow> row_fields \<Rightarrow> pyfloat \<Rightarrow> evidence_mode \<Rightarrow> instant
    \<Rightarrow> coverage_report result" where
  "coverage_report_for_bars env rows sr start_ts end_ts fs cmin mode now =
     bindE (ensure_utc start_ts) (\<lambda>st.
     bindE (ensure_utc end_ts) (\<lambda>en.
     bindE (iter_expected_bar_timestamps (Aware st 0) (Aware en 0) (s_timeframe sr)) (\<lambda>expected.
     bindE (scan_rows env (ts_field fs) st en rows) (\<lambda>(ps, failures).
     let seen = map fst ps;
         dups = surplus seen;
         missing = missing_of expected seen;
         missing_days = missing_days_of missing;
         expd = int (length expected);
         obs = int (length (observed_of expected seen)) in
     bindE (coverage_ratio_of obs expd) (\<lambda>ratio.
     bindE (build_quality_checks env rows sr (Aware st 0) (Aware en 0) fs default_thresholds mode now) (\<lambda>cs.
     let rets = check_count cs ''return_outliers'';
         sprs = check_count cs ''spread_outliers'';
         funs = check_count cs ''funding_outliers'';
         zeros = check_count cs ''zero_volume'';
         stales = check_count cs ''stale_segments'';
         blockers = blocker_reasons ratio cmin mode dups zeros stales (rets + sprs + funs) failures;
         status = (if mode = SANDBOX_DIAGNOSTIC then Q_NON_EVIDENCE else if blockers \<noteq> [] then Q_FAIL else Q_PASS) in
     bindE (canonical_json_hash (JObj [
        (''venue'', JStr (s_venue sr)), (''instrument_id'', JStr (s_instrument sr)),
        (''family'', JStr (s_family sr)), (''timeframe'', JStr (s_timeframe sr)),
        (''start_ts'', JStr (iso_of_instant st)), (''end_ts'', JStr (iso_of_instant en)),
        (''expected_rows'', JInt expd), (''observed_rows'', JInt obs),
        (''coverage_ratio'', JFloat (f_round 12 ratio)),
        (''missing_timestamp_count'', JInt (int (length missing))),
        (''missing_days'', JList (map JStr missing_days)),
        (''duplicate_timestamp_count'', JInt dups), (''zero_volume_count'', JInt zeros),
        (''stale_segment_count'', JInt stales), (''return_outlier_count'', JInt rets),
        (''spread_outlier_count'', JInt sprs), (''funding_outlier_count'', JInt funs),
        (''parse_failure_count'', JInt failures), (''evidence_mode'', JStr (mode_value mode)),
        (''coverage_min'', JFloat cmin)])) (\<lambda>h.
     validate_coverage \<lparr>cr_id = h, cr_created_at = now, cr_venue = s_venue sr, cr_instrument = s_instrument sr,
       cr_family = s_family sr, cr_timeframe = s_timeframe sr, cr_start = st, cr_end = en,
       cr_expected = expd, cr_observed = obs, cr_source_rows = int (length rows), cr_ratio = ratio, cr_min = cmin,
       cr_missing = int (length missing), cr_missing_sample = map iso_of_instant (take 100 missing),
       cr_missing_days = missing_days, cr_duplicates = dups, cr_stale = stales, cr_zero_volume = zeros,
       cr_return_outliers = rets, cr_spread_outliers = sprs, cr_funding_outliers = funs,
       cr_outliers = rets + sprs + funs, cr_parse_failures = failures,
       cr_caveats = (if mode = SANDBOX_DIAGNOSTIC then [''sandbox_diagnostic_non_evidence''] else []),
       cr_mode = mode, cr_status = status, cr_eligible = (status = Q_PASS), cr_blockers = blockers,
       cr_flags = default_flags\<rparr>)))))))"

section \<open>Event coverage by buckets\<close>

definition timestamp_bucket :: "instant \<Rightarrow> instant \<Rightarrow> int \<Rightarrow> instant result" where
  "timestamp_bucket ts st step =
     bindE (f_floordiv (total_seconds (ts - st)) (total_seconds step)) (\<lambda>q.
     bindE (int_of_float q) (\<lambda>i. add_us st (step * i)))"

text \<open>
  The key of an event: its time, and its sequence value when the row has one.  Keys are counted
  up to Python's equality of hashable values; a NaN is equal to no other object.
\<close>

fun key_norm :: "pyval \<Rightarrow> pyval" where
  "key_norm (VBool b) = VInt (if b then 1 else 0)"
| "key_norm (VFloat (Fin q)) = (if of_int \<lfloor>q\<rfloor> = q then VInt \<lfloor>q\<rfloor> else VFloat (Fin q))"
| "key_norm (VTime (Aware l off)) = VTime (Aware (l - off) 0)"
| "key_norm v = v"

definition event_key :: "string option \<Rightarrow> parsed_row \<Rightarrow> instant \<times> pyval option" where
  "event_key seqf p = (fst p,
     if text_given seqf then map_option key_norm (map_of (snd p) (the seqf)) else None)"

definition has_nan_key :: "instant \<times> pyval option \<Rightarrow> bool" where
  "has_nan_key k \<longleftrightarrow> snd k = Some (VFloat NaN)"

definition coverage_report_for_timestamped_rows ::
  "pyenv \<Rightarrow> pyrow list \<Rightarrow> series \<Rightarrow> pydatetime \<Rightarrow> pydatetime \<Rightarrow> string \<Rightarrow> string option \<Rightarrow> pyfloat \<Rightarrow> evidence_mode
    \<Rightarrow> string option \<Rightarrow> string list \<Rightarrow> instant \<Rightarrow> coverage_report result" where
  "coverage_report_for_timestamped_rows env rows sr start_ts end_ts tsf seqf cmin mode force caveats now =
     bindE (ensure_utc start_ts) (\<lambda>st.
     bindE (ensure_utc end_ts) (\<lambda>en.
     bindE (iter_expected_bar_timestamps (Aware st 0) (Aware en 0) (s_timeframe sr)) (\<lambda>expected.
     bindE (timeframe_to_timedelta (s_timeframe sr)) (\<lambda>step.
     bindE (scan_rows env tsf st en rows) (\<lambda>(ps, failures).
     bindE (mapE (\<lambda>p. timestamp_bucket (fst p) st step) ps) (\<lambda>buckets.
     let seen = filter (\<lambda>b. b \<in> set expected) buckets;
         missing = missing_of expected seen;
         missing_days = missing_days_of missing;
         expd = int (length expected);
         obs = int (length (observed_of expected seen));
         dups = surplus (filter (\<lambda>k. \<not> has_nan_key k) (map (event_key seqf) ps)) in
     bindE (coverage_ratio_of obs expd) (\<lambda>ratio.
     let blockers = timestamped_blocker_reasons ratio cmin mode dups failures force;
         status = (if mode = SANDBOX_DIAGNOSTIC \<or> text_given force then Q_NON_EVIDENCE
           else if blockers \<noteq> [] then Q_FAIL else Q_PASS);
         cavs = uniq (caveats @ [''timestamp_bucket_coverage_not_event_completeness'']
           @ (if text_given force then [the force] else [])
           @ (if mode = SANDBOX_DIAGNOSTIC then [''sandbox_diagnostic_non_evidence''] else [])) in
     bindE (canonical_json_hash (JObj [
        (''venue'', JStr (s_venue sr)), (''instrument_id'', JStr (s_instrument sr)),
        (''family'', JStr (s_family sr)), (''timeframe'', JStr (s_timeframe sr)),
        (''start_ts'', JStr (iso_of_instant st)), (''end_ts'', JStr (iso_of_instant en)),
        (''expected_rows'', JInt expd), (''observed_rows'', JInt obs),
        (''coverage_ratio'', JFloat (f_round 12 ratio)),
        (''missing_timestamp_count'', JInt (int (length missing))),
        (''missing_days'', JList (map JStr missing_days)), (''duplicate_event_key_count'', JInt dups),
        (''parse_failure_count'', JInt failures), (''evidence_mode'', JStr (mode_value mode)),
        (''coverage_min'', JFloat cmin),
        (''force_non_evidence_reason'', (case force of None \<Rightarrow> JNull | Some r \<Rightarrow> JStr r)),
        (''source_caveats'', JList (map JStr cavs)), (''ts_field'', JStr tsf),
        (''sequence_field'', (case seqf of None \<Rightarrow> JNull | Some r \<Rightarrow> JStr r))])) (\<lambda>h.
     validate_coverage \<lparr>cr_id = h, cr_created_at = now, cr_venue = s_venue sr, cr_instrument = s_instrument sr,
       cr_family = s_family sr, cr_timeframe = s_timeframe sr, cr_start = st, cr_end = en,
       cr_expected = expd, cr_observed = obs, cr_source_rows = int (length rows), cr_ratio = ratio, cr_min = cmin,
       cr_missing = int (length missing), cr_missing_sample = map iso_of_instant (take 100 missing),
       cr_missing_days = missing_days, cr_duplicates = dups, cr_stale = 0, cr_zero_volume = 0,
       cr_return_outliers = 0, cr_spread_outliers = 0, cr_funding_outliers = 0, cr_outliers = 0,
       cr_parse_failures = failures, cr_caveats = cavs, cr_mode = mode, cr_status = status,
       cr_eligible = (status = Q_PASS), cr_blockers = blockers, cr_flags = default_flags\<rparr>))))))))"

end
