(* ===== verification/CoverageProps.thy ===== *)
theory CoverageProps
  imports Coverage
begin

text \<open>
  Correctness of coverage: the expected bars of a window in whole seconds, the accounts of a
  report (observed, missing, expected, ratio, eligibility), its independence of duplicate rows,
  and that a report is always produced for clean input.
\<close>

section \<open>Expected bars\<close>

lemma yield_bars_closed:
  assumes "valid_instant cur" "0 \<le> step" "valid_instant (cur + int n * step)"
  shows "yield_bars n cur step = Inr (map (\<lambda>i. cur + int i * step) [0..<n])"
  using assms
proof (induction n arbitrary: cur)
  case (Suc n)
  have le: "cur + step \<le> cur + int (Suc n) * step"
    using Suc.prems(2) mult_right_mono [of 1 "int (Suc n)" step] by simp
  have v: "valid_instant (cur + step)" using Suc.prems le unfolding valid_instant_def by linarith
  have e: "cur + step + int n * step = cur + int (Suc n) * step" by (simp add: algebra_simps)
  have "yield_bars n (cur + step) step = Inr (map (\<lambda>i. cur + step + int i * step) [0..<n])"
    using Suc.IH [OF v Suc.prems(2)] Suc.prems(3) by (simp only: e)
  moreover have "map (\<lambda>i. cur + int i * step) [0..<Suc n] = cur # map (\<lambda>i. cur + step + int i * step) [0..<n]"
    by (simp add: upt_conv_Cons map_Suc_upt [symmetric] algebra_simps del: upt_Suc map_Suc_upt)
  ultimately show ?case using v by (simp add: add_us_def del: upt_Suc)
qed simp

lemma timeframe_step:
  assumes "timeframe_to_timedelta tf = Inr step"
  shows "\<exists>k. step = k * us_per_second \<and> \<bar>k\<bar> < 2 ^ 53"
proof -
  have lim: "us div us_per_day \<le> 999999999 \<Longrightarrow> us < 1000000000 * us_per_day" for us
    by (simp add: us_per_day_def)
  have dv: "us_per_second dvd us_per_day" by (simp add: us_per_day_def us_per_second_def)
  have "us_per_second dvd step" and d: "step div us_per_day \<le> 999999999"
    using assms dv by (auto simp: timeframe_to_timedelta_def make_timedelta_def Let_def split: if_splits intro: dvd_mult)
  then obtain k where k: "step = k * us_per_second" by (metis dvd_def mult.commute)
  have "0 \<le> int_of_digits ds" if "list_all is_digit ds" for ds
  proof -
    have "0 \<le> foldl (\<lambda>n c. n * 10 + (of_char c - 48)) a ds" if "0 \<le> a" for a :: int
      using that \<open>list_all is_digit ds\<close>
    proof (induction ds arbitrary: a)
      case (Cons c ds)
      have "(48::int) \<le> of_char c" using Cons.prems(2) by (simp add: is_digit_def) (metis of_nat_of_char of_nat_mono of_nat_numeral)
      then show ?case using Cons by simp
    qed simp
    then show ?thesis by (simp add: int_of_digits_def)
  qed
  then have "0 \<le> step" using assms
    by (auto simp: timeframe_to_timedelta_def make_timedelta_def Let_def us_per_second_def us_per_day_def split: if_splits)
  then have "0 \<le> k" "k < 86400000000000" using k lim [OF d] by (auto simp: us_per_second_def us_per_day_def)
  then show ?thesis using k by (intro exI [of _ k]) simp
qed

text \<open>The count of a window whose length is a whole number of seconds is the integer quotient.\<close>

lemma expected_bar_count_exact:
  assumes v: "valid_instant st" "valid_instant en" "st < en" and sec: "(en - st) mod us_per_second = 0"
    and tf: "timeframe_to_timedelta tf = Inr step" "0 < step"
  shows "expected_bar_count (Aware st 0) (Aware en 0) tf = Inr ((en - st) div step)"
proof -
  obtain k where k: "step = k * us_per_second" "\<bar>k\<bar> < 2 ^ 53" using timeframe_step [OF tf(1)] by blast
  define m where "m = (en - st) div us_per_second"
  have m: "en - st = m * us_per_second" using sec div_mult_mod_eq [of "en - st" us_per_second] by (simp add: m_def)
  have mb: "0 \<le> m" "m < 2 ^ 53"
    using m v by (auto simp: us_per_second_def valid_instant_def max_ordinal_def us_per_day_def)
  have kp: "0 < k" using tf(2) k(1) by (simp add: us_per_second_def)
  have "total_seconds (en - st) = Fin (of_int m)" unfolding m by (rule total_seconds_whole) (use mb in simp)
  moreover have "total_seconds step = Fin (of_int k)" unfolding k(1) by (rule total_seconds_whole) (use k in simp)
  moreover have "f_floordiv (Fin (of_int m)) (Fin (of_int k)) = Inr (Fin (of_int (m div k)))"
    by (rule f_floordiv_ints [OF mb kp])
  moreover have "trunc_rat (of_int (m div k)) = m div k"
    by (simp add: trunc_rat_def)
  moreover have "(en - st) div step = m div k" unfolding m k(1) by (simp add: us_per_second_def)
  ultimately show ?thesis using v tf by (simp add: expected_bar_count_def ensure_utc_def)
qed

lemma iter_expected_exact:
  assumes v: "valid_instant st" "valid_instant en" "st < en" and sec: "(en - st) mod us_per_second = 0"
    and tf: "timeframe_to_timedelta tf = Inr step" "0 < step"
  shows "iter_expected_bar_timestamps (Aware st 0) (Aware en 0) tf =
    Inr (map (\<lambda>i. st + int i * step) [0..<nat ((en - st) div step)])"
proof -
  let ?n = "(en - st) div step"
  have n0: "0 \<le> ?n" using v(3) tf(2) by (simp add: pos_imp_zdiv_nonneg_iff)
  have "step * ?n \<le> en - st" using div_bounds [OF tf(2), of "en - st"] by simp
  moreover have "0 \<le> step * ?n" using n0 tf(2) by simp
  ultimately have "valid_instant (st + int (nat ?n) * step)"
    using v n0 unfolding valid_instant_def by (simp add: mult.commute)
  then have "yield_bars (nat ?n) st step = Inr (map (\<lambda>i. st + int i * step) [0..<nat ?n])"
    using v(1) tf(2) by (intro yield_bars_closed) auto
  then show ?thesis using v(1) expected_bar_count_exact [OF v sec tf]
    by (simp add: iter_expected_bar_timestamps_def ensure_utc_def tf(1))
qed

text \<open>
  For a UTC window \<open>[start, end)\<close> of whole seconds and a valid timeframe, the doubles in the count do
  no harm: the expected bars are \<open>start + i * step\<close>, without gaps, every one inside the window, and
  one more would end after it.
\<close>

theorem expected_bars_fill_window:
  assumes "valid_instant st" and "valid_instant en" and "st < en" and "(en - st) mod us_per_second = 0"
    and "timeframe_to_timedelta tf = Inr step" and "0 < step"
  shows "\<exists>n. iter_expected_bar_timestamps (Aware st 0) (Aware en 0) tf = Inr (map (\<lambda>i. st + int i * step) [0..<n]) \<and>
    expected_bar_count (Aware st 0) (Aware en 0) tf = Inr (int n) \<and>
    st + int n * step \<le> en \<and> en < st + (int n + 1) * step"
proof -
  let ?q = "(en - st) div step"
  have "0 \<le> ?q" using assms(3,6) by (simp add: pos_imp_zdiv_nonneg_iff)
  moreover have "?q * step \<le> en - st" "en - st < ?q * step + step"
    using div_bounds [OF assms(6), of "en - st"] by (simp_all add: mult.commute)
  ultimately show ?thesis using iter_expected_exact [OF assms] expected_bar_count_exact [OF assms]
    by (intro exI [of _ "nat ?q"]) (simp add: distrib_right)
qed

lemma timeframe_15m: "timeframe_to_timedelta ''15m'' = Inr 900000000"
  by (simp add: timeframe_to_timedelta_def make_timedelta_def is_digit_def int_of_digits_def Let_def
      us_per_second_def us_per_day_def)

lemma expected_bars_fill_window_witness:
  "\<exists>n. iter_expected_bar_timestamps (Aware 0 0) (Aware 86400000000 0) ''15m'' = Inr (map (\<lambda>i. 0 + int i * 900000000) [0..<n])"
proof -
  have a: "valid_instant 0" "valid_instant 86400000000" "(0::int) < 86400000000"
    by (simp_all add: valid_instant_def max_ordinal_def us_per_day_def)
  have b: "(86400000000 - 0) mod us_per_second = 0" "(0::int) < 900000000" by (simp_all add: us_per_second_def)
  show ?thesis using expected_bars_fill_window [OF a b(1) timeframe_15m b(2)] by blast
qed

section \<open>Counting\<close>

lemma surplus_nonneg: "0 \<le> surplus xs"
  unfolding surplus_def by (rule sum_list_nonneg) auto

lemma observed_missing:
  "set (observed_of expected seen) = set expected \<inter> set seen"
  "distinct (observed_of expected seen)"
  "set (missing_of expected seen) = set expected - set seen"
  "distinct (missing_of expected seen)" "sorted (missing_of expected seen)"
  using sorted_sorted_by [of id] by (auto simp: observed_of_def missing_of_def)

lemma observed_plus_missing:
  assumes "distinct expected"
  shows "length (observed_of expected seen) + length (missing_of expected seen) = length expected"
proof -
  have "length (observed_of expected seen) = card (set expected \<inter> set seen)"
    using distinct_card [OF observed_missing(2)] by (simp add: observed_missing)
  moreover have "length (missing_of expected seen) = card (set expected - set seen)"
    using distinct_card [OF observed_missing(4)] by (simp add: observed_missing)
  moreover have "card (set expected \<inter> set seen) + card (set expected - set seen) = card (set expected)"
    using card_Un_disjoint [of "set expected \<inter> set seen" "set expected - set seen"]
    by (simp add: Int_Un_distrib Un_Diff_Int Int_commute Un_commute) (metis Diff_disjoint Int_Diff_Un Int_assoc card_Un_disjoint finite_Diff finite_Int finite_set inf_bot_right)
  moreover have "card (set expected) = length expected" using assms by (rule distinct_card)
  ultimately show ?thesis by simp
qed

lemma observed_le:
  assumes "distinct expected"
  shows "length (observed_of expected seen) \<le> length expected"
  using observed_plus_missing [OF assms, of seen] by simp

lemma yield_bars_distinct:
  assumes "yield_bars n cur step = Inr xs" "0 < step"
  shows "distinct xs" "\<forall>x \<in> set xs. cur \<le> x"
proof -
  have "distinct xs \<and> (\<forall>x \<in> set xs. cur \<le> x)" using assms(1)
  proof (induction n arbitrary: cur xs)
    case (Suc n)
    then obtain rest where r: "xs = cur # rest" "yield_bars n (cur + step) step = Inr rest"
      by (auto simp: bindE_Inr_iff add_us_def split: if_splits)
    then show ?case using Suc.IH [OF r(2)] assms(2) by force
  qed simp
  then show "distinct xs" "\<forall>x \<in> set xs. cur \<le> x" by auto
qed

text \<open>The time of a row.\<close>

definition row_time :: "pyenv \<Rightarrow> string \<Rightarrow> pyrow \<Rightarrow> instant result" where
  "row_time env tsf row = bindE (row_item row tsf) (parse_timestamp env)"

definition window_times :: "pyenv \<Rightarrow> string \<Rightarrow> instant \<Rightarrow> instant \<Rightarrow> pyrow list \<Rightarrow> instant set" where
  "window_times env tsf st en rows = {t. st \<le> t \<and> t < en \<and> (\<exists>row \<in> set rows. row_time env tsf row = Inr t)}"

lemma window_times_Cons:
  "window_times env tsf st en (row # rows) =
    {t. st \<le> t \<and> t < en \<and> row_time env tsf row = Inr t} \<union> window_times env tsf st en rows"
  by (auto simp: window_times_def)

lemma scan_rows_spec:
  assumes "scan_rows env tsf st en rows = Inr (ps, n)"
  shows "0 \<le> n \<and> set (map fst ps) = window_times env tsf st en rows"
  using assms
proof (induction rows arbitrary: ps n)
  case Nil
  then show ?case by (simp add: window_times_def)
next
  case (Cons row rows)
  show ?case
  proof (cases "row_time env tsf row")
    case (Inl e)
    then obtain n' where "scan_rows env tsf st en rows = Inr (ps, n')" "n = n' + 1"
      using Cons.prems by (auto simp: row_time_def bindE_Inr_iff split: if_splits)
    then show ?thesis using Cons.IH Inl by (fastforce simp: window_times_Cons)
  next
    case (Inr ts)
    then obtain ps' where r: "scan_rows env tsf st en rows = Inr (ps', n)"
      and p: "ps = (if st \<le> ts \<and> ts < en then (ts, row) # ps' else ps')"
      using Cons.prems by (auto simp: row_time_def bindE_Inr_iff split: if_splits)
    show ?thesis using Cons.IH [OF r] Inr by (auto simp: p window_times_Cons)
  qed
qed

lemma coverage_ratio_unit:
  assumes "0 \<le> k" "k \<le> n"
  shows "\<exists>q. coverage_ratio_of k n = Inr (Fin q) \<and> 0 \<le> q \<and> q \<le> 1 \<and> (n \<noteq> 0 \<longrightarrow> q = round53 (of_int k / of_int n))"
proof (cases "n = 0")
  case False
  then have "0 < n" using assms by simp
  then show ?thesis using int_truediv_ratio [OF assms] by (simp add: coverage_ratio_of_def)
qed (simp add: coverage_ratio_of_def)

lemma f_round_unit_finite:
  assumes "0 \<le> q" "q \<le> 1"
  shows "isfinite (f_round 12 (Fin q))"
proof -
  have a: "0 \<le> round_half_even (q * 10 ^ 12)" "round_half_even (q * 10 ^ 12) \<le> 10 ^ 12"
    using round_half_even_mono [of 0 "q * 10 ^ 12"] round_half_even_mono [of "q * 10 ^ 12" "of_int (10 ^ 12)"]
      round_half_even_of_int [of 0] round_half_even_of_int [of "10 ^ 12"] assms by auto
  then have "0 \<le> (of_int (round_half_even (q * 10 ^ 12)) :: rat)" "(of_int (round_half_even (q * 10 ^ 12)) :: rat) \<le> of_int (10 ^ 12)"
    by (simp_all only: of_int_0_le_iff of_int_le_iff)
  then have "\<bar>of_int (round_half_even (q * 10 ^ 12)) / 10 ^ 12 :: rat\<bar> \<le> 1" by (simp add: divide_le_eq)
  from fl_Fin [OF unit_le_pow2 [OF this]] show ?thesis by simp
qed

lemma new_check_type: "new_check sr st en ty a mode now = Inr c \<Longrightarrow> qc_type c = ty \<and> qc_affected c = int (length a)"
  by (auto simp: new_check_def Let_def bindE_Inr_iff validate_check_Inr)

lemma new_check_nonneg: "new_check sr st en ty a mode now = Inr c \<Longrightarrow> 0 \<le> qc_affected c"
  by (auto dest: new_check_type)

text \<open>The six counts of a report are the lengths of what the detectors return.\<close>

lemma build_checks_counts:
  assumes "build_quality_checks env rows sr s e fs th mode now = Inr cs"
  shows "0 \<le> check_count cs ty"
proof -
  have "\<forall>c \<in> set cs. 0 \<le> qc_affected c"
    using assms unfolding build_quality_checks_def Let_def bindE_Inr_iff
    by (elim exE conjE) ((drule new_check_nonneg)+, simp only: sum.inject, elim subst, simp only: list.set ball_simps simp_thms)
  then show ?thesis
    by (auto simp: check_count_def split: option.splits dest!: map_of_SomeD)
qed

section \<open>Reports\<close>

lemma bars_report_parts:
  assumes "coverage_report_for_bars env rows sr start_ts end_ts fs cmin mode now = Inr r"
  obtains st en expected ps failures where
    "ensure_utc start_ts = Inr st" "ensure_utc end_ts = Inr en"
    "iter_expected_bar_timestamps (Aware st 0) (Aware en 0) (s_timeframe sr) = Inr expected"
    "scan_rows env (ts_field fs) st en rows = Inr (ps, failures)"
    "coverage_ratio_of (int (length (observed_of expected (map fst ps)))) (int (length expected)) = Inr (cr_ratio r)"
    "coverage_ok r" "cr_expected r = int (length expected)"
    "cr_observed r = int (length (observed_of expected (map fst ps)))"
    "cr_missing r = int (length (missing_of expected (map fst ps)))"
    "cr_duplicates r = surplus (map fst ps)" "cr_parse_failures r = failures"
    "cr_min r = cmin" "cr_mode r = mode" "cr_start r = st" "cr_end r = en"
    "cr_blockers r = blocker_reasons (cr_ratio r) cmin mode (cr_duplicates r) (cr_zero_volume r) (cr_stale r)
       (cr_outliers r) (cr_parse_failures r)"
    "cr_status r = (if mode = SANDBOX_DIAGNOSTIC then Q_NON_EVIDENCE else if cr_blockers r \<noteq> [] then Q_FAIL else Q_PASS)"
    "cr_eligible r \<longleftrightarrow> cr_status r = Q_PASS"
    "cr_missing_sample r = map iso_of_instant (take 100 (missing_of expected (map fst ps)))"
    "cr_missing_days r = missing_days_of (missing_of expected (map fst ps))"
  using assms unfolding coverage_report_for_bars_def Let_def bindE_Inr_iff
  apply (elim exE conjE)
  subgoal for st en expected p
    apply (cases p)
    apply (simp only: prod.case bindE_Inr_iff)
    apply (elim exE conjE)
    apply (simp only: validate_coverage_Inr)
    apply (elim conjE)
    subgoal for ps failures ratio cs h
      by (rule that [of st en expected ps failures]) simp_all
    done
  done

lemma iter_expected_distinct:
  assumes "iter_expected_bar_timestamps s e tf = Inr xs" "timeframe_to_timedelta tf = Inr step" "0 < step"
  shows "distinct xs"
proof -
  obtain st n where "yield_bars n st step = Inr xs"
    using assms(1,2) unfolding iter_expected_bar_timestamps_def bindE_Inr_iff by (elim exE conjE) simp
  then show ?thesis using assms(3) by (rule yield_bars_distinct)
qed

lemma timeframe_positive:
  assumes "timeframe_to_timedelta tf = Inr step"
  shows "0 < step"
proof -
  have pos: "0 < int_of_digits ds" if "ds \<noteq> []" "list_all is_digit ds" "hd ds \<noteq> CHR ''0''" for ds
  proof -
    have ge: "(48::int) \<le> of_char c" if "is_digit c" for c
      using that of_nat_of_char [of c, where ?'a = int] by (simp add: is_digit_def)
    have step: "list_all is_digit xs \<Longrightarrow> 0 < a \<Longrightarrow> 0 < foldl (\<lambda>n c. n * 10 + (of_char c - 48)) a xs" for xs and a :: int
    proof (induction xs arbitrary: a)
      case (Cons c xs)
      then show ?case using ge [of c] by simp
    qed simp
    note nonempty = that(1)
    obtain c xs where ds: "ds = c # xs" using nonempty by (cases ds) auto
    have z: "of_char (CHR ''0'') = (48::nat)" by simp
    have "of_char c \<noteq> (48::nat)" using that(3) ds z of_char_eq_iff [of c "CHR ''0''", where ?'a = nat] by simp
    moreover have "48 \<le> (of_char c :: nat)" using that(2) ds by (simp add: is_digit_def)
    ultimately have "(48::int) < of_char c" using of_nat_of_char [of c, where ?'a = int] by linarith
    then have "0 < (of_char c - 48 :: int)" by simp
    then show ?thesis using step [of xs "of_char c - 48"] that(2) ds by (simp add: int_of_digits_def)
  qed
  have dd: "us_per_second > 0" "us_per_day > 0" by (simp_all add: us_per_second_def us_per_day_def)
  show ?thesis using assms pos [of "butlast tf"] dd
    by (auto simp: timeframe_to_timedelta_def make_timedelta_def Let_def split: if_splits)
qed


text \<open>
  Duplicates cannot inflate coverage: two row lists that carry the same timestamps in the window,
  in any order and any number of times, get reports with the same expected, observed and missing
  bars and the same ratio.
\<close>

theorem coverage_ignores_multiplicity:
  assumes "coverage_report_for_bars env rows sr start_ts end_ts fs cmin mode now = Inr r"
    and "coverage_report_for_bars env rows' sr start_ts end_ts fs cmin mode' now' = Inr r'"
    and "window_times env (ts_field fs) (cr_start r) (cr_end r) rows =
      window_times env (ts_field fs) (cr_start r) (cr_end r) rows'"
  shows "cr_expected r' = cr_expected r \<and> cr_observed r' = cr_observed r \<and> cr_missing r' = cr_missing r \<and>
    cr_ratio r' = cr_ratio r \<and> cr_missing_sample r' = cr_missing_sample r \<and> cr_missing_days r' = cr_missing_days r"
proof -
  obtain st en expected ps failures where p:
    "ensure_utc start_ts = Inr st" "ensure_utc end_ts = Inr en"
    "iter_expected_bar_timestamps (Aware st 0) (Aware en 0) (s_timeframe sr) = Inr expected"
    "scan_rows env (ts_field fs) st en rows = Inr (ps, failures)"
    "coverage_ratio_of (int (length (observed_of expected (map fst ps)))) (int (length expected)) = Inr (cr_ratio r)"
    "cr_expected r = int (length expected)" "cr_observed r = int (length (observed_of expected (map fst ps)))"
    "cr_missing r = int (length (missing_of expected (map fst ps)))" "cr_start r = st" "cr_end r = en"
    "cr_missing_sample r = map iso_of_instant (take 100 (missing_of expected (map fst ps)))"
    "cr_missing_days r = missing_days_of (missing_of expected (map fst ps))"
    by (rule bars_report_parts [OF assms(1)])
  obtain st' en' expected' ps' failures' where p':
    "ensure_utc start_ts = Inr st'" "ensure_utc end_ts = Inr en'"
    "iter_expected_bar_timestamps (Aware st' 0) (Aware en' 0) (s_timeframe sr) = Inr expected'"
    "scan_rows env (ts_field fs) st' en' rows' = Inr (ps', failures')"
    "coverage_ratio_of (int (length (observed_of expected' (map fst ps')))) (int (length expected')) = Inr (cr_ratio r')"
    "cr_expected r' = int (length expected')" "cr_observed r' = int (length (observed_of expected' (map fst ps')))"
    "cr_missing r' = int (length (missing_of expected' (map fst ps')))"
    "cr_missing_sample r' = map iso_of_instant (take 100 (missing_of expected' (map fst ps')))"
    "cr_missing_days r' = missing_days_of (missing_of expected' (map fst ps'))"
    by (rule bars_report_parts [OF assms(2)])
  have e: "st' = st" "en' = en" "expected' = expected" using p(1-3) p'(1-3) by auto
  have seen: "set (map fst ps') = set (map fst ps)"
    using scan_rows_spec [OF p(4)] scan_rows_spec [OF p'(4)] assms(3) p(9,10) e by metis
  have m: "missing_of expected (map fst ps') = missing_of expected (map fst ps)"
    unfolding missing_of_def observed_missing(1) by (simp only: seen)
  have o: "length (observed_of expected (map fst ps')) = length (observed_of expected (map fst ps))"
    using distinct_card [OF observed_missing(2)] seen by (metis observed_missing(1))
  show ?thesis using p p' unfolding e m o by simp
qed

section \<open>Clean input is always reported\<close>

definition row_clean :: "pyenv \<Rightarrow> row_fields \<Rightarrow> pyrow \<Rightarrow> bool" where
  "row_clean env fs row \<longleftrightarrow>
     (case row_time env (ts_field fs) row of Inl e \<Rightarrow> is_parse_error e | Inr _ \<Rightarrow> True) \<and>
     list_all (\<lambda>f. case optional_float env (row_get row f) of Inl _ \<Rightarrow> False | Inr _ \<Rightarrow> True)
       [volume_field fs, price_field fs, spread_field fs, funding_field fs]"

lemma scan_rows_total: "list_all (row_clean env fs) rows \<Longrightarrow> \<exists>ps n. scan_rows env (ts_field fs) st en rows = Inr (ps, n)"
proof (induction rows)
  case (Cons row rows)
  then obtain ps n where "scan_rows env (ts_field fs) st en rows = Inr (ps, n)" by auto
  then show ?case using Cons.prems by (auto simp: row_clean_def row_time_def split: sum.splits)
qed simp

lemma parse_rows_total:
  "list_all (row_clean env fs) rows \<Longrightarrow> \<exists>ps. parse_rows env (ts_field fs) rows = Inr ps \<and> list_all (\<lambda>p. row_clean env fs (snd p)) ps"
proof (induction rows)
  case (Cons row rows)
  then obtain ps where "parse_rows env (ts_field fs) rows = Inr ps" "list_all (\<lambda>p. row_clean env fs (snd p)) ps" by auto
  then show ?case using Cons.prems by (auto simp: row_clean_def row_time_def split: sum.splits)
qed simp

lemma field_floats_total:
  assumes "list_all (\<lambda>p. row_clean env fs (snd p)) ps"
    and "f \<in> {volume_field fs, price_field fs, spread_field fs, funding_field fs}"
  shows "\<exists>vs. field_floats env f ps = Inr vs"
  using assms(1)
proof (induction ps)
  case (Cons p ps)
  then obtain vs where "field_floats env f ps = Inr vs" by auto
  moreover obtain v where "optional_float env (row_get (snd p) f) = Inr v"
    using Cons.prems assms(2) by (auto simp: row_clean_def split: sum.splits)
  ultimately show ?case by (cases p) (auto simp: field_floats_def)
qed (simp add: field_floats_def)

definition series_named :: "series \<Rightarrow> bool" where
  "series_named sr \<longleftrightarrow> s_venue sr \<noteq> [] \<and> s_instrument sr \<noteq> [] \<and> s_family sr \<noteq> [] \<and> s_timeframe sr \<noteq> []"

lemma all_finite_items:
  "all_finite (JObj [])" "all_finite v \<Longrightarrow> all_finite (JObj kvs) \<Longrightarrow> all_finite (JObj ((k, v) # kvs))"
  "all_finite (JStr s)" "all_finite (JInt i)" "isfinite x \<Longrightarrow> all_finite (JFloat x)"
  "list_all all_finite xs \<Longrightarrow> all_finite (JList xs)"
  by simp_all

lemma new_check_total:
  assumes "series_named sr" "st < en" "ty \<noteq> []"
  shows "\<exists>c. new_check sr st en ty a mode now = Inr c"
proof -
  have h: "\<exists>h. canonical_json_hash v = Inr h \<and> length h = 64" if "all_finite v" for v
    by (rule canonical_json_hash_finite [OF that])
  have fin: "list_all all_finite (map JStr xs)" for xs by (induction xs) auto
  obtain h where "canonical_json_hash (JObj [
           (''venue'', JStr (s_venue sr)), (''instrument_id'', JStr (s_instrument sr)),
           (''family'', JStr (s_family sr)), (''timeframe'', JStr (s_timeframe sr)),
           (''start_ts'', JStr (iso_of_instant st)), (''end_ts'', JStr (iso_of_instant en)),
           (''check_type'', JStr ty), (''affected_timestamps_sample'', JList (map JStr (map iso_of_instant (take 50 a)))),
           (''affected_count'', JInt (int (length a))), (''evidence_mode'', JStr (mode_value mode))]) = Inr h" and len: "length h = 64"
    using h fin by (meson all_finite_items)
  then show ?thesis
    unfolding new_check_def Let_def using assms len
    by (simp only: bindE_simps) (auto simp: validate_check_Inr series_named_def)
qed

lemma fl_half: "fl (1/2) = Fin (1/2)"
  by code_simp

lemma fl_tenth: "fl (1/10) = Fin (3602879701896397 / 36028797018963968)"
  by code_simp

lemma default_thresholds_pos:
  "stale_min_run default_thresholds = 3" "\<not> f_le (max_abs_return default_thresholds) (Fin 0)"
  "\<not> f_lt (max_spread default_thresholds) (Fin 0)" "\<not> f_lt (max_abs_funding default_thresholds) (Fin 0)"
  by (simp_all add: default_thresholds_def fl_half fl_tenth f_le_def)

lemma build_checks_total:
  assumes clean: "list_all (row_clean env fs) rows" and named: "series_named sr"
    and w: "valid_instant st" "valid_instant en" "st < en"
  shows "\<exists>cs. build_quality_checks env rows sr (Aware st 0) (Aware en 0) fs default_thresholds mode now = Inr cs"
proof -
  obtain all_rows where ar: "parse_rows env (ts_field fs) rows = Inr all_rows" "list_all (\<lambda>p. row_clean env fs (snd p)) all_rows"
    using parse_rows_total [OF clean] by blast
  define ps where "ps = filter (\<lambda>(ts, row). st \<le> ts \<and> ts < en) all_rows"
  have cl: "list_all (\<lambda>p. row_clean env fs (snd p)) ps" "list_all (\<lambda>p. row_clean env fs (snd p)) (sorted_by fst ps)"
    using ar(2) by (auto simp: ps_def list_all_iff)
  note ff = field_floats_total [OF cl(1)] field_floats_total [OF cl(2)]
  obtain v2 where v2: "field_floats env (volume_field fs) ps = Inr v2" using ff(1) by blast
  obtain v4 where v4: "field_floats env (price_field fs) (sorted_by fst ps) = Inr v4" using ff(2) by blast
  obtain v5 where v5: "field_floats env (spread_field fs) ps = Inr v5" using ff(1) by blast
  obtain v6 where v6: "field_floats env (funding_field fs) ps = Inr v6" using ff(1) by blast
  define mk where "mk ty a = (SOME c. new_check sr st en ty a mode now = Inr c)" for ty a
  have mk: "new_check sr st en ty a mode now = Inr (mk ty a)" if "ty \<noteq> []" for ty a
    unfolding mk_def by (rule someI_ex [OF new_check_total [OF named w(3) that]])
  have e: "ensure_utc (Aware st 0) = Inr st" "ensure_utc (Aware en 0) = Inr en" using w by (simp_all add: ensure_utc_def)
  have d: "detect_zero_volume env (volume_field fs) ps \<noteq> Inl x"
     "detect_stale_segments (price_field fs) (stale_min_run default_thresholds) ps \<noteq> Inl x"
     "detect_return_outliers env (price_field fs) (max_abs_return default_thresholds) ps \<noteq> Inl x"
     "detect_spread_outliers env (spread_field fs) (max_spread default_thresholds) ps \<noteq> Inl x"
     "detect_funding_outliers env (funding_field fs) (max_abs_funding default_thresholds) ps \<noteq> Inl x" for x
    using v2 v4 v5 v6 default_thresholds_pos
    by (simp_all add: detect_zero_volume_def detect_stale_segments_def detect_return_outliers_def
        detect_spread_outliers_def detect_funding_outliers_def guardE_def)
  then obtain a2 a3 a4 a5 a6 where a:
     "detect_zero_volume env (volume_field fs) ps = Inr a2"
     "detect_stale_segments (price_field fs) (stale_min_run default_thresholds) ps = Inr a3"
     "detect_return_outliers env (price_field fs) (max_abs_return default_thresholds) ps = Inr a4"
     "detect_spread_outliers env (spread_field fs) (max_spread default_thresholds) ps = Inr a5"
     "detect_funding_outliers env (funding_field fs) (max_abs_funding default_thresholds) ps = Inr a6"
    by (meson sum.exhaust)
  show ?thesis
    unfolding build_quality_checks_def Let_def e bindE_simps ar(1) ps_def [symmetric] a
    by (simp add: mk)
qed

lemma in_unit_Fin: "in_unit x \<Longrightarrow> isfinite x"
  by (cases x) (auto simp: in_unit_def f_le_def)

lemma clean_report_built:
  assumes "list_all (row_clean env fs) rows" and "series_named sr" and "in_unit cmin"
    and "valid_instant st" and "valid_instant en" and "st < en"
    and "iter_expected_bar_timestamps (Aware st 0) (Aware en 0) (s_timeframe sr) = Inr expected"
  shows "\<exists>r. coverage_report_for_bars env rows sr (Aware st 0) (Aware en 0) fs cmin mode now = Inr r \<and>
    cr_expected r = int (length expected)"
proof -
  obtain ps n where sc: "scan_rows env (ts_field fs) st en rows = Inr (ps, n)" using scan_rows_total [OF assms(1)] by blast
  obtain cs where cs: "build_quality_checks env rows sr (Aware st 0) (Aware en 0) fs default_thresholds mode now = Inr cs"
    using build_checks_total [OF assms(1,2,4,5,6)] by blast
  obtain step where tf: "timeframe_to_timedelta (s_timeframe sr) = Inr step"
    using assms(7) unfolding iter_expected_bar_timestamps_def bindE_Inr_iff by blast
  have di: "distinct expected" by (rule iter_expected_distinct [OF assms(7) tf timeframe_positive [OF tf]])
  let ?o = "int (length (observed_of expected (map fst ps)))"
  have le: "0 \<le> ?o" "?o \<le> int (length expected)" using observed_le [OF di, of "map fst ps"] by simp_all
  obtain q where q: "coverage_ratio_of ?o (int (length expected)) = Inr (Fin q)" "0 \<le> q" "q \<le> 1"
    using coverage_ratio_unit [OF le] by blast
  have e: "ensure_utc (Aware st 0) = Inr st" "ensure_utc (Aware en 0) = Inr en" using assms(4,5) by (simp_all add: ensure_utc_def)
  have n0: "0 \<le> n" using scan_rows_spec [OF sc] by simp
  have u: "in_unit (Fin q)" using q by (auto simp: in_unit_def f_le_def)
  have fin: "isfinite (f_round 12 (Fin q))" "isfinite cmin"
    by (rule f_round_unit_finite [OF q(2,3)], rule in_unit_Fin [OF assms(3)])
  have ls: "list_all all_finite (map JStr xs)" for xs by (induction xs) auto
  have bl: "''sandbox_diagnostic_non_evidence'' \<in> set (blocker_reasons (Fin q) cmin SANDBOX_DIAGNOSTIC a b c d e)" for a b c d e
    by (simp add: blocker_reasons_def)
  note nn = build_checks_counts [OF cs]
  obtain h where h: "canonical_json_hash (JObj [
        (''venue'', JStr (s_venue sr)), (''instrument_id'', JStr (s_instrument sr)),
        (''family'', JStr (s_family sr)), (''timeframe'', JStr (s_timeframe sr)),
        (''start_ts'', JStr (iso_of_instant st)), (''end_ts'', JStr (iso_of_instant en)),
        (''expected_rows'', JInt (int (length expected))), (''observed_rows'', JInt ?o),
        (''coverage_ratio'', JFloat (f_round 12 (Fin q))),
        (''missing_timestamp_count'', JInt (int (length (missing_of expected (map fst ps))))),
        (''missing_days'', JList (map JStr (missing_days_of (missing_of expected (map fst ps))))),
        (''duplicate_timestamp_count'', JInt (surplus (map fst ps))), (''zero_volume_count'', JInt (check_count cs ''zero_volume'')),
        (''stale_segment_count'', JInt (check_count cs ''stale_segments'')), (''return_outlier_count'', JInt (check_count cs ''return_outliers'')),
        (''spread_outlier_count'', JInt (check_count cs ''spread_outliers'')), (''funding_outlier_count'', JInt (check_count cs ''funding_outliers'')),
        (''parse_failure_count'', JInt n), (''evidence_mode'', JStr (mode_value mode)),
        (''coverage_min'', JFloat cmin)]) = Inr h" "length h = 64"
    using canonical_json_hash_finite fin ls by (meson all_finite_items)
  show ?thesis
    unfolding coverage_report_for_bars_def Let_def e bindE_simps assms(7) sc prod.case q(1) cs h(1)
    using assms(2,3,6) h(2) le u n0 nn bl surplus_nonneg [of "map fst ps"]
    by (intro exI conjI) (rule validate_coverage_Inr [THEN iffD2], rule conjI, rule refl, auto simp: coverage_ok_def series_named_def)
qed

text \<open>
  C38: a report never fails on data: if every row has a timestamp or fails to parse in one of the
  three ways the code catches, its numeric fields are missing, numbers or rejected text, the series
  is named, the minimum lies in [0, 1] and the window and timeframe are valid, then a report is built.
\<close>

theorem coverage_report_total:
  assumes "list_all (row_clean env fs) rows" and "series_named sr" and "in_unit cmin"
    and "valid_instant st" and "valid_instant en" and "st < en"
    and "iter_expected_bar_timestamps (Aware st 0) (Aware en 0) (s_timeframe sr) = Inr expected"
  shows "\<exists>r. coverage_report_for_bars env rows sr (Aware st 0) (Aware en 0) fs cmin mode now = Inr r \<and>
    cr_expected r = int (length expected)"
  by (rule clean_report_built [OF assms])

text \<open>Clean input for the witnesses: an environment in which no text parses, and two rows with a time.\<close>

definition no_text_env :: pyenv where
  "no_text_env = \<lparr>fromisoformat = (\<lambda>_. Inl (ValueError ''Invalid isoformat string'')),
     float_of_text = (\<lambda>_. Inl (ValueError ''could not convert string to float''))\<rparr>"

definition demo_series :: series where
  "demo_series = \<lparr>s_venue = ''hyperliquid'', s_instrument = ''BTC'', s_family = ''bars'', s_timeframe = ''15m''\<rparr>"

definition demo_fields :: row_fields where
  "demo_fields = \<lparr>ts_field = ''ts'', volume_field = ''volume'', price_field = ''close'', spread_field = ''spread'',
     funding_field = ''funding''\<rparr>"

definition demo_rows :: "pyrow list" where
  "demo_rows = [[(''ts'', VTime (Aware 0 0)), (''volume'', VFloat (Fin 5)), (''close'', VFloat (Fin 7))],
     [(''ts'', VTime (Aware 900000000 0)), (''volume'', VFloat (Fin 5)), (''close'', VFloat (Fin 8))], [(''ts'', VNone)]]"

lemma demo_clean:
  "list_all (row_clean no_text_env demo_fields) demo_rows" "series_named demo_series" "in_unit (Fin 1)"
  "valid_instant 0" "valid_instant 86400000000" "(0::int) < 86400000000"
  by (simp_all add: demo_rows_def demo_fields_def demo_series_def no_text_env_def row_clean_def row_time_def series_named_def
      in_unit_def row_item_def row_get_def optional_float_def ensure_utc_def is_parse_error_def f_le_def
      valid_instant_def max_ordinal_def us_per_day_def)

lemma demo_expected:
  "iter_expected_bar_timestamps (Aware 0 0) (Aware 86400000000 0) (s_timeframe demo_series) = Inr (map (\<lambda>i. 0 + int i * 900000000) [0..<96])"
  using iter_expected_exact [OF demo_clean(4-6) _ timeframe_15m] by (simp add: us_per_second_def demo_series_def)

lemma coverage_report_total_witness:
  "\<exists>r. coverage_report_for_bars no_text_env demo_rows demo_series (Aware 0 0) (Aware 86400000000 0) demo_fields (Fin 1)
      ACCEPTED_RESEARCH 0 = Inr r \<and> cr_expected r = 96"
  using coverage_report_total [OF demo_clean demo_expected, of ACCEPTED_RESEARCH 0] by simp

lemma demo_report:
  assumes "rows = demo_rows \<or> rows = demo_rows @ demo_rows"
  shows "\<exists>r. coverage_report_for_bars no_text_env rows demo_series (Aware 0 0) (Aware 86400000000 0) demo_fields (Fin 1)
      ACCEPTED_RESEARCH 0 = Inr r"
proof -
  have "list_all (row_clean no_text_env demo_fields) rows" using assms demo_clean(1) by auto
  from clean_report_built [OF this demo_clean(2-6) demo_expected] show ?thesis by blast
qed


lemma coverage_ignores_multiplicity_witness:
  "\<exists>r r'. coverage_report_for_bars no_text_env demo_rows demo_series (Aware 0 0) (Aware 86400000000 0) demo_fields (Fin 1)
      ACCEPTED_RESEARCH 0 = Inr r \<and>
    coverage_report_for_bars no_text_env (demo_rows @ demo_rows) demo_series (Aware 0 0) (Aware 86400000000 0) demo_fields (Fin 1)
      ACCEPTED_RESEARCH 0 = Inr r' \<and> cr_observed r' = cr_observed r"
proof -
  obtain r r' where r: "coverage_report_for_bars no_text_env demo_rows demo_series (Aware 0 0) (Aware 86400000000 0) demo_fields (Fin 1)
      ACCEPTED_RESEARCH 0 = Inr r"
    "coverage_report_for_bars no_text_env (demo_rows @ demo_rows) demo_series (Aware 0 0) (Aware 86400000000 0) demo_fields (Fin 1)
      ACCEPTED_RESEARCH 0 = Inr r'"
    using demo_report by blast
  have "window_times env tsf st en (xs @ xs) = window_times env tsf st en xs" for env tsf st en xs
    by (simp add: window_times_def)
  then show ?thesis using coverage_ignores_multiplicity [OF r] r by auto
qed

end
