(* ===== verification/ArchiveLayout.thy ===== *)
theory ArchiveLayout
  imports Boundary
begin

text \<open>
  \<open>archive/layout.py\<close> and \<open>security/path_policy.py\<close>: the partition directories of the local archive and
  the check that a path stays below the configured root.  A path is its components; the root is
  given resolved, and below it there are no symbolic links, so that resolving a path is dropping
  its dots.  An error message is kept up to the value it quotes.  Paths are POSIX paths, on which \<open>normcase\<close> is the identity.
\<close>

section \<open>Paths\<close>

datatype path = Path (p_absolute: bool) (p_parts: "string list")

fun split_on :: "char \<Rightarrow> string \<Rightarrow> string \<Rightarrow> string list" where
  "split_on sep acc [] = [acc]"
| "split_on sep acc (c # cs) = (if c = sep then acc # split_on sep [] cs else split_on sep (acc @ [c]) cs)"

text \<open>\<open>Path(text)\<close>: empty and dot components vanish.\<close>

definition parse_path :: "string \<Rightarrow> path" where
  "parse_path s = Path (is_prefix_of ''/'' s) (filter (\<lambda>p. p \<noteq> '''' \<and> p \<noteq> ''.'') (split_on CHR ''/'' '''' s))"

text \<open>\<open>p / q\<close>: an absolute second operand replaces the first.\<close>

fun path_join :: "path \<Rightarrow> path \<Rightarrow> path" where
  "path_join (Path a ps) (Path True qs) = Path True qs"
| "path_join (Path a ps) (Path False qs) = Path a (ps @ qs)"

definition path_of :: "string list \<Rightarrow> path" where
  "path_of parts = fold (\<lambda>s p. path_join p (parse_path s)) parts (Path False [])"

fun drop_dots :: "string list \<Rightarrow> string list \<Rightarrow> string list" where
  "drop_dots acc [] = acc"
| "drop_dots acc (p # ps) = drop_dots (if p = ''..'' then butlast acc else acc @ [p]) ps"

text \<open>\<open>commonpath\<close> of the root and a path is the root exactly when the root is a prefix.\<close>

definition resolve_within_root :: "string list \<Rightarrow> path \<Rightarrow> string list result" where
  "resolve_within_root base candidate =
     (let resolved = drop_dots [] (p_parts (path_join (Path True base) candidate)) in
      if take (length base) resolved \<noteq> base then Inl (ValueError ''path escapes configured root'')
      else Inr resolved)"

section \<open>Partition values\<close>

definition replace_char :: "char \<Rightarrow> string \<Rightarrow> string \<Rightarrow> string" where
  "replace_char c new s = concat (map (\<lambda>x. if x = c then new else [x]) s)"

definition safe_partition_char :: "char \<Rightarrow> bool" where
  "safe_partition_char c \<longleftrightarrow> (let n = of_char c :: nat in
     (65 \<le> n \<and> n \<le> 90) \<or> (97 \<le> n \<and> n \<le> 122) \<or> (48 \<le> n \<and> n \<le> 57)) \<or> c \<in> set ''_.%~-''"

definition safe_partition_value :: "string \<Rightarrow> string result" where
  "safe_partition_value value =
     (let text = replace_char CHR '':'' ''%3A'' (replace_char CHR ''%'' ''%25'' value) in
      if text \<in> {'''', ''.'', ''..''} \<or> \<not> list_all safe_partition_char text
      then Inl (ValueError ''unsafe archive partition value'') else Inr text)"

definition partition_part :: "string \<Rightarrow> string option \<Rightarrow> string option result" where
  "partition_part key value = (case value of None \<Rightarrow> Inr None
     | Some v \<Rightarrow> bindE (safe_partition_value key) (\<lambda>k. bindE (safe_partition_value v) (\<lambda>x. Inr (Some (k @ ''='' @ x)))))"

section \<open>The layout\<close>

definition REQUIRED_DIRS :: "string list" where
  "REQUIRED_DIRS = [''raw'', ''bronze'', ''silver'', ''gold'', ''manifests'', ''performance'', ''lead_book'']"

definition layout_resolve :: "string list \<Rightarrow> string list \<Rightarrow> string list result" where
  "layout_resolve base parts = resolve_within_root base (path_of parts)"

definition layout_initialize :: "string list \<Rightarrow> string list list result" where
  "layout_initialize base = mapE (\<lambda>d. layout_resolve base [d]) REQUIRED_DIRS"

definition manifests_root :: "string list \<Rightarrow> string list result" where
  "manifests_root base = layout_resolve base [''manifests'']"

text \<open>\<open>relative_to_root\<close> of a path text: the resolved components below the root.\<close>

definition relative_to_root :: "string list \<Rightarrow> string \<Rightarrow> string result" where
  "relative_to_root base path = bindE (resolve_within_root base (parse_path path)) (\<lambda>p.
     Inr (if drop (length base) p = [] then ''.'' else join ''/'' (drop (length base) p)))"

definition layer_root :: "string list \<Rightarrow> string \<Rightarrow> string list result" where
  "layer_root base layer = bindE (safe_partition_value layer) (\<lambda>l. layout_resolve base [l])"

definition hour_text :: "int option \<Rightarrow> string option" where
  "hour_text h = map_option (zero_pad 2) h"

record raw_file =
  rf_venue :: string
  rf_datatype :: string
  rf_interval :: "string option"
  rf_date :: string
  rf_hour :: "int option"
  rf_instrument :: "string option"
  rf_run :: string
  rf_filename :: string

text \<open>\<open>[part for part in parts if part is not None]\<close>\<close>

definition given_parts :: "string option list \<Rightarrow> string list" where
  "given_parts ps = map the (filter (\<lambda>p. p \<noteq> None) ps)"

definition raw_parts :: "raw_file \<Rightarrow> string list result" where
  "raw_parts f = bindE (mapE (\<lambda>(k, v). partition_part k v)
       [(''venue'', Some (rf_venue f)), (''datatype'', Some (rf_datatype f)), (''interval'', rf_interval f),
        (''date'', Some (rf_date f)), (''hour'', hour_text (rf_hour f)), (''instrument'', rf_instrument f),
        (''run_id'', Some (rf_run f))]) (\<lambda>ps.
     Inr (''raw'' # given_parts ps))"

definition raw_file_path :: "string list \<Rightarrow> raw_file \<Rightarrow> string list result" where
  "raw_file_path base f = bindE (raw_parts f) (\<lambda>ps.
     bindE (safe_partition_value (rf_filename f)) (\<lambda>name.
     layout_resolve base (ps @ [name @ ''.jsonl.zst''])))"

definition raw_native_file_path :: "string list \<Rightarrow> raw_file \<Rightarrow> string list result" where
  "raw_native_file_path base f = bindE (raw_parts f) (\<lambda>ps.
     bindE (safe_partition_value (rf_filename f)) (\<lambda>name.
     layout_resolve base (ps @ [name])))"

record parquet_file =
  pf_layer :: string
  pf_dataset :: string
  pf_timeframe :: "string option"
  pf_venue :: string
  pf_date :: string
  pf_hour :: "int option"
  pf_snapshot :: "string option"
  pf_filename :: string

definition parquet_file_path :: "string list \<Rightarrow> parquet_file \<Rightarrow> string list result" where
  "parquet_file_path base f =
     bindE (safe_partition_value (pf_layer f)) (\<lambda>layer.
     bindE (safe_partition_value (pf_dataset f)) (\<lambda>dataset.
     bindE (mapE (\<lambda>(k, v). partition_part k v)
       [(''timeframe'', pf_timeframe f), (''venue'', Some (pf_venue f)), (''date'', Some (pf_date f)),
        (''hour'', hour_text (pf_hour f)), (''snapshot_id'', pf_snapshot f)]) (\<lambda>ps.
     bindE (safe_partition_value (pf_filename f)) (\<lambda>name.
     layout_resolve base ([layer, dataset] @ given_parts ps @ [name @ ''.parquet''])))))"

section \<open>Escaping is injective and harmless\<close>

lemma replace_char_Nil [simp]: "replace_char c new [] = []"
  by (simp add: replace_char_def)

lemma replace_char_Cons: "replace_char c new (x # s) = (if x = c then new else [x]) @ replace_char c new s"
  by (simp add: replace_char_def)

definition escape :: "string \<Rightarrow> string" where
  "escape s = replace_char CHR '':'' ''%3A'' (replace_char CHR ''%'' ''%25'' s)"

lemma escape_simps [simp]:
  "escape [] = []"
  "escape (c # s) = (if c = CHR ''%'' then ''%25'' else if c = CHR '':'' then ''%3A'' else [c]) @ escape s"
  by (simp_all add: escape_def replace_char_Cons)

lemma escape_inj: "escape a = escape b \<Longrightarrow> a = b"
proof (induction a arbitrary: b)
  case Nil
  then show ?case by (cases b) (auto split: if_splits)
next
  case (Cons x a)
  then obtain y b' where "b = y # b'" by (cases b) (auto split: if_splits)
  then show ?case using Cons by (auto split: if_splits)
qed

lemma safe_value_Inr: "safe_partition_value v = Inr x \<longleftrightarrow>
    x = escape v \<and> x \<notin> {'''', ''.'', ''..''} \<and> list_all safe_partition_char x"
  by (auto simp: safe_partition_value_def escape_def Let_def)

lemma safe_char_not: "safe_partition_char c \<Longrightarrow> c \<noteq> CHR ''/'' \<and> c \<noteq> CHR ''=''"
  by (auto simp: safe_partition_char_def)

definition plain_part :: "string \<Rightarrow> bool" where
  "plain_part s \<longleftrightarrow> CHR ''/'' \<notin> set s \<and> s \<notin> {'''', ''.'', ''..''}"

lemma safe_value_plain: "safe_partition_value v = Inr x \<Longrightarrow> plain_part x \<and> CHR ''='' \<notin> set x"
  using safe_char_not by (fastforce simp: safe_value_Inr plain_part_def list_all_iff)

lemma split_on_plain: "sep \<notin> set s \<Longrightarrow> split_on sep acc s = [acc @ s]"
  by (induction s arbitrary: acc) auto

lemma parse_plain: "plain_part s \<Longrightarrow> parse_path s = Path False [s]"
  by (cases s) (auto simp: parse_path_def plain_part_def split_on_plain is_prefix_of_def)

lemma path_of_plain: "list_all plain_part ps \<Longrightarrow> path_of ps = Path False ps"
proof -
  have "list_all plain_part ps \<Longrightarrow> fold (\<lambda>s p. path_join p (parse_path s)) ps (Path False qs) = Path False (qs @ ps)" for qs
    by (induction ps arbitrary: qs) (auto simp: parse_plain)
  from this [of "[]"] show "list_all plain_part ps \<Longrightarrow> path_of ps = Path False ps" by (simp add: path_of_def)
qed

lemma drop_dots_plain: "list_all (\<lambda>p. p \<noteq> ''..'') ps \<Longrightarrow> drop_dots acc ps = acc @ ps"
  by (induction ps arbitrary: acc) auto

lemma resolve_plain:
  assumes "list_all plain_part base" "list_all plain_part ps"
  shows "layout_resolve base ps = Inr (base @ ps)"
proof -
  have "list_all (\<lambda>p. p \<noteq> ''..'') (base @ ps)" using assms by (auto simp: list_all_iff plain_part_def)
  then have "drop_dots [] (base @ ps) = base @ ps" by (simp add: drop_dots_plain)
  then show ?thesis by (simp add: layout_resolve_def resolve_within_root_def path_of_plain [OF assms(2)])
qed

section \<open>Every layout path stays below the root\<close>

lemma partition_part_Inr:
  "partition_part k v = Inr x \<longleftrightarrow> (case v of None \<Rightarrow> x = None
     | Some w \<Rightarrow> \<exists>k' w'. safe_partition_value k = Inr k' \<and> safe_partition_value w = Inr w' \<and> x = Some (k' @ ''='' @ w'))"
  by (auto simp: partition_part_def bindE_Inr_iff split: option.splits)

lemma partition_part_plain:
  assumes "partition_part k v = Inr (Some p)"
  shows "plain_part p"
proof -
  obtain k' w' where p: "p = k' @ ''='' @ w'" and s: "CHR ''/'' \<notin> set k'" "CHR ''/'' \<notin> set w'"
    using assms by (auto simp: partition_part_Inr plain_part_def dest!: safe_value_plain split: option.splits)
  have "CHR ''='' \<in> set p" "CHR ''/'' \<notin> set p" using s by (auto simp: p)
  moreover have "q \<in> {'''', ''.'', ''..''} \<Longrightarrow> CHR ''='' \<notin> set q" for q by auto
  ultimately show ?thesis unfolding plain_part_def by blast
qed

lemma given_parts_plain:
  assumes "mapE (\<lambda>(k, v). partition_part k v) kvs = Inr ps"
  shows "list_all plain_part (given_parts ps)"
  using assms
proof (induction kvs arbitrary: ps)
  case (Cons kv kvs)
  then obtain p ps' where "partition_part (fst kv) (snd kv) = Inr p" "list_all plain_part (given_parts ps')" "ps = p # ps'"
    by (cases kv) (auto simp: bindE_Inr_iff)
  then show ?case by (cases p) (auto simp: given_parts_def dest: partition_part_plain)
qed (simp add: given_parts_def)

lemma raw_parts_plain: "raw_parts f = Inr ps \<Longrightarrow> list_all plain_part ps"
  by (auto simp: raw_parts_def bindE_Inr_iff plain_part_def dest!: given_parts_plain simp del: mapE.simps)

lemma suffix_plain: "plain_part s \<Longrightarrow> CHR ''/'' \<notin> set t \<Longrightarrow> 3 \<le> length t \<Longrightarrow> plain_part (s @ t)"
  by (auto simp: plain_part_def append_eq_Cons_conv dest: arg_cong [of _ _ length])

definition unsafe_value_error :: py_error where
  "unsafe_value_error = ValueError ''unsafe archive partition value''"

lemma safe_value_Inl: "safe_partition_value v = Inl e \<Longrightarrow> e = unsafe_value_error"
  by (auto simp: safe_partition_value_def unsafe_value_error_def Let_def split: if_splits)

lemma partition_part_Inl: "partition_part k v = Inl e \<Longrightarrow> e = unsafe_value_error"
  by (auto simp: partition_part_def bindE_Inl_iff split: option.splits dest: safe_value_Inl)

lemma parts_Inl: "mapE (\<lambda>(k, v). partition_part k v) kvs = Inl e \<Longrightarrow> e = unsafe_value_error"
  by (induction kvs) (auto simp: bindE_Inl_iff dest: partition_part_Inl)

definition contained :: "string list \<Rightarrow> string list result \<Rightarrow> bool" where
  "contained base r \<longleftrightarrow> (case r of Inl e \<Rightarrow> e = unsafe_value_error
     | Inr p \<Rightarrow> \<exists>ps. p = base @ ps \<and> ps \<noteq> [] \<and> list_all plain_part ps)"

lemma contained_bind:
  assumes "\<And>e. m = Inl e \<Longrightarrow> e = unsafe_value_error" and "\<And>x. m = Inr x \<Longrightarrow> contained base (f x)"
  shows "contained base (bindE m f)"
  using assms by (cases m) (auto simp: contained_def)

lemma contained_resolve:
  "list_all plain_part base \<Longrightarrow> list_all plain_part ps \<Longrightarrow> ps \<noteq> [] \<Longrightarrow> contained base (layout_resolve base ps)"
  by (simp add: resolve_plain contained_def)

lemma raw_parts_Inl: "raw_parts f = Inl e \<Longrightarrow> e = unsafe_value_error"
  unfolding raw_parts_def bindE_Inl_iff by (auto dest: parts_Inl simp del: mapE.simps)

lemma name_plain:
  assumes "safe_partition_value v = Inr n"
  shows "plain_part n" "plain_part (n @ ''.jsonl.zst'')" "plain_part (n @ ''.parquet'')"
  using safe_value_plain [OF assms] by (simp_all add: suffix_plain)

text \<open>
  C32: the archive layout cannot leave its root: whatever the venue, instrument, file name and the
  other values of a raw or parquet path are, either one of them is refused as unsafe, or the path
  is the root followed by components that are neither dots nor contain a slash.  The containment
  check of the path policy never fails on these paths.
\<close>

theorem layout_paths_contained:
  assumes "list_all plain_part base"
  shows "contained base (raw_file_path base f) \<and> contained base (raw_native_file_path base f) \<and>
    contained base (parquet_file_path base g) \<and> contained base (layer_root base l)"
proof (intro conjI)
  show "contained base (raw_file_path base f)" "contained base (raw_native_file_path base f)"
    unfolding raw_file_path_def raw_native_file_path_def
    by (intro contained_bind contained_resolve assms; simp add: raw_parts_Inl safe_value_Inl raw_parts_plain name_plain)+
  show "contained base (parquet_file_path base g)"
    unfolding parquet_file_path_def
    by (intro contained_bind contained_resolve assms;
      simp add: parts_Inl safe_value_Inl given_parts_plain name_plain del: mapE.simps)
  show "contained base (layer_root base l)"
    unfolding layer_root_def
    by (intro contained_bind contained_resolve assms; simp add: safe_value_Inl name_plain)
qed

lemma layout_paths_contained_witness:
  "contained [''data'', ''archive''] (layer_root [''data'', ''archive''] ''../../etc'')"
proof -
  have "list_all plain_part [''data'', ''archive'']" by (simp add: plain_part_def)
  from layout_paths_contained [OF this] show ?thesis by blast
qed

section \<open>Raw paths determine their parts\<close>

definition opt_part :: "string \<Rightarrow> string option \<Rightarrow> string list" where
  "opt_part k v = (case v of None \<Rightarrow> [] | Some w \<Rightarrow> [k @ ''='' @ escape w])"

lemma partition_part_opt:
  assumes "safe_partition_value k = Inr k" "partition_part k v = Inr x"
  shows "given_parts [x] = opt_part k v"
  using assms by (auto simp: partition_part_Inr given_parts_def opt_part_def safe_value_Inr split: option.splits)

lemma given_parts_opt:
  assumes "list_all (\<lambda>(k, v). safe_partition_value k = Inr k) kvs" "mapE (\<lambda>(k, v). partition_part k v) kvs = Inr ps"
  shows "given_parts ps = concat (map (\<lambda>(k, v). opt_part k v) kvs)"
  using assms
proof (induction kvs arbitrary: ps)
  case (Cons kv kvs)
  obtain k v where kv: "kv = (k, v)" by (cases kv)
  obtain x xs where x: "partition_part k v = Inr x" "mapE (\<lambda>(k, v). partition_part k v) kvs = Inr xs" "ps = x # xs"
    using Cons.prems(2) by (auto simp: kv bindE_Inr_iff)
  have "given_parts ps = given_parts [x] @ given_parts xs" by (simp add: x(3) given_parts_def)
  then show ?case using Cons.IH [OF _ x(2)] Cons.prems(1) partition_part_opt [OF _ x(1)] by (simp add: kv)
qed (simp add: given_parts_def)

lemma literal_keys:
  "safe_partition_value ''venue'' = Inr ''venue''" "safe_partition_value ''datatype'' = Inr ''datatype''"
  "safe_partition_value ''interval'' = Inr ''interval''" "safe_partition_value ''date'' = Inr ''date''"
  "safe_partition_value ''hour'' = Inr ''hour''" "safe_partition_value ''instrument'' = Inr ''instrument''"
  "safe_partition_value ''run_id'' = Inr ''run_id''"
  by (simp_all add: safe_value_Inr safe_partition_char_def)

lemma raw_parts_opt:
  assumes "raw_parts f = Inr ps"
  shows "ps = ''raw'' # opt_part ''venue'' (Some (rf_venue f)) @ opt_part ''datatype'' (Some (rf_datatype f)) @
    opt_part ''interval'' (rf_interval f) @ opt_part ''date'' (Some (rf_date f)) @ opt_part ''hour'' (hour_text (rf_hour f)) @
    opt_part ''instrument'' (rf_instrument f) @ opt_part ''run_id'' (Some (rf_run f))"
proof -
  obtain xs where xs: "mapE (\<lambda>(k, v). partition_part k v)
       [(''venue'', Some (rf_venue f)), (''datatype'', Some (rf_datatype f)), (''interval'', rf_interval f),
        (''date'', Some (rf_date f)), (''hour'', hour_text (rf_hour f)), (''instrument'', rf_instrument f),
        (''run_id'', Some (rf_run f))] = Inr xs" "ps = ''raw'' # given_parts xs"
    using assms unfolding raw_parts_def bindE_Inr_iff by blast
  show ?thesis unfolding xs(2) by (subst given_parts_opt [OF _ xs(1)]) (simp_all add: literal_keys)
qed

text \<open>The first component \<open>k=...\<close> of a path.\<close>

definition key_part :: "string \<Rightarrow> string list \<Rightarrow> string option" where
  "key_part k ps = find (\<lambda>c. takeWhile (\<lambda>x. x \<noteq> CHR ''='') c = k) ps"

lemma key_part_append: "key_part k (xs @ ys) = (case key_part k xs of None \<Rightarrow> key_part k ys | Some c \<Rightarrow> Some c)"
  by (induction xs) (auto simp: key_part_def)

lemma key_part_opt:
  assumes "CHR ''='' \<notin> set k'"
  shows "key_part k (opt_part k' v) = (if k = k' then map_option (\<lambda>w. k @ ''='' @ escape w) v else None)"
proof -
  have "takeWhile (\<lambda>x. x \<noteq> CHR ''='') (k' @ CHR ''='' # w) = k'" for w
    using assms by (induction k') auto
  then show ?thesis by (cases v) (auto simp: key_part_def opt_part_def)
qed

lemma key_part_other: "CHR ''='' \<notin> set c \<Longrightarrow> k \<noteq> c \<Longrightarrow> key_part k (c # ps) = key_part k ps"
  by (auto simp: key_part_def takeWhile_eq_all_conv [THEN iffD2])

lemma map_escape_inj: "map_option (\<lambda>w. k @ ''='' @ escape w) a = map_option (\<lambda>w. k @ ''='' @ escape w) b \<Longrightarrow> a = b"
  by (cases a; cases b) (auto dest: escape_inj)

lemma raw_parts_key:
  assumes "raw_parts f = Inr ps"
  shows "key_part ''venue'' ps = Some (''venue='' @ escape (rf_venue f))"
    "key_part ''datatype'' ps = Some (''datatype='' @ escape (rf_datatype f))"
    "key_part ''interval'' ps = map_option (\<lambda>w. ''interval'' @ ''='' @ escape w) (rf_interval f)"
    "key_part ''date'' ps = Some (''date='' @ escape (rf_date f))"
    "key_part ''hour'' ps = map_option (\<lambda>w. ''hour'' @ ''='' @ escape w) (hour_text (rf_hour f))"
    "key_part ''instrument'' ps = map_option (\<lambda>w. ''instrument'' @ ''='' @ escape w) (rf_instrument f)"
    "key_part ''run_id'' ps = Some (''run_id='' @ escape (rf_run f))"
  unfolding raw_parts_opt [OF assms]
  by (simp_all add: key_part_append key_part_opt key_part_other split: option.splits)


definition demo_raw :: raw_file where
  "demo_raw = \<lparr>rf_venue = ''hyperliquid'', rf_datatype = ''candles'', rf_interval = Some ''15m'', rf_date = ''2024-01-01'',
     rf_hour = Some 7, rf_instrument = Some ''xyz:TSLA'', rf_run = ''r1'', rf_filename = ''payload''\<rparr>"


end
