(* ===== verification/Tables.thy ===== *)
theory Tables
  imports Prelude
begin

text \<open>
  Manifest tables: a file of records is read, the records with an incoming key are dropped, the
  incoming ones are appended, and the whole is sorted by an order that determines the key and
  written back.  The archive manifests and the coverage manifests are interpretations of the
  contract.
\<close>

section \<open>The operation\<close>

text \<open>\<open>{key(r): r for r in rs}.values()\<close>\<close>

definition last_by_key :: "('r \<Rightarrow> 'k) \<Rightarrow> 'r list \<Rightarrow> 'r list" where
  "last_by_key key rs = map snd (dict_of (map (\<lambda>r. (key r, r)) rs))"

definition replace_rows :: "('r \<Rightarrow> 'k) \<Rightarrow> ('r \<Rightarrow> 'o::linorder) \<Rightarrow> 'r list \<Rightarrow> 'r list \<Rightarrow> 'r list" where
  "replace_rows key ord incoming existing =
     sorted_by ord (filter (\<lambda>r. key r \<notin> set (map key incoming)) existing @ incoming)"

definition find_row :: "('r \<Rightarrow> 'k) \<Rightarrow> 'r list \<Rightarrow> 'k \<Rightarrow> 'r option" where
  "find_row key rs k = find (\<lambda>r. key r = k) rs"

lemma find_row_Some:
  assumes "distinct (map key rs)"
  shows "find_row key rs k = Some r \<longleftrightarrow> r \<in> set rs \<and> key r = k"
  using assms
proof (induction rs)
  case (Cons a rs)
  then have "find_row key rs k = Some r \<longleftrightarrow> r \<in> set rs \<and> key r = k" by simp
  then show ?case using Cons.prems by (cases "key a = k") (auto simp: find_row_def rev_image_eqI)
qed (simp add: find_row_def)

lemma find_row_None: "find_row key rs k = None \<longleftrightarrow> k \<notin> key ` set rs"
  by (auto simp: find_row_def find_None_iff)

lemma find_row_eqI:
  assumes "\<And>r. find_row key rs k = Some r \<longleftrightarrow> x = Some r"
  shows "find_row key rs k = x"
  using assms by (metis not_Some_eq)

text \<open>The dictionary of the rows of a list: one row per key, the last one.\<close>

definition index_rows :: "('r \<Rightarrow> 'k) \<Rightarrow> 'r list \<Rightarrow> ('k \<times> 'r) list \<Rightarrow> ('k \<times> 'r) list" where
  "index_rows key rs d = fold (\<lambda>(k, v) d. AList.update k v d) (map (\<lambda>r. (key r, r)) rs) d"

lemma index_rows_simps [simp]:
  "index_rows key [] d = d" "index_rows key (r # rs) d = index_rows key rs (AList.update (key r) r d)"
  by (simp_all add: index_rows_def)

lemma last_by_key_index: "last_by_key key rs = map snd (index_rows key rs [])"
  by (simp add: last_by_key_def dict_of_def index_rows_def)

lemma index_rows_spec:
  assumes "distinct (map fst d)" "\<forall>(k, r) \<in> set d. k = key r"
  shows "distinct (map fst (index_rows key rs d)) \<and> (\<forall>(k, r) \<in> set (index_rows key rs d). k = key r) \<and>
    snd ` set (index_rows key rs d) \<subseteq> snd ` set d \<union> set rs \<and>
    fst ` set (index_rows key rs d) = fst ` set d \<union> key ` set rs"
  using assms
proof (induction rs arbitrary: d)
  case (Cons r rs)
  let ?d = "AList.update (key r) r d"
  have sub: "set ?d \<subseteq> insert (key r, r) (set d)" by (induction d) auto
  have ks: "fst ` set ?d = insert (key r) (fst ` set d)" by (simp add: dom_update)
  have "distinct (map fst ?d)" using Cons.prems(1) by (rule distinct_update)
  moreover have "\<forall>(k, r) \<in> set ?d. k = key r" using Cons.prems(2) sub by fastforce
  ultimately have ih: "distinct (map fst (index_rows key rs ?d)) \<and> (\<forall>(k, r) \<in> set (index_rows key rs ?d). k = key r) \<and>
      snd ` set (index_rows key rs ?d) \<subseteq> snd ` set ?d \<union> set rs \<and>
      fst ` set (index_rows key rs ?d) = fst ` set ?d \<union> key ` set rs"
    by (rule Cons.IH)
  have vals: "snd ` set ?d \<subseteq> insert r (snd ` set d)" using sub by force
  have "snd ` set (index_rows key rs ?d) \<subseteq> snd ` set ?d \<union> set rs" using ih by (simp only: simp_thms)
  then have "snd ` set (index_rows key rs ?d) \<subseteq> snd ` set d \<union> set (r # rs)"
    by (rule subset_trans) (use vals in auto)
  then show ?case using ih ks by auto
qed simp

lemma last_by_key_spec:
  "distinct (map key (last_by_key key rs))" "set (last_by_key key rs) \<subseteq> set rs" "key ` set (last_by_key key rs) = key ` set rs"
proof -
  define d where "d = index_rows key rs []"
  have d: "distinct (map fst d)" "\<forall>(k, r) \<in> set d. k = key r" "snd ` set d \<subseteq> set rs" "fst ` set d = key ` set rs"
    using index_rows_spec [of "[]" key rs] by (auto simp: d_def)
  have ks: "map key (map snd d) = map fst d" using d(2) by auto
  show "distinct (map key (last_by_key key rs))" using d(1) unfolding last_by_key_index d_def [symmetric] ks .
  show "set (last_by_key key rs) \<subseteq> set rs" using d(3) unfolding last_by_key_index d_def [symmetric] by simp
  show "key ` set (last_by_key key rs) = key ` set rs"
    using d(4) unfolding last_by_key_index d_def [symmetric] by (metis ks list.set_map)
qed

lemma update_new: "k \<notin> fst ` set d \<Longrightarrow> AList.update k v d = d @ [(k, v)]"
  by (induction d) auto

lemma last_by_key_distinct:
  assumes "distinct (map key rs)"
  shows "last_by_key key rs = rs"
proof -
  have "index_rows key rs d = d @ map (\<lambda>r. (key r, r)) rs"
    if "distinct (map key rs)" "key ` set rs \<inter> fst ` set d = {}" for d
    using that
  proof (induction rs arbitrary: d)
    case (Cons r rs)
    have u: "AList.update (key r) r d = d @ [(key r, r)]" by (rule update_new) (use Cons.prems(2) in auto)
    have "index_rows key rs (d @ [(key r, r)]) = (d @ [(key r, r)]) @ map (\<lambda>r. (key r, r)) rs"
      by (rule Cons.IH) (use Cons.prems in auto)
    then show ?case by (simp add: u)
  qed simp
  from this [of "[]"] show ?thesis using assms by (simp add: last_by_key_index comp_def)
qed

lemma map_of_index_rows: "map_of (index_rows key rs d) k =
    (case find (\<lambda>r. key r = k) (rev rs) of None \<Rightarrow> map_of d k | Some r \<Rightarrow> Some r)"
proof (induction rs arbitrary: d)
  case (Cons r rs)
  have "find P (xs @ ys) = (case find P xs of None \<Rightarrow> find P ys | Some x \<Rightarrow> Some x)" for P and xs ys :: "'a list"
    by (induction xs) auto
  then show ?case by (simp add: Cons.IH update_conv' split: option.splits)
qed simp

text \<open>What is found under a key is the last record with that key.\<close>

lemma find_last_by_key: "find_row key (last_by_key key rs) k = find_row key (rev rs) k"
proof (rule find_row_eqI)
  fix r
  let ?d = "index_rows key rs []"
  have d: "distinct (map fst ?d)" "\<forall>(k, r) \<in> set ?d. k = key r" using index_rows_spec [of "[]" key rs] by auto
  have "find_row key (last_by_key key rs) k = Some r \<longleftrightarrow> r \<in> snd ` set ?d \<and> key r = k"
    using find_row_Some [OF last_by_key_spec(1)] by (simp add: last_by_key_index)
  also have "\<dots> \<longleftrightarrow> (k, r) \<in> set ?d" using d(2) by force
  also have "\<dots> \<longleftrightarrow> map_of ?d k = Some r" using d(1) by simp
  also have "\<dots> \<longleftrightarrow> find_row key (rev rs) k = Some r"
    unfolding map_of_index_rows find_row_def by (auto split: option.splits)
  finally show "find_row key (last_by_key key rs) k = Some r \<longleftrightarrow> find_row key (rev rs) k = Some r" .
qed

section \<open>The contract\<close>

locale keyed_table =
  fixes key :: "'r \<Rightarrow> 'k" and ord :: "'r \<Rightarrow> 'o::linorder"
  assumes order_has_key: "ord r = ord r' \<Longrightarrow> key r = key r'"
begin

text \<open>Records in the order of their sort key, no identity twice.\<close>

lemma order_inj:
  assumes "distinct (map key rs)"
  shows "inj_on ord (set rs)"
proof (rule inj_onI)
  fix x y
  assume "x \<in> set rs" "y \<in> set rs" "ord x = ord y"
  then show "x = y" using assms order_has_key [of x y] by (simp add: distinct_map inj_on_def)
qed

lemma sort_unique:
  assumes "distinct (map key rs)" "distinct (map key rs')" "set rs = set rs'"
  shows "sorted_by ord rs = sorted_by ord rs'"
proof (rule sorted_by_mset_eq)
  show "mset rs = mset rs'" using assms by (metis distinct_map set_eq_iff_mset_eq_distinct)
  show "inj_on ord (set rs)" by (rule order_inj [OF assms(1)])
qed

lemma set_replace:
  "set (replace_rows key ord incoming existing) = {r \<in> set existing. key r \<notin> key ` set incoming} \<union> set incoming"
  by (auto simp: replace_rows_def)

lemma distinct_filter_append:
  assumes "distinct (map key incoming)" "distinct (map key existing)"
  shows "distinct (map key (filter (\<lambda>r. key r \<notin> set (map key incoming)) existing @ incoming))"
proof -
  have "distinct (map key (filter (\<lambda>r. key r \<notin> set (map key incoming)) existing))"
    using assms(2) by (rule distinct_map_filter)
  then show ?thesis using assms(1) by auto
qed

lemma replace_distinct:
  assumes "distinct (map key incoming)" "distinct (map key existing)"
  shows "distinct (map key (replace_rows key ord incoming existing))"
  using distinct_filter_append [OF assms] by (simp only: replace_rows_def distinct_map_sorted_by)

lemma replace_sorted: "sorted (map ord (replace_rows key ord incoming existing))"
  by (simp add: replace_rows_def sorted_sorted_by)

lemma sorted_replace [simp]: "sorted_by ord (replace_rows key ord incoming existing) = replace_rows key ord incoming existing"
  unfolding sorted_by_def by (rule sort_key_id_if_sorted) (rule replace_sorted)

lemma find_replace:
  assumes "distinct (map key incoming)" "distinct (map key existing)"
  shows "find_row key (replace_rows key ord incoming existing) k =
    (case find_row key incoming k of None \<Rightarrow> find_row key existing k | Some r \<Rightarrow> Some r)"
proof (rule find_row_eqI)
  fix r
  note f = find_row_Some [OF replace_distinct [OF assms]] find_row_Some [OF assms(1)] find_row_Some [OF assms(2)]
  show "find_row key (replace_rows key ord incoming existing) k = Some r \<longleftrightarrow>
      (case find_row key incoming k of None \<Rightarrow> find_row key existing k | Some r \<Rightarrow> Some r) = Some r"
  proof (cases "find_row key incoming k")
    case None
    then have "k \<notin> key ` set incoming" using find_row_None [of key incoming k] by blast
    then show ?thesis using None by (auto simp: f set_replace)
  next
    case (Some r')
    then have "r' \<in> set incoming" "key r' = k" by (simp_all add: f)
    moreover have "r \<in> set incoming \<Longrightarrow> key r = k \<Longrightarrow> r = r'" using Some f(2) [of k r] by simp
    ultimately show ?thesis using Some by (auto simp: f(1) set_replace)
  qed
qed

lemma replace_twice:
  assumes "distinct (map key incoming)" "distinct (map key existing)"
  shows "replace_rows key ord incoming (replace_rows key ord incoming existing) = replace_rows key ord incoming existing"
proof -
  note d = replace_distinct [OF assms]
  have "sorted_by ord (replace_rows key ord incoming (replace_rows key ord incoming existing)) =
      sorted_by ord (replace_rows key ord incoming existing)"
    by (rule sort_unique [OF replace_distinct [OF assms(1) d] d]) (auto simp: set_replace)
  then show ?thesis by simp
qed

text \<open>Batches with different keys commute: the file does not depend on who wrote first.\<close>

lemma replace_commute:
  assumes "distinct (map key a)" "distinct (map key b)" "distinct (map key existing)" "key ` set a \<inter> key ` set b = {}"
  shows "replace_rows key ord a (replace_rows key ord b existing) = replace_rows key ord b (replace_rows key ord a existing)"
proof -
  note d = replace_distinct [OF assms(1) replace_distinct [OF assms(2,3)]] replace_distinct [OF assms(2) replace_distinct [OF assms(1,3)]]
  have "r \<in> set a \<Longrightarrow> key r \<notin> key ` set b" "r \<in> set b \<Longrightarrow> key r \<notin> key ` set a" for r using assms(4) by auto
  then have "set (replace_rows key ord a (replace_rows key ord b existing)) = set (replace_rows key ord b (replace_rows key ord a existing))"
    by (auto simp only: set_replace)
  from sort_unique [OF d this] show ?thesis by simp
qed

end

end
