(* ===== verification/ArchiveStore.thy ===== *)
theory ArchiveStore
  imports ArchiveLayout Tables
begin

text \<open>
  \<open>archive/schemas.py\<close>, \<open>archive/manifest_store.py\<close> and \<open>archive/snapshots.py\<close>: the records of the local
  archive, the store of its three manifests and the deterministic snapshot.  A manifest is absent
  or the list of its records, which parquet gives back as they were written and which are
  validated again when they are read; their times are instants in UTC.  \<open>now\<close> is the reading of the
  clock, and the files of the archive are a parameter from resolved paths to their bytes.
\<close>

section \<open>Records\<close>

datatype layer = RAW | BRONZE | SILVER | GOLD

fun layer_value :: "layer \<Rightarrow> string" where
  "layer_value RAW = ''raw''"
| "layer_value BRONZE = ''bronze''"
| "layer_value SILVER = ''silver''"
| "layer_value GOLD = ''gold''"

record ingestion_run =
  ir_id :: string
  ir_job :: string
  ir_adapter :: string
  ir_venue :: string
  ir_datatype :: string
  ir_source :: string
  ir_symbols :: "string list"
  ir_start :: instant
  ir_end :: instant
  ir_ingested_at :: instant
  ir_status :: string
  ir_rows :: int
  ir_bytes :: int
  ir_schema :: string
  ir_error :: "string option"
  ir_retries :: int
  ir_gap_status :: string

definition validate_run :: "ingestion_run \<Rightarrow> ingestion_run result" where
  "validate_run r = validate_model
     [(ir_id r \<noteq> [], ''ingestion_run_id''), (ir_job r \<noteq> [], ''job_id''), (ir_adapter r \<noteq> [], ''adapter_id''),
      (ir_venue r \<noteq> [], ''venue''), (ir_datatype r \<noteq> [], ''datatype''),
      (ir_source r \<noteq> [], ''source_endpoint_or_subscription''), (0 \<le> ir_rows r, ''row_count''),
      (0 \<le> ir_bytes r, ''byte_count''), (0 \<le> ir_retries r, ''retry_count'')]
     [(ir_end r < ir_start r, ''end_ts must be >= start_ts'')] r"

record file_row =
  fm_id :: string
  fm_path :: string
  fm_layer :: layer
  fm_venue :: string
  fm_datatype :: string
  fm_instrument :: "string option"
  fm_timeframe :: "string option"
  fm_date :: "string option"
  fm_hour :: "int option"
  fm_sha256 :: string
  fm_size :: int
  fm_uncompressed :: "int option"
  fm_rows :: "int option"
  fm_schema :: string
  fm_sources :: "string list"
  fm_created_at :: instant
  fm_job :: string

definition opt_ge0 :: "int option \<Rightarrow> bool" where
  "opt_ge0 n = (case n of None \<Rightarrow> True | Some i \<Rightarrow> 0 \<le> i)"

definition validate_file_row :: "file_row \<Rightarrow> file_row result" where
  "validate_file_row r = validate_model
     [(length (fm_id r) = 64, ''file_id''), (fm_path r \<noteq> [], ''path''), (fm_venue r \<noteq> [], ''venue''),
      (fm_datatype r \<noteq> [], ''datatype''), (case fm_hour r of None \<Rightarrow> True | Some h \<Rightarrow> 0 \<le> h \<and> h \<le> 23, ''hour''),
      (length (fm_sha256 r) = 64, ''sha256''), (0 \<le> fm_size r, ''size_bytes''),
      (opt_ge0 (fm_uncompressed r), ''uncompressed_size_bytes''), (opt_ge0 (fm_rows r), ''row_count''),
      (fm_job r \<noteq> [], ''created_by_job_id'')] [] r"

record snapshot =
  sn_id :: string
  sn_created_at :: instant
  sn_layer :: layer
  sn_venue_scope :: string
  sn_start :: instant
  sn_end :: instant
  sn_file_hash :: string
  sn_coverage_hash :: string
  sn_quality_hash :: string
  sn_lockbox :: "string option"
  sn_notes :: "string option"
  sn_files :: "string list"

definition validate_snapshot :: "snapshot \<Rightarrow> snapshot result" where
  "validate_snapshot r = validate_model
     [(length (sn_id r) = 64, ''archive_snapshot_id''), (sn_venue_scope r \<noteq> [], ''venue_scope''),
      (length (sn_file_hash r) = 64, ''file_manifest_hash''), (length (sn_coverage_hash r) = 64, ''coverage_manifest_hash''),
      (length (sn_quality_hash r) = 64, ''quality_manifest_hash'')]
     [(sn_end r < sn_start r, ''end_ts must be >= start_ts'')] r"

record issue =
  is_code :: string
  is_path :: string
  is_message :: string

section \<open>The manifest store\<close>

record manifests =
  file_manifest :: "file_row list option"
  ingestion_runs :: "ingestion_run list option"
  archive_snapshots :: "snapshot list option"

definition read_models :: "('r \<Rightarrow> 'r result) \<Rightarrow> 'r list option \<Rightarrow> 'r list result" where
  "read_models validate table = (case table of None \<Rightarrow> Inr [] | Some rows \<Rightarrow> mapE validate rows)"

definition load_file_manifest :: "(manifests, file_row list) prog" where
  "load_file_manifest = bindS (getS file_manifest) (\<lambda>t. liftS (read_models validate_file_row t))"

definition load_ingestion_runs :: "(manifests, ingestion_run list) prog" where
  "load_ingestion_runs = bindS (getS ingestion_runs) (\<lambda>t. liftS (read_models validate_run t))"

definition load_archive_snapshots :: "(manifests, snapshot list) prog" where
  "load_archive_snapshots = bindS (getS archive_snapshots) (\<lambda>t. liftS (read_models validate_snapshot t))"

definition run_order :: "ingestion_run \<Rightarrow> string \<times> string \<times> instant \<times> instant \<times> string" where
  "run_order r = (ir_venue r, ir_datatype r, ir_start r, ir_end r, ir_id r)"

definition file_order :: "file_row \<Rightarrow> string \<times> string \<times> string" where
  "file_order r = (layer_value (fm_layer r), fm_path r, fm_id r)"

definition snapshot_order :: "snapshot \<Rightarrow> string \<times> string" where
  "snapshot_order r = (layer_value (sn_layer r), sn_id r)"

definition append_ingestion_runs :: "ingestion_run list \<Rightarrow> (manifests, unit) prog" where
  "append_ingestion_runs rs =
     (let incoming = last_by_key ir_id rs in
      if incoming = [] then retS ()
      else bindS load_ingestion_runs (\<lambda>existing.
        modifyS (\<lambda>m. m\<lparr>ingestion_runs := Some (replace_rows ir_id run_order incoming existing)\<rparr>)))"

definition append_ingestion_run :: "ingestion_run \<Rightarrow> (manifests, unit) prog" where
  "append_ingestion_run r = append_ingestion_runs [r]"

text \<open>Incoming rows overwrite the values of a dictionary of the existing ones.\<close>

definition upsert_file_manifests :: "file_row list \<Rightarrow> (manifests, unit) prog" where
  "upsert_file_manifests rs =
     (let incoming = last_by_key fm_id rs in
      if incoming = [] then retS ()
      else bindS load_file_manifest (\<lambda>existing.
        let by_file_id = index_rows fm_id incoming (index_rows fm_id existing []) in
        modifyS (\<lambda>m. m\<lparr>file_manifest := Some (sorted_by file_order (map snd by_file_id))\<rparr>)))"

definition upsert_file_manifest :: "file_row \<Rightarrow> (manifests, unit) prog" where
  "upsert_file_manifest r = upsert_file_manifests [r]"

definition append_archive_snapshot :: "snapshot \<Rightarrow> (manifests, unit) prog" where
  "append_archive_snapshot r =
     bindS load_archive_snapshots (\<lambda>existing.
       if list_ex (\<lambda>x. sn_id x = sn_id r) existing then retS ()
       else modifyS (\<lambda>m. m\<lparr>archive_snapshots := Some (sorted_by snapshot_order (existing @ [r]))\<rparr>))"

text \<open>The issues of one row: a missing file ends the checks of the row.\<close>

definition row_issues :: "(string list \<Rightarrow> string option) \<Rightarrow> string list \<Rightarrow> file_row \<Rightarrow> issue list result" where
  "row_issues disk base r = bindE (layout_resolve base [fm_path r]) (\<lambda>path.
     Inr (case disk path of
       None \<Rightarrow> [\<lparr>is_code = ''manifest_file_missing'', is_path = fm_path r,
          is_message = ''file_manifest row points to a missing file''\<rparr>]
     | Some bytes \<Rightarrow>
         (if int (length bytes) \<noteq> fm_size r
          then [\<lparr>is_code = ''manifest_size_mismatch'', is_path = fm_path r,
             is_message = ''file size does not match file_manifest''\<rparr>] else [])
         @ (if file_sha256 [bytes] \<noteq> fm_sha256 r
          then [\<lparr>is_code = ''manifest_sha256_mismatch'', is_path = fm_path r,
             is_message = ''file SHA-256 does not match file_manifest''\<rparr>] else [])))"

definition validate_files :: "(string list \<Rightarrow> string option) \<Rightarrow> string list \<Rightarrow> (manifests, issue list) prog" where
  "validate_files disk base = bindS load_file_manifest (\<lambda>rows.
     bindS (liftS (mapE (row_issues disk base) rows)) (\<lambda>iss. retS (concat iss)))"

section \<open>Snapshots\<close>

definition opt_int :: "int option \<Rightarrow> json" where
  "opt_int n = (case n of None \<Rightarrow> JNull | Some i \<Rightarrow> JInt i)"

text \<open>\<open>model_dump(mode="json", exclude={"created_at"})\<close>\<close>

definition manifest_dict :: "file_row \<Rightarrow> (string \<times> json) list" where
  "manifest_dict r = [(''file_id'', JStr (fm_id r)), (''path'', JStr (fm_path r)), (''layer'', JStr (layer_value (fm_layer r))),
     (''venue'', JStr (fm_venue r)), (''datatype'', JStr (fm_datatype r)), (''instrument_id'', opt_json (fm_instrument r)),
     (''timeframe'', opt_json (fm_timeframe r)), (''date'', opt_json (fm_date r)), (''hour'', opt_int (fm_hour r)),
     (''sha256'', JStr (fm_sha256 r)), (''size_bytes'', JInt (fm_size r)),
     (''uncompressed_size_bytes'', opt_int (fm_uncompressed r)), (''row_count'', opt_int (fm_rows r)),
     (''schema_version'', JStr (fm_schema r)), (''source_file_ids'', JList (map JStr (fm_sources r))),
     (''created_by_job_id'', JStr (fm_job r))]"

text \<open>\<open>isoformat()\<close> of a UTC datetime: the offset is written out.\<close>

definition isoformat_offset :: "instant \<Rightarrow> string" where
  "isoformat_offset t = butlast (iso_of_instant t) @ ''+00:00''"

definition create_archive_snapshot ::
  "layer \<Rightarrow> string \<Rightarrow> instant \<Rightarrow> instant \<Rightarrow> (string \<times> json) list list \<Rightarrow> (string \<times> json) list list \<Rightarrow>
    string option \<Rightarrow> string option \<Rightarrow> instant \<Rightarrow> (manifests, snapshot) prog" where
  "create_archive_snapshot layer venue_scope start_ts end_ts coverage_rows quality_rows lockbox notes now =
     bindS load_file_manifest (\<lambda>all_files.
     let files = filter (\<lambda>r. fm_layer r = layer) all_files in
     bindS (liftS (manifest_rows_hash (map manifest_dict files))) (\<lambda>fh.
     bindS (liftS (manifest_rows_hash coverage_rows)) (\<lambda>ch.
     bindS (liftS (manifest_rows_hash quality_rows)) (\<lambda>qh.
     bindS (liftS (canonical_json_hash (JObj [
        (''layer'', JStr (layer_value layer)), (''venue_scope'', JStr venue_scope),
        (''start_ts'', JStr (isoformat_offset start_ts)), (''end_ts'', JStr (isoformat_offset end_ts)),
        (''file_manifest_hash'', JStr fh), (''coverage_manifest_hash'', JStr ch), (''quality_manifest_hash'', JStr qh),
        (''lockbox_policy_id'', opt_json lockbox)]))) (\<lambda>sid.
     bindS (liftS (validate_snapshot \<lparr>sn_id = sid, sn_created_at = now, sn_layer = layer, sn_venue_scope = venue_scope,
        sn_start = start_ts, sn_end = end_ts, sn_file_hash = fh, sn_coverage_hash = ch, sn_quality_hash = qh,
        sn_lockbox = lockbox, sn_notes = notes, sn_files = sorted_by id (map fm_id files)\<rparr>)) (\<lambda>r.
     bindS (append_archive_snapshot r) (\<lambda>_. retS r)))))))"

section \<open>The manifests are keyed tables\<close>

interpretation run_table: keyed_table ir_id run_order
  by unfold_locales (simp add: run_order_def)

interpretation file_table: keyed_table fm_id file_order
  by unfold_locales (simp add: file_order_def)

interpretation snapshot_table: keyed_table sn_id snapshot_order
  by unfold_locales (simp add: snapshot_order_def)

end
