(* ===== verification/ArchiveProps.thy ===== *)
theory ArchiveProps
  imports ArchiveStore
begin

text \<open>
  Correctness of the archive manifests: the invariant of the three tables, what an upsert does to a
  lookup, that repeated writes change nothing, that snapshots are deterministic, and that the file
  validation accepts exactly the archives that agree with their manifest.
\<close>

section \<open>The invariant\<close>

definition rows_of :: "'r list option \<Rightarrow> 'r list" where
  "rows_of t = (case t of None \<Rightarrow> [] | Some rs \<Rightarrow> rs)"

definition table_ok :: "('r \<Rightarrow> 'r result) \<Rightarrow> ('r \<Rightarrow> 'k) \<Rightarrow> 'r list option \<Rightarrow> bool" where
  "table_ok validate key t \<longleftrightarrow> distinct (map key (rows_of t)) \<and> list_all (\<lambda>r. validate r = Inr r) (rows_of t)"

definition manifests_ok :: "manifests \<Rightarrow> bool" where
  "manifests_ok m \<longleftrightarrow> table_ok validate_file_row fm_id (file_manifest m) \<and>
     table_ok validate_run ir_id (ingestion_runs m) \<and> table_ok validate_snapshot sn_id (archive_snapshots m)"

lemma rows_of_simps [simp]: "rows_of None = []" "rows_of (Some rs) = rs"
  by (simp_all add: rows_of_def)

lemma read_models_ok: "table_ok validate key t \<Longrightarrow> read_models validate t = Inr (rows_of t)"
  using mapE_all [of "rows_of t" validate id] by (cases t) (auto simp: table_ok_def read_models_def list_all_iff)

lemma validators_id:
  "validate_file_row r = Inr r' \<Longrightarrow> r' = r" "validate_run u = Inr u' \<Longrightarrow> u' = u" "validate_snapshot s = Inr s' \<Longrightarrow> s' = s"
  by (simp_all add: validate_file_row_def validate_run_def validate_snapshot_def validate_model_Inr_iff)

lemma load_ok:
  assumes "manifests_ok m"
  shows "load_file_manifest m = (Inr (rows_of (file_manifest m)), m)"
    "load_ingestion_runs m = (Inr (rows_of (ingestion_runs m)), m)"
    "load_archive_snapshots m = (Inr (rows_of (archive_snapshots m)), m)"
  using assms unfolding manifests_ok_def
  by (auto simp: load_file_manifest_def load_ingestion_runs_def load_archive_snapshots_def read_models_ok bindS_def)

text \<open>The upsert through a dictionary is the replacement of rows.\<close>

lemma upsert_is_replace:
  assumes "distinct (map fm_id existing)" "distinct (map fm_id incoming)"
  shows "sorted_by file_order (map snd (index_rows fm_id incoming (index_rows fm_id existing []))) =
    replace_rows fm_id file_order incoming existing"
proof -
  let ?d = "index_rows fm_id incoming (index_rows fm_id existing [])"
  have e: "distinct (map fst (index_rows fm_id existing []))" "\<forall>(k, r) \<in> set (index_rows fm_id existing []). k = fm_id r"
    using index_rows_spec [of "[]" fm_id existing] by auto
  have d: "distinct (map fst ?d)" "\<forall>(k, r) \<in> set ?d. k = fm_id r" using index_rows_spec [OF e, of incoming] by auto
  have ks: "map fm_id (map snd ?d) = map fst ?d" using d(2) by auto
  have dd: "distinct (map fm_id (map snd ?d))" using d(1) unfolding ks .
  note rd = file_table.replace_distinct [OF assms(2,1)]
  have look: "find_row fm_id (map snd ?d) k = find_row fm_id (replace_rows fm_id file_order incoming existing) k" for k
  proof (rule find_row_eqI)
    fix r
    have "find_row fm_id (map snd ?d) k = Some r \<longleftrightarrow> r \<in> snd ` set ?d \<and> fm_id r = k" using find_row_Some [OF dd] by simp
    also have "\<dots> \<longleftrightarrow> (k, r) \<in> set ?d" using d(2) by force
    also have "\<dots> \<longleftrightarrow> map_of ?d k = Some r" using d(1) by simp
    also have "map_of ?d k = (case find_row fm_id incoming k of None \<Rightarrow> find_row fm_id existing k | Some r \<Rightarrow> Some r)"
      using find_last_by_key [of fm_id incoming k] find_last_by_key [of fm_id existing k] assms
      by (simp add: map_of_index_rows find_row_def last_by_key_distinct split: option.splits)
    finally show "find_row fm_id (map snd ?d) k = Some r \<longleftrightarrow>
        find_row fm_id (replace_rows fm_id file_order incoming existing) k = Some r"
      unfolding file_table.find_replace [OF assms(2,1)] .
  qed
  have "set (map snd ?d) = set (replace_rows fm_id file_order incoming existing)"
    using look find_row_Some [OF dd] find_row_Some [OF rd] by (metis subsetI subset_antisym)
  from file_table.sort_unique [OF dd rd this] show ?thesis by simp
qed

lemma upsert_step:
  assumes "manifests_ok m" and "rs \<noteq> []"
  shows "upsert_file_manifests rs m = (Inr (), m\<lparr>file_manifest :=
    Some (replace_rows fm_id file_order (last_by_key fm_id rs) (rows_of (file_manifest m)))\<rparr>)"
proof -
  have ne: "last_by_key fm_id rs \<noteq> []" using last_by_key_spec(3) [of fm_id rs] assms(2) by auto
  have di: "distinct (map fm_id (rows_of (file_manifest m)))" using assms(1) by (simp add: manifests_ok_def table_ok_def)
  show ?thesis using ne load_ok(1) [OF assms(1)] upsert_is_replace [OF di last_by_key_spec(1)]
    by (simp add: upsert_file_manifests_def Let_def bindS_def)
qed

lemma replace_table_ok:
  assumes "keyed_table key ord" "table_ok validate key t" "list_all (\<lambda>r. validate r = Inr r) rs"
  shows "table_ok validate key (Some (replace_rows key ord (last_by_key key rs) (rows_of t)))"
proof -
  have di: "distinct (map key (rows_of t))" using assms(2) by (simp add: table_ok_def)
  have sub: "set (last_by_key key rs) \<subseteq> set rs" by (rule last_by_key_spec(2))
  show ?thesis using keyed_table.replace_distinct [OF assms(1) last_by_key_spec(1) di]
      assms(2,3) sub keyed_table.set_replace [OF assms(1)]
    by (auto simp: table_ok_def list_all_iff)
qed

lemmas keyed_tables = run_table.keyed_table_axioms file_table.keyed_table_axioms snapshot_table.keyed_table_axioms

section \<open>Writing manifests\<close>

text \<open>
  C24: an upsert of valid rows always returns and keeps the store in order.  Afterwards a file
  identity is found with the last incoming row that has it, and with the row it had before when
  none has; the manifest is sorted; and doing the same upsert again changes nothing.
\<close>

theorem upsert_updates_lookup:
  assumes "manifests_ok m" and "list_all (\<lambda>r. validate_file_row r = Inr r) rs"
  shows "\<exists>m'. upsert_file_manifests rs m = (Inr (), m') \<and> manifests_ok m' \<and>
    (\<forall>k. find_row fm_id (rows_of (file_manifest m')) k =
      (case find_row fm_id (rev rs) k of None \<Rightarrow> find_row fm_id (rows_of (file_manifest m)) k | Some r \<Rightarrow> Some r)) \<and>
    (rs \<noteq> [] \<longrightarrow> sorted (map file_order (rows_of (file_manifest m')))) \<and> upsert_file_manifests rs m' = (Inr (), m')"
proof (cases "rs = []")
  case True
  then show ?thesis using assms(1) by (simp add: upsert_file_manifests_def last_by_key_index find_row_def)
next
  case False
  define t where "t = replace_rows fm_id file_order (last_by_key fm_id rs) (rows_of (file_manifest m))"
  define m' where "m' = m\<lparr>file_manifest := Some t\<rparr>"
  have di: "distinct (map fm_id (rows_of (file_manifest m)))" using assms(1) by (simp add: manifests_ok_def table_ok_def)
  have step: "upsert_file_manifests rs m = (Inr (), m')" unfolding m'_def t_def by (rule upsert_step [OF assms(1) False])
  have ok: "manifests_ok m'" using assms replace_table_ok [OF keyed_tables(2) _ assms(2)]
    by (simp add: manifests_ok_def m'_def t_def)
  have "upsert_file_manifests rs m' = (Inr (), m')"
    using upsert_step [OF ok False] file_table.replace_twice [OF last_by_key_spec(1) di] by (simp add: m'_def t_def)
  moreover have "find_row fm_id (rows_of (file_manifest m')) k =
      (case find_row fm_id (rev rs) k of None \<Rightarrow> find_row fm_id (rows_of (file_manifest m)) k | Some r \<Rightarrow> Some r)" for k
    using file_table.find_replace [OF last_by_key_spec(1) di] by (simp add: m'_def t_def find_last_by_key)
  moreover have "sorted (map file_order (rows_of (file_manifest m')))"
    by (simp add: m'_def t_def file_table.replace_sorted)
  ultimately show ?thesis using step ok by blast
qed

definition demo_file :: file_row where
  "demo_file = \<lparr>fm_id = replicate 64 CHR ''a'', fm_path = ''raw/x.jsonl.zst'', fm_layer = RAW, fm_venue = ''hyperliquid'',
     fm_datatype = ''candles'', fm_instrument = None, fm_timeframe = None, fm_date = None, fm_hour = Some 7,
     fm_sha256 = replicate 64 CHR ''b'', fm_size = 3, fm_uncompressed = None, fm_rows = None, fm_schema = V2_SCHEMA_VERSION,
     fm_sources = [], fm_created_at = 0, fm_job = ''job''\<rparr>"

definition no_manifests :: manifests where
  "no_manifests = \<lparr>file_manifest = None, ingestion_runs = None, archive_snapshots = None\<rparr>"

lemma demo_manifests: "manifests_ok no_manifests" "list_all (\<lambda>r. validate_file_row r = Inr r) [demo_file]"
  "manifests_ok (no_manifests\<lparr>file_manifest := Some [demo_file]\<rparr>)"
  by (simp_all add: manifests_ok_def table_ok_def no_manifests_def demo_file_def validate_file_row_def validate_model_def opt_ge0_def)

lemma upsert_updates_lookup_witness:
  "\<exists>m'. upsert_file_manifests [demo_file] no_manifests = (Inr (), m') \<and> manifests_ok m'"
  using upsert_updates_lookup [OF demo_manifests(1,2)] by blast

text \<open>
  The ingestion log does not depend on who appends first: two batches of runs with different
  identities, appended in either order, leave the same file, and a batch appended twice counts once.
\<close>

theorem ingestion_runs_commute:
  assumes "manifests_ok m" and "list_all (\<lambda>r. validate_run r = Inr r) (as @ bs)" and "ir_id ` set as \<inter> ir_id ` set bs = {}"
  shows "\<exists>m1 m2 m'. append_ingestion_runs as m = (Inr (), m1) \<and> append_ingestion_runs bs m1 = (Inr (), m') \<and>
    append_ingestion_runs bs m = (Inr (), m2) \<and> append_ingestion_runs as m2 = (Inr (), m') \<and>
    manifests_ok m' \<and> append_ingestion_runs as m1 = (Inr (), m1)"
proof -
  define w where "w xs n = (if xs = [] then n else n\<lparr>ingestion_runs :=
      Some (replace_rows ir_id run_order (last_by_key ir_id xs) (rows_of (ingestion_runs n)))\<rparr>)" for xs and n :: manifests
  have step: "append_ingestion_runs xs n = (Inr (), w xs n)" if "manifests_ok n" for xs n
  proof (cases "xs = []")
    case False
    then have "last_by_key ir_id xs \<noteq> []" using last_by_key_spec(3) [of ir_id xs] by auto
    then show ?thesis using False load_ok(2) [OF that] by (simp add: append_ingestion_runs_def Let_def bindS_def w_def)
  qed (simp add: append_ingestion_runs_def last_by_key_index w_def)
  have ok: "manifests_ok (w xs n)" if "manifests_ok n" "list_all (\<lambda>r. validate_run r = Inr r) xs" for xs n
    using that replace_table_ok [OF keyed_tables(1) _ that(2)] by (simp add: manifests_ok_def w_def)
  have di: "distinct (map ir_id (rows_of (ingestion_runs n)))" if "manifests_ok n" for n
    using that by (simp add: manifests_ok_def table_ok_def)
  have v: "list_all (\<lambda>r. validate_run r = Inr r) as" "list_all (\<lambda>r. validate_run r = Inr r) bs" using assms(2) by simp_all
  have ks: "ir_id ` set (last_by_key ir_id as) \<inter> ir_id ` set (last_by_key ir_id bs) = {}"
    using assms(3) by (simp add: last_by_key_spec(3))
  have "w as (w as m) = w as m"
    using run_table.replace_twice [OF last_by_key_spec(1) di [OF assms(1)]] by (simp add: w_def)
  moreover have "w bs (w as m) = w as (w bs m)"
    using run_table.replace_commute [OF last_by_key_spec(1) last_by_key_spec(1) di [OF assms(1)] ks] by (simp add: w_def)
  ultimately show ?thesis using step [OF assms(1)] step [OF ok [OF assms(1) v(1)]] step [OF ok [OF assms(1) v(2)]]
      ok [OF ok [OF assms(1) v(1)] v(2)] by metis
qed

definition demo_run :: "string \<Rightarrow> ingestion_run" where
  "demo_run i = \<lparr>ir_id = i, ir_job = ''job'', ir_adapter = ''candles'', ir_venue = ''hyperliquid'', ir_datatype = ''candles'',
     ir_source = ''info'', ir_symbols = [''BTC''], ir_start = 0, ir_end = 1, ir_ingested_at = 2, ir_status = ''success'',
     ir_rows = 1, ir_bytes = 1, ir_schema = V2_SCHEMA_VERSION, ir_error = None, ir_retries = 0, ir_gap_status = ''none''\<rparr>"

lemma ingestion_runs_commute_witness:
  "\<exists>m1 m'. append_ingestion_runs [demo_run ''b''] no_manifests = (Inr (), m1) \<and>
    append_ingestion_runs [demo_run ''a''] m1 = (Inr (), m') \<and> manifests_ok m'"
proof -
  have "list_all (\<lambda>r. validate_run r = Inr r) ([demo_run ''b''] @ [demo_run ''a''])"
    "ir_id ` set [demo_run ''b''] \<inter> ir_id ` set [demo_run ''a''] = {}"
    by (simp_all add: demo_run_def validate_run_def validate_model_def)
  from ingestion_runs_commute [OF demo_manifests(1) this] show ?thesis by blast
qed

section \<open>Snapshots and file validation\<close>

text \<open>
  A snapshot is deterministic: over the same files, the same window and the same reports a
  second snapshot has the identity of the first, whatever its notes and the time of its creation,
  and the store keeps the first record only.
\<close>

theorem snapshot_is_deterministic:
  assumes "manifests_ok m"
    and "create_archive_snapshot layer venue st en cov qual lockbox notes now m = (Inr r, m1)"
  shows "manifests_ok m1 \<and> (\<exists>r'. create_archive_snapshot layer venue st en cov qual lockbox notes' now' m1 = (Inr r', m1) \<and>
    sn_id r' = sn_id r \<and> sn_files r' = sn_files r)"
proof -
  obtain fh ch qh sid where h: "manifest_rows_hash (map manifest_dict (filter (\<lambda>r. fm_layer r = layer) (rows_of (file_manifest m)))) = Inr fh"
    "manifest_rows_hash cov = Inr ch" "manifest_rows_hash qual = Inr qh"
    "canonical_json_hash (JObj [
        (''layer'', JStr (layer_value layer)), (''venue_scope'', JStr venue),
        (''start_ts'', JStr (isoformat_offset st)), (''end_ts'', JStr (isoformat_offset en)),
        (''file_manifest_hash'', JStr fh), (''coverage_manifest_hash'', JStr ch), (''quality_manifest_hash'', JStr qh),
        (''lockbox_policy_id'', opt_json lockbox)]) = Inr sid"
    and v0: "validate_snapshot \<lparr>sn_id = sid, sn_created_at = now, sn_layer = layer, sn_venue_scope = venue,
        sn_start = st, sn_end = en, sn_file_hash = fh, sn_coverage_hash = ch, sn_quality_hash = qh,
        sn_lockbox = lockbox, sn_notes = notes,
        sn_files = sorted_by id (map fm_id (filter (\<lambda>r. fm_layer r = layer) (rows_of (file_manifest m))))\<rparr> = Inr r"
    and app: "append_archive_snapshot r m = (Inr (), m1)"
    using assms(2) load_ok(1) [OF assms(1)]
    by (auto simp: create_archive_snapshot_def Let_def bindS_Inr_iff)
  have r: "r = \<lparr>sn_id = sid, sn_created_at = now, sn_layer = layer, sn_venue_scope = venue,
        sn_start = st, sn_end = en, sn_file_hash = fh, sn_coverage_hash = ch, sn_quality_hash = qh,
        sn_lockbox = lockbox, sn_notes = notes,
        sn_files = sorted_by id (map fm_id (filter (\<lambda>r. fm_layer r = layer) (rows_of (file_manifest m))))\<rparr>" by (rule validators_id(3) [OF v0])
  have v: "validate_snapshot r = Inr r" using v0 unfolding r [symmetric] .
  have m1: "m1 = (if list_ex (\<lambda>x. sn_id x = sn_id r) (rows_of (archive_snapshots m)) then m
      else m\<lparr>archive_snapshots := Some (sorted_by snapshot_order (rows_of (archive_snapshots m) @ [r]))\<rparr>)"
    using app load_ok(3) [OF assms(1)] by (auto simp: append_archive_snapshot_def bindS_Inr_iff split: if_splits)
  have ok: "manifests_ok m1" using assms(1) v
    by (auto simp: m1 manifests_ok_def table_ok_def list_all_iff list_ex_iff)
  have fm: "file_manifest m1 = file_manifest m" by (simp add: m1)
  have known: "list_ex (\<lambda>x. sn_id x = sid) (rows_of (archive_snapshots m1))"
    using r by (auto simp: m1 list_ex_iff)
  let ?r = "r\<lparr>sn_created_at := now', sn_notes := notes'\<rparr>"
  have v': "validate_snapshot ?r = Inr ?r" using v by (simp add: validate_snapshot_def validate_model_Inr_iff)
  have "append_archive_snapshot ?r m1 = (Inr (), m1)"
    using load_ok(3) [OF ok] known by (simp add: append_archive_snapshot_def bindS_def r)
  then have "create_archive_snapshot layer venue st en cov qual lockbox notes' now' m1 = (Inr ?r, m1)"
    using load_ok(1) [OF ok] h v' by (simp add: create_archive_snapshot_def Let_def bindS_def fm r)
  then show ?thesis using ok by (intro conjI exI [of _ ?r]) simp_all
qed

definition file_agrees :: "(string list \<Rightarrow> string option) \<Rightarrow> string list \<Rightarrow> file_row \<Rightarrow> bool" where
  "file_agrees disk base r \<longleftrightarrow> (\<exists>p bytes. layout_resolve base [fm_path r] = Inr p \<and> disk p = Some bytes \<and>
     int (length bytes) = fm_size r \<and> sha256_hexdigest bytes = fm_sha256 r)"

lemma row_issues_agree:
  "layout_resolve base [fm_path r] = Inr p \<Longrightarrow> \<exists>found. row_issues disk base r = Inr found \<and> (found = [] \<longleftrightarrow> file_agrees disk base r)"
  by (cases "disk p") (simp_all add: row_issues_def file_sha256_def file_agrees_def)

text \<open>
  The validation of the archive reports no issue exactly when every file of the manifest is
  there with the recorded size and digest.
\<close>

theorem validate_files_exact:
  assumes "manifests_ok m"
    and "\<forall>r \<in> set (rows_of (file_manifest m)). \<exists>p. layout_resolve base [fm_path r] = Inr p"
  shows "\<exists>iss. validate_files disk base m = (Inr iss, m) \<and>
    (iss = [] \<longleftrightarrow> (\<forall>r \<in> set (rows_of (file_manifest m)). file_agrees disk base r))"
proof -
  define rows where "rows = rows_of (file_manifest m)"
  have "\<exists>iss. mapE (row_issues disk base) rs = Inr iss \<and> (concat iss = [] \<longleftrightarrow> (\<forall>r \<in> set rs. file_agrees disk base r))"
    if "\<forall>r \<in> set rs. \<exists>p. layout_resolve base [fm_path r] = Inr p" for rs
    using that
  proof (induction rs)
    case (Cons r rs)
    then obtain found iss where "row_issues disk base r = Inr found" "found = [] \<longleftrightarrow> file_agrees disk base r"
      "mapE (row_issues disk base) rs = Inr iss" "concat iss = [] \<longleftrightarrow> (\<forall>r \<in> set rs. file_agrees disk base r)"
      using row_issues_agree [of base r _ disk] by (metis list.set_intros)
    then show ?case by (intro exI [of _ "found # iss"]) simp
  qed simp
  from this [of rows] show ?thesis using load_ok(1) [OF assms(1)] assms(2)
    by (auto simp: validate_files_def bindS_def rows_def)
qed

lemma snapshot_is_deterministic_witness:
  "\<exists>r m1. create_archive_snapshot RAW ''hyperliquid'' 0 1 [] [] None None 5 no_manifests = (Inr r, m1) \<and> manifests_ok m1"
proof -
  have e: "\<exists>h. manifest_rows_hash [] = Inr h \<and> length h = 64" by (simp add: manifest_rows_hash_def)
  have c: "\<exists>h. canonical_json_hash (JObj [
        (''layer'', JStr a), (''venue_scope'', JStr b), (''start_ts'', JStr c), (''end_ts'', JStr d),
        (''file_manifest_hash'', JStr e), (''coverage_manifest_hash'', JStr f), (''quality_manifest_hash'', JStr g),
        (''lockbox_policy_id'', JNull)]) = Inr h \<and> length h = 64" for a b c d e f g
    by (rule canonical_json_hash_finite) simp
  obtain r m1 where r: "create_archive_snapshot RAW ''hyperliquid'' 0 1 [] [] None None 5 no_manifests = (Inr r, m1)"
  proof -
    obtain h where h: "manifest_rows_hash [] = Inr h" "length h = 64" using e by blast
    obtain s where s: "canonical_json_hash (JObj [
        (''layer'', JStr ''raw''), (''venue_scope'', JStr ''hyperliquid''), (''start_ts'', JStr (isoformat_offset 0)),
        (''end_ts'', JStr (isoformat_offset 1)),
        (''file_manifest_hash'', JStr h), (''coverage_manifest_hash'', JStr h), (''quality_manifest_hash'', JStr h),
        (''lockbox_policy_id'', JNull)]) = Inr s" "length s = 64" using c by blast
    show thesis
      by (rule that) (use h s in \<open>simp add: create_archive_snapshot_def append_archive_snapshot_def load_file_manifest_def
        load_archive_snapshots_def read_models_def no_manifests_def bindS_def opt_json_def validate_snapshot_def validate_model_def\<close>)
  qed
  then show ?thesis using snapshot_is_deterministic [OF demo_manifests(1) r] by blast
qed

lemma validate_files_exact_witness:
  "\<exists>iss. validate_files (\<lambda>_. None) [''data''] (no_manifests\<lparr>file_manifest := Some [demo_file]\<rparr>)
      = (Inr iss, no_manifests\<lparr>file_manifest := Some [demo_file]\<rparr>) \<and> iss \<noteq> []"
proof -
  have "\<forall>r \<in> set (rows_of (file_manifest (no_manifests\<lparr>file_manifest := Some [demo_file]\<rparr>))). \<exists>p. layout_resolve [''data''] [fm_path r] = Inr p"
    by (simp add: demo_file_def layout_resolve_def resolve_within_root_def path_of_def parse_path_def is_prefix_of_def)
  from validate_files_exact [OF demo_manifests(3) this, of "\<lambda>_. None"] show ?thesis by (auto simp: file_agrees_def)
qed

end
