(* ===== verification/CoverageStore.thy ===== *)
theory CoverageStore
  imports CoverageProps ArchiveProps
begin

text \<open>
  \<open>data_quality/reports.py\<close>: the store of coverage reports and quality checks, two more keyed tables,
  and the query by series and date.  The argument \<open>window_date\<close> is a date already; its text form
  goes through \<open>date.fromisoformat\<close> first.
\<close>

section \<open>The store\<close>

record coverage_manifests =
  coverage_reports :: "coverage_report list option"
  quality_checks :: "quality_check list option"

type_synonym report_key = "string \<times> string \<times> string \<times> string \<times> instant \<times> instant \<times> string"

definition report_order :: "coverage_report \<Rightarrow> report_key" where
  "report_order r = (cr_venue r, cr_instrument r, cr_family r, cr_timeframe r, cr_start r, cr_end r, cr_id r)"

definition check_order :: "quality_check \<Rightarrow> string \<times> string \<times> string \<times> string \<times> string \<times> instant \<times> string" where
  "check_order c = (qc_venue c, qc_instrument c, qc_family c, qc_timeframe c, qc_type c, qc_start c, qc_id c)"

definition load_coverage_reports :: "(coverage_manifests, coverage_report list) prog" where
  "load_coverage_reports = bindS (getS coverage_reports) (\<lambda>t. liftS (read_models validate_coverage t))"

definition load_quality_checks :: "(coverage_manifests, quality_check list) prog" where
  "load_quality_checks = bindS (getS quality_checks) (\<lambda>t. liftS (read_models validate_check t))"

definition append_coverage_reports :: "coverage_report list \<Rightarrow> (coverage_manifests, unit) prog" where
  "append_coverage_reports rs =
     (let incoming = last_by_key cr_id rs in
      if incoming = [] then retS ()
      else bindS load_coverage_reports (\<lambda>existing.
        modifyS (\<lambda>m. m\<lparr>coverage_reports := Some (replace_rows cr_id report_order incoming existing)\<rparr>)))"

definition append_coverage_report :: "coverage_report \<Rightarrow> (coverage_manifests, unit) prog" where
  "append_coverage_report r = append_coverage_reports [r]"

text \<open>Unlike reports, incoming checks are not reduced to one per identity.\<close>

definition append_quality_checks :: "quality_check list \<Rightarrow> (coverage_manifests, unit) prog" where
  "append_quality_checks incoming =
     (if incoming = [] then retS ()
      else bindS load_quality_checks (\<lambda>existing.
        modifyS (\<lambda>m. m\<lparr>quality_checks := Some (replace_rows qc_id check_order incoming existing)\<rparr>)))"

definition last_included_date :: "coverage_report \<Rightarrow> pydate result" where
  "last_included_date r = bindE (add_us (cr_end r) (- 1)) (\<lambda>t. Inr (date_of t))"

definition matches :: "string option \<Rightarrow> string \<Rightarrow> bool" where
  "matches wanted x \<longleftrightarrow> (case wanted of None \<Rightarrow> True | Some v \<Rightarrow> x = v)"

text \<open>One round of the query's loop: whether the report is kept.\<close>

definition report_matches ::
  "string option \<Rightarrow> string option \<Rightarrow> string option \<Rightarrow> string option \<Rightarrow> pydate option \<Rightarrow> coverage_report \<Rightarrow> bool result" where
  "report_matches venue inst family tf window r =
     (if \<not> (matches venue (cr_venue r) \<and> matches inst (cr_instrument r) \<and> matches family (cr_family r) \<and>
         matches tf (cr_timeframe r)) then Inr False
      else bindE (last_included_date r) (\<lambda>last.
        Inr (case window of None \<Rightarrow> True | Some d \<Rightarrow> date_of (cr_start r) \<le> d \<and> d \<le> last)))"

fun filterE :: "('a \<Rightarrow> bool result) \<Rightarrow> 'a list \<Rightarrow> 'a list result" where
  "filterE p [] = Inr []"
| "filterE p (x # xs) = bindE (p x) (\<lambda>b. bindE (filterE p xs) (\<lambda>ys. Inr (if b then x # ys else ys)))"

definition query_coverage_reports ::
  "string option \<Rightarrow> string option \<Rightarrow> string option \<Rightarrow> string option \<Rightarrow> pydate option
    \<Rightarrow> (coverage_manifests, coverage_report list) prog" where
  "query_coverage_reports venue inst family tf window =
     bindS load_coverage_reports (\<lambda>rs. liftS (filterE (report_matches venue inst family tf window) rs))"

definition write_coverage_manifest :: "coverage_report list \<Rightarrow> (coverage_manifests, coverage_report list) prog" where
  "write_coverage_manifest rs = bindS (append_coverage_reports rs) (\<lambda>_. retS rs)"

interpretation report_table: keyed_table cr_id report_order
  by unfold_locales (simp add: report_order_def)

interpretation check_table: keyed_table qc_id check_order
  by unfold_locales (simp add: check_order_def)

section \<open>Queries\<close>

definition reports_ok :: "coverage_manifests \<Rightarrow> bool" where
  "reports_ok m \<longleftrightarrow> table_ok validate_coverage cr_id (coverage_reports m) \<and>
     list_all (\<lambda>r. valid_instant (cr_start r) \<and> valid_instant (cr_end r)) (rows_of (coverage_reports m))"

lemma load_reports_ok:
  assumes "reports_ok m"
  shows "load_coverage_reports m = (Inr (rows_of (coverage_reports m)), m)"
proof -
  have "table_ok validate_coverage cr_id (coverage_reports m)" using assms by (simp add: reports_ok_def)
  from read_models_ok [OF this] show ?thesis by (simp add: load_coverage_reports_def bindS_def)
qed

lemma filterE_total:
  "\<forall>x \<in> set xs. p x = Inr (q x) \<Longrightarrow> filterE p xs = Inr (filter q xs)"
  by (induction xs) auto

text \<open>The window of a report and a day share an instant.\<close>

definition covers_date :: "coverage_report \<Rightarrow> pydate \<Rightarrow> bool" where
  "covers_date r d \<longleftrightarrow> (\<exists>t. cr_start r \<le> t \<and> t < cr_end r \<and> date_of t = d)"

lemma date_of_mono:
  assumes "valid_instant s" "valid_instant t" "s \<le> t"
  shows "date_of s \<le> date_of t"
proof (rule ccontr)
  assume "\<not> date_of s \<le> date_of t"
  then have "t < midnight (date_of s)" using date_of_less_iff [OF assms(2) date_of_valid(1) [OF assms(1)]] by (simp only: linorder_not_le)
  then show False using date_of_valid(2) [OF assms(1)] assms(3) by simp
qed

lemma covers_date_iff:
  assumes v: "valid_instant (cr_start r)" "valid_instant (cr_end r)" and w: "cr_start r < cr_end r" and d: "valid_date d"
  shows "last_included_date r = Inr (date_of (cr_end r - 1)) \<and>
    (date_of (cr_start r) \<le> d \<and> d \<le> date_of (cr_end r - 1) \<longleftrightarrow> covers_date r d)"
proof -
  let ?s = "cr_start r" and ?l = "cr_end r - 1"
  have vl: "valid_instant ?l" using v w by (simp add: valid_instant_def)
  have last: "last_included_date r = Inr (date_of ?l)" using vl by (simp add: last_included_date_def add_us_def)
  have "covers_date r d" if "date_of ?s \<le> d" "d \<le> date_of ?l"
  proof (cases "?s < midnight d")
    case True
    have "midnight d \<le> midnight (date_of ?l)" using midnight_le_iff [OF d date_of_valid(1) [OF vl]] that(2) by simp
    then have "midnight d < cr_end r" using date_of_valid(2) [OF vl] by simp
    then show ?thesis using True date_of_midnight [OF d] by (auto simp: covers_date_def intro!: exI [of _ "midnight d"])
  next
    case False
    then have "d \<le> date_of ?s" using date_of_less_iff [OF v(1) d] by (simp add: not_less)
    then show ?thesis using that(1) w by (auto simp: covers_date_def intro!: exI [of _ ?s])
  qed
  moreover have "date_of ?s \<le> d \<and> d \<le> date_of ?l" if cov: "covers_date r d"
  proof -
    obtain t where t: "?s \<le> t" "t < cr_end r" "date_of t = d" using cov by (auto simp: covers_date_def)
    then have "valid_instant t" using v by (simp add: valid_instant_def)
    then show ?thesis using t date_of_mono [OF v(1) _ t(1)] date_of_mono [OF _ vl, of t] by auto
  qed
  ultimately show ?thesis using last by blast
qed

text \<open>
  The query returns, in the order of the file, exactly the stored reports of the wanted series
  whose half-open window contains an instant of the wanted day: taking one microsecond off the end
  decides the last day right also when the window ends at midnight.
\<close>

theorem query_by_date_exact:
  assumes "reports_ok m" and "valid_date d"
  shows "query_coverage_reports venue inst family tf (Some d) m =
    (Inr (filter (\<lambda>r. matches venue (cr_venue r) \<and> matches inst (cr_instrument r) \<and> matches family (cr_family r) \<and>
       matches tf (cr_timeframe r) \<and> covers_date r d) (rows_of (coverage_reports m))), m)"
proof -
  have "\<forall>r \<in> set (rows_of (coverage_reports m)). report_matches venue inst family tf (Some d) r =
    Inr (matches venue (cr_venue r) \<and> matches inst (cr_instrument r) \<and> matches family (cr_family r) \<and>
       matches tf (cr_timeframe r) \<and> covers_date r d)"
  proof
    fix r assume r: "r \<in> set (rows_of (coverage_reports m))"
    have v: "valid_instant (cr_start r)" "valid_instant (cr_end r)" "validate_coverage r = Inr r"
      using assms(1) r by (auto simp: reports_ok_def table_ok_def list_all_iff)
    have w: "cr_start r < cr_end r" using v(3) by (simp add: validate_coverage_Inr coverage_ok_def)
    show "report_matches venue inst family tf (Some d) r =
      Inr (matches venue (cr_venue r) \<and> matches inst (cr_instrument r) \<and> matches family (cr_family r) \<and>
       matches tf (cr_timeframe r) \<and> covers_date r d)"
      using covers_date_iff [OF v(1,2) w assms(2)] by (auto simp: report_matches_def)
  qed
  from filterE_total [OF this] show ?thesis
    using load_reports_ok [OF assms(1)] by (simp add: query_coverage_reports_def bindS_def)
qed

lemma query_by_date_exact_witness:
  "query_coverage_reports None None None None (Some (2024, 2, 29)) \<lparr>coverage_reports = None, quality_checks = None\<rparr> =
    (Inr [], \<lparr>coverage_reports = None, quality_checks = None\<rparr>)"
proof -
  have "reports_ok \<lparr>coverage_reports = None, quality_checks = None\<rparr>" by (simp add: reports_ok_def table_ok_def)
  moreover have "valid_date (2024, 2, 29)" by code_simp
  ultimately show ?thesis using query_by_date_exact by fastforce
qed

text \<open>
  Appending coverage reports to a store in order returns, keeps it in order, makes every
  incoming report the one found under its identity, keeps the others, and is idempotent; the
  order of the reports of the batch matters only between reports with one identity.
\<close>

theorem append_reports_updates_lookup:
  assumes "reports_ok m" and "list_all (\<lambda>r. validate_coverage r = Inr r \<and> valid_instant (cr_start r) \<and> valid_instant (cr_end r)) rs"
  shows "\<exists>m'. append_coverage_reports rs m = (Inr (), m') \<and> reports_ok m' \<and>
    (\<forall>k. find_row cr_id (rows_of (coverage_reports m')) k =
      (case find_row cr_id (rev rs) k of None \<Rightarrow> find_row cr_id (rows_of (coverage_reports m)) k | Some r \<Rightarrow> Some r)) \<and>
    append_coverage_reports rs m' = (Inr (), m')"
proof (cases "rs = []")
  case True
  then show ?thesis using assms(1) by (simp add: append_coverage_reports_def last_by_key_index find_row_def)
next
  case False
  define t where "t = replace_rows cr_id report_order (last_by_key cr_id rs) (rows_of (coverage_reports m))"
  define m' where "m' = m\<lparr>coverage_reports := Some t\<rparr>"
  have ne: "last_by_key cr_id rs \<noteq> []" using last_by_key_spec(3) [of cr_id rs] False by auto
  have tok: "table_ok validate_coverage cr_id (coverage_reports m)" using assms(1) by (simp add: reports_ok_def)
  have di: "distinct (map cr_id (rows_of (coverage_reports m)))" using tok by (simp add: table_ok_def)
  have val: "list_all (\<lambda>r. validate_coverage r = Inr r) rs" using assms(2) by (simp add: list_all_iff)
  have tok': "table_ok validate_coverage cr_id (Some t)"
    unfolding t_def by (rule replace_table_ok [OF report_table.keyed_table_axioms tok val])
  have ok: "reports_ok m'" using tok' assms last_by_key_spec(2) [of cr_id rs]
    by (auto simp: reports_ok_def m'_def t_def list_all_iff report_table.set_replace)
  have step: "append_coverage_reports rs n = (Inr (), n\<lparr>coverage_reports :=
      Some (replace_rows cr_id report_order (last_by_key cr_id rs) (rows_of (coverage_reports n)))\<rparr>)" if "reports_ok n" for n
    using ne load_reports_ok [OF that] by (simp add: append_coverage_reports_def Let_def bindS_def)
  have "append_coverage_reports rs m' = (Inr (), m')"
    using step [OF ok] report_table.replace_twice [OF last_by_key_spec(1) di] by (simp add: m'_def t_def)
  moreover have "find_row cr_id (rows_of (coverage_reports m')) k =
      (case find_row cr_id (rev rs) k of None \<Rightarrow> find_row cr_id (rows_of (coverage_reports m)) k | Some r \<Rightarrow> Some r)" for k
    using report_table.find_replace [OF last_by_key_spec(1) di] by (simp add: m'_def t_def find_last_by_key)
  moreover have "append_coverage_reports rs m = (Inr (), m')" using step [OF assms(1)] by (simp add: m'_def t_def)
  ultimately show ?thesis using ok by blast
qed

lemma append_reports_updates_lookup_witness:
  "\<exists>r m'. append_coverage_reports [r] \<lparr>coverage_reports = None, quality_checks = None\<rparr> = (Inr (), m') \<and>
    find_row cr_id (rows_of (coverage_reports m')) (cr_id r) = Some r"
proof -
  obtain r where r: "coverage_report_for_bars no_text_env demo_rows demo_series (Aware 0 0) (Aware 86400000000 0) demo_fields
      (Fin 1) ACCEPTED_RESEARCH 0 = Inr r"
    using demo_report [of demo_rows] by blast
  have "validate_coverage r = Inr r \<and> valid_instant (cr_start r) \<and> valid_instant (cr_end r)"
    by (rule bars_report_parts [OF r]) (auto simp: validate_coverage_Inr dest: ensure_utc_valid)
  then have v: "list_all (\<lambda>r. validate_coverage r = Inr r \<and> valid_instant (cr_start r) \<and> valid_instant (cr_end r)) [r]" by simp
  have ok: "reports_ok \<lparr>coverage_reports = None, quality_checks = None\<rparr>" by (simp add: reports_ok_def table_ok_def)
  from append_reports_updates_lookup [OF ok v] obtain m' where
    "append_coverage_reports [r] \<lparr>coverage_reports = None, quality_checks = None\<rparr> = (Inr (), m')"
    "find_row cr_id (rows_of (coverage_reports m')) (cr_id r) =
      (case find_row cr_id (rev [r]) (cr_id r) of None \<Rightarrow> None | Some r \<Rightarrow> Some r)"
    by (auto simp: find_row_def)
  then show ?thesis by (auto simp: find_row_def)
qed

end
