(* ===== verification/Lockbox.thy ===== *)
theory Lockbox
  imports QualityModels
begin

text \<open>
  \<open>validation/policies.py\<close>, \<open>backtest_data/lockbox.py\<close> and \<open>backtest_data/coverage_gate.py\<close>: the policy
  records, the lockbox of the last full calendar months, the overlap of half-open windows, and the
  gate that lets only evidence through.  \<open>today\<close> is the date of the call.
\<close>

section \<open>Policies\<close>

definition DEFAULT_COVERAGE_MIN :: pyfloat where "DEFAULT_COVERAGE_MIN = fl (98/100)"
definition DEFAULT_EARLIEST_BACKTEST_START :: pydate where "DEFAULT_EARLIEST_BACKTEST_START = (2024, 1, 1)"
definition DEFAULT_MIN_USABLE_MONTHS :: int where "DEFAULT_MIN_USABLE_MONTHS = 6"
definition DEFAULT_PREFERRED_USABLE_MONTHS :: int where "DEFAULT_PREFERRED_USABLE_MONTHS = 12"
definition DEFAULT_LOCKBOX_FULL_MONTHS :: int where "DEFAULT_LOCKBOX_FULL_MONTHS = 1"

record lockbox_policy =
  lp_schema :: string
  lp_id :: string
  lp_mode :: string
  lp_full_months :: int

definition validate_policy :: "lockbox_policy \<Rightarrow> lockbox_policy result" where
  "validate_policy p = validate_model [(1 \<le> lp_full_months p, ''full_months'')] [] p"

definition default_lockbox_policy :: lockbox_policy where
  "default_lockbox_policy = \<lparr>lp_schema = V2_SCHEMA_VERSION, lp_id = ''dynamic_full_calendar_months_v1'',
     lp_mode = ''dynamic_full_calendar_months'', lp_full_months = DEFAULT_LOCKBOX_FULL_MONTHS\<rparr>"

record validation_config =
  vc_schema :: string
  vc_policy_id :: string
  vc_earliest :: pydate
  vc_min_months :: int
  vc_preferred_months :: int
  vc_coverage_min :: pyfloat
  vc_require_asof :: bool
  vc_lockbox :: lockbox_policy

definition validate_validation_config :: "validation_config \<Rightarrow> validation_config result" where
  "validate_validation_config c = bindE (validate_policy (vc_lockbox c)) (\<lambda>_. validate_model
     [(6 \<le> vc_min_months c, ''min_usable_months''), (6 \<le> vc_preferred_months c, ''preferred_usable_months''),
      (f_ge (vc_coverage_min c) (fl (98/100)) \<and> f_le (vc_coverage_min c) (Fin 1), ''coverage_min'')]
     [(vc_preferred_months c < vc_min_months c, ''preferred_usable_months must be >= min_usable_months'')] c)"

section \<open>The lockbox\<close>

record lockbox_window =
  lw_policy :: string
  lw_start :: instant
  lw_end :: instant

definition lockbox_add_months :: "pydate \<Rightarrow> int \<Rightarrow> pydate result" where
  "lockbox_add_months value months = (case value of (y, m, d) \<Rightarrow>
     let month_index = y * 12 + (m - 1) + months in make_date (month_index div 12) (month_index mod 12 + 1) 1)"

definition latest_full_calendar_month_lockbox ::
  "pydate \<Rightarrow> pydate option \<Rightarrow> lockbox_policy option \<Rightarrow> lockbox_window result" where
  "latest_full_calendar_month_lockbox today asof_date policy =
     (let effective = (case policy of None \<Rightarrow> default_lockbox_policy | Some p \<Rightarrow> p);
          day = (case asof_date of None \<Rightarrow> today | Some d \<Rightarrow> d) in
      bindE (make_date (fst day) (fst (snd day)) 1) (\<lambda>current_month_start.
      bindE (lockbox_add_months current_month_start (- lp_full_months effective)) (\<lambda>start_date.
      Inr \<lparr>lw_policy = lp_id effective, lw_start = midnight start_date, lw_end = midnight current_month_start\<rparr>)))"

definition windows_overlap :: "pydatetime \<Rightarrow> pydatetime \<Rightarrow> pydatetime \<Rightarrow> pydatetime \<Rightarrow> bool result" where
  "windows_overlap left_start left_end right_start right_end =
     bindE (datetime_le left_end left_start) (\<lambda>c1.
     bindE (guardE (\<not> c1) (ValueError ''left_end must be greater than left_start'')) (\<lambda>_.
     bindE (datetime_le right_end right_start) (\<lambda>c2.
     bindE (guardE (\<not> c2) (ValueError ''right_end must be greater than right_start'')) (\<lambda>_.
     bindE (datetime_less left_start right_end) (\<lambda>a.
     if a then datetime_less right_start left_end else Inr False)))))"

section \<open>The coverage gate\<close>

definition require_coverage_for_evidence :: "coverage_report \<Rightarrow> pyfloat \<Rightarrow> coverage_report result" where
  "require_coverage_for_evidence r cmin =
     (let b1 = cr_blockers r;
          b2 = b1 @ (if cr_mode r = SANDBOX_DIAGNOSTIC then [''sandbox_diagnostic_non_evidence''] else []);
          b3 = b2 @ (if f_lt (cr_ratio r) cmin \<and> ''coverage_below_minimum'' \<notin> set b2 then [''coverage_below_minimum''] else []);
          b4 = b3 @ (if \<not> cr_eligible r then [''coverage_report_not_evidence_eligible''] else []) in
      if b4 \<noteq> [] then Inl (CoverageGateError (''coverage gate failed: '' @ join '','' (uniq b4))) else Inr r)"

section \<open>Properties\<close>

lemma datetime_le_Aware: "datetime_le (Aware a oa) (Aware b ob) = Inr (a - oa \<le> b - ob)"
  by (auto simp: datetime_le_def)

text \<open>
  On aware datetimes with whatever offsets the overlap test is exact: it answers whether the two
  half-open windows share an instant, and refuses empty windows; so windows that only touch do not
  overlap.
\<close>

theorem windows_overlap_exact:
  "windows_overlap (Aware a oa) (Aware b ob) (Aware c oc) (Aware d od) =
     (if b - ob \<le> a - oa then Inl (ValueError ''left_end must be greater than left_start'')
      else if d - od \<le> c - oc then Inl (ValueError ''right_end must be greater than right_start'')
      else Inr ({a - oa ..< b - ob} \<inter> {c - oc ..< d - od} \<noteq> {}))"
proof -
  have "{s ..< t} \<inter> {u ..< v} \<noteq> {} \<longleftrightarrow> s < v \<and> u < t" if "s < t" "u < v" for s t u v :: int
  proof
    assume "s < v \<and> u < t"
    then have "max s u \<in> {s ..< t} \<inter> {u ..< v}" using that by auto
    then show "{s ..< t} \<inter> {u ..< v} \<noteq> {}" by blast
  qed auto
  then show ?thesis by (simp add: windows_overlap_def datetime_le_Aware)
qed

text \<open>Months are counted from year 0.\<close>

definition month_no :: "pydate \<Rightarrow> int" where
  "month_no d = fst d * 12 + (fst (snd d) - 1)"

lemma month_has_days: "1 \<le> m \<Longrightarrow> m \<le> 12 \<Longrightarrow> 28 \<le> days_in_month y m"
proof -
  assume "1 \<le> m" "m \<le> 12"
  then have "m \<in> {1, 2, 3, 4, 5, 6, 7, 8, 9, 10, 11, 12}" by (simp only: insert_iff empty_iff) presburger
  then show ?thesis by (auto simp: days_in_month_def month_lengths_def)
qed

lemma make_date_first: "1 \<le> y \<Longrightarrow> y \<le> 9999 \<Longrightarrow> 1 \<le> m \<Longrightarrow> m \<le> 12 \<Longrightarrow> make_date y m 1 = Inr (y, m, 1)"
  using month_has_days [of m y] by (simp add: make_date_def)

lemma valid_first: "1 \<le> y \<Longrightarrow> y \<le> 9999 \<Longrightarrow> 1 \<le> m \<Longrightarrow> m \<le> 12 \<Longrightarrow> valid_date (y, m, 1)"
  using month_has_days [of m y] by (simp add: valid_date_def)

lemma before_first_of_month:
  assumes "valid_date e" "1 \<le> m" "m \<le> 12"
  shows "e < (y, m, 1) \<longleftrightarrow> month_no e < y * 12 + (m - 1)"
proof -
  obtain a b c where e: "e = (a, b, c)" by (metis prod_cases3)
  have "1 \<le> b" "b \<le> 12" "1 \<le> c" using assms(1) by (auto simp: e valid_date_def)
  then show ?thesis using assms(2,3) by (auto simp: e month_no_def less_prod_def)
qed

lemma before_midnight_first:
  assumes "valid_instant t" "1 \<le> y" "y \<le> 9999" "1 \<le> m" "m \<le> 12"
  shows "t < midnight (y, m, 1) \<longleftrightarrow> month_no (date_of t) < y * 12 + (m - 1)"
  using date_of_less_iff [OF assms(1) valid_first [OF assms(2-5)]]
    before_first_of_month [OF date_of_valid(1) [OF assms(1)] assms(4,5)] by simp

lemma month_split:
  fixes k :: int
  shows "k div 12 * 12 + (k mod 12 + 1 - 1) = k" "1 \<le> k mod 12 + 1" "k mod 12 + 1 \<le> 12"
  by auto

text \<open>
  The lockbox of a day holds exactly the instants of the last full calendar months before the
  month of the day, as many as the policy says, across year ends; the day itself is outside it.
  It exists unless it would begin before year 1.
\<close>

theorem lockbox_is_last_full_months:
  assumes "valid_date day" and "validate_policy p = Inr p" and "12 \<le> month_no day - lp_full_months p"
  shows "\<exists>w. latest_full_calendar_month_lockbox today (Some day) (Some p) = Inr w \<and> lw_policy w = lp_id p \<and>
    (\<forall>t. valid_instant t \<longrightarrow> (lw_start w \<le> t \<and> t < lw_end w \<longleftrightarrow>
       month_no day - lp_full_months p \<le> month_no (date_of t) \<and> month_no (date_of t) < month_no day)) \<and>
    lw_start w < lw_end w \<and> lw_end w \<le> midnight day"
proof -
  obtain y m d where day: "day = (y, m, d)" by (metis prod_cases3)
  have b: "1 \<le> y" "y \<le> 9999" "1 \<le> m" "m \<le> 12" "1 \<le> d" using assms(1) by (auto simp: day valid_date_def)
  have n: "1 \<le> lp_full_months p" using assms(2) by (simp add: validate_policy_def validate_model_Inr_iff)
  define k where "k = y * 12 + (m - 1) + - lp_full_months p"
  have k: "12 \<le> k" "k < y * 12 + (m - 1)" "month_no day - lp_full_months p = k" "month_no day = y * 12 + (m - 1)"
    using assms(3) n by (simp_all add: k_def month_no_def day)
  have s: "1 \<le> k div 12" "k div 12 \<le> 9999" "1 \<le> k mod 12 + 1" "k mod 12 + 1 \<le> 12"
    using k(1,2) b by auto
  define w where "w = \<lparr>lw_policy = lp_id p, lw_start = midnight (k div 12, k mod 12 + 1, 1), lw_end = midnight (y, m, 1)\<rparr>"
  have "latest_full_calendar_month_lockbox today (Some day) (Some p) = Inr w"
    using make_date_first [OF b(1-4)] make_date_first [OF s]
    by (simp add: latest_full_calendar_month_lockbox_def Let_def day lockbox_add_months_def w_def k_def)
  moreover have "\<forall>t. valid_instant t \<longrightarrow> (lw_start w \<le> t \<and> t < lw_end w \<longleftrightarrow>
       month_no day - lp_full_months p \<le> month_no (date_of t) \<and> month_no (date_of t) < month_no day)"
    using before_midnight_first [OF _ s] before_midnight_first [OF _ b(1-4)] k(3,4) month_split(1) [of k]
    by (auto simp: w_def not_less [symmetric])
  moreover have "lw_start w < lw_end w"
    using before_first_of_month [OF valid_first [OF s] b(3,4), of y] k(2) month_split(1) [of k]
      midnight_less_iff [OF valid_first [OF s] valid_first [OF b(1-4)]] by (simp add: w_def month_no_def)
  moreover have "lw_end w \<le> midnight day"
    using midnight_le_iff [OF valid_first [OF b(1-4)] assms(1)] b(5) by (simp add: w_def day less_eq_prod_def)
  ultimately show ?thesis by (intro exI [of _ w]) (simp add: w_def)
qed

lemma lockbox_is_last_full_months_witness:
  "\<exists>w. latest_full_calendar_month_lockbox (2024, 1, 15) (Some (2024, 1, 15)) (Some default_lockbox_policy) = Inr w \<and>
    lw_end w \<le> midnight (2024, 1, 15)"
proof -
  have a: "valid_date (2024, 1, 15)" by code_simp
  have b: "validate_policy default_lockbox_policy = Inr default_lockbox_policy"
    by (simp add: validate_policy_def validate_model_def default_lockbox_policy_def DEFAULT_LOCKBOX_FULL_MONTHS_def)
  have c: "12 \<le> month_no (2024, 1, 15) - lp_full_months default_lockbox_policy"
    by (simp add: month_no_def default_lockbox_policy_def DEFAULT_LOCKBOX_FULL_MONTHS_def)
  show ?thesis using lockbox_is_last_full_months [OF a b c] by blast
qed

text \<open>
  The coverage gate lets a report through, unchanged, exactly when it is eligible evidence
  without a blocker, is not a sandbox diagnostic and its ratio is not below the asked minimum.
\<close>

theorem coverage_gate_exact:
  "require_coverage_for_evidence r cmin = Inr r' \<longleftrightarrow>
     r' = r \<and> cr_eligible r \<and> cr_blockers r = [] \<and> cr_mode r \<noteq> SANDBOX_DIAGNOSTIC \<and> \<not> f_lt (cr_ratio r) cmin"
  by (auto simp: require_coverage_for_evidence_def Let_def)

end
