(* ===== verification/WalkForward.thy ===== *)
theory WalkForward
  imports Lockbox
begin

text \<open>
  \<open>validation/walk_forward.py\<close>: the anchored walk-forward split of a series, the stability summary
  over its folds, and the calendar-month windows.  The loop over the anchors is a recursion whose
  measure is the number of rows the validation window has left; it stops because the step of a
  valid configuration is positive, and the function returns without a fold for any other.
\<close>

section \<open>Records\<close>

record wf_config =
  wc_schema :: string
  wc_min_train :: int
  wc_validation :: int
  wc_step :: int
  wc_purge :: int
  wc_embargo :: int
  wc_min_folds :: int
  wc_research_only :: bool
  wc_observe_only :: bool
  wc_promotion_ready :: bool

text \<open>The three boundary flags of the validation records.\<close>

definition three_flags_ok :: "bool \<Rightarrow> bool \<Rightarrow> bool \<Rightarrow> bool" where
  "three_flags_ok research observe promotion \<longleftrightarrow> \<not> (\<not> research \<or> \<not> observe \<or> promotion)"

definition validate_wf_config :: "wf_config \<Rightarrow> wf_config result" where
  "validate_wf_config c = validate_model
     [(1 \<le> wc_min_train c, ''min_train_rows''), (1 \<le> wc_validation c, ''validation_rows''), (1 \<le> wc_step c, ''step_rows''),
      (0 \<le> wc_purge c, ''purge_rows''), (0 \<le> wc_embargo c, ''embargo_rows''), (1 \<le> wc_min_folds c, ''min_folds'')]
     [(\<not> three_flags_ok (wc_research_only c) (wc_observe_only c) (wc_promotion_ready c),
         ''walk-forward config must preserve the v2 research boundary''),
      (wc_purge c \<ge> wc_min_train c, ''purge_rows must be smaller than min_train_rows'')] c"

record wf_fold =
  wf_id :: string
  wf_index :: int
  wf_train :: "int list"
  wf_embargo_ix :: "int list"
  wf_validation_ix :: "int list"
  wf_train_start :: instant
  wf_train_end :: instant
  wf_validation_start :: instant
  wf_validation_end :: instant
  wf_purge :: int
  wf_embargo :: int
  wf_research_only :: bool
  wf_observe_only :: bool
  wf_promotion_ready :: bool

definition disjoint_lists :: "int list \<Rightarrow> int list \<Rightarrow> bool" where
  "disjoint_lists xs ys \<longleftrightarrow> list_all (\<lambda>x. x \<notin> set ys) xs"

text \<open>The maximum and minimum are taken only of lists that the first check found not empty.\<close>

definition validate_fold :: "wf_fold \<Rightarrow> wf_fold result" where
  "validate_fold f = validate_model
     [(wf_id f \<noteq> [], ''fold_id''), (0 \<le> wf_index f, ''fold_index''), (0 \<le> wf_purge f, ''purge_rows''),
      (0 \<le> wf_embargo f, ''embargo_rows'')]
     [(wf_train f = [] \<or> wf_validation_ix f = [], ''walk-forward folds require train and validation indices''),
      (Max (set (wf_train f)) \<ge> Min (set (wf_validation_ix f)), ''train indices must be before validation indices''),
      (\<not> disjoint_lists (wf_train f) (wf_validation_ix f), ''train and validation indices overlap''),
      (\<not> disjoint_lists (wf_embargo_ix f) (wf_validation_ix f), ''embargo and validation indices overlap''),
      (\<not> disjoint_lists (wf_embargo_ix f) (wf_train f), ''embargo and train indices overlap''),
      (wf_train_end f \<ge> wf_validation_start f, ''train_end must be before validation_start''),
      (\<not> three_flags_ok (wf_research_only f) (wf_observe_only f) (wf_promotion_ready f),
         ''walk-forward fold must preserve the v2 research boundary'')] f"

section \<open>The split\<close>

text \<open>\<open>range(a, b)\<close> is \<open>[a..b - 1]\<close>; the indices are non-negative where the list is read.\<close>

definition make_fold :: "instant list \<Rightarrow> wf_config \<Rightarrow> int \<Rightarrow> int \<Rightarrow> wf_fold" where
  "make_fold ts c anchor index =
     (let train_end = anchor - wc_purge c; vs = anchor + wc_embargo c; ve = vs + wc_validation c in
      \<lparr>wf_id = ''fold-'' @ zero_pad 4 index, wf_index = index, wf_train = [0..train_end - 1],
        wf_embargo_ix = [train_end..vs - 1], wf_validation_ix = [vs..ve - 1],
        wf_train_start = ts ! 0, wf_train_end = ts ! nat (train_end - 1),
        wf_validation_start = ts ! nat vs, wf_validation_end = ts ! nat (ve - 1),
        wf_purge = wc_purge c, wf_embargo = wc_embargo c,
        wf_research_only = True, wf_observe_only = True, wf_promotion_ready = False\<rparr>)"

function fold_loop :: "instant list \<Rightarrow> wf_config \<Rightarrow> int \<Rightarrow> int \<Rightarrow> wf_fold list result" where
  "fold_loop ts c anchor index =
     (if wc_step c < 1 \<or> anchor - wc_purge c \<le> 0 \<or> anchor + wc_embargo c + wc_validation c > int (length ts) then Inr []
      else bindE (validate_fold (make_fold ts c anchor index)) (\<lambda>f.
        bindE (fold_loop ts c (anchor + wc_step c) (index + 1)) (\<lambda>fs. Inr (f # fs))))"
  by pat_completeness auto
termination
  by (relation "measure (\<lambda>(ts, c, anchor, index). nat (int (length ts) + 1 - (anchor + wc_embargo c + wc_validation c)))") auto

declare fold_loop.simps [simp del]

definition build_walk_forward_folds :: "pyenv \<Rightarrow> pyrow list \<Rightarrow> wf_config \<Rightarrow> string \<Rightarrow> wf_fold list result" where
  "build_walk_forward_folds env rows c ts_field =
     bindE (mapE (\<lambda>row. bindE (row_item row ts_field) (parse_timestamp env)) rows) (\<lambda>ts.
     bindE (guardE (sorted_by id ts = ts) (ValueError ''walk-forward rows must be sorted by timestamp'')) (\<lambda>_.
     bindE (fold_loop ts c (wc_min_train c) 0) (\<lambda>folds.
     bindE (guardE (\<not> int (length folds) < wc_min_folds c)
        (ValueError ''walk-forward split produced fewer folds than min_folds'')) (\<lambda>_. Inr folds))))"

section \<open>Fold stability\<close>

record fold_metric =
  fx_id :: string
  fx_net :: pyfloat
  fx_gross :: "pyfloat option"
  fx_trades :: "int option"
  fx_stable :: bool

definition validate_metric :: "fold_metric \<Rightarrow> fold_metric result" where
  "validate_metric m = validate_model
     [(fx_id m \<noteq> [], ''fold_id''), (case fx_trades m of None \<Rightarrow> True | Some n \<Rightarrow> 0 \<le> n, ''trade_count'')] [] m"

record stability =
  st_folds :: int
  st_positive :: int
  st_score :: pyfloat
  st_median :: "pyfloat option"
  st_best :: "pyfloat option"
  st_worst :: "pyfloat option"
  st_pass :: bool

definition validate_stability :: "stability \<Rightarrow> stability result" where
  "validate_stability s = validate_model
     [(0 \<le> st_folds s, ''fold_count''), (0 \<le> st_positive s, ''positive_fold_count''),
      (in_unit (st_score s), ''fold_stability_score'')] [] s"

definition median_of :: "pyfloat list \<Rightarrow> pyfloat" where
  "median_of xs = (let mid = length xs div 2 in
     if odd (length xs) then xs ! mid else f_div_raw (f_add (xs ! (mid - 1)) (xs ! mid)) (Fin 2))"

text \<open>On a sorted list without NaN the maximum is the last value and the minimum the first.\<close>

definition summarize_fold_stability :: "fold_metric list \<Rightarrow> pyfloat \<Rightarrow> stability result" where
  "summarize_fold_stability items min_positive_share =
     bindE (mapE validate_metric items) (\<lambda>ms.
     if ms = [] then validate_stability \<lparr>st_folds = 0, st_positive = 0, st_score = Fin 0, st_median = None, st_best = None,
        st_worst = None, st_pass = False\<rparr>
     else let returns = sorted_by id (map fx_net ms);
              positive = int (length (filter (\<lambda>v. f_gt v (Fin 0)) returns)) in
        bindE (int_truediv positive (int (length returns))) (\<lambda>score.
        validate_stability \<lparr>st_folds = int (length returns), st_positive = positive, st_score = score,
          st_median = Some (median_of returns), st_best = Some (last returns), st_worst = Some (hd returns),
          st_pass = f_ge score min_positive_share\<rparr>))"

definition fold_rows_for_artifact :: "wf_fold list \<Rightarrow> (string \<times> json) list list" where
  "fold_rows_for_artifact folds = map (\<lambda>f. [
     (''fold_id'', JStr (wf_id f)), (''fold_index'', JInt (wf_index f)),
     (''train_start'', JStr (iso_of_instant (wf_train_start f))), (''train_end'', JStr (iso_of_instant (wf_train_end f))),
     (''validation_start'', JStr (iso_of_instant (wf_validation_start f))),
     (''validation_end'', JStr (iso_of_instant (wf_validation_end f))),
     (''train_row_count'', JInt (int (length (wf_train f)))), (''embargo_row_count'', JInt (int (length (wf_embargo_ix f)))),
     (''validation_row_count'', JInt (int (length (wf_validation_ix f)))), (''purge_rows'', JInt (wf_purge f)),
     (''embargo_rows'', JInt (wf_embargo f)), (''research_only'', JBool True), (''observe_only'', JBool True),
     (''promotion_ready'', JBool False)]) folds"

section \<open>Month windows\<close>

text \<open>\<open>value.replace(year=..., month=...)\<close>: the time of day and the day of the month stay.\<close>

definition instant_add_months :: "instant \<Rightarrow> int \<Rightarrow> instant result" where
  "instant_add_months t months = (case date_of t of (y, m, d) \<Rightarrow>
     let month_index = y * 12 + (m - 1) + months in
     bindE (make_date (month_index div 12) (month_index mod 12 + 1) d) (\<lambda>dt. Inr (midnight dt + t mod us_per_day)))"

text \<open>The fuel is the number of windows the loop may still append.\<close>

fun month_windows :: "nat \<Rightarrow> instant \<Rightarrow> instant \<Rightarrow> (instant \<times> instant) list result" where
  "month_windows 0 current end_ts = Inr []"
| "month_windows (Suc n) current end_ts =
     bindE (instant_add_months current 1) (\<lambda>next_month.
     if next_month > end_ts then Inr []
     else bindE (month_windows n next_month end_ts) (\<lambda>ws. Inr ((current, next_month) # ws)))"

definition monthly_validation_fold_windows :: "pydatetime \<Rightarrow> pydatetime \<Rightarrow> int \<Rightarrow> (instant \<times> instant) list result" where
  "monthly_validation_fold_windows start_ts end_ts max_folds =
     bindE (ensure_utc start_ts) (\<lambda>st.
     bindE (ensure_utc end_ts) (\<lambda>en.
     if en \<le> st \<or> max_folds \<le> 0 then Inr []
     else let first = midnight (fst (date_of st), fst (snd (date_of st)), 1) in
       bindE (if st > first then instant_add_months first 1 else Inr first) (\<lambda>current.
       month_windows (nat max_folds) current en)))"

definition expected_monthly_validation_fold_count :: "pydatetime \<Rightarrow> pydatetime \<Rightarrow> int \<Rightarrow> int result" where
  "expected_monthly_validation_fold_count start_ts end_ts max_folds =
     bindE (monthly_validation_fold_windows start_ts end_ts max_folds) (\<lambda>ws. Inr (int (length ws)))"

end
