(* ===== verification/WalkForwardProps.thy ===== *)
theory WalkForwardProps
  imports WalkForward
begin

text \<open>
  Correctness of the walk-forward split: the folds in closed form, the separation of training and
  validation data, the month windows, and the stability summary.
\<close>

section \<open>The folds\<close>

definition config_ok :: "wf_config \<Rightarrow> bool" where
  "config_ok c \<longleftrightarrow> 1 \<le> wc_min_train c \<and> 1 \<le> wc_validation c \<and> 1 \<le> wc_step c \<and> 0 \<le> wc_purge c \<and> 0 \<le> wc_embargo c \<and>
     1 \<le> wc_min_folds c \<and> wc_purge c < wc_min_train c \<and>
     three_flags_ok (wc_research_only c) (wc_observe_only c) (wc_promotion_ready c)"

lemma validate_wf_config_Inr: "validate_wf_config c = Inr c' \<longleftrightarrow> c' = c \<and> config_ok c"
  unfolding validate_wf_config_def validate_model_Inr_iff by (auto simp: config_ok_def)

text \<open>How many folds fit into \<open>n\<close> rows.\<close>

definition fold_count :: "wf_config \<Rightarrow> int \<Rightarrow> nat" where
  "fold_count c n = (let slack = n - (wc_min_train c + wc_embargo c + wc_validation c) in
     if slack < 0 then 0 else nat (slack div wc_step c + 1))"

lemma make_fold_simps [simp]:
  "wf_train (make_fold ts c a i) = [0..a - wc_purge c - 1]"
  "wf_embargo_ix (make_fold ts c a i) = [a - wc_purge c..a + wc_embargo c - 1]"
  "wf_validation_ix (make_fold ts c a i) = [a + wc_embargo c..a + wc_embargo c + wc_validation c - 1]"
  "wf_train_end (make_fold ts c a i) = ts ! nat (a - wc_purge c - 1)"
  "wf_validation_start (make_fold ts c a i) = ts ! nat (a + wc_embargo c)"
  "wf_index (make_fold ts c a i) = i"
  by (simp_all add: make_fold_def Let_def)

text \<open>Only the order of the timestamps at the boundary can make a fold invalid.\<close>

lemma validate_make_fold:
  assumes "config_ok c" "0 < a - wc_purge c" "0 \<le> i"
  shows "validate_fold (make_fold ts c a i) = Inr f \<longleftrightarrow>
    f = make_fold ts c a i \<and> ts ! nat (a - wc_purge c - 1) < ts ! nat (a + wc_embargo c)"
proof -
  have pos: "0 \<le> a - wc_purge c - 1" "a + wc_embargo c \<le> a + wc_embargo c + wc_validation c - 1"
    using assms by (auto simp: config_ok_def)
  have mx: "Max {0..a - wc_purge c - 1} = a - wc_purge c - 1"
    by (rule Max_eqI) (use pos in auto)
  have mn: "Min {a + wc_embargo c..a + wc_embargo c + wc_validation c - 1} = a + wc_embargo c"
    by (rule Min_eqI) (use pos in auto)
  have "wf_id (make_fold ts c a i) \<noteq> []" "wf_purge (make_fold ts c a i) = wc_purge c" "wf_embargo (make_fold ts c a i) = wc_embargo c"
    "wf_research_only (make_fold ts c a i)" "wf_observe_only (make_fold ts c a i)" "\<not> wf_promotion_ready (make_fold ts c a i)"
    by (simp_all add: make_fold_def Let_def)
  then show ?thesis using assms pos mx mn
    unfolding validate_fold_def validate_model_Inr_iff
    by (auto simp: config_ok_def disjoint_lists_def list_all_iff three_flags_ok_def)
qed

lemma fold_loop_stop:
  "wc_step c < 1 \<or> a - wc_purge c \<le> 0 \<or> a + wc_embargo c + wc_validation c > int (length ts) \<Longrightarrow> fold_loop ts c a i = Inr []"
  by (simp add: fold_loop.simps [of ts c a i])

lemma fold_loop_go:
  assumes c: "config_ok c" and a: "wc_min_train c \<le> a" "0 \<le> i" and fit: "a + wc_embargo c + wc_validation c \<le> int (length ts)"
    and lt: "ts ! nat (a - wc_purge c - 1) < ts ! nat (a + wc_embargo c)"
  shows "fold_loop ts c a i = bindE (fold_loop ts c (a + wc_step c) (i + 1)) (\<lambda>fs. Inr (make_fold ts c a i # fs))"
proof -
  have p: "0 < a - wc_purge c" "\<not> wc_step c < 1" using c a(1) by (auto simp: config_ok_def)
  have "validate_fold (make_fold ts c a i) = Inr (make_fold ts c a i)"
    using validate_make_fold [OF c p(1) a(2)] lt by blast
  then show ?thesis using p fit by (subst fold_loop.simps) simp
qed

lemma fold_loop_closed:
  assumes c: "config_ok c" and ts: "sorted ts" "distinct ts"
    and a: "wc_min_train c \<le> a" "0 \<le> i"
    and last: "int (length ts) < a + int n * wc_step c + wc_embargo c + wc_validation c"
    and fit: "n = 0 \<or> a + int (n - 1) * wc_step c + wc_embargo c + wc_validation c \<le> int (length ts)"
  shows "fold_loop ts c a i = Inr (map (\<lambda>k. make_fold ts c (a + int k * wc_step c) (i + int k)) [0..<n])"
  using a last fit
proof (induction n arbitrary: a i)
  case 0
  then show ?case by (simp add: fold_loop_stop)
next
  case (Suc n)
  have st: "1 \<le> wc_step c" "1 \<le> wc_validation c" "0 \<le> wc_embargo c" "0 \<le> wc_purge c" "wc_purge c < wc_min_train c"
    using c by (simp_all add: config_ok_def)
  have le: "a \<le> a + int n * wc_step c" using st by simp
  have f: "a + wc_embargo c + wc_validation c \<le> int (length ts)" using Suc.prems(4) le by simp
  have "sorted_wrt (<) ts" using ts by (simp add: strict_sorted_iff)
  then have lt: "ts ! nat (a - wc_purge c - 1) < ts ! nat (a + wc_embargo c)"
    by (rule sorted_wrt_nth_less) (use f st Suc.prems(1) in linarith)+
  have "fold_loop ts c (a + wc_step c) (i + 1) =
      Inr (map (\<lambda>k. make_fold ts c (a + wc_step c + int k * wc_step c) (i + 1 + int k)) [0..<n])"
  proof (rule Suc.IH)
    show "wc_min_train c \<le> a + wc_step c" "0 \<le> i + 1" using Suc.prems st by auto
    show "int (length ts) < a + wc_step c + int n * wc_step c + wc_embargo c + wc_validation c"
      using Suc.prems(3) by (simp add: algebra_simps)
    show "n = 0 \<or> a + wc_step c + int (n - 1) * wc_step c + wc_embargo c + wc_validation c \<le> int (length ts)"
      using Suc.prems(4) by (cases n) (simp_all add: algebra_simps)
  qed
  then have "fold_loop ts c a i = Inr (make_fold ts c a i #
      map (\<lambda>k. make_fold ts c (a + wc_step c + int k * wc_step c) (i + 1 + int k)) [0..<n])"
    using fold_loop_go [OF c Suc.prems(1,2) f lt] by simp
  moreover have "map (\<lambda>k. make_fold ts c (a + int k * wc_step c) (i + int k)) [0..<Suc n] =
      make_fold ts c a i # map (\<lambda>k. make_fold ts c (a + wc_step c + int k * wc_step c) (i + 1 + int k)) [0..<n]"
    by (simp add: upt_conv_Cons map_Suc_upt [symmetric] algebra_simps del: upt_Suc map_Suc_upt)
  ultimately show ?case by (simp del: upt_Suc)
qed

lemma fold_count_bounds:
  assumes "config_ok c"
  defines "m \<equiv> wc_min_train c"
  shows "n < m + int (fold_count c n) * wc_step c + wc_embargo c + wc_validation c"
    "fold_count c n = 0 \<or> m + int (fold_count c n - 1) * wc_step c + wc_embargo c + wc_validation c \<le> n"
proof -
  let ?s = "n - (m + wc_embargo c + wc_validation c)"
  have st: "1 \<le> wc_step c" using assms(1) by (simp add: config_ok_def)
  have d: "wc_step c * (?s div wc_step c) \<le> ?s" "?s < wc_step c * (?s div wc_step c) + wc_step c"
    using div_bounds [of "wc_step c" ?s] st by auto
  have q: "0 \<le> ?s \<Longrightarrow> 0 \<le> ?s div wc_step c" using st by (simp add: pos_imp_zdiv_nonneg_iff)
  show "n < m + int (fold_count c n) * wc_step c + wc_embargo c + wc_validation c"
    using d(2) q by (auto simp: fold_count_def Let_def m_def algebra_simps)
  show "fold_count c n = 0 \<or> m + int (fold_count c n - 1) * wc_step c + wc_embargo c + wc_validation c \<le> n"
    using d(1) q by (auto simp: fold_count_def Let_def m_def algebra_simps nat_diff_distrib)
qed

text \<open>The timestamps of the rows.\<close>

definition row_times :: "pyenv \<Rightarrow> string \<Rightarrow> pyrow list \<Rightarrow> instant list result" where
  "row_times env ts_field rows = mapE (\<lambda>row. bindE (row_item row ts_field) (parse_timestamp env)) rows"


section \<open>No leakage\<close>

lemma fold_loop_members:
  assumes "config_ok c" "fold_loop ts c a i = Inr fs" "wc_min_train c \<le> a" "0 \<le> i" "f \<in> set fs"
  shows "\<exists>b j. wc_min_train c \<le> b \<and> f = make_fold ts c b j \<and> ts ! nat (b - wc_purge c - 1) < ts ! nat (b + wc_embargo c) \<and>
    b + wc_embargo c + wc_validation c \<le> int (length ts)"
  using assms
proof (induction ts c a i arbitrary: fs rule: fold_loop.induct)
  case (1 ts c a i)
  show ?case
  proof (cases "wc_step c < 1 \<or> a - wc_purge c \<le> 0 \<or> a + wc_embargo c + wc_validation c > int (length ts)")
    case True
    then show ?thesis using 1 by (simp add: fold_loop_stop)
  next
    case False
    then obtain g gs where g: "validate_fold (make_fold ts c a i) = Inr g" "fold_loop ts c (a + wc_step c) (i + 1) = Inr gs" "fs = g # gs"
      using "1.prems"(2) by (auto simp: fold_loop.simps [of ts c a i] bindE_Inr_iff)
    have p: "0 < a - wc_purge c" using False by simp
    have gm: "g = make_fold ts c a i" "ts ! nat (a - wc_purge c - 1) < ts ! nat (a + wc_embargo c)"
      using validate_make_fold [OF "1.prems"(1) p "1.prems"(4)] g(1) by auto
    show ?thesis
    proof (cases "f = g")
      case True
      then show ?thesis using gm False "1.prems"(3) by (intro exI [of _ a] exI [of _ i]) simp
    next
      case False': False
      show ?thesis
        by (rule "1.IH" [OF False "1.prems"(1) g(2)]) (use False' False "1.prems" g(3) in auto)
    qed
  qed
qed

text \<open>
  C3: no leakage.  In every fold the call returns, each training row comes before each validation row
  by more than the purged and embargoed rows together, in position and strictly in time; training,
  embargo and validation rows are disjoint, lie within the data, and there are as many folds as the
  configuration demands.
\<close>

theorem folds_do_not_leak:
  assumes "validate_wf_config c = Inr c" and "row_times env tsf rows = Inr ts"
    and "build_walk_forward_folds env rows c tsf = Inr folds"
  shows "wc_min_folds c \<le> int (length folds) \<and> (\<forall>f \<in> set folds.
    wf_train f \<noteq> [] \<and> int (length (wf_validation_ix f)) = wc_validation c \<and>
    (\<forall>i \<in> set (wf_train f). \<forall>j \<in> set (wf_validation_ix f). i + wc_purge c + wc_embargo c < j \<and> ts ! nat i < ts ! nat j) \<and>
    (\<forall>i \<in> set (wf_train f) \<union> set (wf_embargo_ix f) \<union> set (wf_validation_ix f). 0 \<le> i \<and> i < int (length ts)) \<and>
    set (wf_embargo_ix f) \<inter> (set (wf_train f) \<union> set (wf_validation_ix f)) = {})"
proof -
  have c: "config_ok c" using assms(1) by (simp add: validate_wf_config_Inr)
  have so: "sorted ts" and loop: "fold_loop ts c (wc_min_train c) 0 = Inr folds" and mf: "wc_min_folds c \<le> int (length folds)"
    using assms(2,3) sorted_sorted_by [of id ts]
    by (auto simp: build_walk_forward_folds_def row_times_def bindE_Inr_iff)
  have "wf_train f \<noteq> [] \<and> int (length (wf_validation_ix f)) = wc_validation c \<and>
    (\<forall>i \<in> set (wf_train f). \<forall>j \<in> set (wf_validation_ix f). i + wc_purge c + wc_embargo c < j \<and> ts ! nat i < ts ! nat j) \<and>
    (\<forall>i \<in> set (wf_train f) \<union> set (wf_embargo_ix f) \<union> set (wf_validation_ix f). 0 \<le> i \<and> i < int (length ts)) \<and>
    set (wf_embargo_ix f) \<inter> (set (wf_train f) \<union> set (wf_validation_ix f)) = {}" if mem: "f \<in> set folds" for f
  proof -
    obtain b j where b: "wc_min_train c \<le> b" "f = make_fold ts c b j" "ts ! nat (b - wc_purge c - 1) < ts ! nat (b + wc_embargo c)"
      "b + wc_embargo c + wc_validation c \<le> int (length ts)"
      using fold_loop_members [OF c loop _ _ mem] by auto
    have k: "1 \<le> wc_validation c" "0 \<le> wc_embargo c" "0 \<le> wc_purge c" "wc_purge c < wc_min_train c" "1 \<le> wc_step c"
      using c by (simp_all add: config_ok_def)
    have mono: "ts ! nat i \<le> ts ! nat j" if "0 \<le> i" "i \<le> j" "j < int (length ts)" for i j
      using so that by (intro sorted_nth_mono) auto
    have time: "ts ! nat i < ts ! nat j" if "0 \<le> i" "i \<le> b - wc_purge c - 1" "b + wc_embargo c \<le> j" "j < int (length ts)" for i j
    proof -
      have "ts ! nat i \<le> ts ! nat (b - wc_purge c - 1)" by (rule mono) (use that k b in linarith)+
      moreover have "ts ! nat (b + wc_embargo c) \<le> ts ! nat j" by (rule mono) (use that k b in linarith)+
      ultimately show ?thesis using b(3) by simp
    qed
    show ?thesis using b(1,4) k time by (auto simp: b(2))
  qed
  then show ?thesis using mf by blast
qed

text \<open>Five daily rows, split with a purged and an embargoed row.\<close>

definition demo_config :: wf_config where
  "demo_config = \<lparr>wc_schema = V2_SCHEMA_VERSION, wc_min_train = 2, wc_validation = 1, wc_step = 1, wc_purge = 1, wc_embargo = 1,
     wc_min_folds = 2, wc_research_only = True, wc_observe_only = True, wc_promotion_ready = False\<rparr>"

definition day_rows :: "pyrow list" where
  "day_rows = map (\<lambda>t. [(''ts'', VTime (Aware t 0))]) [0, 1, 2, 3, 4]"

text \<open>An environment whose parsers reject every text; the rows hold datetimes.\<close>

definition strict_env :: pyenv where
  "strict_env = \<lparr>fromisoformat = (\<lambda>_. Inl (ValueError ''Invalid isoformat string'')), float_of_text = (\<lambda>_. Inl (ValueError ''could not convert string to float''))\<rparr>"

lemma demo_split:
  "validate_wf_config demo_config = Inr demo_config"
  "row_times env ''ts'' day_rows = Inr [0, 1, 2, 3, 4]" "sorted [0, 1, 2, 3, 4 :: instant]" "distinct [0, 1, 2, 3, 4 :: instant]"
  by (simp_all add: validate_wf_config_def validate_model_def demo_config_def three_flags_ok_def row_times_def day_rows_def
      row_item_def ensure_utc_def valid_instant_def max_ordinal_def us_per_day_def)

lemma demo_fold_count: "fold_count demo_config 5 = 2"
  by (simp add: fold_count_def demo_config_def)


lemma demo_folds:
  "\<exists>folds. build_walk_forward_folds strict_env day_rows demo_config ''ts'' = Inr folds"
proof -
  have c: "config_ok demo_config" using demo_split(1) by (simp add: validate_wf_config_Inr)
  have "fold_loop [0, 1, 2, 3, 4] demo_config (wc_min_train demo_config) 0 = Inr (map (\<lambda>k. make_fold [0, 1, 2, 3, 4] demo_config
      (wc_min_train demo_config + int k * wc_step demo_config) (0 + int k)) [0..<2])"
    by (rule fold_loop_closed [OF c demo_split(3,4)]) (simp_all add: demo_config_def)
  then show ?thesis using demo_split(2) [of strict_env]
    by (simp add: build_walk_forward_folds_def row_times_def sorted_by_def demo_config_def)
qed

lemma folds_do_not_leak_witness:
  "\<exists>folds. build_walk_forward_folds strict_env day_rows demo_config ''ts'' = Inr folds \<and> 2 \<le> int (length folds)"
proof -
  obtain folds where f: "build_walk_forward_folds strict_env day_rows demo_config ''ts'' = Inr folds" using demo_folds by blast
  from folds_do_not_leak [OF demo_split(1) demo_split(2) [of strict_env] f] have "wc_min_folds demo_config \<le> int (length folds)" by blast
  then show ?thesis using f by (simp add: demo_config_def)
qed

section \<open>Month windows\<close>

text \<open>The first instant of a month, months counted from year 0.\<close>

definition month_start :: "int \<Rightarrow> instant" where
  "month_start k = midnight (k div 12, k mod 12 + 1, 1)"

definition month_ok :: "int \<Rightarrow> bool" where
  "month_ok k \<longleftrightarrow> 12 \<le> k \<and> k < 120000"

lemma month_ok_date:
  assumes "month_ok k"
  shows "valid_date (k div 12, k mod 12 + 1, 1)" "make_date (k div 12) (k mod 12 + 1) 1 = Inr (k div 12, k mod 12 + 1, 1)"
    "valid_instant (month_start k)" "date_of (month_start k) = (k div 12, k mod 12 + 1, 1)"
proof -
  have b: "1 \<le> k div 12" "k div 12 \<le> 9999" "1 \<le> k mod 12 + 1" "k mod 12 + 1 \<le> 12" using assms by (auto simp: month_ok_def)
  show v: "valid_date (k div 12, k mod 12 + 1, 1)" by (rule valid_first [OF b])
  show "make_date (k div 12) (k mod 12 + 1) 1 = Inr (k div 12, k mod 12 + 1, 1)" by (rule make_date_first [OF b])
  show "valid_instant (month_start k)" unfolding month_start_def by (rule midnight_valid [OF v])
  show "date_of (month_start k) = (k div 12, k mod 12 + 1, 1)" unfolding month_start_def by (rule date_of_midnight [OF v])
qed

lemma month_start_mono: "month_ok a \<Longrightarrow> month_ok b \<Longrightarrow> month_start a < month_start b \<longleftrightarrow> a < b"
proof -
  assume a: "month_ok a" and b: "month_ok b"
  have "(a div 12, a mod 12 + 1, 1 :: int) < (b div 12, b mod 12 + 1, 1) \<longleftrightarrow> month_no (a div 12, a mod 12 + 1, 1) < b div 12 * 12 + (b mod 12 + 1 - 1)"
    using before_first_of_month [OF month_ok_date(1) [OF a], of "b mod 12 + 1" "b div 12"] month_split(2,3) [of b] by blast
  also have "\<dots> \<longleftrightarrow> a < b" using month_split(1) [of a] month_split(1) [of b] by (simp add: month_no_def)
  finally show ?thesis unfolding month_start_def midnight_less_iff [OF month_ok_date(1) [OF a] month_ok_date(1) [OF b]] .
qed

lemma month_start_day: "month_start k mod us_per_day = 0"
  by (simp add: month_start_def midnight_def)

lemma add_month_start:
  assumes "month_ok k"
  shows "instant_add_months (month_start k) 1 = (if k + 1 < 120000 then Inr (month_start (k + 1)) else Inl (ValueError ''year is out of range''))"
proof -
  have e: "k div 12 * 12 + (k mod 12 + 1 - 1) + 1 = k + 1" using month_split(1) [of k] by simp
  show ?thesis
  proof (cases "k + 1 < 120000")
    case True
    then have "month_ok (k + 1)" using assms by (simp add: month_ok_def)
    then have "instant_add_months (month_start k) 1 = Inr (midnight ((k + 1) div 12, (k + 1) mod 12 + 1, 1) + month_start k mod us_per_day)"
      unfolding instant_add_months_def month_ok_date(4) [OF assms] prod.case Let_def e by (simp only: month_ok_date(2) bindE_simps)
    then show ?thesis using True by (simp only: month_start_day month_start_def [of "k + 1"]) simp
  next
    case False
    then have "(k + 1) div 12 = 10000" using assms by (simp add: month_ok_def)
    then have "make_date ((k + 1) div 12) ((k + 1) mod 12 + 1) 1 = Inl (ValueError ''year is out of range'')"
      by (simp add: make_date_def)
    then have "instant_add_months (month_start k) 1 = Inl (ValueError ''year is out of range'')"
      unfolding instant_add_months_def month_ok_date(4) [OF assms] prod.case Let_def e by (simp only: bindE_simps)
    then show ?thesis using False by simp
  qed
qed

lemma month_windows_closed:
  assumes "month_ok k" "month_windows n (month_start k) en = Inr ws"
  shows "ws = map (\<lambda>i. (month_start (k + int i), month_start (k + int i + 1))) [0..<length ws] \<and> length ws \<le> n \<and>
    (ws \<noteq> [] \<longrightarrow> month_start (k + int (length ws)) \<le> en) \<and> month_ok (k + int (length ws)) \<and>
    (length ws < n \<longrightarrow> en < month_start (k + int (length ws) + 1))"
  using assms
proof (induction n arbitrary: k ws)
  case (Suc n)
  have k1: "k + 1 < 120000" and add: "instant_add_months (month_start k) 1 = Inr (month_start (k + 1))"
    using Suc.prems add_month_start [OF Suc.prems(1)] by (auto split: if_splits)
  show ?case
  proof (cases "month_start (k + 1) > en")
    case True
    then show ?thesis using Suc.prems add by simp
  next
    case False
    have ok: "month_ok (k + 1)" using Suc.prems(1) k1 by (simp add: month_ok_def)
    obtain vs where vs: "month_windows n (month_start (k + 1)) en = Inr vs" "ws = (month_start k, month_start (k + 1)) # vs"
      using Suc.prems(2) False add by (auto simp: bindE_Inr_iff)
    note ih = Suc.IH [OF ok vs(1)]
    have "map (\<lambda>i. (month_start (k + int i), month_start (k + int i + 1))) [0..<Suc (length vs)] =
        (month_start k, month_start (k + 1)) # map (\<lambda>i. (month_start (k + 1 + int i), month_start (k + 1 + int i + 1))) [0..<length vs]"
      by (simp add: upt_conv_Cons map_Suc_upt [symmetric] algebra_simps del: upt_Suc map_Suc_upt)
    moreover have "vs = map (\<lambda>i. (month_start (k + 1 + int i), month_start (k + 1 + int i + 1))) [0..<length vs]" using ih by blast
    ultimately have m: "ws = map (\<lambda>i. (month_start (k + int i), month_start (k + int i + 1))) [0..<length ws]"
      using vs(2) by (simp del: upt_Suc)
    show ?thesis using ih False m by (auto simp: vs(2) algebra_simps simp del: upt_Suc)
  qed
qed (simp add: month_ok_def)

lemma month_of_instant:
  assumes "valid_instant t"
  shows "month_ok (month_no (date_of t))" "month_start (month_no (date_of t)) \<le> t"
    "month_no (date_of t) + 1 < 120000 \<Longrightarrow> t < month_start (month_no (date_of t) + 1)"
    "midnight (fst (date_of t), fst (snd (date_of t)), 1) = month_start (month_no (date_of t))"
proof -
  obtain y m d where d: "date_of t = (y, m, d)" by (metis prod_cases3)
  note v = date_of_valid [OF assms]
  have b: "1 \<le> y" "y \<le> 9999" "1 \<le> m" "m \<le> 12" using v(1) by (auto simp: d valid_date_def)
  have k: "month_no (date_of t) = y * 12 + (m - 1)" by (simp add: d month_no_def)
  have dm: "(y * 12 + (m - 1)) div 12 = y" "(y * 12 + (m - 1)) mod 12 = m - 1" using b by auto
  show ok: "month_ok (month_no (date_of t))" using b by (simp add: k month_ok_def)
  show e: "midnight (fst (date_of t), fst (snd (date_of t)), 1) = month_start (month_no (date_of t))"
    using dm k by (simp add: month_start_def d)
  show "month_start (month_no (date_of t)) \<le> t"
    using before_midnight_first [OF assms b] e k by (simp add: d not_less [symmetric])
  show "t < month_start (month_no (date_of t) + 1)" if "month_no (date_of t) + 1 < 120000"
  proof -
    let ?k = "month_no (date_of t) + 1"
    have s: "1 \<le> ?k div 12" "?k div 12 \<le> 9999" "1 \<le> ?k mod 12 + 1" "?k mod 12 + 1 \<le> 12" using that b k by auto
    show ?thesis using before_midnight_first [OF assms s] month_split(1) [of ?k] by (simp add: month_start_def)
  qed
qed

text \<open>
  The fold windows are the calendar months that lie completely inside the tested period: they
  are consecutive, begin with the first month that does not begin before the period, end within
  it, and stop only at the cap or when the next month would not end within it.
\<close>

theorem month_windows_exact:
  assumes "ensure_utc start_ts = Inr st" and "ensure_utc end_ts = Inr en" and "st < en" and "0 < max_folds"
    and "monthly_validation_fold_windows start_ts end_ts max_folds = Inr ws"
  shows "\<exists>k. ws = map (\<lambda>i. (month_start (k + int i), month_start (k + int i + 1))) [0..<length ws] \<and>
    st \<le> month_start k \<and> month_start (k - 1) < st \<and> int (length ws) \<le> max_folds \<and>
    (ws \<noteq> [] \<longrightarrow> month_start (k + int (length ws)) \<le> en) \<and>
    (int (length ws) < max_folds \<longrightarrow> en < month_start (k + int (length ws) + 1))"
proof -
  let ?k = "month_no (date_of st)"
  have v: "valid_instant st" using assms(1) by (rule ensure_utc_valid)
  note m = month_of_instant [OF v]
  have run: "bindE (if st > month_start ?k then instant_add_months (month_start ?k) 1 else Inr (month_start ?k))
      (\<lambda>current. month_windows (nat max_folds) current en) = Inr ws"
    using assms m(4) by (simp add: monthly_validation_fold_windows_def Let_def not_le)
  show ?thesis
  proof (cases "st > month_start ?k")
    case True
    have k1: "?k + 1 < 120000" and w: "month_windows (nat max_folds) (month_start (?k + 1)) en = Inr ws"
      using run True add_month_start [OF m(1)] by (auto split: if_splits)
    have ok: "month_ok (?k + 1)" using m(1) k1 by (simp add: month_ok_def)
    show ?thesis using month_windows_closed [OF ok w] m(3) [OF k1] True assms(4)
      by (intro exI [of _ "?k + 1"]) auto
  next
    case False
    have w: "month_windows (nat max_folds) (month_start ?k) en = Inr ws" using run False by simp
    have e: "month_start ?k = st" using False m(2) by simp
    have "month_start (?k - 1) < month_start ?k"
    proof (cases "month_ok (?k - 1)")
      case True
      then show ?thesis using month_start_mono [OF True m(1)] by simp
    next
      case False
      then have "?k = 12" using m(1) by (auto simp: month_ok_def)
      then show ?thesis by (simp add: month_start_def midnight_def date_ord_def ymd2ord_def days_before_year_def days_before_month_def
          month_lengths_def is_leap_def us_per_day_def)
    qed
    then show ?thesis using month_windows_closed [OF m(1) w] e assms(4)
      by (intro exI [of _ ?k]) auto
  qed
qed

lemma demo_months:
  "monthly_validation_fold_windows (Aware (month_start 24289) 0) (Aware (month_start 24291) 0) 4 =
    Inr [(month_start 24289, month_start 24290), (month_start 24290, month_start 24291)]"
proof -
  have ok: "month_ok 24289" "month_ok 24290" "month_ok 24291" "month_ok 24292" by (simp_all add: month_ok_def)
  have lt: "month_start 24289 < month_start 24291" "month_start 24290 < month_start 24291" "month_start 24291 < month_start 24292"
    using month_start_mono ok by simp_all
  have d: "month_no (date_of (month_start 24289)) = 24289" by (simp add: month_ok_date(4) ok month_no_def)
  have n: "nat 4 = Suc (Suc (Suc (Suc 0)))" by simp
  have e: "ensure_utc (Aware (month_start 24289) 0) = Inr (month_start 24289)" "ensure_utc (Aware (month_start 24291) 0) = Inr (month_start 24291)"
    using month_ok_date(3) [OF ok(1)] month_ok_date(3) [OF ok(3)] by (simp_all add: ensure_utc_def)
  have first: "midnight (fst (date_of (month_start 24289)), fst (snd (date_of (month_start 24289))), 1) = month_start 24289"
    using month_of_instant(4) [OF month_ok_date(3) [OF ok(1)]] d by simp
  show ?thesis using lt
    unfolding monthly_validation_fold_windows_def e bindE_simps Let_def first n
    by (simp add: add_month_start ok)
qed

lemma month_windows_exact_witness:
  "\<exists>ws k. monthly_validation_fold_windows (Aware (month_start 24289) 0) (Aware (month_start 24291) 0) 4 = Inr ws \<and>
    length ws = 2 \<and> month_start (k + 2) \<le> month_start 24291"
proof -
  have ok: "month_ok 24289" "month_ok 24291" by (simp_all add: month_ok_def)
  have e: "ensure_utc (Aware (month_start 24289) 0) = Inr (month_start 24289)" "ensure_utc (Aware (month_start 24291) 0) = Inr (month_start 24291)"
    using month_ok_date(3) ok by (simp_all add: ensure_utc_def)
  have "month_start 24289 < month_start 24291" using month_start_mono ok by simp
  from month_windows_exact [OF e this _ demo_months] show ?thesis using demo_months by auto
qed

section \<open>Stability\<close>

lemma sorted_ends:
  fixes xs :: "'a::linorder list"
  assumes "xs \<noteq> []"
  shows "last (sorted_by id xs) \<in> set xs" "hd (sorted_by id xs) \<in> set xs"
    "\<forall>x \<in> set xs. hd (sorted_by id xs) \<le> x \<and> x \<le> last (sorted_by id xs)"
proof -
  let ?s = "sorted_by id xs"
  have ne: "?s \<noteq> []" using assms by (metis length_0_conv length_sorted_by)
  have so: "sorted ?s" using sorted_sorted_by [of id xs] by simp
  show "last ?s \<in> set xs" "hd ?s \<in> set xs" using last_in_set [OF ne] hd_in_set [OF ne] by simp_all
  have "x \<le> last ?s" if "x \<in> set ?s" for x
  proof -
    obtain ys z where s: "?s = ys @ [z]" using ne by (metis append_butlast_last_id)
    show ?thesis using so that unfolding s by (auto simp: sorted_append)
  qed
  moreover have "hd ?s \<le> x" if "x \<in> set ?s" for x
    using so ne that by (cases ?s) auto
  ultimately show "\<forall>x \<in> set xs. hd ?s \<le> x \<and> x \<le> last ?s" by simp
qed

text \<open>
  For valid fold metrics without NaN the stability summary always returns: it counts the folds
  and the profitable ones, its score is their correctly rounded share and lies in [0, 1], the best
  and worst returns bound all the others and are attained, and the folds are stable exactly when
  the score reaches the wanted share.  The order of the metrics does not matter.
\<close>

theorem stability_summary_exact:
  assumes "ms \<noteq> []" and "\<forall>m \<in> set ms. validate_metric m = Inr m \<and> fx_net m \<noteq> NaN" and "mset ms' = mset ms"
  shows "summarize_fold_stability ms' share = summarize_fold_stability ms share \<and>
    (\<exists>s q best worst. summarize_fold_stability ms share = Inr s \<and> st_folds s = int (length ms) \<and>
      st_positive s = int (length (filter (\<lambda>m. f_gt (fx_net m) (Fin 0)) ms)) \<and>
      st_score s = Fin q \<and> 0 \<le> q \<and> q \<le> 1 \<and> q = round53 (of_int (st_positive s) / of_int (st_folds s)) \<and>
      st_best s = Some best \<and> st_worst s = Some worst \<and> best \<in> fx_net ` set ms \<and> worst \<in> fx_net ` set ms \<and>
      (\<forall>m \<in> set ms. f_le worst (fx_net m) \<and> f_le (fx_net m) best) \<and> (st_pass s \<longleftrightarrow> f_ge (st_score s) share))"
proof -
  define xs where "xs = map fx_net ms"
  define rs where "rs = sorted_by id xs"
  define pos where "pos = int (length (filter (\<lambda>v. f_gt v (Fin 0)) rs))"
  have val: "mapE validate_metric ys = Inr ys" if "set ys = set ms" for ys
    using mapE_all [of ys validate_metric id] assms(2) that by simp
  have sets: "set ms' = set ms" using assms(3) by (metis set_mset_mset)
  have ne: "xs \<noteq> []" "ms' \<noteq> []" using assms(1,3) by (auto simp: xs_def)
  have same: "sorted_by id (map fx_net ms') = rs" unfolding rs_def xs_def
    by (rule sorted_by_mset_eq) (use assms(3) in simp_all)
  have lr: "length rs = length ms" by (simp add: rs_def xs_def)
  have pf: "pos = int (length (filter (\<lambda>m. f_gt (fx_net m) (Fin 0)) ms))"
  proof -
    have "mset (filter (\<lambda>v. f_gt v (Fin 0)) rs) = mset (filter (\<lambda>v. f_gt v (Fin 0)) xs)"
      by (simp add: rs_def sorted_by_def)
    then have "length (filter (\<lambda>v. f_gt v (Fin 0)) rs) = length (filter (\<lambda>v. f_gt v (Fin 0)) xs)" by (metis size_mset)
    then show ?thesis by (simp add: pos_def xs_def filter_map comp_def)
  qed
  have le: "0 \<le> pos" "pos \<le> int (length rs)" "0 < int (length rs)" using ne(1) length_filter_le [of _ rs] lr assms(1) by (auto simp: pos_def)
  obtain q where q: "int_truediv pos (int (length rs)) = Inr (Fin q)" "0 \<le> q" "q \<le> 1" "q = round53 (of_int pos / of_int (int (length rs)))"
    using int_truediv_ratio [OF le] by blast
  define s where "s = \<lparr>st_folds = int (length rs), st_positive = pos, st_score = Fin q, st_median = Some (median_of rs),
    st_best = Some (last rs), st_worst = Some (hd rs), st_pass = f_ge (Fin q) share\<rparr>"
  have vs: "validate_stability s = Inr s" using le q by (auto simp: validate_stability_def validate_model_Inr_iff s_def in_unit_def)
  have run: "summarize_fold_stability ys share = Inr s" if "set ys = set ms" "ys \<noteq> []" "sorted_by id (map fx_net ys) = rs" for ys
    using val [OF that(1)] that(2,3) q(1) vs by (simp add: summarize_fold_stability_def Let_def pos_def s_def)
  have nn: "x \<noteq> NaN" if "x \<in> set xs" for x using that assms(2) by (auto simp: xs_def)
  note e = sorted_ends [OF ne(1), folded rs_def]
  have bounds: "f_le (hd rs) (fx_net m) \<and> f_le (fx_net m) (last rs)" if "m \<in> set ms" for m
  proof -
    have "fx_net m \<in> set xs" using that by (simp add: xs_def)
    then show ?thesis using e nn f_le_iff_le by blast
  qed
  have "summarize_fold_stability ms share = Inr s" by (rule run) (use assms(1) in \<open>simp_all add: rs_def xs_def\<close>)
  moreover have "summarize_fold_stability ms' share = Inr s" by (rule run [OF sets ne(2) same])
  moreover have "last rs \<in> fx_net ` set ms" "hd rs \<in> fx_net ` set ms" using e by (simp_all add: xs_def)
  ultimately show ?thesis using q pf lr bounds
    by (intro conjI exI [of _ s] exI [of _ q] exI [of _ "last rs"] exI [of _ "hd rs"]) (simp_all add: s_def)
qed

definition demo_metric :: "int \<Rightarrow> fold_metric" where
  "demo_metric n = \<lparr>fx_id = ''fold'', fx_net = Fin (of_int n), fx_gross = None, fx_trades = Some 3, fx_stable = True\<rparr>"

lemma stability_summary_exact_witness:
  "\<exists>s. summarize_fold_stability [demo_metric 2, demo_metric (- 1)] (Fin (1/2)) = Inr s \<and> st_folds s = 2"
proof -
  have "\<forall>m \<in> set [demo_metric 2, demo_metric (- 1)]. validate_metric m = Inr m \<and> fx_net m \<noteq> NaN"
    by (simp add: demo_metric_def validate_metric_def validate_model_def)
  from stability_summary_exact [OF _ this refl, of "Fin (1/2)"] show ?thesis by auto
qed

end
