(* ===== verification/Overfit.thy ===== *)
theory Overfit
  imports WalkForwardProps
begin

text \<open>
  \<open>validation/overfit.py\<close>: completeness of a parameter sweep, the report on a family of trials with
  its estimate of the probability of overfitting, and the lockbox check on tuning.  Returns are
  doubles other than NaN, on which Python's sort has no order.
\<close>

section \<open>Records\<close>

record trial =
  tr_schema :: string
  tr_run :: string
  tr_experiment :: string
  tr_family :: string
  tr_net :: pyfloat
  tr_folds :: "pyfloat list"
  tr_status :: string
  tr_research_only :: bool
  tr_observe_only :: bool
  tr_promotion_ready :: bool

definition validate_trial :: "trial \<Rightarrow> trial result" where
  "validate_trial t = validate_model
     [(tr_run t \<noteq> [], ''run_id''), (tr_experiment t \<noteq> [], ''experiment_id''), (tr_family t \<noteq> [], ''family_id'')]
     [(\<not> three_flags_ok (tr_research_only t) (tr_observe_only t) (tr_promotion_ready t),
        ''trial results must preserve the v2 research boundary'')] t"

record sweep_report =
  sw_experiment :: string
  sw_expected :: int
  sw_observed :: int
  sw_missing :: "string list"
  sw_unexpected :: "string list"
  sw_complete :: bool

definition validate_sweep :: "sweep_report \<Rightarrow> sweep_report result" where
  "validate_sweep r = validate_model
     [(sw_experiment r \<noteq> [], ''experiment_id''), (0 \<le> sw_expected r, ''expected_trial_count''),
      (0 \<le> sw_observed r, ''observed_trial_count'')] [] r"

record family_report =
  fr_experiment :: string
  fr_family :: string
  fr_trials :: int
  fr_folds :: int
  fr_best_run :: string
  fr_best_net :: pyfloat
  fr_median :: pyfloat
  fr_gap :: pyfloat
  fr_pbo :: "pyfloat option"
  fr_pbo_ran :: bool
  fr_large_weak :: bool
  fr_stability :: "pyfloat option"
  fr_status :: string
  fr_blockers :: "string list"

definition opt_in_unit :: "pyfloat option \<Rightarrow> bool" where
  "opt_in_unit x = (case x of None \<Rightarrow> True | Some v \<Rightarrow> in_unit v)"

definition validate_family_report :: "family_report \<Rightarrow> family_report result" where
  "validate_family_report r = validate_model
     [(fr_experiment r \<noteq> [], ''experiment_id''), (fr_family r \<noteq> [], ''family_id''), (0 \<le> fr_trials r, ''trial_count''),
      (0 \<le> fr_folds r, ''fold_count''), (opt_in_unit (fr_pbo r), ''pbo_score''),
      (opt_in_unit (fr_stability r), ''fold_stability_score'')] [] r"

section \<open>Sweeps\<close>

text \<open>\<open>sorted(a - b)\<close> on sets of texts.\<close>

definition sorted_difference :: "string list \<Rightarrow> string list \<Rightarrow> string list" where
  "sorted_difference xs ys = sorted_by id (filter (\<lambda>x. x \<notin> set ys) (uniq xs))"

definition check_sweep_completeness :: "string \<Rightarrow> string list \<Rightarrow> string list \<Rightarrow> sweep_report result" where
  "check_sweep_completeness experiment expected observed =
     bindE (guardE (experiment \<noteq> []) (ValueError ''sweep experiment_id is required'')) (\<lambda>_.
     let missing = sorted_difference expected observed; unexpected = sorted_difference observed expected in
     validate_sweep \<lparr>sw_experiment = experiment, sw_expected = int (length (uniq expected)),
       sw_observed = int (length (uniq observed)), sw_missing = missing, sw_unexpected = unexpected,
       sw_complete = (missing = [] \<and> unexpected = [])\<rparr>)"

definition require_complete_sweep :: "sweep_report \<Rightarrow> unit result" where
  "require_complete_sweep r = guardE (sw_complete r) (ValueError ''sweep_trial_logging_incomplete'')"

section \<open>Families of trials\<close>

text \<open>\<open>sorted_values.index(v)\<close>\<close>

fun index_of :: "pyfloat \<Rightarrow> pyfloat list \<Rightarrow> nat result" where
  "index_of v [] = Inl (ValueError ''value is not in list'')"
| "index_of v (x # xs) = (if f_eq x v then Inr 0 else bindE (index_of v xs) (\<lambda>n. Inr (Suc n)))"

definition fold_values :: "trial list \<Rightarrow> nat \<Rightarrow> pyfloat list" where
  "fold_values trials i = map (\<lambda>t. tr_folds t ! i) (filter (\<lambda>t. i < length (tr_folds t)) trials)"

text \<open>Whether the best trial is in the bottom half of fold \<open>i\<close>; \<open>rank < n / 2\<close> is \<open>2 * rank < n\<close>.\<close>

definition in_bottom_half :: "trial list \<Rightarrow> trial \<Rightarrow> nat \<Rightarrow> bool result" where
  "in_bottom_half trials best i =
     (let values = fold_values trials i in
      if values = [] then Inr False
      else bindE (index_of (tr_folds best ! i) (sorted_by id values)) (\<lambda>rank. Inr (2 * rank < length values)))"

definition pbo_score :: "trial list \<Rightarrow> trial \<Rightarrow> pyfloat result" where
  "pbo_score trials best =
     bindE (mapE (in_bottom_half trials best) [0..<length (tr_folds best)]) (\<lambda>bs.
     if tr_folds best = [] then Inr (Fin 0)
     else int_truediv (int (length (filter id bs))) (int (length (tr_folds best))))"

text \<open>\<open>sorted(xs, key=k, reverse=True)\<close> keeps the order of elements with the same key.\<close>

definition sorted_desc :: "('a \<Rightarrow> 'k::linorder) \<Rightarrow> 'a list \<Rightarrow> 'a list" where
  "sorted_desc k xs = rev (sorted_by k (rev xs))"

definition trial_key :: "trial \<Rightarrow> pyfloat \<times> string" where
  "trial_key t = (tr_net t, tr_run t)"

definition best_trial :: "trial list \<Rightarrow> trial" where
  "best_trial ts = hd (sorted_desc trial_key ts)"

definition stability_of :: "trial \<Rightarrow> pyfloat option result" where
  "stability_of best = (if tr_folds best = [] then Inr None
     else bindE (int_truediv (int (length (filter (\<lambda>v. f_gt v (Fin 0)) (tr_folds best)))) (int (length (tr_folds best))))
       (\<lambda>s. Inr (Some s)))"

definition trial_family_report :: "trial list \<Rightarrow> int \<Rightarrow> int \<Rightarrow> family_report result" where
  "trial_family_report trials min_trials_for_pbo large_family_threshold =
     bindE (mapE validate_trial trials) (\<lambda>parsed.
     bindE (guardE (parsed \<noteq> []) (ValueError ''trial family report requires trials'')) (\<lambda>_.
     let experiments = uniq (map tr_experiment parsed) in
     bindE (guardE (\<not> ('''' \<in> set experiments \<or> length experiments \<noteq> 1))
       (ValueError ''validation_rejects_missing_or_mixed_experiment_id_for_sweep'')) (\<lambda>_.
     bindE (guardE (length (uniq (map tr_family parsed)) = 1) (ValueError ''trial family report requires one family_id'')) (\<lambda>_.
     let best = best_trial parsed;
         median = median_of (sorted_by id (map tr_net parsed));
         n = int (length parsed);
         folds = Max (set (map (\<lambda>t. length (tr_folds t)) parsed));
         ran = (n \<ge> min_trials_for_pbo \<and> folds \<ge> 2);
         large_weak = (n \<ge> large_family_threshold \<and> f_le median (Fin 0) \<and> f_gt (tr_net best) (Fin 0)) in
     bindE (if ran then bindE (pbo_score parsed best) (\<lambda>p. Inr (Some p)) else Inr None) (\<lambda>pbo.
     bindE (stability_of best) (\<lambda>stab.
     let blockers = (if large_weak then [''large_weak_family_best_result_warning''] else []) @
           (case pbo of None \<Rightarrow> [] | Some p \<Rightarrow> if f_ge p (Fin (1/2)) then [''pbo_overfit_warning''] else []) in
     validate_family_report \<lparr>fr_experiment = tr_experiment (hd parsed), fr_family = tr_family (hd parsed), fr_trials = n,
       fr_folds = int folds, fr_best_run = tr_run best, fr_best_net = tr_net best, fr_median = median,
       fr_gap = f_sub (tr_net best) median, fr_pbo = pbo, fr_pbo_ran = ran, fr_large_weak = large_weak,
       fr_stability = stab, fr_status = (if blockers \<noteq> [] then ''warning'' else ''pass''), fr_blockers = blockers\<rparr>))))))"

definition reject_post_lockbox_parameter_tuning :: "pydatetime \<Rightarrow> pydatetime \<Rightarrow> unit result" where
  "reject_post_lockbox_parameter_tuning tuned_at lockbox_start =
     bindE (ensure_utc tuned_at) (\<lambda>tuned. bindE (ensure_utc lockbox_start) (\<lambda>lockbox.
     guardE (\<not> tuned \<ge> lockbox) (ValueError ''post_lockbox_parameter_tuning_rejected'')))"

section \<open>Properties\<close>

text \<open>
  A sweep passes the completeness check exactly when the observed trials are the expected ones;
  otherwise the report lists, sorted and once each, what is missing and what is unexpected.
\<close>

theorem sweep_completeness_exact:
  assumes "experiment \<noteq> []"
  shows "\<exists>r. check_sweep_completeness experiment expected observed = Inr r \<and>
    (require_complete_sweep r = Inr () \<longleftrightarrow> set expected = set observed) \<and>
    set (sw_missing r) = set expected - set observed \<and> set (sw_unexpected r) = set observed - set expected \<and>
    sorted (sw_missing r) \<and> distinct (sw_missing r) \<and> sorted (sw_unexpected r) \<and> distinct (sw_unexpected r) \<and>
    sw_expected r = int (card (set expected)) \<and> sw_observed r = int (card (set observed))"
proof -
  have d: "set (sorted_difference a b) = set a - set b" "distinct (sorted_difference a b)" "sorted (sorted_difference a b)" for a b
    using sorted_sorted_by [of id "filter (\<lambda>x. x \<notin> set b) (uniq a)"] by (auto simp: sorted_difference_def)
  have e: "sorted_difference a b = [] \<longleftrightarrow> set a \<subseteq> set b" for a b using d(1) [of a b] by (metis Diff_eq_empty_iff set_empty)
  have u: "length (uniq a) = card (set a)" for a :: "string list" using distinct_card [OF distinct_uniq [of a]] by simp
  show ?thesis using assms d e u
    by (auto simp: check_sweep_completeness_def validate_sweep_def validate_model_def require_complete_sweep_def Let_def)
qed

lemma sweep_completeness_exact_witness:
  "\<exists>r. check_sweep_completeness ''e'' [''b'', ''a'', ''b''] [''a''] = Inr r \<and> set (sw_missing r) = {''b''}"
  using sweep_completeness_exact [of "''e''" "[''b'', ''a'', ''b'']" "[''a'']"] by auto

lemma index_of_sorted:
  assumes "sorted s" "v \<in> set s" "NaN \<notin> set s"
  shows "index_of v s = Inr (length (filter (\<lambda>x. x < v) s))"
  using assms
proof (induction s)
  case (Cons x s)
  show ?case
  proof (cases "x = v")
    case True
    then have "filter (\<lambda>y. y < v) s = []" using Cons.prems(1) by (auto simp: filter_empty_conv not_less)
    moreover have "v \<noteq> NaN" using Cons.prems(2,3) by metis
    ultimately show ?thesis using True f_eq_iff_eq [of v v] by simp
  next
    case False
    then have "v \<in> set s" "x < v" using Cons.prems by auto
    moreover have "x \<noteq> NaN" "v \<noteq> NaN" using Cons.prems(2,3) by auto
    ultimately show ?thesis using False Cons f_eq_iff_eq [of x v] by simp
  qed
qed simp

lemma rank_of_value:
  assumes "v \<in> set xs" "NaN \<notin> set xs"
  shows "index_of v (sorted_by id xs) = Inr (length (filter (\<lambda>x. f_lt x v) xs))"
proof -
  have "mset (filter (\<lambda>x. x < v) (sorted_by id xs)) = mset (filter (\<lambda>x. x < v) xs)" by (simp add: sorted_by_def)
  then have "length (filter (\<lambda>x. x < v) (sorted_by id xs)) = length (filter (\<lambda>x. x < v) xs)" by (metis size_mset)
  moreover have "filter (\<lambda>x. x < v) xs = filter (\<lambda>x. f_lt x v) xs"
    by (rule filter_cong) (use assms f_lt_iff_less in \<open>simp, metis\<close>)
  ultimately show ?thesis using index_of_sorted [of "sorted_by id xs" v] assms sorted_sorted_by [of id xs] by simp
qed

text \<open>The folds in which fewer than half of the trials are below the best one.\<close>

definition below :: "trial list \<Rightarrow> trial \<Rightarrow> nat \<Rightarrow> nat" where
  "below trials best i = length (filter (\<lambda>x. f_lt x (tr_folds best ! i)) (fold_values trials i))"

definition weak_folds :: "trial list \<Rightarrow> trial \<Rightarrow> nat" where
  "weak_folds trials best = length (filter (\<lambda>i. 2 * below trials best i < length (fold_values trials i)) [0..<length (tr_folds best)])"

definition no_nan :: "trial list \<Rightarrow> bool" where
  "no_nan ts \<longleftrightarrow> (\<forall>t \<in> set ts. tr_net t \<noteq> NaN \<and> NaN \<notin> set (tr_folds t))"

lemma fold_values_in:
  "best \<in> set trials \<Longrightarrow> i < length (tr_folds best) \<Longrightarrow> tr_folds best ! i \<in> set (fold_values trials i)"
  by (force simp: fold_values_def)

lemma bottom_half:
  assumes "no_nan trials" "best \<in> set trials" "i < length (tr_folds best)"
  shows "in_bottom_half trials best i = Inr (2 * below trials best i < length (fold_values trials i))"
proof -
  have v: "tr_folds best ! i \<in> set (fold_values trials i)" by (rule fold_values_in [OF assms(2,3)])
  have n: "NaN \<notin> set (fold_values trials i)" using assms(1) nth_mem by (fastforce simp: fold_values_def no_nan_def)
  have "fold_values trials i \<noteq> []" using v by auto
  then show ?thesis using rank_of_value [OF v n] by (simp add: in_bottom_half_def Let_def below_def)
qed

lemma pbo_score_closed:
  assumes "no_nan trials" "best \<in> set trials"
  shows "\<exists>q. pbo_score trials best = Inr (Fin q) \<and> 0 \<le> q \<and> q \<le> 1 \<and>
    q = (if tr_folds best = [] then 0 else round53 (of_nat (weak_folds trials best) / of_nat (length (tr_folds best))))"
proof -
  let ?g = "\<lambda>i. 2 * below trials best i < length (fold_values trials i)"
  have m: "mapE (in_bottom_half trials best) [0..<length (tr_folds best)] = Inr (map ?g [0..<length (tr_folds best)])"
    by (rule mapE_all) (use bottom_half [OF assms] in simp)
  show ?thesis
  proof (cases "tr_folds best = []")
    case False
    have k: "length (filter id (map ?g [0..<length (tr_folds best)])) = weak_folds trials best"
      by (simp add: weak_folds_def filter_map comp_def)
    have "weak_folds trials best \<le> length [0..<length (tr_folds best)]" unfolding weak_folds_def by (rule length_filter_le)
    then have le: "(0::int) \<le> int (weak_folds trials best)" "int (weak_folds trials best) \<le> int (length (tr_folds best))"
      "0 < int (length (tr_folds best))" using False by simp_all
    show ?thesis using int_truediv_ratio [OF le] False m k by (simp add: pbo_score_def)
  qed (simp add: pbo_score_def m)
qed

lemma best_trial_max:
  assumes "ts \<noteq> []"
  shows "best_trial ts \<in> set ts" "\<forall>t \<in> set ts. trial_key t \<le> trial_key (best_trial ts)"
proof -
  define s where "s = sorted_by trial_key (rev ts)"
  have ne: "s \<noteq> []" using assms by (metis length_0_conv length_sorted_by length_rev s_def)
  have b: "best_trial ts = last s" using ne by (simp add: best_trial_def sorted_desc_def s_def hd_rev)
  have ss: "set s = set ts" by (simp add: s_def)
  show "best_trial ts \<in> set ts" using b last_in_set [OF ne] ss by simp
  obtain xs z where z: "s = xs @ [z]" using ne by (metis append_butlast_last_id)
  have "sorted (map trial_key s)" by (simp add: s_def sorted_sorted_by)
  then show "\<forall>t \<in> set ts. trial_key t \<le> trial_key (best_trial ts)" 
    using b last_in_set [OF ne] ss unfolding z by (simp add: sorted_append) (metis Un_iff empty_iff insert_iff order_refl)
qed

lemma stability_of_total: "\<exists>s. stability_of best = Inr s \<and> opt_in_unit s"
proof (cases "tr_folds best = []")
  case False
  have le: "(0::int) \<le> int (length (filter (\<lambda>v. f_gt v (Fin 0)) (tr_folds best)))"
    "int (length (filter (\<lambda>v. f_gt v (Fin 0)) (tr_folds best))) \<le> int (length (tr_folds best))" "0 < int (length (tr_folds best))"
    using False by (simp_all add: length_filter_le)
  show ?thesis using int_truediv_ratio [OF le] False by (auto simp: stability_of_def opt_in_unit_def in_unit_def)
qed (simp add: stability_of_def opt_in_unit_def)


definition sample_trial :: "string \<Rightarrow> pyfloat \<Rightarrow> pyfloat list \<Rightarrow> trial" where
  "sample_trial run net folds = \<lparr>tr_schema = V2_SCHEMA_VERSION, tr_run = run, tr_experiment = ''e'', tr_family = ''f'',
     tr_net = net, tr_folds = folds, tr_status = ''ok'', tr_research_only = True, tr_observe_only = True,
     tr_promotion_ready = False\<rparr>"


text \<open>
  The score sees only the folds the best trial has: a best trial that logged no fold gets the score 0
  although the diagnostic counts as having run on the folds of the other trials.
\<close>

lemma pbo_without_folds_is_zero:
  "pbo_score ts (sample_trial run net []) = Inr (Fin 0)"
  by (simp add: pbo_score_def sample_trial_def)

end
