(* ===== verification/LeadModels.thy ===== *)
theory LeadModels
  imports Tables Boundary
begin

text \<open>
  \<open>lead_book/schemas.py\<close>: the states of a lead, the row of the Lead Book and the records of a queue
  scan, each with its validator.  The five timestamps of a row are datetimes as they were given:
  the validator replaces them by the same instants in UTC, \<open>model_copy\<close> does not.
\<close>

section \<open>States\<close>

datatype lead_state = IDEA_ONLY | SANDBOX_SCREENED | HUMAN_INSPECTION_REQUESTED | HUMAN_INSPECTION_COMPLETED
  | AGENT_APPROVED_AFTER_HUMAN_INSPECTION | DEEP_VALIDATION_REQUESTED | DEEP_VALIDATION_APPROVED
  | DEEP_VALIDATION_RUNNING | DEEP_VALIDATION_REJECTED | FINAL_TEST_CANDIDATE | FINAL_TEST_REJECTED | FINAL_TEST_SURVIVOR

fun lead_state_value :: "lead_state \<Rightarrow> string" where
  "lead_state_value IDEA_ONLY = ''idea_only''"
| "lead_state_value SANDBOX_SCREENED = ''sandbox_screened''"
| "lead_state_value HUMAN_INSPECTION_REQUESTED = ''human_inspection_requested''"
| "lead_state_value HUMAN_INSPECTION_COMPLETED = ''human_inspection_completed''"
| "lead_state_value AGENT_APPROVED_AFTER_HUMAN_INSPECTION = ''agent_approved_after_human_inspection''"
| "lead_state_value DEEP_VALIDATION_REQUESTED = ''deep_validation_requested''"
| "lead_state_value DEEP_VALIDATION_APPROVED = ''deep_validation_approved''"
| "lead_state_value DEEP_VALIDATION_RUNNING = ''deep_validation_running''"
| "lead_state_value DEEP_VALIDATION_REJECTED = ''deep_validation_rejected''"
| "lead_state_value FINAL_TEST_CANDIDATE = ''final_test_candidate''"
| "lead_state_value FINAL_TEST_REJECTED = ''final_test_rejected''"
| "lead_state_value FINAL_TEST_SURVIVOR = ''final_test_survivor''"

datatype inspection = INSPECTION_NOT_REQUESTED | INSPECTION_REQUESTED | INSPECTION_COMPLETED | INSPECTION_REJECTED

fun inspection_value :: "inspection \<Rightarrow> string" where
  "inspection_value INSPECTION_NOT_REQUESTED = ''not_requested''"
| "inspection_value INSPECTION_REQUESTED = ''requested''"
| "inspection_value INSPECTION_COMPLETED = ''completed''"
| "inspection_value INSPECTION_REJECTED = ''rejected''"

datatype approval = NOT_REVIEWED | APPROVED_AFTER_HUMAN_INSPECTION | APPROVAL_REJECTED | NEEDS_MORE_INFO

fun approval_value :: "approval \<Rightarrow> string" where
  "approval_value NOT_REVIEWED = ''not_reviewed''"
| "approval_value APPROVED_AFTER_HUMAN_INSPECTION = ''approved_after_human_inspection''"
| "approval_value APPROVAL_REJECTED = ''rejected''"
| "approval_value NEEDS_MORE_INFO = ''needs_more_info''"

datatype roi_confidence = ROI_LOW | ROI_MEDIUM | ROI_HIGH | ROI_UNKNOWN

datatype severity = GATE_PASS | GATE_WARNING | GATE_FAIL

definition deep_states :: "lead_state list" where
  "deep_states = [DEEP_VALIDATION_REQUESTED, DEEP_VALIDATION_APPROVED, DEEP_VALIDATION_RUNNING,
     FINAL_TEST_CANDIDATE, FINAL_TEST_REJECTED, FINAL_TEST_SURVIVOR]"

section \<open>Summaries\<close>

record trade_summary =
  ts_avg :: pyfloat
  ts_total :: int

definition trade_fields :: "trade_summary \<Rightarrow> (bool \<times> string) list" where
  "trade_fields s = [(f_ge (ts_avg s) (Fin 0), ''avg_trades_per_month''), (0 \<le> ts_total s, ''total_trades'')]"

record monthly_summary =
  ms_usable :: int
  ms_losing :: int
  ms_positive :: int
  ms_fallback :: "string option"

definition monthly_fields :: "monthly_summary \<Rightarrow> (bool \<times> string) list" where
  "monthly_fields s = [(0 \<le> ms_usable s, ''usable_months''), (0 \<le> ms_losing s, ''losing_months_12m''),
     (0 \<le> ms_positive s, ''positive_months_12m'')]"

record pnl_summary =
  ps_top2 :: pyfloat
  ps_best_month :: pyfloat

definition pnl_fields :: "pnl_summary \<Rightarrow> (bool \<times> string) list" where
  "pnl_fields s = [(f_ge (ps_top2 s) (Fin 0), ''top_2_trades_profit_share''),
     (f_ge (ps_best_month s) (Fin 0), ''best_month_profit_share'')]"

section \<open>Rows\<close>

record lead =
  l_schema :: string
  l_id :: string
  l_version :: string
  l_created_at :: pydatetime
  l_created_by_type :: string
  l_created_by :: string
  l_source_type :: string
  l_source_path :: string
  l_source_sha256 :: string
  l_family :: string
  l_thesis :: string
  l_venue_scope :: string
  l_universe_scope :: string
  l_instruments :: "string list"
  l_hip3 :: bool
  l_start :: pydatetime
  l_end :: pydatetime
  l_data_source :: string
  l_archive_snapshot :: "string option"
  l_universe_snapshot :: "string option"
  l_feature_snapshot :: "string option"
  l_cost :: string
  l_funding :: string
  l_slippage :: string
  l_fill :: string
  l_metrics :: "(string \<times> json) list"
  l_roi_observed :: pyfloat
  l_roi_projected :: pyfloat
  l_roi_assumptions :: string
  l_roi_confidence :: roi_confidence
  l_roi_not_claim :: bool
  l_why :: string
  l_blockers :: "string list"
  l_missing :: "string list"
  l_next :: "string list"
  l_trades :: trade_summary
  l_monthly :: monthly_summary
  l_pnl :: pnl_summary
  l_diminishing :: bool
  l_fallback_absent :: bool
  l_inspection :: inspection
  l_inspected_by :: "string option"
  l_inspected_at :: "pydatetime option"
  l_inspection_notes :: "string option"
  l_approval :: approval
  l_approver :: "string option"
  l_approved_at :: "pydatetime option"
  l_state :: lead_state
  l_non_promotable :: "string list"
  l_notes :: string
  l_flags :: flags

text \<open>
  \<open>_utc_timestamps\<close>.  A naive datetime fails its field; one that leaves the calendar on the way to UTC
  raises an OverflowError, which is no ValueError and ends the construction.
\<close>

definition utc_field :: "pydatetime \<Rightarrow> pydatetime result" where
  "utc_field v = bindE (ensure_utc v) (\<lambda>t. Inr (Aware t 0))"

fun utc_optional :: "pydatetime option \<Rightarrow> pydatetime option result" where
  "utc_optional None = Inr None"
| "utc_optional (Some v) = bindE (utc_field v) (\<lambda>u. Inr (Some u))"

text \<open>Whether the field passes, where it does not raise.\<close>

definition timestamp_given :: "pydatetime \<Rightarrow> bool" where
  "timestamp_given v \<longleftrightarrow> (case v of Naive _ \<Rightarrow> False | Aware _ _ \<Rightarrow> True)"

definition timestamp_overflows :: "pydatetime \<Rightarrow> bool" where
  "timestamp_overflows v \<longleftrightarrow> (case v of Naive _ \<Rightarrow> False | Aware l off \<Rightarrow> \<not> valid_instant (l - off))"

definition lead_times :: "lead \<Rightarrow> (pydatetime \<times> string) list" where
  "lead_times r = [(l_created_at r, ''created_at''), (l_start r, ''data_window_start''), (l_end r, ''data_window_end'')] @
     (case l_inspected_at r of None \<Rightarrow> [] | Some v \<Rightarrow> [(v, ''human_inspected_at'')]) @
     (case l_approved_at r of None \<Rightarrow> [] | Some v \<Rightarrow> [(v, ''approved_at'')])"

definition lead_fields :: "lead \<Rightarrow> (bool \<times> string) list" where
  "lead_fields r =
     [(l_id r \<noteq> [], ''lead_id''), (l_created_by_type r \<noteq> [], ''created_by_type''), (l_created_by r \<noteq> [], ''created_by_id''),
      (l_source_type r \<noteq> [], ''source_type''), (l_source_path r \<noteq> [], ''source_artifact_path''),
      (length (l_source_sha256 r) = 64, ''source_artifact_sha256''), (l_family r \<noteq> [], ''strategy_family''),
      (l_thesis r \<noteq> [], ''economic_thesis''), (l_venue_scope r \<noteq> [], ''venue_scope''),
      (l_universe_scope r \<noteq> [], ''universe_scope''), (l_data_source r \<noteq> [], ''data_source''),
      (l_cost r \<noteq> [], ''cost_assumptions''), (l_funding r \<noteq> [], ''funding_assumptions''),
      (l_slippage r \<noteq> [], ''slippage_assumptions''), (l_fill r \<noteq> [], ''fill_assumptions''),
      (l_roi_assumptions r \<noteq> [], ''roi_projection_assumptions''), (l_why r \<noteq> [], ''why_interesting'')] @
     trade_fields (l_trades r) @ monthly_fields (l_monthly r) @ pnl_fields (l_pnl r) @
     map (\<lambda>(v, n). (timestamp_given v, n)) (lead_times r)"

definition lead_checks :: "lead \<Rightarrow> (bool \<times> string) list" where
  "lead_checks r =
     [(local_us (l_end r) \<le> local_us (l_start r), ''lead data_window_end must be after data_window_start''),
      (l_instruments r = [], ''lead instrument_scope must not be empty''),
      (\<not> l_roi_not_claim r, ''roi_projection_is_not_claim must be true''),
      (''lead_not_candidate'' \<notin> set (l_non_promotable r), ''lead rows require non_promotable lead_not_candidate flag''),
      (l_approval r = APPROVED_AFTER_HUMAN_INSPECTION \<and> l_inspection r \<noteq> INSPECTION_COMPLETED,
        ''agent_approval_requires_human_inspection''),
      (l_state r \<in> set deep_states \<and> l_inspection r \<noteq> INSPECTION_COMPLETED,
        ''deep_validation_requires_human_inspection_completed''),
      (l_state r \<in> set deep_states \<and> l_approval r \<noteq> APPROVED_AFTER_HUMAN_INSPECTION,
        ''deep_validation_requires_agent_approval_after_human_inspection'')]"

text \<open>A ValueError raised inside a model validator becomes a validation failure.\<close>

fun as_validation :: "'a result \<Rightarrow> 'a result" where
  "as_validation (Inl (ResearchBoundaryError m)) = Inl (ValidationError [m])"
| "as_validation r = r"

definition boundary_checked :: "string \<Rightarrow> flags \<Rightarrow> 'a \<Rightarrow> 'a result" where
  "boundary_checked what fs r = bindE (as_validation (require_research_boundary (flags_payload fs) what True)) (\<lambda>_. Inr r)"

definition normalise_lead :: "lead \<Rightarrow> lead result" where
  "normalise_lead r =
     bindE (utc_field (l_created_at r)) (\<lambda>c. bindE (utc_field (l_start r)) (\<lambda>s. bindE (utc_field (l_end r)) (\<lambda>e.
     bindE (utc_optional (l_inspected_at r)) (\<lambda>i. bindE (utc_optional (l_approved_at r)) (\<lambda>a.
     Inr (r\<lparr>l_created_at := c, l_start := s, l_end := e, l_inspected_at := i, l_approved_at := a\<rparr>))))))"

definition validate_lead :: "lead \<Rightarrow> lead result" where
  "validate_lead r =
     bindE (guardE (\<not> list_ex (\<lambda>(v, _). timestamp_overflows v) (lead_times r)) (OverflowError ''date value out of range'')) (\<lambda>_.
     bindE (validate_model (lead_fields r) [] r) (\<lambda>_.
     bindE (normalise_lead r) (\<lambda>r'.
     bindE (validate_model [] (lead_checks r') r') (\<lambda>_.
     boundary_checked ''lead row'' (l_flags r') r'))))"

record gate_result =
  gr_lead :: string
  gr_status :: severity
  gr_warnings :: "string list"
  gr_failures :: "string list"
  gr_avg :: pyfloat
  gr_usable :: int

definition validate_gate_result :: "gate_result \<Rightarrow> gate_result result" where
  "validate_gate_result r = validate_model
     [(gr_lead r \<noteq> [], ''lead_id''), (f_ge (gr_avg r) (Fin 0), ''avg_trades_per_month''), (0 \<le> gr_usable r, ''usable_months'')] [] r"

section \<open>Queue scans\<close>

definition LEAD_BOOK_SCAN_EVIDENCE_MODE :: string where
  "LEAD_BOOK_SCAN_EVIDENCE_MODE = ''lead_book_queue_scan''"

record scan_config =
  sc_book :: string
  sc_output :: string
  sc_states :: "lead_state list"
  sc_max_rows :: int
  sc_mode :: string
  sc_accepted :: bool
  sc_flags :: flags

definition validate_scan_config :: "scan_config \<Rightarrow> scan_config result" where
  "validate_scan_config r = bindE (validate_model
     [(sc_book r \<noteq> [], ''lead_book_path''), (sc_output r \<noteq> [], ''output_path''), (sc_states r \<noteq> [], ''states''),
      (1 \<le> sc_max_rows r \<and> sc_max_rows r \<le> 10000, ''max_rows'')]
     [(sc_mode r \<noteq> LEAD_BOOK_SCAN_EVIDENCE_MODE, ''lead book scan evidence_mode must be lead_book_queue_scan''),
      (sc_accepted r, ''lead book scans are queue visibility only'')] r) (\<lambda>_.
     boundary_checked ''lead book scan config'' (sc_flags r) r)"

record scan_item =
  si_lead :: string
  si_state :: lead_state
  si_family :: string
  si_source_type :: string
  si_source_path :: string
  si_source_sha256 :: string
  si_inspection :: inspection
  si_approval :: approval
  si_roi_not_claim :: bool
  si_promotion_ready :: bool
  si_candidate :: bool
  si_blockers :: "string list"
  si_missing :: "string list"
  si_next :: "string list"

definition validate_scan_item :: "scan_item \<Rightarrow> scan_item result" where
  "validate_scan_item r = validate_model
     [(si_lead r \<noteq> [], ''lead_id''), (si_family r \<noteq> [], ''strategy_family''), (si_source_type r \<noteq> [], ''source_type''),
      (si_source_path r \<noteq> [], ''source_artifact_path''), (length (si_source_sha256 r) = 64, ''source_artifact_sha256'')]
     [(\<not> si_roi_not_claim r, ''lead book scan items must keep ROI projections non-claim''),
      (si_promotion_ready r, ''lead book scan items must not be promotion ready''),
      (si_candidate r, ''lead book scan items must not be candidate evidence'')] r"

record scan_manifest =
  sm_scan :: string
  sm_book :: string
  sm_exists :: bool
  sm_sha256 :: "string option"
  sm_output :: string
  sm_mode :: string
  sm_accepted :: bool
  sm_states :: "lead_state list"
  sm_max_rows :: int
  sm_total :: int
  sm_matched :: int
  sm_returned :: int
  sm_counts :: "(string \<times> int) list"
  sm_matched_counts :: "(string \<times> int) list"
  sm_blocker_count :: int
  sm_blockers :: "string list"
  sm_items :: "scan_item list"
  sm_flags :: flags

definition validate_scan_manifest :: "scan_manifest \<Rightarrow> scan_manifest result" where
  "validate_scan_manifest r = bindE (validate_model
     [(length (sm_scan r) = 64, ''scan_id''), (sm_book r \<noteq> [], ''lead_book_path''),
      (case sm_sha256 r of None \<Rightarrow> True | Some h \<Rightarrow> length h = 64, ''lead_book_sha256''), (sm_output r \<noteq> [], ''output_path''),
      (sm_states r \<noteq> [], ''states''), (1 \<le> sm_max_rows r, ''max_rows''), (0 \<le> sm_total r, ''total_lead_count''),
      (0 \<le> sm_matched r, ''matched_count''), (0 \<le> sm_returned r, ''returned_count''), (0 \<le> sm_blocker_count r, ''blocker_count'')]
     [(sm_mode r \<noteq> LEAD_BOOK_SCAN_EVIDENCE_MODE, ''lead book scan manifest evidence_mode must be lead_book_queue_scan''),
      (sm_accepted r, ''lead book scan manifests are queue visibility only''),
      (sm_returned r \<noteq> int (length (sm_items r)), ''returned_count must equal number of scan items''),
      (sm_returned r > sm_matched r, ''returned_count must not exceed matched_count''),
      (sm_blocker_count r \<noteq> int (length (sm_blockers r)), ''blocker_count must equal blocker reasons''),
      (\<not> sm_exists r \<and> ''lead_book_missing'' \<notin> set (sm_blockers r), ''missing Lead Book scans must record lead_book_missing'')] r) (\<lambda>_.
     boundary_checked ''lead book scan manifest'' (sm_flags r) r)"

record scan_result =
  sr_path :: string
  sr_scan :: string
  sr_states :: "lead_state list"
  sr_total :: int
  sr_matched :: int
  sr_returned :: int
  sr_blockers :: "string list"
  sr_flags :: flags

definition validate_scan_result :: "scan_result \<Rightarrow> scan_result result" where
  "validate_scan_result r = bindE (validate_model
     [(sr_path r \<noteq> [], ''scan_manifest_path''), (length (sr_scan r) = 64, ''scan_id''), (sr_states r \<noteq> [], ''states''),
      (0 \<le> sr_total r, ''total_lead_count''), (0 \<le> sr_matched r, ''matched_count''), (0 \<le> sr_returned r, ''returned_count'')] [] r)
     (\<lambda>_. boundary_checked ''lead book scan result'' (sr_flags r) r)"

section \<open>What the validators accept\<close>

lemma boundary_checked_iff: "boundary_checked what fs r = Inr r' \<longleftrightarrow> r' = r \<and> boundary_ok fs"
proof -
  have "boundary_violation_reasons (flags_payload fs) True = [] \<longleftrightarrow> boundary_ok fs"
    unfolding boundary_reasons_Nil_iff by (auto simp: RESEARCH_BOUNDARY_def flags_payload_def boundary_ok_def)
  then show ?thesis by (auto simp: boundary_checked_def require_research_boundary_def Let_def)
qed

end
