(* ===== verification/LeadBook.thy ===== *)
theory LeadBook
  imports LeadModels ArchiveProps
begin

text \<open>
  \<open>lead_book/service.py\<close>: creating a lead from an artifact, the parquet store of leads, the inspection
  and approval workflow, the gates and the queue scan.  The content of the files is the argument
  \<open>files\<close>, paths are the components of resolved absolute paths, and \<open>py_str\<close> is Python's \<open>str\<close> of a
  metric value; the rest of a row is read back from parquet as it was written.
\<close>

section \<open>Source artifacts\<close>

type_synonym file_system = "string list \<Rightarrow> string list option"

text \<open>\<open>PurePath.suffix\<close> and \<open>with_suffix\<close> of a final component.\<close>

definition suffix_of :: "string \<Rightarrow> string" where
  "suffix_of name = (let r = rev name; ext = takeWhile (\<lambda>c. c \<noteq> CHR ''.'') r; rest = dropWhile (\<lambda>c. c \<noteq> CHR ''.'') r in
     if ext = [] \<or> rest = [] \<or> tl rest = [] then '''' else CHR ''.'' # rev ext)"

definition with_suffix :: "string \<Rightarrow> string \<Rightarrow> string" where
  "with_suffix name s = take (length name - length (suffix_of name)) name @ s"

definition path_suffix :: "string list \<Rightarrow> string" where
  "path_suffix p = (if p = [] then '''' else suffix_of (last p))"

definition path_text :: "string list \<Rightarrow> string" where
  "path_text p = ''/'' @ join ''/'' p"

definition source_hash_path :: "file_system \<Rightarrow> string list \<Rightarrow> string list option" where
  "source_hash_path files p =
     (let index = butlast p @ [with_suffix (last p) ''.index.json''] in
      if lower (path_suffix p) = ''.parquet'' \<and> files index \<noteq> None then Some index
      else if files p \<noteq> None then Some p else None)"

definition new_lead_id :: "file_system \<Rightarrow> string list \<Rightarrow> string \<Rightarrow> string \<Rightarrow> string result" where
  "new_lead_id files p family thesis = (case source_hash_path files p of
      None \<Rightarrow> Inl (LeadBookError ''lead_source_artifact_missing'')
    | Some hp \<Rightarrow> bindE (canonical_json_hash (JObj [(''source'', JStr (path_text p)),
          (''source_sha256'', JStr (file_sha256 (the (files hp)))), (''strategy_family'', JStr family),
          (''economic_thesis'', JStr thesis)])) (\<lambda>digest. Inr (''LEAD-'' @ take 16 digest)))"

section \<open>Gates\<close>

definition avg_trades_per_usable_month :: "int \<Rightarrow> int \<Rightarrow> pyfloat \<Rightarrow> pyfloat result" where
  "avg_trades_per_usable_month trades months fallback =
     (if months > 0 \<and> trades > 0 then int_truediv trades months else Inr fallback)"

definition datetime_year :: "pydatetime \<Rightarrow> int" where
  "datetime_year v = fst (date_of (local_us v))"

definition share_limit :: pyfloat where "share_limit = Fin (1/2)"
definition share_warning :: pyfloat where "share_warning = fl (35/100)"

definition gate_failures :: "lead \<Rightarrow> pyfloat \<Rightarrow> string list" where
  "gate_failures r avg =
     (if f_lt avg (Fin 10) then [''minimum_ten_trades_per_usable_month_failed''] else []) @
     (if ms_usable (l_monthly r) < 6 then [''minimum_six_usable_months_failed''] else []) @
     (if ms_losing (l_monthly r) > 4 then [''max_four_losing_months_per_year_failed''] else []) @
     (if f_gt (ps_top2 (l_pnl r)) share_limit then [''top_2_trades_profit_share_failed''] else []) @
     (if f_gt (ps_best_month (l_pnl r)) share_limit then [''best_month_profit_share_failed''] else []) @
     (if datetime_year (l_start r) < 2024 \<and> \<not> text_given (ms_fallback (l_monthly r)) then [''pre_2024_fallback_absent''] else [])"

definition gate_warnings :: "lead \<Rightarrow> string list" where
  "gate_warnings r =
     (if \<not> f_gt (ps_top2 (l_pnl r)) share_limit \<and> f_gt (ps_top2 (l_pnl r)) share_warning
      then [''top_2_trades_profit_share_warning''] else []) @
     (if \<not> f_gt (ps_best_month (l_pnl r)) share_limit \<and> f_gt (ps_best_month (l_pnl r)) share_warning
      then [''best_month_profit_share_warning''] else []) @
     (if l_diminishing r then [''diminishing_returns_warning''] else [])"

definition evaluate_lead_gates :: "lead \<Rightarrow> gate_result result" where
  "evaluate_lead_gates r =
     bindE (avg_trades_per_usable_month (ts_total (l_trades r)) (ms_usable (l_monthly r)) (ts_avg (l_trades r))) (\<lambda>avg.
     let failures = gate_failures r avg; warnings = gate_warnings r in
     validate_gate_result \<lparr>gr_lead = l_id r,
       gr_status = (if failures \<noteq> [] then GATE_FAIL else if warnings \<noteq> [] then GATE_WARNING else GATE_PASS),
       gr_warnings = uniq warnings, gr_failures = uniq failures, gr_avg = avg, gr_usable = ms_usable (l_monthly r)\<rparr>)"

section \<open>Creation\<close>

record lead_request =
  rq_source_type :: string
  rq_family :: string
  rq_thesis :: string
  rq_created_by :: string
  rq_venue_scope :: string
  rq_universe_scope :: string
  rq_instruments :: "string list"
  rq_start :: "pydatetime option"
  rq_end :: "pydatetime option"
  rq_data_source :: string
  rq_roi_observed :: pyfloat
  rq_roi_projected :: pyfloat
  rq_roi_assumptions :: string
  rq_why :: string
  rq_trades :: trade_summary
  rq_monthly :: monthly_summary
  rq_pnl :: pnl_summary
  rq_lead_id :: "string option"
  rq_created_by_type :: string
  rq_cost :: string
  rq_funding :: string
  rq_slippage :: string
  rq_fill :: string
  rq_confidence :: roi_confidence
  rq_blockers :: "string list"
  rq_missing :: "string list"
  rq_next :: "string list"
  rq_notes :: string

definition requested_lead :: "lead_request \<Rightarrow> string \<Rightarrow> string list \<Rightarrow> string \<Rightarrow> instant \<Rightarrow> lead" where
  "requested_lead q lead_id p sha now =
     \<lparr>l_schema = ''lead_book_row_v1'', l_id = lead_id, l_version = ''1'', l_created_at = Aware now 0,
      l_created_by_type = rq_created_by_type q, l_created_by = rq_created_by q, l_source_type = rq_source_type q,
      l_source_path = path_text p, l_source_sha256 = sha, l_family = rq_family q, l_thesis = rq_thesis q,
      l_venue_scope = rq_venue_scope q, l_universe_scope = rq_universe_scope q, l_instruments = rq_instruments q, l_hip3 = False,
      l_start = (case rq_start q of None \<Rightarrow> Aware (midnight (2024, 1, 1)) 0 | Some v \<Rightarrow> v),
      l_end = (case rq_end q of None \<Rightarrow> Aware (midnight (2024, 7, 1)) 0 | Some v \<Rightarrow> v),
      l_data_source = rq_data_source q, l_archive_snapshot = None, l_universe_snapshot = None, l_feature_snapshot = None,
      l_cost = rq_cost q, l_funding = rq_funding q, l_slippage = rq_slippage q, l_fill = rq_fill q,
      l_metrics = [(''roi_observed'', JFloat (rq_roi_observed q)), (''roi_projected'', JFloat (rq_roi_projected q))],
      l_roi_observed = rq_roi_observed q, l_roi_projected = rq_roi_projected q, l_roi_assumptions = rq_roi_assumptions q,
      l_roi_confidence = rq_confidence q, l_roi_not_claim = True, l_why = rq_why q, l_blockers = rq_blockers q,
      l_missing = rq_missing q, l_next = rq_next q, l_trades = rq_trades q, l_monthly = rq_monthly q, l_pnl = rq_pnl q,
      l_diminishing = False, l_fallback_absent = False, l_inspection = INSPECTION_NOT_REQUESTED, l_inspected_by = None,
      l_inspected_at = None, l_inspection_notes = None, l_approval = NOT_REVIEWED, l_approver = None, l_approved_at = None,
      l_state = IDEA_ONLY, l_non_promotable = [''lead_not_candidate'', ''research_only''], l_notes = rq_notes q,
      l_flags = default_flags\<rparr>"

definition note_failures :: "gate_result \<Rightarrow> lead \<Rightarrow> lead" where
  "note_failures g r = (if gr_failures g = [] then r else r\<lparr>l_blockers := uniq (l_blockers r @ gr_failures g),
     l_state := (if ''pre_2024_fallback_absent'' \<in> set (gr_failures g) then DEEP_VALIDATION_REJECTED else l_state r)\<rparr>)"

definition note_warnings :: "gate_result \<Rightarrow> lead \<Rightarrow> lead" where
  "note_warnings g r = (if gr_warnings g = [] then r else r\<lparr>l_blockers := uniq (l_blockers r @ gr_warnings g),
     l_diminishing := (l_diminishing r \<or> ''diminishing_returns_warning'' \<in> set (gr_warnings g))\<rparr>)"

definition create_lead_from_source :: "file_system \<Rightarrow> string list \<Rightarrow> lead_request \<Rightarrow> instant \<Rightarrow> lead result" where
  "create_lead_from_source files p q now = (case source_hash_path files p of
      None \<Rightarrow> Inl (LeadBookError ''lead_source_artifact_missing'')
    | Some hp \<Rightarrow>
        bindE (if text_given (rq_lead_id q) then Inr (the (rq_lead_id q))
               else new_lead_id files p (rq_family q) (rq_thesis q)) (\<lambda>lead_id.
        bindE (validate_model (trade_fields (rq_trades q)) [] ()) (\<lambda>_.
        bindE (validate_model (monthly_fields (rq_monthly q)) [] ()) (\<lambda>_.
        bindE (validate_model (pnl_fields (rq_pnl q)) [] ()) (\<lambda>_.
        bindE (validate_lead (requested_lead q lead_id p (file_sha256 (the (files hp))) now)) (\<lambda>r.
        bindE (evaluate_lead_gates r) (\<lambda>g. Inr (note_warnings g (note_failures g r)))))))))"

section \<open>The store\<close>

type_synonym lead_book = "lead list option"

definition lead_book_read :: "(lead_book, lead list) prog" where
  "lead_book_read = bindS (getS (\<lambda>t. t)) (\<lambda>t. liftS (read_models validate_lead t))"

text \<open>Metric values are written as text.\<close>

definition written_lead :: "(json \<Rightarrow> string) \<Rightarrow> lead \<Rightarrow> lead" where
  "written_lead py_str r = r\<lparr>l_metrics := map (\<lambda>(k, v). (k, JStr (py_str v))) (l_metrics r)\<rparr>"

definition lead_book_upsert :: "(json \<Rightarrow> string) \<Rightarrow> lead \<Rightarrow> (lead_book, lead) prog" where
  "lead_book_upsert py_str r = bindS lead_book_read (\<lambda>rows.
     bindS (modifyS (\<lambda>_. Some (map (written_lead py_str) (replace_rows l_id l_id [r] rows)))) (\<lambda>_. retS r))"

definition lead_book_get :: "string \<Rightarrow> (lead_book, lead) prog" where
  "lead_book_get lead_id = bindS lead_book_read (\<lambda>rows. liftS (case find_row l_id rows lead_id of
      Some r \<Rightarrow> Inr r | None \<Rightarrow> Inl (LeadBookError (''lead_not_found: '' @ lead_id))))"

definition lead_book_list :: "lead_state option \<Rightarrow> (lead_book, lead list) prog" where
  "lead_book_list state = bindS lead_book_read (\<lambda>rows. retS (case state of
      None \<Rightarrow> rows | Some st \<Rightarrow> filter (\<lambda>r. l_state r = st) rows))"

interpretation lead_table: keyed_table l_id l_id
  by unfold_locales simp

section \<open>The workflow\<close>

definition request_human_inspection :: "lead \<Rightarrow> lead" where
  "request_human_inspection r = r\<lparr>l_inspection := INSPECTION_REQUESTED, l_state := HUMAN_INSPECTION_REQUESTED\<rparr>"

definition complete_human_inspection :: "lead \<Rightarrow> string \<Rightarrow> string \<Rightarrow> pydatetime option \<Rightarrow> instant \<Rightarrow> lead" where
  "complete_human_inspection r by_whom notes when now = r\<lparr>l_inspection := INSPECTION_COMPLETED, l_inspected_by := Some by_whom,
     l_inspected_at := Some (case when of None \<Rightarrow> Aware now 0 | Some v \<Rightarrow> v), l_inspection_notes := Some notes,
     l_state := HUMAN_INSPECTION_COMPLETED\<rparr>"

definition approve_after_human_inspection :: "lead \<Rightarrow> string \<Rightarrow> pydatetime option \<Rightarrow> instant \<Rightarrow> lead result" where
  "approve_after_human_inspection r agent when now =
     (if l_inspection r \<noteq> INSPECTION_COMPLETED then Inl (LeadBookError ''agent_approval_requires_human_inspection'')
      else Inr (r\<lparr>l_approval := APPROVED_AFTER_HUMAN_INSPECTION, l_approver := Some agent,
        l_approved_at := Some (case when of None \<Rightarrow> Aware now 0 | Some v \<Rightarrow> v),
        l_state := AGENT_APPROVED_AFTER_HUMAN_INSPECTION\<rparr>))"

definition request_deep_validation :: "lead \<Rightarrow> lead result" where
  "request_deep_validation r =
     (if l_inspection r \<noteq> INSPECTION_COMPLETED then Inl (LeadBookError ''deep_validation_requires_human_inspection_completed'')
      else if l_approval r \<noteq> APPROVED_AFTER_HUMAN_INSPECTION
      then Inl (LeadBookError ''deep_validation_requires_agent_approval_after_human_inspection'')
      else Inr (r\<lparr>l_state := DEEP_VALIDATION_REQUESTED\<rparr>))"

section \<open>Queue scans\<close>

text \<open>\<open>_SECRET_NAME_RE.search\<close> on one path component, ignoring case.\<close>

definition secret_like :: "string \<Rightarrow> bool" where
  "secret_like part \<longleftrightarrow> (let s = lower part in s \<in> {''.env'', ''.env'' @ [char_of (10::nat)]} \<or>
     list_ex (\<lambda>w. contains w s) [''secret'', ''credential'', ''private'', ''token'', ''password'', ''wallet'',
       ''apikey'', ''api_key'', ''api-key''])"

definition validate_scan_path :: "string list \<Rightarrow> string \<Rightarrow> string \<Rightarrow> unit result" where
  "validate_scan_path p field suffix =
     bindE (guardE (\<not> list_ex secret_like p) (LeadBookError (field @ ''_secret_like_path''))) (\<lambda>_.
     guardE (lower (path_suffix p) = suffix) (LeadBookError (field @ ''_must_use_'' @ suffix @ ''_suffix'')))"

definition scan_item_of :: "lead \<Rightarrow> scan_item result" where
  "scan_item_of r = validate_scan_item \<lparr>si_lead = l_id r, si_state = l_state r, si_family = l_family r,
     si_source_type = l_source_type r, si_source_path = l_source_path r, si_source_sha256 = l_source_sha256 r,
     si_inspection = l_inspection r, si_approval = l_approval r, si_roi_not_claim = l_roi_not_claim r,
     si_promotion_ready = promotion_ready (l_flags r), si_candidate = candidate_evidence (l_flags r),
     si_blockers = l_blockers r, si_missing = l_missing r, si_next = l_next r\<rparr>"

definition state_counts :: "lead list \<Rightarrow> (string \<times> int) list" where
  "state_counts rows = sorted_by id (fold (\<lambda>r counts. let k = lead_state_value (l_state r) in
     AList.update k (case map_of counts k of None \<Rightarrow> 1 | Some n \<Rightarrow> n + 1) counts) rows [])"

definition counts_json :: "(string \<times> int) list \<Rightarrow> json" where
  "counts_json cs = JObj (map (\<lambda>(k, n). (k, JInt n)) cs)"

definition texts_json :: "string list \<Rightarrow> json" where
  "texts_json xs = JList (map JStr xs)"

definition boundary_json :: "(string \<times> json) list" where
  "boundary_json = map (\<lambda>(k, b). (k, JBool b)) RESEARCH_BOUNDARY"

definition item_json :: "scan_item \<Rightarrow> json" where
  "item_json i = JObj [(''lead_id'', JStr (si_lead i)), (''state'', JStr (lead_state_value (si_state i))),
     (''strategy_family'', JStr (si_family i)), (''source_type'', JStr (si_source_type i)),
     (''source_artifact_path'', JStr (si_source_path i)), (''source_artifact_sha256'', JStr (si_source_sha256 i)),
     (''human_inspection_status'', JStr (inspection_value (si_inspection i))),
     (''agent_approval_status'', JStr (approval_value (si_approval i))),
     (''roi_projection_is_not_claim'', JBool (si_roi_not_claim i)), (''promotion_ready'', JBool (si_promotion_ready i)),
     (''candidate_evidence'', JBool (si_candidate i)), (''known_blockers'', texts_json (si_blockers i)),
     (''missing_evidence'', texts_json (si_missing i)), (''required_next_validation'', texts_json (si_next i))]"

text \<open>The payload whose digest names the scan: every field but \<open>scan_id\<close>.\<close>

definition manifest_json :: "scan_manifest \<Rightarrow> json" where
  "manifest_json m = JObj ([(''schema_version'', JStr ''lead_book_scan_manifest_v1''), (''lead_book_path'', JStr (sm_book m)),
     (''lead_book_exists'', JBool (sm_exists m)), (''lead_book_sha256'', opt_json (sm_sha256 m)),
     (''output_path'', JStr (sm_output m)), (''evidence_mode'', JStr (sm_mode m)), (''accepted_research_ready'', JBool (sm_accepted m)),
     (''states'', texts_json (map lead_state_value (sm_states m))), (''max_rows'', JInt (sm_max_rows m)),
     (''total_lead_count'', JInt (sm_total m)), (''matched_count'', JInt (sm_matched m)), (''returned_count'', JInt (sm_returned m)),
     (''state_counts'', counts_json (sm_counts m)), (''matched_state_counts'', counts_json (sm_matched_counts m)),
     (''blocker_count'', JInt (sm_blocker_count m)), (''blocker_reasons'', texts_json (sm_blockers m)),
     (''items'', JList (map item_json (sm_items m))), (''boundary_flags'', JObj boundary_json)] @ boundary_json)"

definition scan_blockers :: "bool \<Rightarrow> int \<Rightarrow> int \<Rightarrow> string list" where
  "scan_blockers exists matched max_rows = sorted_by id (uniq
     ((if \<not> exists then [''lead_book_missing''] else []) @
      (if matched = 0 then [''no_matching_lead_book_rows''] else []) @
      (if matched > max_rows then [''lead_book_scan_max_rows_exceeded''] else [])))"

text \<open>
  The scan reads the book, which may be missing, and leaves it alone; the manifest it returns is the
  one it writes to the output path.  \<open>resolve\<close> is the file system's resolution of a path text,
  \<open>content\<close> the bytes of the book and \<open>is_file\<close> whether it is a regular file.
\<close>

definition scan_lead_book_queue ::
  "(string \<Rightarrow> string list) \<Rightarrow> lead_book \<Rightarrow> bool \<Rightarrow> string list \<Rightarrow> scan_config \<Rightarrow> (scan_manifest \<times> scan_result) result" where
  "scan_lead_book_queue resolve book is_file content config =
     bindE (validate_scan_config config) (\<lambda>c.
     let book_path = resolve (sc_book c); output_path = resolve (sc_output c) in
     bindE (validate_scan_path book_path ''lead_book_path'' ''.parquet'') (\<lambda>_.
     bindE (validate_scan_path output_path ''output_path'' ''.json'') (\<lambda>_.
     bindE (guardE (book = None \<or> is_file) (LeadBookError ''lead_book_path_must_be_file'')) (\<lambda>_.
     bindE (read_models validate_lead book) (\<lambda>rows.
     let matched = filter (\<lambda>r. l_state r \<in> set (sc_states c)) rows in
     bindE (mapE scan_item_of (take (nat (sc_max_rows c)) matched)) (\<lambda>items.
     let blockers = scan_blockers (book \<noteq> None) (int (length matched)) (sc_max_rows c);
         payload = \<lparr>sm_scan = replicate 64 CHR ''0'', sm_book = path_text book_path, sm_exists = (book \<noteq> None),
           sm_sha256 = (if book \<noteq> None then Some (file_sha256 content) else None), sm_output = path_text output_path,
           sm_mode = LEAD_BOOK_SCAN_EVIDENCE_MODE, sm_accepted = False, sm_states = sc_states c, sm_max_rows = sc_max_rows c,
           sm_total = int (length rows), sm_matched = int (length matched), sm_returned = int (length items),
           sm_counts = state_counts rows, sm_matched_counts = state_counts matched, sm_blocker_count = int (length blockers),
           sm_blockers = blockers, sm_items = items, sm_flags = default_flags\<rparr> in
     bindE (canonical_json_hash (manifest_json payload)) (\<lambda>scan_id.
     bindE (validate_scan_manifest (payload\<lparr>sm_scan := scan_id\<rparr>)) (\<lambda>m.
     bindE (validate_scan_result \<lparr>sr_path = path_text output_path, sr_scan = sm_scan m, sr_states = sm_states m,
        sr_total = sm_total m, sr_matched = sm_matched m, sr_returned = sm_returned m, sr_blockers = sm_blockers m,
        sr_flags = default_flags\<rparr>) (\<lambda>result. Inr (m, result))))))))))"

end
