(* ===== verification/LeadProps.thy ===== *)
theory LeadProps
  imports LeadBook
begin

text \<open>
  Correctness of the Lead Book: what a stored row satisfies, the inspection and approval workflow,
  the gates, creation from an artifact and the queue scan.
\<close>

section \<open>Valid rows\<close>

definition utc_time :: "pydatetime \<Rightarrow> bool" where
  "utc_time v \<longleftrightarrow> (case v of Naive _ \<Rightarrow> False | Aware t off \<Rightarrow> off = 0 \<and> valid_instant t)"

lemma utc_field_Inr: "utc_field v = Inr u \<Longrightarrow> utc_time u"
  by (auto simp: utc_field_def bindE_Inr_iff utc_time_def dest: ensure_utc_valid)

lemma utc_time_field: "utc_time v \<Longrightarrow> utc_field v = Inr v \<and> timestamp_given v \<and> \<not> timestamp_overflows v"
  by (auto simp: utc_field_def utc_time_def ensure_utc_def timestamp_given_def timestamp_overflows_def split: pydatetime.splits)

lemma utc_optional_Inr: "utc_optional v = Inr u \<Longrightarrow> (case u of None \<Rightarrow> True | Some w \<Rightarrow> utc_time w)"
  by (cases v) (auto simp: bindE_Inr_iff dest: utc_field_Inr)

lemma utc_optional_id: "(case v of None \<Rightarrow> True | Some w \<Rightarrow> utc_time w) \<Longrightarrow> utc_optional v = Inr v"
  by (cases v) (simp_all add: utc_time_field)

definition lead_times_ok :: "lead \<Rightarrow> bool" where
  "lead_times_ok r \<longleftrightarrow> utc_time (l_created_at r) \<and> utc_time (l_start r) \<and> utc_time (l_end r) \<and>
     (case l_inspected_at r of None \<Rightarrow> True | Some v \<Rightarrow> utc_time v) \<and> (case l_approved_at r of None \<Rightarrow> True | Some v \<Rightarrow> utc_time v)"

lemma lead_times_ok_all: "lead_times_ok r \<Longrightarrow> (v, n) \<in> set (lead_times r) \<Longrightarrow> utc_time v"
  by (auto simp: lead_times_ok_def lead_times_def split: option.splits)

definition lead_ok :: "lead \<Rightarrow> bool" where
  "lead_ok r \<longleftrightarrow> lead_times_ok r \<and> list_all fst (lead_fields r) \<and> list_all (\<lambda>(c, m). \<not> c) (lead_checks r) \<and> boundary_ok (l_flags r)"

lemma validate_lead_ok: "lead_ok r \<Longrightarrow> validate_lead r = Inr r"
proof -
  assume ok: "lead_ok r"
  then have t: "lead_times_ok r" by (simp add: lead_ok_def)
  have o: "\<not> list_ex (\<lambda>(v, _). timestamp_overflows v) (lead_times r)"
    using lead_times_ok_all [OF t] utc_time_field by (fastforce simp: list_ex_iff)
  have n: "normalise_lead r = Inr r"
    using t utc_time_field utc_optional_id by (simp add: normalise_lead_def lead_times_ok_def)
  have f: "validate_model (lead_fields r) [] r = Inr r" "validate_model [] (lead_checks r) r = Inr r"
    using ok by (auto simp: lead_ok_def validate_model_Inr_iff list_all_iff)
  have b: "boundary_checked ''lead row'' (l_flags r) r = Inr r" using ok by (simp add: lead_ok_def boundary_checked_iff)
  show ?thesis using o n f b by (simp add: validate_lead_def guardE_def)
qed

lemma validated_lead_ok:
  assumes "validate_lead r = Inr r'"
  shows "lead_ok r'" "\<exists>c s e i a. r' = r\<lparr>l_created_at := c, l_start := s, l_end := e, l_inspected_at := i, l_approved_at := a\<rparr>"
proof -
  obtain x where f: "validate_model (lead_fields r) [] r = Inr x" and n: "normalise_lead r = Inr r'"
    and c: "validate_model [] (lead_checks r') r' = Inr r'" and b: "boundary_ok (l_flags r')"
    using assms by (auto simp: validate_lead_def bindE_Inr_iff validate_model_Inr_iff boundary_checked_iff)
  obtain ca s e i a where u: "utc_field (l_created_at r) = Inr ca" "utc_field (l_start r) = Inr s" "utc_field (l_end r) = Inr e"
    "utc_optional (l_inspected_at r) = Inr i" "utc_optional (l_approved_at r) = Inr a"
    and r': "r' = r\<lparr>l_created_at := ca, l_start := s, l_end := e, l_inspected_at := i, l_approved_at := a\<rparr>"
    using n by (auto simp: normalise_lead_def bindE_Inr_iff)
  then show "\<exists>c s e i a. r' = r\<lparr>l_created_at := c, l_start := s, l_end := e, l_inspected_at := i, l_approved_at := a\<rparr>" by blast
  have t: "lead_times_ok r'" using u utc_field_Inr utc_optional_Inr by (simp add: lead_times_ok_def r')
  have g: "timestamp_given v" if "(v, m) \<in> set (lead_times r')" for v m
    using lead_times_ok_all [OF t that] utc_time_field by blast
  have f': "list_all fst (lead_fields r)" using f by (auto simp: validate_model_Inr_iff list_all_iff)
  have "list_all fst (lead_fields r')"
    using f' g unfolding lead_fields_def list_all_append list_all_iff [of fst "map _ (lead_times r')"]
    by (auto simp: r')
  then show "lead_ok r'" using t c b by (auto simp: lead_ok_def validate_model_Inr_iff list_all_iff)
qed

lemma validate_lead_self: "validate_lead r = Inr r \<longleftrightarrow> lead_ok r"
  using validate_lead_ok validated_lead_ok(1) by blast

subsection \<open>A lead for the witnesses\<close>

definition demo_request :: lead_request where
  "demo_request = \<lparr>rq_source_type = ''run'', rq_family = ''f'', rq_thesis = ''t'', rq_created_by = ''a'', rq_venue_scope = ''v'',
     rq_universe_scope = ''u'', rq_instruments = [''BTC''], rq_start = None, rq_end = None, rq_data_source = ''d'',
     rq_roi_observed = Fin 1, rq_roi_projected = Fin 1, rq_roi_assumptions = ''x'', rq_why = ''w'',
     rq_trades = \<lparr>ts_avg = Fin 12, ts_total = 0\<rparr>, rq_monthly = \<lparr>ms_usable = 8, ms_losing = 1, ms_positive = 7, ms_fallback = None\<rparr>,
     rq_pnl = \<lparr>ps_top2 = Fin 0, ps_best_month = Fin 0\<rparr>, rq_lead_id = Some ''L1'', rq_created_by_type = ''agent'', rq_cost = ''c'',
     rq_funding = ''f'', rq_slippage = ''s'', rq_fill = ''r'', rq_confidence = ROI_UNKNOWN, rq_blockers = [''b''], rq_missing = [],
     rq_next = [], rq_notes = []\<rparr>"

lemma requested_demo_ok:
  assumes "length sha = 64" "valid_instant now" "lead_id \<noteq> []"
  shows "lead_ok (requested_lead demo_request lead_id p sha now)"
proof -
  have d: "valid_date (2024, 1, 1)" "valid_date (2024, 7, 1)" by (simp_all add: valid_date_def days_in_month_def month_lengths_def)
  have u: "utc_time (Aware now 0)" "utc_time (Aware (midnight (2024, 1, 1)) 0)" "utc_time (Aware (midnight (2024, 7, 1)) 0)"
    using assms(2) midnight_valid [OF d(1)] midnight_valid [OF d(2)] by (simp_all add: utc_time_def)
  have l: "midnight (2024, 1, 1) < midnight (2024, 7, 1)" using midnight_less_iff [OF d] by simp
  show ?thesis using assms u l utc_time_field [OF u(1)] utc_time_field [OF u(2)] utc_time_field [OF u(3)]
    by (simp add: lead_ok_def lead_times_ok_def lead_fields_def lead_checks_def lead_times_def requested_lead_def demo_request_def
        deep_states_def trade_fields_def monthly_fields_def pnl_fields_def path_text_def)
qed

definition demo_lead :: lead where
  "demo_lead = requested_lead demo_request ''L1'' [''run.json''] (replicate 64 CHR ''a'') 0"

lemma demo_lead_ok: "lead_ok demo_lead"
  unfolding demo_lead_def by (rule requested_demo_ok) (simp_all add: valid_instant_def max_ordinal_def us_per_day_def)

definition approved_demo :: lead where
  "approved_demo = demo_lead\<lparr>l_inspection := INSPECTION_COMPLETED, l_approval := APPROVED_AFTER_HUMAN_INSPECTION\<rparr>"

lemma approved_demo_ok: "lead_ok approved_demo"
  using demo_lead_ok unfolding approved_demo_def
  by (auto simp: lead_ok_def lead_times_ok_def lead_fields_def lead_checks_def lead_times_def)

definition text_of_json :: "json \<Rightarrow> string" where
  "text_of_json v = (case v of JStr s \<Rightarrow> s | _ \<Rightarrow> [])"

section \<open>The store\<close>

definition metrics_are_text :: "lead \<Rightarrow> bool" where
  "metrics_are_text r \<longleftrightarrow> list_all (\<lambda>(k, v). case v of JStr _ \<Rightarrow> True | _ \<Rightarrow> False) (l_metrics r)"

definition book_ok :: "lead_book \<Rightarrow> bool" where
  "book_ok t \<longleftrightarrow> table_ok validate_lead l_id t \<and> list_all metrics_are_text (rows_of t)"

lemma empty_book_ok: "book_ok None"
  by (simp add: book_ok_def table_ok_def)

lemma written_ok [simp]: "lead_ok (written_lead f r) = lead_ok r" "l_id (written_lead f r) = l_id r"
  by (simp_all add: lead_ok_def written_lead_def lead_times_ok_def lead_fields_def lead_checks_def lead_times_def)

lemma written_text: "metrics_are_text (written_lead f r)"
  by (auto simp: metrics_are_text_def written_lead_def list_all_iff)

lemma written_id:
  assumes "metrics_are_text r" "\<forall>s. f (JStr s) = s"
  shows "written_lead f r = r"
proof -
  have "map (\<lambda>(k, v). (k, JStr (f v))) (l_metrics r) = l_metrics r"
    using assms by (intro map_idI) (auto simp: metrics_are_text_def list_all_iff split: json.splits)
  then show ?thesis by (simp add: written_lead_def)
qed

lemma read_ok: "book_ok t \<Longrightarrow> lead_book_read t = (Inr (rows_of t), t)"
  by (simp add: lead_book_read_def bindS_def book_ok_def read_models_ok [of validate_lead l_id])

lemma upsert_run:
  assumes "book_ok t" "\<forall>s. f (JStr s) = s"
  shows "lead_book_upsert f r t = (Inr r, Some (map (written_lead f) (replace_rows l_id l_id [r] (rows_of t))))"
  using read_ok [OF assms(1)] by (simp add: lead_book_upsert_def bindS_def)

lemma map_sort_key:
  assumes "\<And>x. k (f x) = k x"
  shows "map f (sort_key k xs) = sort_key k (map f xs)"
proof -
  have "map f (insort_key k x ys) = insort_key k (f x) (map f ys)" for x ys by (induction ys) (simp_all add: assms)
  then show ?thesis by (induction xs) simp_all
qed

lemma replace_written:
  assumes "book_ok t" "\<forall>s. f (JStr s) = s"
  shows "map (written_lead f) (replace_rows l_id l_id [r] (rows_of t)) = replace_rows l_id l_id [written_lead f r] (rows_of t)"
proof -
  have k: "map (written_lead f) (sorted_by l_id xs) = sorted_by l_id (map (written_lead f) xs)" for xs
    unfolding sorted_by_def by (rule map_sort_key) simp
  have "map (written_lead f) (filter (\<lambda>x. l_id x \<noteq> l_id r) (rows_of t)) = filter (\<lambda>x. l_id x \<noteq> l_id r) (rows_of t)"
    using assms written_id by (intro map_idI) (auto simp: book_ok_def list_all_iff)
  then show ?thesis by (simp add: replace_rows_def k)
qed

text \<open>
  An upsert of a valid lead always returns it and keeps the book in order, one row per identity.
  Afterwards the lead is found under its identity, with its metric values turned into text; every
  other identity is found, or not, as before.
\<close>

theorem lead_upsert_updates_lookup:
  assumes "book_ok t" and "lead_ok r" and "\<forall>s. py_str (JStr s) = s"
  shows "\<exists>t'. lead_book_upsert py_str r t = (Inr r, t') \<and> book_ok t' \<and> sorted (map l_id (rows_of t')) \<and>
    lead_book_get (l_id r) t' = (Inr (written_lead py_str r), t') \<and>
    (k = l_id r \<or> fst (lead_book_get k t') = fst (lead_book_get k t))"
proof -
  define rs where "rs = replace_rows l_id l_id [written_lead py_str r] (rows_of t)"
  have d: "distinct (map l_id (rows_of t))" using assms(1) by (simp add: book_ok_def table_ok_def)
  have d1: "distinct (map l_id [written_lead py_str r])" by simp
  have up: "lead_book_upsert py_str r t = (Inr r, Some rs)"
    using upsert_run [OF assms(1,3)] replace_written [OF assms(1,3)] by (simp add: rs_def)
  have ok: "book_ok (Some rs)"
    using assms lead_table.replace_distinct [OF d1 d] written_text
    by (auto simp: book_ok_def table_ok_def rs_def lead_table.set_replace list_all_iff validate_lead_self)
  note find = lead_table.find_replace [OF d1 d, folded rs_def]
  have get: "lead_book_get k (Some rs) = (case find_row l_id rs k of Some x \<Rightarrow> Inr x
      | None \<Rightarrow> Inl (LeadBookError (''lead_not_found: '' @ k)), Some rs)" for k
    by (simp add: lead_book_get_def bindS_def read_ok [OF ok])
  have get': "fst (lead_book_get k t) = (case find_row l_id (rows_of t) k of Some x \<Rightarrow> Inr x
      | None \<Rightarrow> Inl (LeadBookError (''lead_not_found: '' @ k)))" for k
    by (simp add: lead_book_get_def bindS_def read_ok [OF assms(1)])
  have "find_row l_id [written_lead py_str r] (l_id r) = Some (written_lead py_str r)"
    "k \<noteq> l_id r \<Longrightarrow> find_row l_id [written_lead py_str r] k = None" by (simp_all add: find_row_def)
  then show ?thesis using up ok lead_table.replace_sorted [of "[written_lead py_str r]" "rows_of t", folded rs_def]
    by (intro exI [of _ "Some rs"]) (cases "k = l_id r", auto simp: get get' find)
qed

lemma lead_upsert_updates_lookup_witness:
  "\<exists>t'. lead_book_upsert text_of_json demo_lead None = (Inr demo_lead, t') \<and> book_ok t'"
  using lead_upsert_updates_lookup [of None demo_lead text_of_json "''x''"] empty_book_ok demo_lead_ok by (auto simp: text_of_json_def)

lemma mapE_raises:
  assumes "\<forall>x \<in> set xs. f x = Inr (g x) \<or> f x = Inl e" "\<exists>x \<in> set xs. f x = Inl e"
  shows "mapE f xs = Inl e"
  using assms
proof (induction xs)
  case (Cons x xs)
  then show ?case by (cases "f x = Inl e") auto
qed simp

text \<open>A request for inspection leaves a row that cannot be loaded exactly when the lead is approved.\<close>

lemma lead_ok_request: "lead_ok r \<Longrightarrow> lead_ok (request_human_inspection r) \<longleftrightarrow> l_approval r \<noteq> APPROVED_AFTER_HUMAN_INSPECTION"
  by (auto simp: lead_ok_def lead_times_ok_def request_human_inspection_def lead_fields_def lead_checks_def lead_times_def deep_states_def)

lemma request_of_approved:
  assumes "lead_ok r" "l_approval r = APPROVED_AFTER_HUMAN_INSPECTION"
  shows "validate_lead (written_lead f (request_human_inspection r)) = Inl (ValidationError [''agent_approval_requires_human_inspection''])"
proof -
  let ?w = "written_lead f (request_human_inspection r)"
  have t: "lead_times_ok ?w" using assms(1) by (simp add: lead_ok_def lead_times_ok_def request_human_inspection_def written_lead_def)
  have o: "\<not> list_ex (\<lambda>(v, _). timestamp_overflows v) (lead_times ?w)"
    using lead_times_ok_all [OF t] utc_time_field by (fastforce simp: list_ex_iff)
  have n: "normalise_lead ?w = Inr ?w"
    using t utc_time_field utc_optional_id by (simp add: normalise_lead_def lead_times_ok_def)
  have "list_all fst (lead_fields ?w)" using assms(1)
    by (auto simp: lead_ok_def lead_fields_def lead_times_def request_human_inspection_def written_lead_def)
  then have f: "validate_model (lead_fields ?w) [] ?w = Inr ?w" by (auto simp: validate_model_Inr_iff list_all_iff)
  have c: "validate_model [] (lead_checks ?w) ?w = Inl (ValidationError [''agent_approval_requires_human_inspection''])"
    using assms by (simp add: lead_ok_def lead_checks_def validate_model_def request_human_inspection_def written_lead_def)
  show ?thesis using o n f c by (simp add: validate_lead_def guardE_def)
qed

text \<open>
  C34: asking again for the inspection of an approved lead and storing the result succeeds, and from
  then on the whole book is unreadable: every read, lookup, listing and upsert raises.
\<close>

theorem reopened_lead_blocks_book:
  assumes "book_ok t" and "lead_ok r" and "l_approval r = APPROVED_AFTER_HUMAN_INSPECTION" and "\<forall>s. py_str (JStr s) = s"
  shows "\<exists>t' e. lead_book_upsert py_str (request_human_inspection r) t = (Inr (request_human_inspection r), t') \<and>
    e = ValidationError [''agent_approval_requires_human_inspection''] \<and>
    lead_book_read t' = (Inl e, t') \<and> lead_book_get k t' = (Inl e, t') \<and> lead_book_list st t' = (Inl e, t') \<and>
    lead_book_upsert py_str r' t' = (Inl e, t')"
proof -
  let ?w = "written_lead py_str (request_human_inspection r)" and ?e = "ValidationError [''agent_approval_requires_human_inspection'']"
  define rs where "rs = replace_rows l_id l_id [?w] (rows_of t)"
  have up: "lead_book_upsert py_str (request_human_inspection r) t = (Inr (request_human_inspection r), Some rs)"
    using upsert_run [OF assms(1,4)] replace_written [OF assms(1,4)] by (simp add: rs_def)
  have bad: "validate_lead ?w = Inl ?e" by (rule request_of_approved [OF assms(2,3)])
  have s: "set rs \<subseteq> insert ?w (set (rows_of t))" "?w \<in> set rs" by (auto simp: rs_def lead_table.set_replace)
  have "\<forall>x \<in> set (rows_of t). validate_lead x = Inr x" using assms(1) by (simp add: book_ok_def table_ok_def list_all_iff)
  then have "\<forall>x \<in> set rs. validate_lead x = Inr x \<or> validate_lead x = Inl ?e" using s(1) bad by blast
  then have "mapE validate_lead rs = Inl ?e" using s(2) bad by (intro mapE_raises) auto
  then have rd: "lead_book_read (Some rs) = (Inl ?e, Some rs)" by (simp add: lead_book_read_def read_models_def bindS_def)
  then show ?thesis using up
    by (intro exI [of _ "Some rs"]) (simp add: lead_book_get_def lead_book_list_def lead_book_upsert_def)
qed

lemma reopened_lead_blocks_book_witness:
  "\<exists>t' e. lead_book_upsert text_of_json (request_human_inspection approved_demo) None = (Inr (request_human_inspection approved_demo), t') \<and>
    lead_book_read t' = (Inl e, t')"
  using reopened_lead_blocks_book [of None approved_demo text_of_json "''x''" None demo_lead] empty_book_ok approved_demo_ok
  by (auto simp: text_of_json_def approved_demo_def)

section \<open>The workflow\<close>

text \<open>
  The workflow keeps a stored lead storable, with one exception: an inspection may be requested
  again for an approved lead, whose row then no longer validates.  Approval is granted exactly after
  a completed inspection and deep validation exactly after a completed inspection and an approval.
\<close>

theorem workflow_keeps_leads_valid:
  assumes "lead_ok r" and "valid_instant now"
  shows "(lead_ok (request_human_inspection r) \<longleftrightarrow> l_approval r \<noteq> APPROVED_AFTER_HUMAN_INSPECTION) \<and>
    lead_ok (complete_human_inspection r who notes None now) \<and>
    (if l_inspection r = INSPECTION_COMPLETED
     then \<exists>r'. approve_after_human_inspection r agent None now = Inr r' \<and> lead_ok r' \<and> l_state r' = AGENT_APPROVED_AFTER_HUMAN_INSPECTION
     else approve_after_human_inspection r agent None now = Inl (LeadBookError ''agent_approval_requires_human_inspection'')) \<and>
    (if l_approval r = APPROVED_AFTER_HUMAN_INSPECTION
     then \<exists>r'. request_deep_validation r = Inr r' \<and> lead_ok r' \<and> l_state r' = DEEP_VALIDATION_REQUESTED
     else \<exists>m. request_deep_validation r = Inl (LeadBookError m))"
proof -
  have u: "utc_time (Aware now 0)" using assms(2) by (simp add: utc_time_def)
  note defs = lead_times_ok_def lead_fields_def lead_checks_def lead_times_def deep_states_def
  have c: "lead_ok (complete_human_inspection r who notes None now)"
    using assms(1) u utc_time_field [OF u] by (auto simp: lead_ok_def complete_human_inspection_def defs)
  have a: "lead_ok (r\<lparr>l_approval := APPROVED_AFTER_HUMAN_INSPECTION, l_approver := Some agent, l_approved_at := Some (Aware now 0),
      l_state := AGENT_APPROVED_AFTER_HUMAN_INSPECTION\<rparr>)" if "l_inspection r = INSPECTION_COMPLETED"
    using assms(1) u utc_time_field [OF u] that by (auto simp: lead_ok_def defs)
  have i: "l_inspection r = INSPECTION_COMPLETED" if "l_approval r = APPROVED_AFTER_HUMAN_INSPECTION"
    using assms(1) that by (simp add: lead_ok_def lead_checks_def)
  have d: "lead_ok (r\<lparr>l_state := DEEP_VALIDATION_REQUESTED\<rparr>)" if "l_approval r = APPROVED_AFTER_HUMAN_INSPECTION"
    using assms(1) i [OF that] that by (auto simp: lead_ok_def defs)
  show ?thesis using lead_ok_request [OF assms(1)] c a i d
    by (auto simp: approve_after_human_inspection_def request_deep_validation_def)
qed

lemma workflow_keeps_leads_valid_witness:
  "lead_ok (complete_human_inspection demo_lead ''h'' ''n'' None 0)"
  using workflow_keeps_leads_valid [of demo_lead 0 "''h''" "''n''"] demo_lead_ok
  by (simp add: valid_instant_def max_ordinal_def us_per_day_def)

text \<open>Sequences of workflow calls on a lead held in memory.\<close>

datatype lead_call = CallRequest | CallComplete string string "pydatetime option" instant
  | CallApprove string "pydatetime option" instant | CallDeep

inductive lead_step :: "lead \<Rightarrow> lead_call \<Rightarrow> lead \<Rightarrow> bool" where
  step_request: "lead_step r CallRequest (request_human_inspection r)"
| step_complete: "lead_step r (CallComplete who notes at_time now) (complete_human_inspection r who notes at_time now)"
| step_approve: "approve_after_human_inspection r agent at_time now = Inr r' \<Longrightarrow> lead_step r (CallApprove agent at_time now) r'"
| step_deep: "request_deep_validation r = Inr r' \<Longrightarrow> lead_step r CallDeep r'"

inductive lead_run :: "lead \<Rightarrow> lead_call list \<Rightarrow> lead \<Rightarrow> bool" where
  run_start: "lead_run r [] r"
| run_step: "lead_run r cs r' \<Longrightarrow> lead_step r' c r'' \<Longrightarrow> lead_run r (cs @ [c]) r''"

definition is_complete :: "lead_call \<Rightarrow> bool" where "is_complete c \<longleftrightarrow> (\<exists>w n v t. c = CallComplete w n v t)"
definition is_approve :: "lead_call \<Rightarrow> bool" where "is_approve c \<longleftrightarrow> (\<exists>g v t. c = CallApprove g v t)"

definition inspected_trace :: "lead_call list \<Rightarrow> bool" where
  "inspected_trace cs \<longleftrightarrow> (\<exists>a c b. cs = a @ c # b \<and> is_complete c \<and> CallRequest \<notin> set b)"

definition approved_trace :: "lead_call list \<Rightarrow> bool" where
  "approved_trace cs \<longleftrightarrow> (\<exists>a p b. cs = a @ p # b \<and> is_approve p \<and> inspected_trace a)"

lemma inspected_snoc: "inspected_trace cs \<Longrightarrow> c \<noteq> CallRequest \<Longrightarrow> inspected_trace (cs @ [c])"
  unfolding inspected_trace_def by (metis append_Cons append_assoc rotate1.simps(2) set_ConsD set_rotate1)

lemma approved_snoc: "approved_trace cs \<Longrightarrow> approved_trace (cs @ [c])"
  unfolding approved_trace_def by (metis append_Cons append_assoc)

lemma run_invariant:
  assumes "lead_run r cs r'" "l_inspection r \<noteq> INSPECTION_COMPLETED" "l_approval r \<noteq> APPROVED_AFTER_HUMAN_INSPECTION"
    "l_state r \<notin> set deep_states"
  shows "(l_inspection r' = INSPECTION_COMPLETED \<longrightarrow> inspected_trace cs) \<and>
    (l_approval r' = APPROVED_AFTER_HUMAN_INSPECTION \<longrightarrow> approved_trace cs) \<and>
    (l_state r' \<in> set deep_states \<longrightarrow> (\<exists>b. cs = b @ [CallDeep] \<and> inspected_trace b \<and> approved_trace b))"
  using assms
proof (induction rule: lead_run.induct)
  case (run_step r cs r' c r'')
  note IH = run_step.IH [OF run_step.prems]
  from run_step.hyps(2) show ?case
  proof (cases rule: lead_step.cases)
    case step_request
    then show ?thesis using IH approved_snoc by (simp add: request_human_inspection_def deep_states_def)
  next
    case (step_complete w n v t)
    have "inspected_trace (cs @ [c])" unfolding inspected_trace_def
      by (rule exI [of _ cs], rule exI [of _ c], rule exI [of _ "[]"]) (simp add: step_complete is_complete_def)
    then show ?thesis using IH approved_snoc step_complete by (simp add: complete_human_inspection_def deep_states_def)
  next
    case (step_approve g v t)
    then have i: "l_inspection r' = INSPECTION_COMPLETED" and r: "l_inspection r'' = INSPECTION_COMPLETED" "l_state r'' = AGENT_APPROVED_AFTER_HUMAN_INSPECTION"
      by (auto simp: approve_after_human_inspection_def split: if_splits)
    have "approved_trace (cs @ [c])" unfolding approved_trace_def
      by (rule exI [of _ cs], rule exI [of _ c], rule exI [of _ "[]"]) (use IH i step_approve in \<open>simp add: is_approve_def\<close>)
    then show ?thesis using IH i r inspected_snoc [of cs c] step_approve by (simp add: deep_states_def)
  next
    case step_deep
    then have "l_inspection r' = INSPECTION_COMPLETED" "l_approval r' = APPROVED_AFTER_HUMAN_INSPECTION"
      by (auto simp: request_deep_validation_def split: if_splits)
    then have "inspected_trace cs" "approved_trace cs" using IH by auto
    then show ?thesis using step_deep inspected_snoc [of cs c] approved_snoc [of cs c] by auto
  qed
qed simp

text \<open>
  C19: a lead that starts neither inspected nor approved reaches a deep-validation or final-test state
  only by a request that follows a completed inspection, not reopened since, and an approval that was
  given while an inspection was complete.
\<close>

theorem deep_validation_needs_inspection_and_approval:
  assumes "lead_run r calls r'" and "l_inspection r \<noteq> INSPECTION_COMPLETED" and "l_approval r \<noteq> APPROVED_AFTER_HUMAN_INSPECTION"
    and "l_state r \<notin> set deep_states" and "l_state r' \<in> set deep_states"
  shows "\<exists>before. calls = before @ [CallDeep] \<and> inspected_trace before \<and> approved_trace before"
  using run_invariant [OF assms(1-4)] assms(5) by blast

definition demo_calls :: "lead_call list" where
  "demo_calls = [CallComplete ''h'' ''n'' None 0, CallApprove ''a'' None 0, CallDeep]"

lemma demo_run: "\<exists>r'. lead_run demo_lead demo_calls r' \<and> l_state r' = DEEP_VALIDATION_REQUESTED"
proof -
  let ?a = "complete_human_inspection demo_lead ''h'' ''n'' None 0"
  obtain b where b: "approve_after_human_inspection ?a ''a'' None 0 = Inr b" "l_inspection b = INSPECTION_COMPLETED"
    "l_approval b = APPROVED_AFTER_HUMAN_INSPECTION" by (simp add: approve_after_human_inspection_def complete_human_inspection_def)
  have d: "request_deep_validation b = Inr (b\<lparr>l_state := DEEP_VALIDATION_REQUESTED\<rparr>)" using b by (simp add: request_deep_validation_def)
  have "lead_run demo_lead ((([] @ [CallComplete ''h'' ''n'' None 0]) @ [CallApprove ''a'' None 0]) @ [CallDeep]) (b\<lparr>l_state := DEEP_VALIDATION_REQUESTED\<rparr>)"
    by (rule run_step [OF run_step [OF run_step [OF run_start step_complete] step_approve [OF b(1)]] step_deep [OF d]])
  then have "lead_run demo_lead demo_calls (b\<lparr>l_state := DEEP_VALIDATION_REQUESTED\<rparr>)" by (simp add: demo_calls_def)
  then show ?thesis by (intro exI [of _ "b\<lparr>l_state := DEEP_VALIDATION_REQUESTED\<rparr>"]) simp
qed

lemma deep_validation_needs_inspection_and_approval_witness:
  "\<exists>before. demo_calls = before @ [CallDeep] \<and> inspected_trace before \<and> approved_trace before"
proof -
  obtain r' where "lead_run demo_lead demo_calls r'" "l_state r' = DEEP_VALIDATION_REQUESTED" using demo_run by blast
  then show ?thesis
    using deep_validation_needs_inspection_and_approval [of demo_lead demo_calls r']
    by (simp add: demo_lead_def requested_lead_def deep_states_def)
qed

text \<open>
  An approval is not withdrawn when the inspection is requested again: after the second
  inspection deep validation is granted without a new approval.
\<close>

theorem approval_outlives_reinspection:
  assumes "l_approval r = APPROVED_AFTER_HUMAN_INSPECTION"
  shows "request_deep_validation (complete_human_inspection (request_human_inspection r) who notes at_time now) =
    Inr ((complete_human_inspection (request_human_inspection r) who notes at_time now)\<lparr>l_state := DEEP_VALIDATION_REQUESTED\<rparr>)"
  using assms by (simp add: request_deep_validation_def complete_human_inspection_def request_human_inspection_def)

lemma approval_outlives_reinspection_witness:
  "\<exists>r'. request_deep_validation (complete_human_inspection (request_human_inspection approved_demo) ''h'' ''n'' None 0) = Inr r'"
  using approval_outlives_reinspection [of approved_demo "''h''" "''n''" None 0] by (simp add: approved_demo_def)

section \<open>Gates\<close>

text \<open>Rounding does not move an average across ten trades: it is exact up to \<open>2^40\<close> months.\<close>

lemma trades_per_month_below_ten:
  assumes "0 < trades" "trades < 2 ^ 53" "0 < months" "months \<le> 2 ^ 40"
  shows "\<exists>q. int_truediv trades months = Inr (Fin q) \<and> 0 \<le> q \<and> (q < 10 \<longleftrightarrow> trades < 10 * months)"
proof -
  let ?x = "of_int trades / of_int months :: rat"
  have m1: "(1::rat) \<le> of_int months" using assms(3) by simp
  have x0: "0 \<le> ?x" using assms by simp
  have "?x \<le> of_int trades / 1" by (rule divide_left_mono) (use assms m1 in auto)
  then have "\<bar>?x\<bar> \<le> pow2 1023" using int_le_pow2 [of trades] assms x0 by simp
  then have f: "fl ?x = Fin (round53 ?x)" by (rule fl_Fin)
  have "round53 ?x < 10 \<longleftrightarrow> trades < 10 * months"
  proof
    assume l: "round53 ?x < 10"
    show "trades < 10 * months"
    proof (rule ccontr)
      assume "\<not> trades < 10 * months"
      then have "10 * months \<le> trades" by simp
      then have "of_int (10 * months) \<le> (of_int trades :: rat)" by (simp only: of_int_le_iff)
      then have "10 \<le> ?x" using assms(3) by (simp add: le_divide_eq)
      then show False using fl53.rnd_ge_representable [of 10 ?x] round53_of_int [of 10] l by simp
    qed
  next
    assume "trades < 10 * months"
    then have "trades + 1 \<le> 10 * months" by simp
    then have "of_int (trades + 1) \<le> (of_int (10 * months) :: rat)" by (simp only: of_int_le_iff)
    then have a: "?x \<le> 10 - 1 / of_int months" using assms(3) by (simp add: field_simps)
    have "of_int months \<le> (of_int (2 ^ 40) :: rat)" using assms(4) by (simp only: of_int_le_iff)
    then have "1 / (2 ^ 40 :: rat) \<le> 1 / of_int months" using assms(3) by (intro divide_left_mono) auto
    with a have "?x \<le> 10 - 1 / 2 ^ 40" by linarith
    moreover have "10 - 1 / 2 ^ 40 = (of_int (10 * 2 ^ 40 - 1) * pow2 (- 40) :: rat)" by (simp add: pow2_def)
    ultimately have le: "?x \<le> of_int (10 * 2 ^ 40 - 1) * pow2 (- 40)" by (simp only:)
    have "round53 (of_int (10 * 2 ^ 40 - 1) * pow2 (- 40)) = of_int (10 * 2 ^ 40 - 1) * pow2 (- 40)" by (rule round53_exact) simp_all
    then have "round53 ?x \<le> of_int (10 * 2 ^ 40 - 1) * pow2 (- 40)" using fl53.rnd_le_representable le by blast
    also have "\<dots> < 10" by (simp add: pow2_def)
    finally show "round53 ?x < 10" .
  qed
  then show ?thesis using f assms(3) fl53.rnd_nonneg [OF x0] by (simp add: int_truediv_def)
qed

end
