(* ===== verification/LeadGates.thy ===== *)
theory LeadGates
  imports LeadProps
begin

text \<open>
  The gates a lead is measured by, the lead that creation yields, and the exact content of a queue
  scan, with the concrete leads the witnesses use.
\<close>

section \<open>Gates\<close>

definition too_few_trades :: "lead \<Rightarrow> bool" where
  "too_few_trades r \<longleftrightarrow> (if 0 < ms_usable (l_monthly r) \<and> 0 < ts_total (l_trades r)
     then ts_total (l_trades r) < 10 * ms_usable (l_monthly r) else f_lt (ts_avg (l_trades r)) (Fin 10))"

definition fails_gate :: "lead \<Rightarrow> bool" where
  "fails_gate r \<longleftrightarrow> too_few_trades r \<or> ms_usable (l_monthly r) < 6 \<or> ms_losing (l_monthly r) > 4 \<or>
     f_gt (ps_top2 (l_pnl r)) share_limit \<or> f_gt (ps_best_month (l_pnl r)) share_limit \<or>
     (datetime_year (l_start r) < 2024 \<and> \<not> text_given (ms_fallback (l_monthly r)))"

lemma lead_summaries:
  assumes "lead_ok r"
  shows "f_ge (ts_avg (l_trades r)) (Fin 0)" "0 \<le> ts_total (l_trades r)" "0 \<le> ms_usable (l_monthly r)" "l_id r \<noteq> []"
  using assms by (simp_all add: lead_ok_def lead_fields_def trade_fields_def monthly_fields_def)

lemma average_gate:
  assumes "lead_ok r" "ts_total (l_trades r) < 2 ^ 53" "ms_usable (l_monthly r) \<le> 2 ^ 40"
  shows "\<exists>avg. avg_trades_per_usable_month (ts_total (l_trades r)) (ms_usable (l_monthly r)) (ts_avg (l_trades r)) = Inr avg \<and>
    f_ge avg (Fin 0) \<and> (f_lt avg (Fin 10) \<longleftrightarrow> too_few_trades r)"
proof (cases "0 < ms_usable (l_monthly r) \<and> 0 < ts_total (l_trades r)")
  case True
  obtain q where "int_truediv (ts_total (l_trades r)) (ms_usable (l_monthly r)) = Inr (Fin q)" "0 \<le> q"
    "q < 10 \<longleftrightarrow> ts_total (l_trades r) < 10 * ms_usable (l_monthly r)"
    using trades_per_month_below_ten [of "ts_total (l_trades r)" "ms_usable (l_monthly r)"] True assms(2,3) by blast
  then show ?thesis using True by (auto simp: avg_trades_per_usable_month_def too_few_trades_def)
next
  case False
  then show ?thesis using lead_summaries(1) [OF assms(1)] by (auto simp: avg_trades_per_usable_month_def too_few_trades_def)
qed

text \<open>
  The gates of a valid lead always return.  The average is below the threshold exactly when the
  trades are fewer than ten per usable month, as whole numbers; the lead fails exactly when one of
  the six criteria is missed, and passes without remark exactly when moreover no share is above the
  warning threshold and diminishing returns were not noted.
\<close>

theorem gates_exact:
  assumes "lead_ok r" and "ts_total (l_trades r) < 2 ^ 53" and "ms_usable (l_monthly r) \<le> 2 ^ 40"
  shows "\<exists>g. evaluate_lead_gates r = Inr g \<and> gr_lead g = l_id r \<and>
    (gr_status g = GATE_FAIL \<longleftrightarrow> fails_gate r) \<and> (gr_failures g \<noteq> [] \<longleftrightarrow> fails_gate r) \<and>
    (''minimum_ten_trades_per_usable_month_failed'' \<in> set (gr_failures g) \<longleftrightarrow> too_few_trades r) \<and>
    (gr_status g = GATE_PASS \<longleftrightarrow> \<not> fails_gate r \<and> \<not> f_gt (ps_top2 (l_pnl r)) share_warning \<and>
      \<not> f_gt (ps_best_month (l_pnl r)) share_warning \<and> \<not> l_diminishing r)"
proof -
  obtain avg where a: "avg_trades_per_usable_month (ts_total (l_trades r)) (ms_usable (l_monthly r)) (ts_avg (l_trades r)) = Inr avg"
    "f_ge avg (Fin 0)" "f_lt avg (Fin 10) \<longleftrightarrow> too_few_trades r" using average_gate [OF assms] by blast
  have f: "gate_failures r avg = [] \<longleftrightarrow> \<not> fails_gate r" by (auto simp: gate_failures_def fails_gate_def a(3))
  have w: "gate_warnings r = [] \<longleftrightarrow> \<not> f_gt (ps_top2 (l_pnl r)) share_warning \<and> \<not> f_gt (ps_best_month (l_pnl r)) share_warning \<and>
    \<not> l_diminishing r" if "\<not> fails_gate r" using that by (auto simp: gate_warnings_def fails_gate_def)
  have t: "''minimum_ten_trades_per_usable_month_failed'' \<in> set (gate_failures r avg) \<longleftrightarrow> too_few_trades r"
    by (simp add: gate_failures_def a(3))
  show ?thesis using a(1,2) f w t lead_summaries [OF assms(1)]
    by (simp add: evaluate_lead_gates_def Let_def validate_gate_result_def validate_model_def)
qed

lemma gates_exact_witness: "\<exists>g. evaluate_lead_gates demo_lead = Inr g \<and> gr_lead g = ''L1''"
  using gates_exact [of demo_lead] demo_lead_ok by (auto simp: demo_lead_def requested_lead_def demo_request_def)

section \<open>Creation\<close>

text \<open>
  Creation refuses a missing artifact; a lead it yields is valid, carries the digest of its
  artifact (of the index file, for a partitioned one), has neither inspection nor approval, is an
  idea, or rejected when it reaches back before 2024 without a fallback label, and lists every gate
  that failed or warned among its blockers, beside those that were given.
\<close>

theorem created_lead_is_unreviewed:
  assumes "create_lead_from_source files p q now = Inr r"
  shows "\<exists>hp g. source_hash_path files p = Some hp \<and> l_source_sha256 r = file_sha256 (the (files hp)) \<and> lead_ok r \<and>
    l_inspection r = INSPECTION_NOT_REQUESTED \<and> l_approval r = NOT_REVIEWED \<and>
    l_state r = (if ''pre_2024_fallback_absent'' \<in> set (gr_failures g) then DEEP_VALIDATION_REJECTED else IDEA_ONLY) \<and>
    set (l_blockers r) = set (rq_blockers q) \<union> set (gr_failures g) \<union> set (gr_warnings g) \<and>
    evaluate_lead_gates (r\<lparr>l_diminishing := False\<rparr>) = Inr g"
proof -
  obtain hp where hp: "source_hash_path files p = Some hp"
    using assms by (cases "source_hash_path files p") (simp_all add: create_lead_from_source_def)
  define sha where "sha = file_sha256 (the (files hp))"
  obtain i v g where v: "validate_lead (requested_lead q i p sha now) = Inr v" and g: "evaluate_lead_gates v = Inr g"
    and r: "r = note_warnings g (note_failures g v)"
    using assms by (auto simp: create_lead_from_source_def hp bindE_Inr_iff sha_def)
  obtain c s e ia aa where v': "v = (requested_lead q i p sha now)\<lparr>l_created_at := c, l_start := s, l_end := e,
      l_inspected_at := ia, l_approved_at := aa\<rparr>" using validated_lead_ok(2) [OF v] by blast
  have ok: "lead_ok v" by (rule validated_lead_ok(1) [OF v])
  have un: "l_source_sha256 v = sha" "l_inspection v = INSPECTION_NOT_REQUESTED" "l_approval v = NOT_REVIEWED" "l_state v = IDEA_ONLY"
    "l_blockers v = rq_blockers q" "l_diminishing v = False" by (simp_all add: v' requested_lead_def)
  have okr: "lead_ok r" using ok un unfolding r
    by (auto simp: note_warnings_def note_failures_def lead_ok_def lead_times_ok_def lead_fields_def lead_checks_def lead_times_def deep_states_def)
  have "evaluate_lead_gates (r\<lparr>l_diminishing := False\<rparr>) = evaluate_lead_gates v" using un(6) unfolding r
    by (simp add: note_warnings_def note_failures_def evaluate_lead_gates_def gate_failures_def gate_warnings_def)
  then show ?thesis using okr un g unfolding hp r
    by (intro exI [of _ hp] exI [of _ g]) (auto simp: note_warnings_def note_failures_def sha_def)
qed

lemma demo_created: "\<exists>r. create_lead_from_source (\<lambda>_. Some [''x'']) [''run.json''] demo_request 0 = Inr r"
proof -
  let ?v = "requested_lead demo_request ''L1'' [''run.json''] (file_sha256 [''x'']) 0"
  have ok: "lead_ok ?v" by (rule requested_demo_ok) (simp_all add: valid_instant_def max_ordinal_def us_per_day_def file_sha256_def)
  have s: "source_hash_path (\<lambda>_. Some [''x'']) [''run.json''] = Some [''run.json'']" by code_simp
  have "validate_gate_result g = Inr g" if "gr_lead g = ''L1''" "gr_avg g = Fin 12" "gr_usable g = 8" for g
    using that by (simp add: validate_gate_result_def validate_model_def)
  then have "\<exists>g. evaluate_lead_gates ?v = Inr g"
    by (auto simp: evaluate_lead_gates_def avg_trades_per_usable_month_def requested_lead_def demo_request_def Let_def)
  then show ?thesis using validate_lead_ok [OF ok]
    by (auto simp: create_lead_from_source_def s demo_request_def text_given_def trade_fields_def monthly_fields_def pnl_fields_def validate_model_def)
qed

lemma created_lead_is_unreviewed_witness:
  "\<exists>r. create_lead_from_source (\<lambda>_. Some [''x'']) [''run.json''] demo_request 0 = Inr r \<and> l_approval r = NOT_REVIEWED"
  using demo_created created_lead_is_unreviewed [of "\<lambda>_. Some [''x'']" "[''run.json'']" demo_request 0] by blast

section \<open>Queue scans\<close>

lemma manifest_json_finite: "all_finite (manifest_json m)"
proof -
  have t: "all_finite (texts_json xs)" for xs by (induction xs) (auto simp: texts_json_def)
  have c: "all_finite (counts_json cs)" for cs by (auto simp: counts_json_def list_all_iff split: prod.splits)
  have i: "list_all all_finite (map item_json xs)" for xs by (induction xs) (simp_all add: item_json_def t)
  have b: "list_all (\<lambda>kv. all_finite (snd kv)) boundary_json" by (simp add: boundary_json_def RESEARCH_BOUNDARY_def)
  have o: "all_finite (opt_json x)" for x by (cases x) (simp_all add: opt_json_def)
  show ?thesis by (simp add: manifest_json_def t c i b o)
qed

definition item_of :: "lead \<Rightarrow> scan_item" where
  "item_of r = \<lparr>si_lead = l_id r, si_state = l_state r, si_family = l_family r,
     si_source_type = l_source_type r, si_source_path = l_source_path r, si_source_sha256 = l_source_sha256 r,
     si_inspection = l_inspection r, si_approval = l_approval r, si_roi_not_claim = True,
     si_promotion_ready = False, si_candidate = False,
     si_blockers = l_blockers r, si_missing = l_missing r, si_next = l_next r\<rparr>"

lemma scan_item_ok: "lead_ok r \<Longrightarrow> scan_item_of r = Inr (item_of r)"
  by (simp add: scan_item_of_def item_of_def validate_scan_item_def validate_model_def lead_ok_def lead_fields_def lead_checks_def
      boundary_ok_iff_default default_flags_def)

text \<open>The counts of a scan, looked up by state.\<close>

lemma lead_state_value_inj: "lead_state_value a = lead_state_value b \<longleftrightarrow> a = b"
  by (cases a; cases b; simp)

definition count_step :: "lead \<Rightarrow> (string \<times> int) list \<Rightarrow> (string \<times> int) list" where
  "count_step r counts = (let k = lead_state_value (l_state r) in
     AList.update k (case map_of counts k of None \<Rightarrow> 1 | Some n \<Rightarrow> n + 1) counts)"

lemma count_fold:
  assumes "distinct (map fst counts)"
  shows "distinct (map fst (fold count_step rows counts)) \<and> map_of (fold count_step rows counts) k =
    (let n = int (length (filter (\<lambda>r. lead_state_value (l_state r) = k) rows)) in
     case map_of counts k of None \<Rightarrow> if n = 0 then None else Some n | Some m \<Rightarrow> Some (m + n))"
  using assms
proof (induction rows arbitrary: counts)
  case (Cons r rows)
  have d: "distinct (map fst (count_step r counts))" using Cons.prems by (simp add: count_step_def Let_def distinct_update)
  have m: "map_of (count_step r counts) k = (if lead_state_value (l_state r) = k
      then Some (case map_of counts k of None \<Rightarrow> 1 | Some n \<Rightarrow> n + 1) else map_of counts k)"
    by (simp add: count_step_def Let_def update_conv')
  show ?case using Cons.IH [OF d] m by (auto simp: Let_def split: option.splits)
qed (simp add: Let_def split: option.splits)

lemma map_of_state_counts:
  "map_of (state_counts rows) (lead_state_value st) =
    (let n = int (length (filter (\<lambda>r. l_state r = st) rows)) in if n = 0 then None else Some n)"
proof -
  have s: "state_counts rows = sorted_by id (fold count_step rows [])"
    unfolding state_counts_def count_step_def [abs_def] ..
  note c = count_fold [of "[]" rows "lead_state_value st"]
  have d: "distinct (map fst (fold count_step rows []))" using c by simp
  have "map_of (sorted_by id (fold count_step rows [])) = map_of (fold count_step rows [])"
  proof (rule map_of_eqI)
    show "set (map fst (sorted_by id (fold count_step rows []))) = set (map fst (fold count_step rows []))" by simp
    show "\<forall>k \<in> set (map fst (sorted_by id (fold count_step rows []))). map_of (sorted_by id (fold count_step rows [])) k = map_of (fold count_step rows []) k"
    proof
      fix k assume "k \<in> set (map fst (sorted_by id (fold count_step rows [])))"
      then obtain v where v: "(k, v) \<in> set (fold count_step rows [])" by auto
      have "distinct (map fst (sorted_by id (fold count_step rows [])))" using d by simp
      then show "map_of (sorted_by id (fold count_step rows [])) k = map_of (fold count_step rows []) k" using v d by simp
    qed
  qed
  then show ?thesis using c unfolding s by (simp add: Let_def lead_state_value_inj)
qed

lemma scan_blockers_Nil:
  "scan_blockers (book \<noteq> None) (int (length wanted)) n = [] \<longleftrightarrow> book \<noteq> None \<and> wanted \<noteq> [] \<and> int (length wanted) \<le> n"
proof -
  have s: "sorted_by id xs = [] \<longleftrightarrow> xs = []" for xs :: "string list" by (metis length_sorted_by length_0_conv)
  show ?thesis by (simp add: scan_blockers_def s not_less)
qed

text \<open>
  A scan with a valid configuration and path texts over a readable book always returns and names
  its content: the first leads of the requested states in the order of the book, up to the limit, the
  counts by state, and as blockers exactly a missing book, no match, or more matches than the limit;
  the manifest claims no readiness and the result repeats it.
\<close>

theorem scan_reports_queue:
  assumes "validate_scan_config c = Inr c" and "validate_scan_path (resolve (sc_book c)) ''lead_book_path'' ''.parquet'' = Inr ()"
    and "validate_scan_path (resolve (sc_output c)) ''output_path'' ''.json'' = Inr ()"
    and "table_ok validate_lead l_id book" and "book = None \<or> is_file"
  shows "\<exists>m res wanted. scan_lead_book_queue resolve book is_file content c = Inr (m, res) \<and>
    wanted = filter (\<lambda>r. l_state r \<in> set (sc_states c)) (rows_of book) \<and>
    sm_items m = map item_of (take (nat (sc_max_rows c)) wanted) \<and>
    sm_total m = int (length (rows_of book)) \<and> sm_matched m = int (length wanted) \<and>
    map_of (sm_counts m) (lead_state_value st) = (let n = int (length (filter (\<lambda>r. l_state r = st) (rows_of book))) in
      if n = 0 then None else Some n) \<and>
    (sm_blockers m = [] \<longleftrightarrow> book \<noteq> None \<and> wanted \<noteq> [] \<and> int (length wanted) \<le> sc_max_rows c) \<and>
    sm_flags m = default_flags \<and> \<not> sm_accepted m \<and> sr_scan res = sm_scan m \<and> sr_blockers res = sm_blockers m \<and>
    sr_matched res = sm_matched m"
proof -
  define wanted where "wanted = filter (\<lambda>r. l_state r \<in> set (sc_states c)) (rows_of book)"
  have cfg: "sc_states c \<noteq> []" "1 \<le> sc_max_rows c"
    using assms(1) by (auto simp: validate_scan_config_def bindE_Inr_iff validate_model_Inr_iff)
  have rd: "read_models validate_lead book = Inr (rows_of book)" by (rule read_models_ok [OF assms(4)])
  have "\<forall>r \<in> set (rows_of book). lead_ok r" using assms(4) by (simp add: table_ok_def list_all_iff validate_lead_self)
  then have "\<forall>r \<in> set (take (nat (sc_max_rows c)) wanted). lead_ok r" by (auto simp: wanted_def dest: in_set_takeD)
  then have it: "mapE scan_item_of (take (nat (sc_max_rows c)) wanted) = Inr (map item_of (take (nat (sc_max_rows c)) wanted))"
    using scan_item_ok by (intro mapE_all) blast
  define blockers where "blockers = scan_blockers (book \<noteq> None) (int (length wanted)) (sc_max_rows c)"
  define pl where "pl = \<lparr>sm_scan = replicate 64 CHR ''0'', sm_book = path_text (resolve (sc_book c)), sm_exists = (book \<noteq> None),
           sm_sha256 = (if book \<noteq> None then Some (file_sha256 content) else None), sm_output = path_text (resolve (sc_output c)),
           sm_mode = LEAD_BOOK_SCAN_EVIDENCE_MODE, sm_accepted = False, sm_states = sc_states c, sm_max_rows = sc_max_rows c,
           sm_total = int (length (rows_of book)), sm_matched = int (length wanted),
           sm_returned = int (length (map item_of (take (nat (sc_max_rows c)) wanted))),
           sm_counts = state_counts (rows_of book), sm_matched_counts = state_counts wanted, sm_blocker_count = int (length blockers),
           sm_blockers = blockers, sm_items = map item_of (take (nat (sc_max_rows c)) wanted), sm_flags = default_flags\<rparr>"
  obtain h where h: "canonical_json_hash (manifest_json pl) = Inr h" "length h = 64"
    using canonical_json_hash_finite [OF manifest_json_finite] by blast
  have pt: "path_text p \<noteq> []" for p by (simp add: path_text_def)
  have bl: "book = None \<Longrightarrow> ''lead_book_missing'' \<in> set blockers" by (simp add: blockers_def scan_blockers_def)
  have vm: "validate_scan_manifest (pl\<lparr>sm_scan := h\<rparr>) = Inr (pl\<lparr>sm_scan := h\<rparr>)"
    using h(2) cfg pt bl by (auto simp: validate_scan_manifest_def pl_def validate_model_def boundary_checked_iff file_sha256_def)
  define res where "res = \<lparr>sr_path = path_text (resolve (sc_output c)), sr_scan = h, sr_states = sc_states c,
        sr_total = sm_total pl, sr_matched = sm_matched pl, sr_returned = sm_returned pl, sr_blockers = sm_blockers pl,
        sr_flags = default_flags\<rparr>"
  have vr: "validate_scan_result res = Inr res" using h(2) cfg pt
    by (auto simp: validate_scan_result_def res_def pl_def validate_model_def boundary_checked_iff)
  have g: "guardE (book = None \<or> is_file) (LeadBookError ''lead_book_path_must_be_file'') = Inr ()" using assms(5) by simp
  have res': "\<lparr>sr_path = path_text (resolve (sc_output c)), sr_scan = sm_scan (pl\<lparr>sm_scan := h\<rparr>), sr_states = sm_states (pl\<lparr>sm_scan := h\<rparr>),
        sr_total = sm_total (pl\<lparr>sm_scan := h\<rparr>), sr_matched = sm_matched (pl\<lparr>sm_scan := h\<rparr>), sr_returned = sm_returned (pl\<lparr>sm_scan := h\<rparr>),
        sr_blockers = sm_blockers (pl\<lparr>sm_scan := h\<rparr>), sr_flags = default_flags\<rparr> = res" by (simp add: res_def pl_def)
  have run: "scan_lead_book_queue resolve book is_file content c = Inr (pl\<lparr>sm_scan := h\<rparr>, res)"
    unfolding scan_lead_book_queue_def Let_def assms(1-3) bindE_simps g rd wanted_def [symmetric] it blockers_def [symmetric]
      pl_def [symmetric] h(1) vm res' vr ..
  have none: "blockers = [] \<longleftrightarrow> book \<noteq> None \<and> wanted \<noteq> [] \<and> int (length wanted) \<le> sc_max_rows c"
    unfolding blockers_def by (rule scan_blockers_Nil)
  show ?thesis
    using run none map_of_state_counts [of "rows_of book" st]
    by (intro exI [of _ "pl\<lparr>sm_scan := h\<rparr>"] exI [of _ res] exI [of _ wanted]) (simp add: res_def pl_def wanted_def)
qed

definition demo_scan :: scan_config where
  "demo_scan = \<lparr>sc_book = ''b'', sc_output = ''o'', sc_states = [IDEA_ONLY], sc_max_rows = 5,
     sc_mode = LEAD_BOOK_SCAN_EVIDENCE_MODE, sc_accepted = False, sc_flags = default_flags\<rparr>"

definition demo_resolve :: "string \<Rightarrow> string list" where
  "demo_resolve s = (if s = ''b'' then [''lead.parquet''] else [''scan.json''])"

lemma scan_reports_queue_witness:
  "\<exists>m res. scan_lead_book_queue demo_resolve (Some [demo_lead]) True [''x''] demo_scan = Inr (m, res) \<and> sm_matched m = 1"
proof -
  have c: "validate_scan_config demo_scan = Inr demo_scan"
    by (simp add: validate_scan_config_def demo_scan_def validate_model_def boundary_checked_iff)
  have p: "validate_scan_path [''lead.parquet''] ''lead_book_path'' ''.parquet'' = Inr ()" by code_simp
  have o: "validate_scan_path [''scan.json''] ''output_path'' ''.json'' = Inr ()" by code_simp
  have r: "demo_resolve (sc_book demo_scan) = [''lead.parquet'']" "demo_resolve (sc_output demo_scan) = [''scan.json'']"
    by (simp_all add: demo_resolve_def demo_scan_def)
  have t: "table_ok validate_lead l_id (Some [demo_lead])" by (simp add: table_ok_def validate_lead_ok demo_lead_ok)
  have s: "l_state demo_lead \<in> set (sc_states demo_scan)" by (simp add: demo_lead_def requested_lead_def demo_scan_def)
  show ?thesis using scan_reports_queue [of demo_scan demo_resolve "Some [demo_lead]" True "[''x'']" IDEA_ONLY] c p o r t s
    by fastforce
qed

end
