(* ===== verification/FinalTest.thy ===== *)
theory FinalTest
  imports LeadProps
begin

text \<open>
  \<open>validation/final_hard_test.py\<close>: the scorecard and manifest of a deep validation with its lock of one
  active lead, the pre-2024 fallback diagnostic, the three slots of the final hard test and the
  survivor report.  The existing manifests and slots are arguments, as in the code.
\<close>

section \<open>Shared checks\<close>

definition FINAL_HARD_TEST_MAX_SLOTS :: int where "FINAL_HARD_TEST_MAX_SLOTS = 3"

definition NON_LIVE_SURVIVOR_DISCLAIMER :: string where
  "NON_LIVE_SURVIVOR_DISCLAIMER = ''Final hard-test survivor reports are research-only governance artifacts. '' @
     ''They are not paper/live/trade-ready signals and do not authorize orders, sizing, '' @
     ''runtime changes, candidate packs, or promotion.''"

definition governance_boundary_error :: string where
  "governance_boundary_error = ''deep-validation governance records must preserve the v2 research boundary''"

definition enabled_forbidden :: "flags \<Rightarrow> string list" where
  "enabled_forbidden f = map fst (filter snd [(''candidate_evidence'', candidate_evidence f),
     (''candidate_pack_eligible'', candidate_pack_eligible f), (''live_signal'', live_signal f), (''paper_signal'', paper_signal f),
     (''sizing_instruction'', sizing_instruction f), (''order_placement_instruction'', order_placement_instruction f),
     (''runtime_mode_change'', runtime_mode_change f)])"

definition governance_checks :: "flags \<Rightarrow> (bool \<times> string) list" where
  "governance_checks f = [(\<not> basic_boundary_ok f, governance_boundary_error),
     (enabled_forbidden f \<noteq> [], ''deep-validation governance record violates research boundary: '' @ join '','' (enabled_forbidden f))]"

section \<open>Scorecards\<close>

datatype deep_status = DV_REQUESTED | DV_RUNNING | DV_COMPLETED | DV_REJECTED

fun deep_status_value :: "deep_status \<Rightarrow> string" where
  "deep_status_value DV_REQUESTED = ''requested''"
| "deep_status_value DV_RUNNING = ''running''"
| "deep_status_value DV_COMPLETED = ''completed''"
| "deep_status_value DV_REJECTED = ''rejected''"

datatype fallback = FB_NOT_USED | FB_FAILED_LEAD | FB_DIAGNOSTIC_ONLY | FB_RETURN_WITH_WARNING

fun fallback_value :: "fallback \<Rightarrow> string" where
  "fallback_value FB_NOT_USED = ''not_used''"
| "fallback_value FB_FAILED_LEAD = ''failed_lead''"
| "fallback_value FB_DIAGNOSTIC_ONLY = ''diagnostic_only''"
| "fallback_value FB_RETURN_WITH_WARNING = ''return_to_research_queue_with_warning''"

definition fallback_of :: "string \<Rightarrow> fallback result" where
  "fallback_of s = (case find (\<lambda>f. fallback_value f = s) [FB_NOT_USED, FB_FAILED_LEAD, FB_DIAGNOSTIC_ONLY, FB_RETURN_WITH_WARNING] of
     Some f \<Rightarrow> Inr f | None \<Rightarrow> Inl (ValueError (s @ '' is not a valid Pre2024FallbackStatus'')))"

record scorecard =
  full_valid_2024_history :: bool
  min_six_months :: bool
  lockbox_excluded :: bool
  asof_universe_snapshot :: bool
  walk_forward_validation :: bool
  negative_controls :: bool
  feature_ablations :: bool
  filter_ablations :: bool
  exit_lab_fixed_hold_comparison :: bool
  cost_stress :: bool
  concentration_checks :: bool
  parameter_neighborhood_stability :: bool
  regime_robustness :: bool
  venue_symbol_robustness :: bool
  diminishing_returns_checked :: bool
  failure_mode_report :: bool
  d_fallback :: fallback
  d_passed :: bool
  d_missing :: "string list"
  d_warnings :: "string list"
  d_research_only :: bool
  d_observe_only :: bool
  d_promotion_ready :: bool

definition required_values :: "scorecard \<Rightarrow> (string \<times> bool) list" where
  "required_values s = [
     (''full_valid_2024_history'', full_valid_2024_history s), (''min_six_months'', min_six_months s),
     (''lockbox_excluded'', lockbox_excluded s), (''asof_universe_snapshot'', asof_universe_snapshot s),
     (''walk_forward_validation'', walk_forward_validation s), (''negative_controls'', negative_controls s),
     (''feature_ablations'', feature_ablations s), (''filter_ablations'', filter_ablations s),
     (''exit_lab_fixed_hold_comparison'', exit_lab_fixed_hold_comparison s), (''cost_stress'', cost_stress s),
     (''concentration_checks'', concentration_checks s), (''parameter_neighborhood_stability'', parameter_neighborhood_stability s),
     (''regime_robustness'', regime_robustness s), (''venue_symbol_robustness'', venue_symbol_robustness s),
     (''diminishing_returns_checked'', diminishing_returns_checked s), (''failure_mode_report'', failure_mode_report s)]"

definition missing_of_card :: "scorecard \<Rightarrow> string list" where
  "missing_of_card s = map fst (filter (\<lambda>(_, v). \<not> v) (required_values s))"

definition validate_scorecard :: "scorecard \<Rightarrow> scorecard result" where
  "validate_scorecard s = validate_model []
     [(\<not> (d_research_only s \<and> d_observe_only s \<and> \<not> d_promotion_ready s), governance_boundary_error),
      (d_passed s \<and> missing_of_card s \<noteq> [], ''deep validation scorecard cannot pass with missing checks''),
      (set (d_missing s) \<noteq> set (missing_of_card s), ''deep validation scorecard missing_checks mismatch''),
      (d_fallback s \<noteq> FB_NOT_USED \<and> ''pre_2024_fallback_diagnostic_only'' \<notin> set (d_warnings s),
        ''pre-2024 fallback must be labeled diagnostic-only'')] s"

text \<open>
  \<open>DeepValidationScorecard.build(**checks)\<close>; \<open>fallback\<close> is the text of the entry
  \<open>pre_2024_fallback_status\<close>, if there is one.
\<close>

definition check_given :: "pyrow \<Rightarrow> string \<Rightarrow> bool" where
  "check_given checks field = (case map_of checks field of None \<Rightarrow> False | Some v \<Rightarrow> truthy v)"

definition scorecard_of_checks :: "pyrow \<Rightarrow> fallback \<Rightarrow> scorecard" where
  "scorecard_of_checks checks fb =
     \<lparr>full_valid_2024_history = check_given checks ''full_valid_2024_history'', min_six_months = check_given checks ''min_six_months'',
           lockbox_excluded = check_given checks ''lockbox_excluded'', asof_universe_snapshot = check_given checks ''asof_universe_snapshot'',
           walk_forward_validation = check_given checks ''walk_forward_validation'', negative_controls = check_given checks ''negative_controls'',
           feature_ablations = check_given checks ''feature_ablations'', filter_ablations = check_given checks ''filter_ablations'',
           exit_lab_fixed_hold_comparison = check_given checks ''exit_lab_fixed_hold_comparison'', cost_stress = check_given checks ''cost_stress'',
           concentration_checks = check_given checks ''concentration_checks'',
           parameter_neighborhood_stability = check_given checks ''parameter_neighborhood_stability'',
           regime_robustness = check_given checks ''regime_robustness'', venue_symbol_robustness = check_given checks ''venue_symbol_robustness'',
           diminishing_returns_checked = check_given checks ''diminishing_returns_checked'', failure_mode_report = check_given checks ''failure_mode_report'',
           d_fallback = fb, d_passed = False, d_missing = [],
           d_warnings = (if fb \<noteq> FB_NOT_USED then [''pre_2024_fallback_diagnostic_only''] else []),
           d_research_only = True, d_observe_only = True, d_promotion_ready = False\<rparr>"

definition build_scorecard :: "pyrow \<Rightarrow> string option \<Rightarrow> scorecard result" where
  "build_scorecard checks fallback =
     bindE (fallback_of (case fallback of None \<Rightarrow> ''not_used'' | Some s \<Rightarrow> s)) (\<lambda>fb.
     let s = scorecard_of_checks checks fb; missing = missing_of_card s in
     validate_scorecard (s\<lparr>d_passed := (missing = []), d_missing := missing\<rparr>))"

definition scorecard_json :: "scorecard \<Rightarrow> json" where
  "scorecard_json s = JObj ([(''schema_version'', JStr V2_SCHEMA_VERSION)] @
     map (\<lambda>(k, v). (k, JBool v)) (required_values s) @
     [(''pre_2024_fallback_status'', JStr (fallback_value (d_fallback s))), (''passed'', JBool (d_passed s)),
      (''missing_checks'', JList (map JStr (d_missing s))), (''warnings'', JList (map JStr (d_warnings s))),
      (''research_only'', JBool (d_research_only s)), (''observe_only'', JBool (d_observe_only s)),
      (''promotion_ready'', JBool (d_promotion_ready s))])"

section \<open>Deep validation\<close>

record deep_manifest =
  dm_id :: string
  dm_lead :: string
  dm_status :: deep_status
  dm_card :: scorecard
  dm_started_at :: instant
  dm_completed_at :: "instant option"
  dm_lock :: bool
  dm_failure :: "string option"
  dm_flags :: flags

definition validate_deep_manifest :: "deep_manifest \<Rightarrow> deep_manifest result" where
  "validate_deep_manifest m = validate_model
     [(length (dm_id m) = 64, ''manifest_id''), (dm_lead m \<noteq> [], ''lead_id'')]
     (governance_checks (dm_flags m) @
      [(dm_status m = DV_RUNNING \<and> \<not> dm_lock m, ''running deep validation requires active serious lead lock''),
       (dm_status m \<in> {DV_COMPLETED, DV_REJECTED} \<and> dm_completed_at m = None, ''terminal deep validation manifests require completed_at''),
       (dm_status m = DV_COMPLETED \<and> \<not> d_passed (dm_card m), ''completed deep validation requires passing scorecard''),
       (dm_status m = DV_REJECTED \<and> \<not> text_given (dm_failure m), ''rejected deep validation requires failure_reason'')]) m"

definition deep_validation_manifest ::
  "string \<Rightarrow> deep_status \<Rightarrow> scorecard \<Rightarrow> instant option \<Rightarrow> string option \<Rightarrow> instant \<Rightarrow> deep_manifest result" where
  "deep_validation_manifest lead_id status sheet completed_at failure now =
     bindE (canonical_json_hash (JObj [(''lead_id'', JStr lead_id), (''status'', JStr (deep_status_value status)),
        (''scorecard'', scorecard_json sheet), (''completed'', JBool (completed_at \<noteq> None)), (''failure_reason'', opt_json failure),
        (''schema_version'', JStr V2_SCHEMA_VERSION)])) (\<lambda>mid.
     validate_deep_manifest \<lparr>dm_id = mid, dm_lead = lead_id, dm_status = status, dm_card = sheet, dm_started_at = now,
       dm_completed_at = completed_at, dm_lock = True, dm_failure = failure, dm_flags = default_flags\<rparr>)"

definition start_deep_validation :: "lead \<Rightarrow> deep_manifest list \<Rightarrow> scorecard \<Rightarrow> instant \<Rightarrow> deep_manifest result" where
  "start_deep_validation r existing sheet now =
     bindE (guardE (l_state r = DEEP_VALIDATION_REQUESTED) (ValueError ''deep_validation_start_requires_requested_lead'')) (\<lambda>_.
     let running = filter (\<lambda>m. dm_status m = DV_RUNNING) existing in
     bindE (guardE (running = []) (ValueError ''one_active_serious_lead_lock'')) (\<lambda>_.
     deep_validation_manifest (l_id r) DV_RUNNING sheet None None now))"

definition complete_deep_validation :: "deep_manifest \<Rightarrow> scorecard \<Rightarrow> instant \<Rightarrow> instant \<Rightarrow> deep_manifest result" where
  "complete_deep_validation m sheet completed now = deep_validation_manifest (dm_lead m)
     (if d_passed sheet then DV_COMPLETED else DV_REJECTED) sheet (Some completed)
     (if d_passed sheet then None else Some ''deep_validation_scorecard_failed'') now"

section \<open>The fallback diagnostic\<close>

record fallback_diagnostic =
  fd_id :: string
  fd_lead :: string
  fd_available :: bool
  fd_passed :: bool
  fd_status :: fallback
  fd_label :: string
  fd_substituted :: bool
  fd_warning :: "string option"
  fd_research_only :: bool
  fd_observe_only :: bool
  fd_promotion_ready :: bool

definition validate_fallback_diagnostic :: "fallback_diagnostic \<Rightarrow> fallback_diagnostic result" where
  "validate_fallback_diagnostic d = validate_model [(length (fd_id d) = 64, ''diagnostic_id''), (fd_lead d \<noteq> [], ''lead_id'')]
     [(\<not> (fd_research_only d \<and> fd_observe_only d \<and> \<not> fd_promotion_ready d), governance_boundary_error),
      (fd_label d \<noteq> ''diagnostic_fallback_only'', ''pre-2024 fallback requires diagnostic_fallback_only label''),
      (fd_substituted d, ''pre-2024 fallback cannot substitute for mandatory 2024+ evidence''),
      (\<not> fd_available d \<and> fd_status d \<noteq> FB_FAILED_LEAD, ''unavailable pre-2024 fallback must fail the lead'')] d"

definition build_pre_2024_fallback_diagnostic :: "string \<Rightarrow> bool \<Rightarrow> bool \<Rightarrow> fallback_diagnostic result" where
  "build_pre_2024_fallback_diagnostic lead_id available passed =
     (let (status, warning) = (if \<not> available then (FB_FAILED_LEAD, ''pre_2024_fallback_unavailable_failed_lead'')
           else if passed then (FB_RETURN_WITH_WARNING, ''pre_2024_fallback_passed_diagnostic_only'')
           else (FB_DIAGNOSTIC_ONLY, ''pre_2024_fallback_failed_diagnostic_only'')) in
      bindE (canonical_json_hash (JObj [(''lead_id'', JStr lead_id), (''available'', JBool available), (''passed'', JBool passed),
        (''status'', JStr (fallback_value status)), (''required_label'', JStr ''diagnostic_fallback_only''),
        (''schema_version'', JStr V2_SCHEMA_VERSION)])) (\<lambda>did.
      validate_fallback_diagnostic \<lparr>fd_id = did, fd_lead = lead_id, fd_available = available, fd_passed = passed, fd_status = status,
        fd_label = ''diagnostic_fallback_only'', fd_substituted = False, fd_warning = Some warning, fd_research_only = True,
        fd_observe_only = True, fd_promotion_ready = False\<rparr>))"

section \<open>Final slots\<close>

record frozen =
  fz_strategy :: string
  fz_params :: string
  fz_data :: string
  fz_universe :: string
  fz_costs :: string
  fz_phase :: string

record slot =
  sl_id :: string
  sl_lead :: string
  sl_rank :: int
  sl_frozen :: frozen
  sl_lockbox_access :: bool
  sl_edits :: bool
  sl_section :: string
  sl_implication :: bool
  sl_active :: bool
  sl_created_at :: instant
  sl_flags :: flags

definition frozen_fields :: "frozen \<Rightarrow> (string \<times> string) list" where
  "frozen_fields f = [(''frozen_strategy_spec_hash'', fz_strategy f), (''frozen_params_hash'', fz_params f),
     (''frozen_data_manifest_hash'', fz_data f), (''frozen_universe_snapshot_id'', fz_universe f),
     (''frozen_cost_model_hash'', fz_costs f), (''final_phase_manifest_id'', fz_phase f)]"

definition validate_slot :: "slot \<Rightarrow> slot result" where
  "validate_slot s = validate_model
     ([(length (sl_id s) = 64, ''slot_id''), (sl_lead s \<noteq> [], ''lead_id''),
       (1 \<le> sl_rank s \<and> sl_rank s \<le> FINAL_HARD_TEST_MAX_SLOTS, ''slot_rank'')] @
      map (\<lambda>(n, h). (length h = 64, n)) (frozen_fields (sl_frozen s)))
     (governance_checks (sl_flags s) @
      [(\<not> sl_lockbox_access s, ''final hard-test slot must explicitly represent final-phase lockbox access''),
       (sl_edits s, ''parameter edits after lockbox access are forbidden''),
       (sl_implication s, ''final hard-test slots cannot imply paper/live readiness'')]) s"

definition allocate_final_hard_test_slot :: "lead \<Rightarrow> slot list \<Rightarrow> int \<Rightarrow> frozen \<Rightarrow> instant \<Rightarrow> slot result" where
  "allocate_final_hard_test_slot r existing rank f now =
     bindE (guardE (l_state r \<in> {DEEP_VALIDATION_APPROVED, FINAL_TEST_CANDIDATE})
       (ValueError ''final_hard_test_requires_deep_validation_approved_lead'')) (\<lambda>_.
     let active = filter sl_active existing in
     bindE (guardE (int (length active) < FINAL_HARD_TEST_MAX_SLOTS) (ValueError ''final_hard_test_rejects_more_than_three_slots'')) (\<lambda>_.
     bindE (guardE (\<not> list_ex (\<lambda>s. sl_lead s = l_id r) active) (ValueError ''final_hard_test_duplicate_lead_slot'')) (\<lambda>_.
     bindE (canonical_json_hash (JObj ([(''lead_id'', JStr (l_id r)), (''slot_rank'', JInt rank)] @
        map (\<lambda>(n, h). (n, JStr h)) (frozen_fields f) @ [(''schema_version'', JStr V2_SCHEMA_VERSION)]))) (\<lambda>sid.
     validate_slot \<lparr>sl_id = sid, sl_lead = l_id r, sl_rank = rank, sl_frozen = f, sl_lockbox_access = True, sl_edits = False,
       sl_section = ''final_hard_test_separate_section_only'', sl_implication = False, sl_active = True, sl_created_at = now,
       sl_flags = default_flags\<rparr>))))"

definition reject_parameter_edit_after_lockbox :: "slot \<Rightarrow> string \<Rightarrow> unit result" where
  "reject_parameter_edit_after_lockbox s attempted =
     guardE (attempted = fz_params (sl_frozen s)) (ValueError ''parameter_edits_after_lockbox_access_are_forbidden'')"

record survivor_report =
  sv_id :: string
  sv_slot :: string
  sv_lead :: string
  sv_summary :: string
  sv_disclaimer :: string
  sv_implication :: bool
  sv_trade_readiness :: bool
  sv_order :: bool
  sv_sizing :: bool
  sv_runtime :: bool
  sv_created_at :: instant
  sv_flags :: flags

definition enabled_claims :: "survivor_report \<Rightarrow> string list" where
  "enabled_claims r = map fst (filter snd [(''paper_live_implication'', sv_implication r), (''trade_readiness_claim'', sv_trade_readiness r),
     (''order_authorization'', sv_order r), (''sizing_authorization'', sv_sizing r), (''runtime_mode_change_authorization'', sv_runtime r)])"

definition validate_survivor_report :: "survivor_report \<Rightarrow> survivor_report result" where
  "validate_survivor_report r = validate_model
     [(length (sv_id r) = 64, ''report_id''), (length (sv_slot r) = 64, ''slot_id''), (sv_lead r \<noteq> [], ''lead_id''),
      (sv_summary r \<noteq> [], ''result_summary'')]
     (governance_checks (sv_flags r) @
      [(enabled_claims r \<noteq> [], ''final survivor report violates non-live disclaimer: '' @ join '','' (enabled_claims r)),
       (\<not> contains ''not paper/live/trade-ready'' (sv_disclaimer r), ''final survivor report requires non-live disclaimer'')]) r"

definition build_final_survivor_report :: "slot \<Rightarrow> string \<Rightarrow> instant \<Rightarrow> survivor_report result" where
  "build_final_survivor_report s summary now =
     bindE (canonical_json_hash (JObj [(''slot_id'', JStr (sl_id s)), (''lead_id'', JStr (sl_lead s)), (''result_summary'', JStr summary),
        (''non_live_disclaimer'', JStr NON_LIVE_SURVIVOR_DISCLAIMER), (''schema_version'', JStr V2_SCHEMA_VERSION)])) (\<lambda>rid.
     validate_survivor_report \<lparr>sv_id = rid, sv_slot = sl_id s, sv_lead = sl_lead s, sv_summary = summary,
       sv_disclaimer = NON_LIVE_SURVIVOR_DISCLAIMER, sv_implication = False, sv_trade_readiness = False, sv_order = False,
       sv_sizing = False, sv_runtime = False, sv_created_at = now, sv_flags = default_flags\<rparr>)"

section \<open>Records the builders produce\<close>

lemma governance_default [simp]: "(\<forall>(c, m) \<in> set (governance_checks default_flags). \<not> c)"
  by (auto simp: governance_checks_def enabled_forbidden_def) (simp_all add: default_flags_def)

lemma scorecard_json_finite: "all_finite (scorecard_json s)"
  by (simp add: scorecard_json_def required_values_def list_all_iff)

lemma texts_hash: "list_all (\<lambda>kv. all_finite (snd kv)) kvs \<Longrightarrow> \<exists>h. canonical_json_hash (JObj kvs) = Inr h \<and> length h = 64"
  by (rule canonical_json_hash_finite) simp

lemma opt_json_finite [simp]: "all_finite (opt_json x)"
  by (cases x) (simp_all add: opt_json_def)

lemma required_values_update [simp]:
  "required_values (s\<lparr>d_passed := p\<rparr>) = required_values s" "required_values (s\<lparr>d_missing := ms\<rparr>) = required_values s"
  "missing_of_card (s\<lparr>d_passed := p\<rparr>) = missing_of_card s" "missing_of_card (s\<lparr>d_missing := ms\<rparr>) = missing_of_card s"
  by (simp_all add: required_values_def missing_of_card_def)

text \<open>
  Building a scorecard fails exactly on an unknown fallback status.  Otherwise it records each of
  the sixteen checks as given (absent means not done), lists the ones that are not done in their
  order, passes exactly when there is none, and warns exactly when the fallback was used.
\<close>

theorem scorecard_exact:
  "case fallback_of (case fb of None \<Rightarrow> ''not_used'' | Some s \<Rightarrow> s) of
     Inl e \<Rightarrow> build_scorecard checks fb = Inl e
   | Inr f \<Rightarrow> \<exists>s. build_scorecard checks fb = Inr s \<and> validate_scorecard s = Inr s \<and>
       required_values s = map (\<lambda>k. (k, check_given checks k)) (map fst (required_values s)) \<and> length (required_values s) = 16 \<and>
       d_missing s = map fst (filter (\<lambda>(_, v). \<not> v) (required_values s)) \<and>
       (d_passed s \<longleftrightarrow> list_all snd (required_values s)) \<and> (d_warnings s \<noteq> [] \<longleftrightarrow> f \<noteq> FB_NOT_USED)"
proof (cases "fallback_of (case fb of None \<Rightarrow> ''not_used'' | Some s \<Rightarrow> s)")
  case (Inl e)
  then show ?thesis by (simp add: build_scorecard_def)
next
  case (Inr f)
  have p: "map fst (filter (\<lambda>(_, v). \<not> v) vs) = [] \<longleftrightarrow> list_all snd vs" for vs :: "(string \<times> bool) list"
    by (induction vs) auto
  define s where "s = scorecard_of_checks checks f"
  have b: "build_scorecard checks fb = validate_scorecard (s\<lparr>d_passed := (missing_of_card s = []), d_missing := missing_of_card s\<rparr>)"
    by (simp add: build_scorecard_def Inr Let_def s_def)
  have s: "required_values s = map (\<lambda>k. (k, check_given checks k)) (map fst (required_values s))" "length (required_values s) = 16"
    "d_fallback s = f" "d_warnings s = (if f \<noteq> FB_NOT_USED then [''pre_2024_fallback_diagnostic_only''] else [])"
    "d_research_only s" "d_observe_only s" "\<not> d_promotion_ready s"
    by (simp_all add: s_def scorecard_of_checks_def required_values_def)
  let ?t = "s\<lparr>d_passed := (missing_of_card s = []), d_missing := missing_of_card s\<rparr>"
  have v: "validate_scorecard ?t = Inr ?t" using s by (simp add: validate_scorecard_def validate_model_def)
  have "required_values ?t = required_values s" by simp
  then show ?thesis unfolding Inr sum.case
    by (intro exI [of _ ?t] conjI) (use s b v p in \<open>simp_all add: missing_of_card_def\<close>)
qed

definition running :: "deep_manifest list \<Rightarrow> deep_manifest list" where
  "running ms = filter (\<lambda>m. dm_status m = DV_RUNNING) ms"

lemma manifest_built:
  assumes "lead_id \<noteq> []" "st = DV_RUNNING \<or> completed \<noteq> None" "st = DV_COMPLETED \<Longrightarrow> d_passed sheet" "st = DV_REJECTED \<Longrightarrow> text_given failure"
  shows "\<exists>m. deep_validation_manifest lead_id st sheet completed failure now = Inr m \<and> dm_status m = st \<and> dm_lead m = lead_id \<and>
    dm_card m = sheet \<and> dm_lock m \<and> dm_completed_at m = completed"
proof -
  obtain h where h: "canonical_json_hash (JObj [(''lead_id'', JStr lead_id), (''status'', JStr (deep_status_value st)),
        (''scorecard'', scorecard_json sheet), (''completed'', JBool (completed \<noteq> None)), (''failure_reason'', opt_json failure),
        (''schema_version'', JStr V2_SCHEMA_VERSION)]) = Inr h" "length h = 64"
    using texts_hash [of "[(''lead_id'', JStr lead_id), (''status'', JStr (deep_status_value st)),
        (''scorecard'', scorecard_json sheet), (''completed'', JBool (completed \<noteq> None)), (''failure_reason'', opt_json failure),
        (''schema_version'', JStr V2_SCHEMA_VERSION)]"] scorecard_json_finite by auto
  let ?m = "\<lparr>dm_id = h, dm_lead = lead_id, dm_status = st, dm_card = sheet, dm_started_at = now,
       dm_completed_at = completed, dm_lock = True, dm_failure = failure, dm_flags = default_flags\<rparr>"
  have "validate_deep_manifest ?m = Inr ?m"
    unfolding validate_deep_manifest_def validate_model_Inr_iff using assms h(2) governance_default by auto
  then show ?thesis by (intro exI [of _ ?m]) (simp only: deep_validation_manifest_def h(1) bindE_simps, simp)
qed

text \<open>
  A deep validation starts exactly for a lead in the requested state while none is running, and
  then exactly one is; completing one always returns, leaves none running, and is completed exactly
  when the scorecard passed.
\<close>

theorem one_active_deep_validation:
  assumes "lead_ok r" and "dm_lead m \<noteq> []"
  shows "((\<exists>new. start_deep_validation r ms sheet now = Inr new) \<longleftrightarrow> l_state r = DEEP_VALIDATION_REQUESTED \<and> running ms = []) \<and>
    (\<forall>new. start_deep_validation r ms sheet now = Inr new \<longrightarrow> running (ms @ [new]) = [new] \<and> dm_lead new = l_id r \<and> dm_lock new) \<and>
    (\<exists>done. complete_deep_validation m sheet t now = Inr done \<and> dm_lead done = dm_lead m \<and> running [done] = [] \<and>
      dm_status done = (if d_passed sheet then DV_COMPLETED else DV_REJECTED))"
proof -
  have "l_id r \<noteq> []" using assms(1) by (simp add: lead_ok_def lead_fields_def)
  from manifest_built [OF this, of DV_RUNNING None sheet None now]
  obtain new where n: "deep_validation_manifest (l_id r) DV_RUNNING sheet None None now = Inr new" "dm_status new = DV_RUNNING"
    "dm_lead new = l_id r" "dm_lock new" by auto
  have c: "\<exists>done. complete_deep_validation m sheet t now = Inr done \<and> dm_status done = (if d_passed sheet then DV_COMPLETED else DV_REJECTED) \<and>
      dm_lead done = dm_lead m"
    using manifest_built [OF assms(2), of "if d_passed sheet then DV_COMPLETED else DV_REJECTED" "Some t" sheet
        "if d_passed sheet then None else Some ''deep_validation_scorecard_failed''" now]
    by (auto simp: complete_deep_validation_def text_given_def split: if_splits)
  then obtain finished where f: "complete_deep_validation m sheet t now = Inr finished"
    "dm_status finished = (if d_passed sheet then DV_COMPLETED else DV_REJECTED)" "dm_lead finished = dm_lead m" by blast
  have "dm_status finished \<noteq> DV_RUNNING" using f(2) by simp
  then show ?thesis using n f unfolding running_def
    by (auto simp: start_deep_validation_def Let_def bindE_Inr_iff)
qed

lemma deep_demo_ok: "st \<in> set deep_states \<Longrightarrow> lead_ok (approved_demo\<lparr>l_state := st\<rparr>)"
  using approved_demo_ok
  by (auto simp: lead_ok_def lead_times_ok_def lead_fields_def lead_checks_def lead_times_def approved_demo_def)

definition all_checks :: pyrow where
  "all_checks = map (\<lambda>(k, v). (k, VBool True)) (required_values (scorecard_of_checks [] FB_NOT_USED))"

definition demo_card :: scorecard where
  "demo_card = scorecard_of_checks all_checks FB_NOT_USED"

definition demo_manifest :: deep_manifest where
  "demo_manifest = \<lparr>dm_id = replicate 64 CHR ''m'', dm_lead = ''L1'', dm_status = DV_RUNNING, dm_card = demo_card, dm_started_at = 0,
     dm_completed_at = None, dm_lock = True, dm_failure = None, dm_flags = default_flags\<rparr>"

lemma one_active_deep_validation_witness:
  "\<exists>new. start_deep_validation (approved_demo\<lparr>l_state := DEEP_VALIDATION_REQUESTED\<rparr>) [] demo_card 0 = Inr new"
  using one_active_deep_validation [of "approved_demo\<lparr>l_state := DEEP_VALIDATION_REQUESTED\<rparr>" demo_manifest "[]" demo_card 0 0]
    deep_demo_ok [of DEEP_VALIDATION_REQUESTED]
  by (simp add: demo_manifest_def deep_states_def running_def)

definition slots_ok :: "slot list \<Rightarrow> bool" where
  "slots_ok slots \<longleftrightarrow> length (filter sl_active slots) \<le> 3 \<and> distinct (map sl_lead (filter sl_active slots))"

definition frozen_ok :: "frozen \<Rightarrow> bool" where
  "frozen_ok f \<longleftrightarrow> list_all (\<lambda>(n, h). length h = 64) (frozen_fields f)"

lemma allocate_cases:
  assumes "l_id r \<noteq> []"
  shows "if l_state r \<in> {DEEP_VALIDATION_APPROVED, FINAL_TEST_CANDIDATE} \<and> length (filter sl_active slots) < 3 \<and>
      l_id r \<notin> sl_lead ` set (filter sl_active slots) \<and> 1 \<le> rank \<and> rank \<le> 3 \<and> frozen_ok f
    then \<exists>s. allocate_final_hard_test_slot r slots rank f now = Inr s \<and> sl_lead s = l_id r \<and> sl_active s \<and> sl_rank s = rank \<and> sl_frozen s = f
    else \<exists>e. allocate_final_hard_test_slot r slots rank f now = Inl e"
proof -
  obtain h where h: "canonical_json_hash (JObj ([(''lead_id'', JStr (l_id r)), (''slot_rank'', JInt rank)] @
        map (\<lambda>(n, h). (n, JStr h)) (frozen_fields f) @ [(''schema_version'', JStr V2_SCHEMA_VERSION)])) = Inr h" "length h = 64"
    using texts_hash [of "[(''lead_id'', JStr (l_id r)), (''slot_rank'', JInt rank)] @
        map (\<lambda>(n, h). (n, JStr h)) (frozen_fields f) @ [(''schema_version'', JStr V2_SCHEMA_VERSION)]"]
    by (auto simp: frozen_fields_def)
  let ?s = "\<lparr>sl_id = h, sl_lead = l_id r, sl_rank = rank, sl_frozen = f, sl_lockbox_access = True, sl_edits = False,
       sl_section = ''final_hard_test_separate_section_only'', sl_implication = False, sl_active = True, sl_created_at = now,
       sl_flags = default_flags\<rparr>"
  have ok: "validate_slot ?s = Inr x \<longleftrightarrow> x = ?s \<and> 1 \<le> rank \<and> rank \<le> 3 \<and> frozen_ok f" for x
    unfolding validate_slot_def validate_model_Inr_iff using h(2) assms governance_default
    by (auto simp: FINAL_HARD_TEST_MAX_SLOTS_def frozen_ok_def list_all_iff)
  have step: "allocate_final_hard_test_slot r slots rank f now =
      bindE (guardE (l_state r \<in> {DEEP_VALIDATION_APPROVED, FINAL_TEST_CANDIDATE}) (ValueError ''final_hard_test_requires_deep_validation_approved_lead'')) (\<lambda>_.
      bindE (guardE (int (length (filter sl_active slots)) < FINAL_HARD_TEST_MAX_SLOTS) (ValueError ''final_hard_test_rejects_more_than_three_slots'')) (\<lambda>_.
      bindE (guardE (\<not> list_ex (\<lambda>s. sl_lead s = l_id r) (filter sl_active slots)) (ValueError ''final_hard_test_duplicate_lead_slot'')) (\<lambda>_. validate_slot ?s)))"
    unfolding allocate_final_hard_test_slot_def Let_def h(1) bindE_simps ..
  have dup: "\<not> list_ex (\<lambda>s. sl_lead s = l_id r) xs \<longleftrightarrow> l_id r \<notin> sl_lead ` set xs" for xs by (force simp: list_ex_iff)
  show ?thesis
  proof (cases "l_state r \<in> {DEEP_VALIDATION_APPROVED, FINAL_TEST_CANDIDATE} \<and> length (filter sl_active slots) < 3 \<and>
      l_id r \<notin> sl_lead ` set (filter sl_active slots)")
    case True
    then have "allocate_final_hard_test_slot r slots rank f now = validate_slot ?s"
      unfolding step dup FINAL_HARD_TEST_MAX_SLOTS_def by (simp add: guardE_def)
    then show ?thesis using True ok by (cases "validate_slot ?s") auto
  next
    case False
    then show ?thesis unfolding step dup FINAL_HARD_TEST_MAX_SLOTS_def by (auto simp: guardE_def bindE_def)
  qed
qed

text \<open>
  C29: a slot of the final hard test is allocated exactly to a lead that deep validation approved,
  while fewer than three slots are active and none of them is the lead's, with a rank from one to
  three and six digests to freeze.  The new slot keeps the active slots at most three, of different
  leads; the lead's row proves a completed inspection and an approval after it; the parameters of
  the slot can no longer change.
\<close>

theorem final_slots_bounded:
  assumes "lead_ok r" and "slots_ok slots"
  shows "((\<exists>s. allocate_final_hard_test_slot r slots rank f now = Inr s) \<longleftrightarrow>
      l_state r \<in> {DEEP_VALIDATION_APPROVED, FINAL_TEST_CANDIDATE} \<and> length (filter sl_active slots) < 3 \<and>
      l_id r \<notin> sl_lead ` set (filter sl_active slots) \<and> 1 \<le> rank \<and> rank \<le> 3 \<and> frozen_ok f) \<and>
    (\<forall>s. allocate_final_hard_test_slot r slots rank f now = Inr s \<longrightarrow> slots_ok (slots @ [s]) \<and>
      l_inspection r = INSPECTION_COMPLETED \<and> l_approval r = APPROVED_AFTER_HUMAN_INSPECTION \<and>
      (reject_parameter_edit_after_lockbox s h = Inr () \<longleftrightarrow> h = fz_params f))"
proof -
  have ne: "l_id r \<noteq> []" using assms(1) by (simp add: lead_ok_def lead_fields_def)
  note c = allocate_cases [OF ne, of slots rank f now]
  have rv: "l_inspection r = INSPECTION_COMPLETED \<and> l_approval r = APPROVED_AFTER_HUMAN_INSPECTION"
    if "l_state r \<in> {DEEP_VALIDATION_APPROVED, FINAL_TEST_CANDIDATE}"
    using assms(1) that by (auto simp: lead_ok_def lead_checks_def deep_states_def)
  show ?thesis using c rv assms(2) by (auto simp: slots_ok_def reject_parameter_edit_after_lockbox_def split: if_splits)
qed

lemma final_slots_bounded_witness:
  "\<exists>s. allocate_final_hard_test_slot (approved_demo\<lparr>l_state := DEEP_VALIDATION_APPROVED\<rparr>) [] 1
    \<lparr>fz_strategy = replicate 64 CHR ''a'', fz_params = replicate 64 CHR ''b'', fz_data = replicate 64 CHR ''c'',
      fz_universe = replicate 64 CHR ''d'', fz_costs = replicate 64 CHR ''e'', fz_phase = replicate 64 CHR ''f''\<rparr> 0 = Inr s"
  using final_slots_bounded [of "approved_demo\<lparr>l_state := DEEP_VALIDATION_APPROVED\<rparr>" "[]" 1
      "\<lparr>fz_strategy = replicate 64 CHR ''a'', fz_params = replicate 64 CHR ''b'', fz_data = replicate 64 CHR ''c'',
      fz_universe = replicate 64 CHR ''d'', fz_costs = replicate 64 CHR ''e'', fz_phase = replicate 64 CHR ''f''\<rparr>" 0]
    deep_demo_ok [of DEEP_VALIDATION_APPROVED]
  by (simp add: deep_states_def slots_ok_def frozen_ok_def frozen_fields_def)

end
