(* ===== verification/Universe.thy ===== *)
theory Universe
  imports Boundary Tables
begin

text \<open>
  \<open>universe/models.py\<close>, \<open>rules.py\<close>, \<open>hyperliquid.py\<close>, \<open>store.py\<close>: the instruments and contexts read from a
  venue payload, the eligibility of each instrument, the identity of a snapshot, the three manifest
  tables and the queries on them.  Payloads are JSON values; \<open>py_str\<close> is Python's \<open>str\<close> of one, and
  numbers inside texts are read by \<open>float_text\<close> and \<open>int_text\<close>.  Writing the raw file and fetching the
  payload are not modelled: their identifiers are arguments.
\<close>

section \<open>Records\<close>

datatype universe_mode = AS_OF | CURRENT_LABELED_SANDBOX | STATIC_FIXTURE

fun universe_mode_value :: "universe_mode \<Rightarrow> string" where
  "universe_mode_value AS_OF = ''as_of''"
| "universe_mode_value CURRENT_LABELED_SANDBOX = ''current_labeled_sandbox''"
| "universe_mode_value STATIC_FIXTURE = ''static_fixture''"

record instrument =
  in_id :: string
  in_venue :: string
  in_symbol :: string
  in_canonical :: string
  in_market :: string
  in_base :: string
  in_quote :: string
  in_settle :: "string option"
  in_first_seen :: instant
  in_last_seen :: instant
  in_status :: string
  in_decimals :: "int option"
  in_leverage :: "pyfloat option"
  in_isolated :: "bool option"
  in_hip3 :: bool
  in_namespace :: "string option"
  in_reference :: "string option"
  in_oracle :: "string option"
  in_calendar :: "string option"
  in_weekend :: "bool option"
  in_age :: "int option"
  in_proxy :: "bool option"
  in_source :: string

definition validate_instrument :: "instrument \<Rightarrow> instrument result" where
  "validate_instrument r = validate_model
     [(in_id r \<noteq> [], ''instrument_id''), (in_symbol r \<noteq> [], ''venue_symbol''), (in_canonical r \<noteq> [], ''canonical_symbol''),
      (in_base r \<noteq> [], ''base_asset''), (in_source r \<noteq> [], ''source_snapshot_id'')]
     [(in_hip3 r \<and> \<not> text_given (in_namespace r), ''HIP-3/RWA instruments require dex_namespace'')] r"

record asset_context =
  ac_id :: string
  ac_symbol :: string
  ac_volume :: pyfloat
  ac_interest :: "pyfloat option"
  ac_mark :: "pyfloat option"
  ac_oracle :: "pyfloat option"
  ac_funding :: "pyfloat option"
  ac_raw :: "(string \<times> json) list"

definition validate_context :: "asset_context \<Rightarrow> asset_context result" where
  "validate_context r = validate_model
     [(ac_id r \<noteq> [], ''instrument_id''), (ac_symbol r \<noteq> [], ''venue_symbol''), (f_ge (ac_volume r) (Fin 0), ''day_ntl_vlm_usd'')] [] r"

record universe_row =
  ur_snapshot :: string
  ur_asof :: pydate
  ur_venue :: string
  ur_rule :: string
  ur_mode :: universe_mode
  ur_instrument :: string
  ur_volume :: pyfloat
  ur_interest :: "pyfloat option"
  ur_mark :: "pyfloat option"
  ur_oracle :: "pyfloat option"
  ur_funding :: "pyfloat option"
  ur_ok_volume :: bool
  ur_ok_coverage :: bool
  ur_ok_history :: bool
  ur_ok_status :: bool
  ur_ok_hip3 :: bool
  ur_eligible :: bool
  ur_reason :: "string option"
  ur_scope :: string
  ur_accepted :: bool
  ur_payload_sha :: string
  ur_raw_file :: string
  ur_created_at :: instant

definition validate_universe_row :: "universe_row \<Rightarrow> universe_row result" where
  "validate_universe_row r = validate_model
     [(length (ur_snapshot r) = 64, ''snapshot_id''), (ur_instrument r \<noteq> [], ''instrument_id''),
      (f_ge (ur_volume r) (Fin 0), ''day_ntl_vlm_usd''), (length (ur_payload_sha r) = 64, ''raw_payload_sha256''),
      (length (ur_raw_file r) = 64, ''raw_file_id'')] [] r"

section \<open>Eligibility\<close>

definition evidence_scope_for_mode :: "universe_mode \<Rightarrow> string \<times> bool" where
  "evidence_scope_for_mode m = (if m = AS_OF then (''accepted_research'', True)
     else if m = CURRENT_LABELED_SANDBOX then (''current_sandbox_only'', False) else (''static_fixture_only'', False))"

definition hip3_metadata_complete :: "instrument \<Rightarrow> bool" where
  "hip3_metadata_complete r \<longleftrightarrow> (if \<not> in_hip3 r then True else
     text_given (in_namespace r) \<and> text_given (in_reference r) \<and> text_given (in_oracle r) \<and> text_given (in_calendar r) \<and>
     in_weekend r \<noteq> None \<and> in_age r \<noteq> None \<and> in_proxy r \<noteq> None)"

definition inactive_statuses :: "string list" where
  "inactive_statuses = [''disabled'', ''delisted'', ''quarantine'']"

text \<open>A float and an int compare by their exact values.\<close>

definition eligibility_reason :: "instrument \<Rightarrow> pyfloat \<Rightarrow> int \<Rightarrow> pyfloat \<Rightarrow> pyfloat \<Rightarrow> int \<Rightarrow> int \<Rightarrow> string option" where
  "eligibility_reason r volume min_notional ratio cmin months min_months =
     (if in_status r \<in> set inactive_statuses then Some ''inactive_instrument''
      else if f_lt volume (Fin (of_int min_notional)) then Some ''volume_below_threshold''
      else if f_lt ratio cmin then Some ''insufficient_coverage''
      else if months < min_months then Some ''insufficient_history''
      else if \<not> hip3_metadata_complete r then Some ''missing_hip3_metadata''
      else None)"

definition UNIVERSE_RULE_ID :: string where "UNIVERSE_RULE_ID = ''hl_perps_day_ntl_vlm_gte_5m_v1''"

record universe_params =
  up_asof :: pydate
  up_payload_sha :: string
  up_raw_file :: string
  up_min_notional :: int
  up_mode :: universe_mode
  up_ratio :: pyfloat
  up_cmin :: pyfloat
  up_months :: int
  up_min_months :: int

definition universe_row_of :: "universe_params \<Rightarrow> instant \<Rightarrow> instrument \<Rightarrow> asset_context \<Rightarrow> universe_row" where
  "universe_row_of p now r c =
     (let (scope, accepted) = evidence_scope_for_mode (up_mode p);
          reason = eligibility_reason r (ac_volume c) (up_min_notional p) (up_ratio p) (up_cmin p) (up_months p) (up_min_months p);
          eligible = (reason = None) in
      \<lparr>ur_snapshot = replicate 64 CHR ''0'', ur_asof = up_asof p, ur_venue = ''hyperliquid'', ur_rule = UNIVERSE_RULE_ID,
       ur_mode = up_mode p, ur_instrument = in_id r, ur_volume = ac_volume c, ur_interest = ac_interest c, ur_mark = ac_mark c,
       ur_oracle = ac_oracle c, ur_funding = ac_funding c, ur_ok_volume = f_ge (ac_volume c) (Fin (of_int (up_min_notional p))),
       ur_ok_coverage = f_ge (up_ratio p) (up_cmin p), ur_ok_history = (up_months p \<ge> up_min_months p),
       ur_ok_status = (in_status r \<notin> set inactive_statuses), ur_ok_hip3 = hip3_metadata_complete r, ur_eligible = eligible,
       ur_reason = reason, ur_scope = scope, ur_accepted = (accepted \<and> eligible), ur_payload_sha = up_payload_sha p,
       ur_raw_file = up_raw_file p, ur_created_at = now\<rparr>)"

definition build_universe_rows :: "universe_params \<Rightarrow> instant \<Rightarrow> instrument list \<Rightarrow> asset_context list \<Rightarrow> universe_row list result" where
  "build_universe_rows p now instruments contexts =
     (let context_by_id = index_rows ac_id contexts [] in
      mapE (\<lambda>r. case map_of context_by_id (in_id r) of None \<Rightarrow> Inl (KeyError (in_id r))
        | Some c \<Rightarrow> validate_universe_row (universe_row_of p now r c)) (sorted_by in_id instruments))"

section \<open>Snapshot identity\<close>

definition opt_float_json :: "pyfloat option \<Rightarrow> json" where
  "opt_float_json x = (case x of None \<Rightarrow> JNull | Some v \<Rightarrow> JFloat v)"

definition universe_row_json :: "universe_row \<Rightarrow> (string \<times> json) list" where
  "universe_row_json r = [(''asof_date'', JStr (date_isoformat (ur_asof r))), (''venue'', JStr (ur_venue r)),
     (''universe_rule_id'', JStr (ur_rule r)), (''universe_mode'', JStr (universe_mode_value (ur_mode r))),
     (''instrument_id'', JStr (ur_instrument r)), (''day_ntl_vlm_usd'', JFloat (ur_volume r)),
     (''open_interest'', opt_float_json (ur_interest r)), (''mark_px'', opt_float_json (ur_mark r)),
     (''oracle_px'', opt_float_json (ur_oracle r)), (''funding'', opt_float_json (ur_funding r)),
     (''eligible_volume'', JBool (ur_ok_volume r)), (''eligible_coverage'', JBool (ur_ok_coverage r)),
     (''eligible_history'', JBool (ur_ok_history r)), (''eligible_status'', JBool (ur_ok_status r)),
     (''eligible_hip3_metadata'', JBool (ur_ok_hip3 r)), (''eligible'', JBool (ur_eligible r)),
     (''exclusion_reason'', opt_json (ur_reason r)), (''evidence_scope'', JStr (ur_scope r)),
     (''accepted_research_evidence_allowed'', JBool (ur_accepted r)), (''raw_payload_sha256'', JStr (ur_payload_sha r)),
     (''raw_file_id'', JStr (ur_raw_file r))]"

definition universe_snapshot_id :: "universe_row list \<Rightarrow> string result" where
  "universe_snapshot_id rows = manifest_rows_hash (map universe_row_json (sorted_by ur_instrument rows))"

section \<open>Reading a payload\<close>

record json_env =
  py_str :: "json \<Rightarrow> string"
  float_text :: "string \<Rightarrow> pyfloat result"
  int_text :: "string \<Rightarrow> int result"

fun json_true :: "json \<Rightarrow> bool" where
  "json_true JNull = False"
| "json_true (JBool b) = b"
| "json_true (JInt i) = (i \<noteq> 0)"
| "json_true (JFloat x) = (x \<noteq> Fin 0)"
| "json_true (JStr s) = (s \<noteq> [])"
| "json_true (JList xs) = (xs \<noteq> [])"
| "json_true (JObj kvs) = (kvs \<noteq> [])"

text \<open>\<open>d.get(k)\<close>, and \<open>a or b\<close>.\<close>

definition get_entry :: "string \<Rightarrow> (string \<times> json) list \<Rightarrow> json" where
  "get_entry k d = (case map_of d k of None \<Rightarrow> JNull | Some v \<Rightarrow> v)"

definition json_or :: "json \<Rightarrow> json \<Rightarrow> json" where
  "json_or a b = (if json_true a then a else b)"

text \<open>Iterating over a value: a dictionary yields its keys, a text its characters.\<close>

fun json_iter :: "json \<Rightarrow> json list result" where
  "json_iter (JList xs) = Inr xs"
| "json_iter (JObj kvs) = Inr (map (\<lambda>(k, v). JStr k) kvs)"
| "json_iter (JStr s) = Inr (map (\<lambda>c. JStr [c]) s)"
| "json_iter v = Inl (TypeError ''object is not iterable'')"

definition given_list :: "json \<Rightarrow> json list result" where
  "given_list v = json_iter (json_or v (JList []))"

fun is_mapping :: "json \<Rightarrow> bool" where
  "is_mapping (JObj kvs) = True"
| "is_mapping v = False"

fun split_meta_and_contexts :: "json \<Rightarrow> (json \<times> json list) result" where
  "split_meta_and_contexts (JList (JObj meta # contexts # rest)) = bindE (given_list contexts) (\<lambda>cs. Inr (JObj meta, cs))"
| "split_meta_and_contexts (JObj d) =
     (if map_of d ''meta'' \<noteq> None \<and> map_of d ''assetCtxs'' \<noteq> None
      then bindE (given_list (get_entry ''assetCtxs'' d)) (\<lambda>cs. Inr (get_entry ''meta'' d, cs))
      else if map_of d ''universe'' \<noteq> None \<and> map_of d ''asset_contexts'' \<noteq> None
      then bindE (given_list (get_entry ''asset_contexts'' d)) (\<lambda>cs. Inr (JObj d, cs))
      else Inl (ValueError ''unsupported Hyperliquid metaAndAssetCtxs payload shape''))"
| "split_meta_and_contexts v = Inl (ValueError ''unsupported Hyperliquid metaAndAssetCtxs payload shape'')"

fun json_float :: "json_env \<Rightarrow> json \<Rightarrow> pyfloat result" where
  "json_float env (JFloat x) = Inr x"
| "json_float env (JInt i) = float_of_int i"
| "json_float env (JBool b) = Inr (Fin (if b then 1 else 0))"
| "json_float env (JStr s) = float_text env s"
| "json_float env v = Inl (TypeError ''float() argument must be a string or a real number'')"

fun json_int :: "json_env \<Rightarrow> json \<Rightarrow> int result" where
  "json_int env (JInt i) = Inr i"
| "json_int env (JFloat x) = int_of_float x"
| "json_int env (JBool b) = Inr (if b then 1 else 0)"
| "json_int env (JStr s) = int_text env s"
| "json_int env v = Inl (TypeError ''int() argument must be a string or a real number'')"

definition optional_number :: "(json \<Rightarrow> 'a result) \<Rightarrow> json \<Rightarrow> 'a option result" where
  "optional_number conv v = (if v = JNull \<or> v = JStr [] then Inr None else bindE (conv v) (\<lambda>x. Inr (Some x)))"

definition json_optional_float :: "json_env \<Rightarrow> json \<Rightarrow> pyfloat option result" where
  "json_optional_float env v = optional_number (json_float env) v"

definition json_optional_int :: "json_env \<Rightarrow> json \<Rightarrow> int option result" where
  "json_optional_int env v = optional_number (json_int env) v"

definition json_optional_bool :: "json \<Rightarrow> bool option" where
  "json_optional_bool v = (if v = JNull \<or> v = JStr [] then None
     else Some (case v of JBool b \<Rightarrow> b | JStr s \<Rightarrow> lower s \<in> {''1'', ''true'', ''yes''} | _ \<Rightarrow> json_true v))"

definition json_optional_str :: "json_env \<Rightarrow> json \<Rightarrow> string option" where
  "json_optional_str env v = (if v = JNull \<or> py_str env v = [] then None else Some (py_str env v))"

text \<open>\<open>str.upper()\<close> on ASCII text.\<close>

definition upper :: "string \<Rightarrow> string" where
  "upper s = map (\<lambda>c. let n = of_char c :: nat in if 97 \<le> n \<and> n \<le> 122 then char_of (n - 32) else c) s"

definition parse_symbol_namespace :: "string \<Rightarrow> bool \<times> string option \<times> string" where
  "parse_symbol_namespace s =
     (if CHR '':'' \<notin> set s then (False, None, upper s)
      else (True, Some (lower (takeWhile (\<lambda>c. c \<noteq> CHR '':'') s)), upper (tl (dropWhile (\<lambda>c. c \<noteq> CHR '':'') s))))"

definition instrument_row :: "json_env \<Rightarrow> (string \<times> json) list \<Rightarrow> instant \<Rightarrow> string \<Rightarrow> bool \<Rightarrow> instrument result" where
  "instrument_row env meta asof raw_file_id include_hip3 =
     (let g = (\<lambda>k. get_entry k meta); text = (\<lambda>v. py_str env v);
          symbol = text (json_or (json_or (g ''name'') (g ''coin'')) (JStr [])) in
      bindE (guardE (symbol \<noteq> []) (ValueError ''Hyperliquid instrument missing name'')) (\<lambda>_.
      let (hip3, namespace, canonical) = parse_symbol_namespace symbol;
          status = (if hip3 \<and> \<not> include_hip3 then ''quarantine'' else text (json_or (g ''status'') (JStr ''active''))) in
      bindE (json_optional_int env (g ''szDecimals'')) (\<lambda>decimals.
      bindE (json_optional_float env (g ''maxLeverage'')) (\<lambda>leverage.
      bindE (json_optional_int env (json_or (g ''listingAgeDays'') (g ''listing_age_days''))) (\<lambda>age.
      validate_instrument \<lparr>in_id = (if hip3 then ''hyperliquid:hip3:'' @ (case namespace of None \<Rightarrow> ''None'' | Some n \<Rightarrow> n) @ '':'' @ canonical
           else ''hyperliquid:perp:'' @ canonical),
         in_venue = ''hyperliquid'', in_symbol = symbol, in_canonical = canonical, in_market = ''perp'', in_base = canonical,
         in_quote = text (json_or (json_or (g ''quoteAsset'') (g ''quote_asset'')) (JStr ''USD'')),
         in_settle = Some (text (json_or (json_or (g ''settleAsset'') (g ''settle_asset'')) (JStr ''USDC''))),
         in_first_seen = asof, in_last_seen = asof, in_status = status, in_decimals = decimals, in_leverage = leverage,
         in_isolated = json_optional_bool (g ''onlyIsolated''),
         in_hip3 = (hip3 \<or> json_true (json_or (g ''isRwa'') (g ''is_rwa''))), in_namespace = namespace,
         in_reference = json_optional_str env (json_or (g ''referenceMarket'') (g ''reference_market'')),
         in_oracle = json_optional_str env (json_or (g ''oracleSource'') (g ''oracle_source'')),
         in_calendar = json_optional_str env (json_or (g ''referenceSessionCalendar'') (g ''reference_session_calendar'')),
         in_weekend = json_optional_bool (if map_of meta ''weekendBehaviorDocumented'' \<noteq> None then g ''weekendBehaviorDocumented''
            else g ''weekend_behavior_documented''),
         in_age = age,
         in_proxy = json_optional_bool (if map_of meta ''proxyDataAvailable'' \<noteq> None then g ''proxyDataAvailable''
            else g ''proxy_data_available''),
         in_source = raw_file_id\<rparr>)))))"

text \<open>\<open>x or 0.0\<close> of an optional float; a NaN is true.\<close>

definition float_or_zero :: "pyfloat option \<Rightarrow> pyfloat" where
  "float_or_zero x = (case x of None \<Rightarrow> Fin 0 | Some v \<Rightarrow> v)"

definition asset_context_row :: "json_env \<Rightarrow> instrument \<Rightarrow> (string \<times> json) list \<Rightarrow> asset_context result" where
  "asset_context_row env r context =
     (let g = (\<lambda>k. get_entry k context); num = json_optional_float env in
      bindE (num (json_or (g ''dayNtlVlm'') (g ''day_ntl_vlm''))) (\<lambda>volume.
      bindE (num (json_or (g ''openInterest'') (g ''open_interest''))) (\<lambda>interest.
      bindE (num (json_or (g ''markPx'') (g ''mark_px''))) (\<lambda>mark.
      bindE (num (json_or (g ''oraclePx'') (g ''oracle_px''))) (\<lambda>oracle.
      bindE (num (g ''funding'')) (\<lambda>funding.
      validate_context \<lparr>ac_id = in_id r, ac_symbol = in_symbol r, ac_volume = float_or_zero volume, ac_interest = interest,
        ac_mark = mark, ac_oracle = oracle, ac_funding = funding, ac_raw = context\<rparr>))))))"

text \<open>One round of the loop over the universe: entries that are no mapping are skipped.\<close>

fun parse_entries :: "json_env \<Rightarrow> instant \<Rightarrow> string \<Rightarrow> bool \<Rightarrow> json list \<Rightarrow> json list \<Rightarrow> (instrument \<times> asset_context) list result" where
  "parse_entries env asof raw_file_id include_hip3 [] contexts = Inr []"
| "parse_entries env asof raw_file_id include_hip3 (u # us) contexts =
     (case u of
        JObj meta \<Rightarrow>
          let context = (case contexts of JObj c # _ \<Rightarrow> c | _ \<Rightarrow> []) in
          bindE (instrument_row env meta asof raw_file_id include_hip3) (\<lambda>r.
          bindE (asset_context_row env r context) (\<lambda>c.
          bindE (parse_entries env asof raw_file_id include_hip3 us (tl contexts)) (\<lambda>rest. Inr ((r, c) # rest))))
      | _ \<Rightarrow> parse_entries env asof raw_file_id include_hip3 us (tl contexts))"

definition parse_meta_and_asset_contexts ::
  "json_env \<Rightarrow> json \<Rightarrow> instant \<Rightarrow> string \<Rightarrow> bool \<Rightarrow> (instrument list \<times> asset_context list) result" where
  "parse_meta_and_asset_contexts env payload asof raw_file_id include_hip3 =
     bindE (split_meta_and_contexts payload) (\<lambda>(meta, contexts).
     case meta of
       JObj d \<Rightarrow>
         bindE (json_iter (case map_of d ''universe'' of None \<Rightarrow> JList [] | Some u \<Rightarrow> u)) (\<lambda>us.
         bindE (parse_entries env asof raw_file_id include_hip3 us contexts) (\<lambda>rcs. Inr (map fst rcs, map snd rcs)))
     | _ \<Rightarrow> Inl (AttributeError ''object has no attribute 'get''))"

section \<open>Manifest tables\<close>

record universe_tables =
  catalog :: "instrument list option"
  context_snapshots :: "asset_context list option"
  universe_snapshots :: "universe_row list option"

text \<open>\<open>_append_model_rows\<close>: the dictionary of the rows by key, the last one of each, in the order of the keys.\<close>

definition append_model_rows :: "('r \<Rightarrow> 'k::linorder) \<Rightarrow> 'r list \<Rightarrow> 'r list option \<Rightarrow> 'r list option" where
  "append_model_rows key records existing =
     Some (sorted_by key (map snd (index_rows key records (index_rows key (case existing of None \<Rightarrow> [] | Some rs \<Rightarrow> rs) []))))"

definition universe_key :: "universe_row \<Rightarrow> string \<times> string" where
  "universe_key r = (ur_snapshot r, ur_instrument r)"

definition append_universe_tables ::
  "instrument list \<Rightarrow> asset_context list \<Rightarrow> universe_row list \<Rightarrow> universe_tables \<Rightarrow> universe_tables" where
  "append_universe_tables instruments contexts rows t =
     t\<lparr>catalog := append_model_rows in_id instruments (catalog t),
       context_snapshots := append_model_rows ac_id contexts (context_snapshots t),
       universe_snapshots := append_model_rows universe_key rows (universe_snapshots t)\<rparr>"

definition load_universe_rows :: "universe_tables \<Rightarrow> universe_row list result" where
  "load_universe_rows t = (case universe_snapshots t of None \<Rightarrow> Inr [] | Some rs \<Rightarrow> mapE validate_universe_row rs)"

text \<open>The refresh after the payload was archived: parse, decide, name the snapshot, write.\<close>

definition refresh_universe ::
  "json_env \<Rightarrow> json \<Rightarrow> universe_params \<Rightarrow> bool \<Rightarrow> instant \<Rightarrow> (universe_tables, string \<times> int \<times> int) prog" where
  "refresh_universe env payload p include_hip3 now =
     bindS (liftS (parse_meta_and_asset_contexts env payload (midnight (up_asof p)) (up_raw_file p) include_hip3)) (\<lambda>(instruments, contexts).
     bindS (liftS (build_universe_rows p now instruments contexts)) (\<lambda>rows.
     bindS (liftS (universe_snapshot_id rows)) (\<lambda>sid.
     let named = map (\<lambda>r. r\<lparr>ur_snapshot := sid\<rparr>) rows in
     bindS (modifyS (append_universe_tables instruments contexts named)) (\<lambda>_.
     retS (sid, int (length instruments), int (length (filter ur_eligible named)))))))"

section \<open>Queries\<close>

definition select_asof_universe :: "pydate \<Rightarrow> bool \<Rightarrow> universe_mode \<Rightarrow> universe_tables \<Rightarrow> universe_row list result" where
  "select_asof_universe asof eligible_only mode t =
     bindE (load_universe_rows t) (\<lambda>all_rows.
     let rows = filter (\<lambda>r. ur_asof r \<le> asof \<and> ur_mode r = mode) all_rows in
     if rows = [] then Inr []
     else
       let latest = Max (set (map ur_asof rows));
           snapshot = Max (set (map ur_snapshot (filter (\<lambda>r. ur_asof r = latest) rows)));
           selected = filter (\<lambda>r. ur_asof r = latest \<and> ur_snapshot r = snapshot) rows in
       Inr (sorted_by ur_instrument (if eligible_only then filter ur_eligible selected else selected)))"

definition explain_instrument :: "string \<Rightarrow> string \<Rightarrow> universe_tables \<Rightarrow> universe_row option result" where
  "explain_instrument snapshot_id instrument_id t = bindE (load_universe_rows t) (\<lambda>rows.
     Inr (find (\<lambda>r. ur_snapshot r = snapshot_id \<and> ur_instrument r = instrument_id) rows))"

definition eligible_of :: "string \<Rightarrow> universe_row list \<Rightarrow> string list" where
  "eligible_of snapshot_id rows = uniq (map ur_instrument (filter (\<lambda>r. ur_snapshot r = snapshot_id \<and> ur_eligible r) rows))"

text \<open>Added, removed and unchanged instruments.\<close>

definition diff_snapshots :: "string \<Rightarrow> string \<Rightarrow> universe_tables \<Rightarrow> (string list \<times> string list \<times> string list) result" where
  "diff_snapshots left_id right_id t = bindE (load_universe_rows t) (\<lambda>rows.
     let left = eligible_of left_id rows; right = eligible_of right_id rows in
     Inr (sorted_by id (filter (\<lambda>i. i \<notin> set left) right), sorted_by id (filter (\<lambda>i. i \<notin> set right) left),
          sorted_by id (filter (\<lambda>i. i \<in> set right) left)))"

interpretation catalog_table: keyed_table in_id in_id
  by unfold_locales simp

interpretation context_table: keyed_table ac_id ac_id
  by unfold_locales simp

interpretation snapshot_rows: keyed_table universe_key universe_key
  by unfold_locales simp

end
