(* ===== verification/UniverseProps.thy ===== *)
theory UniverseProps
  imports Universe
begin

text \<open>
  What holds of universe snapshots: which instruments are eligible and why, that a payload that
  parses is always decided, the identity of a snapshot, what a refresh writes, that a selection as of
  a day cannot see later days, and the difference of two snapshots.
\<close>

section \<open>Deciding the rows\<close>

lemma eligibility_by_flags:
  "eligibility_reason r v n q c m k =
     (if in_status r \<in> set inactive_statuses then Some ''inactive_instrument''
      else if \<not> f_ge v (Fin (of_int n)) \<and> v \<noteq> NaN then Some ''volume_below_threshold''
      else if \<not> f_ge q c \<and> q \<noteq> NaN \<and> c \<noteq> NaN then Some ''insufficient_coverage''
      else if \<not> m \<ge> k then Some ''insufficient_history''
      else if \<not> hip3_metadata_complete r then Some ''missing_hip3_metadata'' else None)"
proof -
  have lt: "f_lt a b \<longleftrightarrow> \<not> f_ge a b \<and> a \<noteq> NaN \<and> b \<noteq> NaN" for a b
    by (cases "a = NaN \<or> b = NaN") (auto simp: f_lt_iff_less f_le_iff_le)
  show ?thesis by (simp add: eligibility_reason_def lt)
qed

lemma build_rows_all2:
  "build_universe_rows p now instruments contexts = Inr rows \<longleftrightarrow>
     list_all2 (\<lambda>r u. \<exists>c. map_of (index_rows ac_id contexts []) (in_id r) = Some c \<and>
         validate_universe_row (universe_row_of p now r c) = Inr u) (sorted_by in_id instruments) rows"
  unfolding build_universe_rows_def Let_def mapE_Inr_iff
  by (rule arg_cong [where f = "\<lambda>P. list_all2 P _ _"]) (auto intro!: ext split: option.splits)

lemma validated_universe_row [result_simps]:
  "validate_universe_row r = Inr u \<longleftrightarrow> u = r \<and> length (ur_snapshot r) = 64 \<and> ur_instrument r \<noteq> [] \<and>
     f_ge (ur_volume r) (Fin 0) \<and> length (ur_payload_sha r) = 64 \<and> length (ur_raw_file r) = 64"
  by (auto simp: validate_universe_row_def validate_model_Inr_iff)

text \<open>The row of an instrument, by its own flags.\<close>

definition first_failed :: "universe_row \<Rightarrow> string option" where
  "first_failed u = (if \<not> ur_ok_status u then Some ''inactive_instrument''
     else if \<not> ur_ok_volume u then Some ''volume_below_threshold''
     else if \<not> ur_ok_coverage u then Some ''insufficient_coverage''
     else if \<not> ur_ok_history u then Some ''insufficient_history''
     else if \<not> ur_ok_hip3 u then Some ''missing_hip3_metadata'' else None)"

lemma row_of_fields:
  "ur_reason (universe_row_of p now r c) = eligibility_reason r (ac_volume c) (up_min_notional p) (up_ratio p) (up_cmin p) (up_months p) (up_min_months p)"
  "ur_ok_volume (universe_row_of p now r c) \<longleftrightarrow> f_ge (ac_volume c) (Fin (of_int (up_min_notional p)))"
  "ur_ok_coverage (universe_row_of p now r c) \<longleftrightarrow> f_ge (up_ratio p) (up_cmin p)"
  "ur_ok_history (universe_row_of p now r c) \<longleftrightarrow> up_months p \<ge> up_min_months p"
  "ur_ok_status (universe_row_of p now r c) \<longleftrightarrow> in_status r \<notin> set inactive_statuses"
  "ur_ok_hip3 (universe_row_of p now r c) \<longleftrightarrow> hip3_metadata_complete r"
  "ur_mode (universe_row_of p now r c) = up_mode p" "ur_instrument (universe_row_of p now r c) = in_id r"
  "ur_volume (universe_row_of p now r c) = ac_volume c" "length (ur_snapshot (universe_row_of p now r c)) = 64"
  "ur_payload_sha (universe_row_of p now r c) = up_payload_sha p" "ur_raw_file (universe_row_of p now r c) = up_raw_file p"
  "ur_asof (universe_row_of p now r c) = up_asof p"
  by (simp_all add: universe_row_of_def Let_def split: prod.split)

lemma row_of_eligible:
  "ur_eligible (universe_row_of p now r c) \<longleftrightarrow> ur_reason (universe_row_of p now r c) = None"
  by (simp add: universe_row_of_def Let_def split: prod.split)

lemma row_of_accepted:
  "ur_accepted (universe_row_of p now r c) \<longleftrightarrow> ur_eligible (universe_row_of p now r c) \<and> up_mode p = AS_OF"
proof -
  have "snd (evidence_scope_for_mode m) \<longleftrightarrow> m = AS_OF" for m by (simp add: evidence_scope_for_mode_def)
  then show ?thesis by (cases "evidence_scope_for_mode (up_mode p)") (simp add: universe_row_of_def Let_def, metis snd_conv)
qed

lemma validated_row_of:
  "validate_universe_row (universe_row_of p now r c) = Inr u \<longleftrightarrow> u = universe_row_of p now r c \<and> in_id r \<noteq> [] \<and>
     f_ge (ac_volume c) (Fin 0) \<and> length (up_payload_sha p) = 64 \<and> length (up_raw_file p) = 64"
  by (simp only: validated_universe_row row_of_fields simp_thms)

lemma row_of_flags:
  assumes "f_ge (ac_volume c) (Fin 0)" "up_ratio p \<noteq> NaN" "up_cmin p \<noteq> NaN"
  shows "ur_reason (universe_row_of p now r c) = first_failed (universe_row_of p now r c)"
proof -
  have "ac_volume c \<noteq> NaN" using assms(1) by auto
  then show ?thesis using assms(2,3) by (simp only: row_of_fields first_failed_def eligibility_by_flags simp_thms)
qed

text \<open>
  C39: Universe rows: there is one row per instrument, in the order of their identifiers, with the
  volume of the last context of the instrument; when the coverage ratio and its minimum are numbers,
  the reason for exclusion is the first of the five flags that is off, an instrument is eligible exactly
  when all are on, and accepted as research evidence exactly when the snapshot is an as-of one as well.
\<close>

theorem universe_rows_exact:
  assumes "build_universe_rows p now instruments contexts = Inr rows" and "up_ratio p \<noteq> NaN" and "up_cmin p \<noteq> NaN"
  shows "map ur_instrument rows = map in_id (sorted_by in_id instruments) \<and>
    (\<forall>u \<in> set rows. ur_reason u = first_failed u \<and>
       (ur_eligible u \<longleftrightarrow> ur_ok_status u \<and> ur_ok_volume u \<and> ur_ok_coverage u \<and> ur_ok_history u \<and> ur_ok_hip3 u) \<and>
       (ur_accepted u \<longleftrightarrow> ur_eligible u \<and> up_mode p = AS_OF) \<and>
       Some (ur_volume u) = map_option ac_volume (find (\<lambda>c. ac_id c = ur_instrument u) (rev contexts)))"
proof -
  let ?R = "\<lambda>r u. \<exists>c. find (\<lambda>c. ac_id c = in_id r) (rev contexts) = Some c \<and> u = universe_row_of p now r c \<and>
      f_ge (ac_volume c) (Fin 0)"
  have lookup: "map_of (index_rows ac_id contexts []) i = find (\<lambda>c. ac_id c = i) (rev contexts)" for i
    by (simp add: map_of_index_rows split: option.split)
  have all: "list_all2 ?R (sorted_by in_id instruments) rows"
    using assms(1) unfolding build_rows_all2 lookup validated_row_of
    by (rule list_all2_mono) (elim exE conjE, intro exI conjI, assumption+)
  have "list_all2 (\<lambda>r u. in_id r = ur_instrument u) (sorted_by in_id instruments) rows"
    using all by (rule list_all2_mono) (auto simp: row_of_fields)
  then have ids: "map ur_instrument rows = map in_id (sorted_by in_id instruments)"
    by (induction rule: list_all2_induct) auto
  {
    fix u assume "u \<in> set rows"
    then obtain r where "?R r u" using list_all2_member [OF all] by blast
    then obtain c where c: "find (\<lambda>c. ac_id c = in_id r) (rev contexts) = Some c" "u = universe_row_of p now r c"
      "f_ge (ac_volume c) (Fin 0)" by blast
    have reason: "ur_reason u = first_failed u" unfolding c(2) by (rule row_of_flags [OF c(3) assms(2,3)])
    moreover have "ur_eligible u \<longleftrightarrow> first_failed u = None" unfolding c(2) row_of_eligible
      by (simp only: row_of_flags [OF c(3) assms(2,3)])
    moreover have "ur_accepted u \<longleftrightarrow> ur_eligible u \<and> up_mode p = AS_OF"
      unfolding c(2) by (rule row_of_accepted)
    moreover have "Some (ur_volume u) = map_option ac_volume (find (\<lambda>c. ac_id c = ur_instrument u) (rev contexts))"
      by (simp add: c(1,2) row_of_fields)
    ultimately have "ur_reason u = first_failed u \<and>
       (ur_eligible u \<longleftrightarrow> ur_ok_status u \<and> ur_ok_volume u \<and> ur_ok_coverage u \<and> ur_ok_history u \<and> ur_ok_hip3 u) \<and>
       (ur_accepted u \<longleftrightarrow> ur_eligible u \<and> up_mode p = AS_OF) \<and>
       Some (ur_volume u) = map_option ac_volume (find (\<lambda>c. ac_id c = ur_instrument u) (rev contexts))"
      by (simp add: first_failed_def)
  }
  then show ?thesis using ids by blast
qed

section \<open>Reading the payload\<close>

lemma parse_entries_pairs:
  assumes "parse_entries env asof file hip3 us cs = Inr rcs" "(r, c) \<in> set rcs"
  shows "\<exists>meta ctx. instrument_row env meta asof file hip3 = Inr r \<and> asset_context_row env r ctx = Inr c"
  using assms
proof (induction us arbitrary: cs rcs)
  case (Cons u us)
  show ?case
  proof (cases u)
    case (JObj meta)
    then obtain r1 c1 rest where s: "instrument_row env meta asof file hip3 = Inr r1"
      "asset_context_row env r1 (case cs of JObj c # _ \<Rightarrow> c | _ \<Rightarrow> []) = Inr c1"
      "parse_entries env asof file hip3 us (tl cs) = Inr rest" "rcs = (r1, c1) # rest"
      using Cons.prems(1) by (auto simp: bindE_Inr_iff Let_def)
    show ?thesis
    proof (cases "(r, c) = (r1, c1)")
      case True
      then show ?thesis using s(1,2) by blast
    next
      case False
      then have "(r, c) \<in> set rest" using Cons.prems(2) s(4) by auto
      then show ?thesis by (rule Cons.IH [OF s(3)])
    qed
  qed (use Cons in auto)
qed simp

lemma instrument_row_fields:
  assumes "instrument_row env meta asof file_id include_hip3 = Inr r"
  shows "in_id r \<noteq> [] \<and> in_first_seen r = asof \<and> in_last_seen r = asof \<and> in_source r = file_id \<and>
    (is_prefix_of ''hyperliquid:perp:'' (in_id r) \<or> include_hip3 \<or> in_status r = ''quarantine'')"
  using assms unfolding instrument_row_def Let_def
  by (auto simp: bindE_Inr_iff validate_instrument_def validate_model_Inr_iff is_prefix_of_def parse_symbol_namespace_def split: prod.splits if_splits)

lemma context_row_fields:
  "asset_context_row env r ctx = Inr c \<Longrightarrow> ac_id c = in_id r \<and> f_ge (ac_volume c) (Fin 0)"
  by (auto simp: asset_context_row_def Let_def bindE_Inr_iff validate_context_def validate_model_Inr_iff)

lemma parsed_pairs:
  assumes "parse_meta_and_asset_contexts env payload asof file_id h = Inr (instruments, contexts)"
  shows "map ac_id contexts = map in_id instruments \<and> (\<forall>r \<in> set instruments. in_id r \<noteq> [] \<and> in_first_seen r = asof \<and>
      in_last_seen r = asof \<and> in_source r = file_id \<and>
      (is_prefix_of ''hyperliquid:perp:'' (in_id r) \<or> h \<or> in_status r = ''quarantine'')) \<and>
    (\<forall>c \<in> set contexts. f_ge (ac_volume c) (Fin 0))"
proof -
  obtain meta cs where "(case meta of JObj d \<Rightarrow>
         bindE (json_iter (case map_of d ''universe'' of None \<Rightarrow> JList [] | Some u \<Rightarrow> u)) (\<lambda>us.
         bindE (parse_entries env asof file_id h us cs) (\<lambda>rcs. Inr (map fst rcs, map snd rcs)))
     | _ \<Rightarrow> Inl (AttributeError ''object has no attribute 'get'')) = Inr (instruments, contexts)"
    using assms by (auto simp only: parse_meta_and_asset_contexts_def bindE_Inr_iff prod.case split: prod.splits)
  then obtain us rcs where rcs: "parse_entries env asof file_id h us cs = Inr rcs" "instruments = map fst rcs" "contexts = map snd rcs"
    by (cases meta) (auto simp: bindE_Inr_iff)
  have "ac_id c = in_id r \<and> f_ge (ac_volume c) (Fin 0) \<and> in_id r \<noteq> [] \<and> in_first_seen r = asof \<and> in_last_seen r = asof \<and>
      in_source r = file_id \<and> (is_prefix_of ''hyperliquid:perp:'' (in_id r) \<or> h \<or> in_status r = ''quarantine'')"
    if rc: "(r, c) \<in> set rcs" for r c
  proof -
    obtain meta ctx where "instrument_row env meta asof file_id h = Inr r" "asset_context_row env r ctx = Inr c"
      using parse_entries_pairs [OF rcs(1) rc] by blast
    from instrument_row_fields [OF this(1)] context_row_fields [OF this(2)] show ?thesis by blast
  qed
  then show ?thesis unfolding rcs(2,3) by (auto, blast)
qed

lemma parsed_rows_built:
  assumes "parse_meta_and_asset_contexts env payload asof file_id h = Inr (instruments, contexts)"
    and "length (up_payload_sha p) = 64" and "length (up_raw_file p) = 64"
  shows "\<exists>rows. build_universe_rows p now instruments contexts = Inr rows \<and> length rows = length instruments"
proof -
  note parsed = parsed_pairs [OF assms(1)]
  let ?row = "\<lambda>r. universe_row_of p now r (the (find (\<lambda>c. ac_id c = in_id r) (rev contexts)))"
  have row: "\<exists>c. map_of (index_rows ac_id contexts []) (in_id r) = Some c \<and>
      validate_universe_row (universe_row_of p now r c) = Inr (?row r)" if "r \<in> set instruments" for r
  proof -
    have "in_id r \<in> ac_id ` set contexts" using that parsed by (metis list.set_map image_eqI)
    then obtain c where c: "find (\<lambda>c. ac_id c = in_id r) (rev contexts) = Some c"
      by (cases "find (\<lambda>c. ac_id c = in_id r) (rev contexts)") (auto simp: find_None_iff)
    then have "c \<in> set contexts" by (auto simp: find_Some_iff) (metis nth_mem length_rev set_rev)
    then show ?thesis using c that parsed assms(2,3) by (simp add: map_of_index_rows validated_row_of)
  qed
  have "build_universe_rows p now instruments contexts = Inr (map ?row (sorted_by in_id instruments))"
    unfolding build_universe_rows_def Let_def
    by (rule mapE_all) (use row in \<open>fastforce\<close>)
  then show ?thesis by simp
qed

text \<open>
  C40: A payload that parses is always decided: every instrument finds its context and its row is a
  valid one, so that building the rows of a snapshot cannot raise, as long as the payload and the raw
  file are named by SHA-256 digests.
\<close>

theorem parsed_payload_is_decided:
  assumes "parse_meta_and_asset_contexts env payload asof file_id h = Inr (instruments, contexts)"
    and "length (up_payload_sha p) = 64" and "length (up_raw_file p) = 64"
  shows "\<exists>rows. build_universe_rows p now instruments contexts = Inr rows \<and> length rows = length instruments"
  using assms by (rule parsed_rows_built)

text \<open>
  When HIP-3 instruments are not included, a refresh finds no instrument eligible that is not a
  main-market perpetual: the builder-deployed ones are listed in quarantine.
\<close>

theorem excluded_hip3_is_never_eligible:
  assumes "parse_meta_and_asset_contexts env payload asof file_id False = Inr (instruments, contexts)"
    and "build_universe_rows p now instruments contexts = Inr rows" and "u \<in> set rows" and "ur_eligible u"
  shows "is_prefix_of ''hyperliquid:perp:'' (ur_instrument u)"
proof -
  obtain r c where r: "r \<in> set instruments" "u = universe_row_of p now r c"
    using list_all2_member [OF assms(2) [unfolded build_rows_all2] assms(3)] by (auto simp: validated_universe_row)
  have "in_status r \<notin> set inactive_statuses"
    using assms(4) by (auto simp: r(2) row_of_eligible row_of_fields eligibility_reason_def)
  then have "in_status r \<noteq> ''quarantine''" by (auto simp: inactive_statuses_def)
  then show ?thesis using parsed_pairs [OF assms(1)] r by (auto simp: row_of_fields)
qed

section \<open>Writing the tables\<close>

lemma append_model_rows_spec:
  fixes key :: "'r \<Rightarrow> 'k::linorder"
  assumes "append_model_rows key records existing = Some rs"
  shows "distinct (map key rs) \<and> sorted (map key rs) \<and> set rs \<subseteq> set records \<union> set (case existing of None \<Rightarrow> [] | Some es \<Rightarrow> es) \<and>
    find_row key rs k = (case find (\<lambda>r. key r = k) (rev records) of Some r \<Rightarrow> Some r
      | None \<Rightarrow> find (\<lambda>r. key r = k) (rev (case existing of None \<Rightarrow> [] | Some es \<Rightarrow> es)))"
proof -
  let ?es = "case existing of None \<Rightarrow> [] | Some es \<Rightarrow> es"
  define d where "d = index_rows key ?es []"
  define d' where "d' = index_rows key records d"
  have rs: "rs = sorted_by key (map snd d')" using assms by (simp add: append_model_rows_def d'_def d_def)
  have 1: "distinct (map fst d)" "\<forall>(k, r) \<in> set d. k = key r" "snd ` set d \<subseteq> set ?es"
    using index_rows_spec [of "[]" key ?es] by (auto simp: d_def)
  have 2: "distinct (map fst d')" "\<forall>(k, r) \<in> set d'. k = key r" "snd ` set d' \<subseteq> snd ` set d \<union> set records"
    using index_rows_spec [OF 1(1,2), of records] by (simp_all add: d'_def)
  have ks: "map key (map snd d') = map fst d'" using 2(2) by auto
  have dist: "distinct (map key rs)" using 2(1) unfolding rs distinct_map_sorted_by ks .
  have "find_row key rs k = map_of d' k"
  proof (rule find_row_eqI)
    fix r
    have "find_row key rs k = Some r \<longleftrightarrow> r \<in> snd ` set d' \<and> key r = k"
      using find_row_Some [OF dist] by (simp add: rs)
    also have "\<dots> \<longleftrightarrow> (k, r) \<in> set d'" using 2(2) by force
    also have "\<dots> \<longleftrightarrow> map_of d' k = Some r" using 2(1) by simp
    finally show "find_row key rs k = Some r \<longleftrightarrow> map_of d' k = Some r" .
  qed
  then have "find_row key rs k = (case find (\<lambda>r. key r = k) (rev records) of Some r \<Rightarrow> Some r
      | None \<Rightarrow> find (\<lambda>r. key r = k) (rev ?es))"
    by (simp add: d'_def d_def map_of_index_rows split: option.splits)
  moreover have "set rs = snd ` set d'" by (simp add: rs)
  then have "set rs \<subseteq> set records \<union> set ?es" using 1(3) 2(3) by blast
  ultimately show ?thesis using dist by (simp add: rs sorted_sorted_by)
qed

lemma append_fresh_rows:
  assumes "append_model_rows key records existing = Some rs" and "distinct (map key (case existing of None \<Rightarrow> [] | Some es \<Rightarrow> es))"
    and "distinct (map key records)"
    and "key ` set records \<inter> key ` set (case existing of None \<Rightarrow> [] | Some es \<Rightarrow> es) = {}"
  shows "set rs = set records \<union> set (case existing of None \<Rightarrow> [] | Some es \<Rightarrow> es)"
proof -
  let ?es = "case existing of None \<Rightarrow> [] | Some es \<Rightarrow> es"
  have last: "find (\<lambda>r. key r = k) (rev xs) = Some r \<longleftrightarrow> r \<in> set xs \<and> key r = k" if "distinct (map key xs)" for k r xs
    using find_row_Some [of key "rev xs" k r] that by (simp add: find_row_def rev_map [symmetric])
  have none: "find (\<lambda>r. key r = k) (rev xs) = None \<longleftrightarrow> k \<notin> key ` set xs" for k xs by (auto simp: find_None_iff)
  have "r \<in> set rs \<longleftrightarrow> r \<in> set records \<union> set ?es" for r
  proof -
    have "r \<in> set rs \<longleftrightarrow> find_row key rs (key r) = Some r"
      using find_row_Some [of key rs "key r" r] append_model_rows_spec [OF assms(1)] by simp
    also have "\<dots> \<longleftrightarrow> r \<in> set records \<union> set ?es"
    proof (cases "key r \<in> key ` set records")
      case True
      then obtain r' where r': "find (\<lambda>x. key x = key r) (rev records) = Some r'"
        using none [of "key r" records] by blast
      have "r \<notin> set ?es" using True assms(4) by auto
      then show ?thesis using append_model_rows_spec [OF assms(1), of "key r"] r' last [OF assms(3), of "key r"]
        by (metis Un_iff option.inject option.simps(5))
    next
      case False
      then have "r \<notin> set records" by auto
      then show ?thesis using append_model_rows_spec [OF assms(1), of "key r"] none [of "key r" records] False last [OF assms(2), of "key r" r]
        by simp
    qed
    finally show ?thesis .
  qed
  then show ?thesis by blast
qed

text \<open>
  C40: The catalogue forgets when an instrument was first seen: after a refresh, each instrument of the
  payload is found in the catalogue with the day of this refresh as the first one, whatever the
  catalogue said before; the instruments outside the payload keep their rows.
\<close>

theorem refresh_resets_first_seen:
  assumes "refresh_universe env payload p h now t = (Inr out, t')"
  shows "\<exists>instruments contexts cat. parse_meta_and_asset_contexts env payload (midnight (up_asof p)) (up_raw_file p) h = Inr (instruments, contexts) \<and>
    catalog t' = Some cat \<and>
    (\<forall>i \<in> in_id ` set instruments. \<exists>r. find_row in_id cat i = Some r \<and> in_first_seen r = midnight (up_asof p)) \<and>
    (\<forall>i. i \<notin> in_id ` set instruments \<longrightarrow> find_row in_id cat i = find (\<lambda>r. in_id r = i) (rev (case catalog t of None \<Rightarrow> [] | Some es \<Rightarrow> es)))"
proof -
  obtain instruments contexts cat where r: "parse_meta_and_asset_contexts env payload (midnight (up_asof p)) (up_raw_file p) h = Inr (instruments, contexts)"
    "append_model_rows in_id instruments (catalog t) = Some cat" "catalog t' = Some cat"
    using assms by (auto simp: refresh_universe_def bindS_Inr_iff append_universe_tables_def append_model_rows_def Let_def)
  note spec = append_model_rows_spec [OF r(2)]
  have "\<exists>r. find_row in_id cat i = Some r \<and> in_first_seen r = midnight (up_asof p)" if i: "i \<in> in_id ` set instruments" for i
  proof -
    obtain x where x: "find (\<lambda>r. in_id r = i) (rev instruments) = Some x"
      using i by (cases "find (\<lambda>r. in_id r = i) (rev instruments)") (auto simp: find_None_iff)
    then have "x \<in> set instruments" by (metis find_Some_iff nth_mem set_rev)
    then show ?thesis using spec [of i] x parsed_pairs [OF r(1)] by simp
  qed
  moreover have "find_row in_id cat i = find (\<lambda>r. in_id r = i) (rev (case catalog t of None \<Rightarrow> [] | Some es \<Rightarrow> es))"
    if i: "i \<notin> in_id ` set instruments" for i
  proof -
    have "find (\<lambda>r. in_id r = i) (rev instruments) = None" using i by (auto simp: find_None_iff)
    then show ?thesis using spec [of i] by simp
  qed
  ultimately show ?thesis using r(1,3) by blast
qed

section \<open>Selection as of a day\<close>

text \<open>
  C39: A selection as of a day comes from one snapshot: the greatest day not after it that has rows of
  the mode, and of the snapshots of that day the one with the greatest identifier; it holds every row
  of that snapshot (every eligible one, when only those are asked for) in the order of the
  instruments, and it is empty only when no such row exists.
\<close>

theorem asof_selection_exact:
  assumes "load_universe_rows t = Inr rows" and "r0 \<in> set rows" and "ur_asof r0 \<le> d" and "ur_mode r0 = m"
  shows "\<exists>sel latest sid. select_asof_universe d only m t = Inr sel \<and> ur_asof r0 \<le> latest \<and> latest \<le> d \<and>
    (\<exists>r \<in> set rows. ur_mode r = m \<and> ur_asof r = latest \<and> ur_snapshot r = sid) \<and>
    (\<forall>r \<in> set rows. ur_mode r = m \<and> ur_asof r \<le> d \<longrightarrow> ur_asof r \<le> latest \<and> (ur_asof r = latest \<longrightarrow> ur_snapshot r \<le> sid)) \<and>
    set sel = {r \<in> set rows. ur_mode r = m \<and> ur_asof r = latest \<and> ur_snapshot r = sid \<and> (only \<longrightarrow> ur_eligible r)} \<and>
    sorted (map ur_instrument sel)"
proof -
  let ?rows = "filter (\<lambda>r. ur_asof r \<le> d \<and> ur_mode r = m) rows"
  define latest where "latest = Max (set (map ur_asof ?rows))"
  let ?last = "filter (\<lambda>r. ur_asof r = latest) ?rows"
  define sid where "sid = Max (set (map ur_snapshot ?last))"
  let ?sel = "filter (\<lambda>r. ur_asof r = latest \<and> ur_snapshot r = sid) ?rows"
  let ?out = "sorted_by ur_instrument (if only then filter ur_eligible ?sel else ?sel)"
  have ne: "r0 \<in> set ?rows" using assms by simp
  have sel: "select_asof_universe d only m t = Inr ?out"
    using ne by (auto simp: select_asof_universe_def assms(1) Let_def latest_def sid_def simp del: set_map set_filter)
  have "latest \<in> ur_asof ` set ?rows" unfolding latest_def list.set_map by (rule Max_in) (use ne in auto)
  then have nl: "set ?last \<noteq> {}" by auto
  have l: "ur_asof r \<le> latest" if "r \<in> set ?rows" for r
    unfolding latest_def list.set_map by (rule Max_ge) (use that in auto)
  have s: "sid \<in> ur_snapshot ` set ?last" using Max_in [of "ur_snapshot ` set ?last"] nl by (simp add: sid_def del: set_filter)
  have s': "ur_snapshot r \<le> sid" if "r \<in> set ?last" for r
    using Max_ge [of "ur_snapshot ` set ?last" "ur_snapshot r"] that by (simp add: sid_def del: set_filter)
  obtain x where "x \<in> set ?rows" "ur_asof x = latest" "ur_snapshot x = sid" using s by auto
  moreover have "ur_asof r0 \<le> latest" by (rule l [OF ne])
  moreover have "latest \<le> d" using \<open>x \<in> set ?rows\<close> \<open>ur_asof x = latest\<close> by auto
  moreover have "\<forall>r \<in> set rows. ur_mode r = m \<and> ur_asof r \<le> d \<longrightarrow> ur_asof r \<le> latest \<and> (ur_asof r = latest \<longrightarrow> ur_snapshot r \<le> sid)"
    using l s' by auto
  moreover have "set ?out = {r \<in> set rows. ur_mode r = m \<and> ur_asof r = latest \<and> ur_snapshot r = sid \<and> (only \<longrightarrow> ur_eligible r)}"
    using \<open>latest \<le> d\<close> by auto
  moreover have "sorted (map ur_instrument ?out)" by (rule sorted_sorted_by)
  ultimately show ?thesis using sel by (intro exI [of _ ?out] exI [of _ latest] exI [of _ sid]) auto
qed

lemma select_depends_on_past:
  assumes "load_universe_rows t = Inr a" "load_universe_rows t' = Inr b"
    and "distinct (map universe_key a)" "distinct (map universe_key b)"
    and "\<And>r. ur_asof r \<le> d \<Longrightarrow> r \<in> set a \<longleftrightarrow> r \<in> set b"
  shows "select_asof_universe d only m t = select_asof_universe d only m t'"
proof -
  let ?f = "filter (\<lambda>r. ur_asof r \<le> d \<and> ur_mode r = m)"
  have eq: "set (?f a) = set (?f b)" using assms(5) by auto
  define latest where "latest = Max (set (map ur_asof (?f a)))"
  have filt: "set (filter P (?f a)) = set (filter P (?f b))" for P using assms(5) by auto
  have eq': "set (map ur_snapshot (filter (\<lambda>r. ur_asof r = latest) (?f a))) = set (map ur_snapshot (filter (\<lambda>r. ur_asof r = latest) (?f b)))"
    by (simp only: list.set_map filt)
  define sid where "sid = Max (set (map ur_snapshot (filter (\<lambda>r. ur_asof r = latest) (?f a))))"
  have sorts: "sorted_by ur_instrument (filter P (filter (\<lambda>r. ur_asof r = latest \<and> ur_snapshot r = sid) (?f a))) =
      sorted_by ur_instrument (filter P (filter (\<lambda>r. ur_asof r = latest \<and> ur_snapshot r = sid) (?f b)))" for P
  proof (rule sorted_by_mset_eq)
    let ?g = "\<lambda>xs. filter P (filter (\<lambda>r. ur_asof r = latest \<and> ur_snapshot r = sid) (?f xs))"
    have "distinct (?g a)" "distinct (?g b)" using assms(3,4) by (simp_all add: distinct_map)
    moreover have "set (?g a) = set (?g b)" using assms(5) by auto
    ultimately show "mset (?g a) = mset (?g b)" by (rule set_eq_iff_mset_eq_distinct [THEN iffD1])
    show "inj_on ur_instrument (set (?g a))"
      using assms(3) by (auto simp: inj_on_def distinct_map universe_key_def)
  qed
  have empty: "?f a = [] \<longleftrightarrow> ?f b = []" unfolding set_empty [symmetric] eq ..
  have lb: "Max (set (map ur_asof (?f b))) = latest" unfolding latest_def list.set_map eq ..
  show ?thesis
    using sorts [of ur_eligible] sorts [of "\<lambda>r. True"] empty
    unfolding select_asof_universe_def assms(1,2) bindE_simps Let_def lb latest_def [symmetric] eq' [symmetric] sid_def [symmetric]
    by simp
qed

text \<open>
  C40: No look-ahead: whatever snapshots of later days are written, the selection as of a day stays as
  it was.  The rows written must be valid ones of new snapshots.
\<close>

theorem asof_selection_no_lookahead:
  assumes "load_universe_rows t = Inr old" and "distinct (map universe_key old)" and "distinct (map universe_key rows)"
    and "\<forall>r \<in> set rows. d < ur_asof r \<and> ur_snapshot r \<notin> ur_snapshot ` set old \<and> validate_universe_row r = Inr r"
  shows "select_asof_universe d only m (append_universe_tables instruments contexts rows t) = select_asof_universe d only m t"
proof -
  let ?t = "append_universe_tables instruments contexts rows t"
  let ?es = "case universe_snapshots t of None \<Rightarrow> [] | Some es \<Rightarrow> es"
  have old: "mapE validate_universe_row ?es = Inr old"
    using assms(1) by (simp add: load_universe_rows_def split: option.splits)
  have "list_all2 (=) ?es old" using old unfolding mapE_Inr_iff by (rule list_all2_mono) (simp add: validated_universe_row)
  then have es: "?es = old" by (simp add: list.rel_eq)
  have old_ok: "validate_universe_row r = Inr r" if "r \<in> set old" for r
    using mapE_member [OF old, of r] that unfolding es by (auto simp: validated_universe_row)
  obtain rs where rs: "append_model_rows universe_key rows (universe_snapshots t) = Some rs" "universe_snapshots ?t = Some rs"
    by (simp add: append_universe_tables_def append_model_rows_def)
  have "universe_key ` set rows \<inter> universe_key ` set old = {}" using assms(4) by (auto simp: universe_key_def)
  then have set_rs: "set rs = set rows \<union> set old"
    using append_fresh_rows [OF rs(1)] assms(2,3) unfolding es by blast
  have "mapE validate_universe_row rs = Inr (map (\<lambda>r. r) rs)" by (rule mapE_all) (use assms(4) old_ok set_rs in auto)
  then have load: "load_universe_rows ?t = Inr rs" by (simp add: load_universe_rows_def rs(2))
  show ?thesis
  proof (rule select_depends_on_past [OF load assms(1) _ assms(2)])
    show "distinct (map universe_key rs)" using append_model_rows_spec [OF rs(1)] by blast
    show "r \<in> set rs \<longleftrightarrow> r \<in> set old" if "ur_asof r \<le> d" for r using that assms(4) unfolding set_rs by auto
  qed
qed

section \<open>Identity and difference of snapshots\<close>

lemma row_json_ignores_time:
  "universe_row_json (universe_row_of p now r c) = universe_row_json (universe_row_of p now' r c)"
  by (simp add: universe_row_of_def universe_row_json_def Let_def split: prod.split)

text \<open>
  C40: The identifier of a snapshot depends only on what was decided: not on the order of the
  instruments in the payload and not on the moment the rows were built.
\<close>

theorem snapshot_id_stable:
  assumes "build_universe_rows p now instruments contexts = Inr rows" and "build_universe_rows p now' instruments' contexts = Inr rows'"
    and "mset instruments = mset instruments'"
  shows "universe_snapshot_id rows = universe_snapshot_id rows'"
proof -
  let ?c = "\<lambda>r. the (map_of (index_rows ac_id contexts []) (in_id r))"
  have json: "map universe_row_json rows = map (\<lambda>r. universe_row_json (universe_row_of p undefined r (?c r))) (sorted_by in_id instruments)"
    if "build_universe_rows p now instruments contexts = Inr rows" for now instruments rows
  proof -
    have "list_all2 (\<lambda>r u. universe_row_json u = universe_row_json (universe_row_of p undefined r (?c r))) (sorted_by in_id instruments) rows"
      using that unfolding build_rows_all2 validated_row_of
      by (rule list_all2_mono) (elim exE conjE, simp only: option.sel, rule row_json_ignores_time)
    then show ?thesis by (induction rule: list_all2_induct) auto
  qed
  have "mset (map universe_row_json rows) = mset (map universe_row_json rows')"
    unfolding json [OF assms(1)] json [OF assms(2)] by (simp add: sorted_by_def assms(3))
  then show ?thesis unfolding universe_snapshot_id_def
    by (intro manifest_rows_hash_order) (simp add: sorted_by_def)
qed

text \<open>
  The difference of two snapshots splits the eligible instruments of both: added and unchanged ones
  are those of the right snapshot, removed and unchanged ones those of the left, no instrument is
  listed twice, and the difference the other way round swaps added and removed.
\<close>

theorem diff_partitions:
  assumes "load_universe_rows t = Inr rows"
  shows "\<exists>added removed kept. diff_snapshots left right t = Inr (added, removed, kept) \<and>
    diff_snapshots right left t = Inr (removed, added, kept) \<and>
    distinct (added @ removed @ kept) \<and> sorted added \<and> sorted removed \<and> sorted kept \<and>
    set added \<union> set kept = ur_instrument ` {r \<in> set rows. ur_snapshot r = right \<and> ur_eligible r} \<and>
    set removed \<union> set kept = ur_instrument ` {r \<in> set rows. ur_snapshot r = left \<and> ur_eligible r}"
proof -
  let ?l = "eligible_of left rows" and ?r = "eligible_of right rows"
  have sets: "set (eligible_of sid rows) = ur_instrument ` {r \<in> set rows. ur_snapshot r = sid \<and> ur_eligible r}"
    and dist: "distinct (eligible_of sid rows)" for sid by (simp_all add: eligible_of_def)
  have srt: "sorted (sorted_by id xs)" for xs :: "string list" using sorted_sorted_by [of id xs] by simp
  have kept: "sorted_by id (filter (\<lambda>i. i \<in> set ?r) ?l) = sorted_by id (filter (\<lambda>i. i \<in> set ?l) ?r)"
  proof (rule sorted_by_mset_eq)
    show "mset (filter (\<lambda>i. i \<in> set ?r) ?l) = mset (filter (\<lambda>i. i \<in> set ?l) ?r)"
      using dist by (subst set_eq_iff_mset_eq_distinct [symmetric]) auto
  qed simp
  show ?thesis unfolding diff_snapshots_def assms bindE_simps Let_def kept
    by (intro exI conjI) (use dist sets srt in \<open>auto simp: kept [symmetric]\<close>)
qed

section \<open>Concrete inputs\<close>

text \<open>A payload with two entries, and the environment that reads it.\<close>

definition sample_env :: json_env where
  "sample_env = \<lparr>py_str = (\<lambda>v. case v of JStr s \<Rightarrow> s | _ \<Rightarrow> []), float_text = (\<lambda>s. Inl (ValueError s)), int_text = (\<lambda>s. Inl (ValueError s))\<rparr>"

definition sample_payload :: json where
  "sample_payload = JList [JObj [(''universe'', JList [JObj [(''name'', JStr ''btc'')], JObj [(''name'', JStr ''dex:oil'')]])],
     JList [JObj [(''dayNtlVlm'', JFloat (Fin 6000000))]]]"

definition sample_instrument :: "string \<Rightarrow> instrument" where
  "sample_instrument s = \<lparr>in_id = ''hyperliquid:perp:'' @ upper s, in_venue = ''hyperliquid'', in_symbol = s, in_canonical = upper s, in_market = ''perp'',
     in_base = upper s, in_quote = ''USD'', in_settle = Some ''USDC'', in_first_seen = 0, in_last_seen = 0, in_status = ''active'',
     in_decimals = None, in_leverage = None, in_isolated = None, in_hip3 = False, in_namespace = None, in_reference = None,
     in_oracle = None, in_calendar = None, in_weekend = None, in_age = None, in_proxy = None, in_source = ''f''\<rparr>"

definition sample_context :: "string \<Rightarrow> rat \<Rightarrow> asset_context" where
  "sample_context s v = \<lparr>ac_id = ''hyperliquid:perp:'' @ upper s, ac_symbol = s, ac_volume = Fin v, ac_interest = None, ac_mark = None,
     ac_oracle = None, ac_funding = None, ac_raw = []\<rparr>"

definition sample_params :: universe_params where
  "sample_params = \<lparr>up_asof = (2024, 1, 2), up_payload_sha = replicate 64 CHR ''a'', up_raw_file = replicate 64 CHR ''b'',
     up_min_notional = 5000000, up_mode = AS_OF, up_ratio = Fin 1, up_cmin = Fin (98 / 100), up_months = 6, up_min_months = 6\<rparr>"

definition sample_row :: "char \<Rightarrow> pydate \<Rightarrow> string \<Rightarrow> universe_row" where
  "sample_row c d s = (universe_row_of sample_params 0 (sample_instrument s) (sample_context s 6000000))
     \<lparr>ur_snapshot := replicate 64 c, ur_asof := d\<rparr>"

lemmas sample_defs = sample_env_def sample_payload_def sample_instrument_def sample_context_def sample_params_def

lemma sample_upper: "upper ''btc'' = ''BTC''" "upper ''oil'' = ''OIL''" "lower ''dex'' = ''dex''"
  by code_simp+

lemma sample_parsed:
  "\<exists>instruments contexts. parse_meta_and_asset_contexts sample_env sample_payload asof file_id h = Inr (instruments, contexts) \<and>
     length instruments = 2 \<and> ''hyperliquid:perp:BTC'' \<in> in_id ` set instruments \<and> list_all (\<lambda>c. isfinite (ac_volume c) \<and> ac_interest c = None \<and> ac_mark c = None \<and>
       ac_oracle c = None \<and> ac_funding c = None) contexts" if "file_id \<noteq> []"
  using that by (simp add: sample_env_def sample_payload_def parse_meta_and_asset_contexts_def given_list_def json_or_def get_entry_def
      instrument_row_def asset_context_row_def parse_symbol_namespace_def json_optional_int_def json_optional_float_def optional_number_def
      json_optional_str_def json_optional_bool_def validate_instrument_def validate_context_def validate_model_def float_or_zero_def Let_def sample_upper f_le_def)

lemma sample_valid: "validate_universe_row (sample_row c d s) = Inr (sample_row c d s)"
  by (simp add: sample_row_def validated_universe_row universe_row_of_def sample_defs evidence_scope_for_mode_def Let_def f_le_def)

lemma universe_rows_exact_witness:
  "\<exists>rows. build_universe_rows sample_params 0 [sample_instrument ''eth'', sample_instrument ''btc''] [sample_context ''btc'' 9, sample_context ''eth'' 6000000] = Inr rows \<and>
     map ur_instrument rows = map in_id (sorted_by in_id [sample_instrument ''eth'', sample_instrument ''btc'']) \<and>
     (\<forall>u \<in> set rows. ur_eligible u \<longleftrightarrow> first_failed u = None)"
proof -
  let ?b = "build_universe_rows sample_params 0 [sample_instrument ''eth'', sample_instrument ''btc''] [sample_context ''btc'' 9, sample_context ''eth'' 6000000]"
  have "\<exists>rows. ?b = Inr rows"
    by (simp add: build_universe_rows_def sorted_by_def validated_universe_row universe_row_of_def sample_defs evidence_scope_for_mode_def Let_def
        f_le_def validate_universe_row_def validate_model_def upper_def)
  then obtain rows where r: "?b = Inr rows" by blast
  have "up_ratio sample_params \<noteq> NaN" "up_cmin sample_params \<noteq> NaN" by (simp_all add: sample_params_def)
  from universe_rows_exact [OF r this] r show ?thesis by (auto simp: first_failed_def)
qed

lemma parsed_payload_is_decided_witness:
  "\<exists>instruments contexts rows. parse_meta_and_asset_contexts sample_env sample_payload 0 ''f'' True = Inr (instruments, contexts) \<and>
     build_universe_rows sample_params 0 instruments contexts = Inr rows \<and> length rows = 2"
proof -
  obtain instruments contexts where s: "parse_meta_and_asset_contexts sample_env sample_payload 0 ''f'' True = Inr (instruments, contexts)"
    "length instruments = 2" using sample_parsed [of "''f''" 0 True] by auto
  have "length (up_payload_sha sample_params) = 64" "length (up_raw_file sample_params) = 64" by (simp_all add: sample_params_def)
  from parsed_payload_is_decided [OF s(1) this, of 0] s show ?thesis by auto
qed

lemma excluded_hip3_is_never_eligible_witness:
  "\<exists>instruments contexts rows u. parse_meta_and_asset_contexts sample_env sample_payload 0 ''f'' False = Inr (instruments, contexts) \<and>
     build_universe_rows sample_params 0 instruments contexts = Inr rows \<and> u \<in> set rows \<and> ur_eligible u \<and>
     is_prefix_of ''hyperliquid:perp:'' (ur_instrument u)"
proof -
  have "\<exists>instruments contexts rows u. parse_meta_and_asset_contexts sample_env sample_payload 0 ''f'' False = Inr (instruments, contexts) \<and>
     build_universe_rows sample_params 0 instruments contexts = Inr rows \<and> u \<in> set rows \<and> ur_eligible u"
    by (simp add: sample_env_def sample_payload_def parse_meta_and_asset_contexts_def given_list_def json_or_def get_entry_def
        instrument_row_def asset_context_row_def parse_symbol_namespace_def json_optional_int_def json_optional_float_def optional_number_def
        json_optional_str_def json_optional_bool_def validate_instrument_def validate_context_def validate_model_def float_or_zero_def Let_def upper_def
        f_le_def lower_def lower_char_def build_universe_rows_def sorted_by_def validate_universe_row_def universe_row_of_def sample_params_def
        evidence_scope_for_mode_def eligibility_reason_def inactive_statuses_def hip3_metadata_complete_def
        conj_disj_distribR ex_disj_distrib)
  then show ?thesis using excluded_hip3_is_never_eligible by blast
qed

lemma refresh_resets_first_seen_witness:
  "\<exists>out t' cat. refresh_universe sample_env sample_payload sample_params True 0 \<lparr>catalog = Some [(sample_instrument ''btc'')\<lparr>in_first_seen := 5\<rparr>],
       context_snapshots = None, universe_snapshots = None\<rparr> = (Inr out, t') \<and> catalog t' = Some cat \<and>
     (\<forall>r. find_row in_id cat ''hyperliquid:perp:BTC'' = Some r \<longrightarrow> in_first_seen r \<noteq> 5)"
proof -
  let ?t = "\<lparr>catalog = Some [(sample_instrument ''btc'')\<lparr>in_first_seen := 5\<rparr>], context_snapshots = None, universe_snapshots = None\<rparr>"
  let ?f = "up_raw_file sample_params" and ?m = "midnight (up_asof sample_params)"
  have f: "?f \<noteq> []" "length ?f = 64" "length (up_payload_sha sample_params) = 64" by (simp_all add: sample_params_def)
  obtain instruments contexts where s: "parse_meta_and_asset_contexts sample_env sample_payload ?m ?f True = Inr (instruments, contexts)"
    "list_all (\<lambda>c. isfinite (ac_volume c) \<and> ac_interest c = None \<and> ac_mark c = None \<and> ac_oracle c = None \<and> ac_funding c = None) contexts"
    "''hyperliquid:perp:BTC'' \<in> in_id ` set instruments"
    using sample_parsed [OF f(1), of ?m True] by auto
  obtain rows where rows: "build_universe_rows sample_params 0 instruments contexts = Inr rows"
    using parsed_rows_built [OF s(1) f(3,2), of 0] by blast
  have fin: "all_finite (JObj (universe_row_json u))" if u: "u \<in> set rows" for u
  proof -
    obtain r c where r: "map_of (index_rows ac_id contexts []) (in_id r) = Some c" "u = universe_row_of sample_params 0 r c"
      using list_all2_member [OF rows [unfolded build_rows_all2] u] by (auto simp: validated_universe_row)
    have "c \<in> set contexts" using r(1) by (auto simp: map_of_index_rows find_Some_iff split: option.splits) (metis nth_mem length_rev set_rev)
    then show ?thesis using s(2)
      by (simp add: r(2) universe_row_json_def universe_row_of_def sample_params_def evidence_scope_for_mode_def Let_def list_all_iff opt_float_json_def opt_json_def
          split: option.split)
  qed
  obtain sid where "universe_snapshot_id rows = Inr sid"
    using manifest_rows_hash_finite [of "map universe_row_json (sorted_by ur_instrument rows)"] fin by (auto simp: universe_snapshot_id_def)
  then obtain out t' where run: "refresh_universe sample_env sample_payload sample_params True 0 ?t = (Inr out, t')"
    by (simp add: refresh_universe_def s(1) rows Let_def)
  from refresh_resets_first_seen [OF this] s(1) obtain cat where c: "catalog t' = Some cat"
    "\<forall>i \<in> in_id ` set instruments. \<exists>r. find_row in_id cat i = Some r \<and> in_first_seen r = ?m"
    "\<forall>i. i \<notin> in_id ` set instruments \<longrightarrow> find_row in_id cat i = find (\<lambda>r. in_id r = i) (rev (case catalog ?t of None \<Rightarrow> [] | Some es \<Rightarrow> es))"
    by auto
  obtain r where "find_row in_id cat ''hyperliquid:perp:BTC'' = Some r" "in_first_seen r = ?m" using c(2) s(3) by blast
  moreover have "?m \<noteq> 5" by code_simp
  ultimately show ?thesis using run c(1) by (intro exI [of _ out] exI [of _ t'] exI [of _ cat]) simp
qed

lemma asof_selection_exact_witness:
  "\<exists>sel. select_asof_universe (2024, 5, 1) True AS_OF \<lparr>catalog = None, context_snapshots = None,
     universe_snapshots = Some [sample_row CHR ''a'' (2024, 1, 2) ''btc'', sample_row CHR ''b'' (2024, 6, 1) ''btc'']\<rparr> = Inr sel \<and>
     sample_row CHR ''b'' (2024, 6, 1) ''btc'' \<notin> set sel"
proof -
  let ?a = "sample_row CHR ''a'' (2024, 1, 2) ''btc''" and ?b = "sample_row CHR ''b'' (2024, 6, 1) ''btc''"
  let ?t = "\<lparr>catalog = None, context_snapshots = None, universe_snapshots = Some [?a, ?b]\<rparr>"
  have f: "ur_asof (sample_row c d s) = d" "ur_mode (sample_row c d s) = AS_OF" for c d s
    by (simp_all add: sample_row_def row_of_fields sample_params_def)
  have l: "load_universe_rows ?t = Inr [?a, ?b]" by (simp add: load_universe_rows_def sample_valid)
  have d: "(2024, 1, 2) \<le> ((2024, 5, 1) :: pydate)" "\<not> ((2024, 6, 1) :: pydate) \<le> (2024, 5, 1)" by simp_all
  have a: "?a \<in> set [?a, ?b]" "ur_asof ?a \<le> (2024, 5, 1)" "ur_mode ?a = AS_OF" by (simp_all add: f)
  obtain sel latest sid where s: "select_asof_universe (2024, 5, 1) True AS_OF ?t = Inr sel" "latest \<le> (2024, 5, 1)"
    "set sel = {r \<in> set [?a, ?b]. ur_mode r = AS_OF \<and> ur_asof r = latest \<and> ur_snapshot r = sid \<and> (True \<longrightarrow> ur_eligible r)}"
    using asof_selection_exact [OF l a, of True] by blast
  have "?b \<notin> set sel"
  proof
    assume "?b \<in> set sel"
    then have "ur_asof ?b = latest" unfolding s(3) by blast
    then show False using s(2) d(2) f(1) by simp
  qed
  then show ?thesis using s(1) by blast
qed

lemma asof_selection_no_lookahead_witness:
  "select_asof_universe (2024, 5, 1) False AS_OF (append_universe_tables [] [] [sample_row CHR ''b'' (2024, 6, 1) ''btc'']
     \<lparr>catalog = None, context_snapshots = None, universe_snapshots = Some [sample_row CHR ''a'' (2024, 1, 2) ''btc'']\<rparr>) =
   select_asof_universe (2024, 5, 1) False AS_OF \<lparr>catalog = None, context_snapshots = None,
     universe_snapshots = Some [sample_row CHR ''a'' (2024, 1, 2) ''btc'']\<rparr>"
proof (rule asof_selection_no_lookahead)
  show "load_universe_rows \<lparr>catalog = None, context_snapshots = None, universe_snapshots = Some [sample_row CHR ''a'' (2024, 1, 2) ''btc'']\<rparr> =
      Inr [sample_row CHR ''a'' (2024, 1, 2) ''btc'']" by (simp add: load_universe_rows_def sample_valid)
  have "replicate 64 CHR ''a'' \<noteq> replicate 64 CHR ''b''" by (simp only: replicate_eq_replicate) simp
  then show "\<forall>r \<in> set [sample_row CHR ''b'' (2024, 6, 1) ''btc'']. (2024, 5, 1) < ur_asof r \<and>
      ur_snapshot r \<notin> ur_snapshot ` set [sample_row CHR ''a'' (2024, 1, 2) ''btc''] \<and> validate_universe_row r = Inr r"
    by (simp add: sample_valid) (simp add: sample_row_def)
qed simp_all

lemma snapshot_id_stable_witness:
  "\<exists>rows rows'. build_universe_rows sample_params 0 [sample_instrument ''eth'', sample_instrument ''btc''] [sample_context ''btc'' 9, sample_context ''eth'' 6000000] = Inr rows \<and>
     build_universe_rows sample_params 7 [sample_instrument ''btc'', sample_instrument ''eth''] [sample_context ''btc'' 9, sample_context ''eth'' 6000000] = Inr rows' \<and>
     universe_snapshot_id rows = universe_snapshot_id rows'"
proof -
  let ?b = "\<lambda>now. build_universe_rows sample_params now"
  let ?c = "[sample_context ''btc'' 9, sample_context ''eth'' 6000000]"
  have "\<exists>rows. ?b now [sample_instrument ''eth'', sample_instrument ''btc''] ?c = Inr rows"
    "\<exists>rows. ?b now [sample_instrument ''btc'', sample_instrument ''eth''] ?c = Inr rows" for now
    by (simp_all add: build_universe_rows_def sorted_by_def validated_universe_row universe_row_of_def sample_defs evidence_scope_for_mode_def Let_def
        f_le_def validate_universe_row_def validate_model_def upper_def)
  then obtain rows rows' where r: "?b 0 [sample_instrument ''eth'', sample_instrument ''btc''] ?c = Inr rows"
    "?b 7 [sample_instrument ''btc'', sample_instrument ''eth''] ?c = Inr rows'" by blast
  from snapshot_id_stable [OF r] r show ?thesis by simp
qed

lemma diff_partitions_witness:
  "\<exists>added removed kept. diff_snapshots (replicate 64 CHR ''a'') (replicate 64 CHR ''b'') \<lparr>catalog = None, context_snapshots = None,
     universe_snapshots = Some [sample_row CHR ''a'' (2024, 1, 2) ''btc'', sample_row CHR ''b'' (2024, 6, 1) ''eth'']\<rparr> = Inr (added, removed, kept) \<and>
     distinct (added @ removed @ kept)"
proof -
  let ?t = "\<lparr>catalog = None, context_snapshots = None, universe_snapshots = Some [sample_row CHR ''a'' (2024, 1, 2) ''btc'', sample_row CHR ''b'' (2024, 6, 1) ''eth'']\<rparr>"
  have "load_universe_rows ?t = Inr [sample_row CHR ''a'' (2024, 1, 2) ''btc'', sample_row CHR ''b'' (2024, 6, 1) ''eth'']"
    by (simp add: load_universe_rows_def sample_valid)
  from diff_partitions [OF this] show ?thesis by blast
qed

end
