(* ===== verification/CostModel.thy ===== *)
theory CostModel
  imports Boundary
begin

text \<open>
  \<open>costs/models.py\<close>: the cost model, the costs of one change of weight under a stress scenario, and
  the cost manifest of a run.  Arithmetic is on doubles as the code does it, rounding and overflow to
  infinity included; the two zeros are one value.
\<close>

section \<open>Configuration\<close>

datatype scenario = BASE | STRESS_2X | STRESS_3X

fun scenario_value :: "scenario \<Rightarrow> string" where
  "scenario_value BASE = ''base''"
| "scenario_value STRESS_2X = ''stress_2x''"
| "scenario_value STRESS_3X = ''stress_3x''"

fun scenario_multiplier :: "scenario \<Rightarrow> pyfloat" where
  "scenario_multiplier BASE = Fin 1"
| "scenario_multiplier STRESS_2X = Fin 2"
| "scenario_multiplier STRESS_3X = Fin 3"

record cost_config =
  cc_schema :: string
  cc_id :: string
  cc_fee_side :: string
  cc_fee_bps :: pyfloat
  cc_spread_bps :: pyfloat
  cc_spread_units :: string
  cc_spread_policy :: string
  cc_slippage_bps :: pyfloat
  cc_impact_bps :: pyfloat
  cc_notional :: pyfloat
  cc_max_participation :: pyfloat
  cc_slippage_model :: string
  cc_impact_model :: string
  cc_funding_required :: bool
  cc_funding_source :: string
  cc_funding_policy :: string
  cc_liquidity_required :: bool
  cc_ranking :: bool
  cc_queue_documented :: bool
  cc_scenarios :: "scenario list"
  cc_research_only :: bool
  cc_observe_only :: bool
  cc_promotion_ready :: bool

definition default_cost_config :: cost_config where
  "default_cost_config = \<lparr>cc_schema = ''cost_model_v1'', cc_id = ''conservative_hyperliquid_taker_v1'', cc_fee_side = ''taker'',
     cc_fee_bps = Fin 6, cc_spread_bps = Fin 5, cc_spread_units = ''bps'', cc_spread_policy = ''lenient'', cc_slippage_bps = Fin 3,
     cc_impact_bps = Fin 1, cc_notional = Fin 10000, cc_max_participation = fl (5/100), cc_slippage_model = ''volume_participation_v1'',
     cc_impact_model = ''impact_v1'', cc_funding_required = True, cc_funding_source = ''archive_funding_table'', cc_funding_policy = ''fail'',
     cc_liquidity_required = True, cc_ranking = True, cc_queue_documented = False, cc_scenarios = [BASE, STRESS_2X, STRESS_3X],
     cc_research_only = True, cc_observe_only = True, cc_promotion_ready = False\<rparr>"

definition normal_text :: "string \<Rightarrow> string" where
  "normal_text s = lower (strip s)"

definition cost_config_fields :: "cost_config \<Rightarrow> (bool \<times> string) list" where
  "cost_config_fields c =
     [(normal_text (cc_fee_side c) \<in> {''taker'', ''maker'', ''mixed''}, ''fee_side''), (f_ge (cc_fee_bps c) (Fin 0), ''fee_bps''),
      (f_ge (cc_spread_bps c) (Fin 0), ''spread_bps''), (normal_text (cc_spread_units c) \<in> {''bps'', ''basis_points''}, ''spread_units''),
      (normal_text (cc_spread_policy c) \<in> {''lenient'', ''accepted_research_strict''}, ''spread_observation_policy''),
      (f_ge (cc_slippage_bps c) (Fin 0), ''slippage_bps''), (f_ge (cc_impact_bps c) (Fin 0), ''impact_bps''),
      (f_gt (cc_notional c) (Fin 0), ''account_notional_usd''),
      (f_gt (cc_max_participation c) (Fin 0) \<and> f_le (cc_max_participation c) (Fin 1), ''max_volume_participation''),
      (normal_text (cc_funding_policy c) \<in> {''fail'', ''explicit_zero''}, ''funding_missing_policy'')]"

definition normalise_cost_config :: "cost_config \<Rightarrow> cost_config" where
  "normalise_cost_config c = c\<lparr>cc_fee_side := normal_text (cc_fee_side c), cc_spread_units := ''bps'',
     cc_spread_policy := normal_text (cc_spread_policy c), cc_funding_policy := normal_text (cc_funding_policy c)\<rparr>"

definition validate_cost_config :: "cost_config \<Rightarrow> cost_config result" where
  "validate_cost_config c = bindE (validate_model (cost_config_fields c) [] c) (\<lambda>_.
     let c' = normalise_cost_config c in validate_model []
       [(\<not> {BASE, STRESS_2X, STRESS_3X} \<subseteq> set (cc_scenarios c'), ''cost model must include base, stress_2x, and stress_3x scenarios''),
        ((cc_id c' = ''mixed_maker_taker_research_v1'' \<or> cc_fee_side c' \<in> {''maker'', ''mixed''}) \<and> \<not> cc_queue_documented c',
          ''maker_assumption_requires_queue_model''),
        (\<not> cc_research_only c' \<or> \<not> cc_observe_only c' \<or> cc_promotion_ready c', ''cost model config must preserve the v2 research boundary'')] c')"

definition cost_config_json :: "cost_config \<Rightarrow> (string \<times> json) list" where
  "cost_config_json c = [(''schema_version'', JStr (cc_schema c)), (''cost_model_id'', JStr (cc_id c)), (''fee_side'', JStr (cc_fee_side c)),
     (''fee_bps'', JFloat (cc_fee_bps c)), (''spread_bps'', JFloat (cc_spread_bps c)), (''spread_units'', JStr (cc_spread_units c)),
     (''spread_observation_policy'', JStr (cc_spread_policy c)), (''slippage_bps'', JFloat (cc_slippage_bps c)),
     (''impact_bps'', JFloat (cc_impact_bps c)), (''account_notional_usd'', JFloat (cc_notional c)),
     (''max_volume_participation'', JFloat (cc_max_participation c)), (''slippage_model_id'', JStr (cc_slippage_model c)),
     (''impact_model_id'', JStr (cc_impact_model c)), (''funding_required'', JBool (cc_funding_required c)),
     (''funding_source'', JStr (cc_funding_source c)), (''funding_missing_policy'', JStr (cc_funding_policy c)),
     (''liquidity_stress_required'', JBool (cc_liquidity_required c)), (''ranking_allowed'', JBool (cc_ranking c)),
     (''queue_model_documented'', JBool (cc_queue_documented c)),
     (''stress_scenarios'', JList (map (\<lambda>s. JStr (scenario_value s)) (cc_scenarios c))),
     (''research_only'', JBool (cc_research_only c)), (''observe_only'', JBool (cc_observe_only c)),
     (''promotion_ready'', JBool (cc_promotion_ready c))]"

definition cost_model_hash :: "cost_config \<Rightarrow> string result" where
  "cost_model_hash c = canonical_json_hash
     (JObj (filter (\<lambda>(k, _). k \<notin> {''research_only'', ''observe_only''}) (cost_config_json c)))"

section \<open>Costs of a change of weight\<close>

record breakdown =
  bd_scenario :: scenario
  bd_multiplier :: pyfloat
  bd_weight_delta :: pyfloat
  bd_applied :: pyfloat
  bd_funding_rate :: pyfloat
  bd_notional :: pyfloat
  bd_trade_notional :: pyfloat
  bd_volume :: "pyfloat option"
  bd_max_participation :: pyfloat
  bd_participation :: pyfloat
  bd_blocked :: bool
  bd_reason :: "string option"
  bd_fee :: pyfloat
  bd_spread :: pyfloat
  bd_slippage :: pyfloat
  bd_impact :: pyfloat
  bd_total :: pyfloat
  bd_funding :: pyfloat
  bd_net :: pyfloat

definition validate_breakdown :: "breakdown \<Rightarrow> breakdown result" where
  "validate_breakdown b = validate_model
     [(f_gt (bd_multiplier b) (Fin 0), ''cost_multiplier''), (f_ge (bd_weight_delta b) (Fin 0), ''weight_delta''),
      (f_gt (bd_notional b) (Fin 0), ''account_notional_usd''), (f_ge (bd_trade_notional b) (Fin 0), ''trade_notional_usd''),
      (case bd_volume b of None \<Rightarrow> True | Some v \<Rightarrow> f_ge v (Fin 0), ''volume_notional''),
      (f_gt (bd_max_participation b) (Fin 0) \<and> f_le (bd_max_participation b) (Fin 1), ''max_volume_participation''),
      (f_ge (bd_participation b) (Fin 0), ''participation_rate''), (f_ge (bd_fee b) (Fin 0), ''fee_cost''),
      (f_ge (bd_spread b) (Fin 0), ''spread_cost''), (f_ge (bd_slippage b) (Fin 0), ''slippage_cost''),
      (f_ge (bd_impact b) (Fin 0), ''impact_cost''), (f_ge (bd_total b) (Fin 0), ''total_transaction_cost'')] [] b"

definition finite_value :: "pyfloat \<Rightarrow> string \<Rightarrow> pyfloat result" where
  "finite_value v field = bindE (guardE (isfinite v) (ValueError (field @ '' must be finite''))) (\<lambda>_. Inr v)"

definition finite_non_negative :: "pyfloat \<Rightarrow> string \<Rightarrow> pyfloat result" where
  "finite_non_negative v field = bindE (finite_value v field) (\<lambda>x.
     bindE (guardE (\<not> f_lt x (Fin 0)) (ValueError (field @ '' must be non-negative''))) (\<lambda>_. Inr x))"

text \<open>Participation rate, whether the cap blocks the trade, and why.\<close>

definition capacity :: "cost_config \<Rightarrow> pyfloat \<Rightarrow> pyfloat option \<Rightarrow> (pyfloat \<times> bool \<times> string option) result" where
  "capacity c turnover volume =
     (if \<not> f_gt turnover (Fin 0) then Inr (Fin 0, False, None)
      else case volume of
        None \<Rightarrow> Inr (Fin 0, cc_liquidity_required c, Some ''volume_notional_missing_for_turnover'')
      | Some v \<Rightarrow>
          if f_le v (Fin 0) then Inr (Fin 0, cc_liquidity_required c, Some ''volume_notional_missing_for_turnover'')
          else bindE (f_div (f_mul turnover (cc_notional c)) v) (\<lambda>rate.
            if f_gt rate (cc_max_participation c) then Inr (rate, True, Some ''liquidity_participation_cap_exceeded'')
            else Inr (rate, False, None)))"

text \<open>\<open>turnover * (bps * multiplier / 10_000.0)\<close>\<close>

definition bps_cost :: "pyfloat \<Rightarrow> pyfloat \<Rightarrow> pyfloat" where
  "bps_cost turnover scaled = f_mul turnover (f_div_raw scaled (Fin 10000))"

definition impact_scale :: "cost_config \<Rightarrow> pyfloat \<Rightarrow> pyfloat result" where
  "impact_scale c rate = (if f_gt rate (Fin 0) then bindE (f_div rate (cc_max_participation c)) (\<lambda>q. Inr (f_max (Fin 1) q)) else Inr (Fin 1))"

definition calculate_cost_breakdown ::
  "cost_config \<Rightarrow> pyfloat \<Rightarrow> pyfloat \<Rightarrow> pyfloat \<Rightarrow> pyfloat option \<Rightarrow> pyfloat option \<Rightarrow> scenario \<Rightarrow> breakdown result" where
  "calculate_cost_breakdown c weight_delta applied funding_rate volume_notional observed scen =
     bindE (finite_non_negative weight_delta ''weight_delta'') (\<lambda>turnover.
     bindE (finite_value funding_rate ''funding_rate'') (\<lambda>funding.
     bindE (case volume_notional of None \<Rightarrow> Inr None
       | Some v \<Rightarrow> bindE (finite_non_negative v ''volume_notional'') (\<lambda>x. Inr (Some x))) (\<lambda>volume.
     bindE (capacity c turnover volume) (\<lambda>(rate, blocked, reason).
     let m = scenario_multiplier scen in
     bindE (case observed of None \<Rightarrow> Inr (cc_spread_bps c)
       | Some o' \<Rightarrow> bindE (finite_non_negative o' ''observed_spread_bps'') (\<lambda>x. Inr (f_max (cc_spread_bps c) x))) (\<lambda>spread_bps.
     bindE (impact_scale c rate) (\<lambda>scale.
     let fee = bps_cost turnover (f_mul (cc_fee_bps c) m); spread = bps_cost turnover (f_mul spread_bps m);
         slippage = bps_cost turnover (f_mul (cc_slippage_bps c) m);
         impact = bps_cost turnover (f_mul (f_mul (cc_impact_bps c) m) scale);
         total = f_add (f_add (f_add fee spread) slippage) impact;
         funding_pnl = f_mul (f_neg applied) funding in
     validate_breakdown \<lparr>bd_scenario = scen, bd_multiplier = m, bd_weight_delta = turnover, bd_applied = applied,
       bd_funding_rate = funding, bd_notional = cc_notional c, bd_trade_notional = f_mul turnover (cc_notional c),
       bd_volume = volume, bd_max_participation = cc_max_participation c, bd_participation = rate, bd_blocked = blocked,
       bd_reason = reason, bd_fee = fee, bd_spread = spread, bd_slippage = slippage, bd_impact = impact, bd_total = total,
       bd_funding = funding_pnl, bd_net = f_sub funding_pnl total\<rparr>))))))"

section \<open>The cost manifest\<close>

text \<open>Rows of the stress matrix are dictionaries; \<open>py_str\<close> is Python's \<open>str\<close> of the scenario entry.\<close>

type_synonym stress_row = "(string \<times> json) list"

fun json_truthy :: "json \<Rightarrow> bool" where
  "json_truthy JNull = False"
| "json_truthy (JBool b) = b"
| "json_truthy (JInt i) = (i \<noteq> 0)"
| "json_truthy (JFloat x) = (x \<noteq> Fin 0)"
| "json_truthy (JStr s) = (s \<noteq> [])"
| "json_truthy (JList xs) = (xs \<noteq> [])"
| "json_truthy (JObj kvs) = (kvs \<noteq> [])"

definition row_entry :: "string \<Rightarrow> stress_row \<Rightarrow> json result" where
  "row_entry k row = (case map_of row k of Some v \<Rightarrow> Inr v | None \<Rightarrow> Inl (KeyError k))"

definition row_flag :: "string \<Rightarrow> stress_row \<Rightarrow> bool" where
  "row_flag k row = (case map_of row k of Some v \<Rightarrow> json_truthy v | None \<Rightarrow> False)"

definition rows_by_scenario :: "(json \<Rightarrow> string) \<Rightarrow> stress_row list \<Rightarrow> (string \<times> stress_row) list result" where
  "rows_by_scenario py_str rows =
     bindE (mapE (\<lambda>row. bindE (row_entry ''scenario_id'' row) (\<lambda>v. Inr (py_str v, row))) rows) (\<lambda>kvs. Inr (dict_of kvs))"

definition net_return_of :: "(string \<times> stress_row) list \<Rightarrow> scenario \<Rightarrow> json result" where
  "net_return_of by_scenario s = (case map_of by_scenario (scenario_value s) of None \<Rightarrow> Inr JNull | Some row \<Rightarrow> row_entry ''net_return'' row)"

definition stress_matrix :: "cost_config \<Rightarrow> (string \<times> stress_row) list \<Rightarrow> (string \<times> json) list" where
  "stress_matrix c by_scenario = dict_of (map (\<lambda>s. (scenario_value s, JObj [(''required'', JBool True),
     (''multiplier'', JFloat (scenario_multiplier s)), (''reported'', JBool (map_of by_scenario (scenario_value s) \<noteq> None))])) (cc_scenarios c))"

definition build_cost_manifest :: "(json \<Rightarrow> string) \<Rightarrow> cost_config \<Rightarrow> stress_row list \<Rightarrow> (string \<times> json) list result" where
  "build_cost_manifest py_str c rows =
     bindE (rows_by_scenario py_str rows) (\<lambda>by_scenario.
     let fragile = list_ex (row_flag ''cost_fragile_warning'') rows; dependent = list_ex (row_flag ''cost_dependent_failure'') rows in
     bindE (cost_model_hash c) (\<lambda>h.
     bindE (net_return_of by_scenario BASE) (\<lambda>base. bindE (net_return_of by_scenario STRESS_2X) (\<lambda>s2.
     bindE (net_return_of by_scenario STRESS_3X) (\<lambda>s3. Inr [
       (''schema_version'', JStr ''cost_manifest_v1''), (''cost_model_id'', JStr (cc_id c)), (''cost_model_hash'', JStr h),
       (''cost_model_config'', JObj (cost_config_json c)),
       (''fee_model'', JObj [(''side'', JStr (cc_fee_side c)), (''rate_source'', JStr ''config_or_manifested_source''),
          (''rate_value_bps'', JFloat (cc_fee_bps c))]),
       (''funding_model'', JObj [(''applied'', JBool True), (''source'', JStr (cc_funding_source c)),
          (''missing_policy'', JStr (cc_funding_policy c)), (''required'', JBool (cc_funding_required c)),
          (''rate_units'', JStr ''interval_return_fraction''),
          (''positive_rate_sign_convention'', JStr ''positive_funding_longs_pay_shorts''),
          (''pnl_formula'', JStr ''-applied_weight * funding_rate'')]),
       (''spread_model'', JObj [(''configured_spread_bps'', JFloat (cc_spread_bps c)), (''configured_spread_units'', JStr (cc_spread_units c)),
          (''default_fallback_bps'', JFloat (Fin 5)), (''explicit_spread_bps_preferred'', JBool True),
          (''observed_field_precedence'', JList [JStr ''spread_bps'', JStr ''spread_with_explicit_units'', JStr ''spread_lenient'']),
          (''lenient_raw_spread_policy'', JStr ''fraction_when_abs_lte_1_else_bps''),
          (''spread_observation_policy'', JStr (cc_spread_policy c)),
          (''accepted_research_strict_requires_units'', JBool (cc_spread_policy c = ''accepted_research_strict''))]),
       (''slippage_model'', JObj [(''id'', JStr (cc_slippage_model c)), (''participation_cap'', JFloat (cc_max_participation c)),
          (''spread_component_bps'', JFloat (cc_spread_bps c)), (''slippage_component_bps'', JFloat (cc_slippage_bps c)),
          (''volume_component'', JStr ''volume_notional_or_volume_times_close'')]),
       (''impact_model'', JObj [(''enabled'', JBool True), (''model_id'', JStr (cc_impact_model c)), (''impact_bps'', JFloat (cc_impact_bps c))]),
       (''capacity_model'', JObj [(''liquidity_stress_required'', JBool (cc_liquidity_required c)),
          (''max_volume_participation'', JFloat (cc_max_participation c)), (''account_notional_usd'', JFloat (cc_notional c)),
          (''trade_notional_formula'', JStr ''abs(weight_delta) * account_notional_usd''),
          (''participation_rate_formula'', JStr ''trade_notional_usd / volume_notional'')]),
       (''stress_matrix'', JObj (stress_matrix c by_scenario)),
       (''cost_sensitivity'', JObj [(''base_cost_net_return'', base), (''stress_2x_net_return'', s2), (''stress_3x_net_return'', s3),
          (''cost_fragile_warning'', JBool fragile), (''cost_dependent_failure'', JBool dependent)]),
       (''stress_costs_exclude_funding_pnl_multiplier'', JBool True), (''gross_and_net_required'', JBool True),
       (''ranking_allowed'', JBool (cc_ranking c)), (''research_only'', JBool True), (''observe_only'', JBool True),
       (''promotion_ready'', JBool False)])))))"

section \<open>Rounded arithmetic keeps the order\<close>

lemma fl_mono: "x \<le> y \<Longrightarrow> f_le (fl x) (fl y)"
  using round53_mono [of x y] by (auto simp: fl_def Let_def f_le_def)

lemma fl_nonneg: "0 \<le> x \<Longrightarrow> f_ge (fl x) (Fin 0)"
  using fl_mono [of 0 x] by simp

lemma fl_not_NaN [simp]: "fl x \<noteq> NaN"
  by (simp add: fl_def Let_def)

lemma f_le_PInf [simp]: "f_le x PInf \<longleftrightarrow> x \<noteq> NaN" "f_le PInf x \<longleftrightarrow> x = PInf" "f_le x NInf \<longleftrightarrow> x = NInf" "f_le NInf x \<longleftrightarrow> x \<noteq> NaN"
  by (cases x; simp add: f_le_def)+

lemma f_le_trans: "f_le a b \<Longrightarrow> f_le b c \<Longrightarrow> f_le a c"
  by (cases a; cases b; cases c; simp)

lemma f_le_refl: "f_le a a \<longleftrightarrow> a \<noteq> NaN"
  by (cases a) (simp_all add: f_le_def)

lemma f_mul_mono:
  assumes "f_ge c (Fin 0)" "f_ge a (Fin 0)" "f_le a b" "f_mul c a \<noteq> NaN" "f_mul c b \<noteq> NaN"
  shows "f_le (f_mul c a) (f_mul c b)" "f_ge (f_mul c a) (Fin 0)"
proof -
  have b: "f_ge b (Fin 0)" using f_le_trans [OF assms(2,3)] .
  show "f_le (f_mul c a) (f_mul c b)" using assms b
    by (cases c; cases a; cases b) (auto simp: fl_mono mult_left_mono split: if_splits)
  show "f_ge (f_mul c a) (Fin 0)" using assms
    by (cases c; cases a) (auto simp: fl_nonneg split: if_splits)
qed

lemma f_mul_comm: "f_mul a b = f_mul b a"
  by (cases a; cases b) (auto simp: mult.commute)

lemma f_mul_NaN [simp]: "f_mul c NaN = NaN" "f_mul NaN c = NaN"
  by (cases c; simp)+

lemma f_div_mono:
  assumes "f_ge a (Fin 0)" "f_le a b" "0 < d"
  shows "f_le (f_div_raw a (Fin d)) (f_div_raw b (Fin d))" "f_ge (f_div_raw a (Fin d)) (Fin 0)"
proof -
  have b: "f_ge b (Fin 0)" using f_le_trans [OF assms(1,2)] .
  show "f_le (f_div_raw a (Fin d)) (f_div_raw b (Fin d))" using assms b
    by (cases a; cases b) (auto simp: fl_mono divide_right_mono)
  show "f_ge (f_div_raw a (Fin d)) (Fin 0)" using assms by (cases a) (auto simp: fl_nonneg)
qed

lemma f_add_mono:
  assumes "f_ge a (Fin 0)" "f_ge b (Fin 0)" "f_le a a'" "f_le b b'"
  shows "f_le (f_add a b) (f_add a' b')" "f_ge (f_add a b) (Fin 0)"
proof -
  have n: "f_ge a' (Fin 0)" "f_ge b' (Fin 0)" using f_le_trans assms by blast+
  show "f_le (f_add a b) (f_add a' b')" using assms n
    by (cases a; cases b; cases a'; cases b') (auto simp: fl_mono add_mono)
  show "f_ge (f_add a b) (Fin 0)" using assms by (cases a; cases b) (auto simp: fl_nonneg)
qed

lemma f_sub_antimono: "isfinite x \<Longrightarrow> f_le a b \<Longrightarrow> f_le (f_sub x b) (f_sub x a)"
  by (cases x; cases a; cases b) (auto simp: f_sub_def fl_mono)

section \<open>Stress scenarios\<close>

lemma multiplier_pos [simp]: "f_ge (scenario_multiplier s) (Fin 0)" "\<exists>q. scenario_multiplier s = Fin q \<and> 0 < q"
  by (cases s; simp)+

lemma scaled_mono:
  assumes "f_ge b (Fin 0)" "f_le (scenario_multiplier s) (scenario_multiplier s')"
  shows "f_le (f_mul b (scenario_multiplier s)) (f_mul b (scenario_multiplier s'))" "f_ge (f_mul b (scenario_multiplier s)) (Fin 0)"
proof -
  have n: "f_mul b (scenario_multiplier x) \<noteq> NaN" for x using assms(1) by (cases b; cases x) auto
  show "f_le (f_mul b (scenario_multiplier s)) (f_mul b (scenario_multiplier s'))" "f_ge (f_mul b (scenario_multiplier s)) (Fin 0)"
    using f_mul_mono [OF assms(1) multiplier_pos(1) assms(2) n n] by auto
qed

lemma bps_cost_mono:
  assumes "f_ge t (Fin 0)" "f_ge x (Fin 0)" "f_le x y" "f_ge (bps_cost t x) (Fin 0)" "f_ge (bps_cost t y) (Fin 0)"
  shows "f_le (bps_cost t x) (bps_cost t y)"
proof -
  have "bps_cost t x \<noteq> NaN" "bps_cost t y \<noteq> NaN" using assms(4,5) by auto
  then show ?thesis using f_mul_mono(1) [OF assms(1) f_div_mono(2,1) [OF assms(2,3), of 10000]] by (simp add: bps_cost_def)
qed

lemma bps_cost_NaN: "f_ge (bps_cost t x) (Fin 0) \<Longrightarrow> x \<noteq> NaN"
  by (auto simp: bps_cost_def)

lemma breakdown_parts:
  assumes "calculate_cost_breakdown c w ap f v ob scen = Inr b"
  shows "\<exists>volume rate blocked reason spread_bps scale.
    (case v of None \<Rightarrow> Inr None | Some x \<Rightarrow> bindE (finite_non_negative x ''volume_notional'') (\<lambda>x. Inr (Some x))) = Inr volume \<and>
    capacity c w volume = Inr (rate, blocked, reason) \<and>
    (case ob of None \<Rightarrow> Inr (cc_spread_bps c) | Some x \<Rightarrow> bindE (finite_non_negative x ''observed_spread_bps'')
      (\<lambda>x. Inr (f_max (cc_spread_bps c) x))) = Inr spread_bps \<and>
    impact_scale c rate = Inr scale \<and> f_ge w (Fin 0) \<and> isfinite w \<and>
    bd_scenario b = scen \<and> bd_participation b = rate \<and> bd_blocked b = blocked \<and> bd_reason b = reason \<and> bd_volume b = volume \<and>
    bd_fee b = bps_cost w (f_mul (cc_fee_bps c) (scenario_multiplier scen)) \<and>
    bd_spread b = bps_cost w (f_mul spread_bps (scenario_multiplier scen)) \<and>
    bd_slippage b = bps_cost w (f_mul (cc_slippage_bps c) (scenario_multiplier scen)) \<and>
    bd_impact b = bps_cost w (f_mul (f_mul (cc_impact_bps c) (scenario_multiplier scen)) scale) \<and>
    bd_total b = f_add (f_add (f_add (bd_fee b) (bd_spread b)) (bd_slippage b)) (bd_impact b) \<and>
    bd_funding b = f_mul (f_neg ap) f \<and> bd_net b = f_sub (bd_funding b) (bd_total b) \<and>
    f_ge (bd_fee b) (Fin 0) \<and> f_ge (bd_spread b) (Fin 0) \<and> f_ge (bd_slippage b) (Fin 0) \<and> f_ge (bd_impact b) (Fin 0)"
  using assms
  by (auto simp: calculate_cost_breakdown_def bindE_Inr_iff finite_non_negative_def finite_value_def validate_breakdown_def
      validate_model_Inr_iff Let_def)

lemma config_nonneg:
  assumes "validate_cost_config c0 = Inr c"
  shows "f_ge (cc_fee_bps c) (Fin 0)" "f_ge (cc_spread_bps c) (Fin 0)" "f_ge (cc_slippage_bps c) (Fin 0)" "f_ge (cc_impact_bps c) (Fin 0)"
    "f_gt (cc_max_participation c) (Fin 0)" "f_le (cc_max_participation c) (Fin 1)"
  using assms by (auto simp: validate_cost_config_def bindE_Inr_iff validate_model_Inr_iff cost_config_fields_def Let_def normalise_cost_config_def)

lemma f_max_nonneg: "f_ge a (Fin 0) \<Longrightarrow> f_ge (f_max a b) (Fin 0)"
  by (cases a; cases b) (auto simp: f_max_def)

lemma observed_spread_nonneg:
  assumes "f_ge (cc_spread_bps c) (Fin 0)" "(case ob of None \<Rightarrow> Inr (cc_spread_bps c) | Some x \<Rightarrow> bindE (finite_non_negative x n)
      (\<lambda>x. Inr (f_max (cc_spread_bps c) x))) = Inr s"
  shows "f_ge s (Fin 0)"
  using assms f_max_nonneg by (cases ob) (auto simp: bindE_Inr_iff)

lemma impact_scale_nonneg: "impact_scale c rate = Inr s \<Longrightarrow> f_ge s (Fin 0)"
  using f_max_nonneg [of "Fin 1"] by (auto simp: impact_scale_def bindE_Inr_iff split: if_splits)

text \<open>
  C30: under a stress scenario with a greater multiplier the same change of weight costs no less, in
  each component and in total, rounding and overflow included; the funding, the participation and
  the capacity decision do not depend on the scenario, and the net result is no better.
\<close>

theorem stress_never_cheaper:
  assumes "validate_cost_config c0 = Inr c" and "calculate_cost_breakdown c w ap f v ob s = Inr b"
    and "calculate_cost_breakdown c w ap f v ob s' = Inr b'" and "f_le (scenario_multiplier s) (scenario_multiplier s')"
  shows "f_le (bd_fee b) (bd_fee b') \<and> f_le (bd_spread b) (bd_spread b') \<and> f_le (bd_slippage b) (bd_slippage b') \<and>
    f_le (bd_impact b) (bd_impact b') \<and> f_le (bd_total b) (bd_total b') \<and> bd_funding b = bd_funding b' \<and>
    bd_participation b = bd_participation b' \<and> bd_blocked b = bd_blocked b' \<and>
    (isfinite (bd_funding b) \<longrightarrow> f_le (bd_net b') (bd_net b))"
proof -
  obtain rate spread scale where p: "f_ge w (Fin 0)" "impact_scale c rate = Inr scale" "bd_participation b = rate"
    "(case ob of None \<Rightarrow> Inr (cc_spread_bps c) | Some x \<Rightarrow> bindE (finite_non_negative x ''observed_spread_bps'')
      (\<lambda>x. Inr (f_max (cc_spread_bps c) x))) = Inr spread"
    and b: "bd_fee b = bps_cost w (f_mul (cc_fee_bps c) (scenario_multiplier s))" "bd_spread b = bps_cost w (f_mul spread (scenario_multiplier s))"
    "bd_slippage b = bps_cost w (f_mul (cc_slippage_bps c) (scenario_multiplier s))"
    "bd_impact b = bps_cost w (f_mul (f_mul (cc_impact_bps c) (scenario_multiplier s)) scale)"
    "bd_total b = f_add (f_add (f_add (bd_fee b) (bd_spread b)) (bd_slippage b)) (bd_impact b)"
    "bd_funding b = f_mul (f_neg ap) f" "bd_net b = f_sub (bd_funding b) (bd_total b)"
    and n: "f_ge (bd_fee b) (Fin 0)" "f_ge (bd_spread b) (Fin 0)" "f_ge (bd_slippage b) (Fin 0)" "f_ge (bd_impact b) (Fin 0)"
    and b': "bd_fee b' = bps_cost w (f_mul (cc_fee_bps c) (scenario_multiplier s'))" "bd_spread b' = bps_cost w (f_mul spread (scenario_multiplier s'))"
    "bd_slippage b' = bps_cost w (f_mul (cc_slippage_bps c) (scenario_multiplier s'))"
    "bd_impact b' = bps_cost w (f_mul (f_mul (cc_impact_bps c) (scenario_multiplier s')) scale)"
    "bd_total b' = f_add (f_add (f_add (bd_fee b') (bd_spread b')) (bd_slippage b')) (bd_impact b')"
    "bd_funding b' = f_mul (f_neg ap) f" "bd_net b' = f_sub (bd_funding b') (bd_total b')"
    and n': "f_ge (bd_fee b') (Fin 0)" "f_ge (bd_spread b') (Fin 0)" "f_ge (bd_slippage b') (Fin 0)" "f_ge (bd_impact b') (Fin 0)"
    and same: "bd_participation b = bd_participation b'" "bd_blocked b = bd_blocked b'"
    using breakdown_parts [OF assms(2)] breakdown_parts [OF assms(3)] by auto
  note cfg = config_nonneg [OF assms(1)]
  have sp: "f_ge spread (Fin 0)" by (rule observed_spread_nonneg [OF cfg(2) p(4)])
  have sc: "f_ge scale (Fin 0)" by (rule impact_scale_nonneg [OF p(2)])
  note m = scaled_mono [OF _ assms(4)]
  have fee: "f_le (bd_fee b) (bd_fee b')" using bps_cost_mono [OF p(1) m(2,1) [OF cfg(1)]] n n' b b' cfg(1) by simp
  have spr: "f_le (bd_spread b) (bd_spread b')" using bps_cost_mono [OF p(1) m(2,1) [OF sp]] n n' b b' sp by simp
  have sl: "f_le (bd_slippage b) (bd_slippage b')" using bps_cost_mono [OF p(1) m(2,1) [OF cfg(3)]] n n' b b' cfg(3) by simp
  have nn: "f_mul scale (f_mul (cc_impact_bps c) (scenario_multiplier s)) \<noteq> NaN" "f_mul scale (f_mul (cc_impact_bps c) (scenario_multiplier s')) \<noteq> NaN"
    using bps_cost_NaN n(4) n'(4) unfolding b b' by (metis f_mul_comm)+
  note im = f_mul_mono [OF sc m(2) [OF cfg(4)] m(1) [OF cfg(4)] nn, unfolded f_mul_comm [of scale]]
  have imp: "f_le (bd_impact b) (bd_impact b')" using bps_cost_mono [OF p(1) im(2,1)] n n' b b' by simp
  note a1 = f_add_mono [OF n(1,2) fee spr]
  note a2 = f_add_mono [OF a1(2) n(3) a1(1) sl]
  have tot: "f_le (bd_total b) (bd_total b')" using f_add_mono(1) [OF a2(2) n(4) a2(1) imp] unfolding b b' .
  show ?thesis using fee spr sl imp tot same b(6,7) b'(6,7) f_sub_antimono by auto
qed

text \<open>
  Whether the capacity gate blocks a trade: never without turnover; without a usable volume
  exactly when liquidity stress is required; otherwise exactly when the participation rate is above
  the cap.  A blocked trade names its reason.
\<close>

theorem capacity_gate_exact:
  assumes "calculate_cost_breakdown c w ap f v ob s = Inr b"
  shows "(bd_blocked b \<longleftrightarrow> f_gt w (Fin 0) \<and>
      (case bd_volume b of None \<Rightarrow> cc_liquidity_required c
       | Some x \<Rightarrow> if f_le x (Fin 0) then cc_liquidity_required c else f_gt (bd_participation b) (cc_max_participation c))) \<and>
    (bd_blocked b \<longrightarrow> bd_reason b \<noteq> None) \<and> bd_volume b = v"
proof -
  obtain volume where v: "(case v of None \<Rightarrow> Inr None | Some x \<Rightarrow> bindE (finite_non_negative x ''volume_notional'') (\<lambda>x. Inr (Some x))) = Inr volume"
    and c: "capacity c w volume = Inr (bd_participation b, bd_blocked b, bd_reason b)" "bd_volume b = volume"
    using breakdown_parts [OF assms] by auto
  have "volume = v" using v by (cases v) (auto simp: finite_non_negative_def finite_value_def bindE_Inr_iff)
  then show ?thesis using c by (auto simp: capacity_def bindE_Inr_iff eq_commute [of _ "bd_reason b"] split: option.splits if_splits)
qed

section \<open>Witnesses\<close>

text \<open>A model that charges the whole turnover, so that its costs are whole numbers.\<close>

definition demo_costs :: cost_config where
  "demo_costs = default_cost_config\<lparr>cc_fee_bps := Fin 10000, cc_spread_bps := Fin 0, cc_slippage_bps := Fin 0,
     cc_impact_bps := Fin 10000, cc_max_participation := Fin 1\<rparr>"

lemma demo_texts: "normal_text ''taker'' = ''taker''" "normal_text ''bps'' = ''bps''" "normal_text ''lenient'' = ''lenient''"
  "normal_text ''fail'' = ''fail''"
     apply code_simp
    apply code_simp
   apply code_simp
  apply code_simp
  done

lemma demo_costs_valid: "validate_cost_config demo_costs = Inr demo_costs"
  by (simp add: validate_cost_config_def demo_costs_def default_cost_config_def cost_config_fields_def normalise_cost_config_def
      validate_model_def Let_def demo_texts)

lemma demo_breakdown:
  "\<exists>b. calculate_cost_breakdown demo_costs (Fin 1) (Fin 1) (Fin 0) (Some (Fin 10000)) None s = Inr b \<and> bd_participation b = Fin 1"
proof -
  note fs = fl_of_int [of 10000, simplified] fl_of_int [of 20000, simplified] fl_of_int [of 30000, simplified]
    fl_of_int [of 2, simplified] fl_of_int [of 3, simplified] fl_of_int [of 4, simplified] fl_of_int [of 6, simplified]
  have m: "f_max (Fin 1) (Fin 1) = Fin 1" by (simp add: f_max_def)
  show ?thesis
    by (cases s) (simp_all add: calculate_cost_breakdown_def demo_costs_def default_cost_config_def finite_non_negative_def finite_value_def
        capacity_def f_div_def impact_scale_def bps_cost_def m fs Let_def validate_breakdown_def validate_model_def f_sub_def guardE_def)
qed

lemma stress_never_cheaper_witness:
  "\<exists>b b'. calculate_cost_breakdown demo_costs (Fin 1) (Fin 1) (Fin 0) (Some (Fin 10000)) None BASE = Inr b \<and>
    calculate_cost_breakdown demo_costs (Fin 1) (Fin 1) (Fin 0) (Some (Fin 10000)) None STRESS_3X = Inr b' \<and> f_le (bd_total b) (bd_total b')"
proof -
  obtain b b' where b: "calculate_cost_breakdown demo_costs (Fin 1) (Fin 1) (Fin 0) (Some (Fin 10000)) None BASE = Inr b"
    "calculate_cost_breakdown demo_costs (Fin 1) (Fin 1) (Fin 0) (Some (Fin 10000)) None STRESS_3X = Inr b'" using demo_breakdown by blast
  from stress_never_cheaper [OF demo_costs_valid b] b show ?thesis by auto
qed

lemma capacity_gate_exact_witness:
  "\<exists>b. calculate_cost_breakdown demo_costs (Fin 1) (Fin 1) (Fin 0) (Some (Fin 10000)) None BASE = Inr b \<and> \<not> bd_blocked b"
proof -
  obtain b where b: "calculate_cost_breakdown demo_costs (Fin 1) (Fin 1) (Fin 0) (Some (Fin 10000)) None BASE = Inr b"
    "bd_participation b = Fin 1" using demo_breakdown by blast
  from capacity_gate_exact [OF b(1)] b show ?thesis by (auto simp: demo_costs_def split: option.splits)
qed

section \<open>What the manifest reports\<close>

lemma map_of_keyed: "map_of (map (\<lambda>r. (f r, r)) xs) k = find (\<lambda>r. f r = k) xs"
  by (induction xs) auto

definition row_scenario :: "stress_row \<Rightarrow> string" where
  "row_scenario row = (case map_of row ''scenario_id'' of Some (JStr s) \<Rightarrow> s | _ \<Rightarrow> [])"

definition stress_row_ok :: "stress_row \<Rightarrow> bool" where
  "stress_row_ok row \<longleftrightarrow> (case map_of row ''scenario_id'' of Some (JStr s) \<Rightarrow> map_of row ''net_return'' \<noteq> None | _ \<Rightarrow> False)"

definition last_scenario_row :: "stress_row list \<Rightarrow> string \<Rightarrow> stress_row option" where
  "last_scenario_row rows k = find (\<lambda>row. row_scenario row = k) (rev rows)"

definition reported_return :: "stress_row list \<Rightarrow> scenario \<Rightarrow> json" where
  "reported_return rows s = (case last_scenario_row rows (scenario_value s) of None \<Rightarrow> JNull | Some row \<Rightarrow> the (map_of row ''net_return''))"

lemma stress_row_okE:
  assumes "stress_row_ok row"
  obtains i n where "map_of row ''scenario_id'' = Some (JStr i)" "map_of row ''net_return'' = Some n" "row_scenario row = i"
  using assms that by (auto simp: stress_row_ok_def row_scenario_def split: option.splits json.splits)

lemma find_in: "find P xs = Some x \<Longrightarrow> x \<in> set xs"
  by (induction xs) (auto split: if_splits)

lemma rows_by_scenario_ok:
  assumes "list_all stress_row_ok rows" "\<forall>s. py_str (JStr s) = s"
  shows "\<exists>d. rows_by_scenario py_str rows = Inr d \<and> map_of d = last_scenario_row rows"
proof -
  have "\<forall>row \<in> set rows. bindE (row_entry ''scenario_id'' row) (\<lambda>v. Inr (py_str v, row)) = Inr (row_scenario row, row)"
  proof
    fix row assume "row \<in> set rows"
    then have "stress_row_ok row" using assms(1) by (simp add: list_all_iff)
    then show "bindE (row_entry ''scenario_id'' row) (\<lambda>v. Inr (py_str v, row)) = Inr (row_scenario row, row)"
      using assms(2) by (elim stress_row_okE) (simp add: row_entry_def)
  qed
  from mapE_all [OF this]
  have "rows_by_scenario py_str rows = Inr (dict_of (map (\<lambda>row. (row_scenario row, row)) rows))" by (simp add: rows_by_scenario_def)
  moreover have "map_of (dict_of (map (\<lambda>row. (row_scenario row, row)) rows)) = last_scenario_row rows"
    unfolding map_of_dict_of rev_map by (rule ext) (simp only: map_of_keyed last_scenario_row_def)
  ultimately show ?thesis by blast
qed

lemma net_return_ok:
  assumes "list_all stress_row_ok rows" "map_of d = last_scenario_row rows"
  shows "net_return_of d s = Inr (reported_return rows s)"
proof (cases "last_scenario_row rows (scenario_value s)")
  case (Some row)
  then have "row \<in> set rows" using find_in by (fastforce simp: last_scenario_row_def)
  then have "stress_row_ok row" using assms(1) by (auto simp: list_all_iff)
  then show ?thesis using Some assms(2) by (elim stress_row_okE) (simp add: net_return_of_def row_entry_def reported_return_def)
qed (simp add: net_return_of_def assms(2) reported_return_def)

definition cost_config_finite :: "cost_config \<Rightarrow> bool" where
  "cost_config_finite c \<longleftrightarrow> isfinite (cc_fee_bps c) \<and> isfinite (cc_spread_bps c) \<and> isfinite (cc_slippage_bps c) \<and>
     isfinite (cc_impact_bps c) \<and> isfinite (cc_notional c) \<and> isfinite (cc_max_participation c)"

lemma cost_model_hash_ok: "cost_config_finite c \<Longrightarrow> \<exists>h. cost_model_hash c = Inr h \<and> length h = 64"
  unfolding cost_model_hash_def
  by (rule canonical_json_hash_finite) (auto simp: cost_config_json_def cost_config_finite_def list_all_iff)

text \<open>
  The cost manifest of a finite model and rows that name their scenario and net return is always
  built, carries the digest of the model, and reports for each scenario the net return of the last
  row that names it, or none; a scenario of the model is marked as reported exactly when a row names
  it; and the warnings are those of any row.
\<close>

theorem cost_manifest_exact:
  assumes "cost_config_finite c" and "list_all stress_row_ok rows" and "\<forall>s. py_str (JStr s) = s"
  shows "\<exists>m h matrix. build_cost_manifest py_str c rows = Inr m \<and> cost_model_hash c = Inr h \<and>
    map_of m ''cost_model_hash'' = Some (JStr h) \<and>
    map_of m ''cost_sensitivity'' = Some (JObj [(''base_cost_net_return'', reported_return rows BASE),
      (''stress_2x_net_return'', reported_return rows STRESS_2X), (''stress_3x_net_return'', reported_return rows STRESS_3X),
      (''cost_fragile_warning'', JBool (list_ex (row_flag ''cost_fragile_warning'') rows)),
      (''cost_dependent_failure'', JBool (list_ex (row_flag ''cost_dependent_failure'') rows))]) \<and>
    map_of m ''stress_matrix'' = Some (JObj matrix) \<and>
    (\<forall>s \<in> set (cc_scenarios c). map_of matrix (scenario_value s) = Some (JObj [(''required'', JBool True),
      (''multiplier'', JFloat (scenario_multiplier s)),
      (''reported'', JBool (scenario_value s \<in> row_scenario ` set rows))]))"
proof -
  obtain d where d: "rows_by_scenario py_str rows = Inr d" "map_of d = last_scenario_row rows"
    using rows_by_scenario_ok [OF assms(2,3)] by blast
  obtain h where h: "cost_model_hash c = Inr h" using cost_model_hash_ok [OF assms(1)] by blast
  note nr = net_return_ok [OF assms(2) d(2)]
  have inj: "scenario_value a = scenario_value b \<longleftrightarrow> a = b" for a b by (cases a; cases b; simp)
  have rep: "(last_scenario_row rows k \<noteq> None) = (k \<in> row_scenario ` set rows)" for k
    by (auto simp: last_scenario_row_def find_None_iff)
  have mat: "map_of (stress_matrix c d) (scenario_value s) = Some (JObj [(''required'', JBool True),
      (''multiplier'', JFloat (scenario_multiplier s)), (''reported'', JBool (scenario_value s \<in> row_scenario ` set rows))])"
    if "s \<in> set (cc_scenarios c)" for s
  proof -
    have "map_of (rev (map (\<lambda>s. (scenario_value s, g s)) xs)) (scenario_value s) = Some (g s)" if m: "s \<in> set xs" for g :: "scenario \<Rightarrow> json" and xs
    proof -
      have "scenario_value s \<in> fst ` set (rev (map (\<lambda>s. (scenario_value s, g s)) xs))" using m by force
      then obtain v where v: "map_of (rev (map (\<lambda>s. (scenario_value s, g s)) xs)) (scenario_value s) = Some v"
        by (metis map_of_eq_None_iff not_Some_eq)
      then have "v = g s" using map_of_SomeD [OF v] inj by auto
      then show ?thesis using v by simp
    qed
    from this [OF that] show ?thesis by (simp only: stress_matrix_def map_of_dict_of d(2) rep)
  qed
  show ?thesis using mat
    by (simp add: build_cost_manifest_def d(1) h nr Let_def)
qed

definition text_str :: "json \<Rightarrow> string" where
  "text_str v = (case v of JStr s \<Rightarrow> s | _ \<Rightarrow> [])"

lemma cost_manifest_exact_witness:
  "\<exists>m h. build_cost_manifest text_str demo_costs [[(''scenario_id'', JStr ''base''), (''net_return'', JInt 1)]] = Inr m \<and>
    map_of m ''cost_model_hash'' = Some (JStr h)"
proof -
  have "cost_config_finite demo_costs" by (simp add: cost_config_finite_def demo_costs_def default_cost_config_def)
  moreover have "list_all stress_row_ok [[(''scenario_id'', JStr ''base''), (''net_return'', JInt 1)]]" by (simp add: stress_row_ok_def)
  moreover have "\<forall>s. text_str (JStr s) = s" by (simp add: text_str_def)
  ultimately show ?thesis using cost_manifest_exact by meson
qed

end
