(* ===== verification/RunModels.thy ===== *)
theory RunModels
  imports CostModel QualityModels
begin

text \<open>
  \<open>backtest_engine/artifacts.py\<close>: the configuration of a backtest run, the context and the metrics it
  reports, the references to its artifacts and its manifest, with the constraints their construction
  enforces.
\<close>

section \<open>Enumerations\<close>

datatype engine_lane = VECTORIZED | FAST_VECTORIZED | EVENT_DRIVEN

fun lane_value :: "engine_lane \<Rightarrow> string" where
  "lane_value VECTORIZED = ''vectorized''"
| "lane_value FAST_VECTORIZED = ''fast_vectorized''"
| "lane_value EVENT_DRIVEN = ''event_driven''"

datatype run_status = RUN_SUCCEEDED | RUN_FAILED | RUN_BLOCKED

fun run_status_value :: "run_status \<Rightarrow> string" where
  "run_status_value RUN_SUCCEEDED = ''succeeded''"
| "run_status_value RUN_FAILED = ''failed''"
| "run_status_value RUN_BLOCKED = ''blocked''"

datatype missing_policy = FAIL_CLOSED

datatype run_validation = RV_PASS | RV_FAIL | RV_QUARANTINE

datatype artifact_mode = FULL | SUMMARY | METRICS_ONLY

fun artifact_mode_value :: "artifact_mode \<Rightarrow> string" where
  "artifact_mode_value FULL = ''full''"
| "artifact_mode_value SUMMARY = ''summary''"
| "artifact_mode_value METRICS_ONLY = ''metrics_only''"

definition SPEEDUP_CLAIM_REQUIRED_OBSERVATIONS :: "string list" where
  "SPEEDUP_CLAIM_REQUIRED_OBSERVATIONS = [''speedup_ratio'', ''reference_runtime_seconds'', ''fast_runtime_seconds'',
     ''reference_data_load_seconds'', ''fast_data_load_seconds'', ''reference_artifact_write_seconds'',
     ''fast_artifact_write_seconds'', ''reference_memory_peak_bytes'', ''fast_memory_peak_bytes'']"

definition missing_speedup_observations :: "(string \<times> pyfloat) list \<Rightarrow> string list" where
  "missing_speedup_observations obs = sorted_by id (filter (\<lambda>k. k \<notin> set (map fst obs)) SPEEDUP_CLAIM_REQUIRED_OBSERVATIONS)"

text \<open>Two checks that the configuration and the manifest share.\<close>

definition benchmark_entries :: "bool \<Rightarrow> (string \<times> pyfloat) list \<Rightarrow> (bool \<times> string) list" where
  "benchmark_entries claimed obs =
     [(list_ex (\<lambda>(k, v). f_lt v (Fin 0)) obs, ''benchmark observations must be non-negative''),
      (claimed \<and> missing_speedup_observations obs \<noteq> [],
         ''speedup claims require measured benchmark evidence: '' @ join '','' (missing_speedup_observations obs))]"

section \<open>Timestamps of a record\<close>

text \<open>A field validator that brings a timestamp to UTC, for a timestamp that may be absent.\<close>

definition utc_ok :: "pydatetime option \<Rightarrow> bool" where
  "utc_ok d = (case d of None \<Rightarrow> True | Some x \<Rightarrow> (case ensure_utc x of Inl e \<Rightarrow> False | Inr t \<Rightarrow> True))"

definition to_utc :: "pydatetime \<Rightarrow> pydatetime" where
  "to_utc x = (case ensure_utc x of Inl e \<Rightarrow> x | Inr t \<Rightarrow> Aware t 0)"

definition unit_share :: "pyfloat \<Rightarrow> bool" where
  "unit_share x \<longleftrightarrow> f_ge x (Fin 0) \<and> f_le x (Fin 1)"

definition is_digest :: "string \<Rightarrow> bool" where
  "is_digest s \<longleftrightarrow> length s = 64"

section \<open>The configuration\<close>

record run_config =
  rn_schema :: string
  rn_run_id :: "string option"
  rn_experiment :: string
  rn_trial :: int
  rn_agent :: string
  rn_output_root :: string
  rn_archive_snapshot :: string
  rn_universe_snapshot :: string
  rn_data_manifest :: string
  rn_data_hash :: string
  rn_validation_hash :: string
  rn_cost_hash :: string
  rn_validation_policy :: string
  rn_cost_model_id :: string
  rn_cost_model :: "cost_config option"
  rn_lane :: engine_lane
  rn_missing_policy :: missing_policy
  rn_equity :: pyfloat
  rn_fee_bps :: pyfloat
  rn_spread_bps :: pyfloat
  rn_spread_policy :: string
  rn_slippage_bps :: pyfloat
  rn_impact_bps :: pyfloat
  rn_notional :: pyfloat
  rn_max_participation :: pyfloat
  rn_scenarios :: "scenario list"
  rn_artifact_mode :: artifact_mode
  rn_benchmark_enabled :: bool
  rn_benchmarks :: "(string \<times> pyfloat) list"
  rn_fast_lane_policy :: string
  rn_reference_authority :: bool
  rn_audit_sample_rate :: pyfloat
  rn_speedup_claimed :: bool
  rn_require_net :: bool
  rn_lockbox_policy :: string
  rn_lockbox_start :: "pydatetime option"
  rn_lockbox_end :: "pydatetime option"
  rn_coverage_min :: pyfloat
  rn_universe_mode :: string
  rn_venue_scope :: string
  rn_git_sha :: string
  rn_environment_hash :: "string option"

definition run_config_fields :: "run_config \<Rightarrow> (bool \<times> string) list" where
  "run_config_fields c =
     [(0 \<le> rn_trial c, ''trial_index''), (rn_output_root c \<noteq> [], ''output_root''), (rn_archive_snapshot c \<noteq> [], ''archive_snapshot_id''),
      (rn_universe_snapshot c \<noteq> [], ''universe_snapshot_id''), (rn_data_manifest c \<noteq> [], ''data_manifest_id''),
      (is_digest (rn_data_hash c), ''data_manifest_hash''), (is_digest (rn_validation_hash c), ''validation_manifest_hash''),
      (is_digest (rn_cost_hash c), ''cost_manifest_hash''), (f_gt (rn_equity c) (Fin 0), ''initial_equity''),
      (f_ge (rn_fee_bps c) (Fin 0), ''fee_bps''), (f_ge (rn_spread_bps c) (Fin 0), ''spread_bps''),
      (normal_text (rn_spread_policy c) \<in> {''lenient'', ''accepted_research_strict''}, ''spread_observation_policy''),
      (f_ge (rn_slippage_bps c) (Fin 0), ''slippage_bps''), (f_ge (rn_impact_bps c) (Fin 0), ''impact_bps''),
      (f_gt (rn_notional c) (Fin 0), ''account_notional_usd''),
      (f_gt (rn_max_participation c) (Fin 0) \<and> f_le (rn_max_participation c) (Fin 1), ''max_volume_participation''),
      (unit_share (rn_audit_sample_rate c), ''reference_audit_sample_rate''), (utc_ok (rn_lockbox_start c), ''lockbox_start''),
      (utc_ok (rn_lockbox_end c), ''lockbox_end''), (unit_share (rn_coverage_min c), ''data_coverage_min''),
      (case rn_environment_hash c of None \<Rightarrow> True | Some h \<Rightarrow> is_digest h, ''environment_hash'')]"

definition normalise_run_config :: "run_config \<Rightarrow> run_config" where
  "normalise_run_config c = c\<lparr>rn_spread_policy := normal_text (rn_spread_policy c),
     rn_lockbox_start := map_option to_utc (rn_lockbox_start c), rn_lockbox_end := map_option to_utc (rn_lockbox_end c)\<rparr>"

definition validate_run_config :: "run_config \<Rightarrow> run_config result" where
  "validate_run_config c = validate_model (run_config_fields c)
     ([(case rn_cost_model c of None \<Rightarrow> False | Some m \<Rightarrow> cc_id m \<noteq> rn_cost_model_id c, ''cost_model_id must match cost_model.cost_model_id''),
       (\<not> {BASE, STRESS_2X, STRESS_3X} \<subseteq> set (rn_scenarios c), ''backtest config must include base, stress_2x, and stress_3x scenarios'')]
      @ benchmark_entries (rn_speedup_claimed c) (rn_benchmarks c)) (normalise_run_config c)"

text \<open>The cost model of a run: the configured one, or one made of the run's own figures.\<close>

definition effective_cost_model :: "run_config \<Rightarrow> cost_config result" where
  "effective_cost_model c = (case rn_cost_model c of Some m \<Rightarrow> Inr m
     | None \<Rightarrow> validate_cost_config (default_cost_config\<lparr>cc_id := rn_cost_model_id c, cc_fee_bps := rn_fee_bps c,
         cc_spread_bps := rn_spread_bps c, cc_spread_policy := rn_spread_policy c, cc_slippage_bps := rn_slippage_bps c,
         cc_impact_bps := rn_impact_bps c, cc_notional := rn_notional c, cc_max_participation := rn_max_participation c,
         cc_scenarios := rn_scenarios c\<rparr>))"

section \<open>Context and metrics\<close>

record run_context =
  cx_schema :: string
  cx_run_id :: string
  cx_experiment :: string
  cx_trial :: int
  cx_archive_snapshot :: string
  cx_universe_snapshot :: string
  cx_data_manifest :: string
  cx_validation_policy :: string
  cx_cost_model_id :: string
  cx_timeframe :: string
  cx_venue_scope :: string
  cx_universe_mode :: string
  cx_instruments :: int
  cx_start :: instant
  cx_end :: instant
  cx_lockbox_policy :: string
  cx_lockbox_start :: "pydatetime option"
  cx_lockbox_end :: "pydatetime option"
  cx_coverage_min :: pyfloat
  cx_flags :: flags

definition validate_context :: "run_context \<Rightarrow> run_context result" where
  "validate_context c = validate_model
     [(cx_run_id c \<noteq> [], ''run_id''), (cx_experiment c \<noteq> [], ''experiment_id''), (0 \<le> cx_trial c, ''trial_index''),
      (cx_archive_snapshot c \<noteq> [], ''archive_snapshot_id''), (cx_universe_snapshot c \<noteq> [], ''universe_snapshot_id''),
      (cx_data_manifest c \<noteq> [], ''data_manifest_id''), (cx_validation_policy c \<noteq> [], ''validation_policy_id''),
      (cx_cost_model_id c \<noteq> [], ''cost_model_id''), (cx_timeframe c \<noteq> [], ''timeframe''), (cx_venue_scope c \<noteq> [], ''venue_scope''),
      (cx_universe_mode c \<noteq> [], ''universe_mode''), (0 \<le> cx_instruments c, ''instrument_count''),
      (cx_lockbox_policy c \<noteq> [], ''lockbox_policy_id''), (utc_ok (cx_lockbox_start c), ''lockbox_start''),
      (utc_ok (cx_lockbox_end c), ''lockbox_end''), (unit_share (cx_coverage_min c), ''data_coverage_min'')]
     [(cx_end c \<le> cx_start c, ''backtest_end must be greater than backtest_start''), boundary_entry ''strategy context'' (cx_flags c)]
     (c\<lparr>cx_lockbox_start := map_option to_utc (cx_lockbox_start c), cx_lockbox_end := map_option to_utc (cx_lockbox_end c)\<rparr>)"

record run_metrics =
  mt_schema :: string
  mt_run_id :: string
  mt_status :: run_status
  mt_gross_return :: pyfloat
  mt_net_return :: pyfloat
  mt_gross_equity :: pyfloat
  mt_net_equity :: pyfloat
  mt_fee :: pyfloat
  mt_spread :: pyfloat
  mt_slippage :: pyfloat
  mt_impact :: pyfloat
  mt_transaction :: pyfloat
  mt_funding :: pyfloat
  mt_turnover :: pyfloat
  mt_trades :: int
  mt_positions :: int
  mt_blocked :: int
  mt_gross_only :: bool
  mt_flags :: flags

definition validate_metrics :: "run_metrics \<Rightarrow> run_metrics result" where
  "validate_metrics m = validate_model
     [(mt_run_id m \<noteq> [], ''run_id''), (f_ge (mt_fee m) (Fin 0), ''total_fee_cost''), (f_ge (mt_spread m) (Fin 0), ''total_spread_cost''),
      (f_ge (mt_slippage m) (Fin 0), ''total_slippage_cost''), (f_ge (mt_impact m) (Fin 0), ''total_impact_cost''),
      (f_ge (mt_transaction m) (Fin 0), ''total_transaction_cost''), (f_ge (mt_turnover m) (Fin 0), ''total_turnover''),
      (0 \<le> mt_trades m, ''trade_count''), (0 \<le> mt_positions m, ''position_row_count''), (0 \<le> mt_blocked m, ''capacity_blocked_count'')]
     [(mt_gross_only m, ''reported v2 backtest metrics cannot be gross-only''), boundary_entry ''backtest metrics'' (mt_flags m)] m"

section \<open>The manifest\<close>

record artifact_ref =
  af_name :: string
  af_path :: string
  af_sha :: string
  af_rows :: "int option"
  af_required :: bool

definition validate_ref :: "artifact_ref \<Rightarrow> artifact_ref result" where
  "validate_ref a = validate_model [(af_name a \<noteq> [], ''name''), (af_path a \<noteq> [], ''path''), (is_digest (af_sha a), ''sha256''),
     (case af_rows a of None \<Rightarrow> True | Some n \<Rightarrow> 0 \<le> n, ''row_count'')] [] a"

record run_manifest =
  rm_schema :: string
  rm_run_id :: string
  rm_experiment :: string
  rm_trial :: int
  rm_agent :: string
  rm_created :: instant
  rm_status :: run_status
  rm_lane :: engine_lane
  rm_strategy_lane :: string
  rm_git_sha :: string
  rm_environment_hash :: string
  rm_strategy_id :: string
  rm_strategy_version :: string
  rm_strategy_hash :: string
  rm_strategy_spec_hash :: string
  rm_params_hash :: string
  rm_archive_snapshot :: string
  rm_universe_snapshot :: string
  rm_data_manifest :: string
  rm_data_hash :: string
  rm_validation_hash :: string
  rm_cost_hash :: string
  rm_universe_mode :: string
  rm_venue_scope :: string
  rm_instruments :: int
  rm_timeframe :: string
  rm_start :: instant
  rm_end :: instant
  rm_months :: int
  rm_lockbox_policy :: string
  rm_lockbox_start :: "pydatetime option"
  rm_lockbox_end :: "pydatetime option"
  rm_coverage_min :: pyfloat
  rm_cost_model_id :: string
  rm_cost_model_hash :: string
  rm_notional :: pyfloat
  rm_validation_policy :: string
  rm_validation :: run_validation
  rm_missing_policy :: missing_policy
  rm_price_basis :: string
  rm_artifact_mode :: artifact_mode
  rm_replayable :: bool
  rm_replay_hash :: "string option"
  rm_fast_lane_policy :: string
  rm_reference_authority :: bool
  rm_audit_sample_rate :: pyfloat
  rm_speedup_claimed :: bool
  rm_benchmarks :: "(string \<times> pyfloat) list"
  rm_failure :: "string option"
  rm_metrics :: "run_metrics option"
  rm_artifacts :: "(string \<times> artifact_ref) list"
  rm_flags :: flags

definition required_artifacts :: "artifact_mode \<Rightarrow> string list" where
  "required_artifacts mode = [''strategy_spec'', ''params'', ''data_manifest'', ''validation_manifest'', ''cost_manifest'', ''metrics'', ''log''] @
     (case mode of
        FULL \<Rightarrow> [''cost_stress'', ''equity_curve'', ''daily_returns'', ''trades'', ''positions'', ''per_instrument_metrics'', ''fold_metrics'']
      | SUMMARY \<Rightarrow> [''cost_stress'', ''equity_curve'', ''daily_returns'', ''per_instrument_metrics'', ''fold_metrics'', ''replay_manifest'']
      | METRICS_ONLY \<Rightarrow> [''replay_manifest''])"

definition missing_artifacts :: "run_manifest \<Rightarrow> string list" where
  "missing_artifacts m = sorted_by id (filter (\<lambda>a. a \<notin> set (map fst (rm_artifacts m))) (required_artifacts (rm_artifact_mode m)))"

definition manifest_texts :: "run_manifest \<Rightarrow> (string \<times> string) list" where
  "manifest_texts m = [(rm_run_id m, ''run_id''), (rm_experiment m, ''experiment_id''), (rm_agent m, ''agent_or_user''), (rm_git_sha m, ''git_sha''),
     (rm_strategy_id m, ''strategy_id''), (rm_strategy_version m, ''strategy_version''), (rm_archive_snapshot m, ''archive_snapshot_id''),
     (rm_universe_snapshot m, ''universe_snapshot_id''), (rm_data_manifest m, ''data_manifest_id''), (rm_universe_mode m, ''universe_mode''),
     (rm_venue_scope m, ''venue_scope''), (rm_timeframe m, ''timeframe''), (rm_lockbox_policy m, ''lockbox_policy_id''),
     (rm_cost_model_id m, ''cost_model_id''), (rm_validation_policy m, ''validation_policy_id''), (rm_price_basis m, ''price_basis'')]"

definition manifest_digests :: "run_manifest \<Rightarrow> (string \<times> string) list" where
  "manifest_digests m = [(rm_environment_hash m, ''environment_hash''), (rm_strategy_hash m, ''strategy_hash''),
     (rm_strategy_spec_hash m, ''strategy_spec_hash''), (rm_params_hash m, ''params_hash''), (rm_data_hash m, ''data_manifest_hash''),
     (rm_validation_hash m, ''validation_manifest_hash''), (rm_cost_hash m, ''cost_manifest_hash''), (rm_cost_model_hash m, ''cost_model_hash'')]"

text \<open>The field errors are named by kind of constraint: texts, digests, then numbers.\<close>

definition manifest_fields :: "run_manifest \<Rightarrow> (bool \<times> string) list" where
  "manifest_fields m = map (\<lambda>(s, f). (s \<noteq> [], f)) (manifest_texts m) @ map (\<lambda>(s, f). (is_digest s, f)) (manifest_digests m) @
     [(0 \<le> rm_trial m, ''trial_index''), (0 \<le> rm_instruments m, ''instrument_count''), (0 \<le> rm_months m, ''usable_months''),
      (utc_ok (rm_lockbox_start m), ''lockbox_start''), (utc_ok (rm_lockbox_end m), ''lockbox_end''),
      (unit_share (rm_coverage_min m), ''data_coverage_min''), (f_gt (rm_notional m) (Fin 0), ''account_notional_usd''),
      (case rm_replay_hash m of None \<Rightarrow> True | Some h \<Rightarrow> is_digest h, ''replay_identity_hash''),
      (unit_share (rm_audit_sample_rate m), ''reference_audit_sample_rate'')]"

definition validate_manifest :: "run_manifest \<Rightarrow> run_manifest result" where
  "validate_manifest m = validate_model (manifest_fields m)
     ([(rm_end m \<le> rm_start m, ''backtest_end must be greater than backtest_start''),
       (rm_status m = RUN_FAILED \<and> (case rm_failure m of None \<Rightarrow> True | Some s \<Rightarrow> s = []), ''failed run manifests require failure_reason''),
       (rm_status m = RUN_SUCCEEDED \<and> rm_metrics m = None, ''succeeded run manifests require metrics'')]
      @ benchmark_entries (rm_speedup_claimed m) (rm_benchmarks m) @
      [boundary_entry ''run manifest'' (rm_flags m),
       (missing_artifacts m \<noteq> [], ''run manifest missing artifact refs: '' @ join '','' (missing_artifacts m))])
     (m\<lparr>rm_lockbox_start := map_option to_utc (rm_lockbox_start m), rm_lockbox_end := map_option to_utc (rm_lockbox_end m)\<rparr>)"

end
