(* ===== verification/PyMath.thy ===== *)
theory PyMath
  imports PyFloat
begin

text \<open>
  The functions of \<open>math\<close> and the built-in aggregates on doubles that the strategy compiler and the
  backtest engine use: \<open>sqrt\<close>, \<open>ceil\<close>, squares, \<open>sum\<close> (left to right, as CPython 3.11 adds) and \<open>max\<close>
  and \<open>min\<close> of a non-empty sequence.
\<close>

section \<open>Square roots\<close>

fun isqrt :: "nat \<Rightarrow> nat" where
  "isqrt n = (if n = 0 then 0 else let r = 2 * isqrt (n div 4) in if (r + 1) ^ 2 \<le> n then r + 1 else r)"

declare isqrt.simps [simp del]

text \<open>
  The correctly rounded root: the argument is scaled by a power of four until its integer root has
  more than 54 bits, and a last bit records whether anything was cut off.
\<close>

definition sqrt_shift :: "rat \<Rightarrow> int" where
  "sqrt_shift a = (112 - ilog2 a) div 2"

definition sqrt_root :: "rat \<Rightarrow> nat" where
  "sqrt_root a = isqrt (nat \<lfloor>a * pow2 (2 * sqrt_shift a)\<rfloor>)"

definition sqrt_sticky :: "rat \<Rightarrow> rat" where
  "sqrt_sticky a = (let r = sqrt_root a in
     (of_nat r + (if of_nat (r ^ 2) = a * pow2 (2 * sqrt_shift a) then 0 else 1 / 2)) * pow2 (- sqrt_shift a))"

fun f_sqrt :: "pyfloat \<Rightarrow> pyfloat result" where
  "f_sqrt (Fin a) = (if a < 0 then Inl (ValueError ''math domain error'')
     else if a = 0 then Inr (Fin 0) else Inr (fl (sqrt_sticky a)))"
| "f_sqrt PInf = Inr PInf"
| "f_sqrt NInf = Inl (ValueError ''math domain error'')"
| "f_sqrt NaN = Inr NaN"

lemma isqrt_spec: "isqrt n ^ 2 \<le> n \<and> n < (isqrt n + 1) ^ 2"
proof (induction n rule: isqrt.induct)
  case (1 n)
  show ?case
  proof (cases "n = 0")
    case False
    define q where "q = isqrt (n div 4)"
    have "q ^ 2 \<le> n div 4 \<and> n div 4 < (q + 1) ^ 2" using 1 [OF False] by (simp add: q_def)
    then have "4 * q ^ 2 \<le> n" "n < 4 * (q + 1) ^ 2" by linarith+
    then have "(2 * q) ^ 2 \<le> n" "n < (2 * q + 2) ^ 2" by (simp_all add: power2_eq_square algebra_simps)
    then show ?thesis using False by (subst (1 2) isqrt.simps) (simp add: Let_def q_def [symmetric])
  qed (simp add: isqrt.simps)
qed

lemma isqrt_unique: "r ^ 2 \<le> n \<Longrightarrow> n < (r + 1) ^ 2 \<Longrightarrow> isqrt n = r"
proof -
  assume r: "r ^ 2 \<le> n" "n < (r + 1) ^ 2"
  have "isqrt n ^ 2 < (r + 1) ^ 2" "r ^ 2 < (isqrt n + 1) ^ 2" using isqrt_spec [of n] r by linarith+
  then have "isqrt n < r + 1" "r < isqrt n + 1" by (simp_all only: power2_less_imp_less zero_le)
  then show ?thesis by linarith
qed

section \<open>Other functions\<close>

text \<open>\<open>x ** 2\<close> overflows where \<open>x * x\<close> would be infinite.\<close>

definition f_square :: "pyfloat \<Rightarrow> pyfloat result" where
  "f_square x = (let y = f_mul x x in
     if isfinite x \<and> \<not> isfinite y then Inl (OverflowError ''Numerical result out of range'') else Inr y)"

fun f_ceil :: "pyfloat \<Rightarrow> int result" where
  "f_ceil (Fin a) = Inr \<lceil>a\<rceil>"
| "f_ceil NaN = Inl (ValueError ''cannot convert float NaN to integer'')"
| "f_ceil x = Inl (OverflowError ''cannot convert float infinity to integer'')"

definition f_sum :: "pyfloat list \<Rightarrow> pyfloat" where
  "f_sum xs = foldl f_add (Fin 0) xs"

fun f_maximum :: "pyfloat list \<Rightarrow> pyfloat result" where
  "f_maximum [] = Inl (ValueError ''max() arg is an empty sequence'')"
| "f_maximum (x # xs) = Inr (foldl f_max x xs)"

fun f_minimum :: "pyfloat list \<Rightarrow> pyfloat result" where
  "f_minimum [] = Inl (ValueError ''min() arg is an empty sequence'')"
| "f_minimum (x # xs) = Inr (foldl f_min x xs)"

text \<open>\<open>sum(xs) / len(xs)\<close>\<close>

definition f_mean :: "pyfloat list \<Rightarrow> pyfloat result" where
  "f_mean xs = bindE (float_of_int (int (length xs))) (\<lambda>n. f_div (f_sum xs) n)"

text \<open>The population variance around the mean, as \<open>sum((x - mean) ** 2 for x in xs) / len(xs)\<close>.\<close>

definition f_variance :: "pyfloat list \<Rightarrow> pyfloat \<Rightarrow> pyfloat result" where
  "f_variance xs mean = bindE (mapE (\<lambda>x. f_square (f_sub x mean)) xs) (\<lambda>ys.
     bindE (float_of_int (int (length xs))) (\<lambda>n. f_div (f_sum ys) n))"

lemma f_sqrt_nonneg: "f_sqrt x = Inr y \<Longrightarrow> y = NaN \<or> f_ge y (Fin 0)"
proof (cases x)
  case (Fin a)
  assume s: "f_sqrt x = Inr y"
  show ?thesis
  proof (cases "0 < a")
    case True
    have "0 \<le> sqrt_sticky a" by (simp add: sqrt_sticky_def Let_def pow2_def)
    then have "0 \<le> round53 (sqrt_sticky a)" by (rule fl53.rnd_nonneg)
    then show ?thesis using s True Fin by (auto simp: fl_def Let_def f_le_def pow2_def split: if_splits)
  qed (use s Fin in \<open>auto split: if_splits\<close>)
qed (auto simp: f_le_def)

end
