(* ===== verification/StrategySpec.thy ===== *)
theory StrategySpec
  imports QualityModels PyMath
begin

text \<open>
  \<open>strategy_specs/registry.py\<close>, \<open>schemas.py\<close>, \<open>validator.py\<close>: the declarative strategy specification
  with its validators, its digest, the scan for side effects, and the rows of a signal frame.  A
  frozenset of tokens has no order of its own: where the code names the first token found, the model
  names the first one in the order the source lists them.
\<close>

section \<open>Registry\<close>

datatype signal_type = CROSS_SECTIONAL_RANK | MEAN_REVERSION | FUNDING_CARRY | VOLATILITY_BREAKOUT
  | VOL_ADJUSTED_TREND | LIQUIDITY_FILTERED

fun signal_type_value :: "signal_type \<Rightarrow> string" where
  "signal_type_value CROSS_SECTIONAL_RANK = ''cross_sectional_rank''"
| "signal_type_value MEAN_REVERSION = ''mean_reversion''"
| "signal_type_value FUNDING_CARRY = ''funding_carry''"
| "signal_type_value VOLATILITY_BREAKOUT = ''volatility_breakout''"
| "signal_type_value VOL_ADJUSTED_TREND = ''vol_adjusted_trend''"
| "signal_type_value LIQUIDITY_FILTERED = ''liquidity_filtered''"

datatype price_basis = CLOSE | NEXT_BAR_OPEN | MARK | ORACLE

fun price_basis_value :: "price_basis \<Rightarrow> string" where
  "price_basis_value CLOSE = ''close''"
| "price_basis_value NEXT_BAR_OPEN = ''next_bar_open''"
| "price_basis_value MARK = ''mark''"
| "price_basis_value ORACLE = ''oracle''"

datatype spec_universe = AS_OF | CURRENT

fun spec_universe_value :: "spec_universe \<Rightarrow> string" where
  "spec_universe_value AS_OF = ''as_of''"
| "spec_universe_value CURRENT = ''current''"

datatype spec_evidence = ACCEPTED_RESEARCH | REPORTED_EVIDENCE | SANDBOX_DIAGNOSTIC

fun spec_evidence_value :: "spec_evidence \<Rightarrow> string" where
  "spec_evidence_value ACCEPTED_RESEARCH = ''accepted_research''"
| "spec_evidence_value REPORTED_EVIDENCE = ''reported_evidence''"
| "spec_evidence_value SANDBOX_DIAGNOSTIC = ''sandbox_diagnostic''"

definition SUPPORTED_INPUT_FIELDS :: "string list" where
  "SUPPORTED_INPUT_FIELDS = [''ts'', ''instrument_id'', ''open'', ''high'', ''low'', ''close'', ''volume'', ''trade_count'', ''funding'',
     ''funding_rate'', ''open_interest'', ''mark_price'', ''oracle_price'', ''spread'', ''coverage_ratio'']"

definition SUPPORTED_RANK_METRICS :: "string list" where
  "SUPPORTED_RANK_METRICS = [''return'', ''funding'', ''volume'', ''volatility'']"

definition SUPPORTED_FILTERS :: "string list" where
  "SUPPORTED_FILTERS = [''min_coverage'', ''max_funding_abs'', ''min_volume'', ''min_open_interest'', ''max_spread'']"

definition SUPPORTED_FEE_MODELS :: "string list" where
  "SUPPORTED_FEE_MODELS = [''conservative_hyperliquid_taker_v1'', ''conservative_perp_taker_v1'', ''v2_conservative_costs_v1'']"

definition SUPPORTED_SLIPPAGE_MODELS :: "string list" where
  "SUPPORTED_SLIPPAGE_MODELS = [''volume_participation_v1'', ''conservative_bps_v1'']"

fun required_fields :: "signal_type \<Rightarrow> string list" where
  "required_fields FUNDING_CARRY = [''funding'']"
| "required_fields LIQUIDITY_FILTERED = [''close'', ''volume'']"
| "required_fields s = [''close'']"

fun rank_metrics :: "signal_type \<Rightarrow> string list" where
  "rank_metrics CROSS_SECTIONAL_RANK = SUPPORTED_RANK_METRICS"
| "rank_metrics LIQUIDITY_FILTERED = SUPPORTED_RANK_METRICS"
| "rank_metrics FUNDING_CARRY = [''funding'']"
| "rank_metrics MEAN_REVERSION = [''return'', ''volatility'']"
| "rank_metrics VOLATILITY_BREAKOUT = [''return'', ''volatility'']"
| "rank_metrics VOL_ADJUSTED_TREND = [''return_over_volatility'', ''breakout_over_atr'']"

definition FORBIDDEN_KEY_TOKENS :: "string list" where
  "FORBIDDEN_KEY_TOKENS = [''api_key'', ''credential'', ''secret'', ''token'', ''private_key'', ''password'', ''wallet'', ''network'', ''url'',
     ''uri'', ''http'', ''https'', ''file'', ''path'', ''python'', ''import'', ''exec'', ''eval'', ''subprocess'', ''shell'', ''socket'', ''request'',
     ''live'', ''paper'', ''order'', ''sizing'', ''runtime'', ''account'', ''lockbox'']"

definition FORBIDDEN_VALUE_TOKENS :: "string list" where
  "FORBIDDEN_VALUE_TOKENS = [''http://'', ''https://'', ''file://'', ''../'', ''..'' @ [CHR 0x5C], ''.env'', ''import '', ''eval('', ''exec('',
     ''subprocess'', ''socket.'', ''requests.'', ''open('', ''lambda '', ''__import__'', ''os.'', ''sys.'', ''python:'', ''live'', ''paper'',
     ''place_order'', ''submit_order'', ''order_placement'', ''sizing_instruction'', ''runtime_mode'', ''private_key'', ''api_key'',
     ''credential'', ''secret'']"

section \<open>The parts of a specification\<close>

record market_scope =
  ms_venue :: string
  ms_type :: string
  ms_universe_rule :: string

definition validate_market_scope :: "market_scope \<Rightarrow> market_scope result" where
  "validate_market_scope m = validate_model [(ms_venue m \<noteq> [], ''venue''), (ms_universe_rule m \<noteq> [], ''universe_rule'')] [] m"

record strategy_inputs =
  si_timeframe :: string
  si_fields :: "string list"

definition validate_inputs :: "strategy_inputs \<Rightarrow> strategy_inputs result" where
  "validate_inputs i = validate_model [(si_timeframe i \<noteq> [], ''timeframe''),
     (si_fields i \<noteq> [] \<and> set (si_fields i) \<subseteq> set SUPPORTED_INPUT_FIELDS, ''fields'')] [] (i\<lparr>si_fields := uniq (si_fields i)\<rparr>)"

record strategy_logic =
  sl_type :: signal_type
  sl_bars :: "int option"
  sl_hours :: "int option"
  sl_metric :: "string option"
  sl_direction :: string
  sl_long :: "pyfloat option"
  sl_short :: "pyfloat option"
  sl_entry :: "pyfloat option"
  sl_exit :: "pyfloat option"
  sl_filters :: pyrow

definition opt_check :: "('a \<Rightarrow> bool) \<Rightarrow> 'a option \<Rightarrow> bool" where
  "opt_check P x = (case x of None \<Rightarrow> True | Some v \<Rightarrow> P v)"

definition in_quantile :: "pyfloat \<Rightarrow> bool" where
  "in_quantile q \<longleftrightarrow> f_gt q (Fin 0) \<and> f_le q (Fin (1 / 2))"

definition rank_types :: "signal_type list" where
  "rank_types = [CROSS_SECTIONAL_RANK, LIQUIDITY_FILTERED]"

definition validate_logic :: "strategy_logic \<Rightarrow> strategy_logic result" where
  "validate_logic l =
     (let l' = l\<lparr>sl_direction := lower (strip (sl_direction l))\<rparr>; invalid = sorted_by id (filter (\<lambda>f. f \<notin> set SUPPORTED_FILTERS) (uniq (map fst (sl_filters l)))) in
      validate_model
        [(opt_check (\<lambda>n. n \<ge> 1) (sl_bars l), ''lookback_bars''), (opt_check (\<lambda>n. n \<ge> 1) (sl_hours l), ''lookback_hours''),
         (sl_direction l' \<in> {''momentum'', ''reversion''}, ''rank_direction''), (opt_check in_quantile (sl_long l), ''long_top_quantile''),
         (opt_check in_quantile (sl_short l), ''short_bottom_quantile''), (opt_check (\<lambda>x. f_ge x (Fin 0)) (sl_entry l), ''entry_threshold''),
         (opt_check (\<lambda>x. f_ge x (Fin 0)) (sl_exit l), ''exit_threshold'')]
        [(sl_bars l' = None \<and> sl_hours l' = None, ''logic requires lookback_bars or lookback_hours''),
         (\<not> opt_check (\<lambda>m. m \<in> set (rank_metrics (sl_type l'))) (sl_metric l'),
            ''unsupported rank_metric for '' @ signal_type_value (sl_type l') @ '': '' @ (case sl_metric l' of None \<Rightarrow> [] | Some m \<Rightarrow> m)),
         (invalid \<noteq> [], ''unsupported filters: '' @ join '','' invalid),
         (sl_type l' \<in> set rank_types \<and> sl_long l' = None \<and> sl_short l' = None,
            ''rank strategies require long_top_quantile or short_bottom_quantile'')] l')"

record risk_config =
  rc_leverage :: pyfloat
  rc_weight :: pyfloat
  rc_rebalance :: string

definition validate_risk :: "risk_config \<Rightarrow> risk_config result" where
  "validate_risk r = validate_model
     [(f_gt (rc_leverage r) (Fin 0) \<and> f_le (rc_leverage r) (Fin 3), ''max_gross_leverage''),
      (f_gt (rc_weight r) (Fin 0) \<and> f_le (rc_weight r) (Fin 1), ''max_instrument_weight''), (rc_rebalance r \<noteq> [], ''rebalance'')] [] r"

record execution_config =
  ec_basis :: price_basis
  ec_fee_model :: string
  ec_slippage_model :: string

definition validate_execution :: "execution_config \<Rightarrow> execution_config result" where
  "validate_execution e = validate_model [(ec_fee_model e \<noteq> [], ''fee_model''), (ec_slippage_model e \<noteq> [], ''slippage_model'')]
     [(ec_fee_model e \<notin> set SUPPORTED_FEE_MODELS, ''unsupported fee_model: '' @ ec_fee_model e),
      (ec_slippage_model e \<notin> set SUPPORTED_SLIPPAGE_MODELS, ''unsupported slippage_model: '' @ ec_slippage_model e)] e"

record strategy_validation =
  sv_months :: int
  sv_earliest :: pydate
  sv_exclude_lockbox :: bool
  sv_universe :: spec_universe
  sv_evidence :: spec_evidence

definition validate_strategy_validation :: "strategy_validation \<Rightarrow> strategy_validation result" where
  "validate_strategy_validation v = validate_model [(sv_months v \<ge> 6, ''min_backtest_months'')]
     [(sv_earliest v < (2024, 1, 1), ''validation.earliest_start cannot be before 2024-01-01''),
      (\<not> sv_exclude_lockbox v, ''validation.exclude_lockbox must be true''),
      (sv_evidence v \<noteq> SANDBOX_DIAGNOSTIC \<and> sv_universe v \<noteq> AS_OF, ''accepted/reported strategy specs require as_of universe'')] v"

section \<open>The specification\<close>

record strategy_spec =
  sp_schema :: string
  sp_id :: string
  sp_family :: string
  sp_version :: string
  sp_owner :: string
  sp_flags :: flags
  sp_scope :: market_scope
  sp_inputs :: strategy_inputs
  sp_logic :: strategy_logic
  sp_risk :: risk_config
  sp_execution :: execution_config
  sp_validation :: strategy_validation
  sp_parameters :: "(string \<times> json) list"
  sp_metadata :: "(string \<times> json) list"

fun json_of_number :: "pyval \<Rightarrow> json" where
  "json_of_number (VBool b) = JBool b"
| "json_of_number (VInt i) = JInt i"
| "json_of_number (VFloat x) = JFloat x"
| "json_of_number v = JNull"

definition opt_int_json :: "int option \<Rightarrow> json" where
  "opt_int_json x = (case x of None \<Rightarrow> JNull | Some v \<Rightarrow> JInt v)"

definition opt_float_value :: "pyfloat option \<Rightarrow> json" where
  "opt_float_value x = (case x of None \<Rightarrow> JNull | Some v \<Rightarrow> JFloat v)"

definition flags_json :: "flags \<Rightarrow> (string \<times> json) list" where
  "flags_json f = map (\<lambda>(k, v). (k, JBool (truthy v))) (flags_payload f)"

definition logic_json :: "strategy_logic \<Rightarrow> (string \<times> json) list" where
  "logic_json l = [(''signal_type'', JStr (signal_type_value (sl_type l))), (''lookback_bars'', opt_int_json (sl_bars l)),
     (''lookback_hours'', opt_int_json (sl_hours l)), (''rank_metric'', opt_json (sl_metric l)), (''rank_direction'', JStr (sl_direction l)),
     (''long_top_quantile'', opt_float_value (sl_long l)), (''short_bottom_quantile'', opt_float_value (sl_short l)),
     (''entry_threshold'', opt_float_value (sl_entry l)), (''exit_threshold'', opt_float_value (sl_exit l)),
     (''filters'', JObj (map (\<lambda>(k, v). (k, json_of_number v)) (sl_filters l)))]"

text \<open>\<open>model_dump(mode="json")\<close>\<close>

definition spec_json :: "strategy_spec \<Rightarrow> (string \<times> json) list" where
  "spec_json s = [(''schema_version'', JStr (sp_schema s)), (''strategy_id'', JStr (sp_id s)), (''strategy_family'', JStr (sp_family s)),
     (''version'', JStr (sp_version s)), (''owner'', JStr (sp_owner s))] @ flags_json (sp_flags s) @
     [(''market_scope'', JObj [(''venue'', JStr (ms_venue (sp_scope s))), (''market_type'', JStr (ms_type (sp_scope s))),
        (''universe_rule'', JStr (ms_universe_rule (sp_scope s)))]),
      (''inputs'', JObj [(''timeframe'', JStr (si_timeframe (sp_inputs s))), (''fields'', JList (map JStr (si_fields (sp_inputs s))))]),
      (''logic'', JObj (logic_json (sp_logic s))),
      (''risk'', JObj [(''max_gross_leverage'', JFloat (rc_leverage (sp_risk s))), (''max_instrument_weight'', JFloat (rc_weight (sp_risk s))),
        (''rebalance'', JStr (rc_rebalance (sp_risk s)))]),
      (''execution'', JObj [(''price_basis'', JStr (price_basis_value (ec_basis (sp_execution s)))), (''fee_model'', JStr (ec_fee_model (sp_execution s))),
        (''slippage_model'', JStr (ec_slippage_model (sp_execution s)))]),
      (''validation'', JObj [(''min_backtest_months'', JInt (sv_months (sp_validation s))),
        (''earliest_start'', JStr (date_isoformat (sv_earliest (sp_validation s)))), (''exclude_lockbox'', JBool (sv_exclude_lockbox (sp_validation s))),
        (''universe_mode'', JStr (spec_universe_value (sv_universe (sp_validation s)))),
        (''evidence_mode'', JStr (spec_evidence_value (sv_evidence (sp_validation s))))]),
      (''parameters'', JObj (sp_parameters s)), (''metadata'', JObj (sp_metadata s))]"

definition strategy_spec_hash :: "strategy_spec \<Rightarrow> string result" where
  "strategy_spec_hash s = canonical_json_hash (JObj (filter (\<lambda>(k, v). k \<noteq> ''metadata'') (spec_json s)))"

subsection \<open>The scan for side effects\<close>

definition SIDE_EFFECT_SCAN_KEY_ALLOWLIST :: "string list" where
  "SIDE_EFFECT_SCAN_KEY_ALLOWLIST = map fst RESEARCH_BOUNDARY @ [''exclude_lockbox'', ''execution'']"

definition key_markers :: "string \<Rightarrow> string \<Rightarrow> string list" where
  "key_markers path key = (if lower key \<in> set SIDE_EFFECT_SCAN_KEY_ALLOWLIST then []
     else case find (\<lambda>token. contains token (lower key)) FORBIDDEN_KEY_TOKENS of
       None \<Rightarrow> [] | Some token \<Rightarrow> [path @ ''.'' @ key @ '':forbidden_key_'' @ token])"

definition value_markers :: "string \<Rightarrow> string \<Rightarrow> string list" where
  "value_markers path text = map (\<lambda>token. path @ '':forbidden_value_'' @ token)
     (filter (\<lambda>token. contains token (lower text)) FORBIDDEN_VALUE_TOKENS)"

function find_side_effect_markers :: "json \<Rightarrow> string \<Rightarrow> string list" where
  "find_side_effect_markers (JObj kvs) path =
     uniq (concat (map (\<lambda>kv. key_markers path (fst kv) @ find_side_effect_markers (snd kv) (path @ ''.'' @ fst kv)) kvs))"
| "find_side_effect_markers (JList xs) path =
     uniq (concat (map (\<lambda>(i, x). find_side_effect_markers x (path @ ''['' @ string_of_nat i @ '']'')) (zip [0..<length xs] xs)))"
| "find_side_effect_markers (JStr s) path = uniq (value_markers path s)"
| "find_side_effect_markers JNull path = []"
| "find_side_effect_markers (JBool b) path = []"
| "find_side_effect_markers (JInt i) path = []"
| "find_side_effect_markers (JFloat x) path = []"
  by pat_completeness auto

termination
  by (relation "measure (\<lambda>(v, path). size v)") (auto simp: less_Suc_eq_le dest: size_zip_member size_pair_member)

subsection \<open>Validation\<close>

definition strategy_id_ok :: "string \<Rightarrow> bool" where
  "strategy_id_ok s = (case s of [] \<Rightarrow> False
     | c # cs \<Rightarrow> CHR ''a'' \<le> c \<and> c \<le> CHR ''z'' \<and> 2 \<le> length cs \<and> length cs \<le> 80 \<and>
         list_all (\<lambda>d. (CHR ''a'' \<le> d \<and> d \<le> CHR ''z'') \<or> (CHR ''0'' \<le> d \<and> d \<le> CHR ''9'') \<or> d = CHR ''_'') cs)"

definition missing_inputs :: "strategy_spec \<Rightarrow> string list" where
  "missing_inputs s =
     (let fields = si_fields (sp_inputs s); typ = sl_type (sp_logic s);
          required = (if typ = FUNDING_CARRY \<and> ''funding'' \<notin> set fields \<and> ''funding_rate'' \<in> set fields then [''funding_rate''] else required_fields typ);
          missing = sorted_by id (filter (\<lambda>f. f \<notin> set fields) required) in
      if typ = VOL_ADJUSTED_TREND \<and> sl_metric (sp_logic s) = Some ''breakout_over_atr''
      then sorted_by id (uniq (missing @ filter (\<lambda>f. f \<notin> set fields) [''high'', ''low''])) else missing)"

definition STRATEGY_SPEC_SCHEMA_VERSION :: string where
  "STRATEGY_SPEC_SCHEMA_VERSION = ''strategy_spec_v1''"

text \<open>The validated parts are collected first; a part that fails names its field.\<close>

definition part_ok :: "'a result \<Rightarrow> bool" where
  "part_ok r = (case r of Inl e \<Rightarrow> False | Inr x \<Rightarrow> True)"

definition part_of :: "'a \<Rightarrow> 'a result \<Rightarrow> 'a" where
  "part_of x r = (case r of Inl e \<Rightarrow> x | Inr y \<Rightarrow> y)"

definition validate_spec :: "strategy_spec \<Rightarrow> strategy_spec result" where
  "validate_spec s =
     (let s' = s\<lparr>sp_inputs := part_of (sp_inputs s) (validate_inputs (sp_inputs s)), sp_logic := part_of (sp_logic s) (validate_logic (sp_logic s))\<rparr>;
          missing = missing_inputs s'; markers = find_side_effect_markers (JObj (spec_json s')) ''$'' in
      validate_model
        [(sp_schema s = STRATEGY_SPEC_SCHEMA_VERSION, ''schema_version''), (strategy_id_ok (sp_id s), ''strategy_id''),
         (sp_family s \<noteq> [], ''strategy_family''), (sp_version s \<noteq> [], ''version''), (sp_owner s \<noteq> [], ''owner''),
         (part_ok (validate_market_scope (sp_scope s)), ''market_scope''), (part_ok (validate_inputs (sp_inputs s)), ''inputs''),
         (part_ok (validate_logic (sp_logic s)), ''logic''), (part_ok (validate_risk (sp_risk s)), ''risk''),
         (part_ok (validate_execution (sp_execution s)), ''execution''), (part_ok (validate_strategy_validation (sp_validation s)), ''validation'')]
        [boundary_entry ''strategy spec'' (sp_flags s'),
         (missing \<noteq> [], signal_type_value (sl_type (sp_logic s')) @ '' requires input fields: '' @ join '','' missing),
         (markers \<noteq> [], ''forbidden strategy side-effect content: '' @ join '','' markers)] s')"

section \<open>Signals\<close>

record signal_row =
  sr_strategy :: string
  sr_spec_hash :: string
  sr_ts :: instant
  sr_instrument :: string
  sr_signal :: pyfloat
  sr_weight :: pyfloat
  sr_side :: string
  sr_score :: "pyfloat option"
  sr_reason :: string
  sr_flags :: flags

definition in_unit_range :: "pyfloat \<Rightarrow> bool" where
  "in_unit_range x \<longleftrightarrow> f_ge x (Fin (-1)) \<and> f_le x (Fin 1)"

definition validate_signal_row :: "signal_row \<Rightarrow> signal_row result" where
  "validate_signal_row r = validate_model
     [(sr_strategy r \<noteq> [], ''strategy_id''), (length (sr_spec_hash r) = 64, ''spec_hash''), (sr_instrument r \<noteq> [], ''instrument_id''),
      (in_unit_range (sr_signal r), ''signal''), (in_unit_range (sr_weight r), ''target_weight''), (sr_reason r \<noteq> [], ''reason'')]
     [boundary_entry ''signal row'' (sr_flags r)] r"

record signal_frame =
  sf_strategy :: string
  sf_spec_hash :: string
  sf_rows :: "signal_row list"
  sf_row_count :: int
  sf_flags :: flags

definition validate_frame :: "signal_frame \<Rightarrow> signal_frame result" where
  "validate_frame f = validate_model
     [(sf_strategy f \<noteq> [], ''strategy_id''), (length (sf_spec_hash f) = 64, ''spec_hash''), (sf_row_count f \<ge> 0, ''row_count'')]
     [(sf_row_count f \<noteq> int (length (sf_rows f)), ''row_count must equal number of signal rows''),
      boundary_entry ''signal frame'' (sf_flags f)] f"

end
