(* ===== verification/Signals.thy ===== *)
theory Signals
  imports StrategySpec
begin

text \<open>
  \<open>strategy_specs/compiler.py\<close>: a panel of rows becomes a frame of signals.  Each row gets its index in
  the history of its instrument; every score reads the row and earlier rows of that history only.
  Reading a number from text is a parameter, as is \<open>int\<close> of a text among the parameters of a
  specification.  \<open>x ** 2\<close> is the rounded square and \<open>sum\<close> adds from left to right.
\<close>

section \<open>The panel\<close>

record senv =
  base_env :: pyenv
  int_of_text :: "string \<Rightarrow> int result"

record prow =
  pr_raw :: pyrow
  pr_ts :: instant
  pr_instrument :: string
  pr_index :: int

definition missing_fields :: "strategy_spec \<Rightarrow> pyrow \<Rightarrow> string list" where
  "missing_fields spec row =
     sorted_by id (filter (\<lambda>f. map_of row f = None) (uniq ([''ts'', ''instrument_id''] @ si_fields (sp_inputs spec))))"

definition normalize_row :: "senv \<Rightarrow> strategy_spec \<Rightarrow> nat \<times> pyrow \<Rightarrow> prow result" where
  "normalize_row env spec ir = (case ir of (i, row) \<Rightarrow>
     bindE (guardE (missing_fields spec row = []) (ValueError (''panel row '' @ string_of_nat i @ '' missing fields: '' @ join '','' (missing_fields spec row)))) (\<lambda>_.
     bindE (parse_timestamp (base_env env) (row_get row ''ts'')) (\<lambda>ts.
     Inr \<lparr>pr_raw = row, pr_ts = ts, pr_instrument = py_str (row_get row ''instrument_id''), pr_index = -1\<rparr>)))"

definition row_key :: "prow \<Rightarrow> instant \<times> string" where
  "row_key r = (pr_ts r, pr_instrument r)"

definition normalize_panel_rows :: "senv \<Rightarrow> strategy_spec \<Rightarrow> pyrow list \<Rightarrow> prow list result" where
  "normalize_panel_rows env spec rows = bindE (mapE (normalize_row env spec) (zip [0..<length rows] rows)) (\<lambda>ps. Inr (sorted_by row_key ps))"

text \<open>
  Each row object gets its place among the rows of its instrument in the order of time; the rows are
  sorted by time already, so that place is the number of earlier rows with the instrument.
\<close>

fun number_rows :: "string list \<Rightarrow> prow list \<Rightarrow> prow list" where
  "number_rows seen [] = []"
| "number_rows seen (r # rs) =
     r\<lparr>pr_index := int (length (filter (\<lambda>i. i = pr_instrument r) seen))\<rparr> # number_rows (pr_instrument r # seen) rs"

definition history_of :: "prow list \<Rightarrow> string \<Rightarrow> prow list" where
  "history_of rows instrument = sorted_by pr_ts (filter (\<lambda>r. pr_instrument r = instrument) rows)"

definition prior_rows :: "prow \<Rightarrow> prow list \<Rightarrow> int \<Rightarrow> prow list" where
  "prior_rows row history lookback =
     (if pr_index row \<ge> 0 then drop (nat (max 0 (pr_index row - lookback))) (take (nat (pr_index row)) history)
      else let prior = filter (\<lambda>h. pr_ts h < pr_ts row) history in drop (length prior - nat lookback) prior)"

section \<open>Parameters\<close>

definition digit_1_9 :: "char \<Rightarrow> bool" where
  "digit_1_9 c \<longleftrightarrow> CHR ''1'' \<le> c \<and> c \<le> CHR ''9''"

definition digit_0_9 :: "char \<Rightarrow> bool" where
  "digit_0_9 c \<longleftrightarrow> CHR ''0'' \<le> c \<and> c \<le> CHR ''9''"

definition int_of_decimal :: "string \<Rightarrow> int" where
  "int_of_decimal s = foldl (\<lambda>n c. 10 * n + (of_char c - 48)) 0 s"

definition timeframe_hours :: "string \<Rightarrow> pyfloat result" where
  "timeframe_hours s =
     (if s \<noteq> [] \<and> last s \<in> set ''mhd'' \<and> butlast s \<noteq> [] \<and> digit_1_9 (hd s) \<and> list_all digit_0_9 (butlast s) then
        let n = int_of_decimal (butlast s) in
        if last s = CHR ''m'' then int_truediv n 60
        else if last s = CHR ''h'' then float_of_int n else float_of_int (n * 24)
      else Inl (ValueError (''unsupported strategy timeframe: '' @ s)))"

definition lookback_bars :: "strategy_spec \<Rightarrow> int result" where
  "lookback_bars spec = (case sl_bars (sp_logic spec) of Some n \<Rightarrow> Inr n
     | None \<Rightarrow> (case sl_hours (sp_logic spec) of None \<Rightarrow> Inl (RuntimeError ''AssertionError'')
        | Some hours \<Rightarrow> bindE (timeframe_hours (si_timeframe (sp_inputs spec))) (\<lambda>step.
            bindE (float_of_int hours) (\<lambda>h. bindE (f_div h step) (\<lambda>q. bindE (int_of_float q) (\<lambda>n. Inr (max 1 n)))))))"

text \<open>\<open>int(raw)\<close> and \<open>float(raw)\<close> of a parameter; a parameter that is no number counts as missing.\<close>

fun param_int_value :: "senv \<Rightarrow> json \<Rightarrow> int result" where
  "param_int_value env (JInt i) = Inr i"
| "param_int_value env (JFloat x) = int_of_float x"
| "param_int_value env (JBool b) = Inr (if b then 1 else 0)"
| "param_int_value env (JStr s) = int_of_text env s"
| "param_int_value env v = Inl (TypeError ''int() argument must be a string or a real number'')"

fun param_float_value :: "senv \<Rightarrow> json \<Rightarrow> pyfloat result" where
  "param_float_value env (JInt i) = float_of_int i"
| "param_float_value env (JFloat x) = Inr x"
| "param_float_value env (JBool b) = Inr (Fin (if b then 1 else 0))"
| "param_float_value env (JStr s) = float_of_text (base_env env) s"
| "param_float_value env v = Inl (TypeError ''float() argument must be a string or a real number'')"

definition or_default :: "'a result \<Rightarrow> 'a \<Rightarrow> 'a result" where
  "or_default m d = (case m of Inr x \<Rightarrow> Inr x | Inl e \<Rightarrow> if is_type_error e \<or> is_value_error e then Inr d else Inl e)"

definition parameter_int :: "senv \<Rightarrow> strategy_spec \<Rightarrow> string \<Rightarrow> int \<Rightarrow> int result" where
  "parameter_int env spec key def = (case map_of (sp_parameters spec) key of None \<Rightarrow> Inr (max 1 def)
     | Some raw \<Rightarrow> (case param_int_value env raw of Inr n \<Rightarrow> Inr (max 1 n)
         | Inl e \<Rightarrow> if is_type_error e \<or> is_value_error e then Inr def else Inl e))"

definition parameter_float :: "senv \<Rightarrow> strategy_spec \<Rightarrow> string \<Rightarrow> pyfloat \<Rightarrow> pyfloat result" where
  "parameter_float env spec key def = (case map_of (sp_parameters spec) key of None \<Rightarrow> Inr (f_max (Fin 0) def)
     | Some raw \<Rightarrow> bindE (or_default (param_float_value env raw) def) (\<lambda>x. Inr (if isfinite x then f_max (Fin 0) x else def)))"

definition volatility_floor :: "senv \<Rightarrow> strategy_spec \<Rightarrow> pyfloat result" where
  "volatility_floor env spec = parameter_float env spec ''volatility_floor'' (fl (1 / 10000))"

section \<open>Values and filters\<close>

definition numeric :: "senv \<Rightarrow> pyval \<Rightarrow> pyfloat option result" where
  "numeric env v = (if v = VNone then Inr None
     else bindE (or_default (bindE (py_float (base_env env) v) (\<lambda>x. Inr (Some x))) None)
       (\<lambda>x. Inr (case x of None \<Rightarrow> None | Some y \<Rightarrow> if isfinite y then Some y else None)))"

definition row_numeric :: "senv \<Rightarrow> prow \<Rightarrow> string \<Rightarrow> pyfloat option result" where
  "row_numeric env row field = numeric env (row_get (pr_raw row) field)"

text \<open>\<open>a or b\<close> of optional floats: 0.0 counts as false.\<close>

definition float_true :: "pyfloat option \<Rightarrow> bool" where
  "float_true x = (case x of None \<Rightarrow> False | Some v \<Rightarrow> v \<noteq> Fin 0)"

definition or_numeric :: "pyfloat option result \<Rightarrow> pyfloat option result \<Rightarrow> pyfloat option result" where
  "or_numeric a b = bindE a (\<lambda>x. if float_true x then Inr x else b)"

text \<open>The first of two fields that has a number.\<close>

definition first_numeric :: "senv \<Rightarrow> prow \<Rightarrow> string \<Rightarrow> string \<Rightarrow> pyfloat option result" where
  "first_numeric env row f g = bindE (row_numeric env row f) (\<lambda>x. case x of Some v \<Rightarrow> Inr (Some v) | None \<Rightarrow> row_numeric env row g)"

definition filter_check ::
  "senv \<Rightarrow> strategy_spec \<Rightarrow> string \<Rightarrow> pyfloat option result \<Rightarrow> (pyfloat \<Rightarrow> pyfloat \<Rightarrow> bool) \<Rightarrow> string option result \<Rightarrow> string option result" where
  "filter_check env spec key val bad rest = (case map_of (sl_filters (sp_logic spec)) key of None \<Rightarrow> rest
     | Some limit \<Rightarrow> bindE val (\<lambda>x. case x of None \<Rightarrow> Inr (Some (''filtered_'' @ key))
         | Some v \<Rightarrow> bindE (py_float (base_env env) limit) (\<lambda>l. if bad v l then Inr (Some (''filtered_'' @ key)) else rest)))"

definition filter_reason :: "senv \<Rightarrow> strategy_spec \<Rightarrow> prow \<Rightarrow> string option result" where
  "filter_reason env spec row =
     filter_check env spec ''min_coverage'' (row_numeric env row ''coverage_ratio'') f_lt
     (filter_check env spec ''max_funding_abs'' (first_numeric env row ''funding'' ''funding_rate'') (\<lambda>v l. f_gt (f_abs v) l)
     (filter_check env spec ''min_volume'' (row_numeric env row ''volume'') f_lt
     (filter_check env spec ''min_open_interest'' (row_numeric env row ''open_interest'') f_lt
     (filter_check env spec ''max_spread'' (row_numeric env row ''spread'') f_gt (Inr None)))))"

section \<open>Scores\<close>

text \<open>The values of a field that are numbers.\<close>

definition numbers :: "senv \<Rightarrow> string \<Rightarrow> prow list \<Rightarrow> pyfloat list result" where
  "numbers env field rows = bindE (mapE (\<lambda>r. row_numeric env r field) rows) (\<lambda>xs. Inr (List.map_filter id xs))"

definition zscore :: "senv \<Rightarrow> prow \<Rightarrow> prow list \<Rightarrow> int \<Rightarrow> pyfloat option result" where
  "zscore env row history lookback =
     (let prior = prior_rows row history lookback in
      if int (length prior) < lookback then Inr None
      else bindE (numbers env ''close'' prior) (\<lambda>vs. bindE (row_numeric env row ''close'') (\<lambda>close.
        case close of None \<Rightarrow> Inr None
        | Some c \<Rightarrow> if int (length vs) < lookback then Inr None
            else bindE (f_mean vs) (\<lambda>mean. bindE (f_variance vs mean) (\<lambda>var. bindE (f_sqrt var) (\<lambda>std.
              if std = Fin 0 then Inr (Some (Fin 0)) else bindE (f_div (f_sub c mean) std) (\<lambda>z. Inr (Some z))))))))"

fun bar_returns :: "pyfloat list \<Rightarrow> pyfloat list result" where
  "bar_returns (a # b # xs) = bindE (f_div b a) (\<lambda>q. bindE (bar_returns (b # xs)) (\<lambda>rs. Inr (f_sub q (Fin 1) # rs)))"
| "bar_returns xs = Inr []"

definition realized_volatility :: "senv \<Rightarrow> prow \<Rightarrow> prow list \<Rightarrow> int \<Rightarrow> pyfloat option result" where
  "realized_volatility env row history lookback =
     (let prior = prior_rows row history lookback in
      if int (length prior) < lookback then Inr None
      else bindE (numbers env ''close'' (prior @ [row])) (\<lambda>cs.
        let closes = filter (\<lambda>c. f_gt c (Fin 0)) cs in
        if length closes < 2 then Inr None
        else bindE (bar_returns closes) (\<lambda>rs. bindE (f_mean rs) (\<lambda>mean. bindE (f_variance rs mean) (\<lambda>var.
          bindE (f_sqrt var) (\<lambda>v. Inr (Some v)))))))"

fun true_ranges :: "senv \<Rightarrow> prow list \<Rightarrow> pyfloat list result" where
  "true_ranges env (previous # current # rows) =
     bindE (or_numeric (row_numeric env current ''high'') (row_numeric env current ''close'')) (\<lambda>high.
     bindE (or_numeric (row_numeric env current ''low'') (row_numeric env current ''close'')) (\<lambda>low.
     bindE (row_numeric env previous ''close'') (\<lambda>close.
     bindE (true_ranges env (current # rows)) (\<lambda>rest.
     Inr (case (high, low, close) of
        (Some h, Some l, Some c) \<Rightarrow> f_max (f_max (f_sub h l) (f_abs (f_sub h c))) (f_abs (f_sub l c)) # rest | _ \<Rightarrow> rest)))))"
| "true_ranges env rows = Inr []"

definition average_true_range :: "senv \<Rightarrow> prow \<Rightarrow> prow list \<Rightarrow> int \<Rightarrow> pyfloat option result" where
  "average_true_range env row history lookback =
     (let prior = prior_rows row history lookback in
      if int (length prior) < lookback then Inr None
      else bindE (true_ranges env (prior @ [row])) (\<lambda>rs. if rs = [] then Inr None else bindE (f_mean rs) (\<lambda>x. Inr (Some x))))"

text \<open>\<open>(current / base) - 1.0\<close> over the lookback, when both closes are numbers and the first is positive.\<close>

definition lookback_return :: "senv \<Rightarrow> prow \<Rightarrow> prow list \<Rightarrow> pyfloat option result" where
  "lookback_return env row prior =
     bindE (row_numeric env row ''close'') (\<lambda>current. bindE (row_numeric env (hd prior) ''close'') (\<lambda>base.
     case (current, base) of
       (Some c, Some b) \<Rightarrow> if f_le b (Fin 0) then Inr None else bindE (f_div c b) (\<lambda>q. Inr (Some (f_sub q (Fin 1))))
     | _ \<Rightarrow> Inr None))"

definition metric_score :: "senv \<Rightarrow> strategy_spec \<Rightarrow> prow \<Rightarrow> prow list \<Rightarrow> int \<Rightarrow> pyfloat option result" where
  "metric_score env spec row history lookback =
     (let metric = (case sl_metric (sp_logic spec) of Some m \<Rightarrow> if m = [] then ''return'' else m | None \<Rightarrow> ''return'');
          prior = prior_rows row history lookback in
      if metric = ''funding'' then first_numeric env row ''funding'' ''funding_rate''
      else if metric = ''volume'' then row_numeric env row ''volume''
      else if metric = ''volatility'' then realized_volatility env row history lookback
      else if int (length prior) < lookback then Inr None
      else lookback_return env row prior)"

definition return_over_volatility_score ::
  "senv \<Rightarrow> strategy_spec \<Rightarrow> prow \<Rightarrow> prow list \<Rightarrow> int \<Rightarrow> (pyfloat \<times> pyfloat) option result" where
  "return_over_volatility_score env spec row history lookback =
     (let prior = prior_rows row history lookback in
      if int (length prior) < lookback then Inr None
      else bindE (lookback_return env row prior) (\<lambda>ret. case ret of None \<Rightarrow> Inr None
        | Some r \<Rightarrow> bindE (parameter_int env spec ''volatility_lookback_bars'' (max lookback 24)) (\<lambda>n.
            bindE (realized_volatility env row history n) (\<lambda>vol. case vol of None \<Rightarrow> Inr None
            | Some v \<Rightarrow> bindE (volatility_floor env spec) (\<lambda>floor. let v' = f_max v floor in
                bindE (f_div r v') (\<lambda>score. Inr (Some (score, v'))))))))"

definition channel :: "senv \<Rightarrow> string \<Rightarrow> pyfloat \<Rightarrow> prow list \<Rightarrow> pyfloat list result" where
  "channel env field close prior =
     mapE (\<lambda>r. bindE (or_numeric (row_numeric env r field) (or_numeric (row_numeric env r ''close'') (Inr (Some close))))
        (\<lambda>x. Inr (case x of None \<Rightarrow> close | Some v \<Rightarrow> v))) prior"

definition breakout_over_atr_score ::
  "senv \<Rightarrow> strategy_spec \<Rightarrow> prow \<Rightarrow> prow list \<Rightarrow> int \<Rightarrow> (pyfloat \<times> pyfloat) option result" where
  "breakout_over_atr_score env spec row history lookback =
     (let prior = prior_rows row history lookback in
      if int (length prior) < lookback then Inr None
      else bindE (row_numeric env row ''close'') (\<lambda>close. case close of None \<Rightarrow> Inr None
        | Some c \<Rightarrow> bindE (bindE (channel env ''high'' c prior) f_maximum) (\<lambda>high. bindE (bindE (channel env ''low'' c prior) f_minimum) (\<lambda>low.
            bindE (parameter_int env spec ''atr_lookback_bars'' (max lookback 24)) (\<lambda>n.
            bindE (average_true_range env row history n) (\<lambda>atr. case atr of None \<Rightarrow> Inr None
            | Some a \<Rightarrow> bindE (volatility_floor env spec) (\<lambda>floor. let a' = f_max a (f_mul c floor) in
                if f_gt c high then bindE (f_div (f_sub c high) a') (\<lambda>s. bindE (f_div a' c) (\<lambda>v. Inr (Some (s, v))))
                else if f_lt c low then bindE (f_div (f_sub c low) a') (\<lambda>s. bindE (f_div a' c) (\<lambda>v. Inr (Some (s, v))))
                else bindE (f_div a' c) (\<lambda>v. Inr (Some (Fin 0, v))))))))))"

definition vol_adjusted_trend_score ::
  "senv \<Rightarrow> strategy_spec \<Rightarrow> prow \<Rightarrow> prow list \<Rightarrow> int \<Rightarrow> (pyfloat \<times> pyfloat) option result" where
  "vol_adjusted_trend_score env spec row history lookback =
     (if sl_metric (sp_logic spec) = Some ''breakout_over_atr'' then breakout_over_atr_score env spec row history lookback
      else return_over_volatility_score env spec row history lookback)"

section \<open>Signal rows\<close>

definition side_of :: "pyfloat \<Rightarrow> string" where
  "side_of x = (if f_gt x (Fin 0) then ''long'' else if f_lt x (Fin 0) then ''short'' else ''flat'')"

definition make_signal :: "strategy_spec \<Rightarrow> prow \<Rightarrow> pyfloat \<Rightarrow> pyfloat \<Rightarrow> pyfloat option \<Rightarrow> string \<Rightarrow> signal_row result" where
  "make_signal spec row sig weight score reason = bindE (strategy_spec_hash spec) (\<lambda>h.
     validate_signal_row \<lparr>sr_strategy = sp_id spec, sr_spec_hash = h, sr_ts = pr_ts row, sr_instrument = pr_instrument row,
       sr_signal = sig, sr_weight = weight, sr_side = side_of sig, sr_score = score, sr_reason = reason, sr_flags = default_flags\<rparr>)"

definition flat_signal :: "strategy_spec \<Rightarrow> prow \<Rightarrow> pyfloat option \<Rightarrow> string \<Rightarrow> signal_row result" where
  "flat_signal spec row score reason = make_signal spec row (Fin 0) (Fin 0) score reason"

definition active_weight :: "strategy_spec \<Rightarrow> int \<Rightarrow> pyfloat result" where
  "active_weight spec n = (if n \<le> 0 then Inr (Fin 0)
     else bindE (float_of_int n) (\<lambda>m. bindE (f_div (rc_leverage (sp_risk spec)) m) (\<lambda>q. Inr (f_min (rc_weight (sp_risk spec)) q))))"

definition vol_target_weight :: "strategy_spec \<Rightarrow> pyfloat \<Rightarrow> pyfloat \<Rightarrow> pyfloat result" where
  "vol_target_weight spec realized target =
     (if f_le realized (Fin 0) \<or> f_le target (Fin 0) then Inr (Fin 0)
      else bindE (f_div target realized) (\<lambda>q. Inr (f_min (rc_weight (sp_risk spec)) q)))"

text \<open>The rows of one moment, by instrument, and the moments of a panel.\<close>

definition rows_at :: "prow list \<Rightarrow> instant \<Rightarrow> prow list" where
  "rows_at rows ts = sorted_by pr_instrument (filter (\<lambda>r. pr_ts r = ts) rows)"

definition moments :: "prow list \<Rightarrow> instant list" where
  "moments rows = sorted_by id (uniq (map pr_ts rows))"

subsection \<open>Rank strategies\<close>

datatype ranked = Scored pyfloat prow | Filtered prow string

definition rank_row :: "senv \<Rightarrow> strategy_spec \<Rightarrow> prow list \<Rightarrow> int \<Rightarrow> prow \<Rightarrow> ranked result" where
  "rank_row env spec rows lookback row = bindE (filter_reason env spec row) (\<lambda>why. case why of Some reason \<Rightarrow> Inr (Filtered row reason)
     | None \<Rightarrow> bindE (metric_score env spec row (history_of rows (pr_instrument row)) lookback) (\<lambda>score. case score of
         None \<Rightarrow> Inr (Filtered row ''insufficient_history'') | Some s \<Rightarrow> Inr (Scored s row)))"

fun scored_of :: "ranked list \<Rightarrow> (pyfloat \<times> prow) list" where
  "scored_of [] = []"
| "scored_of (Scored s r # xs) = (s, r) # scored_of xs"
| "scored_of (Filtered r why # xs) = scored_of xs"

fun filtered_of :: "ranked list \<Rightarrow> (prow \<times> string) list" where
  "filtered_of [] = []"
| "filtered_of (Scored s r # xs) = filtered_of xs"
| "filtered_of (Filtered r why # xs) = (r, why) # filtered_of xs"

definition quantile_count :: "nat \<Rightarrow> pyfloat \<Rightarrow> nat result" where
  "quantile_count n q = bindE (float_of_int (int n)) (\<lambda>m. bindE (f_ceil (f_mul m q)) (\<lambda>c. Inr (nat (max 1 c))))"

definition instruments_of :: "(pyfloat \<times> prow) list \<Rightarrow> string list" where
  "instruments_of scored = map (\<lambda>(s, r). pr_instrument r) scored"

definition lowest :: "(pyfloat \<times> prow) list \<Rightarrow> pyfloat option \<Rightarrow> string list result" where
  "lowest scored q = (case q of None \<Rightarrow> Inr [] | Some x \<Rightarrow>
     bindE (quantile_count (length scored) x) (\<lambda>n. Inr (instruments_of (take n scored))))"

definition highest :: "(pyfloat \<times> prow) list \<Rightarrow> pyfloat option \<Rightarrow> string list result" where
  "highest scored q = (case q of None \<Rightarrow> Inr [] | Some x \<Rightarrow>
     bindE (quantile_count (length scored) x) (\<lambda>n. Inr (instruments_of (drop (length scored - n) scored))))"

text \<open>The instruments to hold long and short.\<close>

definition rank_sides :: "strategy_spec \<Rightarrow> (pyfloat \<times> prow) list \<Rightarrow> (string list \<times> string list) result" where
  "rank_sides spec scored =
     (let l = sp_logic spec in if scored = [] then Inr ([], [])
      else if sl_direction l = ''reversion''
      then bindE (lowest scored (sl_long l)) (\<lambda>long. bindE (highest scored (sl_short l)) (\<lambda>short. Inr (long, short)))
      else bindE (lowest scored (sl_short l)) (\<lambda>short. bindE (highest scored (sl_long l)) (\<lambda>long. Inr (long, short))))"

definition rank_signal ::
  "strategy_spec \<Rightarrow> string list \<Rightarrow> string list \<Rightarrow> pyfloat \<Rightarrow> (pyfloat \<times> prow) list \<Rightarrow> prow \<Rightarrow> signal_row result" where
  "rank_signal spec long short weight scored row =
     (let i = pr_instrument row; score = map_of (rev (map (\<lambda>(s, r). (pr_instrument r, s)) scored)) i in
      if i \<in> set long \<and> i \<notin> set short then make_signal spec row (Fin 1) weight score ''rank_long''
      else if i \<in> set short \<and> i \<notin> set long then make_signal spec row (Fin (-1)) (f_neg weight) score ''rank_short''
      else flat_signal spec row score ''rank_middle'')"

definition rank_moment :: "senv \<Rightarrow> strategy_spec \<Rightarrow> prow list \<Rightarrow> int \<Rightarrow> instant \<Rightarrow> signal_row list result" where
  "rank_moment env spec rows lookback ts =
     bindE (mapE (rank_row env spec rows lookback) (rows_at rows ts)) (\<lambda>ranked.
     let scored = sorted_by (\<lambda>(s, r). (s, pr_instrument r)) (scored_of ranked) in
     bindE (rank_sides spec scored) (\<lambda>(long, short).
     bindE (active_weight spec (int (length (uniq (long @ short))))) (\<lambda>weight.
     bindE (mapE (\<lambda>(s, r). rank_signal spec long short weight scored r) scored) (\<lambda>active.
     bindE (mapE (\<lambda>(r, why). flat_signal spec r None why) (filtered_of ranked)) (\<lambda>inactive. Inr (active @ inactive))))))"

subsection \<open>Volatility-adjusted trend\<close>

datatype trend = Active prow pyfloat pyfloat pyfloat string | Inactive prow "pyfloat option" string

definition entry_threshold :: "strategy_spec \<Rightarrow> pyfloat \<Rightarrow> pyfloat" where
  "entry_threshold spec def = (case sl_entry (sp_logic spec) of Some x \<Rightarrow> x | None \<Rightarrow> def)"

definition trend_row :: "senv \<Rightarrow> strategy_spec \<Rightarrow> prow list \<Rightarrow> int \<Rightarrow> pyfloat \<Rightarrow> prow \<Rightarrow> trend result" where
  "trend_row env spec rows lookback target row = bindE (filter_reason env spec row) (\<lambda>why. case why of Some reason \<Rightarrow> Inr (Inactive row None reason)
     | None \<Rightarrow> bindE (vol_adjusted_trend_score env spec row (history_of rows (pr_instrument row)) lookback) (\<lambda>scored. case scored of
         None \<Rightarrow> Inr (Inactive row None ''insufficient_history'')
       | Some (score, vol) \<Rightarrow>
           if f_lt (f_abs score) (entry_threshold spec (Fin 1)) then Inr (Inactive row (Some score) ''vol_adjusted_trend_flat'')
           else let direction = (if f_gt score (Fin 0) then Fin 1 else Fin (-1)) in
             bindE (vol_target_weight spec vol target) (\<lambda>raw.
             if f_le raw (Fin 0) then Inr (Inactive row (Some score) ''vol_adjusted_trend_zero_weight'')
             else Inr (Active row score direction raw (if f_gt direction (Fin 0) then ''vol_adjusted_trend_long'' else ''vol_adjusted_trend_short'')))))"

fun active_weights :: "trend list \<Rightarrow> pyfloat list" where
  "active_weights [] = []"
| "active_weights (Active r s d w why # xs) = w # active_weights xs"
| "active_weights (Inactive r s why # xs) = active_weights xs"

definition gross_scale :: "strategy_spec \<Rightarrow> pyfloat \<Rightarrow> pyfloat result" where
  "gross_scale spec gross = (if f_le gross (rc_leverage (sp_risk spec)) then Inr (Fin 1) else f_div (rc_leverage (sp_risk spec)) gross)"

fun active_signals :: "strategy_spec \<Rightarrow> pyfloat \<Rightarrow> trend list \<Rightarrow> signal_row list result" where
  "active_signals spec scale [] = Inr []"
| "active_signals spec scale (Active r s d w why # xs) =
     bindE (make_signal spec r d (f_mul (f_mul d w) scale) (Some s) why) (\<lambda>x. bindE (active_signals spec scale xs) (\<lambda>rest. Inr (x # rest)))"
| "active_signals spec scale (Inactive r s why # xs) = active_signals spec scale xs"

fun inactive_signals :: "strategy_spec \<Rightarrow> trend list \<Rightarrow> signal_row list result" where
  "inactive_signals spec [] = Inr []"
| "inactive_signals spec (Active r s d w why # xs) = inactive_signals spec xs"
| "inactive_signals spec (Inactive r s why # xs) =
     bindE (flat_signal spec r s why) (\<lambda>x. bindE (inactive_signals spec xs) (\<lambda>rest. Inr (x # rest)))"

definition trend_moment :: "senv \<Rightarrow> strategy_spec \<Rightarrow> prow list \<Rightarrow> int \<Rightarrow> pyfloat \<Rightarrow> instant \<Rightarrow> signal_row list result" where
  "trend_moment env spec rows lookback target ts =
     bindE (mapE (trend_row env spec rows lookback target) (rows_at rows ts)) (\<lambda>ts.
     bindE (gross_scale spec (f_sum (active_weights ts))) (\<lambda>scale.
     bindE (active_signals spec scale ts) (\<lambda>active. bindE (inactive_signals spec ts) (\<lambda>inactive. Inr (active @ inactive)))))"

subsection \<open>Strategies on one instrument\<close>

definition threshold_signal ::
  "strategy_spec \<Rightarrow> prow \<Rightarrow> pyfloat \<Rightarrow> bool \<Rightarrow> bool \<Rightarrow> string \<Rightarrow> signal_row result" where
  "threshold_signal spec row score long short name =
     (if long then bindE (active_weight spec 1) (\<lambda>w. make_signal spec row (Fin 1) w (Some score) (name @ ''_long''))
      else if short then bindE (active_weight spec 1) (\<lambda>w. make_signal spec row (Fin (-1)) (f_neg w) (Some score) (name @ ''_short''))
      else flat_signal spec row (Some score) (name @ ''_flat''))"

definition mean_reversion_signal :: "senv \<Rightarrow> strategy_spec \<Rightarrow> prow \<Rightarrow> prow list \<Rightarrow> int \<Rightarrow> signal_row result" where
  "mean_reversion_signal env spec row history lookback = bindE (zscore env row history lookback) (\<lambda>score. case score of
     None \<Rightarrow> flat_signal spec row None ''insufficient_history''
   | Some s \<Rightarrow> let t = entry_threshold spec (Fin 1) in
       threshold_signal spec row s (f_le s (f_neg t)) (f_ge s t) ''mean_reversion'')"

definition funding_carry_signal :: "senv \<Rightarrow> strategy_spec \<Rightarrow> prow \<Rightarrow> signal_row result" where
  "funding_carry_signal env spec row = bindE (first_numeric env row ''funding'' ''funding_rate'') (\<lambda>score. case score of
     None \<Rightarrow> flat_signal spec row None ''funding_missing''
   | Some s \<Rightarrow> let t = entry_threshold spec (Fin 0) in
       if f_gt s t then bindE (active_weight spec 1) (\<lambda>w. make_signal spec row (Fin (-1)) (f_neg w) (Some s) ''funding_carry_short'')
       else if f_lt s (f_neg t) then bindE (active_weight spec 1) (\<lambda>w. make_signal spec row (Fin 1) w (Some s) ''funding_carry_long'')
       else flat_signal spec row (Some s) ''funding_carry_flat'')"

definition breakout_signal :: "senv \<Rightarrow> strategy_spec \<Rightarrow> prow \<Rightarrow> prow list \<Rightarrow> int \<Rightarrow> signal_row result" where
  "breakout_signal env spec row history lookback =
     (let prior = prior_rows row history lookback in
      if int (length prior) < lookback then flat_signal spec row None ''insufficient_history''
      else bindE (row_numeric env row ''close'') (\<lambda>close. case close of None \<Rightarrow> flat_signal spec row None ''close_missing''
        | Some c \<Rightarrow> bindE (bindE (channel env ''high'' c prior) f_maximum) (\<lambda>high. bindE (bindE (channel env ''low'' c prior) f_minimum) (\<lambda>low.
            if f_gt c high then bindE (active_weight spec 1) (\<lambda>w. make_signal spec row (Fin 1) w (Some (f_sub c high)) ''breakout_long'')
            else if f_lt c low then bindE (active_weight spec 1) (\<lambda>w. make_signal spec row (Fin (-1)) (f_neg w) (Some (f_sub c low)) ''breakout_short'')
            else flat_signal spec row (Some (Fin 0)) ''breakout_flat''))))"

definition single_signal :: "senv \<Rightarrow> strategy_spec \<Rightarrow> prow list \<Rightarrow> int \<Rightarrow> prow \<Rightarrow> signal_row result" where
  "single_signal env spec rows lookback row =
     (let history = history_of rows (pr_instrument row) in
      bindE (filter_reason env spec row) (\<lambda>why. case why of Some reason \<Rightarrow> flat_signal spec row None reason
      | None \<Rightarrow> (case sl_type (sp_logic spec) of
          MEAN_REVERSION \<Rightarrow> mean_reversion_signal env spec row history lookback
        | FUNDING_CARRY \<Rightarrow> funding_carry_signal env spec row
        | VOLATILITY_BREAKOUT \<Rightarrow> breakout_signal env spec row history lookback
        | _ \<Rightarrow> flat_signal spec row None ''unsupported_signal_type'')))"

section \<open>The frame\<close>

definition compile_rows :: "senv \<Rightarrow> strategy_spec \<Rightarrow> int \<Rightarrow> prow list \<Rightarrow> signal_row list result" where
  "compile_rows env spec lookback rows =
     (if sl_type (sp_logic spec) \<in> set rank_types
      then bindE (mapE (rank_moment env spec rows lookback) (moments rows)) (\<lambda>xs. Inr (concat xs))
      else if sl_type (sp_logic spec) = VOL_ADJUSTED_TREND
      then bindE (parameter_float env spec ''target_volatility_per_bar'' (fl (2 / 1000))) (\<lambda>target.
        bindE (mapE (trend_moment env spec rows lookback target) (moments rows)) (\<lambda>xs. Inr (concat xs)))
      else mapE (single_signal env spec rows lookback) rows)"

definition signal_key :: "signal_row \<Rightarrow> instant \<times> string" where
  "signal_key s = (sr_ts s, sr_instrument s)"

text \<open>The argument is a specification that was parsed before.\<close>

definition compile_signal_frame :: "senv \<Rightarrow> strategy_spec \<Rightarrow> pyrow list \<Rightarrow> signal_frame result" where
  "compile_signal_frame env spec panel =
     bindE (normalize_panel_rows env spec panel) (\<lambda>sorted_rows.
     let rows = number_rows [] sorted_rows in
     bindE (lookback_bars spec) (\<lambda>lookback.
     bindE (compile_rows env spec lookback rows) (\<lambda>signals.
     bindE (strategy_spec_hash spec) (\<lambda>h.
     validate_frame \<lparr>sf_strategy = sp_id spec, sf_spec_hash = h, sf_rows = sorted_by signal_key signals,
       sf_row_count = int (length signals), sf_flags = default_flags\<rparr>))))"

end
