(* ===== verification/Engine.thy ===== *)
theory Engine
  imports RunModels WalkForward Signals
begin

text \<open>
  \<open>backtest_engine/engine.py\<close>, the reference lane: a panel of rows and a signal frame become an equity
  curve, positions, trades and metrics, bar by bar and instrument by instrument, with the costs of the
  cost model; then the stress rows.  The literal research flags of every row are one record.  The
  dictionaries of a run that have an entry for every instrument are functions.
\<close>

section \<open>Rows of the panel\<close>

record erow =
  er_raw :: pyrow
  er_ts :: instant
  er_instrument :: string

definition engine_timestamp :: "pyenv \<Rightarrow> pyval \<Rightarrow> instant result" where
  "engine_timestamp env v = (case parse_timestamp env v of Inr t \<Rightarrow> Inr t
     | Inl e \<Rightarrow> (case v of VTime t \<Rightarrow> Inl e | VStr s \<Rightarrow> Inl e | _ \<Rightarrow> Inl (BacktestEngineError ''unsupported timestamp value'')))"

definition panel_row :: "pyenv \<Rightarrow> pyrow \<Rightarrow> erow result" where
  "panel_row env row = bindE (row_item row ''ts'') (\<lambda>v. bindE (engine_timestamp env v) (\<lambda>ts.
     bindE (row_item row ''instrument_id'') (\<lambda>i. Inr \<lparr>er_raw = row, er_ts = ts, er_instrument = py_str i\<rparr>)))"

text \<open>Unlike the compiler's, this reading keeps infinities and NaN.\<close>

definition row_number :: "pyenv \<Rightarrow> erow \<Rightarrow> string \<Rightarrow> pyfloat option result" where
  "row_number env row field = (let v = row_get (er_raw row) field in
     if v = VNone then Inr None else or_default (bindE (py_float env v) (\<lambda>x. Inr (Some x))) None)"

definition erow_key :: "erow \<Rightarrow> instant \<times> string" where
  "erow_key r = (er_ts r, er_instrument r)"

definition instruments_of_rows :: "erow list \<Rightarrow> string list" where
  "instruments_of_rows rows = sorted_by id (uniq (map er_instrument rows))"

definition timestamps_of :: "erow list \<Rightarrow> instant list" where
  "timestamps_of rows = sorted_by id (uniq (map er_ts rows))"

definition missing_instruments :: "erow list \<Rightarrow> string list \<Rightarrow> instant \<Rightarrow> string list" where
  "missing_instruments rows instruments ts =
     sorted_by id (filter (\<lambda>i. i \<notin> er_instrument ` set (filter (\<lambda>r. er_ts r = ts) rows)) instruments)"

text \<open>The rows are sorted by time, so the first moment with a gap is reported.\<close>

definition enforce_common_clock :: "erow list \<Rightarrow> string list \<Rightarrow> missing_policy \<Rightarrow> unit result" where
  "enforce_common_clock rows instruments policy =
     raise_first (map (\<lambda>ts. (missing_instruments rows instruments ts \<noteq> [], BacktestEngineError
       (''missing_data_policy_fail_closed: '' @ iso_of_instant ts @ '' missing '' @ join '','' (missing_instruments rows instruments ts)))) (timestamps_of rows))"

text \<open>Dictionaries by moment and instrument: the last row with a key wins.\<close>

definition row_at :: "erow list \<Rightarrow> instant \<Rightarrow> string \<Rightarrow> erow option" where
  "row_at rows ts i = find (\<lambda>r. erow_key r = (ts, i)) (rev rows)"

definition signal_at :: "signal_row list \<Rightarrow> instant \<Rightarrow> string \<Rightarrow> signal_row option" where
  "signal_at signals ts i = find (\<lambda>s. signal_key s = (ts, i)) (rev signals)"

section \<open>Reading a row\<close>

definition return_between :: "string \<Rightarrow> pyfloat option \<Rightarrow> pyfloat option \<Rightarrow> pyfloat result" where
  "return_between name base current = (case (base, current) of
     (Some b, Some c) \<Rightarrow> if f_le b (Fin 0) then Inl (BacktestEngineError (''pnl_price_missing_for_'' @ name))
       else bindE (f_div c b) (\<lambda>q. Inr (f_sub q (Fin 1)))
   | _ \<Rightarrow> Inl (BacktestEngineError (''pnl_price_missing_for_'' @ name)))"

fun price_field :: "price_basis \<Rightarrow> string" where
  "price_field CLOSE = ''close''"
| "price_field MARK = ''mark_price''"
| "price_field ORACLE = ''oracle_price''"
| "price_field NEXT_BAR_OPEN = ''open''"

definition price_return :: "pyenv \<Rightarrow> price_basis \<Rightarrow> erow \<Rightarrow> erow option \<Rightarrow> pyfloat result" where
  "price_return env basis row previous =
     (if basis = NEXT_BAR_OPEN then
        bindE (row_number env row ''open'') (\<lambda>o'. bindE (row_number env row ''close'') (\<lambda>c. return_between ''next_bar_open'' o' c))
      else case previous of None \<Rightarrow> Inr (Fin 0)
        | Some p \<Rightarrow> bindE (row_number env p (price_field basis)) (\<lambda>b. bindE (row_number env row (price_field basis)) (\<lambda>c.
            return_between (price_basis_value basis) b c)))"

definition funding_rate_of :: "pyenv \<Rightarrow> erow \<Rightarrow> pyfloat option result" where
  "funding_rate_of env row = bindE (row_number env row ''funding'') (\<lambda>x. case x of Some v \<Rightarrow> Inr (Some v) | None \<Rightarrow> row_number env row ''funding_rate'')"

fun first_number :: "pyenv \<Rightarrow> erow \<Rightarrow> string list \<Rightarrow> pyfloat option result" where
  "first_number env row [] = Inr None"
| "first_number env row (f # fs) = bindE (row_number env row f) (\<lambda>x. case x of Some v \<Rightarrow> Inr (Some v) | None \<Rightarrow> first_number env row fs)"

definition volume_notional_of :: "pyenv \<Rightarrow> erow \<Rightarrow> pyfloat option result" where
  "volume_notional_of env row =
     bindE (first_number env row [''volume_notional'', ''volume_usd'', ''dollar_volume'', ''notional_volume'']) (\<lambda>x. case x of Some v \<Rightarrow> Inr (Some v)
     | None \<Rightarrow> bindE (row_number env row ''volume'') (\<lambda>volume. case volume of None \<Rightarrow> Inr None
       | Some v \<Rightarrow> bindE (row_number env row ''close'') (\<lambda>close. Inr (Some (case close of None \<Rightarrow> v
           | Some c \<Rightarrow> if f_gt c (Fin 0) then f_mul v c else v)))))"

fun first_units :: "erow \<Rightarrow> string list \<Rightarrow> string option" where
  "first_units row [] = None"
| "first_units row (f # fs) = (let v = row_get (er_raw row) f; text = lower (strip (py_str v)) in
     if v \<noteq> VNone \<and> text \<noteq> [] then Some text else first_units row fs)"

definition spread_units :: "erow \<Rightarrow> string option" where
  "spread_units row = first_units row [''spread_units'', ''spread_unit'', ''spread_value_units'']"

definition reference_price :: "pyenv \<Rightarrow> erow \<Rightarrow> pyfloat option result" where
  "reference_price env row =
     or_numeric (row_number env row ''close'') (or_numeric (row_number env row ''mark_price'') (row_number env row ''oracle_price''))"

definition inferred_spread :: "cost_config \<Rightarrow> pyfloat \<Rightarrow> (pyfloat option \<times> string) result" where
  "inferred_spread c spread =
     (if cc_spread_policy c = ''accepted_research_strict'' then Inl (BacktestEngineError ''ambiguous_spread_units_for_accepted_research'')
      else if f_le spread (Fin 1) then Inr (Some (f_mul spread (Fin 10000)), ''lenient_fraction_inferred'')
      else Inr (Some spread, ''lenient_bps_inferred''))"

definition spread_in_units :: "pyenv \<Rightarrow> erow \<Rightarrow> cost_config \<Rightarrow> pyfloat \<Rightarrow> string \<Rightarrow> (pyfloat option \<times> string) result" where
  "spread_in_units env row c spread units =
     (if units \<in> {''bps'', ''bp'', ''basis_point'', ''basis_points''} then Inr (Some spread, ''explicit_units_bps'')
      else if units \<in> {''fraction'', ''decimal'', ''ratio'', ''return_fraction''} then Inr (Some (f_mul spread (Fin 10000)), ''explicit_units_fraction'')
      else if units \<in> {''price'', ''quote'', ''absolute'', ''usd''} then
        bindE (reference_price env row) (\<lambda>close. case close of
          Some p \<Rightarrow> if f_gt p (Fin 0) then bindE (f_div spread p) (\<lambda>q. Inr (Some (f_mul q (Fin 10000)), ''explicit_units_absolute''))
            else Inr (None, ''explicit_units_absolute_missing_reference_price'')
        | None \<Rightarrow> Inr (None, ''explicit_units_absolute_missing_reference_price''))
      else inferred_spread c spread)"

definition observed_spread :: "pyenv \<Rightarrow> erow \<Rightarrow> cost_config \<Rightarrow> (pyfloat option \<times> string) result" where
  "observed_spread env row c =
     bindE (row_number env row ''spread_bps'') (\<lambda>bps. case bps of Some x \<Rightarrow> Inr (Some x, ''explicit_spread_bps'')
     | None \<Rightarrow> bindE (row_number env row ''spread'') (\<lambda>spread. case spread of None \<Rightarrow> Inr (None, ''missing_uses_configured_fallback'')
       | Some s \<Rightarrow> (case spread_units row of None \<Rightarrow> inferred_spread c s | Some u \<Rightarrow> spread_in_units env row c s u)))"

text \<open>\<open>f"{x:.12g}"\<close>\<close>

definition digits_general :: "int \<Rightarrow> int \<Rightarrow> string" where
  "digits_general m e = (let ds = strip_zeros (string_of_int m) in
     if -4 \<le> e \<and> e < 12 then
       (if e < 0 then ''0.'' @ replicate (nat (- e - 1)) CHR ''0'' @ ds
        else if int (length ds) \<le> e + 1 then ds @ replicate (nat (e + 1) - length ds) CHR ''0''
        else take (nat (e + 1)) ds @ ''.'' @ drop (nat (e + 1)) ds)
     else take 1 ds @ (if length ds = 1 then '''' else ''.'' @ drop 1 ds)
       @ ''e'' @ (if e < 0 then ''-'' else ''+'') @ zero_pad 2 \<bar>e\<bar>)"

definition general_pos :: "rat \<Rightarrow> string" where
  "general_pos x = (let e = ilog10 x; m = round_half_even (x * pow10 (11 - e)) in
     if m = 10 ^ 12 then digits_general (10 ^ 11) (e + 1) else digits_general m e)"

fun format_12g :: "pyfloat \<Rightarrow> string" where
  "format_12g (Fin x) = (if x = 0 then ''0'' else if x < 0 then ''-'' @ general_pos (- x) else general_pos x)"
| "format_12g PInf = ''inf''"
| "format_12g NInf = ''-inf''"
| "format_12g NaN = ''nan''"

section \<open>One instrument of one bar\<close>

record position =
  po_ts :: string
  po_instrument :: string
  po_applied :: pyfloat
  po_target :: pyfloat
  po_signal :: pyfloat
  po_side :: string
  po_basis :: string
  po_price_return :: pyfloat
  po_gross :: pyfloat
  po_funding :: pyfloat
  po_funding_rate :: pyfloat
  po_costs :: breakdown
  po_net :: pyfloat
  po_flags :: flags

record trade =
  td_ts :: string
  td_instrument :: string
  td_from :: pyfloat
  td_to :: pyfloat
  td_turnover :: pyfloat
  td_side :: string
  td_basis :: string
  td_costs :: breakdown
  td_flags :: flags

record leg =
  lg_position :: position
  lg_turnover :: pyfloat
  lg_trade :: "trade option"
  lg_source :: string

definition required_funding :: "cost_config \<Rightarrow> pyfloat option \<Rightarrow> pyfloat result" where
  "required_funding c rate = (case rate of Some r \<Rightarrow> Inr r
     | None \<Rightarrow> if cc_funding_required c \<or> cc_funding_policy c = ''fail'' then Inl (BacktestEngineError ''funding_required_missing'') else Inr (Fin 0))"

definition capacity_error :: "string \<Rightarrow> instant \<Rightarrow> breakdown \<Rightarrow> py_error" where
  "capacity_error i ts b = BacktestEngineError
     ((case bd_reason b of Some r \<Rightarrow> if r = [] then ''liquidity_participation_blocked'' else r | None \<Rightarrow> ''liquidity_participation_blocked'')
      @ '': '' @ i @ '' '' @ iso_of_instant ts @ '' participation='' @ format_12g (bd_participation b)
      @ '' cap='' @ format_12g (bd_max_participation b))"

definition instrument_leg ::
  "pyenv \<Rightarrow> price_basis \<Rightarrow> cost_config \<Rightarrow> scenario \<Rightarrow> erow \<Rightarrow> signal_row option \<Rightarrow> pyfloat \<Rightarrow> erow option \<Rightarrow> leg result" where
  "instrument_leg env basis c scen row signal previous prior =
     (let target = (case signal of None \<Rightarrow> Fin 0 | Some s \<Rightarrow> sr_weight s);
          ts = er_ts row; i = er_instrument row; turnover = f_abs (f_sub target previous) in
      bindE (price_return env basis row prior) (\<lambda>ret.
      bindE (bindE (funding_rate_of env row) (required_funding c)) (\<lambda>funding.
      bindE (volume_notional_of env row) (\<lambda>volume.
      bindE (observed_spread env row c) (\<lambda>(bps, source).
      bindE (calculate_cost_breakdown c turnover previous funding volume bps scen) (\<lambda>b.
      bindE (guardE (\<not> bd_blocked b) (capacity_error i ts b)) (\<lambda>_.
      let gross = f_mul previous ret in Inr
        \<lparr>lg_position = \<lparr>po_ts = iso_of_instant ts, po_instrument = i, po_applied = previous, po_target = target,
           po_signal = (case signal of None \<Rightarrow> Fin 0 | Some s \<Rightarrow> sr_signal s), po_side = side_of previous,
           po_basis = price_basis_value basis, po_price_return = ret, po_gross = gross, po_funding = bd_funding b,
           po_funding_rate = funding, po_costs = b, po_net = f_add gross (bd_net b), po_flags = default_flags\<rparr>,
         lg_turnover = turnover,
         lg_trade = (if f_gt turnover (Fin 0) then Some \<lparr>td_ts = iso_of_instant ts, td_instrument = i, td_from = previous,
           td_to = target, td_turnover = turnover, td_side = side_of target, td_basis = price_basis_value basis, td_costs = b,
           td_flags = default_flags\<rparr> else None),
         lg_source = source\<rparr>)))))))"

section \<open>The loop\<close>

record bar =
  ba_gross :: pyfloat
  ba_net :: pyfloat
  ba_turnover :: pyfloat
  ba_fee :: pyfloat
  ba_spread :: pyfloat
  ba_slippage :: pyfloat
  ba_impact :: pyfloat
  ba_transaction :: pyfloat
  ba_funding :: pyfloat
  ba_exposure :: pyfloat
  ba_blocked :: int
  ba_positions :: "position list"

definition empty_bar :: bar where
  "empty_bar = \<lparr>ba_gross = Fin 0, ba_net = Fin 0, ba_turnover = Fin 0, ba_fee = Fin 0, ba_spread = Fin 0, ba_slippage = Fin 0,
     ba_impact = Fin 0, ba_transaction = Fin 0, ba_funding = Fin 0, ba_exposure = Fin 0, ba_blocked = 0, ba_positions = []\<rparr>"

definition add_leg :: "leg \<Rightarrow> bar \<Rightarrow> bar" where
  "add_leg l b = (let p = lg_position l; c = po_costs p in
     \<lparr>ba_gross = f_add (ba_gross b) (po_gross p), ba_net = f_add (ba_net b) (po_net p), ba_turnover = f_add (ba_turnover b) (lg_turnover l),
      ba_fee = f_add (ba_fee b) (bd_fee c), ba_spread = f_add (ba_spread b) (bd_spread c), ba_slippage = f_add (ba_slippage b) (bd_slippage c),
      ba_impact = f_add (ba_impact b) (bd_impact c), ba_transaction = f_add (ba_transaction b) (bd_total c),
      ba_funding = f_add (ba_funding b) (po_funding p), ba_exposure = f_add (ba_exposure b) (f_abs (po_applied p)),
      ba_blocked = ba_blocked b + (if bd_blocked c then 1 else 0), ba_positions = ba_positions b @ [p]\<rparr>)"

record totals =
  to_gross :: pyfloat
  to_net :: pyfloat
  to_fee :: pyfloat
  to_spread :: pyfloat
  to_slippage :: pyfloat
  to_impact :: pyfloat
  to_transaction :: pyfloat
  to_funding :: pyfloat
  to_turnover :: pyfloat
  to_trades :: pyfloat
  to_blocked :: pyfloat

definition empty_totals :: totals where
  "empty_totals = \<lparr>to_gross = Fin 0, to_net = Fin 0, to_fee = Fin 0, to_spread = Fin 0, to_slippage = Fin 0, to_impact = Fin 0,
     to_transaction = Fin 0, to_funding = Fin 0, to_turnover = Fin 0, to_trades = Fin 0, to_blocked = Fin 0\<rparr>"

definition add_totals :: "leg \<Rightarrow> totals \<Rightarrow> totals" where
  "add_totals l t = (let p = lg_position l; c = po_costs p in
     \<lparr>to_gross = f_add (to_gross t) (po_gross p), to_net = f_add (to_net t) (po_net p), to_fee = f_add (to_fee t) (bd_fee c),
      to_spread = f_add (to_spread t) (bd_spread c), to_slippage = f_add (to_slippage t) (bd_slippage c),
      to_impact = f_add (to_impact t) (bd_impact c), to_transaction = f_add (to_transaction t) (bd_total c),
      to_funding = f_add (to_funding t) (po_funding p), to_turnover = f_add (to_turnover t) (lg_turnover l),
      to_trades = (if lg_trade l = None then to_trades t else f_add (to_trades t) (Fin 1)),
      to_blocked = f_add (to_blocked t) (Fin (if bd_blocked c then 1 else 0))\<rparr>)"

record equity_row =
  eq_ts :: string
  eq_gross_return :: pyfloat
  eq_net_return :: pyfloat
  eq_gross :: pyfloat
  eq_net :: pyfloat
  eq_turnover :: pyfloat
  eq_fee :: pyfloat
  eq_spread :: pyfloat
  eq_slippage :: pyfloat
  eq_impact :: pyfloat
  eq_transaction :: pyfloat
  eq_funding :: pyfloat
  eq_blocked :: int
  eq_scenario :: scenario
  eq_exposure :: pyfloat

record sim_state =
  ss_target :: "string \<Rightarrow> pyfloat"
  ss_prior :: "string \<Rightarrow> erow option"
  ss_totals :: "string \<Rightarrow> totals"
  ss_sources :: "(string \<times> int) list"
  ss_gross :: pyfloat
  ss_net :: pyfloat
  ss_positions :: "position list"
  ss_trades :: "trade list"
  ss_curve :: "equity_row list"

definition start_state :: "pyfloat \<Rightarrow> sim_state" where
  "start_state equity = \<lparr>ss_target = (\<lambda>i. Fin 0), ss_prior = (\<lambda>i. None), ss_totals = (\<lambda>i. empty_totals), ss_sources = [],
     ss_gross = equity, ss_net = equity, ss_positions = [], ss_trades = [], ss_curve = []\<rparr>"

definition count_source :: "string \<Rightarrow> (string \<times> int) list \<Rightarrow> (string \<times> int) list" where
  "count_source s counts = AList.update s ((case map_of counts s of None \<Rightarrow> 0 | Some n \<Rightarrow> n) + 1) counts"

text \<open>What a simulation reads: prices, costs, the panel and the signals.\<close>

record sim_input =
  in_env :: pyenv
  in_basis :: price_basis
  in_cost :: cost_config
  in_scenario :: scenario
  in_rows :: "erow list"
  in_signals :: "signal_row list"

definition leg_step :: "sim_input \<Rightarrow> instant \<Rightarrow> string \<Rightarrow> sim_state \<times> bar \<Rightarrow> (sim_state \<times> bar) result" where
  "leg_step x ts i sb = (case sb of (st, b) \<Rightarrow>
     (case row_at (in_rows x) ts i of None \<Rightarrow> Inl (KeyError (iso_of_instant ts @ '' '' @ i))
      | Some row \<Rightarrow> bindE (instrument_leg (in_env x) (in_basis x) (in_cost x) (in_scenario x) row (signal_at (in_signals x) ts i)
          (ss_target st i) (ss_prior st i)) (\<lambda>l.
          Inr (st\<lparr>ss_target := (ss_target st)(i := po_target (lg_position l)), ss_prior := (ss_prior st)(i := Some row),
                  ss_totals := (ss_totals st)(i := add_totals l (ss_totals st i)), ss_sources := count_source (lg_source l) (ss_sources st),
                  ss_trades := ss_trades st @ (case lg_trade l of None \<Rightarrow> [] | Some t \<Rightarrow> [t])\<rparr>, add_leg l b))))"

definition close_bar :: "scenario \<Rightarrow> instant \<Rightarrow> sim_state \<times> bar \<Rightarrow> sim_state" where
  "close_bar scen ts sb = (case sb of (st, b) \<Rightarrow>
     let gross = f_mul (ss_gross st) (f_add (Fin 1) (ba_gross b)); net = f_mul (ss_net st) (f_add (Fin 1) (ba_net b)) in
     st\<lparr>ss_gross := gross, ss_net := net, ss_positions := ss_positions st @ ba_positions b,
        ss_curve := ss_curve st @ [\<lparr>eq_ts = iso_of_instant ts, eq_gross_return = ba_gross b, eq_net_return = ba_net b, eq_gross = gross,
          eq_net = net, eq_turnover = ba_turnover b, eq_fee = ba_fee b, eq_spread = ba_spread b, eq_slippage = ba_slippage b,
          eq_impact = ba_impact b, eq_transaction = ba_transaction b, eq_funding = ba_funding b, eq_blocked = ba_blocked b,
          eq_scenario = scen, eq_exposure = ba_exposure b\<rparr>]\<rparr>)"

definition bar_step :: "sim_input \<Rightarrow> string list \<Rightarrow> instant \<Rightarrow> sim_state \<Rightarrow> sim_state result" where
  "bar_step x instruments ts st =
     bindE (foldE (leg_step x ts) instruments (st, empty_bar)) (\<lambda>sb. Inr (close_bar (in_scenario x) ts sb))"

definition run_bars :: "sim_input \<Rightarrow> string list \<Rightarrow> instant list \<Rightarrow> pyfloat \<Rightarrow> sim_state result" where
  "run_bars x instruments timestamps equity = foldE (bar_step x instruments) timestamps (start_state equity)"

end
