(* ===== verification/EngineRun.thy ===== *)
theory EngineRun
  imports Engine
begin

text \<open>
  \<open>backtest_engine/engine.py\<close>, the rest of a reference run: daily returns, fold metrics, the metrics
  and the context of a simulation, the stress rows, the run from specification to result, the
  recomputation from a manifest, and the checks of the event-driven entry point.
\<close>

section \<open>Series\<close>

definition compound :: "pyfloat list \<Rightarrow> pyfloat" where
  "compound rs = f_sub (foldl (\<lambda>equity r. f_mul equity (f_add (Fin 1) r)) (Fin 1) rs) (Fin 1)"

definition parse_curve :: "pyenv \<Rightarrow> equity_row list \<Rightarrow> (instant \<times> equity_row) list result" where
  "parse_curve env curve = mapE (\<lambda>r. bindE (engine_timestamp env (VStr (eq_ts r))) (\<lambda>t. Inr (t, r))) curve"

record daily_row =
  dy_date :: string
  dy_gross :: pyfloat
  dy_net :: pyfloat

definition daily_returns :: "pyenv \<Rightarrow> equity_row list \<Rightarrow> daily_row list result" where
  "daily_returns env curve = bindE (parse_curve env curve) (\<lambda>ps.
     Inr (map (\<lambda>day. let rows = map snd (filter (\<lambda>(t, r). date_of t = day) ps) in
       \<lparr>dy_date = date_isoformat day, dy_gross = compound (map eq_gross_return rows), dy_net = compound (map eq_net_return rows)\<rparr>)
       (sorted_by id (uniq (map (\<lambda>(t, r). date_of t) ps)))))"

record fold_row =
  fo_id :: string
  fo_family :: string
  fo_start :: string
  fo_end :: string
  fo_gross :: pyfloat
  fo_net :: pyfloat

definition month_fold :: "instant \<times> instant \<Rightarrow> (instant \<times> equity_row) list \<Rightarrow> fold_row list" where
  "month_fold w ps = (case w of (st, en) \<Rightarrow>
     let rows = map snd (filter (\<lambda>(t, r). st \<le> t \<and> t < en) ps); (y, m, d) = date_of st in
     if rows = [] then [] else
       [\<lparr>fo_id = ''month-'' @ zero_pad 4 y @ ''-'' @ zero_pad 2 m, fo_family = ''monthly_validation'', fo_start = iso_of_instant st,
         fo_end = iso_of_instant en, fo_gross = compound (map eq_gross_return rows), fo_net = compound (map eq_net_return rows)\<rparr>])"

definition fold_metrics :: "pyenv \<Rightarrow> equity_row list \<Rightarrow> instant \<Rightarrow> instant \<Rightarrow> pyfloat \<Rightarrow> pyfloat \<Rightarrow> fold_row list result" where
  "fold_metrics env curve st en gross net =
     bindE (monthly_validation_fold_windows (Aware st 0) (Aware en 0) 4) (\<lambda>ws.
     bindE (if ws = [] then Inr [] else parse_curve env curve) (\<lambda>ps.
     Inr (concat (map (\<lambda>w. month_fold w ps) ws) @
       [\<lparr>fo_id = ''full_window'', fo_family = ''diagnostic'', fo_start = iso_of_instant st, fo_end = iso_of_instant en,
         fo_gross = gross, fo_net = net\<rparr>])))"

record spread_summary =
  sm_counts :: "(string \<times> int) list"
  sm_explicit :: int
  sm_inferred :: int
  sm_missing :: int

definition count_prefix :: "string \<Rightarrow> (string \<times> int) list \<Rightarrow> int" where
  "count_prefix p counts = sum_list (map snd (filter (\<lambda>(s, n). is_prefix_of p s) counts))"

definition spread_observation_summary :: "(string \<times> int) list \<Rightarrow> spread_summary" where
  "spread_observation_summary counts =
     \<lparr>sm_counts = sorted_by fst counts, sm_explicit = count_prefix ''explicit_'' counts, sm_inferred = count_prefix ''lenient_'' counts,
      sm_missing = (case map_of counts ''missing_uses_configured_fallback'' of None \<Rightarrow> 0 | Some n \<Rightarrow> n)\<rparr>"

section \<open>The simulation\<close>

record simulation =
  si_metrics :: run_metrics
  si_curve :: "equity_row list"
  si_daily :: "daily_row list"
  si_trades :: "trade list"
  si_positions :: "position list"
  si_instrument_totals :: "(string \<times> totals) list"
  si_folds :: "fold_row list"
  si_stress :: "stress_row list"
  si_spreads :: spread_summary
  si_context :: run_context

definition cost_sum :: "(breakdown \<Rightarrow> pyfloat) \<Rightarrow> position list \<Rightarrow> pyfloat" where
  "cost_sum f ps = f_sum (map (\<lambda>p. f (po_costs p)) ps)"

definition run_metrics_of :: "string \<Rightarrow> pyfloat \<Rightarrow> sim_state \<Rightarrow> run_metrics" where
  "run_metrics_of run_id equity st = (let ps = ss_positions st in
     \<lparr>mt_schema = V2_SCHEMA_VERSION, mt_run_id = run_id, mt_status = RUN_SUCCEEDED, mt_gross_return = f_sub (ss_gross st) equity,
      mt_net_return = f_sub (ss_net st) equity, mt_gross_equity = ss_gross st, mt_net_equity = ss_net st,
      mt_fee = cost_sum bd_fee ps, mt_spread = cost_sum bd_spread ps, mt_slippage = cost_sum bd_slippage ps,
      mt_impact = cost_sum bd_impact ps, mt_transaction = cost_sum bd_total ps, mt_funding = f_sum (map po_funding ps),
      mt_turnover = f_sum (map td_turnover (ss_trades st)), mt_trades = int (length (ss_trades st)), mt_positions = int (length ps),
      mt_blocked = int (length (filter (\<lambda>p. bd_blocked (po_costs p)) ps)), mt_gross_only = False, mt_flags = default_flags\<rparr>)"

definition run_context_of :: "run_config \<Rightarrow> string \<Rightarrow> string \<Rightarrow> int \<Rightarrow> instant \<Rightarrow> instant \<Rightarrow> run_context" where
  "run_context_of c timeframe run_id n st en =
     \<lparr>cx_schema = V2_SCHEMA_VERSION, cx_run_id = run_id, cx_experiment = rn_experiment c, cx_trial = rn_trial c,
      cx_archive_snapshot = rn_archive_snapshot c, cx_universe_snapshot = rn_universe_snapshot c, cx_data_manifest = rn_data_manifest c,
      cx_validation_policy = rn_validation_policy c, cx_cost_model_id = rn_cost_model_id c, cx_timeframe = timeframe,
      cx_venue_scope = rn_venue_scope c, cx_universe_mode = rn_universe_mode c, cx_instruments = n, cx_start = st, cx_end = en,
      cx_lockbox_policy = rn_lockbox_policy c, cx_lockbox_start = rn_lockbox_start c, cx_lockbox_end = rn_lockbox_end c,
      cx_coverage_min = rn_coverage_min c, cx_flags = default_flags\<rparr>"

definition finish_simulation ::
  "pyenv \<Rightarrow> run_config \<Rightarrow> strategy_spec \<Rightarrow> string \<Rightarrow> string list \<Rightarrow> instant list \<Rightarrow> sim_state \<Rightarrow> simulation result" where
  "finish_simulation env c spec run_id instruments timestamps st =
     bindE (daily_returns env (ss_curve st)) (\<lambda>daily.
     bindE (fold_metrics env (ss_curve st) (hd timestamps) (last timestamps) (f_sub (ss_gross st) (rn_equity c)) (f_sub (ss_net st) (rn_equity c))) (\<lambda>folds.
     bindE (validate_metrics (run_metrics_of run_id (rn_equity c) st)) (\<lambda>metrics.
     bindE (validate_context (run_context_of c (si_timeframe (sp_inputs spec)) run_id (int (length instruments)) (hd timestamps) (last timestamps))) (\<lambda>context.
     Inr \<lparr>si_metrics = metrics, si_curve = ss_curve st, si_daily = daily, si_trades = ss_trades st, si_positions = ss_positions st,
       si_instrument_totals = map (\<lambda>i. (i, ss_totals st i)) instruments, si_folds = folds, si_stress = [],
       si_spreads = spread_observation_summary (ss_sources st), si_context = context\<rparr>))))"

definition engine_rows :: "pyenv \<Rightarrow> pyrow list \<Rightarrow> erow list result" where
  "engine_rows env panel = bindE (mapE (panel_row env) panel) (\<lambda>rows.
     if rows = [] then Inl (BacktestEngineError ''panel_rows_empty'') else Inr (sorted_by erow_key rows))"

definition simulate_vectorized ::
  "pyenv \<Rightarrow> run_config \<Rightarrow> strategy_spec \<Rightarrow> signal_frame \<Rightarrow> pyrow list \<Rightarrow> string \<Rightarrow> scenario \<Rightarrow> simulation result" where
  "simulate_vectorized env c spec frame panel run_id scen =
     bindE (effective_cost_model c) (\<lambda>cost.
     bindE (engine_rows env panel) (\<lambda>rows.
     let instruments = instruments_of_rows rows; timestamps = timestamps_of rows in
     bindE (enforce_common_clock rows instruments (rn_missing_policy c)) (\<lambda>_.
     bindE (run_bars \<lparr>in_env = env, in_basis = ec_basis (sp_execution spec), in_cost = cost, in_scenario = scen, in_rows = rows,
         in_signals = sf_rows frame\<rparr> instruments timestamps (rn_equity c)) (\<lambda>st.
     finish_simulation env c spec run_id instruments timestamps st))))"

section \<open>Stress rows\<close>

definition stress_factors :: "pyfloat \<Rightarrow> equity_row \<Rightarrow> pyfloat \<times> pyfloat" where
  "stress_factors m r = (f_add (Fin 1) (eq_gross_return r),
     f_sub (f_add (f_add (Fin 1) (eq_gross_return r)) (eq_funding r)) (f_mul (eq_transaction r) m))"

definition stress_equity :: "pyfloat \<Rightarrow> pyfloat \<Rightarrow> equity_row list \<Rightarrow> pyfloat \<times> pyfloat" where
  "stress_equity m equity curve = foldl (\<lambda>(g, n) r. (f_mul g (fst (stress_factors m r)), f_mul n (snd (stress_factors m r)))) (equity, equity) curve"

definition stress_initial_equity :: "run_metrics \<Rightarrow> pyfloat result" where
  "stress_initial_equity base = (if f_gt (mt_gross_return base) (Fin (-1))
     then f_div (mt_gross_equity base) (f_add (Fin 1) (mt_gross_return base)) else Inr (Fin 1))"

definition stress_metrics_from_base :: "run_metrics \<Rightarrow> equity_row list \<Rightarrow> scenario \<Rightarrow> run_metrics result" where
  "stress_metrics_from_base base curve scen = bindE (stress_initial_equity base) (\<lambda>equity.
     let m = scenario_multiplier scen; (gross, net) = stress_equity m equity curve in
     validate_metrics (base\<lparr>mt_schema := V2_SCHEMA_VERSION, mt_status := RUN_SUCCEEDED, mt_gross_return := f_sub gross equity,
       mt_net_return := f_sub net equity, mt_gross_equity := gross, mt_net_equity := net, mt_fee := f_mul (mt_fee base) m,
       mt_spread := f_mul (mt_spread base) m, mt_slippage := f_mul (mt_slippage base) m, mt_impact := f_mul (mt_impact base) m,
       mt_transaction := f_mul (mt_transaction base) m, mt_gross_only := False, mt_flags := default_flags\<rparr>))"

definition cost_fragile :: "scenario \<Rightarrow> run_metrics \<Rightarrow> run_metrics \<Rightarrow> bool" where
  "cost_fragile scen base m \<longleftrightarrow> scen \<noteq> BASE \<and> f_gt (mt_net_return base) (Fin 0) \<and> f_le (mt_net_return m) (Fin 0)"

definition stress_row_of :: "cost_config \<Rightarrow> string \<Rightarrow> scenario \<Rightarrow> run_metrics \<Rightarrow> run_metrics \<Rightarrow> stress_row" where
  "stress_row_of c h scen base m =
     [(''scenario_id'', JStr (scenario_value scen)), (''cost_model_id'', JStr (cc_id c)), (''cost_model_hash'', JStr h),
      (''cost_multiplier'', JFloat (scenario_multiplier scen)), (''gross_return'', JFloat (mt_gross_return m)),
      (''net_return'', JFloat (mt_net_return m)), (''gross_equity_final'', JFloat (mt_gross_equity m)),
      (''net_equity_final'', JFloat (mt_net_equity m)), (''total_fee_cost'', JFloat (mt_fee m)), (''total_spread_cost'', JFloat (mt_spread m)),
      (''total_slippage_cost'', JFloat (mt_slippage m)), (''total_impact_cost'', JFloat (mt_impact m)),
      (''total_transaction_cost'', JFloat (mt_transaction m)), (''total_funding_pnl'', JFloat (mt_funding m)),
      (''total_turnover'', JFloat (mt_turnover m)), (''trade_count'', JInt (mt_trades m)), (''capacity_blocked_count'', JInt (mt_blocked m)),
      (''cost_fragile_warning'', JBool (cost_fragile scen base m)), (''cost_dependent_failure'', JBool (cost_fragile scen base m)),
      (''research_only'', JBool True), (''observe_only'', JBool True), (''promotion_ready'', JBool False)]"

definition scenario_metrics :: "run_metrics \<Rightarrow> equity_row list \<Rightarrow> scenario \<Rightarrow> run_metrics result" where
  "scenario_metrics base curve scen = (if scen = BASE then Inr base else stress_metrics_from_base base curve scen)"

definition cost_stress_rows :: "run_config \<Rightarrow> run_metrics \<Rightarrow> equity_row list \<Rightarrow> stress_row list result" where
  "cost_stress_rows c base curve = bindE (effective_cost_model c) (\<lambda>cost.
     bindE (mapE (\<lambda>scen. bindE (scenario_metrics base curve scen) (\<lambda>m. Inr (scen, m))) (rn_scenarios c)) (\<lambda>ms.
     mapE (\<lambda>(scen, m). bindE (cost_model_hash cost) (\<lambda>h. Inr (stress_row_of cost h scen base m))) ms))"

section \<open>Runs\<close>

text \<open>
  \<open>run_vectorized_backtest\<close> inside its \<open>try\<close>: the lane is checked, a frame is compiled unless one is given,
  the lane simulates it, and the stress rows are added.  The simulation of the fast lane, which computes
  on numpy matrices, is an argument.
\<close>

definition with_stress :: "run_config \<Rightarrow> simulation \<Rightarrow> simulation result" where
  "with_stress c sim = bindE (cost_stress_rows c (si_metrics sim) (si_curve sim)) (\<lambda>stress. Inr (sim\<lparr>si_stress := stress\<rparr>))"

type_synonym lane_simulation = "run_config \<Rightarrow> strategy_spec \<Rightarrow> signal_frame \<Rightarrow> pyrow list \<Rightarrow> string \<Rightarrow> simulation result"

definition vectorized_run ::
  "lane_simulation \<Rightarrow> senv \<Rightarrow> run_config \<Rightarrow> strategy_spec \<Rightarrow> signal_frame option \<Rightarrow> pyrow list \<Rightarrow> string \<Rightarrow> simulation result" where
  "vectorized_run fast env c spec frame panel run_id =
     bindE (guardE (rn_lane c \<in> {VECTORIZED, FAST_VECTORIZED}) (BacktestEngineError (''unsupported vectorized lane: '' @ lane_value (rn_lane c)))) (\<lambda>_.
     bindE (guardE (rn_require_net c) (BacktestEngineError ''gross_only_metrics_rejected'')) (\<lambda>_.
     bindE (case frame of Some f \<Rightarrow> Inr f | None \<Rightarrow> compile_signal_frame env spec panel) (\<lambda>f.
     bindE (if rn_lane c = FAST_VECTORIZED then fast c spec f panel run_id
       else simulate_vectorized (base_env env) c spec f panel run_id BASE) (with_stress c))))"

text \<open>The configuration that a recomputation rebuilds from a manifest, and the recomputation itself.\<close>

definition config_of_manifest :: "run_manifest \<Rightarrow> cost_config \<Rightarrow> string \<Rightarrow> run_config" where
  "config_of_manifest m cost out_root =
     \<lparr>rn_schema = V2_SCHEMA_VERSION, rn_run_id = Some (rm_run_id m), rn_experiment = rm_experiment m, rn_trial = rm_trial m,
      rn_agent = rm_agent m, rn_output_root = out_root, rn_archive_snapshot = rm_archive_snapshot m,
      rn_universe_snapshot = rm_universe_snapshot m, rn_data_manifest = rm_data_manifest m, rn_data_hash = rm_data_hash m,
      rn_validation_hash = rm_validation_hash m, rn_cost_hash = rm_cost_hash m, rn_validation_policy = rm_validation_policy m,
      rn_cost_model_id = rm_cost_model_id m, rn_cost_model = Some cost, rn_lane = rm_lane m, rn_missing_policy = rm_missing_policy m,
      rn_equity = Fin 1, rn_fee_bps = Fin 6, rn_spread_bps = Fin 5, rn_spread_policy = ''lenient'', rn_slippage_bps = Fin 3,
      rn_impact_bps = Fin 1, rn_notional = rm_notional m, rn_max_participation = fl (5/100), rn_scenarios = [BASE, STRESS_2X, STRESS_3X],
      rn_artifact_mode = FULL, rn_benchmark_enabled = False, rn_benchmarks = [], rn_fast_lane_policy = ''fast_lane_reference_authority_v1'',
      rn_reference_authority = True, rn_audit_sample_rate = Fin 0, rn_speedup_claimed = False, rn_require_net = True,
      rn_lockbox_policy = rm_lockbox_policy m, rn_lockbox_start = rm_lockbox_start m, rn_lockbox_end = rm_lockbox_end m,
      rn_coverage_min = rm_coverage_min m, rn_universe_mode = rm_universe_mode m, rn_venue_scope = rm_venue_scope m,
      rn_git_sha = rm_git_sha m, rn_environment_hash = Some (rm_environment_hash m)\<rparr>"

definition recompute_metrics :: "senv \<Rightarrow> run_manifest \<Rightarrow> strategy_spec \<Rightarrow> cost_config \<Rightarrow> string \<Rightarrow> pyrow list \<Rightarrow> run_metrics result" where
  "recompute_metrics env m spec cost out_root panel =
     bindE (validate_run_config (config_of_manifest m cost out_root)) (\<lambda>c.
     bindE (guardE (rm_lane m = VECTORIZED) (BacktestEngineError ''only vectorized runs can be recomputed'')) (\<lambda>_.
     bindE (compile_signal_frame env spec panel) (\<lambda>f.
     bindE (simulate_vectorized (base_env env) c spec f panel (rm_run_id m) BASE) (\<lambda>sim. Inr (si_metrics sim)))))"

definition usable_months :: "instant \<Rightarrow> instant \<Rightarrow> int" where
  "usable_months st en = (case (date_of st, date_of en) of ((y, m, d), (y', m', d')) \<Rightarrow> max 0 ((y' - y) * 12 + (m' - m)))"

subsection \<open>The event-driven entry point\<close>

record micro_event =
  me_raw :: pyrow
  me_ts :: instant
  me_instrument :: string
  me_type :: string
  me_sequence :: int

fun py_int :: "senv \<Rightarrow> pyval \<Rightarrow> int result" where
  "py_int env (VInt i) = Inr i"
| "py_int env (VBool b) = Inr (if b then 1 else 0)"
| "py_int env (VFloat x) = int_of_float x"
| "py_int env (VStr s) = int_of_text env s"
| "py_int env v = Inl (TypeError ''int() argument must be a string or a real number'')"

definition micro_row :: "senv \<Rightarrow> nat \<times> pyrow \<Rightarrow> micro_event result" where
  "micro_row env ir = (case ir of (index, row) \<Rightarrow>
     let missing = filter (\<lambda>f. map_of row f = None) [''ts'', ''instrument_id'', ''event_type'']; typ = lower (py_str (row_get row ''event_type'')) in
     bindE (guardE (missing = []) (BacktestEngineError (''event_microstructure_row_missing_fields:'' @ string_of_nat index @ '':'' @ join '','' missing))) (\<lambda>_.
     bindE (guardE (typ \<in> {''trade'', ''bbo'', ''l2''}) (BacktestEngineError (''unsupported_microstructure_event_type:'' @ typ))) (\<lambda>_.
     bindE (engine_timestamp (base_env env) (row_get row ''ts'')) (\<lambda>ts.
     bindE (case map_of row ''sequence'' of None \<Rightarrow> Inr (int index) | Some v \<Rightarrow> py_int env v) (\<lambda>n.
     Inr \<lparr>me_raw = row, me_ts = ts, me_instrument = py_str (row_get row ''instrument_id''), me_type = typ, me_sequence = n\<rparr>)))))"

definition normalize_microstructure_events :: "senv \<Rightarrow> pyrow list \<Rightarrow> micro_event list result" where
  "normalize_microstructure_events env rows =
     bindE (mapE (micro_row env) (zip [0..<length rows] rows)) (\<lambda>events.
     bindE (guardE (events \<noteq> []) (BacktestEngineError ''event_microstructure_rows_required'')) (\<lambda>_.
     bindE (guardE (list_ex (\<lambda>e. me_type e \<in> {''bbo'', ''l2''}) events) (BacktestEngineError ''event_microstructure_bbo_or_l2_required'')) (\<lambda>_.
     Inr (sorted_by (\<lambda>e. (me_ts e, me_instrument e, me_sequence e)) events))))"

definition reject_undocumented_maker :: "run_config \<Rightarrow> strategy_spec \<Rightarrow> unit result" where
  "reject_undocumented_maker c spec =
     (let documented = (case rn_cost_model c of None \<Rightarrow> False | Some m \<Rightarrow> cc_queue_documented m);
          markers = join '' '' [lower (rn_cost_model_id c), lower (ec_fee_model (sp_execution spec)),
            (case rn_cost_model c of None \<Rightarrow> [] | Some m \<Rightarrow> lower (cc_fee_side m))] in
      guardE (\<not> ((contains ''maker'' markers \<or> contains ''mixed'' markers) \<and> \<not> documented)) (BacktestEngineError ''maker_assumption_requires_queue_model''))"

definition event_driven_run :: "senv \<Rightarrow> run_config \<Rightarrow> strategy_spec \<Rightarrow> pyrow list \<Rightarrow> pyrow list \<Rightarrow> string \<Rightarrow> simulation result" where
  "event_driven_run env c spec panel events run_id =
     bindE (guardE (rn_require_net c) (BacktestEngineError ''gross_only_metrics_rejected'')) (\<lambda>_.
     bindE (normalize_microstructure_events env events) (\<lambda>_.
     bindE (reject_undocumented_maker c spec) (\<lambda>_.
     bindE (compile_signal_frame env spec panel) (\<lambda>f.
     bindE (simulate_vectorized (base_env env) (c\<lparr>rn_lane := EVENT_DRIVEN\<rparr>) spec f panel run_id BASE)
       (with_stress (c\<lparr>rn_lane := EVENT_DRIVEN\<rparr>))))))"

end
