(* ===== verification/FastLane.thy ===== *)
theory FastLane
  imports RunModels ArchiveLayout
begin

text \<open>
  \<open>backtest_engine/fast_lane.py\<close>: the audit of a fast run against its reference run, the plan of a
  reference rerun, the replay of a light run to full artifacts with its verification, and the choice
  of the runs to audit.  Manifests are the validated records of \<open>RunModels\<close>.
\<close>

section \<open>Compared fields\<close>

definition METRIC_FIELDS :: "(string \<times> (run_metrics \<Rightarrow> pyfloat result)) list" where
  "METRIC_FIELDS = [(''gross_return'', Inr \<circ> mt_gross_return), (''net_return'', Inr \<circ> mt_net_return),
     (''gross_equity_final'', Inr \<circ> mt_gross_equity), (''net_equity_final'', Inr \<circ> mt_net_equity),
     (''total_fee_cost'', Inr \<circ> mt_fee), (''total_spread_cost'', Inr \<circ> mt_spread), (''total_slippage_cost'', Inr \<circ> mt_slippage),
     (''total_impact_cost'', Inr \<circ> mt_impact), (''total_transaction_cost'', Inr \<circ> mt_transaction),
     (''total_funding_pnl'', Inr \<circ> mt_funding), (''total_turnover'', Inr \<circ> mt_turnover),
     (''trade_count'', float_of_int \<circ> mt_trades), (''position_row_count'', float_of_int \<circ> mt_positions),
     (''capacity_blocked_count'', float_of_int \<circ> mt_blocked)]"

text \<open>\<open>getattr(reference, field) != getattr(fast, field)\<close> for each identity field, in the order of the table.\<close>

definition differing :: "(string \<times> bool) list \<Rightarrow> string list" where
  "differing pairs = map fst (filter (\<lambda>(f, same). \<not> same) pairs)"

definition identity_fields :: "run_manifest \<Rightarrow> run_manifest \<Rightarrow> (string \<times> bool) list" where
  "identity_fields a b =
     [(''strategy_spec_hash'', rm_strategy_spec_hash a = rm_strategy_spec_hash b), (''params_hash'', rm_params_hash a = rm_params_hash b),
      (''archive_snapshot_id'', rm_archive_snapshot a = rm_archive_snapshot b), (''universe_snapshot_id'', rm_universe_snapshot a = rm_universe_snapshot b),
      (''data_manifest_id'', rm_data_manifest a = rm_data_manifest b), (''data_manifest_hash'', rm_data_hash a = rm_data_hash b),
      (''validation_manifest_hash'', rm_validation_hash a = rm_validation_hash b), (''cost_manifest_hash'', rm_cost_hash a = rm_cost_hash b),
      (''cost_model_hash'', rm_cost_model_hash a = rm_cost_model_hash b), (''timeframe'', rm_timeframe a = rm_timeframe b),
      (''backtest_start'', rm_start a = rm_start b), (''backtest_end'', rm_end a = rm_end b)]"

definition identity_mismatches :: "run_manifest \<Rightarrow> run_manifest \<Rightarrow> string list" where
  "identity_mismatches a b = differing (identity_fields a b)"

definition full_replay_identity_fields :: "run_manifest \<Rightarrow> run_manifest \<Rightarrow> (string \<times> bool) list" where
  "full_replay_identity_fields a b =
     [(''strategy_spec_hash'', rm_strategy_spec_hash a = rm_strategy_spec_hash b), (''params_hash'', rm_params_hash a = rm_params_hash b),
      (''archive_snapshot_id'', rm_archive_snapshot a = rm_archive_snapshot b), (''universe_snapshot_id'', rm_universe_snapshot a = rm_universe_snapshot b),
      (''data_manifest_id'', rm_data_manifest a = rm_data_manifest b), (''data_manifest_hash'', rm_data_hash a = rm_data_hash b),
      (''validation_manifest_hash'', rm_validation_hash a = rm_validation_hash b), (''cost_manifest_hash'', rm_cost_hash a = rm_cost_hash b),
      (''cost_model_id'', rm_cost_model_id a = rm_cost_model_id b), (''cost_model_hash'', rm_cost_model_hash a = rm_cost_model_hash b),
      (''universe_mode'', rm_universe_mode a = rm_universe_mode b), (''venue_scope'', rm_venue_scope a = rm_venue_scope b),
      (''instrument_count'', rm_instruments a = rm_instruments b), (''timeframe'', rm_timeframe a = rm_timeframe b),
      (''backtest_start'', rm_start a = rm_start b), (''backtest_end'', rm_end a = rm_end b),
      (''lockbox_policy_id'', rm_lockbox_policy a = rm_lockbox_policy b), (''lockbox_start'', rm_lockbox_start a = rm_lockbox_start b),
      (''lockbox_end'', rm_lockbox_end a = rm_lockbox_end b), (''data_coverage_min'', f_eq (rm_coverage_min a) (rm_coverage_min b)),
      (''validation_policy_id'', rm_validation_policy a = rm_validation_policy b), (''missing_data_policy'', rm_missing_policy a = rm_missing_policy b),
      (''price_basis'', rm_price_basis a = rm_price_basis b)]"

definition full_replay_identity_mismatches :: "run_manifest \<Rightarrow> run_manifest \<Rightarrow> string list" where
  "full_replay_identity_mismatches a b = differing (full_replay_identity_fields a b)"

definition REPLAY_MANIFEST_IDENTITY_FIELDS :: "string list" where
  "REPLAY_MANIFEST_IDENTITY_FIELDS = [''strategy_spec_hash'', ''params_hash'', ''archive_snapshot_id'', ''universe_snapshot_id'',
     ''data_manifest_id'', ''data_manifest_hash'', ''validation_manifest_hash'', ''cost_manifest_hash'', ''engine_lane'', ''cost_model_id'',
     ''cost_model_hash'', ''panel_row_count'', ''panel_hash'', ''full_replay_requires_same_spec_data_config'']"

text \<open>
  Equality of two JSON values in Python: truth values and numbers compare by value, so \<open>True == 1 == 1.0\<close>.
\<close>

fun json_number :: "json \<Rightarrow> pyfloat option" where
  "json_number (JBool b) = Some (Fin (if b then 1 else 0))"
| "json_number (JInt i) = Some (Fin (of_int i))"
| "json_number (JFloat x) = Some x"
| "json_number v = None"

lemma size_zip_left: "(x, y) \<in> set (zip xs ys) \<Longrightarrow> size x \<le> size_list size xs"
  by (induction xs ys rule: list_induct2') auto

function py_eq :: "json \<Rightarrow> json \<Rightarrow> bool" where
  "py_eq v w = (case (json_number v, json_number w) of
     (Some x, Some y) \<Rightarrow> f_eq x y
   | (None, None) \<Rightarrow> (case (v, w) of
       (JNull, JNull) \<Rightarrow> True
     | (JStr s, JStr t) \<Rightarrow> s = t
     | (JList xs, JList ys) \<Rightarrow> length xs = length ys \<and> list_all (\<lambda>(x, y). py_eq x y) (zip xs ys)
     | (JObj kvs, JObj lws) \<Rightarrow> set (map fst kvs) = set (map fst lws) \<and>
         list_all (\<lambda>(k, x). case map_of lws k of None \<Rightarrow> False | Some y \<Rightarrow> py_eq x y) kvs
     | _ \<Rightarrow> False)
   | _ \<Rightarrow> False)"
  by pat_completeness auto
termination
  by (relation "measure (\<lambda>(v, w). size v)")
     (auto simp: less_Suc_eq_le dest: size_pair_member size_zip_left)

declare py_eq.simps [simp del]

text \<open>\<open>Mapping.get\<close>: an absent key reads as None.\<close>

definition json_get :: "(string \<times> json) list \<Rightarrow> string \<Rightarrow> json" where
  "json_get d k = (case map_of d k of None \<Rightarrow> JNull | Some v \<Rightarrow> v)"

definition replay_manifest_identity_mismatches :: "(string \<times> json) list \<Rightarrow> (string \<times> json) list \<Rightarrow> string list" where
  "replay_manifest_identity_mismatches a b = filter (\<lambda>f. \<not> py_eq (json_get a f) (json_get b f)) REPLAY_MANIFEST_IDENTITY_FIELDS"

definition FULL_ARTIFACTS :: "string list" where
  "FULL_ARTIFACTS = [''strategy_spec'', ''params'', ''data_manifest'', ''validation_manifest'', ''cost_manifest'', ''metrics'',
     ''replay_manifest'', ''equity_curve'', ''daily_returns'', ''per_instrument_metrics'', ''fold_metrics'', ''cost_stress'', ''trades'',
     ''positions'', ''log'']"

section \<open>Differences of metrics\<close>

text \<open>The two difference records have the same fields up to the names of the two values.\<close>

record metric_diff =
  md_metric :: string
  md_reference :: pyfloat
  md_fast :: pyfloat
  md_abs_diff :: pyfloat
  md_tolerance :: pyfloat
  md_within :: bool

definition validate_diff :: "metric_diff \<Rightarrow> metric_diff result" where
  "validate_diff d = validate_model [(md_metric d \<noteq> [], ''metric''), (f_ge (md_abs_diff d) (Fin 0), ''abs_diff''),
     (f_ge (md_tolerance d) (Fin 0), ''tolerance_abs'')] [] d"

definition diff_of :: "pyfloat \<Rightarrow> string \<Rightarrow> pyfloat \<Rightarrow> pyfloat \<Rightarrow> metric_diff" where
  "diff_of tol metric x y = (let d = f_abs (f_sub x y) in
     \<lparr>md_metric = metric, md_reference = x, md_fast = y, md_abs_diff = d, md_tolerance = tol, md_within = f_le d tol\<rparr>)"

definition metric_diffs_of :: "pyfloat \<Rightarrow> run_metrics \<Rightarrow> run_metrics \<Rightarrow> metric_diff list result" where
  "metric_diffs_of tol a b = mapE (\<lambda>(metric, get). bindE (get a) (\<lambda>x. bindE (get b) (\<lambda>y. validate_diff (diff_of tol metric x y)))) METRIC_FIELDS"

definition diff_json :: "string \<times> string \<Rightarrow> metric_diff \<Rightarrow> json" where
  "diff_json names d = JObj [(''metric'', JStr (md_metric d)), (fst names, JFloat (md_reference d)), (snd names, JFloat (md_fast d)),
     (''abs_diff'', JFloat (md_abs_diff d)), (''tolerance_abs'', JFloat (md_tolerance d)), (''within_tolerance'', JBool (md_within d))]"

section \<open>Plans\<close>

text \<open>\<open>str(Path(manifest_ref).parent / replay_ref)\<close>\<close>

fun path_text :: "path \<Rightarrow> string" where
  "path_text (Path a ps) = (if a then ''/'' @ join ''/'' ps else if ps = [] then ''.'' else join ''/'' ps)"

fun path_parent :: "path \<Rightarrow> path" where
  "path_parent (Path a ps) = Path a (butlast ps)"

definition replay_ref_of :: "string option \<Rightarrow> string \<Rightarrow> string" where
  "replay_ref_of manifest_ref replay = (case manifest_ref of None \<Rightarrow> replay
     | Some r \<Rightarrow> path_text (path_join (path_parent (parse_path r)) (parse_path replay)))"

record rerun_plan =
  rp_id :: string
  rp_source :: string
  rp_planned :: string
  rp_reason :: string
  rp_lane :: engine_lane
  rp_mode :: artifact_mode
  rp_replay_ref :: string
  rp_data_manifest :: string
  rp_data_hash :: string
  rp_spec_hash :: string
  rp_params_hash :: string
  rp_same_required :: bool
  rp_overrides :: "(string \<times> json) list"
  rp_flags :: flags

definition validate_rerun_plan :: "rerun_plan \<Rightarrow> rerun_plan result" where
  "validate_rerun_plan p = validate_model
     [(is_digest (rp_id p), ''rerun_plan_id''), (rp_source p \<noteq> [], ''source_run_id''), (rp_planned p \<noteq> [], ''planned_run_id''),
      (rp_reason p \<noteq> [], ''reason''), (rp_replay_ref p \<noteq> [], ''required_replay_manifest_ref''),
      (rp_data_manifest p \<noteq> [], ''required_data_manifest_id''), (is_digest (rp_data_hash p), ''expected_data_manifest_hash''),
      (is_digest (rp_spec_hash p), ''expected_strategy_spec_hash''), (is_digest (rp_params_hash p), ''expected_params_hash'')]
     [(rp_lane p \<noteq> VECTORIZED, ''reference rerun plans must use the vectorized reference lane''),
      (rp_mode p \<noteq> FULL, ''reference rerun plans must replay to full artifacts''),
      boundary_entry ''fast-lane reference rerun plan'' (rp_flags p)] p"

definition rerun_overrides :: "run_manifest \<Rightarrow> string \<Rightarrow> (string \<times> json) list" where
  "rerun_overrides m planned =
     [(''run_id'', JStr planned), (''engine_lane'', JStr (lane_value VECTORIZED)), (''artifact_mode'', JStr (artifact_mode_value FULL)),
      (''expected_data_manifest_id'', JStr (rm_data_manifest m)), (''expected_data_manifest_hash'', JStr (rm_data_hash m)),
      (''expected_strategy_spec_hash'', JStr (rm_strategy_spec_hash m)), (''expected_params_hash'', JStr (rm_params_hash m)),
      (''reference_engine_authority'', JBool True), (''speedup_claimed'', JBool False)]"

definition rerun_payload :: "rerun_plan \<Rightarrow> (string \<times> json) list" where
  "rerun_payload p =
     [(''source_run_id'', JStr (rp_source p)), (''planned_run_id'', JStr (rp_planned p)), (''reason'', JStr (rp_reason p)),
      (''requested_engine_lane'', JStr (lane_value (rp_lane p))), (''requested_artifact_mode'', JStr (artifact_mode_value (rp_mode p))),
      (''required_replay_manifest_ref'', JStr (rp_replay_ref p)), (''required_data_manifest_id'', JStr (rp_data_manifest p)),
      (''expected_data_manifest_hash'', JStr (rp_data_hash p)), (''expected_strategy_spec_hash'', JStr (rp_spec_hash p)),
      (''expected_params_hash'', JStr (rp_params_hash p)), (''same_spec_data_config_required'', JBool (rp_same_required p)),
      (''config_overrides'', JObj (rp_overrides p))]"

definition plan_of_rerun :: "run_manifest \<Rightarrow> string \<Rightarrow> string \<Rightarrow> rerun_plan" where
  "plan_of_rerun m replay reason = (let planned = rm_run_id m @ ''-reference-audit'' in
     \<lparr>rp_id = [], rp_source = rm_run_id m, rp_planned = planned, rp_reason = reason, rp_lane = VECTORIZED, rp_mode = FULL,
      rp_replay_ref = replay, rp_data_manifest = rm_data_manifest m, rp_data_hash = rm_data_hash m,
      rp_spec_hash = rm_strategy_spec_hash m, rp_params_hash = rm_params_hash m, rp_same_required = True,
      rp_overrides = rerun_overrides m planned, rp_flags = default_flags\<rparr>)"

definition build_reference_rerun_plan :: "run_manifest \<Rightarrow> string option \<Rightarrow> string \<Rightarrow> rerun_plan result" where
  "build_reference_rerun_plan m manifest_ref reason =
     (if rm_lane m \<noteq> FAST_VECTORIZED then Inl (ValueError ''reference rerun plans can only be built from fast_vectorized manifests'')
      else case map_of (rm_artifacts m) ''replay_manifest'' of
        None \<Rightarrow> Inl (ValueError ''fast manifest is missing replay_manifest artifact'')
      | Some a \<Rightarrow> (let p = plan_of_rerun m (replay_ref_of manifest_ref (af_path a)) reason in
          bindE (canonical_json_hash (JObj ([(''schema_version'', JStr V2_SCHEMA_VERSION), (''plan_type'', JStr ''fast_lane_reference_rerun_plan_v1'')] @ rerun_payload p)))
            (\<lambda>h. validate_rerun_plan (p\<lparr>rp_id := h\<rparr>))))"

text \<open>\<open>model_dump(mode="json")\<close> of a plan.\<close>

definition boundary_dump :: "flags \<Rightarrow> (string \<times> json) list" where
  "boundary_dump f = [(''research_only'', JBool (research_only f)), (''observe_only'', JBool (observe_only f)),
     (''promotion_ready'', JBool (promotion_ready f)), (''candidate_evidence'', JBool (candidate_evidence f)),
     (''candidate_pack_eligible'', JBool (candidate_pack_eligible f)), (''live_signal'', JBool (live_signal f)),
     (''paper_signal'', JBool (paper_signal f)), (''sizing_instruction'', JBool (sizing_instruction f)),
     (''order_placement_instruction'', JBool (order_placement_instruction f)), (''runtime_mode_change'', JBool (runtime_mode_change f))]"

definition rerun_plan_json :: "rerun_plan \<Rightarrow> json" where
  "rerun_plan_json p = JObj ([(''schema_version'', JStr V2_SCHEMA_VERSION), (''rerun_plan_id'', JStr (rp_id p))] @ rerun_payload p @ boundary_dump (rp_flags p))"

record replay_plan =
  yp_id :: string
  yp_source :: string
  yp_planned :: string
  yp_reason :: string
  yp_source_lane :: engine_lane
  yp_lane :: engine_lane
  yp_source_mode :: artifact_mode
  yp_mode :: artifact_mode
  yp_replay_ref :: string
  yp_data_manifest :: string
  yp_data_hash :: string
  yp_spec_hash :: string
  yp_params_hash :: string
  yp_identity_hash :: string
  yp_same_required :: bool
  yp_authority :: bool
  yp_overrides :: "(string \<times> json) list"
  yp_flags :: flags

definition validate_replay_plan :: "replay_plan \<Rightarrow> replay_plan result" where
  "validate_replay_plan p = validate_model
     [(is_digest (yp_id p), ''replay_plan_id''), (yp_source p \<noteq> [], ''source_run_id''), (yp_planned p \<noteq> [], ''planned_run_id''),
      (yp_reason p \<noteq> [], ''reason''), (yp_replay_ref p \<noteq> [], ''required_replay_manifest_ref''),
      (yp_data_manifest p \<noteq> [], ''required_data_manifest_id''), (is_digest (yp_data_hash p), ''expected_data_manifest_hash''),
      (is_digest (yp_spec_hash p), ''expected_strategy_spec_hash''), (is_digest (yp_params_hash p), ''expected_params_hash''),
      (is_digest (yp_identity_hash p), ''expected_replay_identity_hash'')]
     [(yp_source_mode p = FULL, ''full artifact replay plans require a light source artifact mode''),
      (yp_mode p \<noteq> FULL, ''full artifact replay plans must request full artifacts''),
      (yp_lane p \<noteq> yp_source_lane p, ''full artifact replay plans preserve the source engine lane''),
      boundary_entry ''full-artifact replay plan'' (yp_flags p)] p"

definition replay_overrides :: "run_manifest \<Rightarrow> string \<Rightarrow> string \<Rightarrow> (string \<times> json) list" where
  "replay_overrides m planned identity =
     [(''run_id'', JStr planned), (''engine_lane'', JStr (lane_value (rm_lane m))), (''artifact_mode'', JStr (artifact_mode_value FULL)),
      (''expected_data_manifest_id'', JStr (rm_data_manifest m)), (''expected_data_manifest_hash'', JStr (rm_data_hash m)),
      (''expected_strategy_spec_hash'', JStr (rm_strategy_spec_hash m)), (''expected_params_hash'', JStr (rm_params_hash m)),
      (''expected_replay_identity_hash'', JStr identity), (''reference_engine_authority'', JBool (rm_reference_authority m)),
      (''speedup_claimed'', JBool False)]"

definition replay_payload :: "replay_plan \<Rightarrow> (string \<times> json) list" where
  "replay_payload p =
     [(''source_run_id'', JStr (yp_source p)), (''planned_run_id'', JStr (yp_planned p)), (''reason'', JStr (yp_reason p)),
      (''source_engine_lane'', JStr (lane_value (yp_source_lane p))), (''requested_engine_lane'', JStr (lane_value (yp_lane p))),
      (''source_artifact_mode'', JStr (artifact_mode_value (yp_source_mode p))),
      (''requested_artifact_mode'', JStr (artifact_mode_value (yp_mode p))),
      (''required_replay_manifest_ref'', JStr (yp_replay_ref p)), (''required_data_manifest_id'', JStr (yp_data_manifest p)),
      (''expected_data_manifest_hash'', JStr (yp_data_hash p)), (''expected_strategy_spec_hash'', JStr (yp_spec_hash p)),
      (''expected_params_hash'', JStr (yp_params_hash p)), (''expected_replay_identity_hash'', JStr (yp_identity_hash p)),
      (''same_spec_data_config_required'', JBool (yp_same_required p)), (''reference_engine_authority'', JBool (yp_authority p)),
      (''config_overrides'', JObj (yp_overrides p))]"

definition plan_of_replay :: "run_manifest \<Rightarrow> string \<Rightarrow> string \<Rightarrow> string \<Rightarrow> replay_plan" where
  "plan_of_replay m replay identity reason = (let planned = rm_run_id m @ ''-full-artifacts'' in
     \<lparr>yp_id = [], yp_source = rm_run_id m, yp_planned = planned, yp_reason = reason, yp_source_lane = rm_lane m, yp_lane = rm_lane m,
      yp_source_mode = rm_artifact_mode m, yp_mode = FULL, yp_replay_ref = replay, yp_data_manifest = rm_data_manifest m,
      yp_data_hash = rm_data_hash m, yp_spec_hash = rm_strategy_spec_hash m, yp_params_hash = rm_params_hash m,
      yp_identity_hash = identity, yp_same_required = True, yp_authority = rm_reference_authority m,
      yp_overrides = replay_overrides m planned identity, yp_flags = default_flags\<rparr>)"

definition build_full_artifact_replay_plan :: "run_manifest \<Rightarrow> string option \<Rightarrow> string \<Rightarrow> replay_plan result" where
  "build_full_artifact_replay_plan m manifest_ref reason =
     (if rm_artifact_mode m = FULL then Inl (ValueError ''run manifest already has full artifact mode'')
      else if \<not> rm_replayable m then Inl (ValueError ''run manifest is not replayable to full artifacts'')
      else case map_of (rm_artifacts m) ''replay_manifest'' of
        None \<Rightarrow> Inl (ValueError ''run manifest is missing replay_manifest artifact'')
      | Some a \<Rightarrow> (case rm_replay_hash m of
          None \<Rightarrow> Inl (ValueError ''run manifest is missing replay_identity_hash'')
        | Some identity \<Rightarrow> (let p = plan_of_replay m (replay_ref_of manifest_ref (af_path a)) identity reason in
            bindE (canonical_json_hash (JObj ([(''schema_version'', JStr V2_SCHEMA_VERSION), (''plan_type'', JStr ''full_artifact_replay_plan_v1'')] @ replay_payload p)))
              (\<lambda>h. validate_replay_plan (p\<lparr>yp_id := h\<rparr>)))))"

section \<open>The parity report\<close>

datatype parity_status = PARITY_PASS | PARITY_FAIL | PARITY_BLOCKED

fun parity_value :: "parity_status \<Rightarrow> string" where
  "parity_value PARITY_PASS = ''pass''"
| "parity_value PARITY_FAIL = ''fail''"
| "parity_value PARITY_BLOCKED = ''blocked''"

record parity_report =
  fp_id :: string
  fp_status :: parity_status
  fp_reference :: string
  fp_fast :: string
  fp_tolerance :: pyfloat
  fp_diffs :: "metric_diff list"
  fp_mismatches :: "string list"
  fp_blockers :: "string list"
  fp_suspicious :: bool
  fp_rerun :: "rerun_plan option"
  fp_benchmarks :: "(string \<times> pyfloat) list"
  fp_speedup_claimed :: bool
  fp_authority :: bool
  fp_flags :: flags

definition validate_parity_report :: "parity_report \<Rightarrow> parity_report result" where
  "validate_parity_report r = validate_model
     [(is_digest (fp_id r), ''parity_report_id''), (fp_reference r \<noteq> [], ''reference_run_id''), (fp_fast r \<noteq> [], ''fast_run_id''),
      (f_ge (fp_tolerance r) (Fin 0), ''tolerance_abs'')]
     ([(fp_status r = PARITY_PASS \<and> fp_suspicious r, ''passing parity reports cannot be suspicious''),
       (fp_status r = PARITY_FAIL \<and> fp_rerun r = None, ''failed fast-lane reports require a reference rerun plan'')]
      @ benchmark_entries (fp_speedup_claimed r) (fp_benchmarks r) @ [boundary_entry ''fast-lane parity report'' (fp_flags r)]) r"

definition observation :: "string \<Rightarrow> pyfloat option \<Rightarrow> (string \<times> pyfloat) list" where
  "observation key v = (case v of None \<Rightarrow> [] | Some x \<Rightarrow> [(key, x)])"

definition speedup_ratio :: "pyfloat option \<Rightarrow> pyfloat option \<Rightarrow> (string \<times> pyfloat) list result" where
  "speedup_ratio reference fast = (case (reference, fast) of
     (Some x, Some y) \<Rightarrow> if f_gt y (Fin 0) then bindE (f_div x y) (\<lambda>r. Inr [(''speedup_ratio'', r)]) else Inr []
   | _ \<Rightarrow> Inr [])"

definition parity_benchmark_observations :: "run_manifest \<Rightarrow> run_manifest \<Rightarrow> (string \<times> pyfloat) list result" where
  "parity_benchmark_observations a b =
     (let ref = map_of (rm_benchmarks a); fast = map_of (rm_benchmarks b) in
      bindE (speedup_ratio (ref ''reference_runtime_seconds'') (fast ''fast_runtime_seconds'')) (\<lambda>ratio.
      Inr (sorted_by fst (observation ''reference_runtime_seconds'' (ref ''reference_runtime_seconds'')
        @ observation ''fast_runtime_seconds'' (fast ''fast_runtime_seconds'') @ ratio
        @ concat (map (\<lambda>key. observation (''reference_'' @ key) (ref key) @ observation (''fast_'' @ key) (fast key))
            [''data_load_seconds'', ''artifact_write_seconds'', ''memory_peak_bytes''])))))"

definition parity_blockers :: "run_manifest \<Rightarrow> run_manifest \<Rightarrow> string list" where
  "parity_blockers a b =
     (if rm_lane a \<noteq> VECTORIZED then [''reference_manifest_not_vectorized''] else []) @
     (if rm_lane b \<noteq> FAST_VECTORIZED then [''fast_manifest_not_fast_vectorized''] else []) @
     (if rm_metrics a = None then [''reference_metrics_missing''] else []) @
     (if rm_metrics b = None then [''fast_metrics_missing''] else []) @
     map (\<lambda>f. ''identity_mismatch:'' @ f) (identity_mismatches a b)"

definition parity_diffs :: "pyfloat \<Rightarrow> run_manifest \<Rightarrow> run_manifest \<Rightarrow> metric_diff list result" where
  "parity_diffs tol a b = (case (rm_metrics a, rm_metrics b) of
     (Some x, Some y) \<Rightarrow> if parity_blockers a b = [] then metric_diffs_of tol x y else Inr []
   | _ \<Rightarrow> Inr [])"

definition parity_status_of :: "string list \<Rightarrow> metric_diff list \<Rightarrow> parity_status" where
  "parity_status_of blockers ds = (if blockers \<noteq> [] then PARITY_BLOCKED else if list_all md_within ds then PARITY_PASS else PARITY_FAIL)"

definition parity_rerun :: "parity_status \<Rightarrow> run_manifest \<Rightarrow> rerun_plan option result" where
  "parity_rerun status b =
     (if status \<noteq> PARITY_PASS \<and> rm_lane b = FAST_VECTORIZED \<and> ''replay_manifest'' \<in> set (map fst (rm_artifacts b))
      then bindE (build_reference_rerun_plan b None (if status = PARITY_FAIL then ''fast_lane_parity_failed'' else ''fast_lane_parity_blocked''))
        (\<lambda>p. Inr (Some p))
      else Inr None)"

definition parity_payload :: "parity_report \<Rightarrow> (string \<times> json) list" where
  "parity_payload r =
     [(''status'', JStr (parity_value (fp_status r))), (''reference_run_id'', JStr (fp_reference r)), (''fast_run_id'', JStr (fp_fast r)),
      (''tolerance_abs'', JFloat (fp_tolerance r)), (''metric_diffs'', JList (map (diff_json (''reference_value'', ''fast_value'')) (fp_diffs r))),
      (''identity_mismatches'', JList (map JStr (fp_mismatches r))), (''blocker_reasons'', JList (map JStr (fp_blockers r))),
      (''suspicious_result'', JBool (fp_suspicious r)), (''rerun_plan'', case fp_rerun r of None \<Rightarrow> JNull | Some p \<Rightarrow> rerun_plan_json p),
      (''benchmark_observations'', JObj (map (\<lambda>(k, v). (k, JFloat v)) (fp_benchmarks r))),
      (''speedup_claimed'', JBool (fp_speedup_claimed r)), (''reference_engine_authority'', JBool (fp_authority r))]"

definition parity_report_of ::
  "run_manifest \<Rightarrow> run_manifest \<Rightarrow> pyfloat \<Rightarrow> bool \<Rightarrow> metric_diff list \<Rightarrow> (string \<times> pyfloat) list \<Rightarrow> rerun_plan option \<Rightarrow> parity_report" where
  "parity_report_of a b tol claim ds benchmarks plan =
     (let blockers = parity_blockers a b; status = parity_status_of blockers ds in
      \<lparr>fp_id = [], fp_status = status, fp_reference = rm_run_id a, fp_fast = rm_run_id b, fp_tolerance = tol, fp_diffs = ds,
       fp_mismatches = identity_mismatches a b, fp_blockers = blockers, fp_suspicious = (status \<noteq> PARITY_PASS), fp_rerun = plan,
       fp_benchmarks = benchmarks, fp_speedup_claimed = claim, fp_authority = True, fp_flags = default_flags\<rparr>)"

definition audit_fast_lane_parity :: "run_manifest \<Rightarrow> run_manifest \<Rightarrow> pyfloat \<Rightarrow> bool \<Rightarrow> parity_report result" where
  "audit_fast_lane_parity a b tol claim =
     (if f_lt tol (Fin 0) then Inl (ValueError ''tolerance_abs must be non-negative'')
      else bindE (parity_diffs tol a b) (\<lambda>ds.
        bindE (parity_benchmark_observations a b) (\<lambda>benchmarks.
        bindE (parity_rerun (parity_status_of (parity_blockers a b) ds) b) (\<lambda>plan.
        let r = parity_report_of a b tol claim ds benchmarks plan in
        bindE (canonical_json_hash (JObj ([(''schema_version'', JStr V2_SCHEMA_VERSION), (''report_type'', JStr ''fast_lane_parity_report_v1'')] @ parity_payload r)))
          (\<lambda>h. validate_parity_report (r\<lparr>fp_id := h\<rparr>))))))"

section \<open>Verification of a full replay\<close>

datatype replay_status = REPLAY_PASS | REPLAY_FAIL

fun replay_status_value :: "replay_status \<Rightarrow> string" where
  "replay_status_value REPLAY_PASS = ''pass''"
| "replay_status_value REPLAY_FAIL = ''fail''"

record replay_check =
  yv_id :: string
  yv_status :: replay_status
  yv_source :: string
  yv_replay :: string
  yv_source_lane :: engine_lane
  yv_replay_lane :: engine_lane
  yv_source_mode :: artifact_mode
  yv_replay_mode :: artifact_mode
  yv_tolerance :: pyfloat
  yv_mismatches :: "string list"
  yv_manifest_mismatches :: "string list"
  yv_diffs :: "metric_diff list"
  yv_blockers :: "string list"
  yv_same_config :: bool
  yv_manifest_verified :: bool
  yv_metrics_verified :: bool
  yv_full_verified :: bool
  yv_source_hash :: "string option"
  yv_replay_hash :: "string option"
  yv_authority :: bool
  yv_flags :: flags

definition validate_replay_check :: "replay_check \<Rightarrow> replay_check result" where
  "validate_replay_check r = validate_model
     [(is_digest (yv_id r), ''verification_id''), (yv_source r \<noteq> [], ''source_run_id''), (yv_replay r \<noteq> [], ''replay_run_id''),
      (f_ge (yv_tolerance r) (Fin 0), ''tolerance_abs''),
      (case yv_source_hash r of None \<Rightarrow> True | Some h \<Rightarrow> is_digest h, ''source_replay_identity_hash''),
      (case yv_replay_hash r of None \<Rightarrow> True | Some h \<Rightarrow> is_digest h, ''replay_replay_identity_hash'')]
     [(yv_status r = REPLAY_PASS \<and> (yv_blockers r \<noteq> [] \<or> yv_mismatches r \<noteq> [] \<or> yv_manifest_mismatches r \<noteq> []),
        ''passing replay verification cannot include blockers or mismatches''),
      (yv_status r = REPLAY_PASS \<and> \<not> (yv_same_config r \<and> yv_manifest_verified r \<and> yv_metrics_verified r \<and> yv_full_verified r),
        ''passing replay verification requires all verification flags''),
      boundary_entry ''full-artifact replay verification'' (yv_flags r)] r"

definition missing_full_artifacts :: "run_manifest \<Rightarrow> string list" where
  "missing_full_artifacts m = sorted_by id (filter (\<lambda>a. a \<notin> set (map fst (rm_artifacts m))) FULL_ARTIFACTS)"

definition replay_identity_mismatches :: "run_manifest \<Rightarrow> run_manifest \<Rightarrow> string list" where
  "replay_identity_mismatches a b = full_replay_identity_mismatches a b @ (if rm_lane a \<noteq> rm_lane b then [''engine_lane''] else [])"

definition replay_diffs :: "pyfloat \<Rightarrow> run_manifest \<Rightarrow> run_manifest \<Rightarrow> metric_diff list result" where
  "replay_diffs tol a b = (case (rm_metrics a, rm_metrics b) of (Some x, Some y) \<Rightarrow> metric_diffs_of tol x y | _ \<Rightarrow> Inr [])"

text \<open>The two replay manifests are given as payloads, or one of them is absent.\<close>

fun both_given :: "'a option \<Rightarrow> 'b option \<Rightarrow> ('a \<times> 'b) option" where
  "both_given (Some x) (Some y) = Some (x, y)"
| "both_given x y = None"

definition payload_mismatches :: "((string \<times> json) list \<times> (string \<times> json) list) option \<Rightarrow> string list" where
  "payload_mismatches payloads = (case payloads of None \<Rightarrow> [] | Some (x, y) \<Rightarrow> replay_manifest_identity_mismatches x y)"

definition replay_blockers :: "run_manifest \<Rightarrow> run_manifest \<Rightarrow> bool \<Rightarrow> metric_diff list \<Rightarrow> string list" where
  "replay_blockers a b given ds =
     (if rm_artifact_mode a = FULL then [''source_manifest_not_artifact_light''] else []) @
     (if rm_artifact_mode b \<noteq> FULL then [''replay_manifest_not_full_artifact_mode''] else []) @
     (if \<not> rm_replayable a then [''source_manifest_not_replayable_to_full_artifacts''] else []) @
     map (\<lambda>name. ''missing_full_artifact:'' @ name) (missing_full_artifacts b) @
     (if rm_metrics a = None then [''source_metrics_missing''] else []) @
     (if rm_metrics b = None then [''replay_metrics_missing''] else []) @
     (if \<not> given then [''replay_manifest_payloads_missing''] else []) @
     (if rm_metrics a \<noteq> None \<and> rm_metrics b \<noteq> None \<and> \<not> list_all md_within ds then [''metrics_mismatch''] else [])"

definition replay_check_payload :: "replay_check \<Rightarrow> (string \<times> json) list" where
  "replay_check_payload r =
     [(''status'', JStr (replay_status_value (yv_status r))), (''source_run_id'', JStr (yv_source r)), (''replay_run_id'', JStr (yv_replay r)),
      (''source_engine_lane'', JStr (lane_value (yv_source_lane r))), (''replay_engine_lane'', JStr (lane_value (yv_replay_lane r))),
      (''source_artifact_mode'', JStr (artifact_mode_value (yv_source_mode r))),
      (''replay_artifact_mode'', JStr (artifact_mode_value (yv_replay_mode r))), (''tolerance_abs'', JFloat (yv_tolerance r)),
      (''identity_mismatches'', JList (map JStr (yv_mismatches r))), (''replay_manifest_mismatches'', JList (map JStr (yv_manifest_mismatches r))),
      (''metric_diffs'', JList (map (diff_json (''source_value'', ''replay_value'')) (yv_diffs r))),
      (''blocker_reasons'', JList (map JStr (yv_blockers r))), (''same_spec_data_config_verified'', JBool (yv_same_config r)),
      (''replay_manifest_identity_verified'', JBool (yv_manifest_verified r)), (''metrics_verified'', JBool (yv_metrics_verified r)),
      (''full_artifacts_verified'', JBool (yv_full_verified r)), (''source_replay_identity_hash'', opt_json (yv_source_hash r)),
      (''replay_replay_identity_hash'', opt_json (yv_replay_hash r)), (''reference_engine_authority'', JBool (yv_authority r))]"

definition replay_check_of ::
  "run_manifest \<Rightarrow> run_manifest \<Rightarrow> ((string \<times> json) list \<times> (string \<times> json) list) option \<Rightarrow> pyfloat \<Rightarrow> metric_diff list \<Rightarrow> replay_check" where
  "replay_check_of a b payloads tol ds =
     (let mismatches = replay_identity_mismatches a b; manifest_mismatches = payload_mismatches payloads;
          blockers = replay_blockers a b (payloads \<noteq> None) ds in
      \<lparr>yv_id = [], yv_status = (if blockers = [] \<and> mismatches = [] \<and> manifest_mismatches = [] then REPLAY_PASS else REPLAY_FAIL),
       yv_source = rm_run_id a, yv_replay = rm_run_id b, yv_source_lane = rm_lane a, yv_replay_lane = rm_lane b,
       yv_source_mode = rm_artifact_mode a, yv_replay_mode = rm_artifact_mode b, yv_tolerance = tol,
       yv_mismatches = uniq mismatches, yv_manifest_mismatches = uniq manifest_mismatches, yv_diffs = ds,
       yv_blockers = uniq blockers, yv_same_config = (mismatches = []),
       yv_manifest_verified = (payloads \<noteq> None \<and> manifest_mismatches = []),
       yv_metrics_verified = (ds \<noteq> [] \<and> list_all md_within ds),
       yv_full_verified = (rm_artifact_mode b = FULL \<and> missing_full_artifacts b = []),
       yv_source_hash = rm_replay_hash a, yv_replay_hash = rm_replay_hash b,
       yv_authority = (rm_reference_authority a \<and> rm_reference_authority b), yv_flags = default_flags\<rparr>)"

definition verify_full_artifact_replay ::
  "run_manifest \<Rightarrow> run_manifest \<Rightarrow> (string \<times> json) list option \<Rightarrow> (string \<times> json) list option \<Rightarrow> pyfloat \<Rightarrow> replay_check result" where
  "verify_full_artifact_replay a b source_payload full_payload tol =
     (if f_lt tol (Fin 0) then Inl (ValueError ''tolerance_abs must be non-negative'')
      else bindE (replay_diffs tol a b) (\<lambda>ds.
        let r = replay_check_of a b (both_given source_payload full_payload) tol ds in
        bindE (canonical_json_hash (JObj ([(''schema_version'', JStr V2_SCHEMA_VERSION), (''report_type'', JStr ''full_artifact_replay_verification_v1'')] @ replay_check_payload r)))
          (\<lambda>h. validate_replay_check (r\<lparr>yv_id := h\<rparr>))))"

section \<open>The sample of runs to audit\<close>

definition run_digest :: "string \<Rightarrow> string \<Rightarrow> string result" where
  "run_digest seed run_id = canonical_json_hash (JObj [(''seed'', JStr seed), (''run_id'', JStr run_id)])"

text \<open>\<open>int(digest, 16)\<close> on lower-case hexadecimal text.\<close>

definition hex_digit_value :: "char \<Rightarrow> int" where
  "hex_digit_value c = (let n = of_char c in if n \<le> 57 then n - 48 else n - 87)"

definition int_of_hex :: "string \<Rightarrow> int" where
  "int_of_hex s = fold (\<lambda>c acc. 16 * acc + hex_digit_value c) s 0"

definition sample_threshold :: "pyfloat \<Rightarrow> int result" where
  "sample_threshold rate = bindE (float_of_int (2 ^ 256 - 1)) (\<lambda>m. int_of_float (f_mul rate m))"

text \<open>The loop that adds the next run of the ranking until the least number of runs is reached.\<close>

fun top_up :: "int \<Rightarrow> string list \<Rightarrow> string list \<Rightarrow> string list" where
  "top_up minimum [] selected = selected"
| "top_up minimum (r # rs) selected =
     (if int (length selected) \<ge> minimum then selected
      else top_up minimum rs (if r \<in> set selected then selected else selected @ [r]))"

definition select_reference_audit_sample :: "string list \<Rightarrow> pyfloat \<Rightarrow> string \<Rightarrow> int \<Rightarrow> string list result" where
  "select_reference_audit_sample run_ids rate seed minimum =
     (if \<not> (f_le (Fin 0) rate \<and> f_le rate (Fin 1)) then Inl (ValueError ''sample_rate must be between 0 and 1'')
      else if minimum < 0 then Inl (ValueError ''minimum_count must be non-negative'')
      else let unique = sorted_by id (uniq (filter (\<lambda>r. r \<noteq> []) run_ids)) in
        if f_eq rate (Fin 0) \<or> unique = [] then Inr []
        else bindE (mapE (\<lambda>r. bindE (run_digest seed r) (\<lambda>d. Inr (d, r))) unique) (\<lambda>pairs.
          let ranked = sorted_by id pairs in
          bindE (sample_threshold rate) (\<lambda>threshold.
            Inr (sorted_by id (top_up minimum (map snd ranked) (map snd (filter (\<lambda>(d, r). int_of_hex d \<le> threshold) ranked)))))))"
end
