(* ===== verification/RunArtifacts.thy ===== *)
theory RunArtifacts
  imports EngineRun FastLane
begin

text \<open>
  \<open>backtest_engine/engine.py\<close>, what a run leaves behind: the identity of a run and its directory, the
  JSON documents it writes, the references to its artifacts, its manifest, the report of a failed run
  and the three entry points.  Files are modelled by their contents: JSON text is written out, the
  bytes of a parquet file are an argument, as are the clock, the Git revision, the platform and the
  texts of exceptions.
\<close>

section \<open>JSON documents\<close>

text \<open>\<open>json.dumps(payload, sort_keys=True, indent=2, ensure_ascii=True)\<close>\<close>

definition new_line :: "nat \<Rightarrow> string" where
  "new_line depth = char_of (10::nat) # replicate (2 * depth) CHR '' ''"

fun json_scalar :: "json \<Rightarrow> string" where
  "json_scalar (JFloat PInf) = ''Infinity''"
| "json_scalar (JFloat NInf) = ''-Infinity''"
| "json_scalar (JFloat NaN) = ''NaN''"
| "json_scalar (JFloat x) = float_repr x"
| "json_scalar (JBool b) = (if b then ''true'' else ''false'')"
| "json_scalar (JInt i) = string_of_int i"
| "json_scalar (JStr s) = json_string s"
| "json_scalar v = ''null''"

fun json_pretty :: "nat \<Rightarrow> json \<Rightarrow> string" where
  "json_pretty depth (JList xs) = (if xs = [] then ''[]'' else
     ''['' @ new_line (depth + 1) @ join ('','' @ new_line (depth + 1)) (map (json_pretty (depth + 1)) xs) @ new_line depth @ '']'')"
| "json_pretty depth (JObj kvs) = (if kvs = [] then ''{}'' else
     ''{'' @ new_line (depth + 1) @ join ('','' @ new_line (depth + 1))
       (map (\<lambda>kv. json_string (fst kv) @ '': '' @ json_pretty (depth + 1) (snd kv)) (sorted_by fst kvs)) @ new_line depth @ ''}'')"
| "json_pretty depth v = json_scalar v"

definition json_document :: "json \<Rightarrow> string" where
  "json_document v = json_pretty 0 v @ [char_of (10::nat)]"

section \<open>The panel and the identity of a run\<close>

text \<open>\<open>json.dumps\<close> meets the values of the rows in the order of the sorted keys and stops at the first it cannot write.\<close>

fun pyval_text :: "pyval \<Rightarrow> string result" where
  "pyval_text (VTime t) = Inl (TypeError ''Object of type datetime is not JSON serializable'')"
| "pyval_text VNone = json_dumps JNull"
| "pyval_text (VBool b) = json_dumps (JBool b)"
| "pyval_text (VInt i) = json_dumps (JInt i)"
| "pyval_text (VFloat x) = json_dumps (JFloat x)"
| "pyval_text (VStr s) = json_dumps (JStr s)"

definition row_text :: "pyrow \<Rightarrow> string result" where
  "row_text row = bindE (mapE (\<lambda>(k, v). bindE (pyval_text v) (\<lambda>t. Inr (json_string k @ '':'' @ t))) (sorted_by fst row))
     (\<lambda>ts. Inr (''{'' @ join '','' ts @ ''}''))"

definition panel_hash :: "pyrow list \<Rightarrow> string result" where
  "panel_hash panel = bindE (mapE row_text panel) (\<lambda>ts. Inr (sha256_hexdigest (''['' @ join '','' ts @ '']'')))"

definition params_hash :: "(string \<times> json) list \<Rightarrow> string result" where
  "params_hash params = canonical_json_hash (JObj params)"

definition effective_cost_hash :: "run_config \<Rightarrow> string result" where
  "effective_cost_hash c = bindE (effective_cost_model c) cost_model_hash"

definition deterministic_run_id :: "run_config \<Rightarrow> strategy_spec \<Rightarrow> (string \<times> json) list \<Rightarrow> string \<Rightarrow> string result" where
  "deterministic_run_id c spec params panel =
     bindE (strategy_spec_hash spec) (\<lambda>sh. bindE (params_hash params) (\<lambda>ph. bindE (effective_cost_hash c) (\<lambda>ch.
     bindE (canonical_json_hash (JObj [(''experiment_id'', JStr (rn_experiment c)), (''trial_index'', JInt (rn_trial c)),
         (''archive_snapshot_id'', JStr (rn_archive_snapshot c)), (''universe_snapshot_id'', JStr (rn_universe_snapshot c)),
         (''data_manifest_id'', JStr (rn_data_manifest c)), (''strategy_spec_hash'', JStr sh), (''params_hash'', JStr ph),
         (''panel_hash'', JStr panel), (''engine_lane'', JStr (lane_value (rn_lane c))), (''cost_model_id'', JStr (rn_cost_model_id c)),
         (''cost_model_hash'', JStr ch)]))
       (\<lambda>h. Inr (''run-'' @ take 24 h)))))"

definition run_id_of :: "run_config \<Rightarrow> strategy_spec \<Rightarrow> (string \<times> json) list \<Rightarrow> string \<Rightarrow> string result" where
  "run_id_of c spec params panel = (if text_given (rn_run_id c) then Inr (the (rn_run_id c)) else deterministic_run_id c spec params panel)"

text \<open>\<open>^[A-Za-z0-9_.-]+$\<close>, and the directory of a run below the resolved output root.\<close>

definition safe_run_char :: "char \<Rightarrow> bool" where
  "safe_run_char c \<longleftrightarrow> (let n = of_char c :: nat in (65 \<le> n \<and> n \<le> 90) \<or> (97 \<le> n \<and> n \<le> 122) \<or> (48 \<le> n \<and> n \<le> 57)) \<or> c \<in> set ''_.-''"

definition safe_run_id :: "string \<Rightarrow> bool" where
  "safe_run_id s \<longleftrightarrow> s \<noteq> [] \<and> list_all safe_run_char s"

definition resolved_root :: "string list \<Rightarrow> string \<Rightarrow> string list" where
  "resolved_root cwd out_root = drop_dots [] (p_parts (path_join (Path True cwd) (parse_path out_root)))"

definition run_dir :: "string list \<Rightarrow> string \<Rightarrow> string \<Rightarrow> string list result" where
  "run_dir cwd out_root run_id =
     (if \<not> safe_run_id run_id then Inl (BacktestEngineError (''unsafe_run_id: '' @ run_id))
      else let base = resolved_root cwd out_root; d = drop_dots [] (p_parts (path_join (Path True base) (parse_path run_id))) in
        if \<not> is_prefix_of (path_text (Path True base)) (path_text (Path True d)) then Inl (BacktestEngineError ''run_dir_escapes_output_root'')
        else Inr d)"

section \<open>What the run depends on outside the repository\<close>

record run_env =
  re_senv :: senv
  re_fast :: lane_simulation
  re_cwd :: "string list"
  re_git :: string
  re_platform :: string
  re_now :: instant
  re_error_text :: "py_error \<Rightarrow> string"
  re_timings :: "run_status \<Rightarrow> (string \<times> pyfloat) list"
  re_parquet :: "string \<Rightarrow> simulation option \<Rightarrow> string"

text \<open>The observations handed over, and those the clock adds when benchmarks are enabled.\<close>

definition observations :: "run_env \<Rightarrow> run_config \<Rightarrow> (string \<times> pyfloat) list \<Rightarrow> run_status \<Rightarrow> (string \<times> pyfloat) list" where
  "observations env c given status = sorted_by fst (dict_of (given @ (if rn_benchmark_enabled c then re_timings env status else [])))"

section \<open>The documents of a run\<close>

definition boundary_entries :: "(string \<times> json) list" where
  "boundary_entries = [(''research_only'', JBool True), (''observe_only'', JBool True), (''promotion_ready'', JBool False)]"

definition data_manifest_json :: "int \<Rightarrow> string \<Rightarrow> json" where
  "data_manifest_json n h = JObj ([(''schema_version'', JStr V2_SCHEMA_VERSION), (''row_count'', JInt n), (''panel_hash'', JStr h)] @ boundary_entries)"

definition validation_manifest_json :: "run_config \<Rightarrow> run_status \<Rightarrow> string option \<Rightarrow> json" where
  "validation_manifest_json c status reason = JObj ([(''schema_version'', JStr V2_SCHEMA_VERSION), (''validation_policy_id'', JStr (rn_validation_policy c)),
     (''status'', JStr (if status = RUN_SUCCEEDED then ''pass'' else ''fail'')), (''missing_data_policy'', JStr ''fail_closed''),
     (''failure_reason'', opt_json reason)] @ boundary_entries)"

definition spread_summary_json :: "spread_summary \<Rightarrow> json" where
  "spread_summary_json s = JObj ([(''schema_version'', JStr ''spread_observation_summary_v1''),
     (''counts_by_source'', JObj (map (\<lambda>(k, n). (k, JInt n)) (sm_counts s))), (''explicit_observation_count'', JInt (sm_explicit s)),
     (''lenient_inferred_count'', JInt (sm_inferred s)), (''missing_observation_count'', JInt (sm_missing s))] @ boundary_entries)"

definition run_cost_manifest :: "run_config \<Rightarrow> stress_row list \<Rightarrow> spread_summary option \<Rightarrow> json result" where
  "run_cost_manifest c stress spreads = bindE (effective_cost_model c) (\<lambda>cost. bindE (build_cost_manifest text_str cost stress) (\<lambda>m.
     Inr (JObj (AList.update ''gross_and_net_required'' (JBool (rn_require_net c)) m @ [(''phase'', JStr ''phase12_cost_funding_slippage_impact_capacity'')]
       @ (case spreads of None \<Rightarrow> [] | Some s \<Rightarrow> [(''spread_observation_summary'', spread_summary_json s)])))))"

definition metrics_json :: "run_metrics \<Rightarrow> json" where
  "metrics_json m = JObj ([(''schema_version'', JStr (mt_schema m)), (''run_id'', JStr (mt_run_id m)), (''status'', JStr (run_status_value (mt_status m))),
     (''gross_return'', JFloat (mt_gross_return m)), (''net_return'', JFloat (mt_net_return m)), (''gross_equity_final'', JFloat (mt_gross_equity m)),
     (''net_equity_final'', JFloat (mt_net_equity m)), (''total_fee_cost'', JFloat (mt_fee m)), (''total_spread_cost'', JFloat (mt_spread m)),
     (''total_slippage_cost'', JFloat (mt_slippage m)), (''total_impact_cost'', JFloat (mt_impact m)),
     (''total_transaction_cost'', JFloat (mt_transaction m)), (''total_funding_pnl'', JFloat (mt_funding m)), (''total_turnover'', JFloat (mt_turnover m)),
     (''trade_count'', JInt (mt_trades m)), (''position_row_count'', JInt (mt_positions m)), (''capacity_blocked_count'', JInt (mt_blocked m)),
     (''gross_only'', JBool (mt_gross_only m))] @ boundary_dump (mt_flags m))"

definition failed_metrics_json :: "string \<Rightarrow> string \<Rightarrow> json" where
  "failed_metrics_json run_id reason = JObj ([(''schema_version'', JStr V2_SCHEMA_VERSION), (''run_id'', JStr run_id),
     (''status'', JStr (run_status_value RUN_FAILED)), (''failure_reason'', JStr reason), (''gross_only'', JBool False)] @ boundary_entries)"

definition replay_manifest_json :: "run_config \<Rightarrow> string \<Rightarrow> strategy_spec \<Rightarrow> (string \<times> json) list \<Rightarrow> int \<Rightarrow> string \<Rightarrow> (string \<times> json) list result" where
  "replay_manifest_json c run_id spec params n panel =
     bindE (strategy_spec_hash spec) (\<lambda>sh. bindE (params_hash params) (\<lambda>ph. bindE (effective_cost_hash c) (\<lambda>ch.
     Inr ([(''schema_version'', JStr V2_SCHEMA_VERSION), (''manifest_type'', JStr ''backtest_replay_manifest_v1''), (''run_id'', JStr run_id),
       (''artifact_mode'', JStr (artifact_mode_value (rn_artifact_mode c))), (''replayable_to_full_artifacts'', JBool True),
       (''strategy_id'', JStr (sp_id spec)), (''strategy_spec_hash'', JStr sh), (''params_hash'', JStr ph),
       (''archive_snapshot_id'', JStr (rn_archive_snapshot c)), (''universe_snapshot_id'', JStr (rn_universe_snapshot c)),
       (''data_manifest_id'', JStr (rn_data_manifest c)), (''data_manifest_hash'', JStr (rn_data_hash c)),
       (''validation_manifest_hash'', JStr (rn_validation_hash c)), (''cost_manifest_hash'', JStr (rn_cost_hash c)),
       (''engine_lane'', JStr (lane_value (rn_lane c))), (''cost_model_id'', JStr (rn_cost_model_id c)), (''cost_model_hash'', JStr ch),
       (''panel_row_count'', JInt n), (''panel_hash'', JStr panel), (''full_replay_requires_same_spec_data_config'', JBool True)]
       @ boundary_dump default_flags))))"

section \<open>Artifacts\<close>

definition json_ref :: "string \<Rightarrow> json \<Rightarrow> string \<times> artifact_ref" where
  "json_ref name payload = (name, \<lparr>af_name = name, af_path = name @ ''.json'', af_sha = sha256_hexdigest (json_document payload),
     af_rows = None, af_required = True\<rparr>)"

definition table_ref :: "run_env \<Rightarrow> simulation option \<Rightarrow> string \<Rightarrow> (simulation \<Rightarrow> nat) \<Rightarrow> string \<times> artifact_ref" where
  "table_ref env sim name rows = (name, \<lparr>af_name = name, af_path = name @ ''.parquet'', af_sha = sha256_hexdigest (re_parquet env name sim),
     af_rows = Some (case sim of None \<Rightarrow> 0 | Some s \<Rightarrow> int (rows s)), af_required = True\<rparr>)"

definition log_ref :: "string list \<Rightarrow> string \<times> artifact_ref" where
  "log_ref lines = (''log'', \<lparr>af_name = ''log'', af_path = ''logs/log.txt'',
     af_sha = sha256_hexdigest (join [char_of (10::nat)] lines @ [char_of (10::nat)]), af_rows = None, af_required = True\<rparr>)"

definition summary_tables :: "run_env \<Rightarrow> simulation option \<Rightarrow> (string \<times> artifact_ref) list" where
  "summary_tables env sim = [table_ref env sim ''equity_curve'' (length \<circ> si_curve), table_ref env sim ''daily_returns'' (length \<circ> si_daily),
     table_ref env sim ''per_instrument_metrics'' (length \<circ> si_instrument_totals), table_ref env sim ''fold_metrics'' (length \<circ> si_folds),
     table_ref env sim ''cost_stress'' (length \<circ> si_stress)]"

definition full_tables :: "run_env \<Rightarrow> simulation option \<Rightarrow> (string \<times> artifact_ref) list" where
  "full_tables env sim = [table_ref env sim ''trades'' (length \<circ> si_trades), table_ref env sim ''positions'' (length \<circ> si_positions)]"

definition common_artifacts ::
  "run_env \<Rightarrow> run_config \<Rightarrow> string \<Rightarrow> strategy_spec \<Rightarrow> (string \<times> json) list \<Rightarrow> int \<Rightarrow> string \<Rightarrow> json \<Rightarrow> json \<Rightarrow> json \<Rightarrow> simulation option
     \<Rightarrow> string list \<Rightarrow> (string \<times> artifact_ref) list result" where
  "common_artifacts env c run_id spec params n panel validation cost metrics sim log_lines =
     bindE (replay_manifest_json c run_id spec params n panel) (\<lambda>replay.
     Inr ([json_ref ''strategy_spec'' (JObj (spec_json spec)), json_ref ''params'' (JObj params), json_ref ''data_manifest'' (data_manifest_json n panel),
         json_ref ''validation_manifest'' validation, json_ref ''cost_manifest'' cost, json_ref ''metrics'' metrics,
         json_ref ''replay_manifest'' (JObj replay)]
       @ (if rn_artifact_mode c \<in> {FULL, SUMMARY} then summary_tables env sim else [])
       @ (if rn_artifact_mode c = FULL then full_tables env sim else []) @ [log_ref log_lines]))"

section \<open>The manifest\<close>

definition manifest_of ::
  "run_env \<Rightarrow> run_config \<Rightarrow> strategy_spec \<Rightarrow> string \<Rightarrow> string \<Rightarrow> string \<Rightarrow> cost_config \<Rightarrow> string \<Rightarrow> run_status \<Rightarrow> run_context
     \<Rightarrow> run_metrics option \<Rightarrow> (string \<times> artifact_ref) list \<Rightarrow> (string \<times> pyfloat) list \<Rightarrow> string option \<Rightarrow> run_manifest" where
  "manifest_of env c spec sh ph run_id cost ch status context metrics artifacts obs reason =
     \<lparr>rm_schema = ''run_manifest_v1'', rm_run_id = run_id, rm_experiment = rn_experiment c, rm_trial = rn_trial c, rm_agent = rn_agent c,
      rm_created = re_now env, rm_status = status, rm_lane = rn_lane c, rm_strategy_lane = ''declarative'',
      rm_git_sha = (if rn_git_sha c \<noteq> ''unknown'' then rn_git_sha c else re_git env),
      rm_environment_hash = (if text_given (rn_environment_hash c) then the (rn_environment_hash c) else re_platform env),
      rm_strategy_id = sp_id spec, rm_strategy_version = sp_version spec, rm_strategy_hash = sh, rm_strategy_spec_hash = sh, rm_params_hash = ph,
      rm_archive_snapshot = rn_archive_snapshot c, rm_universe_snapshot = rn_universe_snapshot c, rm_data_manifest = rn_data_manifest c,
      rm_data_hash = rn_data_hash c, rm_validation_hash = rn_validation_hash c, rm_cost_hash = rn_cost_hash c,
      rm_universe_mode = rn_universe_mode c, rm_venue_scope = rn_venue_scope c, rm_instruments = cx_instruments context,
      rm_timeframe = si_timeframe (sp_inputs spec), rm_start = cx_start context, rm_end = cx_end context,
      rm_months = usable_months (cx_start context) (cx_end context), rm_lockbox_policy = rn_lockbox_policy c,
      rm_lockbox_start = rn_lockbox_start c, rm_lockbox_end = rn_lockbox_end c, rm_coverage_min = rn_coverage_min c,
      rm_cost_model_id = rn_cost_model_id c, rm_cost_model_hash = ch, rm_notional = cc_notional cost,
      rm_validation_policy = rn_validation_policy c, rm_validation = (if status = RUN_SUCCEEDED then RV_PASS else RV_FAIL),
      rm_missing_policy = rn_missing_policy c, rm_price_basis = price_basis_value (ec_basis (sp_execution spec)),
      rm_artifact_mode = rn_artifact_mode c, rm_replayable = True, rm_replay_hash = map_option af_sha (map_of artifacts ''replay_manifest''),
      rm_fast_lane_policy = rn_fast_lane_policy c, rm_reference_authority = rn_reference_authority c,
      rm_audit_sample_rate = rn_audit_sample_rate c, rm_speedup_claimed = rn_speedup_claimed c, rm_benchmarks = obs,
      rm_failure = reason, rm_metrics = metrics, rm_artifacts = artifacts, rm_flags = default_flags\<rparr>"

definition build_manifest ::
  "run_env \<Rightarrow> run_config \<Rightarrow> strategy_spec \<Rightarrow> (string \<times> json) list \<Rightarrow> string \<Rightarrow> run_status \<Rightarrow> run_context \<Rightarrow> run_metrics option
     \<Rightarrow> (string \<times> artifact_ref) list \<Rightarrow> (string \<times> pyfloat) list \<Rightarrow> string option \<Rightarrow> run_manifest result" where
  "build_manifest env c spec params run_id status context metrics artifacts obs reason =
     bindE (params_hash params) (\<lambda>ph. bindE (strategy_spec_hash spec) (\<lambda>sh. bindE (effective_cost_model c) (\<lambda>cost. bindE (cost_model_hash cost) (\<lambda>ch.
       validate_manifest (manifest_of env c spec sh ph run_id cost ch status context metrics artifacts obs reason)))))"

section \<open>Reports of a run\<close>

record run_report =
  rr_dir :: "string list"
  rr_manifest :: run_manifest
  rr_metrics :: "run_metrics option"

definition success_log :: "run_config \<Rightarrow> string \<Rightarrow> string list" where
  "success_log c run_id = [''run_id='' @ run_id, ''status=succeeded'', ''engine_lane='' @ lane_value (rn_lane c)]"

definition write_run_artifacts ::
  "run_env \<Rightarrow> run_config \<Rightarrow> strategy_spec \<Rightarrow> (string \<times> json) list \<Rightarrow> int \<Rightarrow> string \<Rightarrow> string \<Rightarrow> string list \<Rightarrow> simulation \<Rightarrow> run_report result" where
  "write_run_artifacts env c spec params n panel run_id dir sim =
     bindE (run_cost_manifest c (si_stress sim) (Some (si_spreads sim))) (\<lambda>cost.
     bindE (common_artifacts env c run_id spec params n panel (validation_manifest_json c RUN_SUCCEEDED None) cost
         (metrics_json (si_metrics sim)) (Some sim) (success_log c run_id)) (\<lambda>artifacts.
     bindE (build_manifest env c spec params run_id RUN_SUCCEEDED (si_context sim) (Some (si_metrics sim)) artifacts (observations env c (rn_benchmarks c) RUN_SUCCEEDED) None) (\<lambda>m.
     Inr \<lparr>rr_dir = dir, rr_manifest = m, rr_metrics = Some (si_metrics sim)\<rparr>)))"

text \<open>The window and the instruments of a failed run are read off its panel once more.\<close>

definition panel_timestamps :: "pyenv \<Rightarrow> pyrow list \<Rightarrow> instant list result" where
  "panel_timestamps env panel = mapE (\<lambda>row. engine_timestamp env (row_get row ''ts'')) (filter (\<lambda>row. map_of row ''ts'' \<noteq> None) panel)"

definition panel_instruments :: "pyrow list \<Rightarrow> string list" where
  "panel_instruments panel = sorted_by id (uniq (map (\<lambda>row. case map_of row ''instrument_id'' of None \<Rightarrow> ''unknown'' | Some v \<Rightarrow> py_str v) panel))"

definition failed_window :: "instant list \<Rightarrow> (instant \<times> instant) result" where
  "failed_window ts = (let lo = Min (set ts); hi = Max (set ts) in
     if hi > lo then Inr (lo, hi) else bindE (add_us lo 3600000000) (\<lambda>e. Inr (lo, e)))"

definition failure_log :: "engine_lane \<Rightarrow> string \<Rightarrow> string \<Rightarrow> string list" where
  "failure_log lane run_id reason = [''run_id='' @ run_id, ''status=failed'', ''failure_reason='' @ reason, ''engine_lane='' @ lane_value lane]"

definition write_failure_artifacts ::
  "run_env \<Rightarrow> run_config \<Rightarrow> strategy_spec \<Rightarrow> (string \<times> json) list \<Rightarrow> pyrow list \<Rightarrow> string \<Rightarrow> string \<Rightarrow> string list \<Rightarrow> engine_lane \<Rightarrow> string
     \<Rightarrow> (string \<times> pyfloat) list \<Rightarrow> run_report result" where
  "write_failure_artifacts env c spec params panel panel_digest run_id dir lane reason given =
     bindE (panel_timestamps (base_env (re_senv env)) panel) (\<lambda>read.
     let ts = (if read = [] then [re_now env] else read); instruments = (if panel = [] then [''unknown''] else panel_instruments panel) in
     bindE (run_cost_manifest c [] None) (\<lambda>cost.
     bindE (common_artifacts env c run_id spec params (int (length panel)) panel_digest (validation_manifest_json c RUN_FAILED (Some reason)) cost
         (failed_metrics_json run_id reason) None (failure_log lane run_id reason)) (\<lambda>artifacts.
     bindE (failed_window ts) (\<lambda>(lo, hi).
     bindE (validate_context (run_context_of c (si_timeframe (sp_inputs spec)) run_id (int (length instruments)) lo hi)) (\<lambda>context.
     bindE (build_manifest env (c\<lparr>rn_lane := lane\<rparr>) spec params run_id RUN_FAILED context None artifacts (observations env c given RUN_FAILED) (Some reason)) (\<lambda>m.
     Inr \<lparr>rr_dir = dir, rr_manifest = m, rr_metrics = None\<rparr>))))))"

text \<open>\<open>try\<close>: simulate and write; \<open>except Exception\<close>: write the report of a failed run with the text of the exception.\<close>

definition report_run ::
  "run_env \<Rightarrow> run_config \<Rightarrow> strategy_spec \<Rightarrow> (string \<times> json) list \<Rightarrow> pyrow list \<Rightarrow> string \<Rightarrow> string \<Rightarrow> string list \<Rightarrow> (string \<times> pyfloat) list \<Rightarrow> simulation result
     \<Rightarrow> run_report result" where
  "report_run env c spec params panel h run_id dir given sim =
     (case bindE sim (write_run_artifacts env c spec params (int (length panel)) h run_id dir) of
        Inr r \<Rightarrow> Inr r
      | Inl e \<Rightarrow> write_failure_artifacts env c spec params panel h run_id dir (rn_lane c) (re_error_text env e) given)"

section \<open>The entry points\<close>

text \<open>
  An exception before the directory of the run is known is met again by the handler, which computes the
  digest of the panel, the run id and the directory anew; so it leaves the function.
\<close>

definition run_vectorized_backtest ::
  "run_env \<Rightarrow> run_config \<Rightarrow> strategy_spec \<Rightarrow> pyrow list \<Rightarrow> signal_frame option \<Rightarrow> (string \<times> json) list \<Rightarrow> run_report result" where
  "run_vectorized_backtest env c spec panel frame params =
     bindE (panel_hash panel) (\<lambda>h. bindE (run_id_of c spec params h) (\<lambda>run_id. bindE (run_dir (re_cwd env) (rn_output_root c) run_id) (\<lambda>dir.
       report_run env c spec params panel h run_id dir (rn_benchmarks c) (vectorized_run (re_fast env) (re_senv env) c spec frame panel run_id))))"

text \<open>
  The event-driven entry points compute the digest of the panel for the manifest only after the handler has read
  the timestamps, so of two exceptions that of the timestamps comes first.
\<close>

definition late_panel_hash :: "run_env \<Rightarrow> pyrow list \<Rightarrow> string result" where
  "late_panel_hash env panel = (case panel_hash panel of Inr h \<Rightarrow> Inr h
     | Inl e \<Rightarrow> bindE (panel_timestamps (base_env (re_senv env)) panel) (\<lambda>_. Inl e))"

definition run_event_driven_backtest ::
  "run_env \<Rightarrow> run_config \<Rightarrow> strategy_spec \<Rightarrow> pyrow list \<Rightarrow> pyrow list \<Rightarrow> (string \<times> json) list \<Rightarrow> run_report result" where
  "run_event_driven_backtest env config spec panel events params =
     (let c = config\<lparr>rn_lane := EVENT_DRIVEN\<rparr> in
      bindE (if text_given (rn_run_id c) then Inr (the (rn_run_id c)) else bindE (panel_hash panel) (deterministic_run_id c spec params)) (\<lambda>run_id.
      bindE (run_dir (re_cwd env) (rn_output_root c) run_id) (\<lambda>dir. bindE (late_panel_hash env panel) (\<lambda>h.
        report_run env c spec params panel h run_id dir [] (event_driven_run (re_senv env) c spec panel events run_id)))))"

definition run_event_driven_placeholder ::
  "run_env \<Rightarrow> run_config \<Rightarrow> strategy_spec \<Rightarrow> pyrow list \<Rightarrow> (string \<times> json) list \<Rightarrow> run_report result" where
  "run_event_driven_placeholder env config spec panel params =
     (let c = config\<lparr>rn_lane := EVENT_DRIVEN\<rparr> in
      bindE (if text_given (rn_run_id c) then Inr (the (rn_run_id c)) else bindE (panel_hash panel) (deterministic_run_id c spec params)) (\<lambda>run_id.
      bindE (run_dir (re_cwd env) (rn_output_root c) run_id) (\<lambda>dir. bindE (late_panel_hash env panel) (\<lambda>h.
        write_failure_artifacts env c spec params panel h run_id dir EVENT_DRIVEN ''event_driven_engine_placeholder_blocked'' []))))"
end
