(* ===== verification/FastLaneProps.thy ===== *)
theory FastLaneProps
  imports FastLane
begin

text \<open>
  What the audits of \<open>FastLane\<close> decide: a parity report passes exactly on comparable runs with close
  metrics, a replay verification passes exactly on the same run with all its artifacts, and the audit
  sample is a prefix of the runs ranked by digest.
\<close>

section \<open>Digests as numbers\<close>

definition hex_text :: "string \<Rightarrow> bool" where
  "hex_text s \<longleftrightarrow> list_all (\<lambda>c. c \<in> hex_digit ` {..<16}) s"

lemma hex_text_word: "hex_text (hex_word w)"
  by (simp add: hex_text_def hex_word_def list_all_iff)

lemma hex_text_Nil [simp]: "hex_text []"
  by (simp add: hex_text_def)

lemma hex_text_append [simp]: "hex_text (s @ t) \<longleftrightarrow> hex_text s \<and> hex_text t"
  by (simp add: hex_text_def)

lemma hex_text_sha256: "hex_text (sha256_hexdigest b)"
  by (simp add: sha256_hexdigest_def hex_text_word split: prod.splits)

lemma hex_digit_table:
  "list_all (\<lambda>i. hex_digit_value (hex_digit i) = int i \<and> list_all (\<lambda>j. (hex_digit i < hex_digit j) = (i < j)) [0..<16]) [0..<16]"
  by code_simp

lemma hex_digit_value: "i < 16 \<Longrightarrow> hex_digit_value (hex_digit i) = int i"
  using hex_digit_table by (simp only: list_all_iff set_upt atLeastLessThan_iff) simp

lemma hex_digit_less: "i < 16 \<Longrightarrow> j < 16 \<Longrightarrow> hex_digit i < hex_digit j \<longleftrightarrow> i < j"
  using hex_digit_table by (simp only: list_all_iff set_upt atLeastLessThan_iff) simp

lemma hex_text_Cons [simp]: "hex_text (c # s) \<longleftrightarrow> (\<exists>i<16. c = hex_digit i) \<and> hex_text s"
  by (auto simp: hex_text_def)

lemma hex_fold: "fold (\<lambda>c acc. 16 * acc + hex_digit_value c) s a = a * 16 ^ length s + fold (\<lambda>c acc. 16 * acc + hex_digit_value c) s 0"
proof (induction s arbitrary: a)
  case (Cons c s)
  show ?case using Cons.IH [of "16 * a + hex_digit_value c"] Cons.IH [of "hex_digit_value c"] by (simp add: algebra_simps)
qed simp

lemma int_of_hex_Cons: "int_of_hex (c # s) = hex_digit_value c * 16 ^ length s + int_of_hex s"
  using hex_fold [of s "hex_digit_value c"] by (simp add: int_of_hex_def)

lemma int_of_hex_bounds: "hex_text s \<Longrightarrow> 0 \<le> int_of_hex s \<and> int_of_hex s < 16 ^ length s"
proof (induction s)
  case (Cons c s)
  then obtain i where i: "i < 16" "c = hex_digit i" by auto
  then have u: "int i * 16 ^ length s \<le> 15 * (16 ^ length s :: int)"
    by (intro mult_right_mono) auto
  have "0 \<le> int_of_hex s \<and> int_of_hex s < 16 ^ length s" using Cons by simp
  moreover have "int_of_hex (c # s) = int i * 16 ^ length s + int_of_hex s"
    using i by (simp add: int_of_hex_Cons hex_digit_value)
  moreover have "(16 :: int) ^ length (c # s) = 16 * 16 ^ length s" by simp
  moreover have "0 \<le> int i * 16 ^ length s" by simp
  ultimately show ?case using u by (intro conjI) linarith+
qed (simp add: int_of_hex_def)

text \<open>On digests of one length the order of texts is the order of the numbers.\<close>

lemma hex_order:
  "hex_text s \<Longrightarrow> hex_text t \<Longrightarrow> length s = length t \<Longrightarrow> s < t \<longleftrightarrow> int_of_hex s < int_of_hex t"
proof (induction s arbitrary: t)
  case (Cons c s)
  then obtain d t' where t: "t = d # t'" by (cases t) auto
  let ?n = "16 ^ length s :: int"
  from Cons.prems t obtain i j where ij: "i < 16" "c = hex_digit i" "j < 16" "d = hex_digit j" by auto
  have len: "length t' = length s" using Cons.prems t by simp
  have b: "0 \<le> int_of_hex s" "int_of_hex s < ?n" "0 \<le> int_of_hex t'" "int_of_hex t' < ?n"
    using int_of_hex_bounds [of s] int_of_hex_bounds [of t'] Cons.prems t len by simp_all
  have step: "x < y \<Longrightarrow> int x * ?n + ?n \<le> int y * ?n" for x y
    using mult_right_mono [of "int x + 1" "int y" ?n] by (simp add: algebra_simps)
  have v: "int_of_hex (c # s) = int i * ?n + int_of_hex s" "int_of_hex t = int j * ?n + int_of_hex t'"
    using ij len t by (simp_all add: int_of_hex_Cons hex_digit_value)
  have lt: "c < d \<longleftrightarrow> i < j" "d < c \<longleftrightarrow> j < i" using ij hex_digit_less by auto
  consider "i < j" | "j < i" | "i = j" by linarith
  then show ?case
  proof cases
    case 1
    then show ?thesis using step [of i j] lt b v t by auto
  next
    case 2
    then show ?thesis using step [of j i] lt b v t by auto
  next
    case 3
    then show ?thesis using Cons.IH [of t'] Cons.prems t len v ij by simp
  qed
qed simp

section \<open>The audit sample\<close>

lemma top_up_skip: "set rs1 \<subseteq> set sel \<Longrightarrow> top_up m (rs1 @ rs2) sel = top_up m rs2 sel"
proof (induction rs1)
  case (Cons r rs1)
  then show ?case by (cases rs2) auto
qed simp

lemma top_up_fresh:
  "distinct rs \<Longrightarrow> set rs \<inter> set sel = {} \<Longrightarrow> top_up m rs sel = sel @ take (nat m - length sel) rs"
proof (induction rs arbitrary: sel)
  case (Cons r rs)
  show ?case
  proof (cases "int (length sel) \<ge> m")
    case False
    then have "nat m - length sel = Suc (nat m - length (sel @ [r]))" by simp
    then show ?thesis using Cons False by simp
  qed simp
qed simp

lemma top_up_prefix:
  assumes "distinct rs" "k \<le> length rs"
  shows "top_up m rs (take k rs) = take (max k (nat m)) rs"
proof -
  have "top_up m (take k rs @ drop k rs) (take k rs) = top_up m (drop k rs) (take k rs)"
    by (rule top_up_skip) simp
  also have "\<dots> = take k rs @ take (nat m - k) (drop k rs)"
    using top_up_fresh [of "drop k rs" "take k rs" m] set_take_disj_set_drop_if_distinct [OF assms(1) order_refl] assms
    by (simp add: Int_commute min_absorb2)
  also have "\<dots> = take (k + (nat m - k)) rs" by (simp add: take_add)
  finally show ?thesis by (simp add: max_def)
qed

lemma filter_sorted_prefix:
  "sorted xs \<Longrightarrow> (\<And>x y. x \<in> set xs \<Longrightarrow> y \<in> set xs \<Longrightarrow> x \<le> y \<Longrightarrow> P y \<Longrightarrow> P x) \<Longrightarrow> filter P xs = take (length (filter P xs)) xs"
proof (induction xs)
  case (Cons x xs)
  show ?case
  proof (cases "P x")
    case True
    have "filter P xs = take (length (filter P xs)) xs" by (rule Cons.IH) (use Cons.prems in auto)
    then show ?thesis using True by simp
  next
    case False
    then have "filter P xs = []" using Cons.prems by (fastforce simp: filter_empty_conv)
    then show ?thesis using False by simp
  qed
qed simp


subsection \<open>The ranking\<close>

text \<open>The runs in the order of their digests, and the part of them below the threshold.\<close>

definition digest_of :: "string \<Rightarrow> string \<Rightarrow> string" where
  "digest_of seed run_id = sha256_hexdigest (dumps_text (JObj [(''seed'', JStr seed), (''run_id'', JStr run_id)]))"

definition audit_runs :: "string list \<Rightarrow> string list" where
  "audit_runs run_ids = sorted_by id (uniq (filter (\<lambda>r. r \<noteq> []) run_ids))"

definition ranked_runs :: "string list \<Rightarrow> string \<Rightarrow> string list" where
  "ranked_runs run_ids seed = sorted_by (\<lambda>r. (digest_of seed r, r)) (audit_runs run_ids)"

definition below_threshold :: "string list \<Rightarrow> pyfloat \<Rightarrow> string \<Rightarrow> nat" where
  "below_threshold run_ids rate seed = (case sample_threshold rate of Inl e \<Rightarrow> 0
     | Inr t \<Rightarrow> length (filter (\<lambda>r. int_of_hex (digest_of seed r) \<le> t) (ranked_runs run_ids seed)))"

lemma run_digest_of: "run_digest seed r = Inr (digest_of seed r)"
  by (simp add: run_digest_def digest_of_def canonical_json_hash_def canonical_json_bytes_def json_dumps_cases)

lemma digest_le: "digest_of seed r \<le> digest_of seed s \<longleftrightarrow> int_of_hex (digest_of seed r) \<le> int_of_hex (digest_of seed s)"
  using hex_order [of "digest_of seed s" "digest_of seed r"] by (simp add: digest_of_def hex_text_sha256 not_less [symmetric])

lemma audit_runs_simps [simp]:
  "distinct (audit_runs ids)" "set (audit_runs ids) = {r \<in> set ids. r \<noteq> []}"
  "distinct (ranked_runs ids seed)" "set (ranked_runs ids seed) = {r \<in> set ids. r \<noteq> []}" "length (ranked_runs ids seed) = length (audit_runs ids)"
  by (auto simp: audit_runs_def ranked_runs_def)

lemma sorted_pairs: "sorted_by id (map (\<lambda>r. (f r, r)) xs) = map (\<lambda>r. (f r, r)) (sorted_by (\<lambda>r. (f r, r)) xs)"
proof -
  let ?g = "\<lambda>r. (f r, r)"
  have "filter (\<lambda>y. ?g y = ?g x) (sorted_by ?g xs) = filter (\<lambda>y. ?g y = ?g x) xs" for x
    unfolding sorted_by_def by (rule sort_key_stable)
  moreover have "sorted (map id (map ?g (sorted_by ?g xs)))"
    using sorted_sorted_by [of ?g xs] by (simp add: comp_def)
  moreover have "mset (sorted_by ?g xs) = mset xs" by (simp add: sorted_by_def)
  ultimately show ?thesis unfolding sorted_by_def [of id]
    by (intro properties_for_sort_key) (auto simp: filter_map comp_def eq_commute)
qed


lemma ranked_prefix:
  "filter (\<lambda>r. int_of_hex (digest_of seed r) \<le> t) (ranked_runs ids seed)
    = take (length (filter (\<lambda>r. int_of_hex (digest_of seed r) \<le> t) (ranked_runs ids seed))) (ranked_runs ids seed)"
proof -
  let ?g = "\<lambda>r. (digest_of seed r, r)" and ?P = "\<lambda>p. int_of_hex (fst p) \<le> t" and ?rs = "ranked_runs ids seed"
  let ?Q = "\<lambda>r. int_of_hex (digest_of seed r) \<le> t"
  have "filter ?P (map ?g ?rs) = take (length (filter ?P (map ?g ?rs))) (map ?g ?rs)"
  proof (rule filter_sorted_prefix)
    show "sorted (map ?g ?rs)" using sorted_sorted_by [of ?g] by (simp add: ranked_runs_def)
  next
    fix p q assume "p \<in> set (map ?g ?rs)" "q \<in> set (map ?g ?rs)" "p \<le> q" "?P q"
    then show "?P p" using digest_le by (force simp: less_eq_prod_def dest: less_imp_le)
  qed
  moreover have f: "filter ?P (map ?g ?rs) = map ?g (filter ?Q ?rs)" by (simp add: filter_map comp_def)
  ultimately have "map ?g (filter ?Q ?rs) = map ?g (take (length (filter ?Q ?rs)) ?rs)"
    unfolding f by (simp only: length_map take_map)
  then have "map snd (map ?g (filter ?Q ?rs)) = map snd (map ?g (take (length (filter ?Q ?rs)) ?rs))" by (rule arg_cong)
  moreover have "map snd (map ?g xs) = xs" for xs by (simp add: comp_def)
  ultimately show ?thesis by (simp only:)
qed

lemma select_sample_closed:
  assumes "f_le (Fin 0) rate" "f_le rate (Fin 1)" "0 \<le> minimum" "rate \<noteq> Fin 0" "sample_threshold rate = Inr t"
  shows "select_reference_audit_sample ids rate seed minimum
    = Inr (sorted_by id (take (max (below_threshold ids rate seed) (nat minimum)) (ranked_runs ids seed)))"
proof (cases "audit_runs ids = []")
  case True
  then have "ranked_runs ids seed = []" by (simp add: ranked_runs_def sorted_by_def)
  then show ?thesis using assms True
    by (simp add: select_reference_audit_sample_def audit_runs_def [symmetric]) (simp add: sorted_by_def)
next
  case False
  let ?g = "\<lambda>r. (digest_of seed r, r)" and ?rs = "ranked_runs ids seed"
  let ?low = "filter (\<lambda>r. int_of_hex (digest_of seed r) \<le> t) ?rs"
  have pairs: "mapE (\<lambda>r. bindE (run_digest seed r) (\<lambda>d. Inr (d, r))) (audit_runs ids) = Inr (map ?g (audit_runs ids))"
    by (rule mapE_all) (simp add: run_digest_of)
  have ranked: "sorted_by id (map ?g (audit_runs ids)) = map ?g ?rs" by (simp add: sorted_pairs ranked_runs_def)
  have "f_eq rate (Fin 0) = False" using assms by (cases rate) auto
  then have "select_reference_audit_sample ids rate seed minimum = Inr (sorted_by id (top_up minimum ?rs ?low))"
    using assms False
    by (simp add: select_reference_audit_sample_def audit_runs_def [symmetric] pairs ranked filter_map comp_def Let_def)
  moreover have "top_up minimum ?rs ?low = take (max (length ?low) (nat minimum)) ?rs"
    by (subst ranked_prefix, rule top_up_prefix) (simp_all del: audit_runs_simps(5))
  ultimately show ?thesis using assms by (simp add: below_threshold_def)
qed

subsection \<open>The threshold\<close>

lemma pow2_numeral: "pow2 (numeral n) = 2 ^ numeral n"
  by (simp add: pow2_def)

lemma full_range: "fl (of_int (2 ^ 256 - 1)) = Fin (2 ^ 256)"
proof -
  let ?x = "of_int (2 ^ 256 - 1) :: rat"
  have "ilog2 ?x = 255" by (rule ilog2_unique) (simp_all add: pow2_numeral)
  then have u: "ulp_exp ?x = 203" by (simp add: ulp_exp_def)
  have f: "\<lfloor>?x / 2 ^ 203\<rfloor> = 2 ^ 53 - 1" by (rule floor_unique) simp_all
  have "round_half_even (?x / 2 ^ 203) = 2 ^ 53" unfolding round_half_even_def f by simp
  then have "round53_pos ?x = 2 ^ 256" unfolding round53_pos_def u pow2_numeral by simp
  then have r: "round53 ?x = 2 ^ 256" by (simp add: round53_def)
  have "(2 ^ 256 :: rat) < pow2 1024" "- pow2 1024 < (2 ^ 256 :: rat)" by (simp_all add: pow2_numeral)
  then show ?thesis unfolding fl_def r Let_def by simp
qed

lemma fl_range: "fl (2 ^ 256) = Fin (2 ^ 256)"
  using fl_Fin [of "2 ^ 256"] round53_pow2 [of 256] by (simp add: pow2_numeral)

lemma sample_threshold_unit:
  assumes "0 \<le> x" "x \<le> 1"
  shows "sample_threshold (Fin x) = Inr \<lfloor>round53 (x * 2 ^ 256)\<rfloor>"
proof -
  have "x * 2 ^ 256 \<le> 1 * 2 ^ 256" by (rule mult_right_mono) (use assms in auto)
  also have "(1 * 2 ^ 256 :: rat) \<le> pow2 1023" by (simp add: pow2_numeral)
  finally have "fl (x * 2 ^ 256) = Fin (round53 (x * 2 ^ 256))" using assms by (intro fl_Fin) simp
  moreover have "0 \<le> round53 (x * 2 ^ 256)" using round53_mono [of 0 "x * 2 ^ 256"] assms by simp
  ultimately show ?thesis unfolding sample_threshold_def float_of_int_def full_range by (simp add: trunc_rat_def)
qed

lemma unit_rate: "f_le (Fin 0) rate \<Longrightarrow> f_le rate (Fin 1) \<Longrightarrow> \<exists>x. rate = Fin x \<and> 0 \<le> x \<and> x \<le> 1"
  by (cases rate) (auto simp: f_le_def)

lemma below_threshold_mono:
  assumes "f_le (Fin 0) rate" "f_le rate rate'" "f_le rate' (Fin 1)"
  shows "below_threshold ids rate seed \<le> below_threshold ids rate' seed"
proof -
  obtain x y where xy: "rate = Fin x" "rate' = Fin y" "0 \<le> x" "x \<le> y" "y \<le> 1"
    using unit_rate [of rate] unit_rate [of rate'] f_le_trans assms by (metis f_le_Fin)
  have "x * 2 ^ 256 \<le> y * 2 ^ 256" by (rule mult_right_mono) (use xy in auto)
  then have "\<lfloor>round53 (x * 2 ^ 256)\<rfloor> \<le> \<lfloor>round53 (y * 2 ^ 256)\<rfloor>" by (intro floor_mono round53_mono)
  then have "length (filter (\<lambda>r. int_of_hex (digest_of seed r) \<le> \<lfloor>round53 (x * 2 ^ 256)\<rfloor>) rs)
      \<le> length (filter (\<lambda>r. int_of_hex (digest_of seed r) \<le> \<lfloor>round53 (y * 2 ^ 256)\<rfloor>) rs)" for rs
    by (induction rs) auto
  then show ?thesis using xy by (simp add: below_threshold_def sample_threshold_unit)
qed

lemma below_threshold_all: "below_threshold ids (Fin 1) seed = length (ranked_runs ids seed)"
proof -
  have "int_of_hex (digest_of seed r) \<le> \<lfloor>2 ^ 256 :: rat\<rfloor>" for r
    using int_of_hex_bounds [OF hex_text_sha256, of "dumps_text (JObj [(''seed'', JStr seed), (''run_id'', JStr r)])"]
    by (simp add: digest_of_def)
  moreover have "round53 (2 ^ 256) = 2 ^ 256" using round53_pow2 [of 256] by (simp add: pow2_numeral)
  ultimately show ?thesis by (simp add: below_threshold_def sample_threshold_unit del: audit_runs_simps(5))
qed

lemma ranked_runs_order:
  assumes "set ids = set ids'"
  shows "ranked_runs ids seed = ranked_runs ids' seed"
proof -
  have m: "mset (audit_runs ids) = mset (audit_runs ids')"
    using assms by (simp add: set_eq_iff_mset_eq_distinct [symmetric])
  show ?thesis unfolding ranked_runs_def by (rule sorted_by_mset_eq [OF m]) (simp add: inj_on_def)
qed

lemma audit_sample_closed:
  assumes "f_le (Fin 0) rate" "f_le rate (Fin 1)" "0 \<le> minimum"
  shows "select_reference_audit_sample ids rate seed minimum = Inr (if f_eq rate (Fin 0) then []
    else sorted_by id (take (max (below_threshold ids rate seed) (nat minimum)) (ranked_runs ids seed)))"
proof (cases "f_eq rate (Fin 0)")
  case True
  then show ?thesis using assms by (simp add: select_reference_audit_sample_def)
next
  case False
  obtain x where "rate = Fin x" "0 \<le> x" "x \<le> 1" using unit_rate assms by blast
  then show ?thesis using select_sample_closed [OF assms] sample_threshold_unit [of x] False by simp
qed


text \<open>C17: Auditing more never drops a run: for the same runs, in any order and with any repetitions, a higher rate
  or a higher least number gives a sample that contains the sample of the lower one; the sample holds
  only given run ids, each once, at the full rate all of them, and at a rate above 0 at least the
  number asked for as long as there are so many.\<close>

theorem audit_sample_monotone:
  assumes "f_le (Fin 0) rate" "f_le rate rate'" "f_le rate' (Fin 1)" "0 \<le> minimum" "minimum \<le> minimum'" "set ids = set ids'"
  shows "\<exists>s s'. select_reference_audit_sample ids rate seed minimum = Inr s \<and> select_reference_audit_sample ids' rate' seed minimum' = Inr s'
    \<and> set s \<subseteq> set s' \<and> distinct s' \<and> set s' \<subseteq> {r \<in> set ids. r \<noteq> []} \<and> (rate' = Fin 1 \<longrightarrow> set s' = {r \<in> set ids. r \<noteq> []})
    \<and> (rate' \<noteq> Fin 0 \<longrightarrow> min minimum' (int (card {r \<in> set ids. r \<noteq> []})) \<le> int (length s'))"
proof -
  let ?rs = "ranked_runs ids seed" and ?k = "max (below_threshold ids rate seed) (nat minimum)"
  let ?k' = "max (below_threshold ids rate' seed) (nat minimum')"
  have rs: "ranked_runs ids' seed = ?rs" using ranked_runs_order assms(6) by metis
  then have below: "below_threshold ids' rate' seed = below_threshold ids rate' seed"
    by (simp add: below_threshold_def split: sum.splits)
  have lo: "select_reference_audit_sample ids rate seed minimum = Inr (if f_eq rate (Fin 0) then [] else sorted_by id (take ?k ?rs))"
    using audit_sample_closed assms f_le_trans by blast
  have hi: "select_reference_audit_sample ids' rate' seed minimum' = Inr (if f_eq rate' (Fin 0) then [] else sorted_by id (take ?k' ?rs))"
    unfolding rs [symmetric] below [symmetric] by (rule audit_sample_closed) (use assms f_le_trans in auto)
  have kk: "?k \<le> ?k'" using below_threshold_mono [of rate rate' ids seed] assms by auto
  have sub: "set (take ?k ?rs) \<subseteq> set (take ?k' ?rs)" using kk by (rule set_take_subset_set_take)
  have zero: "f_eq rate (Fin 0)" if "f_eq rate' (Fin 0)"
    using that assms(1,2) by (cases rate; cases rate') auto
  have full: "rate' = Fin 1 \<Longrightarrow> take ?k' ?rs = ?rs" using below_threshold_all [of ids seed] by simp
  have card: "card {r \<in> set ids. r \<noteq> []} = length ?rs" using distinct_card [of ?rs] by simp
  have inside: "set (take ?k' ?rs) \<subseteq> {r \<in> set ids. r \<noteq> []}" using set_take_subset [of ?k' ?rs] by simp
  show ?thesis
  proof (cases "f_eq rate' (Fin 0)")
    case True
    then have "rate' = Fin 0" by (cases rate') auto
    then show ?thesis using lo hi zero True by simp
  next
    case False
    then show ?thesis using lo hi sub inside full card by (auto simp: min_def)
  qed
qed

section \<open>Parity\<close>

text \<open>Two runs of the same job: specification, parameters, data, costs and window agree.\<close>

definition same_identity :: "run_manifest \<Rightarrow> run_manifest \<Rightarrow> bool" where
  "same_identity a b \<longleftrightarrow> rm_strategy_spec_hash a = rm_strategy_spec_hash b \<and> rm_params_hash a = rm_params_hash b \<and>
     rm_archive_snapshot a = rm_archive_snapshot b \<and> rm_universe_snapshot a = rm_universe_snapshot b \<and>
     rm_data_manifest a = rm_data_manifest b \<and> rm_data_hash a = rm_data_hash b \<and> rm_validation_hash a = rm_validation_hash b \<and>
     rm_cost_hash a = rm_cost_hash b \<and> rm_cost_model_hash a = rm_cost_model_hash b \<and> rm_timeframe a = rm_timeframe b \<and>
     rm_start a = rm_start b \<and> rm_end a = rm_end b"

definition comparable :: "run_manifest \<Rightarrow> run_manifest \<Rightarrow> bool" where
  "comparable a b \<longleftrightarrow> rm_lane a = VECTORIZED \<and> rm_lane b = FAST_VECTORIZED \<and> rm_metrics a \<noteq> None \<and> rm_metrics b \<noteq> None \<and> same_identity a b"

text \<open>Every metric of one run is within the tolerance of the other's.\<close>

definition metrics_close :: "pyfloat \<Rightarrow> run_metrics \<Rightarrow> run_metrics \<Rightarrow> bool" where
  "metrics_close tol x y \<longleftrightarrow> (\<forall>(name, get) \<in> set METRIC_FIELDS. \<exists>u v. get x = Inr u \<and> get y = Inr v \<and> f_le (f_abs (f_sub u v)) tol)"

lemma differing_Nil [simp]: "differing ps = [] \<longleftrightarrow> (\<forall>(f, same) \<in> set ps. same)"
  by (auto simp: differing_def filter_empty_conv)

lemma identity_mismatches_Nil: "identity_mismatches a b = [] \<longleftrightarrow> same_identity a b"
  by (auto simp: identity_mismatches_def identity_fields_def same_identity_def)

lemma parity_blockers_Nil: "parity_blockers a b = [] \<longleftrightarrow> comparable a b"
  by (auto simp: parity_blockers_def comparable_def identity_mismatches_Nil)

lemma diff_of_simps [simp]:
  "md_within (diff_of tol name x y) = f_le (f_abs (f_sub x y)) tol" "md_metric (diff_of tol name x y) = name"
  by (simp_all add: diff_of_def Let_def)

lemma diffs_within:
  assumes "metric_diffs_of tol x y = Inr ds"
  shows "list_all md_within ds \<longleftrightarrow> metrics_close tol x y" "ds \<noteq> []"
proof -
  let ?f = "\<lambda>(name, get). bindE (get x) (\<lambda>u. bindE (get y) (\<lambda>v. validate_diff (diff_of tol name u v)))"
  have m: "list_all2 (\<lambda>p d. ?f p = Inr d) METRIC_FIELDS ds"
    using assms by (simp add: metric_diffs_of_def mapE_Inr_iff)
  have one: "md_within d \<longleftrightarrow> (case p of (name, get) \<Rightarrow> \<exists>u v. get x = Inr u \<and> get y = Inr v \<and> f_le (f_abs (f_sub u v)) tol)"
    if "?f p = Inr d" for p d
    using that by (cases p) (auto simp: bindE_Inr_iff validate_diff_def validate_model_Inr_iff)
  have "list_all md_within ds \<longleftrightarrow> (\<forall>p \<in> set METRIC_FIELDS. case p of (name, get) \<Rightarrow> \<exists>u v. get x = Inr u \<and> get y = Inr v \<and> f_le (f_abs (f_sub u v)) tol)"
    using m by (induction rule: list_all2_induct) (simp_all add: one)
  then show "list_all md_within ds \<longleftrightarrow> metrics_close tol x y" by (simp add: metrics_close_def)
  show "ds \<noteq> []" using m by (auto simp: METRIC_FIELDS_def)
qed

lemma parity_diffs_status:
  assumes "parity_diffs tol a b = Inr ds"
  shows "parity_status_of (parity_blockers a b) ds = (if \<not> comparable a b then PARITY_BLOCKED
    else if metrics_close tol (the (rm_metrics a)) (the (rm_metrics b)) then PARITY_PASS else PARITY_FAIL)"
proof (cases "comparable a b")
  case True
  then obtain x y where "rm_metrics a = Some x" "rm_metrics b = Some y" by (auto simp: comparable_def)
  then show ?thesis using assms True parity_blockers_Nil [of a b] diffs_within(1) [of tol x y ds]
    by (simp add: parity_diffs_def parity_status_of_def)
next
  case False
  then show ?thesis using parity_blockers_Nil [of a b] by (simp add: parity_status_of_def)
qed

lemma parity_rerun_pass [simp]: "parity_rerun PARITY_PASS b = Inr None"
  by (simp add: parity_rerun_def)

lemma rerun_plan_fields:
  assumes "build_reference_rerun_plan m r reason = Inr p"
  shows "rm_lane m = FAST_VECTORIZED" "rp_source p = rm_run_id m" "rp_lane p = VECTORIZED" "rp_mode p = FULL"
    "rp_data_hash p = rm_data_hash m" "rp_spec_hash p = rm_strategy_spec_hash m" "rp_params_hash p = rm_params_hash m"
    "rp_data_manifest p = rm_data_manifest m" "rp_reason p = reason"
  using assms by (auto simp: build_reference_rerun_plan_def validate_rerun_plan_def validate_model_Inr_iff bindE_Inr_iff
      plan_of_rerun_def Let_def split: if_splits option.splits)

lemma parity_rerun_plan:
  assumes "parity_rerun status b = Inr plan"
  shows "plan = None \<or> (\<exists>p. plan = Some p \<and> status \<noteq> PARITY_PASS \<and> rp_source p = rm_run_id b \<and> rp_lane p = VECTORIZED \<and> rp_mode p = FULL
    \<and> rp_data_hash p = rm_data_hash b \<and> rp_spec_hash p = rm_strategy_spec_hash b \<and> rp_params_hash p = rm_params_hash b)"
  using assms by (auto simp: parity_rerun_def bindE_Inr_iff rerun_plan_fields split: if_splits)

lemma parity_report_simps [simp]:
  "fp_status (parity_report_of a b tol claim ds bs p) = parity_status_of (parity_blockers a b) ds"
  "fp_suspicious (parity_report_of a b tol claim ds bs p) = (parity_status_of (parity_blockers a b) ds \<noteq> PARITY_PASS)"
  "fp_rerun (parity_report_of a b tol claim ds bs p) = p" "fp_speedup_claimed (parity_report_of a b tol claim ds bs p) = claim"
  "fp_benchmarks (parity_report_of a b tol claim ds bs p) = bs" "fp_flags (parity_report_of a b tol claim ds bs p) = default_flags"
  "fp_reference (parity_report_of a b tol claim ds bs p) = rm_run_id a" "fp_fast (parity_report_of a b tol claim ds bs p) = rm_run_id b"
  "fp_tolerance (parity_report_of a b tol claim ds bs p) = tol"
  by (simp_all add: parity_report_of_def Let_def)

lemma validate_report_Inr:
  "validate_parity_report r = Inr r' \<Longrightarrow> r' = r \<and> (fp_status r = PARITY_FAIL \<longrightarrow> fp_rerun r \<noteq> None)
    \<and> (fp_speedup_claimed r \<longrightarrow> missing_speedup_observations (fp_benchmarks r) = [])"
  by (auto simp: validate_parity_report_def validate_model_Inr_iff benchmark_entries_def)

lemma audit_parts:
  assumes "audit_fast_lane_parity a b tol claim = Inr r"
  obtains ds bs plan h where "parity_diffs tol a b = Inr ds" "parity_rerun (parity_status_of (parity_blockers a b) ds) b = Inr plan"
    "validate_parity_report ((parity_report_of a b tol claim ds bs plan)\<lparr>fp_id := h\<rparr>) = Inr r"
  using assms by (auto simp: audit_fast_lane_parity_def bindE_Inr_iff Let_def split: if_splits)

text \<open>C16: A parity report passes exactly when the reference run is a vectorized one, the fast run a fast one, both have
  metrics, the two runs agree on all twelve identity fields and every one of the fourteen metrics is within
  the tolerance; it fails when only the last is missed and is blocked otherwise.  A report that does not
  pass is marked suspicious, a failed one carries a plan to rerun the same specification, parameters
  and data on the reference lane with full artifacts, and a claimed speedup comes with all its observations.\<close>

theorem parity_report_exact:
  assumes "audit_fast_lane_parity a b tol claim = Inr r"
  shows "fp_status r = (if \<not> comparable a b then PARITY_BLOCKED
      else if metrics_close tol (the (rm_metrics a)) (the (rm_metrics b)) then PARITY_PASS else PARITY_FAIL)
    \<and> (fp_suspicious r \<longleftrightarrow> fp_status r \<noteq> PARITY_PASS) \<and> (fp_status r = PARITY_PASS \<longrightarrow> fp_rerun r = None)
    \<and> (fp_status r = PARITY_FAIL \<longrightarrow> (\<exists>p. fp_rerun r = Some p \<and> rp_source p = rm_run_id b \<and> rp_lane p = VECTORIZED \<and> rp_mode p = FULL
        \<and> rp_data_hash p = rm_data_hash a \<and> rp_spec_hash p = rm_strategy_spec_hash a \<and> rp_params_hash p = rm_params_hash a))
    \<and> (claim \<longrightarrow> missing_speedup_observations (fp_benchmarks r) = [])"
proof -
  obtain ds bs plan h where d: "parity_diffs tol a b = Inr ds" "parity_rerun (parity_status_of (parity_blockers a b) ds) b = Inr plan"
    and v: "validate_parity_report ((parity_report_of a b tol claim ds bs plan)\<lparr>fp_id := h\<rparr>) = Inr r"
    using audit_parts [OF assms] .
  from validate_report_Inr [OF v] have r: "r = (parity_report_of a b tol claim ds bs plan)\<lparr>fp_id := h\<rparr>"
    "parity_status_of (parity_blockers a b) ds = PARITY_FAIL \<longrightarrow> plan \<noteq> None" "claim \<longrightarrow> missing_speedup_observations bs = []"
    by auto
  note s = parity_diffs_status [OF d(1)]
  have same: "parity_status_of (parity_blockers a b) ds = PARITY_FAIL \<Longrightarrow> same_identity a b"
    using s by (auto simp: comparable_def split: if_splits)
  show ?thesis using r s parity_rerun_plan [OF d(2)] same by (auto simp: same_identity_def split: if_splits)
qed
section \<open>Replays\<close>

text \<open>The same job with the same setup: identity, cost model, universe, window, lockbox, policies and prices.\<close>

definition same_setup :: "run_manifest \<Rightarrow> run_manifest \<Rightarrow> bool" where
  "same_setup a b \<longleftrightarrow> same_identity a b \<and> rm_cost_model_id a = rm_cost_model_id b \<and> rm_universe_mode a = rm_universe_mode b \<and>
     rm_venue_scope a = rm_venue_scope b \<and> rm_instruments a = rm_instruments b \<and> rm_lockbox_policy a = rm_lockbox_policy b \<and>
     rm_lockbox_start a = rm_lockbox_start b \<and> rm_lockbox_end a = rm_lockbox_end b \<and> f_eq (rm_coverage_min a) (rm_coverage_min b) \<and>
     rm_validation_policy a = rm_validation_policy b \<and> rm_missing_policy a = rm_missing_policy b \<and> rm_price_basis a = rm_price_basis b"

definition payloads_agree :: "(string \<times> json) list option \<Rightarrow> (string \<times> json) list option \<Rightarrow> bool" where
  "payloads_agree x y \<longleftrightarrow> (\<exists>p q. x = Some p \<and> y = Some q \<and> (\<forall>f \<in> set REPLAY_MANIFEST_IDENTITY_FIELDS. py_eq (json_get p f) (json_get q f)))"

lemma replay_mismatches_Nil: "replay_identity_mismatches a b = [] \<longleftrightarrow> same_setup a b \<and> rm_lane a = rm_lane b"
  by (auto simp: replay_identity_mismatches_def full_replay_identity_mismatches_def full_replay_identity_fields_def same_setup_def same_identity_def)

lemma payload_mismatches_Nil:
  "payload_mismatches (both_given x y) = [] \<and> both_given x y \<noteq> None \<longleftrightarrow> payloads_agree x y"
  by (cases x; cases y) (auto simp: payload_mismatches_def replay_manifest_identity_mismatches_def payloads_agree_def filter_empty_conv)

lemma missing_full_Nil: "missing_full_artifacts m = [] \<longleftrightarrow> set FULL_ARTIFACTS \<subseteq> fst ` set (rm_artifacts m)"
proof -
  have "sorted_by id xs = [] \<longleftrightarrow> xs = []" for xs :: "string list" by (metis length_0_conv length_sorted_by)
  then show ?thesis by (auto simp: missing_full_artifacts_def filter_empty_conv)
qed

lemma replay_blockers_Nil:
  "replay_blockers a b given ds = [] \<longleftrightarrow> rm_artifact_mode a \<noteq> FULL \<and> rm_artifact_mode b = FULL \<and> rm_replayable a
    \<and> set FULL_ARTIFACTS \<subseteq> fst ` set (rm_artifacts b) \<and> rm_metrics a \<noteq> None \<and> rm_metrics b \<noteq> None \<and> given \<and> list_all md_within ds"
  by (auto simp: replay_blockers_def missing_full_Nil)

lemma replay_check_simps [simp]:
  "yv_status (replay_check_of a b ps tol ds) = (if replay_blockers a b (ps \<noteq> None) ds = [] \<and> replay_identity_mismatches a b = []
     \<and> payload_mismatches ps = [] then REPLAY_PASS else REPLAY_FAIL)"
  "yv_same_config (replay_check_of a b ps tol ds) = (replay_identity_mismatches a b = [])"
  "yv_manifest_verified (replay_check_of a b ps tol ds) = (ps \<noteq> None \<and> payload_mismatches ps = [])"
  "yv_metrics_verified (replay_check_of a b ps tol ds) = (ds \<noteq> [] \<and> list_all md_within ds)"
  "yv_full_verified (replay_check_of a b ps tol ds) = (rm_artifact_mode b = FULL \<and> missing_full_artifacts b = [])"
  "yv_mismatches (replay_check_of a b ps tol ds) = uniq (replay_identity_mismatches a b)"
  "yv_manifest_mismatches (replay_check_of a b ps tol ds) = uniq (payload_mismatches ps)"
  "yv_blockers (replay_check_of a b ps tol ds) = uniq (replay_blockers a b (ps \<noteq> None) ds)"
  "yv_diffs (replay_check_of a b ps tol ds) = ds" "yv_tolerance (replay_check_of a b ps tol ds) = tol"
  "yv_source (replay_check_of a b ps tol ds) = rm_run_id a" "yv_replay (replay_check_of a b ps tol ds) = rm_run_id b"
  "yv_source_hash (replay_check_of a b ps tol ds) = rm_replay_hash a" "yv_replay_hash (replay_check_of a b ps tol ds) = rm_replay_hash b"
  "yv_flags (replay_check_of a b ps tol ds) = default_flags"
  by (simp_all add: replay_check_of_def Let_def)

lemma verify_parts:
  assumes "verify_full_artifact_replay a b x y tol = Inr r"
  obtains ds h where "replay_diffs tol a b = Inr ds"
    "r = (replay_check_of a b (both_given x y) tol ds)\<lparr>yv_id := h\<rparr>"
  using assms by (auto simp: verify_full_artifact_replay_def bindE_Inr_iff Let_def validate_replay_check_def validate_model_Inr_iff split: if_splits)

text \<open>What a replay has to be to count as verified.\<close>

definition faithful_replay ::
  "run_manifest \<Rightarrow> run_manifest \<Rightarrow> (string \<times> json) list option \<Rightarrow> (string \<times> json) list option \<Rightarrow> pyfloat \<Rightarrow> bool" where
  "faithful_replay a b x y tol \<longleftrightarrow> rm_artifact_mode a \<noteq> FULL \<and> rm_replayable a \<and> rm_artifact_mode b = FULL
     \<and> set FULL_ARTIFACTS \<subseteq> fst ` set (rm_artifacts b) \<and> same_setup a b \<and> rm_lane a = rm_lane b \<and> payloads_agree x y
     \<and> (\<exists>u v. rm_metrics a = Some u \<and> rm_metrics b = Some v \<and> metrics_close tol u v)"

lemma replay_diffs_Inr:
  assumes "replay_diffs tol a b = Inr ds"
  shows "rm_metrics a = Some u \<Longrightarrow> rm_metrics b = Some v \<Longrightarrow> metric_diffs_of tol u v = Inr ds"
    "rm_metrics a = None \<or> rm_metrics b = None \<Longrightarrow> ds = []"
  using assms by (auto simp: replay_diffs_def split: option.splits)

text \<open>C15: The verification of a replay passes exactly on a faithful one: a light, replayable source; full artifacts, all
  fifteen of them; the same lane; agreement on the twenty-three fields of the setup and on the fourteen
  fields of the two replay manifests; metrics on both sides, all within the tolerance.  A report that
  passes carries every flag and no mismatch.\<close>

theorem replay_verification_exact:
  assumes "verify_full_artifact_replay a b x y tol = Inr r"
  shows "(yv_status r = REPLAY_PASS \<longleftrightarrow> faithful_replay a b x y tol)
    \<and> (yv_status r = REPLAY_PASS \<longrightarrow> yv_same_config r \<and> yv_manifest_verified r \<and> yv_metrics_verified r \<and> yv_full_verified r
      \<and> yv_blockers r = [] \<and> yv_mismatches r = [] \<and> yv_manifest_mismatches r = [])"
proof -
  let ?ps = "both_given x y"
  obtain ds h where d: "replay_diffs tol a b = Inr ds" and r: "r = (replay_check_of a b ?ps tol ds)\<lparr>yv_id := h\<rparr>"
    using verify_parts [OF assms] .
  have close: "ds \<noteq> [] \<and> (list_all md_within ds \<longleftrightarrow> metrics_close tol u v)" if "rm_metrics a = Some u" "rm_metrics b = Some v" for u v
    using diffs_within replay_diffs_Inr(1) [OF d that] by blast
  have pass: "yv_status r = REPLAY_PASS \<longleftrightarrow> replay_blockers a b (?ps \<noteq> None) ds = [] \<and> replay_identity_mismatches a b = [] \<and> payload_mismatches ?ps = []"
    by (simp add: r)
  have eq: "yv_status r = REPLAY_PASS \<longleftrightarrow> faithful_replay a b x y tol"
    unfolding pass replay_blockers_Nil replay_mismatches_Nil faithful_replay_def
    using payload_mismatches_Nil [of x y] close by (cases "rm_metrics a"; cases "rm_metrics b") auto
  then show ?thesis using pass close payload_mismatches_Nil [of x y] unfolding faithful_replay_def
    by (auto simp: r missing_full_Nil replay_mismatches_Nil simp del: not_None_eq)
qed
section \<open>Samples\<close>

definition sample_metrics :: run_metrics where
  "sample_metrics = \<lparr>mt_schema = V2_SCHEMA_VERSION, mt_run_id = ''run-a'', mt_status = RUN_SUCCEEDED, mt_gross_return = Fin 0,
     mt_net_return = Fin 0, mt_gross_equity = Fin 1, mt_net_equity = Fin 1, mt_fee = Fin 0, mt_spread = Fin 0, mt_slippage = Fin 0,
     mt_impact = Fin 0, mt_transaction = Fin 0, mt_funding = Fin 0, mt_turnover = Fin 0, mt_trades = 0, mt_positions = 0, mt_blocked = 0,
     mt_gross_only = False, mt_flags = default_flags\<rparr>"

definition sample_digest :: string where
  "sample_digest = replicate 64 CHR ''0''"

definition sample_manifest :: "string \<Rightarrow> engine_lane \<Rightarrow> artifact_mode \<Rightarrow> run_manifest" where
  "sample_manifest run_id lane mode = \<lparr>rm_schema = V2_SCHEMA_VERSION, rm_run_id = run_id, rm_experiment = ''e'', rm_trial = 0, rm_agent = ''a'',
     rm_created = 0, rm_status = RUN_SUCCEEDED, rm_lane = lane, rm_strategy_lane = ''research'', rm_git_sha = ''g'',
     rm_environment_hash = sample_digest, rm_strategy_id = ''s'', rm_strategy_version = ''1'', rm_strategy_hash = sample_digest,
     rm_strategy_spec_hash = sample_digest, rm_params_hash = sample_digest, rm_archive_snapshot = ''x'', rm_universe_snapshot = ''u'',
     rm_data_manifest = ''d'', rm_data_hash = sample_digest, rm_validation_hash = sample_digest, rm_cost_hash = sample_digest,
     rm_universe_mode = ''m'', rm_venue_scope = ''v'', rm_instruments = 1, rm_timeframe = ''1h'', rm_start = 0, rm_end = 3600000000,
     rm_months = 0, rm_lockbox_policy = ''l'', rm_lockbox_start = None, rm_lockbox_end = None, rm_coverage_min = Fin 1,
     rm_cost_model_id = ''c'', rm_cost_model_hash = sample_digest, rm_notional = Fin 1, rm_validation_policy = ''p'', rm_validation = RV_PASS,
     rm_missing_policy = FAIL_CLOSED, rm_price_basis = ''close'', rm_artifact_mode = mode, rm_replayable = True,
     rm_replay_hash = Some sample_digest, rm_fast_lane_policy = ''f'', rm_reference_authority = True, rm_audit_sample_rate = Fin 0,
     rm_speedup_claimed = False, rm_benchmarks = [], rm_failure = None, rm_metrics = Some sample_metrics,
     rm_artifacts = map (\<lambda>n. (n, \<lparr>af_name = n, af_path = n, af_sha = sample_digest, af_rows = None, af_required = True\<rparr>)) FULL_ARTIFACTS,
     rm_flags = default_flags\<rparr>"

lemma sample_manifest_simps [simp]:
  "rm_run_id (sample_manifest r l m) = r" "rm_lane (sample_manifest r l m) = l" "rm_artifact_mode (sample_manifest r l m) = m"
  "rm_metrics (sample_manifest r l m) = Some sample_metrics" "rm_benchmarks (sample_manifest r l m) = []"
  "rm_replayable (sample_manifest r l m)" "rm_replay_hash (sample_manifest r l m) = Some sample_digest"
  "fst ` set (rm_artifacts (sample_manifest r l m)) = set FULL_ARTIFACTS"
  "same_identity (sample_manifest r l m) (sample_manifest r' l' m')"
  by (simp_all add: sample_manifest_def same_identity_def image_image)

lemma sample_metrics_close: "metrics_close (Fin 0) sample_metrics sample_metrics"
  by (simp add: metrics_close_def METRIC_FIELDS_def sample_metrics_def float_of_int_def f_sub_def)

lemma sample_diffs: "\<exists>ds. metric_diffs_of (Fin 0) sample_metrics sample_metrics = Inr ds \<and> list_all (\<lambda>d. isfinite (md_reference d) \<and> isfinite (md_fast d) \<and> isfinite (md_abs_diff d) \<and> md_tolerance d = Fin 0) ds"
  by (simp add: metric_diffs_of_def METRIC_FIELDS_def sample_metrics_def float_of_int_def f_sub_def diff_of_def Let_def validate_diff_def validate_model_def)

lemma diff_json_finite:
  "list_all (\<lambda>d. isfinite (md_reference d) \<and> isfinite (md_fast d) \<and> isfinite (md_abs_diff d) \<and> md_tolerance d = Fin 0) ds \<Longrightarrow>
     list_all all_finite (map (diff_json names) ds)"
  by (induction ds) (auto simp: diff_json_def)

lemma texts_finite: "list_all all_finite (map JStr xs)"
  by (induction xs) auto

lemma boundary_entry_clear: "case boundary_entry what default_flags of (c, m) \<Rightarrow> \<not> c"
  using boundary_entry_default [of what] by (cases "boundary_entry what default_flags") simp

lemma sample_parity:
  "\<exists>r. audit_fast_lane_parity (sample_manifest ''run-a'' VECTORIZED FULL) (sample_manifest ''run-b'' FAST_VECTORIZED FULL) (Fin 0) False = Inr r"
proof -
  let ?a = "sample_manifest ''run-a'' VECTORIZED FULL" and ?b = "sample_manifest ''run-b'' FAST_VECTORIZED FULL"
  obtain ds where ds: "metric_diffs_of (Fin 0) sample_metrics sample_metrics = Inr ds"
    "list_all (\<lambda>d. isfinite (md_reference d) \<and> isfinite (md_fast d) \<and> isfinite (md_abs_diff d) \<and> md_tolerance d = Fin 0) ds"
    using sample_diffs by blast
  have c: "comparable ?a ?b" by (simp add: comparable_def)
  then have b: "parity_blockers ?a ?b = []" by (simp add: parity_blockers_Nil)
  have d: "parity_diffs (Fin 0) ?a ?b = Inr ds" unfolding parity_diffs_def b using ds by simp
  have s: "parity_status_of [] ds = PARITY_PASS" using parity_diffs_status [OF d] c sample_metrics_close b by simp
  have o: "parity_benchmark_observations ?a ?b = Inr []"
    by (simp add: parity_benchmark_observations_def speedup_ratio_def observation_def sorted_by_def)
  let ?r = "parity_report_of ?a ?b (Fin 0) False ds [] None"
  have "all_finite (JObj ([(''schema_version'', JStr V2_SCHEMA_VERSION), (''report_type'', JStr ''fast_lane_parity_report_v1'')] @ parity_payload ?r))"
    using diff_json_finite [OF ds(2)] texts_finite by (simp add: parity_payload_def parity_report_of_def Let_def)
  from canonical_json_hash_finite [OF this] obtain h where h: "canonical_json_hash (JObj ([(''schema_version'', JStr V2_SCHEMA_VERSION),
      (''report_type'', JStr ''fast_lane_parity_report_v1'')] @ parity_payload ?r)) = Inr h" "length h = 64" by blast
  have "validate_parity_report (?r\<lparr>fp_id := h\<rparr>) = Inr (?r\<lparr>fp_id := h\<rparr>)"
    using h(2) s b unfolding validate_parity_report_def validate_model_Inr_iff
    by (simp add: is_digest_def benchmark_entries_def boundary_entry_clear)
  then show ?thesis unfolding audit_fast_lane_parity_def using d o s b h(1) by (simp add: Let_def)
qed

lemma parity_report_exact_witness:
  "\<exists>r. audit_fast_lane_parity (sample_manifest ''run-a'' VECTORIZED FULL) (sample_manifest ''run-b'' FAST_VECTORIZED FULL) (Fin 0) False = Inr r
    \<and> fp_status r = PARITY_PASS \<and> \<not> fp_suspicious r"
proof -
  obtain r where r: "audit_fast_lane_parity (sample_manifest ''run-a'' VECTORIZED FULL) (sample_manifest ''run-b'' FAST_VECTORIZED FULL) (Fin 0) False = Inr r"
    using sample_parity by blast
  have "comparable (sample_manifest ''run-a'' VECTORIZED FULL) (sample_manifest ''run-b'' FAST_VECTORIZED FULL)"
    by (simp add: comparable_def)
  then show ?thesis using parity_report_exact [OF r] r sample_metrics_close by simp
qed


lemma audit_sample_monotone_witness:
  "\<exists>s s'. select_reference_audit_sample [''a''] (Fin 0) ''seed'' 0 = Inr s \<and> select_reference_audit_sample [''a'', ''a''] (Fin 1) ''seed'' 1 = Inr s'
     \<and> set s \<subseteq> set s' \<and> set s' = {''a''}"
proof -
  have eq: "{r \<in> set [''a'']. r \<noteq> []} = {''a''}" by auto
  have le: "f_le (Fin 0) (Fin 0)" "f_le (Fin 0) (Fin 1)" "f_le (Fin 1) (Fin 1)" by simp_all
  have s: "set [''a''] = set [''a'', ''a'']" by simp
  from audit_sample_monotone [OF le _ _ s, of 0 1 "''seed''"] obtain s s' where
    "select_reference_audit_sample [''a''] (Fin 0) ''seed'' 0 = Inr s" "select_reference_audit_sample [''a'', ''a''] (Fin 1) ''seed'' 1 = Inr s'"
    "set s \<subseteq> set s'" "set s' = {''a''}"
    unfolding eq by (simp only: simp_thms order_refl zero_le_one) metis
  then show ?thesis by (intro exI conjI)
qed

lemma sample_setup [simp]: "same_setup (sample_manifest r l m) (sample_manifest r' l' m')"
  by (simp add: same_setup_def) (simp add: sample_manifest_def)

text \<open>A replay manifest without any of the fields agrees with itself.\<close>

lemma sample_payloads: "payloads_agree (Some []) (Some [])"
  by (simp add: payloads_agree_def json_get_def py_eq.simps)

lemma sample_replay:
  "\<exists>r. verify_full_artifact_replay (sample_manifest ''run-a'' VECTORIZED SUMMARY) (sample_manifest ''run-b'' VECTORIZED FULL) (Some []) (Some []) (Fin 0) = Inr r"
proof -
  let ?a = "sample_manifest ''run-a'' VECTORIZED SUMMARY" and ?b = "sample_manifest ''run-b'' VECTORIZED FULL"
  obtain ds where ds: "metric_diffs_of (Fin 0) sample_metrics sample_metrics = Inr ds"
    "list_all (\<lambda>d. isfinite (md_reference d) \<and> isfinite (md_fast d) \<and> isfinite (md_abs_diff d) \<and> md_tolerance d = Fin 0) ds"
    using sample_diffs by blast
  have d: "replay_diffs (Fin 0) ?a ?b = Inr ds" using ds by (simp add: replay_diffs_def)
  let ?r = "replay_check_of ?a ?b (both_given (Some []) (Some [])) (Fin 0) ds"
  have "all_finite (JObj ([(''schema_version'', JStr V2_SCHEMA_VERSION), (''report_type'', JStr ''full_artifact_replay_verification_v1'')] @ replay_check_payload ?r))"
    using diff_json_finite [OF ds(2)] texts_finite by (simp add: replay_check_payload_def opt_json_def)
  from canonical_json_hash_finite [OF this] obtain h where h: "canonical_json_hash (JObj ([(''schema_version'', JStr V2_SCHEMA_VERSION),
      (''report_type'', JStr ''full_artifact_replay_verification_v1'')] @ replay_check_payload ?r)) = Inr h" "length h = 64" by blast
  have m: "payload_mismatches (both_given (Some []) (Some [])) = []" "both_given (Some []) (Some []) \<noteq> (None :: ((string \<times> json) list \<times> (string \<times> json) list) option)"
    using sample_payloads payload_mismatches_Nil by blast+
  have b: "replay_blockers ?a ?b (both_given (Some []) (Some []) \<noteq> (None :: ((string \<times> json) list \<times> (string \<times> json) list) option)) ds = []"
    using diffs_within(1) [OF ds(1)] sample_metrics_close by (simp add: replay_blockers_Nil)
  have i: "replay_identity_mismatches ?a ?b = []" by (simp add: replay_mismatches_Nil)
  have "validate_replay_check (?r\<lparr>yv_id := h\<rparr>) = Inr (?r\<lparr>yv_id := h\<rparr>)"
    using h(2) m b i diffs_within [OF ds(1)] sample_metrics_close unfolding validate_replay_check_def validate_model_Inr_iff
    by (simp add: is_digest_def boundary_entry_clear missing_full_Nil sample_digest_def)
  then show ?thesis unfolding verify_full_artifact_replay_def using d h(1) by (simp add: Let_def)
qed

lemma replay_verification_exact_witness:
  "\<exists>r. verify_full_artifact_replay (sample_manifest ''run-a'' VECTORIZED SUMMARY) (sample_manifest ''run-b'' VECTORIZED FULL) (Some []) (Some []) (Fin 0) = Inr r
    \<and> yv_status r = REPLAY_PASS \<and> yv_full_verified r"
proof -
  obtain r where r: "verify_full_artifact_replay (sample_manifest ''run-a'' VECTORIZED SUMMARY) (sample_manifest ''run-b'' VECTORIZED FULL) (Some []) (Some []) (Fin 0) = Inr r"
    using sample_replay by blast
  have "faithful_replay (sample_manifest ''run-a'' VECTORIZED SUMMARY) (sample_manifest ''run-b'' VECTORIZED FULL) (Some []) (Some []) (Fin 0)"
    using sample_payloads sample_metrics_close by (simp add: faithful_replay_def)
  then show ?thesis using replay_verification_exact [OF r] r by blast
qed
end
