(* ===== verification/SignalsProps.thy ===== *)
theory SignalsProps
  imports Signals
begin

text \<open>
  What holds of compiled signals: a signal never depends on a later row, its weight stays within the
  limits of the specification, and no two signals share a moment and an instrument unless two rows do.
\<close>

section \<open>Prefixes of a panel\<close>

lemma sorted_split:
  fixes f :: "'a \<Rightarrow> 'k::linorder"
  assumes "sorted (map f xs)"
  shows "xs = filter (\<lambda>x. f x \<le> b) xs @ filter (\<lambda>x. \<not> f x \<le> b) xs"
  using assms
proof (induction xs)
  case (Cons x xs)
  show ?case
  proof (cases "f x \<le> b")
    case False
    then have "filter (\<lambda>y. f y \<le> b) xs = []" "filter (\<lambda>y. \<not> f y \<le> b) xs = xs"
      using Cons.prems by (auto simp: filter_empty_conv filter_id_conv)
    then show ?thesis using False by simp
  qed (use Cons in simp)
qed simp

lemma mset_sorted_by [simp]: "mset (sorted_by f xs) = mset xs"
  by (simp add: sorted_by_def)

lemma filter_sorted_by: "filter P (sorted_by f xs) = sorted_by f (filter P xs)"
  unfolding sorted_by_def by (rule filter_sort)

lemma sorted_ts_row_key: "sorted (map row_key rs) \<Longrightarrow> sorted (map pr_ts rs)"
  by (induction rs) (auto simp: row_key_def)

lemma number_rows_append:
  "number_rows seen (xs @ ys) = number_rows seen xs @ number_rows (rev (map pr_instrument xs) @ seen) ys"
  by (induction xs arbitrary: seen) simp_all

lemma number_rows_keeps [simp]:
  "map pr_ts (number_rows seen rs) = map pr_ts rs" "map pr_instrument (number_rows seen rs) = map pr_instrument rs"
  "map pr_raw (number_rows seen rs) = map pr_raw rs" "length (number_rows seen rs) = length rs"
  by (induction rs arbitrary: seen) simp_all

lemma number_rows_index:
  "r \<in> set (number_rows seen rs) \<Longrightarrow> 0 \<le> pr_index r \<and>
     pr_index r < int (length (filter (\<lambda>i. i = pr_instrument r) (seen @ map pr_instrument rs)))"
proof (induction rs arbitrary: seen)
  case (Cons x rs)
  show ?case
  proof (cases "r \<in> set (number_rows (pr_instrument x # seen) rs)")
    case True
    from Cons.IH [OF this] show ?thesis by (auto split: if_splits)
  next
    case False
    then have "r = x\<lparr>pr_index := int (length (filter (\<lambda>i. i = pr_instrument x) seen))\<rparr>" using Cons.prems by simp
    then show ?thesis by simp
  qed
qed simp

text \<open>
  A numbered panel sorted by time: the rows up to a moment come first and know their history within
  them.
\<close>

definition numbered_panel :: "prow list \<Rightarrow> bool" where
  "numbered_panel rows \<longleftrightarrow> sorted (map pr_ts rows) \<and>
     (\<forall>r \<in> set rows. 0 \<le> pr_index r \<and> pr_index r < int (length (filter (\<lambda>q. pr_instrument q = pr_instrument r) rows)))"

lemma length_filter_map: "length (filter (\<lambda>i. i = k) (map f xs)) = length (filter (\<lambda>x. f x = k) xs)"
  by (induction xs) simp_all

lemma numbered_number_rows:
  assumes "sorted (map pr_ts rs)"
  shows "numbered_panel (number_rows [] rs)"
  unfolding numbered_panel_def number_rows_keeps
proof (intro conjI ballI)
  fix r assume r: "r \<in> set (number_rows [] rs)"
  have "length (filter (\<lambda>i. i = pr_instrument r) (map pr_instrument rs)) =
      length (filter (\<lambda>q. pr_instrument q = pr_instrument r) (number_rows [] rs))"
    using length_filter_map [of "pr_instrument r" pr_instrument "number_rows [] rs"] by (simp only: number_rows_keeps)
  then show "0 \<le> pr_index r" "pr_index r < int (length (filter (\<lambda>q. pr_instrument q = pr_instrument r) (number_rows [] rs)))"
    using number_rows_index [OF r] by simp_all
qed (rule assms)

lemma history_of_sorted:
  assumes "sorted (map pr_ts rows)"
  shows "history_of rows i = filter (\<lambda>r. pr_instrument r = i) rows"
  unfolding history_of_def by (rule sorted_by_id) (rule sorted_filter [OF assms])

lemma prior_rows_prefix:
  assumes "numbered_panel a" "r \<in> set a" "sorted (map pr_ts (a @ b))"
  shows "prior_rows r (history_of (a @ b) (pr_instrument r)) n = prior_rows r (history_of a (pr_instrument r)) n"
proof -
  have s: "sorted (map pr_ts a)" using assms(3) by (simp add: sorted_append)
  have i: "0 \<le> pr_index r" "nat (pr_index r) \<le> length (filter (\<lambda>q. pr_instrument q = pr_instrument r) a)"
    using assms(1,2) by (fastforce simp: numbered_panel_def)+
  then show ?thesis by (simp add: prior_rows_def history_of_sorted [OF s] history_of_sorted [OF assms(3)])
qed

section \<open>Scores read the past\<close>

lemma scores_prior:
  assumes "\<And>n. prior_rows r h n = prior_rows r h' n"
  shows "metric_score env spec r h n = metric_score env spec r h' n"
    and "vol_adjusted_trend_score env spec r h n = vol_adjusted_trend_score env spec r h' n"
    and "mean_reversion_signal env spec r h n = mean_reversion_signal env spec r h' n"
    and "breakout_signal env spec r h n = breakout_signal env spec r h' n"
proof -
  have v: "realized_volatility env r h n = realized_volatility env r h' n" for n by (simp only: realized_volatility_def assms)
  have a: "average_true_range env r h n = average_true_range env r h' n" for n by (simp only: average_true_range_def assms)
  show "metric_score env spec r h n = metric_score env spec r h' n" by (simp only: metric_score_def assms v)
  show "vol_adjusted_trend_score env spec r h n = vol_adjusted_trend_score env spec r h' n"
    by (simp only: vol_adjusted_trend_score_def breakout_over_atr_score_def return_over_volatility_score_def assms v a)
  show "mean_reversion_signal env spec r h n = mean_reversion_signal env spec r h' n"
    by (simp only: mean_reversion_signal_def zscore_def assms)
  show "breakout_signal env spec r h n = breakout_signal env spec r h' n" by (simp only: breakout_signal_def assms)
qed

lemma rows_at_prefix:
  assumes "\<forall>r \<in> set b. \<not> pr_ts r \<le> T" "t \<le> T"
  shows "rows_at (a @ b) t = rows_at a t"
proof -
  have "filter (\<lambda>r. pr_ts r = t) b = []" using assms by (auto simp: filter_empty_conv)
  then show ?thesis by (simp add: rows_at_def)
qed

lemma moment_prefix:
  assumes "numbered_panel a" "sorted (map pr_ts (a @ b))" "\<forall>r \<in> set b. \<not> pr_ts r \<le> T" "t \<le> T"
  shows "rank_moment env spec (a @ b) n t = rank_moment env spec a n t"
    and "trend_moment env spec (a @ b) n target t = trend_moment env spec a n target t"
proof -
  have p: "prior_rows r (history_of (a @ b) (pr_instrument r)) n = prior_rows r (history_of a (pr_instrument r)) n" if "r \<in> set (rows_at a t)" for r n
    using that by (intro prior_rows_prefix [OF assms(1) _ assms(2)]) (simp add: rows_at_def)
  have "mapE (rank_row env spec (a @ b) n) (rows_at a t) = mapE (rank_row env spec a n) (rows_at a t)"
    by (rule mapE_cong [OF refl]) (simp only: rank_row_def scores_prior(1) [OF p])
  then show "rank_moment env spec (a @ b) n t = rank_moment env spec a n t"
    by (simp only: rank_moment_def rows_at_prefix [OF assms(3,4)])
  have "mapE (trend_row env spec (a @ b) n target) (rows_at a t) = mapE (trend_row env spec a n target) (rows_at a t)"
    by (rule mapE_cong [OF refl]) (simp only: trend_row_def scores_prior(2) [OF p])
  then show "trend_moment env spec (a @ b) n target t = trend_moment env spec a n target t"
    by (simp only: trend_moment_def rows_at_prefix [OF assms(3,4)])
qed

lemma single_prefix:
  assumes "numbered_panel a" "sorted (map pr_ts (a @ b))" "r \<in> set a"
  shows "single_signal env spec (a @ b) n r = single_signal env spec a n r"
  unfolding single_signal_def Let_def
  by (simp only: scores_prior(3,4) [OF prior_rows_prefix [OF assms(1,3,2)]])

section \<open>The moment of a signal\<close>

lemma make_signal_row: "make_signal spec row s w sc why = Inr x \<Longrightarrow>
    sr_ts x = pr_ts row \<and> sr_instrument x = pr_instrument row \<and> sr_signal x = s \<and> sr_weight x = w \<and> sr_score x = sc"
  by (auto simp: make_signal_def validate_signal_row_def result_simps)

lemma make_signal_ts: "make_signal spec row s w sc why = Inr x \<Longrightarrow> sr_ts x = pr_ts row"
  "flat_signal spec row sc why = Inr x \<Longrightarrow> sr_ts x = pr_ts row"
  using make_signal_row by (auto simp: flat_signal_def)

lemma mapE_property:
  assumes "mapE f xs = Inr ys" "\<And>x y. x \<in> set xs \<Longrightarrow> f x = Inr y \<Longrightarrow> P y"
  shows "\<forall>y \<in> set ys. P y"
  using list_all2_member [OF assms(1) [unfolded mapE_Inr_iff]] assms(2) by blast

lemma scored_of_member: "(s, r) \<in> set (scored_of xs) \<Longrightarrow> Scored s r \<in> set xs"
  by (induction xs rule: scored_of.induct) auto

lemma filtered_of_member: "(r, why) \<in> set (filtered_of xs) \<Longrightarrow> Filtered r why \<in> set xs"
  by (induction xs rule: filtered_of.induct) auto

definition ranked_row :: "ranked \<Rightarrow> prow" where
  "ranked_row x = (case x of Scored s r \<Rightarrow> r | Filtered r why \<Rightarrow> r)"

lemma ranked_row_of: "rank_row env spec rows n row = Inr x \<Longrightarrow> ranked_row x = row"
  by (auto simp: rank_row_def bindE_Inr_iff ranked_row_def split: option.splits)

definition trend_row_of :: "trend \<Rightarrow> prow" where
  "trend_row_of x = (case x of Active r s d w why \<Rightarrow> r | Inactive r s why \<Rightarrow> r)"

lemma trend_row_cases:
  assumes "trend_row env spec rows n target row = Inr x"
  obtains sc why where "x = Inactive row sc why"
  | score vol raw d why where "x = Active row score d raw why" "d = Fin 1 \<or> d = Fin (-1)" "vol_target_weight spec vol target = Inr raw" "\<not> f_le raw (Fin 0)"
proof -
  obtain why where w: "filter_reason env spec row = Inr why" "(case why of Some reason \<Rightarrow> Inr (Inactive row None reason)
     | None \<Rightarrow> bindE (vol_adjusted_trend_score env spec row (history_of rows (pr_instrument row)) n) (\<lambda>scored. case scored of
         None \<Rightarrow> Inr (Inactive row None ''insufficient_history'')
       | Some (score, vol) \<Rightarrow>
           if f_lt (f_abs score) (entry_threshold spec (Fin 1)) then Inr (Inactive row (Some score) ''vol_adjusted_trend_flat'')
           else let direction = (if f_gt score (Fin 0) then Fin 1 else Fin (-1)) in
             bindE (vol_target_weight spec vol target) (\<lambda>raw.
             if f_le raw (Fin 0) then Inr (Inactive row (Some score) ''vol_adjusted_trend_zero_weight'')
             else Inr (Active row score direction raw (if f_gt direction (Fin 0) then ''vol_adjusted_trend_long'' else ''vol_adjusted_trend_short''))))) = Inr x"
    using assms by (auto simp only: trend_row_def bindE_Inr_iff)
  show ?thesis
  proof (cases why)
    case None
    with w(2) obtain scored where s: "(case scored of
         None \<Rightarrow> Inr (Inactive row None ''insufficient_history'')
       | Some (score, vol) \<Rightarrow>
           if f_lt (f_abs score) (entry_threshold spec (Fin 1)) then Inr (Inactive row (Some score) ''vol_adjusted_trend_flat'')
           else let direction = (if f_gt score (Fin 0) then Fin 1 else Fin (-1)) in
             bindE (vol_target_weight spec vol target) (\<lambda>raw.
             if f_le raw (Fin 0) then Inr (Inactive row (Some score) ''vol_adjusted_trend_zero_weight'')
             else Inr (Active row score direction raw (if f_gt direction (Fin 0) then ''vol_adjusted_trend_long'' else ''vol_adjusted_trend_short'')))) = Inr x"
      by (auto simp only: bindE_Inr_iff option.case)
    show ?thesis
    proof (cases scored)
      case (Some p)
      obtain score vol where "p = (score, vol)" by (cases p)
      then show ?thesis using s Some that by (auto simp: bindE_Inr_iff Let_def split: if_split_asm)
    qed (use s that in auto)
  qed (use w that in auto)
qed

lemma trend_row_of: "trend_row env spec rows n target row = Inr x \<Longrightarrow> trend_row_of x = row"
  by (erule trend_row_cases) (simp_all add: trend_row_of_def)

lemma flat_signals_ts:
  "mapE (\<lambda>(r, why). flat_signal spec r sc why) rs = Inr xs \<Longrightarrow> \<forall>(r, why) \<in> set rs. pr_ts r = t \<Longrightarrow> \<forall>x \<in> set xs. sr_ts x = t"
  by (erule mapE_property) (auto dest: make_signal_ts)

lemma rank_signal_ts: "rank_signal spec long short w scored r = Inr x \<Longrightarrow> sr_ts x = pr_ts r"
  by (auto simp: rank_signal_def Let_def dest: make_signal_ts split: if_split_asm)

lemma rank_moment_cases:
  assumes "rank_moment env spec rows n t = Inr xs"
  obtains ranked scored long short w active inactive where
    "mapE (rank_row env spec rows n) (rows_at rows t) = Inr ranked" "mset scored = mset (scored_of ranked)"
    "active_weight spec (int (length (uniq (long @ short)))) = Inr w"
    "mapE (\<lambda>(s, r). rank_signal spec long short w scored r) scored = Inr active"
    "mapE (\<lambda>(r, why). flat_signal spec r None why) (filtered_of ranked) = Inr inactive" "xs = active @ inactive"
proof -
  obtain ranked p where m: "mapE (rank_row env spec rows n) (rows_at rows t) = Inr ranked"
    "(case p of (long, short) \<Rightarrow> bindE (active_weight spec (int (length (uniq (long @ short))))) (\<lambda>weight.
     bindE (mapE (\<lambda>(s, r). rank_signal spec long short weight (sorted_by (\<lambda>(s, r). (s, pr_instrument r)) (scored_of ranked)) r)
       (sorted_by (\<lambda>(s, r). (s, pr_instrument r)) (scored_of ranked))) (\<lambda>active.
     bindE (mapE (\<lambda>(r, why). flat_signal spec r None why) (filtered_of ranked)) (\<lambda>inactive. Inr (active @ inactive))))) = Inr xs"
    using assms unfolding rank_moment_def Let_def bindE_Inr_iff by blast
  obtain long short where p: "p = (long, short)" by (cases p)
  show ?thesis using m(2) unfolding p prod.case bindE_Inr_iff sum.inject
    by (elim exE conjE) (rule that [OF m(1) mset_sorted_by], assumption+, rule sym)
qed

lemma rank_moment_ts:
  assumes "rank_moment env spec rows n t = Inr xs"
  shows "\<forall>x \<in> set xs. sr_ts x = t"
proof -
  from assms obtain ranked scored long short w active inactive where m: "mapE (rank_row env spec rows n) (rows_at rows t) = Inr ranked"
    "mset scored = mset (scored_of ranked)" "mapE (\<lambda>(s, r). rank_signal spec long short w scored r) scored = Inr active"
    "mapE (\<lambda>(r, why). flat_signal spec r None why) (filtered_of ranked) = Inr inactive" "xs = active @ inactive"
    by (rule rank_moment_cases)
  have "\<forall>x \<in> set ranked. pr_ts (ranked_row x) = t"
    by (rule mapE_property [OF m(1)]) (auto simp: rows_at_def dest: ranked_row_of)
  then have "\<forall>(s, r) \<in> set scored. pr_ts r = t" "\<forall>(r, why) \<in> set (filtered_of ranked). pr_ts r = t"
    unfolding mset_eq_setD [OF m(2)] by (auto dest!: scored_of_member filtered_of_member simp: ranked_row_def split: ranked.split_asm)
  then have "\<forall>x \<in> set active. sr_ts x = t" "\<forall>x \<in> set inactive. sr_ts x = t"
    using flat_signals_ts [OF m(4)] by (auto intro!: mapE_property [OF m(3)] dest: rank_signal_ts)
  then show ?thesis by (auto simp: m(5))
qed

lemma trend_signals_ts:
  assumes "\<forall>x \<in> set ts. pr_ts (trend_row_of x) = t"
  shows "active_signals spec scale ts = Inr xs \<Longrightarrow> \<forall>x \<in> set xs. sr_ts x = t"
    and "inactive_signals spec ts = Inr ys \<Longrightarrow> \<forall>y \<in> set ys. sr_ts y = t"
proof -
  show "active_signals spec scale ts = Inr xs \<Longrightarrow> \<forall>x \<in> set xs. sr_ts x = t" using assms
    by (induction spec scale ts arbitrary: xs rule: active_signals.induct) (auto simp: bindE_Inr_iff trend_row_of_def dest: make_signal_ts)
  show "inactive_signals spec ts = Inr ys \<Longrightarrow> \<forall>y \<in> set ys. sr_ts y = t" using assms
    by (induction spec ts arbitrary: ys rule: inactive_signals.induct) (auto simp: bindE_Inr_iff trend_row_of_def dest: make_signal_ts)
qed

lemma trend_moment_ts:
  assumes "trend_moment env spec rows n target t = Inr xs"
  shows "\<forall>x \<in> set xs. sr_ts x = t"
proof -
  obtain ts scale active inactive where m: "mapE (trend_row env spec rows n target) (rows_at rows t) = Inr ts"
    "active_signals spec scale ts = Inr active" "inactive_signals spec ts = Inr inactive" "xs = active @ inactive"
    using assms unfolding trend_moment_def by (auto simp: bindE_Inr_iff)
  have "\<forall>x \<in> set ts. pr_ts (trend_row_of x) = t"
    by (rule mapE_property [OF m(1)]) (auto simp: rows_at_def dest: trend_row_of)
  from trend_signals_ts [OF this] show ?thesis using m(2-4) by fastforce
qed

lemma single_signal_ts: "single_signal env spec rows n r = Inr x \<Longrightarrow> sr_ts x = pr_ts r"
proof -
  have thr: "threshold_signal spec r s a b nm = Inr x \<Longrightarrow> sr_ts x = pr_ts r" for s a b nm
    by (auto simp: threshold_signal_def bindE_Inr_iff dest: make_signal_ts split: if_split_asm)
  have mr: "mean_reversion_signal env spec r h n = Inr x \<Longrightarrow> sr_ts x = pr_ts r" for h
    by (auto simp: mean_reversion_signal_def bindE_Inr_iff Let_def dest: make_signal_ts thr split: option.split_asm)
  have fc: "funding_carry_signal env spec r = Inr x \<Longrightarrow> sr_ts x = pr_ts r"
    by (auto simp: funding_carry_signal_def bindE_Inr_iff Let_def dest: make_signal_ts split: option.split_asm if_split_asm)
  have br: "breakout_signal env spec r h n = Inr x \<Longrightarrow> sr_ts x = pr_ts r" for h
    by (auto simp: breakout_signal_def bindE_Inr_iff Let_def dest: make_signal_ts split: option.split_asm if_split_asm)
  show "single_signal env spec rows n r = Inr x \<Longrightarrow> sr_ts x = pr_ts r"
    unfolding single_signal_def Let_def bindE_Inr_iff
    by (elim exE conjE) (auto dest: make_signal_ts mr fc br split: option.split_asm signal_type.split_asm)
qed

section \<open>Causality\<close>

lemma moments_sorted: "sorted (moments rows)" "distinct (moments rows)" "set (moments rows) = pr_ts ` set rows"
proof -
  show "sorted (moments rows)" using sorted_sorted_by [of id "uniq (map pr_ts rows)"] by (simp add: moments_def)
qed (simp_all add: moments_def)

lemma moments_prefix:
  assumes "\<forall>r \<in> set a. pr_ts r \<le> T" "\<forall>r \<in> set b. \<not> pr_ts r \<le> T"
  shows "filter (\<lambda>t. t \<le> T) (moments (a @ b)) = moments a"
proof (rule sorted_distinct_set_unique)
  show "sorted (filter (\<lambda>t. t \<le> T) (moments (a @ b)))" "sorted (moments a)"
    using sorted_filter [of "\<lambda>t. t" "moments (a @ b)"] moments_sorted by auto
qed (use assms in \<open>auto simp: moments_sorted\<close>)

lemma mapE_filter_concat:
  assumes "mapE f ms = Inr xss" "\<And>m xs. m \<in> set ms \<Longrightarrow> f m = Inr xs \<Longrightarrow> \<forall>x \<in> set xs. k x = m"
    and "\<And>m. m \<in> set ms \<Longrightarrow> m \<le> T \<Longrightarrow> f m = g m"
  shows "\<exists>yss. mapE g (filter (\<lambda>m. m \<le> T) ms) = Inr yss \<and> concat yss = filter (\<lambda>x. k x \<le> T) (concat xss)"
  using assms
proof (induction ms arbitrary: xss)
  case (Cons m ms)
  obtain xs rest where s: "f m = Inr xs" "mapE f ms = Inr rest" "xss = xs # rest" using Cons.prems(1) by (auto simp: bindE_Inr_iff)
  have k: "\<forall>x \<in> set xs. k x = m" using Cons.prems(2) [of m xs] s(1) by simp
  obtain yss where y: "mapE g (filter (\<lambda>m. m \<le> T) ms) = Inr yss" "concat yss = filter (\<lambda>x. k x \<le> T) (concat rest)"
    using Cons.IH [OF s(2)] Cons.prems(2,3) by auto
  show ?case
  proof (cases "m \<le> T")
    case True
    then have "filter (\<lambda>x. k x \<le> T) xs = xs" "g m = Inr xs" using k Cons.prems(3) [of m] s(1) by (auto simp: filter_id_conv)
    then show ?thesis using True y s(3) by simp
  next
    case False
    then have "filter (\<lambda>x. k x \<le> T) xs = []" using k by (auto simp: filter_empty_conv)
    then show ?thesis using False y s(3) by simp
  qed
qed simp

lemma mapE_filter_elements:
  assumes "mapE f ms = Inr xs" "\<And>m x. m \<in> set ms \<Longrightarrow> f m = Inr x \<Longrightarrow> k x = j m" "\<And>m. m \<in> set ms \<Longrightarrow> j m \<le> T \<Longrightarrow> f m = g m"
  shows "mapE g (filter (\<lambda>m. j m \<le> T) ms) = Inr (filter (\<lambda>x. k x \<le> T) xs)"
  using assms
proof (induction ms arbitrary: xs)
  case (Cons m ms)
  obtain x rest where s: "f m = Inr x" "mapE f ms = Inr rest" "xs = x # rest" using Cons.prems(1) by (auto simp: bindE_Inr_iff)
  have "mapE g (filter (\<lambda>m. j m \<le> T) ms) = Inr (filter (\<lambda>x. k x \<le> T) rest)" using Cons.IH [OF s(2)] Cons.prems(2,3) by auto
  moreover have "k x = j m" using Cons.prems(2) [of m x] s(1) by simp
  moreover have "j m \<le> T \<Longrightarrow> g m = Inr x" using Cons.prems(3) [of m] s(1) by simp
  ultimately show ?case unfolding s(3) by (cases "j m \<le> T") simp_all
qed simp

lemma compile_rows_prefix:
  assumes "numbered_panel a" "sorted (map pr_ts (a @ b))" "\<forall>r \<in> set a. pr_ts r \<le> T" "\<forall>r \<in> set b. \<not> pr_ts r \<le> T"
    and "compile_rows env spec n (a @ b) = Inr xs"
  shows "compile_rows env spec n a = Inr (filter (\<lambda>s. sr_ts s \<le> T) xs)"
proof -
  note mp = moment_prefix [OF assms(1,2,4)]
  note ms = moments_prefix [OF assms(3,4)]
  show ?thesis
  proof (cases "sl_type (sp_logic spec) \<in> set rank_types")
    case True
    then obtain xss where x: "mapE (rank_moment env spec (a @ b) n) (moments (a @ b)) = Inr xss" "xs = concat xss"
      using assms(5) by (auto simp: compile_rows_def bindE_Inr_iff)
    obtain yss where "mapE (rank_moment env spec a n) (moments a) = Inr yss" "concat yss = filter (\<lambda>s. sr_ts s \<le> T) xs"
      using mapE_filter_concat [OF x(1), of sr_ts T "rank_moment env spec a n"] rank_moment_ts mp(1) unfolding ms x(2) by metis
    then show ?thesis using True by (simp add: compile_rows_def)
  next
    case False
    show ?thesis
    proof (cases "sl_type (sp_logic spec) = VOL_ADJUSTED_TREND")
      case True
      then obtain target xss where x: "parameter_float env spec ''target_volatility_per_bar'' (fl (2 / 1000)) = Inr target"
        "mapE (trend_moment env spec (a @ b) n target) (moments (a @ b)) = Inr xss" "xs = concat xss"
        using assms(5) False by (auto simp: compile_rows_def bindE_Inr_iff)
      obtain yss where "mapE (trend_moment env spec a n target) (moments a) = Inr yss" "concat yss = filter (\<lambda>s. sr_ts s \<le> T) xs"
        using mapE_filter_concat [OF x(2), of sr_ts T "trend_moment env spec a n target"] trend_moment_ts mp(2) unfolding ms x(3) by metis
      then show ?thesis using True False x(1) by (simp add: compile_rows_def)
    next
      case other: False
      have x: "mapE (single_signal env spec (a @ b) n) (a @ b) = Inr xs" using assms(5) False other by (simp add: compile_rows_def)
      have f: "filter (\<lambda>r. pr_ts r \<le> T) (a @ b) = a" using assms(3,4) by (auto simp: filter_id_conv filter_empty_conv)
      have "mapE (single_signal env spec a n) (filter (\<lambda>r. pr_ts r \<le> T) (a @ b)) = Inr (filter (\<lambda>s. sr_ts s \<le> T) xs)"
        using assms(4) single_prefix [OF assms(1,2)]
        by (intro mapE_filter_elements [OF x]) (auto dest: single_signal_ts)
      then show ?thesis using False other unfolding f by (simp add: compile_rows_def)
    qed
  qed
qed

lemma normalize_row_index: "normalize_row env spec (i, row) = Inr p \<Longrightarrow> normalize_row env spec (j, row) = Inr p"
  by (auto simp: normalize_row_def bindE_Inr_iff)

lemma normalize_row_ts: "normalize_row env spec (i, row) = Inr p \<Longrightarrow> parse_timestamp (base_env env) (row_get row ''ts'') = Inr (pr_ts p)"
  by (auto simp: normalize_row_def bindE_Inr_iff)

text \<open>The rows of a panel up to a moment.\<close>

definition panel_until :: "senv \<Rightarrow> instant \<Rightarrow> pyrow list \<Rightarrow> pyrow list" where
  "panel_until env T panel = filter (\<lambda>row. case parse_timestamp (base_env env) (row_get row ''ts'') of Inr ts \<Rightarrow> ts \<le> T | Inl e \<Rightarrow> False) panel"

lemma normalize_until:
  assumes "mapE (normalize_row env spec) (zip is panel) = Inr ps" "length is = length panel"
  shows "length js = length (panel_until env T panel) \<Longrightarrow>
    mapE (normalize_row env spec) (zip js (panel_until env T panel)) = Inr (filter (\<lambda>p. pr_ts p \<le> T) ps)"
  using assms(2,1)
proof (induction "is" panel arbitrary: ps js rule: list_induct2)
  case (Cons i "is" row panel)
  obtain p rest where s: "normalize_row env spec (i, row) = Inr p" "mapE (normalize_row env spec) (zip is panel) = Inr rest" "ps = p # rest"
    using Cons.prems(2) by (auto simp: bindE_Inr_iff)
  note ts = normalize_row_ts [OF s(1)]
  show ?case
  proof (cases "pr_ts p \<le> T")
    case True
    then obtain j js' where j: "js = j # js'" "length js' = length (panel_until env T panel)"
      using Cons.prems(1) ts by (cases js) (simp_all add: panel_until_def)
    show ?thesis using True ts Cons.IH [OF j(2) s(2)] normalize_row_index [OF s(1), of j] by (simp add: panel_until_def j(1) s(3))
  next
    case False
    then have "panel_until env T (row # panel) = panel_until env T panel" using ts by (simp add: panel_until_def)
    then show ?thesis using False Cons.IH [OF _ s(2), of js] Cons.prems(1) by (simp add: s(3))
  qed
qed (simp add: panel_until_def)

lemma compile_past:
  assumes "compile_signal_frame env spec panel = Inr frame"
  shows "\<exists>frame'. compile_signal_frame env spec (panel_until env T panel) = Inr frame' \<and>
    sf_rows frame' = filter (\<lambda>s. sr_ts s \<le> T) (sf_rows frame)"
proof -
  obtain ps n xs h where c: "mapE (normalize_row env spec) (zip [0..<length panel] panel) = Inr ps" "lookback_bars spec = Inr n"
    "compile_rows env spec n (number_rows [] (sorted_by row_key ps)) = Inr xs" "strategy_spec_hash spec = Inr h"
    "validate_frame \<lparr>sf_strategy = sp_id spec, sf_spec_hash = h, sf_rows = sorted_by signal_key xs,
       sf_row_count = int (length xs), sf_flags = default_flags\<rparr> = Inr frame"
    using assms by (auto simp: compile_signal_frame_def normalize_panel_rows_def bindE_Inr_iff Let_def)
  let ?rs = "sorted_by row_key ps" and ?P = "\<lambda>p. pr_ts p \<le> T"
  have sorted: "sorted (map pr_ts ?rs)" by (rule sorted_ts_row_key) (rule sorted_sorted_by)
  let ?a = "number_rows [] (filter ?P ?rs)" and ?b = "number_rows (rev (map pr_instrument (filter ?P ?rs))) (filter (\<lambda>p. \<not> ?P p) ?rs)"
  have ab: "number_rows [] ?rs = ?a @ ?b"
    using number_rows_append [of "[]" "filter ?P ?rs" "filter (\<lambda>p. \<not> ?P p) ?rs"] sorted_split [OF sorted, of T] by simp
  have mem: "pr_ts r \<in> pr_ts ` set rs" if "r \<in> set (number_rows seen rs)" for r seen rs
    using that number_rows_keeps(1) [of seen rs] by (metis image_eqI list.set_map)
  have "compile_rows env spec n ?a = Inr (filter (\<lambda>s. sr_ts s \<le> T) xs)"
  proof (rule compile_rows_prefix [where b = ?b])
    show "numbered_panel ?a" by (rule numbered_number_rows) (rule sorted_filter [OF sorted])
    show "sorted (map pr_ts (?a @ ?b))" using sorted unfolding ab [symmetric] by simp
    show "\<forall>r \<in> set ?a. ?P r" "\<forall>r \<in> set ?b. \<not> ?P r" by (auto dest!: mem)
    show "compile_rows env spec n (?a @ ?b) = Inr xs" using c(3) unfolding ab .
  qed
  moreover have "normalize_panel_rows env spec (panel_until env T panel) = Inr (filter ?P ?rs)"
    using normalize_until [OF c(1), of "[0..<length (panel_until env T panel)]" T] by (simp add: normalize_panel_rows_def filter_sorted_by)
  moreover have "validate_frame \<lparr>sf_strategy = sp_id spec, sf_spec_hash = h, sf_rows = sorted_by signal_key ys,
      sf_row_count = int (length ys), sf_flags = default_flags\<rparr> = Inr \<lparr>sf_strategy = sp_id spec, sf_spec_hash = h,
      sf_rows = sorted_by signal_key ys, sf_row_count = int (length ys), sf_flags = default_flags\<rparr>" for ys
    using c(5) by (auto simp: validate_frame_def validate_model_Inr_iff fst_boundary_entry split: prod.split_asm)
  moreover have "sf_rows frame = sorted_by signal_key xs" using c(5) by (auto simp: validate_frame_def validate_model_Inr_iff)
  ultimately show ?thesis by (simp add: compile_signal_frame_def Let_def c(2,4) filter_sorted_by)
qed

text \<open>
  C5: A compiled signal never looks ahead: compiling only the rows up to a moment gives, up to that
  moment, exactly the signals that compiling the whole panel gives, for every kind of strategy.
\<close>

theorem compile_is_causal:
  assumes "compile_signal_frame env spec panel = Inr frame"
  shows "\<exists>frame'. compile_signal_frame env spec (panel_until env T panel) = Inr frame' \<and>
    sf_rows frame' = filter (\<lambda>s. sr_ts s \<le> T) (sf_rows frame)"
  by (rule compile_past [OF assms])

section \<open>Limits\<close>

lemma fl_le_representable:
  assumes "fl w = Fin w" "\<bar>x\<bar> \<le> w"
  shows "\<exists>y. fl x = Fin y \<and> \<bar>y\<bar> \<le> w \<and> (0 \<le> x \<longrightarrow> 0 \<le> y) \<and> (x \<le> 0 \<longrightarrow> y \<le> 0)"
proof -
  have w: "round53 w = w" "w < pow2 1024" using assms(1) by (auto simp: fl_def Let_def split: if_split_asm)
  have "round53 x \<le> w" using fl53.rnd_le_representable [OF w(1), of x] assms(2) by simp
  moreover have "- w \<le> round53 x" using fl53.rnd_ge_representable [of "- w" x] w(1) assms(2) fl53.rnd_minus [of w] by simp
  ultimately have b: "\<bar>round53 x\<bar> \<le> w" by simp
  then have "round53 x < pow2 1024" "\<not> round53 x \<le> - pow2 1024" using w(2) by linarith+
  then have "fl x = Fin (round53 x)" by (simp add: fl_def Let_def)
  then show ?thesis using b fl53.rnd_nonneg [of x] fl53.rnd_nonpos [of x] by simp
qed

text \<open>A signal and its weight agree: flat rows have no weight, the others at most \<open>w\<close> in their direction.\<close>

definition in_limits :: "rat \<Rightarrow> pyfloat \<Rightarrow> pyfloat \<Rightarrow> bool" where
  "in_limits w s weight \<longleftrightarrow> (\<exists>v. weight = Fin v \<and> \<bar>v\<bar> \<le> w \<and>
     (s = Fin 0 \<and> v = 0 \<or> s = Fin 1 \<and> 0 \<le> v \<or> s = Fin (-1) \<and> v \<le> 0))"

lemma valid_risk:
  assumes "validate_risk r = Inr r'" "rc_weight r = Fin w"
  shows "0 < w" "w \<le> 1" "\<exists>l. rc_leverage r = Fin l \<and> 0 < l \<and> l \<le> 3"
proof -
  have v: "f_gt (rc_leverage r) (Fin 0)" "f_le (rc_leverage r) (Fin 3)" "f_gt (rc_weight r) (Fin 0)" "f_le (rc_weight r) (Fin 1)"
    using assms(1) by (auto simp: validate_risk_def validate_model_Inr_iff)
  then show "0 < w" "w \<le> 1" by (simp_all add: assms(2))
  show "\<exists>l. rc_leverage r = Fin l \<and> 0 < l \<and> l \<le> 3" using v(1,2) by (cases "rc_leverage r") (auto simp: f_le_def)
qed

lemma active_weight_within:
  assumes "validate_risk (sp_risk spec) = Inr r'" "rc_weight (sp_risk spec) = Fin w" "active_weight spec n = Inr x"
  shows "\<exists>v. x = Fin v \<and> 0 \<le> v \<and> v \<le> w"
proof (cases "n \<le> 0")
  case True
  then show ?thesis using assms valid_risk [OF assms(1,2)] by (auto simp: active_weight_def)
next
  case False
  obtain l where l: "rc_leverage (sp_risk spec) = Fin l" "0 < l" "l \<le> 3" using valid_risk [OF assms(1,2)] by blast
  obtain m q where m: "float_of_int n = Inr m" "f_div (Fin l) m = Inr q" "x = f_min (Fin w) q"
    using assms False by (auto simp: active_weight_def bindE_Inr_iff l)
  have "1 \<le> round53 (of_int n)" using fl53.rnd_mono [of 1 "of_int n"] False by simp
  then obtain k where k: "m = Fin k" "1 \<le> k" using m(1) by (auto simp: float_of_int_def fl_def Let_def split: if_split_asm)
  have "l / k \<le> 3" "0 \<le> l / k" using l k(2) by (simp_all add: divide_le_eq mult.commute order.trans [OF l(3)])
  moreover have "fl 3 = Fin 3" using fl_of_int [of 3] by simp
  ultimately obtain y where y: "fl (l / k) = Fin y" "0 \<le> y" using fl_le_representable [of 3 "l / k"] by (metis abs_of_nonneg)
  have "q = Fin y" using m(2) y k by (auto simp: f_div_def split: if_split_asm)
  then show ?thesis using m(3) y(2) valid_risk [OF assms(1,2)] by (auto simp: f_min_def)
qed

lemma flat_within: "0 < w \<Longrightarrow> flat_signal spec r sc why = Inr x \<Longrightarrow> in_limits w (sr_signal x) (sr_weight x)"
  by (auto simp: flat_signal_def in_limits_def dest!: make_signal_row)

lemma long_short_within:
  assumes "\<exists>v. x = Fin v \<and> 0 \<le> v \<and> v \<le> w"
  shows "make_signal spec r (Fin 1) x sc why = Inr y \<Longrightarrow> in_limits w (sr_signal y) (sr_weight y)"
    and "make_signal spec r (Fin (-1)) (f_neg x) sc why = Inr y \<Longrightarrow> in_limits w (sr_signal y) (sr_weight y)"
  using assms by (auto simp: in_limits_def dest!: make_signal_row)

lemma rank_moment_within:
  assumes "validate_risk (sp_risk spec) = Inr r'" "rc_weight (sp_risk spec) = Fin w" "rank_moment env spec rows n t = Inr xs"
  shows "\<forall>x \<in> set xs. in_limits w (sr_signal x) (sr_weight x)"
proof -
  note v = valid_risk [OF assms(1,2)]
  from assms(3) obtain ranked scored long short wt active inactive where m: "active_weight spec (int (length (uniq (long @ short)))) = Inr wt"
    "mapE (\<lambda>(s, r). rank_signal spec long short wt scored r) scored = Inr active"
    "mapE (\<lambda>(r, why). flat_signal spec r None why) (filtered_of ranked) = Inr inactive" "xs = active @ inactive"
    by (rule rank_moment_cases)
  note wt = active_weight_within [OF assms(1,2) m(1)]
  have "rank_signal spec long short wt scored r = Inr x \<Longrightarrow> in_limits w (sr_signal x) (sr_weight x)" for r x
    using long_short_within [OF wt] flat_within [OF v(1)] by (auto simp: rank_signal_def Let_def split: if_split_asm)
  then have "\<forall>x \<in> set active. in_limits w (sr_signal x) (sr_weight x)" by (intro mapE_property [OF m(2)]) auto
  moreover have "\<forall>x \<in> set inactive. in_limits w (sr_signal x) (sr_weight x)"
    by (intro mapE_property [OF m(3)]) (use flat_within [OF v(1)] in auto)
  ultimately show ?thesis by (auto simp: m(4))
qed

lemma trend_weight_within:
  assumes "validate_risk (sp_risk spec) = Inr r'" "rc_weight (sp_risk spec) = Fin w" "fl w = Fin w"
    and "vol_target_weight spec vol target = Inr raw" "\<not> f_le raw (Fin 0)" "d = Fin 1 \<or> d = Fin (-1)"
    and "gross_scale spec gross = Inr scale" "make_signal spec row d (f_mul (f_mul d raw) scale) sc why = Inr y"
  shows "in_limits w (sr_signal y) (sr_weight y)"
proof -
  note v = valid_risk [OF assms(1,2)]
  obtain l where l: "rc_leverage (sp_risk spec) = Fin l" "0 < l" using v by blast
  have "\<exists>u. raw = Fin u \<and> 0 < u \<and> u \<le> w"
  proof -
    obtain q where q: "raw = f_min (Fin w) q"
      using assms(2,4,5) by (auto simp: vol_target_weight_def bindE_Inr_iff split: if_split_asm)
    show ?thesis using assms(5) v(1) by (cases q) (auto simp: q f_min_def f_le_def split: if_split_asm)
  qed
  then obtain u where u: "raw = Fin u" "0 < u" "u \<le> w" by blast
  obtain a where a: "f_mul d raw = Fin a" "\<bar>a\<bar> \<le> w" "d = Fin 1 \<and> 0 \<le> a \<or> d = Fin (-1) \<and> a \<le> 0"
    using assms(6) fl_le_representable [OF assms(3), of u] fl_le_representable [OF assms(3), of "- u"] u by auto
  have ok: "in_unit_range (f_mul (Fin a) scale)" and row: "sr_signal y = d" "sr_weight y = f_mul (Fin a) scale"
    using assms(8) make_signal_row [OF assms(8)] by (auto simp: a(1) make_signal_def validate_signal_row_def result_simps)
  have "\<exists>s. scale = Fin s \<and> 0 \<le> s \<and> s \<le> 1"
  proof (cases "f_le gross (Fin l)")
    case True
    then show ?thesis using assms(7) by (auto simp: gross_scale_def l)
  next
    case False
    have q: "f_div (Fin l) gross = Inr scale" using assms(7) False by (simp add: gross_scale_def l)
    show ?thesis
    proof (cases gross)
      case (Fin g)
      then have "0 \<le> l / g" "l / g \<le> 1" using False l(2) by (simp_all add: divide_le_eq)
      then obtain s where "fl (l / g) = Fin s" "0 \<le> s" "\<bar>s\<bar> \<le> 1" using fl_le_representable [of 1 "l / g"] by (metis abs_le_D1 abs_of_nonneg fl_1)
      moreover have "scale = fl (l / g)" using q Fin by (auto simp: f_div_def split: if_split_asm)
      ultimately show ?thesis by auto
    next
      case NaN
      then have "scale = NaN" using q by (simp add: f_div_def)
      then show ?thesis using ok by (simp add: in_unit_range_def)
    qed (use False q in \<open>auto simp: f_le_def f_div_def\<close>)
  qed
  then obtain s where s: "scale = Fin s" "0 \<le> s" "s \<le> 1" by blast
  have "\<bar>a * s\<bar> \<le> \<bar>a\<bar> * 1" unfolding abs_mult using s by (intro mult_left_mono) auto
  then have "\<bar>a * s\<bar> \<le> w" using a(2) by simp
  then obtain z where z: "fl (a * s) = Fin z" "\<bar>z\<bar> \<le> w" "0 \<le> a * s \<longrightarrow> 0 \<le> z" "a * s \<le> 0 \<longrightarrow> z \<le> 0"
    using fl_le_representable [OF assms(3)] by blast
  have "0 \<le> a \<Longrightarrow> 0 \<le> a * s" "a \<le> 0 \<Longrightarrow> a * s \<le> 0" using s(2) by (simp_all add: mult_nonpos_nonneg)
  then show ?thesis using z a(3) by (auto simp: in_limits_def row s(1))
qed

lemma trend_moment_within:
  assumes "validate_risk (sp_risk spec) = Inr r'" "rc_weight (sp_risk spec) = Fin w" "fl w = Fin w"
    and "trend_moment env spec rows n target t = Inr xs"
  shows "\<forall>x \<in> set xs. in_limits w (sr_signal x) (sr_weight x)"
proof -
  note v = valid_risk [OF assms(1,2)]
  obtain ts gross scale active inactive where m: "mapE (trend_row env spec rows n target) (rows_at rows t) = Inr ts"
    "gross_scale spec gross = Inr scale" "active_signals spec scale ts = Inr active" "inactive_signals spec ts = Inr inactive" "xs = active @ inactive"
    using assms(4) unfolding trend_moment_def by (auto simp: bindE_Inr_iff)
  define good where "good x \<longleftrightarrow> (\<forall>r s d raw why. x = Active r s d raw why \<longrightarrow>
      (d = Fin 1 \<or> d = Fin (-1)) \<and> (\<exists>vol. vol_target_weight spec vol target = Inr raw) \<and> \<not> f_le raw (Fin 0))" for x
  have "\<forall>x \<in> set ts. good x"
    by (rule mapE_property [OF m(1)], erule trend_row_cases) (auto simp: good_def)
  then have "\<forall>x \<in> set active. in_limits w (sr_signal x) (sr_weight x)" using m(3)
  proof (induction ts arbitrary: active)
    case (Cons x ts)
    show ?case
    proof (cases x)
      case (Active r s d raw why)
      obtain y rest where y: "make_signal spec r d (f_mul (f_mul d raw) scale) (Some s) why = Inr y"
        "active_signals spec scale ts = Inr rest" "active = y # rest" using Cons.prems(2) Active by (auto simp: bindE_Inr_iff)
      obtain vol where g: "d = Fin 1 \<or> d = Fin (-1)" "vol_target_weight spec vol target = Inr raw" "\<not> f_le raw (Fin 0)"
        using Cons.prems(1) Active by (auto simp: good_def)
      have "in_limits w (sr_signal y) (sr_weight y)" by (rule trend_weight_within [OF assms(1-3) g(2,3,1) m(2) y(1)])
      moreover have "\<forall>x \<in> set rest. in_limits w (sr_signal x) (sr_weight x)" using Cons.IH Cons.prems(1) y(2) by simp
      ultimately show ?thesis by (simp add: y(3))
    qed (use Cons in simp)
  qed simp
  moreover have "inactive_signals spec ts = Inr inactive \<Longrightarrow> \<forall>x \<in> set inactive. in_limits w (sr_signal x) (sr_weight x)"
    by (induction spec ts arbitrary: inactive rule: inactive_signals.induct) (auto simp: bindE_Inr_iff dest: flat_within [OF v(1)])
  ultimately show ?thesis using m(4) by (auto simp: m(5))
qed


lemma single_signal_within:
  assumes "validate_risk (sp_risk spec) = Inr r'" "rc_weight (sp_risk spec) = Fin w" "single_signal env spec rows n r = Inr x"
  shows "in_limits w (sr_signal x) (sr_weight x)"
proof -
  note aw = active_weight_within [OF assms(1,2)] and f = flat_within [OF valid_risk(1) [OF assms(1,2)]]
  note ls = long_short_within [OF aw]
  have thr: "threshold_signal spec r s a b nm = Inr x \<Longrightarrow> ?thesis" for s a b nm
    by (auto simp: threshold_signal_def bindE_Inr_iff dest: ls f split: if_split_asm)
  have mr: "mean_reversion_signal env spec r h n = Inr x \<Longrightarrow> ?thesis" for h
    by (auto simp: mean_reversion_signal_def bindE_Inr_iff Let_def dest: f thr split: option.split_asm)
  have fc: "funding_carry_signal env spec r = Inr x \<Longrightarrow> ?thesis"
    by (auto simp: funding_carry_signal_def bindE_Inr_iff Let_def dest: f ls split: option.split_asm if_split_asm)
  have br: "breakout_signal env spec r h n = Inr x \<Longrightarrow> ?thesis" for h
    by (auto simp: breakout_signal_def bindE_Inr_iff Let_def dest: f ls split: option.split_asm if_split_asm)
  show ?thesis using assms(3) unfolding single_signal_def Let_def bindE_Inr_iff
    by (elim exE conjE) (auto dest: f mr fc br split: option.split_asm signal_type.split_asm)
qed

lemma mapE_concat_property:
  assumes "mapE f ms = Inr xss" "\<And>m xs. f m = Inr xs \<Longrightarrow> \<forall>x \<in> set xs. P x"
  shows "\<forall>x \<in> set (concat xss). P x"
  using mapE_property [OF assms(1), of "\<lambda>xs. \<forall>x \<in> set xs. P x"] assms(2) by auto

lemma compile_rows_within:
  assumes "validate_risk (sp_risk spec) = Inr r'" "rc_weight (sp_risk spec) = Fin w" "fl w = Fin w"
    and "compile_rows env spec n rows = Inr xs"
  shows "\<forall>x \<in> set xs. in_limits w (sr_signal x) (sr_weight x)"
proof (cases "sl_type (sp_logic spec) \<in> set rank_types")
  case True
  then obtain xss where x: "mapE (rank_moment env spec rows n) (moments rows) = Inr xss" "xs = concat xss"
    using assms(4) by (auto simp: compile_rows_def bindE_Inr_iff)
  show ?thesis unfolding x(2) by (rule mapE_concat_property [OF x(1) rank_moment_within [OF assms(1,2)]])
next
  case False
  show ?thesis
  proof (cases "sl_type (sp_logic spec) = VOL_ADJUSTED_TREND")
    case True
    then obtain target xss where x: "mapE (trend_moment env spec rows n target) (moments rows) = Inr xss" "xs = concat xss"
      using assms(4) False by (auto simp: compile_rows_def bindE_Inr_iff)
    show ?thesis unfolding x(2) by (rule mapE_concat_property [OF x(1) trend_moment_within [OF assms(1-3)]])
  next
    case other: False
    have x: "mapE (single_signal env spec rows n) rows = Inr xs" using assms(4) False other by (simp add: compile_rows_def)
    show ?thesis by (rule mapE_property [OF x]) (rule single_signal_within [OF assms(1,2)])
  qed
qed

lemma compile_signal_frame_Inr:
  assumes "compile_signal_frame env spec panel = Inr frame"
  obtains ps n xs h where "normalize_panel_rows env spec panel = Inr ps" "lookback_bars spec = Inr n"
    "compile_rows env spec n (number_rows [] ps) = Inr xs" "strategy_spec_hash spec = Inr h" "sf_rows frame = sorted_by signal_key xs"
  using assms by (auto simp: compile_signal_frame_def bindE_Inr_iff Let_def validate_frame_def validate_model_Inr_iff)

text \<open>
  C8: Every signal of a compiled frame keeps the limits of its specification: it is flat with no weight,
  or long or short with a weight of that sign and of at most the greatest instrument weight, whatever
  the rows and the scores are.
\<close>

theorem signals_within_limits:
  assumes "compile_signal_frame env spec panel = Inr frame" "validate_risk (sp_risk spec) = Inr risk"
    and "rc_weight (sp_risk spec) = Fin w" "fl w = Fin w"
  shows "\<forall>x \<in> set (sf_rows frame). in_limits w (sr_signal x) (sr_weight x)"
  using assms(1)
proof (rule compile_signal_frame_Inr)
  fix ps n xs assume "compile_rows env spec n (number_rows [] ps) = Inr xs" "sf_rows frame = sorted_by signal_key xs"
  then show ?thesis using compile_rows_within [OF assms(2-4)] by simp
qed

section \<open>Completeness\<close>

lemma mapE_map_eq:
  assumes "mapE f xs = Inr ys" "\<And>x y. x \<in> set xs \<Longrightarrow> f x = Inr y \<Longrightarrow> k y = j x"
  shows "map k ys = map j xs"
  using assms by (induction xs arbitrary: ys) (auto simp: bindE_Inr_iff)

lemma make_signal_key: "make_signal spec row s w sc why = Inr x \<Longrightarrow> signal_key x = row_key row"
  "flat_signal spec row sc why = Inr x \<Longrightarrow> signal_key x = row_key row"
  using make_signal_row by (auto simp: flat_signal_def signal_key_def row_key_def)

lemma mset_ranked: "mset (map (\<lambda>x. row_key (ranked_row x)) xs) =
    mset (map (\<lambda>(s, r). row_key r) (scored_of xs)) + mset (map (\<lambda>(r, why). row_key r) (filtered_of xs))"
  by (induction xs rule: scored_of.induct) (simp_all add: ranked_row_def)

lemma rank_moment_keys:
  assumes "rank_moment env spec rows n t = Inr xs"
  shows "mset (map signal_key xs) = mset (map row_key (rows_at rows t))"
proof -
  from assms obtain ranked scored long short w active inactive where m: "mapE (rank_row env spec rows n) (rows_at rows t) = Inr ranked"
    "mset scored = mset (scored_of ranked)" "mapE (\<lambda>(s, r). rank_signal spec long short w scored r) scored = Inr active"
    "mapE (\<lambda>(r, why). flat_signal spec r None why) (filtered_of ranked) = Inr inactive" "xs = active @ inactive"
    by (rule rank_moment_cases)
  have "map signal_key active = map (\<lambda>(s, r). row_key r) scored"
    by (rule mapE_map_eq [OF m(3)]) (auto simp: rank_signal_def Let_def dest: make_signal_key split: if_split_asm)
  moreover have "map signal_key inactive = map (\<lambda>(r, why). row_key r) (filtered_of ranked)"
    by (rule mapE_map_eq [OF m(4)]) (auto dest: make_signal_key)
  moreover have "map (\<lambda>x. row_key (ranked_row x)) ranked = map row_key (rows_at rows t)"
    by (rule mapE_map_eq [OF m(1)]) (auto dest: ranked_row_of)
  ultimately show ?thesis unfolding m(5) using mset_ranked [of ranked] m(2) by (metis map_append mset_append mset_map)
qed

lemma mset_trend_signals:
  "active_signals spec scale ts = Inr xs \<Longrightarrow> inactive_signals spec ts = Inr ys \<Longrightarrow>
     mset (map signal_key xs) + mset (map signal_key ys) = mset (map (\<lambda>x. row_key (trend_row_of x)) ts)"
proof (induction ts arbitrary: xs ys)
  case (Cons x ts)
  then show ?case by (cases x) (auto simp: bindE_Inr_iff trend_row_of_def dest!: make_signal_key)
qed simp

lemma trend_moment_keys:
  assumes "trend_moment env spec rows n target t = Inr xs"
  shows "mset (map signal_key xs) = mset (map row_key (rows_at rows t))"
proof -
  obtain ts scale active inactive where m: "mapE (trend_row env spec rows n target) (rows_at rows t) = Inr ts"
    "active_signals spec scale ts = Inr active" "inactive_signals spec ts = Inr inactive" "xs = active @ inactive"
    using assms unfolding trend_moment_def by (auto simp: bindE_Inr_iff)
  have "map (\<lambda>x. row_key (trend_row_of x)) ts = map row_key (rows_at rows t)"
    by (rule mapE_map_eq [OF m(1)]) (auto dest: trend_row_of)
  then show ?thesis using mset_trend_signals [OF m(2,3)] by (simp add: m(4))
qed

lemma single_signal_key: "single_signal env spec rows n r = Inr x \<Longrightarrow> signal_key x = row_key r"
proof -
  have thr: "threshold_signal spec r s a b nm = Inr x \<Longrightarrow> signal_key x = row_key r" for s a b nm
    by (auto simp: threshold_signal_def bindE_Inr_iff dest: make_signal_key split: if_split_asm)
  have mr: "mean_reversion_signal env spec r h n = Inr x \<Longrightarrow> signal_key x = row_key r" for h
    by (auto simp: mean_reversion_signal_def bindE_Inr_iff Let_def dest: make_signal_key thr split: option.split_asm)
  have fc: "funding_carry_signal env spec r = Inr x \<Longrightarrow> signal_key x = row_key r"
    by (auto simp: funding_carry_signal_def bindE_Inr_iff Let_def dest: make_signal_key split: option.split_asm if_split_asm)
  have br: "breakout_signal env spec r h n = Inr x \<Longrightarrow> signal_key x = row_key r" for h
    by (auto simp: breakout_signal_def bindE_Inr_iff Let_def dest: make_signal_key split: option.split_asm if_split_asm)
  show "single_signal env spec rows n r = Inr x \<Longrightarrow> signal_key x = row_key r"
    unfolding single_signal_def Let_def bindE_Inr_iff
    by (elim exE conjE) (auto dest: make_signal_key mr fc br split: option.split_asm signal_type.split_asm)
qed

lemma mset_concat_moments:
  "distinct ms \<Longrightarrow> mapE f ms = Inr xss \<Longrightarrow> (\<And>m xs. f m = Inr xs \<Longrightarrow> mset (map signal_key xs) = mset (map row_key (rows_at rows m))) \<Longrightarrow>
     mset (map signal_key (concat xss)) = image_mset row_key (filter_mset (\<lambda>r. pr_ts r \<in> set ms) (mset rows))"
proof (induction ms arbitrary: xss)
  case (Cons m ms)
  obtain xs rest where s: "f m = Inr xs" "mapE f ms = Inr rest" "xss = xs # rest" using Cons.prems(2) by (auto simp: bindE_Inr_iff)
  have "filter_mset (\<lambda>r. pr_ts r \<in> set (m # ms)) (mset rows) =
      filter_mset (\<lambda>r. pr_ts r = m) (mset rows) + filter_mset (\<lambda>r. pr_ts r \<in> set ms) (mset rows)"
    using Cons.prems(1) by (auto simp: multiset_eq_iff)
  moreover have "mset (map signal_key xs) = image_mset row_key (filter_mset (\<lambda>r. pr_ts r = m) (mset rows))"
    using Cons.prems(3) [OF s(1)] by (simp add: rows_at_def)
  moreover have "mset (map signal_key (concat rest)) = image_mset row_key (filter_mset (\<lambda>r. pr_ts r \<in> set ms) (mset rows))"
    using Cons.IH [OF _ s(2)] Cons.prems(1,3) by simp
  ultimately show ?case by (simp add: s(3))
qed simp

lemma mset_concat_all:
  assumes "mapE f (moments rows) = Inr xss" "\<And>m xs. f m = Inr xs \<Longrightarrow> mset (map signal_key xs) = mset (map row_key (rows_at rows m))"
  shows "mset (map signal_key (concat xss)) = mset (map row_key rows)"
proof -
  have "filter_mset (\<lambda>r. pr_ts r \<in> set (moments rows)) (mset rows) = mset rows"
    by (auto simp: moments_sorted(3) filter_mset_eq_conv)
  then show ?thesis using mset_concat_moments [OF moments_sorted(2) assms] by simp
qed

lemma compile_rows_keys:
  assumes "compile_rows env spec n rows = Inr xs"
  shows "mset (map signal_key xs) = mset (map row_key rows)"
proof (cases "sl_type (sp_logic spec) \<in> set rank_types")
  case True
  then obtain xss where "mapE (rank_moment env spec rows n) (moments rows) = Inr xss" "xs = concat xss"
    using assms by (auto simp: compile_rows_def bindE_Inr_iff)
  then show ?thesis using mset_concat_all rank_moment_keys by metis
next
  case False
  show ?thesis
  proof (cases "sl_type (sp_logic spec) = VOL_ADJUSTED_TREND")
    case True
    then obtain target xss where "mapE (trend_moment env spec rows n target) (moments rows) = Inr xss" "xs = concat xss"
      using assms False by (auto simp: compile_rows_def bindE_Inr_iff)
    then show ?thesis using mset_concat_all trend_moment_keys by metis
  next
    case other: False
    have x: "mapE (single_signal env spec rows n) rows = Inr xs" using assms False other by (simp add: compile_rows_def)
    show ?thesis using mapE_map_eq [OF x, of signal_key row_key] single_signal_key by metis
  qed
qed

lemma number_rows_key [simp]: "map row_key (number_rows seen rs) = map row_key rs"
  by (induction rs arbitrary: seen) (simp_all add: row_key_def)

text \<open>
  A compiled frame decides about every row of the panel exactly once: its signals have the moments
  and instruments of the rows, each as often as the rows have it, and stand in the order of time.
\<close>

theorem compile_covers_rows:
  assumes "compile_signal_frame env spec panel = Inr frame"
  shows "\<exists>ps. normalize_panel_rows env spec panel = Inr ps \<and> length ps = length panel \<and>
    mset (map signal_key (sf_rows frame)) = mset (map row_key ps) \<and> sorted (map signal_key (sf_rows frame)) \<and>
    sf_row_count frame = int (length panel)"
  using assms
proof (rule compile_signal_frame_Inr)
  fix ps n xs h assume c: "normalize_panel_rows env spec panel = Inr ps" "compile_rows env spec n (number_rows [] ps) = Inr xs"
    "sf_rows frame = sorted_by signal_key xs"
  have l: "length ps = length panel"
    using c(1) by (auto simp: normalize_panel_rows_def bindE_Inr_iff mapE_Inr_iff dest: list_all2_lengthD)
  have k: "mset (map signal_key xs) = mset (map row_key ps)" using compile_rows_keys [OF c(2)] by simp
  then have "length xs = length panel" using l by (metis length_map size_mset)
  moreover have "sf_row_count frame = int (length (sf_rows frame))"
    using assms by (auto simp: compile_signal_frame_def bindE_Inr_iff Let_def validate_frame_def validate_model_Inr_iff)
  ultimately have "sf_row_count frame = int (length panel)" by (simp add: c(3))
  moreover have "mset (map signal_key (sf_rows frame)) = mset (map row_key ps)" using k by (simp add: c(3) mset_map)
  moreover have "sorted (map signal_key (sf_rows frame))" unfolding c(3) by (rule sorted_sorted_by)
  ultimately show ?thesis using c(1) l by (intro exI [of _ ps]) (simp only: simp_thms)
qed


section \<open>Samples\<close>

definition sample_senv :: senv where
  "sample_senv = \<lparr>base_env = \<lparr>fromisoformat = (\<lambda>s. Inl (ValueError s)), float_of_text = (\<lambda>s. Inl (ValueError s))\<rparr>,
     int_of_text = (\<lambda>s. Inl (ValueError s))\<rparr>"

definition sample_strategy :: strategy_spec where
  "sample_strategy = \<lparr>sp_schema = ''strategy_spec_v1'', sp_id = ''carry'', sp_family = ''carry'', sp_version = ''1'', sp_owner = ''research'',
     sp_flags = default_flags, sp_scope = \<lparr>ms_venue = ''hyperliquid'', ms_type = ''perp'', ms_universe_rule = ''all''\<rparr>,
     sp_inputs = \<lparr>si_timeframe = ''1h'', si_fields = [''funding'']\<rparr>,
     sp_logic = \<lparr>sl_type = FUNDING_CARRY, sl_bars = Some 1, sl_hours = None, sl_metric = None, sl_direction = ''momentum'',
       sl_long = None, sl_short = None, sl_entry = None, sl_exit = None, sl_filters = []\<rparr>,
     sp_risk = \<lparr>rc_leverage = Fin 1, rc_weight = Fin (1 / 2), rc_rebalance = ''8h''\<rparr>,
     sp_execution = \<lparr>ec_basis = CLOSE, ec_fee_model = ''conservative_perp_taker_v1'', ec_slippage_model = ''conservative_bps_v1''\<rparr>,
     sp_validation = \<lparr>sv_months = 6, sv_earliest = (2024, 1, 1), sv_exclude_lockbox = True, sv_universe = AS_OF, sv_evidence = ACCEPTED_RESEARCH\<rparr>,
     sp_parameters = [], sp_metadata = []\<rparr>"

definition sample_funding :: "int \<Rightarrow> rat \<Rightarrow> pyrow" where
  "sample_funding t x = [(''ts'', VTime (Aware t 0)), (''instrument_id'', VStr ''BTC''), (''funding'', VFloat (Fin x))]"

definition sample_panel :: "pyrow list" where
  "sample_panel = [sample_funding 7200000000 (1 / 4), sample_funding 3600000000 0]"

lemma sample_funding_get [simp]:
  "map_of (sample_funding t x) ''funding'' = Some (VFloat (Fin x))" "row_get (sample_funding t x) ''funding'' = VFloat (Fin x)"
  "row_get (sample_funding t x) ''ts'' = VTime (Aware t 0)" "row_get (sample_funding t x) ''instrument_id'' = VStr ''BTC''"
  "missing_fields sample_strategy (sample_funding t x) = []"
  by (simp_all add: sample_funding_def row_get_def missing_fields_def sample_strategy_def sorted_by_def)

lemma sample_spec_hash: "\<exists>h. strategy_spec_hash sample_strategy = Inr h \<and> length h = 64"
  unfolding strategy_spec_hash_def
  by (rule canonical_json_hash_finite) (simp add: spec_json_def sample_strategy_def logic_json_def opt_int_json_def opt_float_value_def opt_json_def flags_json_def flags_payload_def default_flags_def list_all_iff)

lemma sample_active_weight: "active_weight sample_strategy 1 = Inr (Fin (1 / 2))"
  by (simp add: active_weight_def sample_strategy_def float_of_int_def f_div_def f_min_def)

lemma sample_make_signal:
  assumes "strategy_spec_hash sample_strategy = Inr h" "length h = 64" "pr_instrument r \<noteq> []" "in_unit_range s" "in_unit_range w" "why \<noteq> []"
  shows "make_signal sample_strategy r s w sc why = Inr \<lparr>sr_strategy = sp_id sample_strategy, sr_spec_hash = h, sr_ts = pr_ts r,
       sr_instrument = pr_instrument r, sr_signal = s, sr_weight = w, sr_side = side_of s, sr_score = sc, sr_reason = why, sr_flags = default_flags\<rparr>"
proof -
  have "sp_id sample_strategy \<noteq> []" by (simp add: sample_strategy_def)
  then show ?thesis using assms by (simp add: make_signal_def validate_signal_row_def validate_model_Inr_iff case_prod_unfold)
qed

lemma mapE_exists: "\<forall>x \<in> set xs. \<exists>y. f x = Inr y \<Longrightarrow> \<exists>ys. mapE f xs = Inr ys"
  by (induction xs) auto

lemma sample_compiles: "\<exists>frame. compile_signal_frame sample_senv sample_strategy sample_panel = Inr frame"
proof -
  obtain h where h: "strategy_spec_hash sample_strategy = Inr h" "length h = 64" using sample_spec_hash by blast
  have s: "lookback_bars sample_strategy = Inr 1" "sl_type (sp_logic sample_strategy) = FUNDING_CARRY" "sl_filters (sp_logic sample_strategy) = []"
    "sl_entry (sp_logic sample_strategy) = None" "si_fields (sp_inputs sample_strategy) = [''funding'']"
    "sp_id sample_strategy = ''carry''" by (simp_all add: lookback_bars_def sample_strategy_def)
  have u: "ensure_utc (Aware 7200000000 0) = Inr 7200000000" "ensure_utc (Aware 3600000000 0) = Inr 3600000000" by code_simp+
  have n: "normalize_panel_rows sample_senv sample_strategy sample_panel = Inr
      [\<lparr>pr_raw = sample_funding 3600000000 0, pr_ts = 3600000000, pr_instrument = ''BTC'', pr_index = -1\<rparr>,
       \<lparr>pr_raw = sample_funding 7200000000 (1 / 4), pr_ts = 7200000000, pr_instrument = ''BTC'', pr_index = -1\<rparr>]"
    by (simp add: normalize_panel_rows_def normalize_row_def sample_panel_def row_key_def sorted_by_def u)
  have f: "\<exists>x. single_signal sample_senv sample_strategy rows 1 \<lparr>pr_raw = sample_funding t q, pr_ts = t, pr_instrument = ''BTC'', pr_index = k\<rparr> = Inr x" for rows t q k
    using sample_make_signal [OF h]
    by (auto simp: single_signal_def s filter_reason_def filter_check_def funding_carry_signal_def first_numeric_def row_numeric_def numeric_def
       or_default_def entry_threshold_def Let_def sample_active_weight flat_signal_def in_unit_range_def)
  have "\<exists>xs. compile_rows sample_senv sample_strategy 1 (number_rows [] rows) = Inr xs" if "normalize_panel_rows sample_senv sample_strategy sample_panel = Inr rows" for rows
  proof -
    have "\<exists>xs. mapE (single_signal sample_senv sample_strategy r 1) (number_rows [] rows) = Inr xs" for r
      using that unfolding n by (intro mapE_exists) (auto intro!: f)
    then show ?thesis by (simp add: compile_rows_def s rank_types_def)
  qed
  then show ?thesis using h s by (auto simp: compile_signal_frame_def n Let_def validate_frame_def validate_model_Inr_iff case_prod_unfold bindE_Inr_iff)
qed

lemma compile_is_causal_witness:
  "\<exists>frame frame'. compile_signal_frame sample_senv sample_strategy sample_panel = Inr frame \<and>
     compile_signal_frame sample_senv sample_strategy (panel_until sample_senv 3600000000 sample_panel) = Inr frame' \<and>
     sf_rows frame' = filter (\<lambda>s. sr_ts s \<le> 3600000000) (sf_rows frame)"
proof -
  obtain frame where f: "compile_signal_frame sample_senv sample_strategy sample_panel = Inr frame" using sample_compiles by blast
  show ?thesis using compile_is_causal [OF f, of 3600000000] f by blast
qed

lemma signals_within_limits_witness:
  "\<exists>frame. compile_signal_frame sample_senv sample_strategy sample_panel = Inr frame \<and>
     (\<forall>x \<in> set (sf_rows frame). in_limits (1 / 2) (sr_signal x) (sr_weight x))"
proof -
  obtain frame where f: "compile_signal_frame sample_senv sample_strategy sample_panel = Inr frame" using sample_compiles by blast
  have "fl (pow2 (- 1)) = Fin (pow2 (- 1))" by code_simp
  then have h: "fl (1 / 2) = Fin (1 / 2)" by (simp add: pow2_def)
  have v: "validate_risk (sp_risk sample_strategy) = Inr (sp_risk sample_strategy)"
    by (simp add: validate_risk_def validate_model_Inr_iff sample_strategy_def f_le_def)
  show ?thesis using signals_within_limits [OF f v _ h] f by (simp add: sample_strategy_def)
qed

lemma compile_covers_rows_witness:
  "\<exists>frame ps. compile_signal_frame sample_senv sample_strategy sample_panel = Inr frame \<and>
     mset (map signal_key (sf_rows frame)) = mset (map row_key ps) \<and> sf_row_count frame = 2"
proof -
  obtain frame where f: "compile_signal_frame sample_senv sample_strategy sample_panel = Inr frame" using sample_compiles by blast
  show ?thesis using compile_covers_rows [OF f] f by (auto simp: sample_panel_def)
qed

end
