(* ===== verification/EngineProps.thy ===== *)
theory EngineProps
  imports EngineRun SignalsProps
begin

text \<open>
  What holds of a simulated run: the past of the equity curve, of the positions and of the trades does
  not depend on later rows or signals; a position carries the target of the bar before; the bars, the
  totals of an instrument and the trades are exactly what the positions say.
\<close>

section \<open>The legs of a run\<close>

definition leg_instrument :: "leg \<Rightarrow> string" where
  "leg_instrument l = po_instrument (lg_position l)"

definition legs_of :: "string \<Rightarrow> leg list \<Rightarrow> leg list" where
  "legs_of i ls = filter (\<lambda>l. leg_instrument l = i) ls"

lemma legs_of_append [simp]: "legs_of i (xs @ ys) = legs_of i xs @ legs_of i ys"
  by (simp add: legs_of_def)

lemma legs_of_single: "legs_of i [l] = (if leg_instrument l = i then [l] else [])"
  by (simp add: legs_of_def)

definition applied_of :: "leg \<Rightarrow> pyfloat" where
  "applied_of l = po_applied (lg_position l)"

definition target_of :: "leg \<Rightarrow> pyfloat" where
  "target_of l = po_target (lg_position l)"

text \<open>A trade is the change of weight of its position.\<close>

definition trade_of_position :: "position \<Rightarrow> trade option" where
  "trade_of_position p = (let d = f_abs (f_sub (po_target p) (po_applied p)) in
     if f_gt d (Fin 0) then Some \<lparr>td_ts = po_ts p, td_instrument = po_instrument p, td_from = po_applied p, td_to = po_target p,
       td_turnover = d, td_side = side_of (po_target p), td_basis = po_basis p, td_costs = po_costs p, td_flags = default_flags\<rparr> else None)"

definition leg_ok :: "instant \<Rightarrow> string \<Rightarrow> leg \<Rightarrow> bool" where
  "leg_ok ts i l \<longleftrightarrow> leg_instrument l = i \<and> po_ts (lg_position l) = iso_of_instant ts \<and> \<not> bd_blocked (po_costs (lg_position l)) \<and>
     lg_trade l = trade_of_position (lg_position l) \<and> lg_turnover l = f_abs (f_sub (target_of l) (applied_of l)) \<and>
     po_flags (lg_position l) = default_flags"

lemma instrument_leg_ok:
  assumes "instrument_leg env basis c scen row signal previous prior = Inr l"
  shows "leg_ok (er_ts row) (er_instrument row) l" "applied_of l = previous"
proof -
  obtain ret funding volume obs where m: "price_return env basis row prior = Inr ret" "volume_notional_of env row = Inr volume"
    "(case obs of (bps, source) \<Rightarrow>
      bindE (calculate_cost_breakdown c (f_abs (f_sub (case signal of None \<Rightarrow> Fin 0 | Some s \<Rightarrow> sr_weight s) previous)) previous funding volume bps scen) (\<lambda>b.
      bindE (guardE (\<not> bd_blocked b) (capacity_error (er_instrument row) (er_ts row) b)) (\<lambda>_.
      let gross = f_mul previous ret in Inr
        \<lparr>lg_position = \<lparr>po_ts = iso_of_instant (er_ts row), po_instrument = er_instrument row, po_applied = previous,
           po_target = (case signal of None \<Rightarrow> Fin 0 | Some s \<Rightarrow> sr_weight s),
           po_signal = (case signal of None \<Rightarrow> Fin 0 | Some s \<Rightarrow> sr_signal s), po_side = side_of previous,
           po_basis = price_basis_value basis, po_price_return = ret, po_gross = gross, po_funding = bd_funding b,
           po_funding_rate = funding, po_costs = b, po_net = f_add gross (bd_net b), po_flags = default_flags\<rparr>,
         lg_turnover = f_abs (f_sub (case signal of None \<Rightarrow> Fin 0 | Some s \<Rightarrow> sr_weight s) previous),
         lg_trade = (if f_gt (f_abs (f_sub (case signal of None \<Rightarrow> Fin 0 | Some s \<Rightarrow> sr_weight s) previous)) (Fin 0) then Some
           \<lparr>td_ts = iso_of_instant (er_ts row), td_instrument = er_instrument row, td_from = previous,
           td_to = (case signal of None \<Rightarrow> Fin 0 | Some s \<Rightarrow> sr_weight s),
           td_turnover = f_abs (f_sub (case signal of None \<Rightarrow> Fin 0 | Some s \<Rightarrow> sr_weight s) previous),
           td_side = side_of (case signal of None \<Rightarrow> Fin 0 | Some s \<Rightarrow> sr_weight s), td_basis = price_basis_value basis, td_costs = b,
           td_flags = default_flags\<rparr> else None),
         lg_source = source\<rparr>))) = Inr l"
    using assms unfolding instrument_leg_def Let_def bindE_Inr_iff by blast
  obtain bps source where o: "obs = (bps, source)" by (cases obs)
  obtain b where b: "\<not> bd_blocked b" and l: "l = \<lparr>lg_position = \<lparr>po_ts = iso_of_instant (er_ts row), po_instrument = er_instrument row, po_applied = previous,
           po_target = (case signal of None \<Rightarrow> Fin 0 | Some s \<Rightarrow> sr_weight s),
           po_signal = (case signal of None \<Rightarrow> Fin 0 | Some s \<Rightarrow> sr_signal s), po_side = side_of previous,
           po_basis = price_basis_value basis, po_price_return = ret, po_gross = f_mul previous ret, po_funding = bd_funding b,
           po_funding_rate = funding, po_costs = b, po_net = f_add (f_mul previous ret) (bd_net b), po_flags = default_flags\<rparr>,
         lg_turnover = f_abs (f_sub (case signal of None \<Rightarrow> Fin 0 | Some s \<Rightarrow> sr_weight s) previous),
         lg_trade = (if f_gt (f_abs (f_sub (case signal of None \<Rightarrow> Fin 0 | Some s \<Rightarrow> sr_weight s) previous)) (Fin 0) then Some
           \<lparr>td_ts = iso_of_instant (er_ts row), td_instrument = er_instrument row, td_from = previous,
           td_to = (case signal of None \<Rightarrow> Fin 0 | Some s \<Rightarrow> sr_weight s),
           td_turnover = f_abs (f_sub (case signal of None \<Rightarrow> Fin 0 | Some s \<Rightarrow> sr_weight s) previous),
           td_side = side_of (case signal of None \<Rightarrow> Fin 0 | Some s \<Rightarrow> sr_weight s), td_basis = price_basis_value basis, td_costs = b,
           td_flags = default_flags\<rparr> else None),
         lg_source = source\<rparr>"
    using m(3) unfolding o prod.case bindE_Inr_iff Let_def by (auto simp: guardE_def split: if_split_asm)
  show "leg_ok (er_ts row) (er_instrument row) l" "applied_of l = previous"
    using b unfolding l by (simp_all add: leg_ok_def leg_instrument_def trade_of_position_def Let_def target_of_def applied_of_def)
qed

lemma find_SomeD: "find P xs = Some x \<Longrightarrow> P x \<and> x \<in> set xs"
  by (induction xs) (auto split: if_split_asm)

lemma row_at_Some: "row_at rows ts i = Some r \<Longrightarrow> r \<in> set rows \<and> er_ts r = ts \<and> er_instrument r = i"
  by (auto simp: row_at_def erow_key_def dest: find_SomeD)

text \<open>The state of the loop is a function of the legs so far.\<close>

definition tracks :: "sim_state \<Rightarrow> leg list \<Rightarrow> bool" where
  "tracks st ls \<longleftrightarrow> (\<forall>i. ss_target st i = last (Fin 0 # map target_of (legs_of i ls)) \<and>
      ss_totals st i = fold add_totals (legs_of i ls) empty_totals \<and>
      map applied_of (legs_of i ls) = butlast (Fin 0 # map target_of (legs_of i ls))) \<and>
    ss_trades st = List.map_filter lg_trade ls"

lemma tracks_start: "tracks (start_state e) []"
  by (simp add: tracks_def start_state_def legs_of_def List.map_filter_def)

definition same_results :: "sim_state \<Rightarrow> sim_state \<Rightarrow> bool" where
  "same_results st st' \<longleftrightarrow> ss_gross st' = ss_gross st \<and> ss_net st' = ss_net st \<and> ss_positions st' = ss_positions st \<and> ss_curve st' = ss_curve st"

lemma leg_step_tracks:
  assumes "leg_step x ts i (st, b) = Inr (st', b')" "tracks st ls"
  shows "\<exists>l. tracks st' (ls @ [l]) \<and> b' = add_leg l b \<and> leg_ok ts i l \<and> same_results st st'"
proof -
  obtain row where r: "row_at (in_rows x) ts i = Some row" using assms(1) by (auto simp: leg_step_def split: option.split_asm)
  obtain l where l: "instrument_leg (in_env x) (in_basis x) (in_cost x) (in_scenario x) row (signal_at (in_signals x) ts i) (ss_target st i) (ss_prior st i) = Inr l"
    "st' = st\<lparr>ss_target := (ss_target st)(i := po_target (lg_position l)), ss_prior := (ss_prior st)(i := Some row),
       ss_totals := (ss_totals st)(i := add_totals l (ss_totals st i)), ss_sources := count_source (lg_source l) (ss_sources st),
       ss_trades := ss_trades st @ (case lg_trade l of None \<Rightarrow> [] | Some t \<Rightarrow> [t])\<rparr>" "b' = add_leg l b"
    using assms(1) by (auto simp: leg_step_def r bindE_Inr_iff)
  note ok = instrument_leg_ok [OF l(1)] and at = row_at_Some [OF r]
  have ok': "leg_ok ts i l" using ok(1) at by simp
  then have i: "leg_instrument l = i" by (simp add: leg_ok_def)
  have "tracks st' (ls @ [l])" unfolding tracks_def
  proof (intro conjI allI)
    fix j
    note tr = assms(2) [unfolded tracks_def, THEN conjunct1, rule_format, of j]
    show "ss_target st' j = last (Fin 0 # map target_of (legs_of j (ls @ [l])))" using tr by (simp add: l(2) legs_of_single i target_of_def)
    show "ss_totals st' j = fold add_totals (legs_of j (ls @ [l])) empty_totals" using tr by (cases "j = i") (simp_all add: l(2) legs_of_single i)
    show "map applied_of (legs_of j (ls @ [l])) = butlast (Fin 0 # map target_of (legs_of j (ls @ [l])))"
      using tr ok(2) by (cases "i = j") (auto simp: legs_of_single i butlast_append)
  next
    show "ss_trades st' = List.map_filter lg_trade (ls @ [l])"
      using assms(2) by (cases "lg_trade l") (auto simp: tracks_def l(2) List.map_filter_def)
  qed
  then show ?thesis using l(3) ok' by (intro exI [of _ l]) (simp add: l(2) same_results_def)
qed


lemma foldE_leg_steps:
  assumes "foldE (leg_step x ts) is (st, b) = Inr (st', b')" "tracks st ls"
  shows "\<exists>new. tracks st' (ls @ new) \<and> b' = fold add_leg new b \<and> list_all2 (leg_ok ts) is new \<and> same_results st st'"
  using assms
proof (induction "is" arbitrary: st b ls)
  case Nil
  then show ?case by (intro exI [of _ "[]"]) (simp add: same_results_def)
next
  case (Cons i "is")
  obtain st1 b1 where s: "leg_step x ts i (st, b) = Inr (st1, b1)" "foldE (leg_step x ts) is (st1, b1) = Inr (st', b')"
    using Cons.prems(1) by (auto simp: bindE_Inr_iff)
  obtain l where l: "tracks st1 (ls @ [l])" "b1 = add_leg l b" "leg_ok ts i l" "same_results st st1"
    using leg_step_tracks [OF s(1) Cons.prems(2)] by blast
  obtain new where n: "tracks st' ((ls @ [l]) @ new)" "b' = fold add_leg new b1" "list_all2 (leg_ok ts) is new" "same_results st1 st'"
    using Cons.IH [OF s(2) l(1)] by blast
  show ?case using l n by (intro exI [of _ "l # new"]) (simp add: same_results_def)
qed

definition bar_sum :: "(leg \<Rightarrow> pyfloat) \<Rightarrow> leg list \<Rightarrow> pyfloat" where
  "bar_sum f ls = f_sum (map f ls)"

definition leg_cost :: "(breakdown \<Rightarrow> pyfloat) \<Rightarrow> leg \<Rightarrow> pyfloat" where
  "leg_cost f l = f (po_costs (lg_position l))"

lemma fold_add_leg:
  "ba_gross (fold add_leg ls b) = foldl f_add (ba_gross b) (map (\<lambda>l. po_gross (lg_position l)) ls)"
  "ba_net (fold add_leg ls b) = foldl f_add (ba_net b) (map (\<lambda>l. po_net (lg_position l)) ls)"
  "ba_turnover (fold add_leg ls b) = foldl f_add (ba_turnover b) (map lg_turnover ls)"
  "ba_fee (fold add_leg ls b) = foldl f_add (ba_fee b) (map (leg_cost bd_fee) ls)"
  "ba_spread (fold add_leg ls b) = foldl f_add (ba_spread b) (map (leg_cost bd_spread) ls)"
  "ba_slippage (fold add_leg ls b) = foldl f_add (ba_slippage b) (map (leg_cost bd_slippage) ls)"
  "ba_impact (fold add_leg ls b) = foldl f_add (ba_impact b) (map (leg_cost bd_impact) ls)"
  "ba_transaction (fold add_leg ls b) = foldl f_add (ba_transaction b) (map (leg_cost bd_total) ls)"
  "ba_funding (fold add_leg ls b) = foldl f_add (ba_funding b) (map (\<lambda>l. po_funding (lg_position l)) ls)"
  "ba_exposure (fold add_leg ls b) = foldl f_add (ba_exposure b) (map (\<lambda>l. f_abs (applied_of l)) ls)"
  "ba_positions (fold add_leg ls b) = ba_positions b @ map lg_position ls"
  by (induction ls arbitrary: b) (simp_all add: add_leg_def Let_def leg_cost_def applied_of_def)

lemma fold_add_leg_blocked: "\<forall>l \<in> set ls. \<not> bd_blocked (po_costs (lg_position l)) \<Longrightarrow> ba_blocked (fold add_leg ls b) = ba_blocked b"
  by (induction ls arbitrary: b) (simp_all add: add_leg_def Let_def)

text \<open>The row of the curve for the positions of one bar.\<close>

definition row_of_bar :: "equity_row \<Rightarrow> position list \<Rightarrow> bool" where
  "row_of_bar r ps \<longleftrightarrow> (\<forall>p \<in> set ps. po_ts p = eq_ts r) \<and>
     eq_gross_return r = f_sum (map po_gross ps) \<and> eq_net_return r = f_sum (map po_net ps) \<and>
     eq_fee r = cost_sum bd_fee ps \<and> eq_spread r = cost_sum bd_spread ps \<and> eq_slippage r = cost_sum bd_slippage ps \<and>
     eq_impact r = cost_sum bd_impact ps \<and> eq_transaction r = cost_sum bd_total ps \<and> eq_funding r = f_sum (map po_funding ps) \<and>
     eq_turnover r = f_sum (map (\<lambda>p. f_abs (f_sub (po_target p) (po_applied p))) ps) \<and>
     eq_exposure r = f_sum (map (\<lambda>p. f_abs (po_applied p)) ps) \<and> eq_blocked r = 0"

fun compounded :: "pyfloat \<Rightarrow> pyfloat list \<Rightarrow> pyfloat list" where
  "compounded e [] = []"
| "compounded e (r # rs) = f_mul e (f_add (Fin 1) r) # compounded (f_mul e (f_add (Fin 1) r)) rs"

lemma bar_step_tracks:
  assumes "bar_step x is ts st = Inr st'" "tracks st ls"
  shows "\<exists>new r. tracks st' (ls @ new) \<and> list_all2 (leg_ok ts) is new \<and> ss_positions st' = ss_positions st @ map lg_position new \<and>
    ss_curve st' = ss_curve st @ [r] \<and> row_of_bar r (map lg_position new) \<and> eq_ts r = iso_of_instant ts \<and>
    ss_gross st' = f_mul (ss_gross st) (f_add (Fin 1) (eq_gross_return r)) \<and> eq_gross r = ss_gross st' \<and>
    ss_net st' = f_mul (ss_net st) (f_add (Fin 1) (eq_net_return r)) \<and> eq_net r = ss_net st'"
proof -
  obtain st1 b where s: "foldE (leg_step x ts) is (st, empty_bar) = Inr (st1, b)" "st' = close_bar (in_scenario x) ts (st1, b)"
    using assms(1) by (auto simp: bar_step_def bindE_Inr_iff)
  obtain new where n: "tracks st1 (ls @ new)" "b = fold add_leg new empty_bar" "list_all2 (leg_ok ts) is new" "same_results st st1"
    using foldE_leg_steps [OF s(1) assms(2)] by blast
  have ok: "\<forall>l \<in> set new. \<exists>i. leg_ok ts i l" using n(3) by (auto dest: list_all2_member)
  have nb: "\<forall>l \<in> set new. \<not> bd_blocked (po_costs (lg_position l))" "\<forall>l \<in> set new. po_ts (lg_position l) = iso_of_instant ts"
    and tv: "map lg_turnover new = map (\<lambda>l. f_abs (f_sub (target_of l) (applied_of l))) new"
    using ok by (auto simp: leg_ok_def)
  have "tracks st' (ls @ new)" using n(1) by (simp add: s(2) close_bar_def Let_def tracks_def)
  moreover have "row_of_bar (last (ss_curve st')) (map lg_position new)"
    unfolding row_of_bar_def cost_sum_def f_sum_def s(2) close_bar_def Let_def n(2)
    using nb fold_add_leg_blocked [OF nb(1), of empty_bar]
    by (simp add: fold_add_leg empty_bar_def leg_cost_def [abs_def] tv [unfolded applied_of_def target_of_def] applied_of_def comp_def del: map_eq_conv)
  ultimately show ?thesis using n(3,4)
    by (intro exI [of _ new] exI [of _ "last (ss_curve st')"]) (simp add: s(2) close_bar_def Let_def same_results_def n(2) fold_add_leg empty_bar_def)
qed

lemma run_bars_tracks:
  assumes "foldE (bar_step x is) tss st = Inr st'" "tracks st ls"
  shows "\<exists>groups rows. tracks st' (ls @ concat groups) \<and> list_all2 (\<lambda>ts g. list_all2 (leg_ok ts) is g) tss groups \<and>
    ss_positions st' = ss_positions st @ map lg_position (concat groups) \<and> ss_curve st' = ss_curve st @ rows \<and>
    list_all2 (\<lambda>r g. row_of_bar r (map lg_position g)) rows groups \<and> map eq_ts rows = map iso_of_instant tss \<and>
    map eq_gross rows = compounded (ss_gross st) (map eq_gross_return rows) \<and> ss_gross st' = last (ss_gross st # map eq_gross rows) \<and>
    map eq_net rows = compounded (ss_net st) (map eq_net_return rows) \<and> ss_net st' = last (ss_net st # map eq_net rows)"
  using assms
proof (induction tss arbitrary: st ls)
  case Nil
  then show ?case by (intro exI [of _ "[]"]) simp
next
  case (Cons ts tss)
  obtain st1 where s: "bar_step x is ts st = Inr st1" "foldE (bar_step x is) tss st1 = Inr st'" using Cons.prems(1) by (auto simp: bindE_Inr_iff)
  obtain new r where n: "tracks st1 (ls @ new)" "list_all2 (leg_ok ts) is new" "ss_positions st1 = ss_positions st @ map lg_position new"
    "ss_curve st1 = ss_curve st @ [r]" "row_of_bar r (map lg_position new)" "eq_ts r = iso_of_instant ts"
    "ss_gross st1 = f_mul (ss_gross st) (f_add (Fin 1) (eq_gross_return r))" "eq_gross r = ss_gross st1"
    "ss_net st1 = f_mul (ss_net st) (f_add (Fin 1) (eq_net_return r))" "eq_net r = ss_net st1"
    using bar_step_tracks [OF s(1) Cons.prems(2)] by blast
  obtain groups rows where g: "tracks st' ((ls @ new) @ concat groups)" "list_all2 (\<lambda>ts g. list_all2 (leg_ok ts) is g) tss groups"
    "ss_positions st' = ss_positions st1 @ map lg_position (concat groups)" "ss_curve st' = ss_curve st1 @ rows"
    "list_all2 (\<lambda>r g. row_of_bar r (map lg_position g)) rows groups" "map eq_ts rows = map iso_of_instant tss"
    "map eq_gross rows = compounded (ss_gross st1) (map eq_gross_return rows)" "ss_gross st' = last (ss_gross st1 # map eq_gross rows)"
    "map eq_net rows = compounded (ss_net st1) (map eq_net_return rows)" "ss_net st' = last (ss_net st1 # map eq_net rows)"
    using Cons.IH [OF s(2) n(1)] by blast
  have c: "map eq_gross (r # rows) = compounded (ss_gross st) (map eq_gross_return (r # rows))"
    "map eq_net (r # rows) = compounded (ss_net st) (map eq_net_return (r # rows))"
    using g(7,9) n(7-10) by simp_all
  have l: "ss_gross st' = last (ss_gross st # map eq_gross (r # rows))" "ss_net st' = last (ss_net st # map eq_net (r # rows))"
    using g(8,10) n(8,10) by simp_all
  show ?case using c l g(1-6) n(2-6) by (intro exI [of _ "new # groups"] exI [of _ "r # rows"]) simp
qed


section \<open>Causality\<close>

lemma mapE_filter:
  assumes "mapE f xs = Inr ys"
  shows "mapE f (filter (\<lambda>x. case f x of Inr y \<Rightarrow> P y | Inl e \<Rightarrow> False) xs) = Inr (filter P ys)"
  using assms
proof (induction xs arbitrary: ys)
  case (Cons x xs)
  then show ?case by (auto simp: bindE_Inr_iff)
qed simp

lemma find_filter: "(\<And>x. P x \<Longrightarrow> Q x) \<Longrightarrow> find P (filter Q xs) = find P xs"
  by (induction xs) auto

lemma row_at_filter: "ts \<le> T \<Longrightarrow> row_at (filter (\<lambda>r. er_ts r \<le> T) rows) ts i = row_at rows ts i"
  unfolding row_at_def rev_filter by (rule find_filter) (simp add: erow_key_def)

lemma signal_at_filter: "ts \<le> T \<Longrightarrow> signal_at (filter (\<lambda>s. sr_ts s \<le> T) xs) ts i = signal_at xs ts i"
  unfolding signal_at_def rev_filter by (rule find_filter) (simp add: signal_key_def)

lemma timestamps_of_set: "set (timestamps_of rows) = er_ts ` set rows" "sorted (timestamps_of rows)" "distinct (timestamps_of rows)"
  using sorted_sorted_by [of id "uniq (map er_ts rows)"] by (simp_all add: timestamps_of_def)

lemma instruments_of_rows_set: "set (instruments_of_rows rows) = er_instrument ` set rows" "sorted (instruments_of_rows rows)"
  "distinct (instruments_of_rows rows)"
  using sorted_sorted_by [of id "uniq (map er_instrument rows)"] by (simp_all add: instruments_of_rows_def)

lemma timestamps_of_filter: "filter (\<lambda>t. t \<le> T) (timestamps_of rows) = timestamps_of (filter (\<lambda>r. er_ts r \<le> T) rows)"
proof (rule sorted_distinct_set_unique)
  show "sorted (filter (\<lambda>t. t \<le> T) (timestamps_of rows))"
    using sorted_filter [of "\<lambda>t. t" "timestamps_of rows"] timestamps_of_set(2) by simp
qed (auto simp: timestamps_of_set)

text \<open>The rows of a panel up to a moment, as the engine reads them.\<close>

definition engine_past :: "pyenv \<Rightarrow> instant \<Rightarrow> pyrow list \<Rightarrow> pyrow list" where
  "engine_past env T panel = filter (\<lambda>row. case panel_row env row of Inr r \<Rightarrow> er_ts r \<le> T | Inl e \<Rightarrow> False) panel"

lemma engine_rows_past:
  assumes "engine_rows env panel = Inr rows"
  shows "\<exists>rs. mapE (panel_row env) (engine_past env T panel) = Inr rs \<and> filter (\<lambda>r. er_ts r \<le> T) rows = sorted_by erow_key rs"
proof -
  obtain rs where r: "mapE (panel_row env) panel = Inr rs" "rows = sorted_by erow_key rs"
    using assms by (auto simp: engine_rows_def bindE_Inr_iff split: if_split_asm)
  show ?thesis using mapE_filter [OF r(1), of "\<lambda>r. er_ts r \<le> T"] by (auto simp: engine_past_def r(2) filter_sorted_by)
qed

lemma engine_rows_same_past:
  assumes "engine_rows env p1 = Inr rows1" "engine_rows env p2 = Inr rows2" "engine_past env T p1 = engine_past env T p2"
  shows "filter (\<lambda>r. er_ts r \<le> T) rows1 = filter (\<lambda>r. er_ts r \<le> T) rows2"
  using engine_rows_past [OF assms(1), of T] engine_rows_past [OF assms(2), of T] assms(3) by auto

lemma common_clock_instruments:
  assumes "enforce_common_clock rows (instruments_of_rows rows) policy = Inr u" "r0 \<in> set rows"
  shows "set (instruments_of_rows rows) = er_instrument ` {r \<in> set rows. er_ts r = er_ts r0}"
proof -
  have "er_ts r0 \<in> set (timestamps_of rows)" using assms(2) by (simp add: timestamps_of_set)
  then have m: "missing_instruments rows (instruments_of_rows rows) (er_ts r0) = []"
    using assms(1) by (auto simp: enforce_common_clock_def)
  then have "filter (\<lambda>i. i \<notin> er_instrument ` set (filter (\<lambda>r. er_ts r = er_ts r0) rows)) (instruments_of_rows rows) = []"
    unfolding missing_instruments_def by (metis length_0_conv length_sorted_by)
  then show ?thesis by (auto simp: filter_empty_conv instruments_of_rows_set)
qed

lemma same_instruments:
  assumes "enforce_common_clock rows1 (instruments_of_rows rows1) policy = Inr u" "enforce_common_clock rows2 (instruments_of_rows rows2) policy' = Inr v"
    and "filter (\<lambda>r. er_ts r \<le> T) rows1 = filter (\<lambda>r. er_ts r \<le> T) rows2" "filter (\<lambda>r. er_ts r \<le> T) rows1 \<noteq> []"
  shows "instruments_of_rows rows1 = instruments_of_rows rows2"
proof -
  obtain r0 where r0: "r0 \<in> set (filter (\<lambda>r. er_ts r \<le> T) rows1)" using assms(4) by (metis ex_in_conv set_empty)
  have "r \<in> set (filter (\<lambda>r. er_ts r \<le> T) rows1) \<longleftrightarrow> r \<in> set (filter (\<lambda>r. er_ts r \<le> T) rows2)" for r by (simp only: assms(3))
  then have m: "er_ts r \<le> T \<Longrightarrow> r \<in> set rows1 \<longleftrightarrow> r \<in> set rows2" for r unfolding set_filter mem_Collect_eq by blast
  have t: "er_ts r0 \<le> T" "r0 \<in> set rows1" using r0 by simp_all
  then have t2: "r0 \<in> set rows2" using m by blast
  have "{r \<in> set rows1. er_ts r = er_ts r0} = {r \<in> set rows2. er_ts r = er_ts r0}"
    by (rule Collect_cong) (use m t(1) in \<open>metis (mono_tags)\<close>)
  then have "set (instruments_of_rows rows1) = set (instruments_of_rows rows2)"
    by (simp only: common_clock_instruments [OF assms(1) t(2)] common_clock_instruments [OF assms(2) t2])
  then show ?thesis by (rule sorted_distinct_set_unique [OF instruments_of_rows_set(2,3) instruments_of_rows_set(2,3)])
qed

lemma bars_agree:
  assumes "in_env x = in_env y" "in_basis x = in_basis y" "in_cost x = in_cost y" "in_scenario x = in_scenario y"
    and "\<forall>ts \<in> set tss. \<forall>i. row_at (in_rows x) ts i = row_at (in_rows y) ts i \<and> signal_at (in_signals x) ts i = signal_at (in_signals y) ts i"
  shows "foldE (bar_step x is) tss s = foldE (bar_step y is) tss s"
proof (rule foldE_cong)
  fix ts st assume ts: "ts \<in> set tss"
  have "leg_step x ts i sb = leg_step y ts i sb" for i sb
    unfolding leg_step_def by (simp only: assms(1-4) assms(5) [rule_format, OF ts, THEN conjunct1] assms(5) [rule_format, OF ts, THEN conjunct2])
  then have "leg_step x ts = leg_step y ts" by blast
  then show "bar_step x is ts st = bar_step y is ts st" unfolding bar_step_def by (simp only: assms(4))
qed

text \<open>What comes after the common past is dated later.\<close>

definition dated_after :: "instant \<Rightarrow> string \<Rightarrow> bool" where
  "dated_after T s \<longleftrightarrow> (\<exists>t > T. s = iso_of_instant t)"

definition extends :: "instant \<Rightarrow> sim_state \<Rightarrow> sim_state \<Rightarrow> bool" where
  "extends T st0 st \<longleftrightarrow> (\<exists>c p t. ss_curve st = ss_curve st0 @ c \<and> ss_positions st = ss_positions st0 @ p \<and> ss_trades st = ss_trades st0 @ t \<and>
     (\<forall>r \<in> set c. dated_after T (eq_ts r)) \<and> (\<forall>x \<in> set p. dated_after T (po_ts x)) \<and> (\<forall>x \<in> set t. dated_after T (td_ts x)))"

lemma map_filter_append: "List.map_filter f (xs @ ys) = List.map_filter f xs @ List.map_filter f ys"
  by (simp add: List.map_filter_def)

lemma map_filter_member: "t \<in> set (List.map_filter f xs) \<Longrightarrow> \<exists>x \<in> set xs. f x = Some t"
  by (auto simp: List.map_filter_def)

lemma leg_trade_ts: "leg_ok ts i l \<Longrightarrow> lg_trade l = Some t \<Longrightarrow> td_ts t = iso_of_instant ts"
  by (auto simp: leg_ok_def trade_of_position_def Let_def split: if_split_asm)

lemma list_all2_memberL: "list_all2 P xs ys \<Longrightarrow> x \<in> set xs \<Longrightarrow> \<exists>y \<in> set ys. P x y"
  by (induction rule: list_all2_induct) auto

lemma later_bars_extend:
  assumes "foldE (bar_step x is) tss st = Inr st'" "tracks st ls" "\<forall>ts \<in> set tss. T < ts"
  shows "extends T st st'"
proof -
  obtain groups rows where g: "tracks st' (ls @ concat groups)" "list_all2 (\<lambda>ts g. list_all2 (leg_ok ts) is g) tss groups"
    "ss_positions st' = ss_positions st @ map lg_position (concat groups)" "ss_curve st' = ss_curve st @ rows"
    "map eq_ts rows = map iso_of_instant tss"
    using run_bars_tracks [OF assms(1,2)] by blast
  have ok: "\<exists>ts > T. \<exists>i. leg_ok ts i l" if l: "l \<in> set (concat groups)" for l
  proof -
    obtain gr where gr: "gr \<in> set groups" "l \<in> set gr" using l by auto
    obtain ts where "ts \<in> set tss" "list_all2 (leg_ok ts) is gr" using list_all2_member [OF g(2) gr(1)] by blast
    then show ?thesis using list_all2_member gr(2) assms(3) by metis
  qed
  have "ss_trades st' = ss_trades st @ List.map_filter lg_trade (concat groups)"
    using g(1) assms(2) by (simp add: tracks_def map_filter_append)
  moreover have "\<forall>r \<in> set rows. dated_after T (eq_ts r)"
  proof
    fix r assume "r \<in> set rows"
    then have "eq_ts r \<in> set (map iso_of_instant tss)" by (metis g(5) image_eqI list.set_map)
    then show "dated_after T (eq_ts r)" using assms(3) by (auto simp: dated_after_def)
  qed
  moreover have "\<forall>p \<in> set (map lg_position (concat groups)). dated_after T (po_ts p)"
  proof
    fix p assume "p \<in> set (map lg_position (concat groups))"
    then obtain l where "l \<in> set (concat groups)" "p = lg_position l" by auto
    then show "dated_after T (po_ts p)" using ok by (auto simp: dated_after_def leg_ok_def)
  qed
  moreover have "\<forall>t \<in> set (List.map_filter lg_trade (concat groups)). dated_after T (td_ts t)"
  proof
    fix t assume "t \<in> set (List.map_filter lg_trade (concat groups))"
    then obtain l where "l \<in> set (concat groups)" "lg_trade l = Some t" using map_filter_member by metis
    then show "dated_after T (td_ts t)" using ok leg_trade_ts unfolding dated_after_def by metis
  qed
  ultimately show ?thesis unfolding extends_def using g(3,4) by blast
qed

lemma run_bars_past:
  assumes "run_bars x is tss e = Inr st" "sorted tss"
  shows "\<exists>st0. foldE (bar_step x is) (filter (\<lambda>t. t \<le> T) tss) (start_state e) = Inr st0 \<and> extends T st0 st"
proof -
  let ?pre = "filter (\<lambda>t. t \<le> T) tss" and ?post = "filter (\<lambda>t. \<not> t \<le> T) tss"
  have "tss = ?pre @ ?post" using sorted_split [of "\<lambda>t. t" tss T] assms(2) by simp
  then have "bindE (foldE (bar_step x is) ?pre (start_state e)) (foldE (bar_step x is) ?post) = Inr st"
    using assms(1) foldE_append [of "bar_step x is" ?pre ?post] by (simp add: run_bars_def)
  then obtain st0 where s: "foldE (bar_step x is) ?pre (start_state e) = Inr st0" "foldE (bar_step x is) ?post st0 = Inr st"
    by (auto simp: bindE_Inr_iff)
  obtain groups where "tracks st0 ([] @ groups)" using run_bars_tracks [OF s(1) tracks_start] by blast
  then have "extends T st0 st" using later_bars_extend [OF s(2)] by auto
  then show ?thesis using s(1) by blast
qed


lemma simulate_vectorized_Inr:
  assumes "simulate_vectorized env c spec frame panel run_id scen = Inr sim"
  obtains cost rows st where "effective_cost_model c = Inr cost" "engine_rows env panel = Inr rows"
    "enforce_common_clock rows (instruments_of_rows rows) (rn_missing_policy c) = Inr ()"
    "run_bars \<lparr>in_env = env, in_basis = ec_basis (sp_execution spec), in_cost = cost, in_scenario = scen, in_rows = rows,
       in_signals = sf_rows frame\<rparr> (instruments_of_rows rows) (timestamps_of rows) (rn_equity c) = Inr st"
    "si_curve sim = ss_curve st" "si_trades sim = ss_trades st" "si_positions sim = ss_positions st"
    "si_instrument_totals sim = map (\<lambda>i. (i, ss_totals st i)) (instruments_of_rows rows)"
    "si_metrics sim = run_metrics_of run_id (rn_equity c) st"
  using assms
  by (auto simp: simulate_vectorized_def Let_def bindE_Inr_iff finish_simulation_def validate_metrics_def validate_model_Inr_iff)

definition common_past :: "instant \<Rightarrow> simulation \<Rightarrow> simulation \<Rightarrow> bool" where
  "common_past T sim sim' \<longleftrightarrow> (\<exists>curve positions trades. \<forall>s \<in> {sim, sim'}. \<exists>c p t.
     si_curve s = curve @ c \<and> si_positions s = positions @ p \<and> si_trades s = trades @ t \<and>
     (\<forall>r \<in> set c. dated_after T (eq_ts r)) \<and> (\<forall>x \<in> set p. dated_after T (po_ts x)) \<and> (\<forall>x \<in> set t. dated_after T (td_ts x)))"

lemma common_pastI:
  assumes "extends T st0 st" "extends T st0 st'"
    and "si_curve sim = ss_curve st" "si_trades sim = ss_trades st" "si_positions sim = ss_positions st"
    and "si_curve sim' = ss_curve st'" "si_trades sim' = ss_trades st'" "si_positions sim' = ss_positions st'"
  shows "common_past T sim sim'"
  unfolding common_past_def
proof (rule exI [of _ "ss_curve st0"], rule exI [of _ "ss_positions st0"], rule exI [of _ "ss_trades st0"], rule ballI)
  fix s assume "s \<in> {sim, sim'}"
  then show "\<exists>c p t. si_curve s = ss_curve st0 @ c \<and> si_positions s = ss_positions st0 @ p \<and> si_trades s = ss_trades st0 @ t \<and>
     (\<forall>r \<in> set c. dated_after T (eq_ts r)) \<and> (\<forall>x \<in> set p. dated_after T (po_ts x)) \<and> (\<forall>x \<in> set t. dated_after T (td_ts x))"
    using assms(1,2) unfolding extends_def by (elim insertE emptyE) (simp_all add: assms(3-8))
qed

lemma simulation_past:
  assumes "simulate_vectorized env c spec frame1 p1 id1 scen = Inr sim1" "simulate_vectorized env c spec frame2 p2 id2 scen = Inr sim2"
    and "engine_past env T p1 = engine_past env T p2"
    and "filter (\<lambda>s. sr_ts s \<le> T) (sf_rows frame1) = filter (\<lambda>s. sr_ts s \<le> T) (sf_rows frame2)"
  shows "common_past T sim1 sim2"
proof -
  obtain cost rows1 st1 where a: "effective_cost_model c = Inr cost" "engine_rows env p1 = Inr rows1"
    "enforce_common_clock rows1 (instruments_of_rows rows1) (rn_missing_policy c) = Inr ()"
    "run_bars \<lparr>in_env = env, in_basis = ec_basis (sp_execution spec), in_cost = cost, in_scenario = scen, in_rows = rows1,
       in_signals = sf_rows frame1\<rparr> (instruments_of_rows rows1) (timestamps_of rows1) (rn_equity c) = Inr st1"
    "si_curve sim1 = ss_curve st1" "si_trades sim1 = ss_trades st1" "si_positions sim1 = ss_positions st1"
    by (rule simulate_vectorized_Inr [OF assms(1)])
  obtain cost2 rows2 st2 where b: "effective_cost_model c = Inr cost2" "engine_rows env p2 = Inr rows2"
    "enforce_common_clock rows2 (instruments_of_rows rows2) (rn_missing_policy c) = Inr ()"
    "run_bars \<lparr>in_env = env, in_basis = ec_basis (sp_execution spec), in_cost = cost2, in_scenario = scen, in_rows = rows2,
       in_signals = sf_rows frame2\<rparr> (instruments_of_rows rows2) (timestamps_of rows2) (rn_equity c) = Inr st2"
    "si_curve sim2 = ss_curve st2" "si_trades sim2 = ss_trades st2" "si_positions sim2 = ss_positions st2"
    by (rule simulate_vectorized_Inr [OF assms(2)])
  have cost: "cost2 = cost" using a(1) b(1) by simp
  note past = engine_rows_same_past [OF a(2) b(2) assms(3)]
  let ?pre = "filter (\<lambda>t. t \<le> T) (timestamps_of rows1)"
  let ?x = "\<lparr>in_env = env, in_basis = ec_basis (sp_execution spec), in_cost = cost, in_scenario = scen, in_rows = rows1, in_signals = sf_rows frame1\<rparr>"
  let ?y = "\<lparr>in_env = env, in_basis = ec_basis (sp_execution spec), in_cost = cost, in_scenario = scen, in_rows = rows2, in_signals = sf_rows frame2\<rparr>"
  have pre: "filter (\<lambda>t. t \<le> T) (timestamps_of rows2) = ?pre" unfolding timestamps_of_filter past ..
  obtain s1 where s1: "foldE (bar_step ?x (instruments_of_rows rows1)) ?pre (start_state (rn_equity c)) = Inr s1" "extends T s1 st1"
    using run_bars_past [OF a(4) timestamps_of_set(2)] by blast
  obtain s2 where s2: "foldE (bar_step ?y (instruments_of_rows rows2)) ?pre (start_state (rn_equity c)) = Inr s2" "extends T s2 st2"
    using run_bars_past [OF b(4) [unfolded cost] timestamps_of_set(2), of T] unfolding pre by blast
  have "foldE (bar_step ?y (instruments_of_rows rows1)) ?pre (start_state (rn_equity c)) = Inr s1"
  proof -
    have "\<forall>ts \<in> set ?pre. \<forall>i. row_at (in_rows ?x) ts i = row_at (in_rows ?y) ts i \<and> signal_at (in_signals ?x) ts i = signal_at (in_signals ?y) ts i"
    proof (intro ballI allI)
      fix ts i assume "ts \<in> set ?pre"
      then have "ts \<le> T" by simp
      then show "row_at (in_rows ?x) ts i = row_at (in_rows ?y) ts i \<and> signal_at (in_signals ?x) ts i = signal_at (in_signals ?y) ts i"
        using row_at_filter [of ts T rows1 i] row_at_filter [of ts T rows2 i] signal_at_filter [of ts T "sf_rows frame1" i]
          signal_at_filter [of ts T "sf_rows frame2" i] past assms(4) by simp
    qed
    from bars_agree [OF _ _ _ _ this] show ?thesis using s1(1) by simp
  qed
  moreover have "?pre = [] \<or> instruments_of_rows rows1 = instruments_of_rows rows2"
  proof (cases "filter (\<lambda>r. er_ts r \<le> T) rows1 = []")
    case True
    then show ?thesis unfolding timestamps_of_filter by (simp add: timestamps_of_def sorted_by_def)
  qed (use same_instruments [OF a(3) b(3) past] in blast)
  ultimately have "s1 = s2" using s2(1) by auto
  then show ?thesis using common_pastI [OF s1(2) _ a(5-7) b(5-7)] s2(2) by simp
qed

lemma panel_until_past:
  assumes "mapE (panel_row (base_env env)) panel = Inr rs"
  shows "panel_until env T panel = engine_past (base_env env) T panel"
  unfolding panel_until_def engine_past_def
proof (rule filter_cong [OF refl])
  fix row assume "row \<in> set panel"
  then obtain r where "panel_row (base_env env) row = Inr r" using mapE_member [OF assms] by blast
  moreover from this have "parse_timestamp (base_env env) (row_get row ''ts'') = Inr (er_ts r)"
    by (auto simp: panel_row_def bindE_Inr_iff row_item_def row_get_def engine_timestamp_def split: option.split_asm sum.split_asm pyval.split_asm)
  ultimately show "(case parse_timestamp (base_env env) (row_get row ''ts'') of Inr ts \<Rightarrow> ts \<le> T | Inl e \<Rightarrow> False) =
      (case panel_row (base_env env) row of Inr r \<Rightarrow> er_ts r \<le> T | Inl e \<Rightarrow> False)" by simp
qed


lemma vectorized_run_Inr:
  assumes "vectorized_run fast env c spec None panel run_id = Inr sim" "rn_lane c \<noteq> FAST_VECTORIZED"
  obtains frame base stress where "compile_signal_frame env spec panel = Inr frame"
    "simulate_vectorized (base_env env) c spec frame panel run_id BASE = Inr base" "sim = base\<lparr>si_stress := stress\<rparr>"
  using assms by (auto simp: vectorized_run_def with_stress_def bindE_Inr_iff)

lemma compiled_past:
  assumes "compile_signal_frame env spec p1 = Inr frame1" "compile_signal_frame env spec p2 = Inr frame2"
    and "panel_until env T p1 = panel_until env T p2"
  shows "filter (\<lambda>s. sr_ts s \<le> T) (sf_rows frame1) = filter (\<lambda>s. sr_ts s \<le> T) (sf_rows frame2)"
  using compile_past [OF assms(1), of T] compile_past [OF assms(2), of T] assms(3) by auto

text \<open>
  C4: A backtest of the reference lane never looks ahead: two panels that agree up to a moment give, when both runs succeed,
  the same equity rows, positions and trades up to that moment, from the compilation of the signals to
  the simulation; everything in which the results differ is dated later.
\<close>

theorem backtest_is_causal:
  assumes "vectorized_run fast env c spec None p1 id1 = Inr sim1" "vectorized_run fast env c spec None p2 id2 = Inr sim2"
    and "rn_lane c = VECTORIZED" "panel_until env T p1 = panel_until env T p2"
  shows "common_past T sim1 sim2"
proof -
  obtain f1 b1 s1 where a: "compile_signal_frame env spec p1 = Inr f1" "simulate_vectorized (base_env env) c spec f1 p1 id1 BASE = Inr b1"
    "sim1 = b1\<lparr>si_stress := s1\<rparr>" by (rule vectorized_run_Inr [OF assms(1)]) (simp add: assms(3))
  obtain f2 b2 s2 where b: "compile_signal_frame env spec p2 = Inr f2" "simulate_vectorized (base_env env) c spec f2 p2 id2 BASE = Inr b2"
    "sim2 = b2\<lparr>si_stress := s2\<rparr>" by (rule vectorized_run_Inr [OF assms(2)]) (simp add: assms(3))
  have rows: "\<exists>rs. mapE (panel_row (base_env env)) p = Inr rs" if "simulate_vectorized (base_env env) c spec f p i BASE = Inr x" for f p i x
    using that by (auto simp: simulate_vectorized_def engine_rows_def bindE_Inr_iff)
  have "engine_past (base_env env) T p1 = engine_past (base_env env) T p2"
    using rows [OF a(2)] rows [OF b(2)] panel_until_past assms(4) by metis
  then have "common_past T b1 b2" by (rule simulation_past [OF a(2) b(2) _ compiled_past [OF a(1) b(1) assms(4)]])
  then show ?thesis by (simp add: common_past_def a(3) b(3))
qed

section \<open>Accounting\<close>

lemma simulation_tracks:
  assumes "simulate_vectorized env c spec frame panel run_id scen = Inr sim"
  obtains rows st groups where "engine_rows env panel = Inr rows" "tracks st (concat groups)"
    "list_all2 (\<lambda>ts g. list_all2 (leg_ok ts) (instruments_of_rows rows) g) (timestamps_of rows) groups"
    "si_positions sim = map lg_position (concat groups)" "list_all2 (\<lambda>r g. row_of_bar r (map lg_position g)) (si_curve sim) groups"
    "map eq_ts (si_curve sim) = map iso_of_instant (timestamps_of rows)" "si_trades sim = ss_trades st"
    "map eq_gross (si_curve sim) = compounded (rn_equity c) (map eq_gross_return (si_curve sim))"
    "map eq_net (si_curve sim) = compounded (rn_equity c) (map eq_net_return (si_curve sim))"
    "si_instrument_totals sim = map (\<lambda>i. (i, ss_totals st i)) (instruments_of_rows rows)"
    "si_metrics sim = run_metrics_of run_id (rn_equity c) st" "ss_positions st = si_positions sim"
    "ss_gross st = last (rn_equity c # map eq_gross (si_curve sim))" "ss_net st = last (rn_equity c # map eq_net (si_curve sim))"
proof (rule simulate_vectorized_Inr [OF assms])
  fix cost rows st
  assume a: "engine_rows env panel = Inr rows"
    "run_bars \<lparr>in_env = env, in_basis = ec_basis (sp_execution spec), in_cost = cost, in_scenario = scen, in_rows = rows,
       in_signals = sf_rows frame\<rparr> (instruments_of_rows rows) (timestamps_of rows) (rn_equity c) = Inr st"
    "si_curve sim = ss_curve st" "si_trades sim = ss_trades st" "si_positions sim = ss_positions st"
    "si_instrument_totals sim = map (\<lambda>i. (i, ss_totals st i)) (instruments_of_rows rows)"
    "si_metrics sim = run_metrics_of run_id (rn_equity c) st"
  have e: "ss_curve (start_state (rn_equity c)) = []" "ss_positions (start_state (rn_equity c)) = []"
    "ss_gross (start_state (rn_equity c)) = rn_equity c" "ss_net (start_state (rn_equity c)) = rn_equity c" by (simp_all add: start_state_def)
  from run_bars_tracks [OF a(2) [unfolded run_bars_def] tracks_start] obtain groups where
    "tracks st (concat groups)" "list_all2 (\<lambda>ts g. list_all2 (leg_ok ts) (instruments_of_rows rows) g) (timestamps_of rows) groups"
    "ss_positions st = map lg_position (concat groups)" "list_all2 (\<lambda>r g. row_of_bar r (map lg_position g)) (ss_curve st) groups"
    "map eq_ts (ss_curve st) = map iso_of_instant (timestamps_of rows)"
    "map eq_gross (ss_curve st) = compounded (rn_equity c) (map eq_gross_return (ss_curve st))" "ss_gross st = last (rn_equity c # map eq_gross (ss_curve st))"
    "map eq_net (ss_curve st) = compounded (rn_equity c) (map eq_net_return (ss_curve st))" "ss_net st = last (rn_equity c # map eq_net (ss_curve st))"
    unfolding e by (auto simp only: append_Nil)
  then show thesis using that [OF a(1)] a(3-7) by simp
qed


lemma legs_ok_instruments: "list_all2 (leg_ok ts) is g \<Longrightarrow> map po_instrument (map lg_position g) = is"
  by (induction rule: list_all2_induct) (simp_all add: leg_ok_def leg_instrument_def)

lemma groups_ok:
  assumes "list_all2 (\<lambda>ts g. list_all2 (leg_ok ts) is g) tss groups" "l \<in> set (concat groups)"
  shows "\<exists>ts i. leg_ok ts i l"
proof -
  obtain g where g: "g \<in> set groups" "l \<in> set g" using assms(2) by auto
  obtain ts where "list_all2 (leg_ok ts) is g" using list_all2_member [OF assms(1) g(1)] by blast
  then show ?thesis using list_all2_member g(2) by metis
qed

text \<open>The positions of one instrument.\<close>

definition positions_of :: "string \<Rightarrow> position list \<Rightarrow> position list" where
  "positions_of i ps = filter (\<lambda>p. po_instrument p = i) ps"

lemma positions_of_legs: "positions_of i (map lg_position ls) = map lg_position (legs_of i ls)"
  by (simp add: positions_of_def legs_of_def filter_map comp_def leg_instrument_def)

text \<open>
  C6: The equity curve is exactly what the positions add up to: the positions come in one group for each
  moment of the panel, with one position for each instrument in order; every figure of an equity row is
  the sum over its group; the equity compounds the returns of the rows; no row has a blocked trade.
\<close>

theorem curve_accounts_for_positions:
  assumes "simulate_vectorized env c spec frame panel run_id scen = Inr sim"
  shows "\<exists>rows groups. engine_rows env panel = Inr rows \<and> si_positions sim = concat groups \<and> list_all2 row_of_bar (si_curve sim) groups \<and>
    (\<forall>g \<in> set groups. map po_instrument g = instruments_of_rows rows) \<and> map eq_ts (si_curve sim) = map iso_of_instant (timestamps_of rows) \<and>
    map eq_gross (si_curve sim) = compounded (rn_equity c) (map eq_gross_return (si_curve sim)) \<and>
    map eq_net (si_curve sim) = compounded (rn_equity c) (map eq_net_return (si_curve sim))"
proof (rule simulation_tracks [OF assms])
  fix rows st groups
  assume a: "engine_rows env panel = Inr rows" "tracks st (concat groups)"
    "list_all2 (\<lambda>ts g. list_all2 (leg_ok ts) (instruments_of_rows rows) g) (timestamps_of rows) groups"
    "si_positions sim = map lg_position (concat groups)" "list_all2 (\<lambda>r g. row_of_bar r (map lg_position g)) (si_curve sim) groups"
    "map eq_ts (si_curve sim) = map iso_of_instant (timestamps_of rows)"
    "map eq_gross (si_curve sim) = compounded (rn_equity c) (map eq_gross_return (si_curve sim))"
    "map eq_net (si_curve sim) = compounded (rn_equity c) (map eq_net_return (si_curve sim))"
  have "\<forall>g \<in> set (map (map lg_position) groups). map po_instrument g = instruments_of_rows rows"
    using list_all2_member [OF a(3)] legs_ok_instruments by fastforce
  moreover have "si_positions sim = concat (map (map lg_position) groups)" by (simp add: a(4) map_concat)
  moreover have "list_all2 row_of_bar (si_curve sim) (map (map lg_position) groups)" using a(5) by (simp add: list_all2_map2)
  ultimately show ?thesis using a(1,6-8) by blast
qed


lemma fold_add_totals:
  "to_gross (fold add_totals ls t) = foldl f_add (to_gross t) (map (\<lambda>l. po_gross (lg_position l)) ls)"
  "to_net (fold add_totals ls t) = foldl f_add (to_net t) (map (\<lambda>l. po_net (lg_position l)) ls)"
  "to_fee (fold add_totals ls t) = foldl f_add (to_fee t) (map (leg_cost bd_fee) ls)"
  "to_spread (fold add_totals ls t) = foldl f_add (to_spread t) (map (leg_cost bd_spread) ls)"
  "to_slippage (fold add_totals ls t) = foldl f_add (to_slippage t) (map (leg_cost bd_slippage) ls)"
  "to_impact (fold add_totals ls t) = foldl f_add (to_impact t) (map (leg_cost bd_impact) ls)"
  "to_transaction (fold add_totals ls t) = foldl f_add (to_transaction t) (map (leg_cost bd_total) ls)"
  "to_funding (fold add_totals ls t) = foldl f_add (to_funding t) (map (\<lambda>l. po_funding (lg_position l)) ls)"
  "to_turnover (fold add_totals ls t) = foldl f_add (to_turnover t) (map lg_turnover ls)"
  "to_trades (fold add_totals ls t) = foldl f_add (to_trades t) (map (\<lambda>l. Fin 1) (filter (\<lambda>l. lg_trade l \<noteq> None) ls))"
  by (induction ls arbitrary: t) (simp_all add: add_totals_def Let_def leg_cost_def)

text \<open>The totals of an instrument over its positions.\<close>

definition totals_of_positions :: "totals \<Rightarrow> position list \<Rightarrow> bool" where
  "totals_of_positions t ps \<longleftrightarrow> to_gross t = f_sum (map po_gross ps) \<and> to_net t = f_sum (map po_net ps) \<and>
     to_fee t = cost_sum bd_fee ps \<and> to_spread t = cost_sum bd_spread ps \<and> to_slippage t = cost_sum bd_slippage ps \<and>
     to_impact t = cost_sum bd_impact ps \<and> to_transaction t = cost_sum bd_total ps \<and> to_funding t = f_sum (map po_funding ps) \<and>
     to_turnover t = f_sum (map (\<lambda>p. f_abs (f_sub (po_target p) (po_applied p))) ps) \<and>
     to_trades t = f_sum (map (\<lambda>p. Fin 1) (filter (\<lambda>p. trade_of_position p \<noteq> None) ps))"

lemma totals_of_legs:
  assumes "\<forall>l \<in> set ls. lg_turnover l = f_abs (f_sub (target_of l) (applied_of l)) \<and> lg_trade l = trade_of_position (lg_position l)"
  shows "totals_of_positions (fold add_totals ls empty_totals) (map lg_position ls)"
proof -
  have t: "map lg_turnover ls = map (\<lambda>l. f_abs (f_sub (po_target (lg_position l)) (po_applied (lg_position l)))) ls"
    "filter (\<lambda>l. lg_trade l \<noteq> None) ls = filter (\<lambda>l. trade_of_position (lg_position l) \<noteq> None) ls"
    using assms by (auto simp: target_of_def applied_of_def intro: filter_cong)
  show ?thesis unfolding totals_of_positions_def fold_add_totals cost_sum_def f_sum_def t
    by (simp add: empty_totals_def leg_cost_def [abs_def] comp_def filter_map)
qed

text \<open>
  The totals reported for an instrument are the sums over its positions, in the order of time, for
  every instrument of the panel; a trade counts where a position changes its weight.
\<close>

theorem instrument_totals_are_sums:
  assumes "simulate_vectorized env c spec frame panel run_id scen = Inr sim"
  shows "\<exists>rows. engine_rows env panel = Inr rows \<and> map fst (si_instrument_totals sim) = instruments_of_rows rows \<and>
    list_all (\<lambda>(i, t). totals_of_positions t (positions_of i (si_positions sim))) (si_instrument_totals sim)"
proof (rule simulation_tracks [OF assms])
  fix rows st groups
  assume a: "engine_rows env panel = Inr rows" "tracks st (concat groups)"
    "list_all2 (\<lambda>ts g. list_all2 (leg_ok ts) (instruments_of_rows rows) g) (timestamps_of rows) groups"
    "si_positions sim = map lg_position (concat groups)"
    "si_instrument_totals sim = map (\<lambda>i. (i, ss_totals st i)) (instruments_of_rows rows)"
  have "totals_of_positions (ss_totals st i) (positions_of i (si_positions sim))" for i
  proof -
    have "ss_totals st i = fold add_totals (legs_of i (concat groups)) empty_totals" using a(2) by (simp add: tracks_def)
    moreover have "\<forall>l \<in> set (legs_of i (concat groups)). lg_turnover l = f_abs (f_sub (target_of l) (applied_of l)) \<and> lg_trade l = trade_of_position (lg_position l)"
      using groups_ok [OF a(3)] by (auto simp: legs_of_def leg_ok_def)
    ultimately show ?thesis unfolding a(4) positions_of_legs by (simp only: totals_of_legs)
  qed
  then show ?thesis using a(1) by (simp add: a(5) comp_def list_all_iff)
qed

lemma map_filter_cong: "\<forall>x \<in> set xs. f x = g (h x) \<Longrightarrow> List.map_filter f xs = List.map_filter g (map h xs)"
  by (induction xs) (simp_all add: List.map_filter_def)

text \<open>
  The trades of a run are exactly the changes of weight of its positions, in their order, each with
  the change as its turnover; the metrics count them, sum them, count the positions, and report no
  position that the capacity limit should have blocked.
\<close>

theorem trades_are_weight_changes:
  assumes "simulate_vectorized env c spec frame panel run_id scen = Inr sim"
  shows "si_trades sim = List.map_filter trade_of_position (si_positions sim) \<and> mt_trades (si_metrics sim) = int (length (si_trades sim)) \<and>
    mt_turnover (si_metrics sim) = f_sum (map td_turnover (si_trades sim)) \<and> mt_positions (si_metrics sim) = int (length (si_positions sim)) \<and>
    mt_blocked (si_metrics sim) = 0 \<and> list_all (\<lambda>p. \<not> bd_blocked (po_costs p)) (si_positions sim)"
proof (rule simulation_tracks [OF assms])
  fix rows st groups
  assume a: "tracks st (concat groups)" "list_all2 (\<lambda>ts g. list_all2 (leg_ok ts) (instruments_of_rows rows) g) (timestamps_of rows) groups"
    "si_positions sim = map lg_position (concat groups)" "si_trades sim = ss_trades st"
    "si_metrics sim = run_metrics_of run_id (rn_equity c) st" "ss_positions st = si_positions sim"
  note ok = groups_ok [OF a(2)]
  have "\<forall>l \<in> set (concat groups). lg_trade l = trade_of_position (lg_position l)" using ok by (auto simp: leg_ok_def)
  from map_filter_cong [of "concat groups" lg_trade trade_of_position lg_position, OF this] have "si_trades sim = List.map_filter trade_of_position (si_positions sim)"
    using a(1) by (simp add: tracks_def a(3,4))
  moreover have b: "\<forall>p \<in> set (si_positions sim). \<not> bd_blocked (po_costs p)" using ok by (auto simp: a(3) leg_ok_def)
  moreover have "filter (\<lambda>p. bd_blocked (po_costs p)) (si_positions sim) = []" using b by (simp add: filter_empty_conv)
  ultimately show ?thesis by (simp add: a(4-6) run_metrics_of_def Let_def list_all_iff)
qed


section \<open>Stress\<close>

lemma stress_factor_mono:
  assumes "f_ge (eq_transaction r) (Fin 0)" "f_le (scenario_multiplier s) (scenario_multiplier s')"
    and "isfinite (snd (stress_factors (scenario_multiplier s) r))"
  shows "snd (stress_factors (scenario_multiplier s') r) = NaN \<or> f_le (snd (stress_factors (scenario_multiplier s') r)) (snd (stress_factors (scenario_multiplier s) r))"
proof -
  let ?t = "eq_transaction r" and ?m = "scenario_multiplier s" and ?m' = "scenario_multiplier s'"
  let ?a = "f_add (f_add (Fin 1) (eq_gross_return r)) (eq_funding r)"
  have "f_mul ?t ?m \<noteq> NaN" "f_mul ?t ?m' \<noteq> NaN" using assms(1) by (cases ?t; cases s; cases s'; simp)+
  then have le: "f_le (f_mul ?t ?m) (f_mul ?t ?m')" using f_mul_mono [OF assms(1) multiplier_pos(1) assms(2)] by simp
  have "isfinite ?a" using assms(3) by (cases ?a; cases "f_mul ?t ?m") (auto simp: stress_factors_def f_sub_def)
  from f_sub_antimono [OF this le] show ?thesis by (simp add: stress_factors_def)
qed

lemma f_mul_mono2:
  assumes "f_ge a (Fin 0)" "f_le a b" "0 < x" "x \<le> y"
  shows "f_le (f_mul a (Fin x)) (f_mul b (Fin y)) \<and> f_ge (f_mul a (Fin x)) (Fin 0)"
proof (cases a; cases b)
  fix p q assume "a = Fin p" "b = Fin q"
  then show ?thesis using assms by (simp add: fl_mono fl_nonneg mult_mono)
qed (use assms in \<open>auto simp: fl_nonneg\<close>)

lemma stress_equity_mono:
  assumes "f_le (scenario_multiplier s) (scenario_multiplier s')"
    and "\<forall>r \<in> set curve. f_ge (eq_transaction r) (Fin 0) \<and> isfinite (snd (stress_factors (scenario_multiplier s) r)) \<and> f_gt (snd (stress_factors (scenario_multiplier s') r)) (Fin 0)"
    and "f_ge n' (Fin 0)" "f_le n' n"
  shows "f_le (snd (foldl (\<lambda>(g, n) r. (f_mul g (fst (stress_factors (scenario_multiplier s') r)), f_mul n (snd (stress_factors (scenario_multiplier s') r)))) (g, n') curve))
      (snd (foldl (\<lambda>(g, n) r. (f_mul g (fst (stress_factors (scenario_multiplier s) r)), f_mul n (snd (stress_factors (scenario_multiplier s) r)))) (g', n) curve))"
  using assms(2-4)
proof (induction curve arbitrary: g g' n n')
  case (Cons r curve)
  let ?x = "snd (stress_factors (scenario_multiplier s') r)" and ?y = "snd (stress_factors (scenario_multiplier s) r)"
  have r: "f_ge (eq_transaction r) (Fin 0)" "isfinite ?y" "f_gt ?x (Fin 0)" using Cons.prems(1) by simp_all
  have "f_le ?x ?y" using stress_factor_mono [OF r(1) assms(1) r(2)] r(3) by auto
  then obtain x y where xy: "?x = Fin x" "?y = Fin y" "0 < x" "x \<le> y" using r(2,3) by (cases ?x; cases ?y) auto
  note m = f_mul_mono2 [OF Cons.prems(2,3) xy(3,4)]
  show ?case using Cons.IH [of "f_mul n' ?x" "f_mul n ?y"] Cons.prems(1) m by (simp add: xy(1,2))
qed simp

lemma stress_equity_gross: "fst (stress_equity m e curve) = fst (stress_equity m' e curve)"
proof -
  have "fst (foldl (\<lambda>(g, n) r. (f_mul g (fst (stress_factors m r)), f_mul n (snd (stress_factors m r)))) (g, n) curve) =
      fst (foldl (\<lambda>(g, n) r. (f_mul g (fst (stress_factors m' r)), f_mul n (snd (stress_factors m' r)))) (g, n') curve)" for g n n'
    by (induction curve arbitrary: g n n') (simp_all add: stress_factors_def)
  then show ?thesis by (simp add: stress_equity_def)
qed

lemma f_sub_mono: "isfinite x \<Longrightarrow> f_le a b \<Longrightarrow> f_le (f_sub a x) (f_sub b x)"
  by (cases x; cases a; cases b) (auto simp: f_sub_def fl_mono)

lemma stress_metrics_Inr:
  assumes "stress_metrics_from_base base curve s = Inr m" "stress_initial_equity base = Inr e"
  shows "mt_gross_equity m = fst (stress_equity (scenario_multiplier s) e curve)" "mt_net_equity m = snd (stress_equity (scenario_multiplier s) e curve)"
    "mt_gross_return m = f_sub (fst (stress_equity (scenario_multiplier s) e curve)) e"
    "mt_net_return m = f_sub (snd (stress_equity (scenario_multiplier s) e curve)) e"
  using assms by (auto simp: stress_metrics_from_base_def Let_def validate_metrics_def validate_model_Inr_iff split: prod.split_asm)

text \<open>
  Costs only hurt, and more under a harder scenario: with costs that are not negative and bars that
  do not wipe the equity out, the harder scenario ends with the same gross figures and with a net equity
  and a net return that are at most those of the milder one.
\<close>

theorem stress_is_monotone:
  assumes "stress_metrics_from_base base curve s = Inr mild" "stress_metrics_from_base base curve s' = Inr hard"
    and "f_le (scenario_multiplier s) (scenario_multiplier s')" "stress_initial_equity base = Inr (Fin e)" "0 \<le> e"
    and "\<forall>r \<in> set curve. f_ge (eq_transaction r) (Fin 0) \<and> isfinite (snd (stress_factors (scenario_multiplier s) r)) \<and>
      f_gt (snd (stress_factors (scenario_multiplier s') r)) (Fin 0)"
  shows "mt_gross_equity hard = mt_gross_equity mild \<and> mt_gross_return hard = mt_gross_return mild \<and>
    f_le (mt_net_equity hard) (mt_net_equity mild) \<and> f_le (mt_net_return hard) (mt_net_return mild)"
proof -
  note m = stress_metrics_Inr [OF assms(1,4)] and h = stress_metrics_Inr [OF assms(2,4)]
  have g: "fst (stress_equity (scenario_multiplier s') (Fin e) curve) = fst (stress_equity (scenario_multiplier s) (Fin e) curve)"
    by (rule stress_equity_gross)
  have n: "f_le (snd (stress_equity (scenario_multiplier s') (Fin e) curve)) (snd (stress_equity (scenario_multiplier s) (Fin e) curve))"
    unfolding stress_equity_def by (rule stress_equity_mono [OF assms(3,6)]) (use assms(5) in simp_all)
  show ?thesis unfolding m h using g n by (simp add: f_sub_mono)
qed

end
