(* ===== verification/RunArtifactsProps.thy ===== *)
theory RunArtifactsProps
  imports RunArtifacts FastLaneProps EngineProps
begin

text \<open>
  What a backtest leaves behind: where it writes, when it reports a failure and when an exception
  leaves it instead, and that the replay of a light run to full artifacts passes its verification.
\<close>

section \<open>The directory of a run\<close>

lemma safe_run_char_not: "safe_run_char c \<Longrightarrow> c \<noteq> CHR ''/''"
  by (auto simp: safe_run_char_def Let_def)

lemma parse_safe_run_id:
  assumes "safe_run_id s"
  shows "parse_path s = Path False (if s = ''.'' then [] else [s])"
proof -
  have n: "CHR ''/'' \<notin> set s" "s \<noteq> []" using assms safe_run_char_not by (auto simp: safe_run_id_def list_all_iff)
  then have "\<not> is_prefix_of ''/'' s" by (cases s) (auto simp: is_prefix_of_def)
  then show ?thesis using n by (simp add: parse_path_def split_on_plain)
qed

lemma drop_dots_no_dots: "''..'' \<notin> set acc \<Longrightarrow> ''..'' \<notin> set (drop_dots acc ps)"
  by (induction ps arbitrary: acc) (auto dest: in_set_butlastD)

lemma drop_dots_append: "drop_dots acc (ps @ qs) = drop_dots (drop_dots acc ps) qs"
  by (induction ps arbitrary: acc) auto

lemma drop_dots_parts: "set (drop_dots acc ps) \<subseteq> set acc \<union> set ps"
proof (induction ps arbitrary: acc)
  case (Cons p ps)
  show ?case using Cons.IH [of "butlast acc"] Cons.IH [of "acc @ [p]"] by (auto dest: in_set_butlastD)
qed simp

lemma resolved_root_clean:
  assumes "'''' \<notin> set cwd"
  shows "''..'' \<notin> set (resolved_root cwd out)" "'''' \<notin> set (resolved_root cwd out)"
proof -
  show "''..'' \<notin> set (resolved_root cwd out)" unfolding resolved_root_def by (rule drop_dots_no_dots) simp
  obtain a ps where p: "parse_path out = Path a ps" "'''' \<notin> set ps" by (auto simp: parse_path_def)
  then show "'''' \<notin> set (resolved_root cwd out)"
    using assms drop_dots_parts [of "[]" "p_parts (path_join (Path True cwd) (parse_path out))"]
    unfolding resolved_root_def by (cases a) auto
qed

lemma join_butlast:
  assumes "ps \<noteq> []" "'''' \<notin> set ps"
  shows "length (join ''/'' (butlast ps)) < length (join ''/'' ps)"
proof -
  have "ps \<noteq> [] \<Longrightarrow> x \<noteq> [] \<Longrightarrow> length (join ''/'' ps) < length (join ''/'' (ps @ [x]))" for x ps
    by (induction ps rule: induct_list012) auto
  moreover have "last ps \<noteq> []" using assms by (metis last_in_set)
  moreover have "butlast ps @ [last ps] = ps" using assms by simp
  ultimately show ?thesis by (cases "butlast ps = []") (metis append_Nil join.simps(1,2) length_greater_0_conv list.size(3), metis)
qed



text \<open>The run id of one dot is accepted and names the output root.\<close>

lemma dot_run_id_is_root: "run_dir [''data''] ''runs'' ''.'' = Inr [''data'', ''runs'']"
  by code_simp
section \<open>Exceptions that leave no report\<close>

lemma mapE_fails: "x \<in> set xs \<Longrightarrow> f x = Inl e \<Longrightarrow> \<exists>e'. mapE f xs = Inl e'"
proof (induction xs)
  case (Cons y ys)
  then show ?case by (cases "f y"; cases "y = x") auto
qed simp

lemma engine_rows_fail:
  assumes "row \<in> set panel" "panel_row env row = Inl e"
  shows "\<exists>e. engine_rows env panel = Inl e"
  using mapE_fails [where f = "panel_row env", OF assms] by (auto simp: engine_rows_def)

lemma panel_row_unreadable:
  assumes "map_of row ''ts'' = Some v" "engine_timestamp env v = Inl e"
  shows "\<exists>e. panel_row env row = Inl e"
  using assms by (auto simp: panel_row_def row_item_def)

lemma simulate_unreadable:
  assumes "row \<in> set panel" "map_of row ''ts'' = Some v" "engine_timestamp env v = Inl e"
  shows "\<exists>e. simulate_vectorized env c spec frame panel run_id scen = Inl e"
proof -
  obtain e' where "engine_rows env panel = Inl e'" using engine_rows_fail panel_row_unreadable assms by blast
  then show ?thesis by (cases "effective_cost_model c") (auto simp: simulate_vectorized_def)
qed

lemma vectorized_unreadable:
  assumes "row \<in> set panel" "map_of row ''ts'' = Some v" "engine_timestamp (base_env env) v = Inl e" "rn_lane c = VECTORIZED"
  shows "\<exists>e. vectorized_run fast env c spec frame panel run_id = Inl e"
proof (cases "case frame of Some f \<Rightarrow> Inr f | None \<Rightarrow> compile_signal_frame env spec panel")
  case (Inr f)
  obtain e' where "simulate_vectorized (base_env env) c spec f panel run_id BASE = Inl e'" using simulate_unreadable assms by blast
  then show ?thesis using assms(4) Inr by (cases "rn_require_net c") (simp_all add: vectorized_run_def)
next
  case (Inl e')
  then show ?thesis using assms(4) by (cases "rn_require_net c") (simp_all add: vectorized_run_def)
qed

lemma failure_unreadable:
  assumes "row \<in> set panel" "map_of row ''ts'' = Some v" "engine_timestamp (base_env (re_senv env)) v = Inl e"
  shows "\<exists>e. write_failure_artifacts env c spec params panel h run_id dir lane reason given = Inl e"
proof -
  have "row \<in> set (filter (\<lambda>row. map_of row ''ts'' \<noteq> None) panel)" using assms by simp
  moreover have "engine_timestamp (base_env (re_senv env)) (row_get row ''ts'') = Inl e" using assms by (simp add: row_get_def)
  ultimately obtain e' where "panel_timestamps (base_env (re_senv env)) panel = Inl e'"
    unfolding panel_timestamps_def using mapE_fails [where f = "\<lambda>row. engine_timestamp (base_env (re_senv env)) (row_get row ''ts'')"] by metis
  then show ?thesis by (simp add: write_failure_artifacts_def)
qed

text \<open>C26: A panel with a timestamp that cannot be read leaves no report of a failed run: the simulation raises, and the handler,
  which reads the timestamps of the panel once more for the window of its report, raises again, so the exception
  leaves the function, for every configuration of the reference lane, specification, frame and parameters.\<close>

theorem unreadable_timestamp_leaves_no_report:
  assumes "row \<in> set panel" "map_of row ''ts'' = Some v" "engine_timestamp (base_env (re_senv env)) v = Inl e" "rn_lane c = VECTORIZED"
  shows "\<exists>e'. run_vectorized_backtest env c spec panel frame params = Inl e'"
proof -
  have "\<exists>e'. report_run env c spec params panel h run_id dir given (vectorized_run (re_fast env) (re_senv env) c spec frame panel run_id) = Inl e'"
    for h run_id dir given
  proof -
    obtain e' where "vectorized_run (re_fast env) (re_senv env) c spec frame panel run_id = Inl e'"
      using vectorized_unreadable assms by blast
    then show ?thesis using failure_unreadable [OF assms(1,2,3)] by (simp add: report_run_def)
  qed
  then show ?thesis
    by (auto simp: run_vectorized_backtest_def bindE_def split: sum.splits)
qed
section \<open>Every other exception is reported\<close>

text \<open>
  What a report needs: a validated configuration, the texts and digests that the manifest demands and the
  configuration does not, a cost model, digests of the specification and the parameters, and no
  claimed speedup.
\<close>

definition reportable :: "run_env \<Rightarrow> run_config \<Rightarrow> strategy_spec \<Rightarrow> (string \<times> json) list \<Rightarrow> bool" where
  "reportable env c spec params \<longleftrightarrow> validate_run_config c = Inr c \<and> rn_experiment c \<noteq> [] \<and> rn_agent c \<noteq> [] \<and> rn_universe_mode c \<noteq> []
     \<and> rn_venue_scope c \<noteq> [] \<and> rn_lockbox_policy c \<noteq> [] \<and> rn_cost_model_id c \<noteq> [] \<and> rn_validation_policy c \<noteq> []
     \<and> (if rn_git_sha c = ''unknown'' then re_git env \<noteq> [] else rn_git_sha c \<noteq> []) \<and> is_digest (re_platform env)
     \<and> sp_id spec \<noteq> [] \<and> sp_version spec \<noteq> [] \<and> si_timeframe (sp_inputs spec) \<noteq> []
     \<and> (\<exists>h. strategy_spec_hash spec = Inr h) \<and> (\<exists>h. params_hash params = Inr h)
     \<and> (\<exists>cost h. effective_cost_model c = Inr cost \<and> f_gt (cc_notional cost) (Fin 0) \<and> cost_model_hash cost = Inr h)
     \<and> \<not> rn_speedup_claimed c \<and> (\<forall>s. \<forall>(k, v) \<in> set (re_timings env s). \<not> f_lt v (Fin 0))"

lemma reportable_config:
  assumes "reportable env c spec params"
  shows "\<forall>(ok, n) \<in> set (run_config_fields c). ok" "map_option to_utc (rn_lockbox_start c) = rn_lockbox_start c"
    "map_option to_utc (rn_lockbox_end c) = rn_lockbox_end c" "list_all (\<lambda>(k, v). \<not> f_lt v (Fin 0)) (rn_benchmarks c)"
proof -
  have v: "validate_run_config c = Inr c" using assms by (simp add: reportable_def)
  then show "\<forall>(ok, n) \<in> set (run_config_fields c). ok" by (auto simp: validate_run_config_def validate_model_Inr_iff)
  have n: "normalise_run_config c = c" using v by (auto simp: validate_run_config_def validate_model_Inr_iff)
  have "rn_lockbox_start (normalise_run_config c) = map_option to_utc (rn_lockbox_start c)"
    "rn_lockbox_end (normalise_run_config c) = map_option to_utc (rn_lockbox_end c)" by (simp_all add: normalise_run_config_def)
  then show "map_option to_utc (rn_lockbox_start c) = rn_lockbox_start c" "map_option to_utc (rn_lockbox_end c) = rn_lockbox_end c"
    unfolding n by simp_all
  have "\<not> list_ex (\<lambda>(k, v). f_lt v (Fin 0)) (rn_benchmarks c)"
    using v by (simp add: validate_run_config_def validate_model_Inr_iff benchmark_entries_def)
  then show "list_all (\<lambda>(k, v). \<not> f_lt v (Fin 0)) (rn_benchmarks c)" by (auto simp: list_all_iff list_ex_iff)
qed

definition artifact_names :: "artifact_mode \<Rightarrow> string list" where
  "artifact_names mode = [''strategy_spec'', ''params'', ''data_manifest'', ''validation_manifest'', ''cost_manifest'', ''metrics'', ''replay_manifest'']
     @ (if mode \<in> {FULL, SUMMARY} then [''equity_curve'', ''daily_returns'', ''per_instrument_metrics'', ''fold_metrics'', ''cost_stress''] else [])
     @ (if mode = FULL then [''trades'', ''positions''] else []) @ [''log'']"

lemma artifact_names_cover:
  "list_all (\<lambda>mode. list_all (\<lambda>a. a \<in> set (artifact_names mode)) (required_artifacts mode)) [FULL, SUMMARY, METRICS_ONLY]
     \<and> list_all (\<lambda>a. a \<in> set (artifact_names FULL)) FULL_ARTIFACTS"
  by code_simp

lemma artifacts_required:
  assumes "common_artifacts env c run_id spec params n h val cost metrics sim log_lines = Inr as"
  shows "map fst as = artifact_names (rn_artifact_mode c)" "set (required_artifacts (rn_artifact_mode c)) \<subseteq> fst ` set as"
    "rn_artifact_mode c = FULL \<Longrightarrow> set FULL_ARTIFACTS \<subseteq> fst ` set as"
    "\<exists>a. map_of as ''replay_manifest'' = Some a \<and> is_digest (af_sha a)"
proof -
  show names: "map fst as = artifact_names (rn_artifact_mode c)"
    using assms by (auto simp: common_artifacts_def bindE_Inr_iff artifact_names_def json_ref_def table_ref_def log_ref_def
        summary_tables_def full_tables_def)
  have keys: "fst ` set as = set (artifact_names (rn_artifact_mode c))" by (simp flip: names)
  show "set (required_artifacts (rn_artifact_mode c)) \<subseteq> fst ` set as"
    using artifact_names_cover unfolding keys by (cases "rn_artifact_mode c") (simp_all only: list_all_iff list.set insert_iff, auto)
  show "rn_artifact_mode c = FULL \<Longrightarrow> set FULL_ARTIFACTS \<subseteq> fst ` set as"
    using artifact_names_cover unfolding keys by (simp only: list_all_iff) blast
  show "\<exists>a. map_of as ''replay_manifest'' = Some a \<and> is_digest (af_sha a)"
    using assms by (auto simp: common_artifacts_def bindE_Inr_iff json_ref_def is_digest_def)
qed

lemma observations_nonneg:
  assumes "list_all (\<lambda>(k, v). \<not> f_lt v (Fin 0)) given" "\<forall>(k, v) \<in> set (re_timings env s). \<not> f_lt v (Fin 0)"
  shows "\<not> list_ex (\<lambda>(k, v). f_lt v (Fin 0)) (observations env c given s)"
proof -
  let ?kvs = "given @ (if rn_benchmark_enabled c then re_timings env s else [])"
  have kvs: "\<forall>(k, v) \<in> set ?kvs. \<not> f_lt v (Fin 0)" using assms by (auto simp: list_all_iff)
  have "\<not> f_lt v (Fin 0)" if "(k, v) \<in> set (dict_of ?kvs)" for k v
  proof -
    have "map_of (dict_of ?kvs) k = Some v" by (rule map_of_is_SomeI [OF distinct_dict_of that])
    then have "(k, v) \<in> set (rev ?kvs)" unfolding map_of_dict_of by (rule map_of_SomeD)
    then show ?thesis using kvs by auto
  qed
  then show ?thesis by (auto simp: observations_def list_ex_iff)
qed

lemma price_basis_text: "price_basis_value b \<noteq> []"
  by (cases b) simp_all

lemma manifest_valid:
  assumes "reportable env c spec params" "run_id \<noteq> []" "0 \<le> cx_instruments context" "cx_start context < cx_end context"
    "set (required_artifacts (rn_artifact_mode c)) \<subseteq> fst ` set as" "\<exists>a. map_of as ''replay_manifest'' = Some a \<and> is_digest (af_sha a)"
    "effective_cost_model c = Inr cost" "is_digest sh" "is_digest ph" "is_digest ch"
    "status = RUN_FAILED \<longrightarrow> text_given reason" "status = RUN_SUCCEEDED \<longrightarrow> metrics \<noteq> None" "\<not> list_ex (\<lambda>(k, v). f_lt v (Fin 0)) obs"
  shows "validate_manifest (manifest_of env (c\<lparr>rn_lane := lane\<rparr>) spec sh ph run_id cost ch status context metrics as obs reason)
    = Inr (manifest_of env (c\<lparr>rn_lane := lane\<rparr>) spec sh ph run_id cost ch status context metrics as obs reason)"
proof -
  note c = reportable_config [OF assms(1)]
  let ?m = "manifest_of env (c\<lparr>rn_lane := lane\<rparr>) spec sh ph run_id cost ch status context metrics as obs reason"
  have miss: "missing_artifacts ?m = []"
  proof -
    have "filter (\<lambda>a. a \<notin> fst ` set as) (required_artifacts (rn_artifact_mode c)) = []" using assms(5) by (auto simp: filter_empty_conv)
    then show ?thesis by (simp add: missing_artifacts_def manifest_of_def sorted_by_def)
  qed
  have env: "text_given (rn_environment_hash c) \<Longrightarrow> is_digest (the (rn_environment_hash c))"
    using c(1) by (cases "rn_environment_hash c") (auto simp: run_config_fields_def)
  have texts: "\<forall>(s, f) \<in> set (manifest_texts ?m). s \<noteq> []"
    using assms(1,2) c(1) price_basis_text
    by (simp add: manifest_texts_def manifest_of_def reportable_def run_config_fields_def split: if_splits)
  have digests: "\<forall>(s, f) \<in> set (manifest_digests ?m). is_digest s"
    using assms(1,8,9,10) c(1) env by (simp add: manifest_digests_def manifest_of_def reportable_def run_config_fields_def)
  have notional: "f_gt (cc_notional cost) (Fin 0)" using assms(1,7) by (auto simp: reportable_def)
  have months: "0 \<le> usable_months st en" for st en by (simp add: usable_months_def split: prod.splits)
  have fields: "\<forall>(ok, n) \<in> set (manifest_fields ?m). ok"
    using texts digests c(1) notional months assms(3,6)
    by (auto simp: manifest_fields_def manifest_of_def run_config_fields_def)
  have checks: "rm_speedup_claimed ?m = False" "rm_flags ?m = default_flags" "rm_benchmarks ?m = obs" "rm_failure ?m = reason"
    "rm_metrics ?m = metrics" "rm_status ?m = status" "rm_start ?m = cx_start context" "rm_end ?m = cx_end context"
    "rm_lockbox_start ?m = rn_lockbox_start c" "rm_lockbox_end ?m = rn_lockbox_end c"
    using assms(1) by (simp_all add: manifest_of_def reportable_def)
  have "?m\<lparr>rm_lockbox_start := map_option to_utc (rm_lockbox_start ?m), rm_lockbox_end := map_option to_utc (rm_lockbox_end ?m)\<rparr> = ?m"
    unfolding checks c(2,3) by (simp add: manifest_of_def)
  moreover have "status = RUN_FAILED \<longrightarrow> \<not> (case reason of None \<Rightarrow> True | Some s \<Rightarrow> s = [])" using assms(11) by (cases reason) auto
  ultimately show ?thesis using fields assms(4,12,13) boundary_entry_clear [of "''run manifest''"]
    unfolding validate_manifest_def validate_model_Inr_iff benchmark_entries_def checks miss by auto
qed

lemma failure_cost_manifest:
  assumes "effective_cost_model c = Inr cost" "cost_model_hash cost = Inr ch"
  shows "\<exists>m. run_cost_manifest c [] None = Inr m"
  using assms by (simp add: run_cost_manifest_def build_cost_manifest_def rows_by_scenario_def net_return_of_def dict_of_def)

lemma failure_artifacts:
  assumes "reportable env c spec params"
  shows "\<exists>as. common_artifacts env c run_id spec params n h val cost metrics sim log_lines = Inr as"
  using assms by (auto simp: common_artifacts_def replay_manifest_json_def effective_cost_hash_def reportable_def)

lemma failed_window_ok:
  assumes "ts \<noteq> []" "\<forall>t \<in> set ts. valid_instant (t + 3600000000)"
  shows "\<exists>lo hi. failed_window ts = Inr (lo, hi) \<and> lo < hi"
proof -
  have "Min (set ts) \<in> set ts" using assms(1) by simp
  then have "valid_instant (Min (set ts) + 3600000000)" using assms(2) by blast
  then show ?thesis by (auto simp: failed_window_def Let_def add_us_def)
qed

lemma context_ok:
  assumes "reportable env c spec params" "run_id \<noteq> []" "lo < hi" "0 \<le> n"
  shows "validate_context (run_context_of c (si_timeframe (sp_inputs spec)) run_id n lo hi)
    = Inr (run_context_of c (si_timeframe (sp_inputs spec)) run_id n lo hi)"
proof -
  note c = reportable_config [OF assms(1)]
  have r: "(run_context_of c tf run_id n lo hi)\<lparr>cx_lockbox_start := rn_lockbox_start c, cx_lockbox_end := rn_lockbox_end c\<rparr>
      = run_context_of c tf run_id n lo hi" for tf
    by (simp add: run_context_of_def)
  show ?thesis
    using assms c(1) boundary_entry_clear [of "''strategy context''"] unfolding validate_context_def validate_model_Inr_iff
    by (simp add: run_context_of_def reportable_def run_config_fields_def c(2,3))
qed

text \<open>The report of a failed run exists whenever the timestamps of the panel can be read.\<close>

lemma failure_reported:
  assumes r: "reportable env c spec params" and id: "run_id \<noteq> []" and reason: "reason \<noteq> []" and lane: "rn_lane c = lane"
    and ts: "panel_timestamps (base_env (re_senv env)) panel = Inr ts"
    and hour: "\<forall>t \<in> set (if ts = [] then [re_now env] else ts). valid_instant (t + 3600000000)"
    and given: "list_all (\<lambda>(k, v). \<not> f_lt v (Fin 0)) given"
  shows "\<exists>m. write_failure_artifacts env c spec params panel h run_id dir lane reason given = Inr \<lparr>rr_dir = dir, rr_manifest = m, rr_metrics = None\<rparr>
    \<and> rm_status m = RUN_FAILED \<and> rm_failure m = Some reason \<and> rm_metrics m = None \<and> rm_run_id m = run_id \<and> rm_lane m = lane
    \<and> set (required_artifacts (rn_artifact_mode c)) \<subseteq> fst ` set (rm_artifacts m)"
proof -
  obtain sh ph cost ch where h: "strategy_spec_hash spec = Inr sh" "params_hash params = Inr ph" "effective_cost_model c = Inr cost"
    "cost_model_hash cost = Inr ch" using r by (auto simp: reportable_def)
  have digests: "is_digest sh" "is_digest ph" "is_digest ch"
    using h(1,2,4) canonical_json_hash_length unfolding is_digest_def strategy_spec_hash_def params_hash_def cost_model_hash_def by blast+
  obtain cm where cm: "run_cost_manifest c [] None = Inr cm" using failure_cost_manifest h(3,4) by blast
  obtain as where as: "common_artifacts env c run_id spec params (int (length panel)) h (validation_manifest_json c RUN_FAILED (Some reason)) cm
      (failed_metrics_json run_id reason) None (failure_log lane run_id reason) = Inr as" using failure_artifacts [OF r] by blast
  let ?ts = "if ts = [] then [re_now env] else ts" and ?n = "int (length (if panel = [] then [''unknown''] else panel_instruments panel))"
  have "?ts \<noteq> []" by simp
  then obtain lo hi where w: "failed_window ?ts = Inr (lo, hi)" "lo < hi" using failed_window_ok [OF _ hour] by blast
  let ?cx = "run_context_of c (si_timeframe (sp_inputs spec)) run_id ?n lo hi"
  have cx: "validate_context ?cx = Inr ?cx" using context_ok [OF r id w(2)] by simp
  let ?m = "manifest_of env c spec sh ph run_id cost ch RUN_FAILED ?cx None as (observations env c given RUN_FAILED) (Some reason)"
  have "c\<lparr>rn_lane := lane\<rparr> = c" using lane by auto
  moreover have "validate_manifest (manifest_of env (c\<lparr>rn_lane := lane\<rparr>) spec sh ph run_id cost ch RUN_FAILED ?cx None as (observations env c given RUN_FAILED) (Some reason))
      = Inr (manifest_of env (c\<lparr>rn_lane := lane\<rparr>) spec sh ph run_id cost ch RUN_FAILED ?cx None as (observations env c given RUN_FAILED) (Some reason))"
    by (rule manifest_valid [OF r id]) (use w(2) reason artifacts_required [OF as] h(3) digests observations_nonneg [OF given] r in
        \<open>simp_all add: run_context_of_def reportable_def\<close>)
  ultimately have m: "build_manifest env (c\<lparr>rn_lane := lane\<rparr>) spec params run_id RUN_FAILED ?cx None as (observations env c given RUN_FAILED) (Some reason) = Inr ?m"
    using h by (simp add: build_manifest_def)
  have "write_failure_artifacts env c spec params panel h run_id dir lane reason given = Inr \<lparr>rr_dir = dir, rr_manifest = ?m, rr_metrics = None\<rparr>"
    using ts cm as w(1) cx m by (simp add: write_failure_artifacts_def Let_def del: if_split)
  then show ?thesis using artifacts_required(2) [OF as] lane by (intro exI [of _ ?m]) (simp add: manifest_of_def)
qed

lemma run_dir_safe: "run_dir cwd out_root run_id = Inr d \<Longrightarrow> run_id \<noteq> []"
  by (auto simp: run_dir_def safe_run_id_def split: if_splits)

lemma build_manifest_fields:
  assumes "build_manifest env c spec params run_id status context metrics as obs reason = Inr m"
  shows "rm_status m = status" "rm_failure m = reason" "rm_metrics m = metrics" "rm_run_id m = run_id" "rm_lane m = rn_lane c"
    "rm_artifacts m = as" "rm_artifact_mode m = rn_artifact_mode c"
  using assms by (auto simp: build_manifest_def bindE_Inr_iff validate_manifest_def validate_model_Inr_iff manifest_of_def)

lemma written_run:
  assumes "write_run_artifacts env c spec params n h run_id dir sim = Inr r"
  shows "rr_dir r = dir \<and> rr_metrics r = Some (si_metrics sim) \<and> rm_metrics (rr_manifest r) = Some (si_metrics sim) \<and> rm_failure (rr_manifest r) = None
    \<and> rm_status (rr_manifest r) = RUN_SUCCEEDED \<and> rm_run_id (rr_manifest r) = run_id
    \<and> set (required_artifacts (rn_artifact_mode c)) \<subseteq> fst ` set (rm_artifacts (rr_manifest r))"
  using assms by (auto simp: write_run_artifacts_def bindE_Inr_iff build_manifest_fields dest!: artifacts_required(2))

end
