(* ===== verification/ReplayProps.thy ===== *)
theory ReplayProps
  imports RunArtifactsProps
begin

text \<open>
  Runs and their replays together: a run does the same under another run id and artifact mode, so the plan
  that \<open>fast_lane.py\<close> builds for a light run, carried out by \<open>engine.py\<close>, passes the verification of
  \<open>fast_lane.py\<close>.
\<close>

section \<open>Replaying a light run\<close>

text \<open>The same simulation under another run id.\<close>

definition retag :: "string \<Rightarrow> simulation \<Rightarrow> simulation" where
  "retag run_id s = s\<lparr>si_metrics := (si_metrics s)\<lparr>mt_run_id := run_id\<rparr>, si_context := (si_context s)\<lparr>cx_run_id := run_id\<rparr>\<rparr>"

lemma retag_simps [simp]:
  "si_curve (retag i s) = si_curve s" "si_stress (retag i s) = si_stress s" "si_spreads (retag i s) = si_spreads s"
  "si_metrics (retag i s) = (si_metrics s)\<lparr>mt_run_id := i\<rparr>" "si_context (retag i s) = (si_context s)\<lparr>cx_run_id := i\<rparr>"
  "(retag i s)\<lparr>si_stress := x\<rparr> = retag i (s\<lparr>si_stress := x\<rparr>)"
  by (simp_all add: retag_def)

definition full_config :: "run_config \<Rightarrow> string \<Rightarrow> run_config" where
  "full_config c run_id = c\<lparr>rn_run_id := Some run_id, rn_artifact_mode := FULL\<rparr>"

lemma full_config_simps [simp]:
  "effective_cost_model (full_config c i) = effective_cost_model c" "rn_missing_policy (full_config c i) = rn_missing_policy c"
  "rn_equity (full_config c i) = rn_equity c" "rn_scenarios (full_config c i) = rn_scenarios c" "rn_lane (full_config c i) = rn_lane c"
  "rn_require_net (full_config c i) = rn_require_net c" "rn_artifact_mode (full_config c i) = FULL" "rn_run_id (full_config c i) = Some i"
  "rn_output_root (full_config c i) = rn_output_root c"
  by (simp_all add: full_config_def effective_cost_model_def split: option.splits)

lemma validate_metrics_retag:
  "validate_metrics m = Inr m' \<Longrightarrow> i \<noteq> [] \<Longrightarrow> validate_metrics (m\<lparr>mt_run_id := i\<rparr>) = Inr (m'\<lparr>mt_run_id := i\<rparr>)"
  by (auto simp: validate_metrics_def validate_model_Inr_iff)

lemma validate_context_retag:
  "validate_context x = Inr x' \<Longrightarrow> i \<noteq> [] \<Longrightarrow> validate_context (x\<lparr>cx_run_id := i\<rparr>) = Inr (x'\<lparr>cx_run_id := i\<rparr>)"
  by (auto simp: validate_context_def validate_model_Inr_iff)

lemma simulate_retag:
  assumes "simulate_vectorized env c spec f panel rid scen = Inr sim" "i \<noteq> []"
  shows "simulate_vectorized env (full_config c i) spec f panel i scen = Inr (retag i sim)"
proof -
  have m: "run_metrics_of i e st = (run_metrics_of rid e st)\<lparr>mt_run_id := i\<rparr>" for e st
    by (simp add: run_metrics_of_def Let_def)
  have x: "run_context_of (full_config c i) tf i n st en = (run_context_of c tf rid n st en)\<lparr>cx_run_id := i\<rparr>" for tf n st en
    by (simp add: run_context_of_def full_config_def)
  from assms(1) obtain cost rows st where p: "effective_cost_model c = Inr cost" "engine_rows env panel = Inr rows"
    "enforce_common_clock rows (instruments_of_rows rows) (rn_missing_policy c) = Inr ()"
    "run_bars \<lparr>in_env = env, in_basis = ec_basis (sp_execution spec), in_cost = cost, in_scenario = scen, in_rows = rows, in_signals = sf_rows f\<rparr>
      (instruments_of_rows rows) (timestamps_of rows) (rn_equity c) = Inr st"
    "finish_simulation env c spec rid (instruments_of_rows rows) (timestamps_of rows) st = Inr sim"
    by (auto simp: simulate_vectorized_def bindE_Inr_iff Let_def)
  have "finish_simulation env (full_config c i) spec i (instruments_of_rows rows) (timestamps_of rows) st = Inr (retag i sim)"
    using p(5) validate_metrics_retag [OF _ assms(2)] validate_context_retag [OF _ assms(2)]
    by (auto simp: finish_simulation_def bindE_Inr_iff m x retag_def)
  then show ?thesis using p(1-4) by (simp add: simulate_vectorized_def)
qed

lemma stress_retag:
  assumes "stress_metrics_from_base base curve scen = Inr m" "i \<noteq> []"
  shows "stress_metrics_from_base (base\<lparr>mt_run_id := i\<rparr>) curve scen = Inr (m\<lparr>mt_run_id := i\<rparr>)"
proof -
  have init: "stress_initial_equity (base\<lparr>mt_run_id := i\<rparr>) = stress_initial_equity base" by (simp add: stress_initial_equity_def)
  from assms(1) obtain e where e: "stress_initial_equity base = Inr e" by (auto simp: stress_metrics_from_base_def bindE_Inr_iff)
  obtain g n where gn: "stress_equity (scenario_multiplier scen) e curve = (g, n)" by fastforce
  from assms(1) e gn have v: "validate_metrics (base\<lparr>mt_schema := V2_SCHEMA_VERSION, mt_status := RUN_SUCCEEDED, mt_gross_return := f_sub g e,
      mt_net_return := f_sub n e, mt_gross_equity := g, mt_net_equity := n, mt_fee := f_mul (mt_fee base) (scenario_multiplier scen),
      mt_spread := f_mul (mt_spread base) (scenario_multiplier scen), mt_slippage := f_mul (mt_slippage base) (scenario_multiplier scen),
      mt_impact := f_mul (mt_impact base) (scenario_multiplier scen), mt_transaction := f_mul (mt_transaction base) (scenario_multiplier scen),
      mt_gross_only := False, mt_flags := default_flags\<rparr>) = Inr m" by (simp add: stress_metrics_from_base_def Let_def)
  from validate_metrics_retag [OF v assms(2)] show ?thesis
    unfolding stress_metrics_from_base_def init e by (cases base) (simp add: gn Let_def)
qed

lemma stress_row_retag: "stress_row_of cost h scen (b\<lparr>mt_run_id := i\<rparr>) (m\<lparr>mt_run_id := i\<rparr>) = stress_row_of cost h scen b m"
  by (simp add: stress_row_of_def cost_fragile_def)

lemma scenario_retag:
  assumes "scenario_metrics base curve scen = Inr m" "i \<noteq> []"
  shows "scenario_metrics (base\<lparr>mt_run_id := i\<rparr>) curve scen = Inr (m\<lparr>mt_run_id := i\<rparr>)"
  using assms stress_retag by (auto simp: scenario_metrics_def split: if_splits)

lemma mapE_image:
  assumes "mapE f xs = Inr ys" "\<And>x y. f x = Inr y \<Longrightarrow> g x = Inr (k y)"
  shows "mapE g xs = Inr (map k ys)"
  using assms by (induction xs arbitrary: ys) (auto simp: bindE_Inr_iff)

lemma mapE_map_compose: "mapE f (map g xs) = mapE (\<lambda>x. f (g x)) xs"
  by (induction xs) auto

lemma cost_stress_retag:
  assumes "cost_stress_rows c base curve = Inr rows" "i \<noteq> []"
  shows "cost_stress_rows (full_config c i) (base\<lparr>mt_run_id := i\<rparr>) curve = Inr rows"
proof -
  let ?f = "\<lambda>b scen. bindE (scenario_metrics b curve scen) (\<lambda>m. Inr (scen, m))" and ?k = "\<lambda>(scen, m). (scen, m\<lparr>mt_run_id := i\<rparr>)"
  let ?r = "\<lambda>cost b (scen, m). bindE (cost_model_hash cost) (\<lambda>h. Inr (stress_row_of cost h scen b m))"
  from assms(1) obtain cost ms where p: "effective_cost_model c = Inr cost" "mapE (?f base) (rn_scenarios c) = Inr ms" "mapE (?r cost base) ms = Inr rows"
    by (auto simp: cost_stress_rows_def bindE_Inr_iff)
  have "mapE (?f (base\<lparr>mt_run_id := i\<rparr>)) (rn_scenarios c) = Inr (map ?k ms)"
    by (rule mapE_image [OF p(2)]) (auto simp: bindE_Inr_iff dest: scenario_retag [OF _ assms(2)])
  moreover have "?r cost (base\<lparr>mt_run_id := i\<rparr>) (?k sm) = ?r cost base sm" for sm
    by (cases sm) (simp add: stress_row_retag)
  then have "mapE (?r cost (base\<lparr>mt_run_id := i\<rparr>)) (map ?k ms) = Inr rows" using p(3) by (simp add: mapE_map_compose)
  ultimately show ?thesis using p(1) by (simp add: cost_stress_rows_def)
qed

lemma vectorized_retag:
  assumes "vectorized_run fast env c spec frame panel rid = Inr sim" "rn_lane c = VECTORIZED" "i \<noteq> []"
  shows "vectorized_run fast env (full_config c i) spec frame panel i = Inr (retag i sim)"
proof -
  from assms(1,2) obtain f s where p: "rn_require_net c" "(case frame of Some f \<Rightarrow> Inr f | None \<Rightarrow> compile_signal_frame env spec panel) = Inr f"
    "simulate_vectorized (base_env env) c spec f panel rid BASE = Inr s" "with_stress c s = Inr sim"
    by (auto simp: vectorized_run_def bindE_Inr_iff)
  from p(4) obtain rows where r: "cost_stress_rows c (si_metrics s) (si_curve s) = Inr rows" "sim = s\<lparr>si_stress := rows\<rparr>"
    by (auto simp: with_stress_def bindE_Inr_iff)
  have "with_stress (full_config c i) (retag i s) = Inr (retag i sim)"
    using cost_stress_retag [OF r(1) assms(3)] r(2) by (simp add: with_stress_def)
  then show ?thesis using p(1,2) simulate_retag [OF p(3) assms(3)] assms(2) by (simp add: vectorized_run_def)
qed

section \<open>What the replay writes\<close>

lemma full_config_rest [simp]:
  "rn_experiment (full_config c i) = rn_experiment c" "rn_agent (full_config c i) = rn_agent c" "rn_universe_mode (full_config c i) = rn_universe_mode c"
  "rn_venue_scope (full_config c i) = rn_venue_scope c" "rn_lockbox_policy (full_config c i) = rn_lockbox_policy c"
  "rn_cost_model_id (full_config c i) = rn_cost_model_id c" "rn_validation_policy (full_config c i) = rn_validation_policy c"
  "rn_git_sha (full_config c i) = rn_git_sha c" "rn_speedup_claimed (full_config c i) = rn_speedup_claimed c"
  "rn_cost_model (full_config c i) = rn_cost_model c" "rn_benchmarks (full_config c i) = rn_benchmarks c"
  "run_config_fields (full_config c i) = run_config_fields c" "normalise_run_config (full_config c i) = full_config (normalise_run_config c) i"
  by (simp_all add: full_config_def run_config_fields_def normalise_run_config_def)

lemma reportable_full:
  assumes "reportable env c spec params"
  shows "reportable env (full_config c i) spec params"
proof -
  have "validate_run_config c = Inr c" using assms by (simp add: reportable_def)
  then have "validate_run_config (full_config c i) = Inr (full_config c i)"
    by (auto simp: validate_run_config_def validate_model_Inr_iff split: option.splits)
  then show ?thesis using assms by (simp add: reportable_def)
qed

lemma join_prefix: "is_prefix_of (join s xs) (join s (xs @ ys))"
proof (induction xs rule: induct_list012)
  case (2 x)
  then show ?case by (cases ys) (simp_all add: is_prefix_of_def)
next
  case (3 x y zs)
  then show ?case by (simp add: is_prefix_of_def)
qed (simp add: is_prefix_of_def)

lemma run_dir_named:
  assumes "safe_run_id i" "i \<noteq> ''.''" "i \<noteq> ''..''"
  shows "run_dir cwd out_root i = Inr (resolved_root cwd out_root @ [i])"
proof -
  have "''..'' \<notin> set (resolved_root cwd out_root)" unfolding resolved_root_def by (rule drop_dots_no_dots) simp
  then have "drop_dots [] (resolved_root cwd out_root @ [i]) = resolved_root cwd out_root @ [i]"
    using assms(3) drop_dots_plain [of "resolved_root cwd out_root @ [i]" "[]"] by (auto simp: list_all_iff)
  then show ?thesis
    using assms join_prefix [of "''/''" "resolved_root cwd out_root" "[i]"]
    by (simp add: run_dir_def parse_safe_run_id is_prefix_of_def)
qed

text \<open>The run id of a plan, and the directory of its replay.\<close>

lemma planned_run:
  assumes "build_full_artifact_replay_plan m ref reason = Inr plan"
  shows "yp_planned plan = rm_run_id m @ ''-full-artifacts''" "rm_artifact_mode m \<noteq> FULL"
  using assms by (auto simp: build_full_artifact_replay_plan_def Let_def bindE_Inr_iff validate_replay_plan_def validate_model_Inr_iff
      plan_of_replay_def split: if_splits option.splits)

lemma planned_dir:
  assumes "run_dir cwd out_root i = Inr d"
  shows "\<exists>d. run_dir cwd out_root (i @ ''-full-artifacts'') = Inr d"
proof -
  have "safe_run_id i" using assms by (auto simp: run_dir_def split: if_splits)
  then have "safe_run_id (i @ ''-full-artifacts'')" by (auto simp: safe_run_id_def safe_run_char_def)
  then show ?thesis using run_dir_named by (cases i) auto
qed

text \<open>A succeeded report was written from a simulation.\<close>

lemma failure_status:
  "write_failure_artifacts env c spec params panel h i d lane reason given = Inr r \<Longrightarrow> rm_status (rr_manifest r) = RUN_FAILED"
  by (auto simp: write_failure_artifacts_def bindE_Inr_iff Let_def build_manifest_fields split: prod.splits)

lemma succeeded_run:
  assumes "run_vectorized_backtest env c spec panel frame params = Inr a" "rm_status (rr_manifest a) = RUN_SUCCEEDED"
  obtains h i d sim where "panel_hash panel = Inr h" "run_id_of c spec params h = Inr i" "run_dir (re_cwd env) (rn_output_root c) i = Inr d"
    "vectorized_run (re_fast env) (re_senv env) c spec frame panel i = Inr sim"
    "write_run_artifacts env c spec params (int (length panel)) h i d sim = Inr a"
proof -
  from assms(1) obtain h i d where p: "panel_hash panel = Inr h" "run_id_of c spec params h = Inr i" "run_dir (re_cwd env) (rn_output_root c) i = Inr d"
    and r: "report_run env c spec params panel h i d (rn_benchmarks c) (vectorized_run (re_fast env) (re_senv env) c spec frame panel i) = Inr a"
    by (auto simp: run_vectorized_backtest_def bindE_Inr_iff)
  let ?sim = "bindE (vectorized_run (re_fast env) (re_senv env) c spec frame panel i) (write_run_artifacts env c spec params (int (length panel)) h i d)"
  have "?sim = Inr a"
  proof (cases ?sim)
    case (Inl e)
    then show ?thesis using r assms(2) failure_status [of env c spec params panel h i d _ _ _ a] by (simp add: report_run_def)
  qed (use r in \<open>simp add: report_run_def\<close>)
  then show ?thesis using p that by (auto simp: bindE_Inr_iff)
qed

text \<open>What a written report consists of.\<close>

lemma written_parts:
  assumes "write_run_artifacts env c spec params n h i d sim = Inr r"
  obtains cm as where "run_cost_manifest c (si_stress sim) (Some (si_spreads sim)) = Inr cm"
    "common_artifacts env c i spec params n h (validation_manifest_json c RUN_SUCCEEDED None) cm (metrics_json (si_metrics sim)) (Some sim) (success_log c i) = Inr as"
    "build_manifest env c spec params i RUN_SUCCEEDED (si_context sim) (Some (si_metrics sim)) as (observations env c (rn_benchmarks c) RUN_SUCCEEDED) None
      = Inr (rr_manifest r)"
  using assms by (auto simp: write_run_artifacts_def bindE_Inr_iff)

lemma build_manifest_Inr:
  assumes "build_manifest env c spec params i status context metrics as obs reason = Inr m"
  obtains sh ph cost ch where "params_hash params = Inr ph" "strategy_spec_hash spec = Inr sh" "effective_cost_model c = Inr cost" "cost_model_hash cost = Inr ch"
    "cx_start context < cx_end context" "0 \<le> cx_instruments context"
    "\<exists>s e. m = (manifest_of env c spec sh ph i cost ch status context metrics as obs reason)\<lparr>rm_lockbox_start := s, rm_lockbox_end := e\<rparr>
       \<and> s = map_option to_utc (rn_lockbox_start c) \<and> e = map_option to_utc (rn_lockbox_end c)"
proof -
  from assms obtain sh ph cost ch where p: "params_hash params = Inr ph" "strategy_spec_hash spec = Inr sh" "effective_cost_model c = Inr cost"
    "cost_model_hash cost = Inr ch" and v: "validate_manifest (manifest_of env c spec sh ph i cost ch status context metrics as obs reason) = Inr m"
    by (auto simp: build_manifest_def bindE_Inr_iff)
  from v show ?thesis by (intro that [OF p]) (auto simp: validate_manifest_def validate_model_Inr_iff manifest_of_def manifest_fields_def)
qed

text \<open>The report of the replay, and that the two manifests agree on the setup.\<close>

lemma replay_written:
  assumes r: "reportable env c spec params" and w: "write_run_artifacts env c spec params n h i d sim = Inr a" and i': "i' \<noteq> []"
  shows "\<exists>b. write_run_artifacts env (full_config c i') spec params n h i' d' (retag i' sim) = Inr b \<and> rm_status (rr_manifest b) = RUN_SUCCEEDED
    \<and> same_setup (rr_manifest a) (rr_manifest b) \<and> rm_lane (rr_manifest a) = rm_lane (rr_manifest b) \<and> rm_replayable (rr_manifest a)
    \<and> rm_artifact_mode (rr_manifest b) = FULL \<and> set FULL_ARTIFACTS \<subseteq> fst ` set (rm_artifacts (rr_manifest b))
    \<and> rm_metrics (rr_manifest a) = Some (si_metrics sim) \<and> rm_metrics (rr_manifest b) = Some ((si_metrics sim)\<lparr>mt_run_id := i'\<rparr>)
    \<and> rm_run_id (rr_manifest b) = i'
    \<and> (\<forall>s \<in> set_option (rm_replay_hash (rr_manifest a)) \<union> set_option (rm_replay_hash (rr_manifest b)). is_digest s)"
proof -
  let ?c = "full_config c i'" and ?x = "(si_context sim)\<lparr>cx_run_id := i'\<rparr>" and ?m = "(si_metrics sim)\<lparr>mt_run_id := i'\<rparr>"
  note r' = reportable_full [OF r, of i'] and cfg = reportable_config [OF r]
  obtain cm as where w1: "run_cost_manifest c (si_stress sim) (Some (si_spreads sim)) = Inr cm"
    and w2: "common_artifacts env c i spec params n h (validation_manifest_json c RUN_SUCCEEDED None) cm (metrics_json (si_metrics sim)) (Some sim) (success_log c i) = Inr as"
    and w3: "build_manifest env c spec params i RUN_SUCCEEDED (si_context sim) (Some (si_metrics sim)) as (observations env c (rn_benchmarks c) RUN_SUCCEEDED) None
      = Inr (rr_manifest a)" by (rule written_parts [OF w])
  obtain sh ph cost ch where p: "params_hash params = Inr ph" "strategy_spec_hash spec = Inr sh" "effective_cost_model c = Inr cost" "cost_model_hash cost = Inr ch"
    and x: "cx_start (si_context sim) < cx_end (si_context sim)" "0 \<le> cx_instruments (si_context sim)"
    and a: "\<exists>s e. rr_manifest a = (manifest_of env c spec sh ph i cost ch RUN_SUCCEEDED (si_context sim) (Some (si_metrics sim)) as
        (observations env c (rn_benchmarks c) RUN_SUCCEEDED) None)\<lparr>rm_lockbox_start := s, rm_lockbox_end := e\<rparr>
       \<and> s = map_option to_utc (rn_lockbox_start c) \<and> e = map_option to_utc (rn_lockbox_end c)" by (rule build_manifest_Inr [OF w3])
  have digests: "is_digest sh" "is_digest ph" "is_digest ch"
    using p(1,2,4) canonical_json_hash_length unfolding is_digest_def strategy_spec_hash_def params_hash_def cost_model_hash_def by blast+
  have cm: "run_cost_manifest ?c (si_stress sim) (Some (si_spreads sim)) = Inr cm" using w1 by (simp add: run_cost_manifest_def)
  obtain bs where bs: "common_artifacts env ?c i' spec params n h (validation_manifest_json ?c RUN_SUCCEEDED None) cm (metrics_json ?m)
      (Some (retag i' sim)) (success_log ?c i') = Inr bs" using failure_artifacts [OF r'] by blast
  let ?b = "manifest_of env ?c spec sh ph i' cost ch RUN_SUCCEEDED ?x (Some ?m) bs (observations env ?c (rn_benchmarks c) RUN_SUCCEEDED) None"
  have lane: "?c\<lparr>rn_lane := rn_lane c\<rparr> = ?c" by (simp add: full_config_def)
  have obs: "\<not> list_ex (\<lambda>(k, v). f_lt v (Fin 0)) (observations env ?c (rn_benchmarks c) RUN_SUCCEEDED)"
    by (rule observations_nonneg [OF cfg(4)]) (use r in \<open>simp add: reportable_def\<close>)
  have v: "validate_manifest (manifest_of env (?c\<lparr>rn_lane := rn_lane c\<rparr>) spec sh ph i' cost ch RUN_SUCCEEDED ?x (Some ?m) bs (observations env ?c (rn_benchmarks c) RUN_SUCCEEDED) None)
      = Inr (manifest_of env (?c\<lparr>rn_lane := rn_lane c\<rparr>) spec sh ph i' cost ch RUN_SUCCEEDED ?x (Some ?m) bs (observations env ?c (rn_benchmarks c) RUN_SUCCEEDED) None)"
    by (rule manifest_valid [OF r' i' _ _ artifacts_required(2) [OF bs] artifacts_required(4) [OF bs] _ digests]) (use x p(3) obs in simp_all)
  have b: "build_manifest env ?c spec params i' RUN_SUCCEEDED ?x (Some ?m) bs (observations env ?c (rn_benchmarks c) RUN_SUCCEEDED) None = Inr ?b"
    using p v [unfolded lane] by (simp add: build_manifest_def)
  have wb: "write_run_artifacts env ?c spec params n h i' d' (retag i' sim) = Inr \<lparr>rr_dir = d', rr_manifest = ?b, rr_metrics = Some ?m\<rparr>"
    using cm bs b by (simp add: write_run_artifacts_def)
  have share: "unit_share (rn_coverage_min c)" using cfg(1) by (simp add: run_config_fields_def)
  have cover: "f_eq (rn_coverage_min c) (rn_coverage_min c)" using share by (cases "rn_coverage_min c") (auto simp: unit_share_def)
  have same: "same_setup (rr_manifest a) ?b" "rm_lane (rr_manifest a) = rm_lane ?b" "rm_replayable (rr_manifest a)"
    using a cover cfg(2,3) by (auto simp: same_setup_def same_identity_def manifest_of_def full_config_def)
  have rest: "rm_metrics (rr_manifest a) = Some (si_metrics sim)" "rm_replay_hash (rr_manifest a) = map_option af_sha (map_of as ''replay_manifest'')"
    using a by (auto simp: manifest_of_def)
  have bsel: "rm_status ?b = RUN_SUCCEEDED" "rm_artifact_mode ?b = FULL" "rm_artifacts ?b = bs" "rm_metrics ?b = Some ?m" "rm_run_id ?b = i'"
    "rm_replay_hash ?b = map_option af_sha (map_of bs ''replay_manifest'')" by (simp_all add: manifest_of_def)
  have full: "set FULL_ARTIFACTS \<subseteq> fst ` set bs" using artifacts_required(3) [OF bs] by simp
  obtain u v where "map_of as ''replay_manifest'' = Some u" "is_digest (af_sha u)" "map_of bs ''replay_manifest'' = Some v" "is_digest (af_sha v)"
    using artifacts_required(4) [OF w2] artifacts_required(4) [OF bs] by blast
  then show ?thesis using wb same rest bsel full by (intro exI [of _ "\<lparr>rr_dir = d', rr_manifest = ?b, rr_metrics = Some ?m\<rparr>"]) simp
qed

text \<open>The verification of manifests that agree.\<close>

definition metrics_finite :: "run_metrics \<Rightarrow> bool" where
  "metrics_finite m \<longleftrightarrow> (\<forall>(name, get) \<in> set METRIC_FIELDS. \<exists>x. get m = Inr (Fin x))"

lemma replay_metrics:
  assumes "metrics_finite m" "0 \<le> t"
  shows "\<exists>ds. metric_diffs_of (Fin t) m (m\<lparr>mt_run_id := i\<rparr>) = Inr ds \<and> list_all all_finite (map (diff_json (a, b)) ds)"
    "metrics_close (Fin t) m (m\<lparr>mt_run_id := i\<rparr>)"
proof -
  have same: "get (m\<lparr>mt_run_id := i\<rparr>) = get m" if "(name, get) \<in> set METRIC_FIELDS" for name get
    using that by (auto simp: METRIC_FIELDS_def)
  let ?d = "\<lambda>p. diff_of (Fin t) (fst p) (projr (snd p m)) (projr (snd p m))"
  have "mapE (\<lambda>(metric, get). bindE (get m) (\<lambda>x. bindE (get (m\<lparr>mt_run_id := i\<rparr>)) (\<lambda>y. validate_diff (diff_of (Fin t) metric x y)))) METRIC_FIELDS
      = Inr (map ?d METRIC_FIELDS)"
  proof (rule mapE_map [where P = "\<lambda>p. p \<in> set METRIC_FIELDS"])
    fix p assume p: "p \<in> set METRIC_FIELDS"
    obtain name get where n: "p = (name, get)" by (cases p)
    obtain x where x: "get m = Inr (Fin x)" using assms(1) p n by (auto simp: metrics_finite_def)
    have "name \<noteq> []" using p n by (auto simp: METRIC_FIELDS_def)
    then show "(case p of (metric, get) \<Rightarrow> bindE (get m) (\<lambda>x. bindE (get (m\<lparr>mt_run_id := i\<rparr>)) (\<lambda>y. validate_diff (diff_of (Fin t) metric x y)))) = Inr (?d p)"
      using x same [of name get] p n assms(2) by (simp add: validate_diff_def validate_model_def diff_of_def Let_def f_sub_def)
  qed (simp add: list_all_iff)
  moreover have "list_all all_finite (map (diff_json (a, b)) (map ?d METRIC_FIELDS))"
  proof -
    have "all_finite (diff_json (a, b) (?d p))" if "p \<in> set METRIC_FIELDS" for p
      using assms(1) that by (cases p) (fastforce simp: metrics_finite_def diff_json_def diff_of_def Let_def f_sub_def)
    then show ?thesis by (simp add: list_all_iff)
  qed
  ultimately show "\<exists>ds. metric_diffs_of (Fin t) m (m\<lparr>mt_run_id := i\<rparr>) = Inr ds \<and> list_all all_finite (map (diff_json (a, b)) ds)"
    unfolding metric_diffs_of_def by blast
  show "metrics_close (Fin t) m (m\<lparr>mt_run_id := i\<rparr>)"
    unfolding metrics_close_def
  proof clarify
    fix name get assume g: "(name, get) \<in> set METRIC_FIELDS"
    then obtain x where "get m = Inr (Fin x)" using assms(1) by (auto simp: metrics_finite_def)
    then show "\<exists>u v. get m = Inr u \<and> get (m\<lparr>mt_run_id := i\<rparr>) = Inr v \<and> f_le (f_abs (f_sub u v)) (Fin t)"
      using same [OF g] assms(2) by (simp add: f_sub_def)
  qed
qed

lemma agreeing_replay_verifies:
  assumes agree: "same_setup a b" "rm_lane a = rm_lane b" "rm_artifact_mode a \<noteq> FULL" "rm_replayable a" "rm_artifact_mode b = FULL"
      "set FULL_ARTIFACTS \<subseteq> fst ` set (rm_artifacts b)" "payloads_agree (Some p) (Some q)"
    and ids: "rm_run_id a \<noteq> []" "rm_run_id b \<noteq> []" "\<forall>s \<in> set_option (rm_replay_hash a) \<union> set_option (rm_replay_hash b). is_digest s"
    and m: "rm_metrics a = Some m" "rm_metrics b = Some (m\<lparr>mt_run_id := i\<rparr>)" "metrics_finite m" "0 \<le> t"
  shows "\<exists>r. verify_full_artifact_replay a b (Some p) (Some q) (Fin t) = Inr r \<and> yv_status r = REPLAY_PASS"
proof -
  let ?n = "(''source_value'', ''replay_value'')" and ?ps = "both_given (Some p) (Some q)"
  obtain ds where ds: "metric_diffs_of (Fin t) m (m\<lparr>mt_run_id := i\<rparr>) = Inr ds" "list_all all_finite (map (diff_json ?n) ds)"
    and close: "metrics_close (Fin t) m (m\<lparr>mt_run_id := i\<rparr>)" using replay_metrics [OF m(3,4)] by blast
  have d: "replay_diffs (Fin t) a b = Inr ds" using ds(1) m(1,2) by (simp add: replay_diffs_def)
  let ?r = "replay_check_of a b ?ps (Fin t) ds"
  have "all_finite (JObj ([(''schema_version'', JStr V2_SCHEMA_VERSION), (''report_type'', JStr ''full_artifact_replay_verification_v1'')] @ replay_check_payload ?r))"
    using ds(2) texts_finite by (simp add: replay_check_payload_def opt_json_def split: option.splits)
  from canonical_json_hash_finite [OF this] obtain h where h: "canonical_json_hash (JObj ([(''schema_version'', JStr V2_SCHEMA_VERSION),
      (''report_type'', JStr ''full_artifact_replay_verification_v1'')] @ replay_check_payload ?r)) = Inr h" "length h = 64" by blast
  have same: "payload_mismatches ?ps = []" using payload_mismatches_Nil [of "Some p" "Some q"] agree(7) by blast
  have close': "ds \<noteq> []" "list_all md_within ds" using diffs_within [OF ds(1)] close by blast+
  have b: "replay_blockers a b True ds = []" unfolding replay_blockers_Nil using agree m(1,2) close'(2) by simp
  have i: "replay_identity_mismatches a b = []" using agree(1,2) by (simp add: replay_mismatches_Nil)
  have u: "uniq ([] :: string list) = []" by simp
  have hashes: "case rm_replay_hash a of None \<Rightarrow> True | Some h \<Rightarrow> is_digest h" "case rm_replay_hash b of None \<Rightarrow> True | Some h \<Rightarrow> is_digest h"
    using ids(3) by (auto split: option.splits)
  have "validate_replay_check (?r\<lparr>yv_id := h\<rparr>) = Inr (?r\<lparr>yv_id := h\<rparr>)"
    using h(2) same b i close' ids hashes m(4) agree(5,6) boundary_entry_clear [of "''full-artifact replay verification''"]
    unfolding validate_replay_check_def validate_model_Inr_iff by (simp add: is_digest_def missing_full_Nil)
  then have "verify_full_artifact_replay a b (Some p) (Some q) (Fin t) = Inr (?r\<lparr>yv_id := h\<rparr>)"
    using d h(1) m(4) by (simp add: verify_full_artifact_replay_def Let_def)
  then show ?thesis using same b i by simp
qed

lemma replay_payloads_agree:
  assumes "replay_manifest_json c i spec params n h = Inr p" "replay_manifest_json (full_config c i') i' spec params n h = Inr q"
  shows "payloads_agree (Some p) (Some q)"
proof -
  have e: "effective_cost_hash (full_config c i') = effective_cost_hash c" by (simp add: effective_cost_hash_def)
  have s: "rn_archive_snapshot (full_config c i') = rn_archive_snapshot c" "rn_universe_snapshot (full_config c i') = rn_universe_snapshot c"
    "rn_data_manifest (full_config c i') = rn_data_manifest c" "rn_data_hash (full_config c i') = rn_data_hash c"
    "rn_validation_hash (full_config c i') = rn_validation_hash c" "rn_cost_hash (full_config c i') = rn_cost_hash c" by (simp_all add: full_config_def)
  have "py_eq (JStr x) (JStr x)" "py_eq (JInt k) (JInt k)" "py_eq (JBool True) (JBool True)" for x k by (simp_all add: py_eq.simps)
  then show ?thesis using assms unfolding payloads_agree_def
    by (auto simp: replay_manifest_json_def bindE_Inr_iff e s REPLAY_MANIFEST_IDENTITY_FIELDS_def json_get_def)
qed

text \<open>The plan of the replay of a light report.\<close>

lemma join_nonempty: "x \<in> set xs \<Longrightarrow> x \<noteq> [] \<Longrightarrow> join s xs \<noteq> []"
  by (induction xs rule: induct_list012) auto

lemma replay_ref_nonempty: "replay_ref_of ref ''replay_manifest.json'' \<noteq> []"
proof -
  have p: "parse_path ''replay_manifest.json'' = Path False [''replay_manifest.json'']" by code_simp
  have "path_text (path_join (Path a ps) (Path False [x])) \<noteq> []" if "x \<noteq> []" for a ps x
    using that join_nonempty [of x "ps @ [x]"] by simp
  then show ?thesis by (cases ref) (simp_all add: replay_ref_of_def p path_parent.simps del: path_text.simps path_join.simps, metis path.exhaust list.distinct(1))
qed

lemma replay_artifact:
  assumes "common_artifacts env c i spec params n h val cost metrics sim log_lines = Inr as"
  shows "\<exists>a. map_of as ''replay_manifest'' = Some a \<and> af_path a = ''replay_manifest.json'' \<and> is_digest (af_sha a)"
  using assms by (auto simp: common_artifacts_def bindE_Inr_iff json_ref_def is_digest_def)

lemma light_run_planned:
  assumes r: "reportable env c spec params" and w: "write_run_artifacts env c spec params n h i d sim = Inr a"
    and light: "rn_artifact_mode c \<noteq> FULL" and ids: "i \<noteq> []" "reason \<noteq> []"
  shows "\<exists>plan. build_full_artifact_replay_plan (rr_manifest a) ref reason = Inr plan"
proof -
  obtain cm as where w2: "common_artifacts env c i spec params n h (validation_manifest_json c RUN_SUCCEEDED None) cm (metrics_json (si_metrics sim)) (Some sim) (success_log c i) = Inr as"
    and w3: "build_manifest env c spec params i RUN_SUCCEEDED (si_context sim) (Some (si_metrics sim)) as (observations env c (rn_benchmarks c) RUN_SUCCEEDED) None
      = Inr (rr_manifest a)" by (rule written_parts [OF w])
  obtain sh ph cost ch where p: "params_hash params = Inr ph" "strategy_spec_hash spec = Inr sh"
    and a: "\<exists>s e. rr_manifest a = (manifest_of env c spec sh ph i cost ch RUN_SUCCEEDED (si_context sim) (Some (si_metrics sim)) as
        (observations env c (rn_benchmarks c) RUN_SUCCEEDED) None)\<lparr>rm_lockbox_start := s, rm_lockbox_end := e\<rparr>
       \<and> s = map_option to_utc (rn_lockbox_start c) \<and> e = map_option to_utc (rn_lockbox_end c)" by (rule build_manifest_Inr [OF w3])
  have digests: "is_digest sh" "is_digest ph"
    using p canonical_json_hash_length unfolding is_digest_def strategy_spec_hash_def params_hash_def by blast+
  obtain u where u: "map_of as ''replay_manifest'' = Some u" "af_path u = ''replay_manifest.json''" "is_digest (af_sha u)" using replay_artifact [OF w2] by blast
  let ?m = "rr_manifest a" and ?ref = "replay_ref_of ref ''replay_manifest.json''"
  have m: "rm_artifact_mode ?m \<noteq> FULL" "rm_replayable ?m" "rm_artifacts ?m = as" "rm_replay_hash ?m = Some (af_sha u)" "rm_run_id ?m = i"
    "rm_data_manifest ?m \<noteq> []" "is_digest (rm_data_hash ?m)" "rm_strategy_spec_hash ?m = sh" "rm_params_hash ?m = ph"
    using a u light reportable_config(1) [OF r] by (auto simp: manifest_of_def run_config_fields_def)
  let ?p = "plan_of_replay ?m ?ref (af_sha u) reason"
  have "all_finite (JObj ([(''schema_version'', JStr V2_SCHEMA_VERSION), (''plan_type'', JStr ''full_artifact_replay_plan_v1'')] @ replay_payload ?p))"
    by (simp add: replay_payload_def plan_of_replay_def replay_overrides_def Let_def)
  from canonical_json_hash_finite [OF this] obtain k where k: "canonical_json_hash (JObj ([(''schema_version'', JStr V2_SCHEMA_VERSION),
      (''plan_type'', JStr ''full_artifact_replay_plan_v1'')] @ replay_payload ?p)) = Inr k" "length k = 64" by blast
  have "validate_replay_plan (?p\<lparr>yp_id := k\<rparr>) = Inr (?p\<lparr>yp_id := k\<rparr>)"
    using m k(2) ids digests u(3) replay_ref_nonempty [of ref] boundary_entry_clear [of "''full-artifact replay plan''"]
    unfolding validate_replay_plan_def validate_model_Inr_iff by (simp add: plan_of_replay_def Let_def is_digest_def)
  then show ?thesis using m(1-4) u(1,2) k(1) by (simp add: build_full_artifact_replay_plan_def Let_def)
qed

end
