(* ===== verification/EngineSamples.thy ===== *)
theory EngineSamples
  imports EngineProps
begin

text \<open>
  A run of two bars of one instrument, from the panel to the stress rows, on which the properties of the
  engine hold, and on which the stress rows forget the initial equity.
\<close>

section \<open>Doubles that are exact\<close>

lemma fl_dyadic: "\<bar>m\<bar> < 2 ^ 53 \<Longrightarrow> -60 \<le> e \<Longrightarrow> e \<le> 0 \<Longrightarrow> fl (of_int m * pow2 e) = Fin (of_int m * pow2 e)"
proof -
  assume m: "\<bar>m\<bar> < 2 ^ 53" and e: "-60 \<le> e" "e \<le> 0"
  have "\<bar>of_int m * pow2 e\<bar> \<le> \<bar>of_int m\<bar> * 1" unfolding abs_mult using pow2_mono [OF e(2)] by (intro mult_left_mono) simp_all
  then have "\<bar>of_int m * pow2 e\<bar> \<le> pow2 1023" using int_le_pow2 [OF m] by linarith
  then show ?thesis using round53_exact [OF m, of e] e(1) by (simp add: fl_Fin)
qed

lemma fl_numeral: "numeral n < (2 :: int) ^ 53 \<Longrightarrow> fl (numeral n) = Fin (numeral n)"
  using fl_of_int [of "numeral n"] by simp

lemma fl_samples:
  "fl (1 / 32768) = Fin (1 / 32768)" "fl (1 / 16384) = Fin (1 / 16384)" "fl (1 / 2) = Fin (1 / 2)" "fl (3 / 2) = Fin (3 / 2)"
  "fl (- (1 / 2)) = Fin (- (1 / 2))" "fl (1 / 4) = Fin (1 / 4)" "fl (- (1 / 4)) = Fin (- (1 / 4))" "fl (3 / 4) = Fin (3 / 4)" "fl (9 / 4) = Fin (9 / 4)"
  "fl (1 / 8) = Fin (1 / 8)" "fl (- (1 / 8)) = Fin (- (1 / 8))" "fl (5 / 8) = Fin (5 / 8)" "fl (7 / 8) = Fin (7 / 8)" "fl (13 / 8) = Fin (13 / 8)"
  "fl (7 / 4) = Fin (7 / 4)" "fl (13 / 4) = Fin (13 / 4)" "fl (39 / 16) = Fin (39 / 16)" "fl (15 / 16) = Fin (15 / 16)" "fl (5 / 4) = Fin (5 / 4)"
  using fl_dyadic [of 1 "-15"] fl_dyadic [of 1 "-14"] fl_dyadic [of 1 "-1"] fl_dyadic [of 3 "-1"] fl_dyadic [of "-1" "-1"] fl_dyadic [of 1 "-2"]
    fl_dyadic [of "-1" "-2"] fl_dyadic [of 3 "-2"] fl_dyadic [of 9 "-2"] fl_dyadic [of 1 "-3"] fl_dyadic [of "-1" "-3"] fl_dyadic [of 5 "-3"]
    fl_dyadic [of 7 "-3"] fl_dyadic [of 13 "-3"] fl_dyadic [of 7 "-2"] fl_dyadic [of 13 "-2"] fl_dyadic [of 39 "-4"] fl_dyadic [of 15 "-4"] fl_dyadic [of 5 "-2"]
  by (simp_all add: pow2_def)

section \<open>The run\<close>

definition engine_env :: senv where
  "engine_env = sample_senv\<lparr>base_env := \<lparr>fromisoformat = (\<lambda>s. if s = ''0001-01-01T01:00:00+00:00'' then Inr (Aware 3600000000 0) else Inr (Aware 7200000000 0)),
     float_of_text = (\<lambda>s. Inl (ValueError s))\<rparr>\<rparr>"

definition free_cost_config :: cost_config where
  "free_cost_config = default_cost_config\<lparr>cc_fee_bps := Fin 0, cc_spread_bps := Fin 0, cc_slippage_bps := Fin 0, cc_impact_bps := Fin 0,
     cc_notional := Fin 8192, cc_max_participation := Fin (1 / 2)\<rparr>"

definition sample_run_config :: run_config where
  "sample_run_config = \<lparr>rn_schema = V2_SCHEMA_VERSION, rn_run_id = None, rn_experiment = ''e'', rn_trial = 0, rn_agent = ''a'', rn_output_root = ''out'',
     rn_archive_snapshot = ''s'', rn_universe_snapshot = ''u'', rn_data_manifest = ''d'', rn_data_hash = replicate 64 CHR ''a'',
     rn_validation_hash = replicate 64 CHR ''b'', rn_cost_hash = replicate 64 CHR ''c'', rn_validation_policy = ''v'',
     rn_cost_model_id = cc_id free_cost_config, rn_cost_model = Some free_cost_config, rn_lane = VECTORIZED, rn_missing_policy = FAIL_CLOSED,
     rn_equity = Fin 2, rn_fee_bps = Fin 6, rn_spread_bps = Fin 5, rn_spread_policy = ''lenient'', rn_slippage_bps = Fin 3, rn_impact_bps = Fin 1,
     rn_notional = Fin 10000, rn_max_participation = Fin (1 / 2), rn_scenarios = [BASE, STRESS_2X, STRESS_3X], rn_artifact_mode = FULL,
     rn_benchmark_enabled = False, rn_benchmarks = [], rn_fast_lane_policy = ''fast_lane_reference_authority_v1'', rn_reference_authority = True,
     rn_audit_sample_rate = Fin 0, rn_speedup_claimed = False, rn_require_net = True, rn_lockbox_policy = ''l'', rn_lockbox_start = None,
     rn_lockbox_end = None, rn_coverage_min = Fin 1, rn_universe_mode = ''as_of'', rn_venue_scope = ''hyperliquid'', rn_git_sha = ''g'',
     rn_environment_hash = None\<rparr>"

definition engine_bar :: "int \<Rightarrow> rat \<Rightarrow> pyrow" where
  "engine_bar t c = [(''ts'', VTime (Aware t 0)), (''instrument_id'', VStr ''BTC''), (''close'', VFloat (Fin c)), (''volume'', VFloat (Fin 1048576)),
     (''funding'', VFloat (Fin (- (1 / 4))))]"

definition engine_erow :: "int \<Rightarrow> rat \<Rightarrow> erow" where
  "engine_erow t c = \<lparr>er_raw = engine_bar t c, er_ts = t, er_instrument = ''BTC''\<rparr>"

definition engine_panel :: "rat \<Rightarrow> pyrow list" where
  "engine_panel c = [engine_bar 3600000000 128, engine_bar 7200000000 c]"

text \<open>Signals that go long with half the equity at both bars.\<close>

definition long_half :: "signal_row list \<Rightarrow> bool" where
  "long_half xs \<longleftrightarrow> (\<exists>a b. signal_at xs 3600000000 ''BTC'' = Some a \<and> signal_at xs 7200000000 ''BTC'' = Some b \<and>
     sr_weight a = Fin (1 / 2) \<and> sr_weight b = Fin (1 / 2))"

lemma engine_bar_get [simp]:
  "row_get (engine_bar t c) ''ts'' = VTime (Aware t 0)" "row_get (engine_bar t c) ''close'' = VFloat (Fin c)"
  "row_get (engine_bar t c) ''volume'' = VFloat (Fin 1048576)" "row_get (engine_bar t c) ''funding'' = VFloat (Fin (- (1 / 4)))"
  "row_get (engine_bar t c) ''instrument_id'' = VStr ''BTC''" "missing_fields sample_strategy (engine_bar t c) = []"
  "row_item (engine_bar t c) ''ts'' = Inr (VTime (Aware t 0))" "row_item (engine_bar t c) ''instrument_id'' = Inr (VStr ''BTC'')"
  "f \<notin> {''ts'', ''instrument_id'', ''close'', ''volume'', ''funding''} \<Longrightarrow> row_get (engine_bar t c) f = VNone"
  by (simp_all add: engine_bar_def row_get_def row_item_def missing_fields_def sample_strategy_def sorted_by_def)

lemma engine_erow_sel [simp]: "er_raw (engine_erow t c) = engine_bar t c" "er_ts (engine_erow t c) = t" "er_instrument (engine_erow t c) = ''BTC''"
  by (simp_all add: engine_erow_def)

lemma engine_erow_number [simp]:
  "row_number env (engine_erow t c) ''close'' = Inr (Some (Fin c))" "row_number env (engine_erow t c) ''volume'' = Inr (Some (Fin 1048576))"
  "row_number env (engine_erow t c) ''funding'' = Inr (Some (Fin (- (1 / 4))))"
  "f \<notin> {''ts'', ''instrument_id'', ''close'', ''volume'', ''funding''} \<Longrightarrow> row_number env (engine_erow t c) f = Inr None"
  by (simp_all add: row_number_def or_default_def)

section \<open>Its legs\<close>

definition free_costs :: "breakdown \<Rightarrow> bool" where
  "free_costs b \<longleftrightarrow> bd_fee b = Fin 0 \<and> bd_spread b = Fin 0 \<and> bd_slippage b = Fin 0 \<and> bd_impact b = Fin 0 \<and> bd_total b = Fin 0 \<and> \<not> bd_blocked b"

lemmas breakdown_simps = calculate_cost_breakdown_def free_cost_config_def default_cost_config_def finite_non_negative_def finite_value_def
  guardE_def capacity_def impact_scale_def validate_breakdown_def validate_model_def bps_cost_def

lemma first_costs: "\<exists>b. calculate_cost_breakdown free_cost_config (Fin (1 / 2)) (Fin 0) (Fin (- (1 / 4))) (Some (Fin 134217728)) None BASE = Inr b \<and>
   free_costs b \<and> bd_funding b = Fin 0 \<and> bd_net b = Fin 0"
  by (simp add: free_costs_def breakdown_simps fl_samples fl_numeral f_div_def Let_def f_max_def f_sub_def)

lemma second_costs: "0 \<le> v \<Longrightarrow> \<exists>b. calculate_cost_breakdown free_cost_config (Fin 0) (Fin (1 / 2)) (Fin (- (1 / 4))) (Some (Fin v)) None BASE = Inr b \<and>
   free_costs b \<and> bd_funding b = Fin (1 / 8) \<and> bd_net b = Fin (1 / 8)"
  by (simp add: free_costs_def breakdown_simps fl_samples fl_numeral f_div_def Let_def f_max_def f_sub_def)

definition sample_bar :: "rat \<Rightarrow> rat \<Rightarrow> rat \<Rightarrow> rat \<Rightarrow> rat \<Rightarrow> leg \<Rightarrow> bar" where
  "sample_bar gross net turnover funding exposure l = \<lparr>ba_gross = Fin gross, ba_net = Fin net, ba_turnover = Fin turnover, ba_fee = Fin 0,
     ba_spread = Fin 0, ba_slippage = Fin 0, ba_impact = Fin 0, ba_transaction = Fin 0, ba_funding = Fin funding, ba_exposure = Fin exposure,
     ba_blocked = 0, ba_positions = [lg_position l]\<rparr>"

lemmas leg_simps = instrument_leg_def Let_def f_sub_def price_return_def return_between_def f_div_def funding_rate_of_def required_funding_def
  volume_notional_of_def observed_spread_def guardE_def fl_samples fl_numeral add_leg_def empty_bar_def sample_bar_def

lemma first_leg:
  assumes "sr_weight s = Fin (1 / 2)"
  shows "\<exists>l. instrument_leg env CLOSE free_cost_config BASE (engine_erow t 128) (Some s) (Fin 0) None = Inr l \<and>
     add_leg l empty_bar = sample_bar 0 0 (1 / 2) 0 0 l \<and> po_target (lg_position l) = Fin (1 / 2) \<and> free_costs (po_costs (lg_position l)) \<and>
     (\<exists>t. lg_trade l = Some t \<and> td_turnover t = Fin (1 / 2))"
proof -
  obtain b where b: "calculate_cost_breakdown free_cost_config (Fin (1 / 2)) (Fin 0) (Fin (- (1 / 4))) (Some (Fin 134217728)) None BASE = Inr b"
    "free_costs b" "bd_funding b = Fin 0" "bd_net b = Fin 0" using first_costs by blast
  note f = b(2) [unfolded free_costs_def]
  show ?thesis using assms b(2) by (simp add: leg_simps b f)
qed

lemma second_leg:
  assumes "sr_weight s = Fin (1 / 2)" "fl (c / 128) = Fin q" "fl (q - 1) = Fin ret" "fl (c * 1048576) = Fin v" "0 < c" "0 \<le> v"
    and "fl (ret / 2) = Fin g" "fl (g + 1 / 8) = Fin n" "fl g = Fin g" "fl n = Fin n"
  shows "\<exists>l. instrument_leg env CLOSE free_cost_config BASE (engine_erow t c) (Some s) (Fin (1 / 2)) (Some (engine_erow u 128)) = Inr l \<and>
     add_leg l empty_bar = sample_bar g n 0 (1 / 8) (1 / 2) l \<and> po_target (lg_position l) = Fin (1 / 2) \<and> free_costs (po_costs (lg_position l)) \<and>
     lg_trade l = None"
proof -
  obtain b where b: "calculate_cost_breakdown free_cost_config (Fin 0) (Fin (1 / 2)) (Fin (- (1 / 4))) (Some (Fin v)) None BASE = Inr b"
    "free_costs b" "bd_funding b = Fin (1 / 8)" "bd_net b = Fin (1 / 8)" using second_costs [OF assms(6)] by blast
  note f = b(2) [unfolded free_costs_def]
  have "fl (c * 1048576) = Fin v" "fl (1048576 * c) = Fin v" using assms(4) by (simp_all add: mult.commute)
  then show ?thesis using assms b(2) by (simp add: leg_simps b f)
qed


section \<open>Its simulation\<close>

definition sample_row :: "instant \<Rightarrow> rat \<Rightarrow> rat \<Rightarrow> rat \<Rightarrow> rat \<Rightarrow> rat \<Rightarrow> rat \<Rightarrow> rat \<Rightarrow> equity_row" where
  "sample_row t gross net gequity nequity turnover funding exposure = \<lparr>eq_ts = iso_of_instant t, eq_gross_return = Fin gross,
     eq_net_return = Fin net, eq_gross = Fin gequity, eq_net = Fin nequity, eq_turnover = Fin turnover, eq_fee = Fin 0, eq_spread = Fin 0,
     eq_slippage = Fin 0, eq_impact = Fin 0, eq_transaction = Fin 0, eq_funding = Fin funding, eq_blocked = 0, eq_scenario = BASE,
     eq_exposure = Fin exposure\<rparr>"

text \<open>What the second bar comes to, for its price \<open>c\<close>: returns and final equities.\<close>

definition second_bar :: "rat \<Rightarrow> rat \<Rightarrow> rat \<Rightarrow> rat \<Rightarrow> rat \<Rightarrow> bool" where
  "second_bar c g n gequity nequity \<longleftrightarrow> (\<exists>q ret v. fl (c / 128) = Fin q \<and> fl (q - 1) = Fin ret \<and> fl (c * 1048576) = Fin v \<and> 0 < c \<and> 0 \<le> v \<and>
     fl (ret / 2) = Fin g \<and> fl (g + 1 / 8) = Fin n \<and> fl g = Fin g \<and> fl n = Fin n \<and>
     f_mul (Fin 2) (f_add (Fin 1) (Fin g)) = Fin gequity \<and> f_mul (Fin 2) (f_add (Fin 1) (Fin n)) = Fin nequity)"

lemma second_bars: "second_bar 256 (1 / 2) (5 / 8) 3 (13 / 4)" "second_bar 64 (- (1 / 4)) (- (1 / 8)) (3 / 2) (7 / 4)"
proof -
  show "second_bar 256 (1 / 2) (5 / 8) 3 (13 / 4)" unfolding second_bar_def
    by (rule exI [of _ 2], rule exI [of _ 1], rule exI [of _ 268435456]) (simp add: fl_samples fl_numeral)
  show "second_bar 64 (- (1 / 4)) (- (1 / 8)) (3 / 2) (7 / 4)" unfolding second_bar_def
    by (rule exI [of _ "1 / 2"], rule exI [of _ "- (1 / 2)"], rule exI [of _ 67108864]) (simp add: fl_samples fl_numeral)
qed

lemma sample_bars:
  assumes "long_half xs" "second_bar c g n gequity nequity"
  shows "\<exists>st p q d. run_bars \<lparr>in_env = env, in_basis = CLOSE, in_cost = free_cost_config, in_scenario = BASE,
       in_rows = [engine_erow 3600000000 128, engine_erow 7200000000 c], in_signals = xs\<rparr> [''BTC''] [3600000000, 7200000000] (Fin 2) = Inr st \<and>
     ss_curve st = [sample_row 3600000000 0 0 2 2 (1 / 2) 0 0, sample_row 7200000000 g n gequity nequity 0 (1 / 8) (1 / 2)] \<and>
     ss_gross st = Fin gequity \<and> ss_net st = Fin nequity \<and> ss_positions st = [p, q] \<and> free_costs (po_costs p) \<and> free_costs (po_costs q) \<and>
     ss_trades st = [d] \<and> td_turnover d = Fin (1 / 2)"
proof -
  obtain a b where s: "signal_at xs 3600000000 ''BTC'' = Some a" "signal_at xs 7200000000 ''BTC'' = Some b" "sr_weight a = Fin (1 / 2)" "sr_weight b = Fin (1 / 2)"
    using assms(1) by (auto simp: long_half_def)
  obtain l d where l: "instrument_leg env CLOSE free_cost_config BASE (engine_erow 3600000000 128) (Some a) (Fin 0) None = Inr l"
    "add_leg l empty_bar = sample_bar 0 0 (1 / 2) 0 0 l" "po_target (lg_position l) = Fin (1 / 2)" "free_costs (po_costs (lg_position l))"
    "lg_trade l = Some d" "td_turnover d = Fin (1 / 2)" using first_leg [OF s(3)] by blast
  obtain q ret v where v: "fl (c / 128) = Fin q" "fl (q - 1) = Fin ret" "fl (c * 1048576) = Fin v" "0 < c" "0 \<le> v" "fl (ret / 2) = Fin g"
    "fl (g + 1 / 8) = Fin n" "fl g = Fin g" "fl n = Fin n" and e: "f_mul (Fin 2) (f_add (Fin 1) (Fin g)) = Fin gequity" "f_mul (Fin 2) (f_add (Fin 1) (Fin n)) = Fin nequity"
    using assms(2) by (auto simp: second_bar_def)
  obtain k where k: "instrument_leg env CLOSE free_cost_config BASE (engine_erow 7200000000 c) (Some b) (Fin (1 / 2)) (Some (engine_erow 3600000000 128)) = Inr k"
    "add_leg k empty_bar = sample_bar g n 0 (1 / 8) (1 / 2) k" "po_target (lg_position k) = Fin (1 / 2)" "free_costs (po_costs (lg_position k))" "lg_trade k = None"
    using second_leg [OF s(4) v] by blast
  show ?thesis using l(4) k(4)
    by (simp add: run_bars_def bar_step_def leg_step_def row_at_def erow_key_def s start_state_def l(1-3,5,6) k(1-3,5) close_bar_def Let_def
      sample_bar_def fl_numeral sample_row_def e [unfolded f_add.simps])
qed

lemma sample_rows: "engine_rows (base_env engine_env) (engine_panel c) = Inr [engine_erow 3600000000 128, engine_erow 7200000000 c]"
proof -
  have u: "ensure_utc (Aware 7200000000 0) = Inr 7200000000" "ensure_utc (Aware 3600000000 0) = Inr 3600000000" by code_simp+
  show ?thesis by (simp add: engine_rows_def engine_panel_def panel_row_def engine_timestamp_def u engine_erow_def erow_key_def sorted_by_def)
qed

lemma sample_clock: "instruments_of_rows [engine_erow 3600000000 128, engine_erow 7200000000 c] = [''BTC'']"
  "timestamps_of [engine_erow 3600000000 128, engine_erow 7200000000 c] = [3600000000, 7200000000]"
  "enforce_common_clock [engine_erow 3600000000 128, engine_erow 7200000000 c] [''BTC''] p = Inr ()"
  by (simp_all add: instruments_of_rows_def timestamps_of_def sorted_by_def enforce_common_clock_def missing_instruments_def)

lemma engine_sample_parsed: "engine_timestamp (base_env engine_env) (VStr (iso_of_instant 3600000000)) = Inr 3600000000"
  "engine_timestamp (base_env engine_env) (VStr (iso_of_instant 7200000000)) = Inr 7200000000"
  by code_simp+

lemma sample_windows: "monthly_validation_fold_windows (Aware 3600000000 0) (Aware 7200000000 0) 4 = Inr []"
  by code_simp

definition sample_result :: "simulation \<Rightarrow> rat \<Rightarrow> rat \<Rightarrow> rat \<Rightarrow> rat \<Rightarrow> bool" where
  "sample_result sim g n gequity nequity \<longleftrightarrow>
     si_curve sim = [sample_row 3600000000 0 0 2 2 (1 / 2) 0 0, sample_row 7200000000 g n gequity nequity 0 (1 / 8) (1 / 2)] \<and>
     mt_gross_return (si_metrics sim) = f_sub (Fin gequity) (Fin 2) \<and> mt_gross_equity (si_metrics sim) = Fin gequity \<and>
     mt_fee (si_metrics sim) = Fin 0 \<and> mt_spread (si_metrics sim) = Fin 0 \<and> mt_slippage (si_metrics sim) = Fin 0 \<and>
     mt_impact (si_metrics sim) = Fin 0 \<and> mt_transaction (si_metrics sim) = Fin 0 \<and> validate_metrics (si_metrics sim) = Inr (si_metrics sim)"

lemma sample_simulated:
  assumes "long_half (sf_rows frame)" "second_bar c g n gequity nequity"
  shows "\<exists>sim. simulate_vectorized (base_env engine_env) sample_run_config sample_strategy frame (engine_panel c) ''run-1'' BASE = Inr sim \<and>
    sample_result sim g n gequity nequity"
proof -
  have c: "effective_cost_model sample_run_config = Inr free_cost_config" "rn_missing_policy sample_run_config = FAIL_CLOSED"
    "rn_equity sample_run_config = Fin 2" "ec_basis (sp_execution sample_strategy) = CLOSE"
    by (simp_all add: effective_cost_model_def sample_run_config_def sample_strategy_def)
  obtain st p q d where st: "run_bars \<lparr>in_env = base_env engine_env, in_basis = CLOSE, in_cost = free_cost_config, in_scenario = BASE,
       in_rows = [engine_erow 3600000000 128, engine_erow 7200000000 c], in_signals = sf_rows frame\<rparr> [''BTC''] [3600000000, 7200000000] (Fin 2) = Inr st"
    "ss_curve st = [sample_row 3600000000 0 0 2 2 (1 / 2) 0 0, sample_row 7200000000 g n gequity nequity 0 (1 / 8) (1 / 2)]"
    "ss_gross st = Fin gequity" "ss_net st = Fin nequity" "ss_positions st = [p, q]" "free_costs (po_costs p)" "free_costs (po_costs q)"
    "ss_trades st = [d]" "td_turnover d = Fin (1 / 2)" using sample_bars [OF assms] by blast
  note f = st(6,7) [unfolded free_costs_def]
  obtain daily where daily: "daily_returns (base_env engine_env) (ss_curve st) = Inr daily"
    by (simp add: daily_returns_def parse_curve_def st(2) sample_row_def engine_sample_parsed)
  have m: "validate_metrics (run_metrics_of ''run-1'' (Fin 2) st) = Inr (run_metrics_of ''run-1'' (Fin 2) st)"
    using f by (simp add: validate_metrics_def validate_model_Inr_iff run_metrics_of_def Let_def cost_sum_def f_sum_def st case_prod_unfold fl_samples)
  have x: "validate_context (run_context_of sample_run_config (si_timeframe (sp_inputs sample_strategy)) ''run-1'' 1 3600000000 7200000000) =
     Inr (run_context_of sample_run_config (si_timeframe (sp_inputs sample_strategy)) ''run-1'' 1 3600000000 7200000000)"
    by (simp add: validate_context_def validate_model_Inr_iff run_context_of_def sample_run_config_def sample_strategy_def utc_ok_def
      unit_share_def case_prod_unfold f_le_def free_cost_config_def default_cost_config_def)
  have "\<exists>sim. simulate_vectorized (base_env engine_env) sample_run_config sample_strategy frame (engine_panel c) ''run-1'' BASE = Inr sim \<and>
    si_curve sim = ss_curve st \<and> si_metrics sim = run_metrics_of ''run-1'' (Fin 2) st"
    by (simp add: simulate_vectorized_def sample_rows sample_clock c Let_def st(1) finish_simulation_def fold_metrics_def sample_windows m x daily)
  moreover have "mt_gross_return (run_metrics_of ''run-1'' (Fin 2) st) = f_sub (Fin gequity) (Fin 2)" "mt_gross_equity (run_metrics_of ''run-1'' (Fin 2) st) = Fin gequity"
    "mt_fee (run_metrics_of ''run-1'' (Fin 2) st) = Fin 0" "mt_spread (run_metrics_of ''run-1'' (Fin 2) st) = Fin 0" "mt_slippage (run_metrics_of ''run-1'' (Fin 2) st) = Fin 0"
    "mt_impact (run_metrics_of ''run-1'' (Fin 2) st) = Fin 0" "mt_transaction (run_metrics_of ''run-1'' (Fin 2) st) = Fin 0"
    using f by (simp_all add: run_metrics_of_def Let_def st(3-9) cost_sum_def f_sum_def)
  ultimately show ?thesis using m by (auto simp: sample_result_def st(2))
qed


section \<open>Its stress rows\<close>

definition sample_frame :: signal_frame where
  "sample_frame = \<lparr>sf_strategy = ''carry'', sf_spec_hash = replicate 64 CHR ''a'', sf_rows = map (\<lambda>t. \<lparr>sr_strategy = ''carry'',
     sr_spec_hash = replicate 64 CHR ''a'', sr_ts = t, sr_instrument = ''BTC'', sr_signal = Fin 1, sr_weight = Fin (1 / 2), sr_side = ''long'',
     sr_score = None, sr_reason = ''funding_carry_long'', sr_flags = default_flags\<rparr>) [3600000000, 7200000000], sf_row_count = 2, sf_flags = default_flags\<rparr>"

lemma sample_frame_long: "long_half (sf_rows sample_frame)"
  by (simp add: long_half_def sample_frame_def signal_at_def signal_key_def)

lemma sample_stress:
  assumes "sample_result sim (1 / 2) (5 / 8) 3 (13 / 4)"
  shows "\<exists>m. stress_metrics_from_base (si_metrics sim) (si_curve sim) s = Inr m \<and> mt_gross_return m = Fin (3 / 4) \<and> mt_net_return m = Fin (15 / 16)"
    and "stress_initial_equity (si_metrics sim) = Inr (Fin (3 / 2))" and "mt_gross_return (si_metrics sim) = Fin 1"
proof -
  have c: "si_curve sim = [sample_row 3600000000 0 0 2 2 (1 / 2) 0 0, sample_row 7200000000 (1 / 2) (5 / 8) 3 (13 / 4) 0 (1 / 8) (1 / 2)]"
    and m: "mt_gross_equity (si_metrics sim) = Fin 3" "mt_fee (si_metrics sim) = Fin 0" "mt_spread (si_metrics sim) = Fin 0"
      "mt_slippage (si_metrics sim) = Fin 0" "mt_impact (si_metrics sim) = Fin 0" "mt_transaction (si_metrics sim) = Fin 0"
    and val: "validate_metrics (si_metrics sim) = Inr (si_metrics sim)" using assms by (simp_all add: sample_result_def)
  show g: "mt_gross_return (si_metrics sim) = Fin 1" using assms by (simp add: sample_result_def f_sub_def)
  show e: "stress_initial_equity (si_metrics sim) = Inr (Fin (3 / 2))" by (simp add: stress_initial_equity_def g m f_div_def fl_numeral fl_samples)
  have q: "stress_equity (Fin k) (Fin (3 / 2)) (si_curve sim) = (Fin (9 / 4), Fin (39 / 16))" for k
    by (simp add: stress_equity_def c sample_row_def stress_factors_def f_sub_def fl_samples)
  have v: "mt_run_id (si_metrics sim) \<noteq> []" "f_ge (mt_turnover (si_metrics sim)) (Fin 0)" "0 \<le> mt_trades (si_metrics sim)" "0 \<le> mt_positions (si_metrics sim)"
    "0 \<le> mt_blocked (si_metrics sim)" using val by (auto simp: validate_metrics_def validate_model_Inr_iff)
  show "\<exists>m. stress_metrics_from_base (si_metrics sim) (si_curve sim) s = Inr m \<and> mt_gross_return m = Fin (3 / 4) \<and> mt_net_return m = Fin (15 / 16)"
    by (cases s; simp add: stress_metrics_from_base_def e q Let_def validate_metrics_def validate_model_Inr_iff v m case_prod_unfold f_sub_def fl_samples)
qed


section \<open>Its run from the panel\<close>

lemma sample_compiled:
  obtains frame where "compile_signal_frame engine_env sample_strategy (engine_panel c) = Inr frame" "long_half (sf_rows frame)"
proof -
  obtain h where h: "strategy_spec_hash sample_strategy = Inr h" "length h = 64" using sample_spec_hash by blast
  have s: "lookback_bars sample_strategy = Inr 1" "sl_type (sp_logic sample_strategy) = FUNDING_CARRY" "sl_filters (sp_logic sample_strategy) = []"
    "sl_entry (sp_logic sample_strategy) = None" "sp_id sample_strategy = ''carry''" by (simp_all add: lookback_bars_def sample_strategy_def)
  have u: "ensure_utc (Aware 7200000000 0) = Inr 7200000000" "ensure_utc (Aware 3600000000 0) = Inr 3600000000" by code_simp+
  define row where "row t p k = \<lparr>pr_raw = engine_bar t p, pr_ts = t, pr_instrument = ''BTC'', pr_index = k\<rparr>" for t p k
  have n: "normalize_panel_rows engine_env sample_strategy (engine_panel c) = Inr [row 3600000000 128 (-1), row 7200000000 c (-1)]"
    by (simp add: normalize_panel_rows_def normalize_row_def engine_panel_def row_key_def sorted_by_def u row_def)
  have f: "single_signal engine_env sample_strategy rows 1 (row t p k) =
      make_signal sample_strategy (row t p k) (Fin 1) (Fin (1 / 2)) (Some (Fin (- (1 / 4)))) ''funding_carry_long''" for rows t p k
    by (simp add: single_signal_def s filter_reason_def filter_check_def funding_carry_signal_def first_numeric_def row_numeric_def numeric_def
       or_default_def entry_threshold_def Let_def sample_active_weight row_def)
  have g: "\<exists>x. single_signal engine_env sample_strategy rows 1 (row t p k) = Inr x \<and> sr_ts x = t \<and> sr_instrument x = ''BTC'' \<and> sr_weight x = Fin (1 / 2)" for rows t p k
    unfolding f using sample_make_signal [OF h, where r = "row t p k"] by (simp add: row_def in_unit_range_def f_le_def)
  define rows where "rows = number_rows [] [row 3600000000 128 (-1), row 7200000000 c (-1)]"
  have r: "rows = [row 3600000000 128 0, row 7200000000 c 1]" by (simp add: rows_def row_def)
  obtain x where x: "single_signal engine_env sample_strategy rows 1 (row 3600000000 128 0) = Inr x" "sr_ts x = 3600000000" "sr_instrument x = ''BTC''" "sr_weight x = Fin (1 / 2)"
    using g by blast
  obtain y where y: "single_signal engine_env sample_strategy rows 1 (row 7200000000 c 1) = Inr y" "sr_ts y = 7200000000" "sr_instrument y = ''BTC''" "sr_weight y = Fin (1 / 2)"
    using g by blast
  have "compile_rows engine_env sample_strategy 1 rows = mapE (single_signal engine_env sample_strategy rows 1) rows" by (simp add: compile_rows_def s rank_types_def)
  also have "\<dots> = Inr [x, y]" by (subst (2) r) (simp add: x(1) y(1))
  finally have cr: "compile_rows engine_env sample_strategy 1 rows = Inr [x, y]" .
  have "sorted_by signal_key [x, y] = [x, y]" by (simp add: sorted_by_def signal_key_def x y)
  then have "compile_signal_frame engine_env sample_strategy (engine_panel c) = Inr \<lparr>sf_strategy = ''carry'', sf_spec_hash = h, sf_rows = [x, y],
      sf_row_count = 2, sf_flags = default_flags\<rparr>"
    using h s by (simp add: compile_signal_frame_def n Let_def rows_def [symmetric] cr validate_frame_def validate_model_Inr_iff case_prod_unfold del: number_rows.simps)
  moreover have "long_half [x, y]" by (simp add: long_half_def signal_at_def signal_key_def x y)
  ultimately show ?thesis using that by simp
qed

lemma sample_cost_rows:
  assumes "\<And>s. \<exists>m. scenario_metrics base curve s = Inr m"
  shows "\<exists>rows. cost_stress_rows sample_run_config base curve = Inr rows"
proof -
  have c: "effective_cost_model sample_run_config = Inr free_cost_config" by (simp add: effective_cost_model_def sample_run_config_def)
  obtain h where h: "cost_model_hash free_cost_config = Inr h"
    using canonical_json_hash_finite [of "JObj (filter (\<lambda>(k, _). k \<notin> {''research_only'', ''observe_only''}) (cost_config_json free_cost_config))"]
    by (auto simp: cost_model_hash_def cost_config_json_def free_cost_config_def default_cost_config_def)
  have "\<exists>ms. mapE (\<lambda>scen. bindE (scenario_metrics base curve scen) (\<lambda>m. Inr (scen, m))) (rn_scenarios sample_run_config) = Inr ms"
    by (rule mapE_exists) (use assms in \<open>fastforce simp: bindE_Inr_iff\<close>)
  moreover have "\<exists>rows. mapE (\<lambda>(scen, m). bindE (cost_model_hash free_cost_config) (\<lambda>h. Inr (stress_row_of free_cost_config h scen base m))) ms = Inr rows" for ms
    by (rule mapE_exists) (simp add: h case_prod_unfold)
  ultimately show ?thesis by (auto simp: cost_stress_rows_def c)
qed


lemma sample_run:
  assumes "second_bar c g n gequity nequity"
    and "\<And>sim s. sample_result sim g n gequity nequity \<Longrightarrow> \<exists>m. stress_metrics_from_base (si_metrics sim) (si_curve sim) s = Inr m"
  shows "\<exists>sim. vectorized_run fast engine_env sample_run_config sample_strategy None (engine_panel c) ''run-1'' = Inr sim"
proof -
  obtain frame where f: "compile_signal_frame engine_env sample_strategy (engine_panel c) = Inr frame" "long_half (sf_rows frame)" by (rule sample_compiled)
  obtain sim where s: "simulate_vectorized (base_env engine_env) sample_run_config sample_strategy frame (engine_panel c) ''run-1'' BASE = Inr sim"
    "sample_result sim g n gequity nequity" using sample_simulated [OF f(2) assms(1)] by blast
  have "\<exists>m. scenario_metrics (si_metrics sim) (si_curve sim) k = Inr m" for k using assms(2) [OF s(2)] by (simp add: scenario_metrics_def)
  from sample_cost_rows [OF this] obtain rows where "cost_stress_rows sample_run_config (si_metrics sim) (si_curve sim) = Inr rows" by blast
  moreover have "rn_lane sample_run_config = VECTORIZED" "rn_require_net sample_run_config" by (simp_all add: sample_run_config_def)
  ultimately show ?thesis by (simp add: vectorized_run_def with_stress_def f(1) s(1) guardE_def)
qed

lemma sample_stress_low:
  assumes "sample_result sim (- (1 / 4)) (- (1 / 8)) (3 / 2) (7 / 4)"
  shows "\<exists>m. stress_metrics_from_base (si_metrics sim) (si_curve sim) s = Inr m"
proof -
  have g: "mt_gross_return (si_metrics sim) = Fin (- (1 / 2))" using assms by (simp add: sample_result_def f_sub_def fl_samples)
  have m: "mt_gross_equity (si_metrics sim) = Fin (3 / 2)" "mt_fee (si_metrics sim) = Fin 0" "mt_spread (si_metrics sim) = Fin 0"
      "mt_slippage (si_metrics sim) = Fin 0" "mt_impact (si_metrics sim) = Fin 0" "mt_transaction (si_metrics sim) = Fin 0"
    and val: "validate_metrics (si_metrics sim) = Inr (si_metrics sim)" using assms by (simp_all add: sample_result_def)
  have e: "stress_initial_equity (si_metrics sim) = Inr (Fin 3)" by (simp add: stress_initial_equity_def g m f_div_def fl_numeral fl_samples)
  have v: "mt_run_id (si_metrics sim) \<noteq> []" "f_ge (mt_turnover (si_metrics sim)) (Fin 0)" "0 \<le> mt_trades (si_metrics sim)" "0 \<le> mt_positions (si_metrics sim)"
    "0 \<le> mt_blocked (si_metrics sim)" using val by (auto simp: validate_metrics_def validate_model_Inr_iff)
  show ?thesis
    by (cases s; simp add: stress_metrics_from_base_def e Let_def validate_metrics_def validate_model_Inr_iff v m case_prod_unfold)
qed

section \<open>Witnesses\<close>

lemma sample_simulated_high:
  obtains sim where "simulate_vectorized (base_env engine_env) sample_run_config sample_strategy sample_frame (engine_panel 256) ''run-1'' BASE = Inr sim"
    "sample_result sim (1 / 2) (5 / 8) 3 (13 / 4)"
  using sample_simulated [OF sample_frame_long second_bars(1)] by blast

lemma sample_simulated_low:
  obtains sim where "simulate_vectorized (base_env engine_env) sample_run_config sample_strategy sample_frame (engine_panel 64) ''run-1'' BASE = Inr sim"
  using sample_simulated [OF sample_frame_long second_bars(2)] by blast

lemma backtest_is_causal_witness:
  "\<exists>sim1 sim2. vectorized_run (\<lambda>c spec f panel i. Inl (RuntimeError ''fast lane'')) engine_env sample_run_config sample_strategy None (engine_panel 256) ''run-1'' = Inr sim1 \<and>
     vectorized_run (\<lambda>c spec f panel i. Inl (RuntimeError ''fast lane'')) engine_env sample_run_config sample_strategy None (engine_panel 64) ''run-1'' = Inr sim2 \<and> common_past 3600000000 sim1 sim2"
proof -
  obtain sim1 where a: "vectorized_run (\<lambda>c spec f panel i. Inl (RuntimeError ''fast lane'')) engine_env sample_run_config sample_strategy None (engine_panel 256) ''run-1'' = Inr sim1"
    using sample_run [OF second_bars(1)] sample_stress(1) by blast
  obtain sim2 where b: "vectorized_run (\<lambda>c spec f panel i. Inl (RuntimeError ''fast lane'')) engine_env sample_run_config sample_strategy None (engine_panel 64) ''run-1'' = Inr sim2"
    using sample_run [OF second_bars(2)] sample_stress_low by blast
  have u: "ensure_utc (Aware 7200000000 0) = Inr 7200000000" by code_simp
  have "panel_until engine_env 3600000000 (engine_panel 256) = panel_until engine_env 3600000000 (engine_panel 64)"
    by (simp add: panel_until_def engine_panel_def u)
  then show ?thesis using backtest_is_causal [OF a b] a b by (auto simp: sample_run_config_def)
qed

lemma curve_accounts_for_positions_witness:
  "\<exists>sim rows groups. simulate_vectorized (base_env engine_env) sample_run_config sample_strategy sample_frame (engine_panel 256) ''run-1'' BASE = Inr sim \<and>
     engine_rows (base_env engine_env) (engine_panel 256) = Inr rows \<and> si_positions sim = concat groups \<and> list_all2 row_of_bar (si_curve sim) groups"
proof -
  obtain sim where s: "simulate_vectorized (base_env engine_env) sample_run_config sample_strategy sample_frame (engine_panel 256) ''run-1'' BASE = Inr sim"
    by (rule sample_simulated_high)
  show ?thesis using curve_accounts_for_positions [OF s] s by blast
qed


lemma instrument_totals_are_sums_witness:
  "\<exists>sim rows. simulate_vectorized (base_env engine_env) sample_run_config sample_strategy sample_frame (engine_panel 256) ''run-1'' BASE = Inr sim \<and>
     engine_rows (base_env engine_env) (engine_panel 256) = Inr rows \<and>
     list_all (\<lambda>(i, t). totals_of_positions t (positions_of i (si_positions sim))) (si_instrument_totals sim)"
proof -
  obtain sim where s: "simulate_vectorized (base_env engine_env) sample_run_config sample_strategy sample_frame (engine_panel 256) ''run-1'' BASE = Inr sim"
    by (rule sample_simulated_high)
  show ?thesis using instrument_totals_are_sums [OF s] s by blast
qed

lemma trades_are_weight_changes_witness:
  "\<exists>sim. simulate_vectorized (base_env engine_env) sample_run_config sample_strategy sample_frame (engine_panel 256) ''run-1'' BASE = Inr sim \<and>
     si_trades sim = List.map_filter trade_of_position (si_positions sim) \<and> mt_blocked (si_metrics sim) = 0"
proof -
  obtain sim where s: "simulate_vectorized (base_env engine_env) sample_run_config sample_strategy sample_frame (engine_panel 256) ''run-1'' BASE = Inr sim"
    by (rule sample_simulated_high)
  show ?thesis using trades_are_weight_changes [OF s] s by blast
qed

lemma stress_is_monotone_witness:
  "\<exists>sim mild hard. sample_result sim (1 / 2) (5 / 8) 3 (13 / 4) \<and> stress_metrics_from_base (si_metrics sim) (si_curve sim) STRESS_2X = Inr mild \<and>
     stress_metrics_from_base (si_metrics sim) (si_curve sim) STRESS_3X = Inr hard \<and> f_le (mt_net_return hard) (mt_net_return mild)"
proof -
  obtain sim where s: "sample_result sim (1 / 2) (5 / 8) 3 (13 / 4)" by (rule sample_simulated_high)
  obtain a where a: "stress_metrics_from_base (si_metrics sim) (si_curve sim) STRESS_2X = Inr a" using sample_stress(1) [OF s, of STRESS_2X] by blast
  obtain b where b: "stress_metrics_from_base (si_metrics sim) (si_curve sim) STRESS_3X = Inr b" using sample_stress(1) [OF s, of STRESS_3X] by blast
  have c: "\<forall>r \<in> set (si_curve sim). f_ge (eq_transaction r) (Fin 0) \<and> isfinite (snd (stress_factors (scenario_multiplier STRESS_2X) r)) \<and>
      f_gt (snd (stress_factors (scenario_multiplier STRESS_3X) r)) (Fin 0)"
    using s by (simp add: sample_result_def sample_row_def stress_factors_def f_sub_def fl_samples f_le_def)
  show ?thesis using stress_is_monotone [OF a b _ sample_stress(2) [OF s] _ c] a b s by auto
qed


end
