(* ===== verification/ReplaySamples.thy ===== *)
theory ReplaySamples
  imports ReplayProps EngineSamples
begin

text \<open>
  A light run without a position, its replay to full artifacts and a run whose panel cannot be read, on
  which the properties of reports and replays hold.
\<close>

section \<open>A run without a position\<close>

definition flat_bar :: "string \<Rightarrow> pyrow" where
  "flat_bar ts = [(''ts'', VStr ts), (''instrument_id'', VStr ''BTC''), (''close'', VFloat (Fin 128)), (''volume'', VFloat (Fin 1048576)),
     (''funding'', VFloat (Fin 0))]"

definition flat_panel :: "pyrow list" where
  "flat_panel = [flat_bar ''0001-01-01T01:00:00Z'', flat_bar ''0001-01-01T02:00:00Z'']"

definition flat_frame :: signal_frame where
  "flat_frame = sample_frame\<lparr>sf_rows := [], sf_row_count := 0\<rparr>"

definition light_config :: run_config where
  "light_config = sample_run_config\<lparr>rn_run_id := Some ''run-1'', rn_artifact_mode := METRICS_ONLY\<rparr>"

definition sample_renv :: run_env where
  "sample_renv = \<lparr>re_senv = engine_env, re_fast = (\<lambda>c spec f panel i. Inl (RuntimeError ''fast lane'')), re_cwd = [''data''], re_git = ''g'',
     re_platform = replicate 64 CHR ''a'', re_now = 0, re_error_text = (\<lambda>e. ''error''), re_timings = (\<lambda>s. []), re_parquet = (\<lambda>name sim. [])\<rparr>"

definition flat_row :: "instant \<Rightarrow> string \<Rightarrow> erow" where
  "flat_row t ts = \<lparr>er_raw = flat_bar ts, er_ts = t, er_instrument = ''BTC''\<rparr>"

lemma flat_row_sel [simp]: "er_ts (flat_row t ts) = t" "er_instrument (flat_row t ts) = ''BTC''"
  by (simp_all add: flat_row_def)

lemma flat_number [simp]:
  "row_number env (flat_row t ts) ''close'' = Inr (Some (Fin 128))" "row_number env (flat_row t ts) ''volume'' = Inr (Some (Fin 1048576))"
  "row_number env (flat_row t ts) ''funding'' = Inr (Some (Fin 0))"
  "f \<notin> {''ts'', ''instrument_id'', ''close'', ''volume'', ''funding''} \<Longrightarrow> row_number env (flat_row t ts) f = Inr None"
  by (simp_all add: row_number_def or_default_def flat_row_def flat_bar_def row_get_def)

lemma flat_units [simp]: "spread_units (flat_row t ts) = None"
  by (simp add: spread_units_def flat_row_def flat_bar_def row_get_def or_default_def)

lemma flat_costs: "\<exists>b. calculate_cost_breakdown free_cost_config (Fin 0) (Fin 0) (Fin 0) (Some (Fin 134217728)) None BASE = Inr b \<and>
   free_costs b \<and> bd_funding b = Fin 0 \<and> bd_net b = Fin 0"
  by (simp add: free_costs_def breakdown_simps fl_samples fl_numeral f_div_def Let_def f_max_def f_sub_def)

lemma flat_leg:
  assumes "prior \<in> {None, Some (flat_row u us)}"
  shows "\<exists>l. instrument_leg env CLOSE free_cost_config BASE (flat_row t ts) None (Fin 0) prior = Inr l \<and>
     add_leg l empty_bar = sample_bar 0 0 0 0 0 l \<and> po_target (lg_position l) = Fin 0 \<and> free_costs (po_costs (lg_position l)) \<and>
     lg_trade l = None \<and> po_funding (lg_position l) = Fin 0"
proof -
  obtain b where b: "calculate_cost_breakdown free_cost_config (Fin 0) (Fin 0) (Fin 0) (Some (Fin 134217728)) None BASE = Inr b"
    "free_costs b" "bd_funding b = Fin 0" "bd_net b = Fin 0" using flat_costs by blast
  note f = b(2) [unfolded free_costs_def]
  show ?thesis using assms b(2) by (cases "prior = None"; simp add: leg_simps b f)
qed

lemma flat_rows: "engine_rows (base_env engine_env) flat_panel = Inr [flat_row 3600000000 ''0001-01-01T01:00:00Z'', flat_row 7200000000 ''0001-01-01T02:00:00Z'']"
proof -
  have u: "engine_timestamp (base_env engine_env) (VStr ''0001-01-01T01:00:00Z'') = Inr 3600000000"
    "engine_timestamp (base_env engine_env) (VStr ''0001-01-01T02:00:00Z'') = Inr 7200000000" by code_simp+
  show ?thesis by (simp add: engine_rows_def flat_panel_def panel_row_def row_item_def flat_bar_def u flat_row_def erow_key_def sorted_by_def)
qed

lemma flat_clock: "instruments_of_rows [flat_row 3600000000 a, flat_row 7200000000 b] = [''BTC'']"
  "timestamps_of [flat_row 3600000000 a, flat_row 7200000000 b] = [3600000000, 7200000000]"
  "enforce_common_clock [flat_row 3600000000 a, flat_row 7200000000 b] [''BTC''] p = Inr ()"
  by (simp_all add: instruments_of_rows_def timestamps_of_def sorted_by_def enforce_common_clock_def missing_instruments_def erow_key_def)

lemma flat_bars:
  "\<exists>st p q. run_bars \<lparr>in_env = env, in_basis = CLOSE, in_cost = free_cost_config, in_scenario = BASE,
       in_rows = [flat_row 3600000000 x, flat_row 7200000000 y], in_signals = []\<rparr> [''BTC''] [3600000000, 7200000000] (Fin 2) = Inr st \<and>
     ss_curve st = [sample_row 3600000000 0 0 2 2 0 0 0, sample_row 7200000000 0 0 2 2 0 0 0] \<and> ss_gross st = Fin 2 \<and> ss_net st = Fin 2 \<and>
     ss_positions st = [p, q] \<and> free_costs (po_costs p) \<and> free_costs (po_costs q) \<and> po_funding p = Fin 0 \<and> po_funding q = Fin 0 \<and> ss_trades st = []"
proof -
  obtain l where l: "instrument_leg env CLOSE free_cost_config BASE (flat_row 3600000000 x) None (Fin 0) None = Inr l"
    "add_leg l empty_bar = sample_bar 0 0 0 0 0 l" "po_target (lg_position l) = Fin 0" "free_costs (po_costs (lg_position l))" "lg_trade l = None"
    "po_funding (lg_position l) = Fin 0" using flat_leg [of None 0 "[]" env 3600000000 x] by blast
  obtain k where k: "instrument_leg env CLOSE free_cost_config BASE (flat_row 7200000000 y) None (Fin 0) (Some (flat_row 3600000000 x)) = Inr k"
    "add_leg k empty_bar = sample_bar 0 0 0 0 0 k" "po_target (lg_position k) = Fin 0" "free_costs (po_costs (lg_position k))" "lg_trade k = None"
    "po_funding (lg_position k) = Fin 0" using flat_leg [of "Some (flat_row 3600000000 x)" 3600000000 x env 7200000000 y] by blast
  show ?thesis using l(4,6) k(4,6)
    by (simp add: run_bars_def bar_step_def leg_step_def row_at_def erow_key_def signal_at_def start_state_def l(1-3,5) k(1-3,5) close_bar_def Let_def
      sample_bar_def fl_numeral sample_row_def)
qed

lemma light_config_simps:
  "effective_cost_model light_config = Inr free_cost_config" "rn_missing_policy light_config = FAIL_CLOSED" "rn_equity light_config = Fin 2"
  "ec_basis (sp_execution sample_strategy) = CLOSE" "rn_lane light_config = VECTORIZED" "rn_require_net light_config"
  "rn_scenarios light_config = [BASE, STRESS_2X, STRESS_3X]" "rn_artifact_mode light_config = METRICS_ONLY" "rn_run_id light_config = Some ''run-1''"
  "sf_rows flat_frame = []"
  by (simp_all add: effective_cost_model_def light_config_def sample_run_config_def sample_strategy_def flat_frame_def)

definition flat_metrics :: run_metrics where
  "flat_metrics = \<lparr>mt_schema = V2_SCHEMA_VERSION, mt_run_id = ''run-1'', mt_status = RUN_SUCCEEDED, mt_gross_return = Fin 0, mt_net_return = Fin 0,
     mt_gross_equity = Fin 2, mt_net_equity = Fin 2, mt_fee = Fin 0, mt_spread = Fin 0, mt_slippage = Fin 0, mt_impact = Fin 0, mt_transaction = Fin 0,
     mt_funding = Fin 0, mt_turnover = Fin 0, mt_trades = 0, mt_positions = 2, mt_blocked = 0, mt_gross_only = False, mt_flags = default_flags\<rparr>"

lemma flat_simulated:
  "\<exists>sim. simulate_vectorized (base_env engine_env) light_config sample_strategy flat_frame flat_panel ''run-1'' BASE = Inr sim \<and>
     si_metrics sim = flat_metrics \<and> si_curve sim = [sample_row 3600000000 0 0 2 2 0 0 0, sample_row 7200000000 0 0 2 2 0 0 0]"
proof -
  obtain st p q where st: "run_bars \<lparr>in_env = base_env engine_env, in_basis = CLOSE, in_cost = free_cost_config, in_scenario = BASE,
       in_rows = [flat_row 3600000000 ''0001-01-01T01:00:00Z'', flat_row 7200000000 ''0001-01-01T02:00:00Z''], in_signals = []\<rparr> [''BTC'']
       [3600000000, 7200000000] (Fin 2) = Inr st"
    "ss_curve st = [sample_row 3600000000 0 0 2 2 0 0 0, sample_row 7200000000 0 0 2 2 0 0 0]"
    "ss_gross st = Fin 2" "ss_net st = Fin 2" "ss_positions st = [p, q]" "free_costs (po_costs p)" "free_costs (po_costs q)"
    "po_funding p = Fin 0" "po_funding q = Fin 0" "ss_trades st = []" using flat_bars by blast
  note f = st(6,7) [unfolded free_costs_def]
  obtain daily where daily: "daily_returns (base_env engine_env) (ss_curve st) = Inr daily"
    by (simp add: daily_returns_def parse_curve_def st(2) sample_row_def engine_sample_parsed)
  have m: "run_metrics_of ''run-1'' (Fin 2) st = flat_metrics"
    using f by (simp add: run_metrics_of_def Let_def cost_sum_def f_sum_def st(3-10) f_sub_def flat_metrics_def)
  have v: "validate_metrics flat_metrics = Inr flat_metrics"
    by (simp add: validate_metrics_def validate_model_Inr_iff flat_metrics_def case_prod_unfold)
  have x: "validate_context (run_context_of light_config (si_timeframe (sp_inputs sample_strategy)) ''run-1'' 1 3600000000 7200000000) =
     Inr (run_context_of light_config (si_timeframe (sp_inputs sample_strategy)) ''run-1'' 1 3600000000 7200000000)"
    by (simp add: validate_context_def validate_model_Inr_iff run_context_of_def light_config_def sample_run_config_def sample_strategy_def utc_ok_def
      unit_share_def case_prod_unfold f_le_def free_cost_config_def default_cost_config_def)
  show ?thesis
    by (simp add: simulate_vectorized_def flat_rows flat_clock light_config_simps Let_def st(1,2) finish_simulation_def fold_metrics_def sample_windows m v x daily [unfolded st(2)])
qed

lemma flat_stress: "\<exists>m. scenario_metrics flat_metrics [sample_row 3600000000 0 0 2 2 0 0 0, sample_row 7200000000 0 0 2 2 0 0 0] s = Inr m"
proof -
  have e: "stress_initial_equity flat_metrics = Inr (Fin 2)" by (simp add: stress_initial_equity_def flat_metrics_def f_div_def fl_numeral)
  show ?thesis unfolding scenario_metrics_def stress_metrics_from_base_def e
    by (cases s; simp add: Let_def validate_metrics_def validate_model_Inr_iff case_prod_unfold flat_metrics_def)
qed

lemma flat_cost_rows: "\<exists>rows. cost_stress_rows light_config flat_metrics [sample_row 3600000000 0 0 2 2 0 0 0, sample_row 7200000000 0 0 2 2 0 0 0] = Inr rows"
proof -
  have "cost_stress_rows light_config b k = cost_stress_rows sample_run_config b k" for b k
    by (simp add: cost_stress_rows_def light_config_simps) (simp add: effective_cost_model_def sample_run_config_def)
  then show ?thesis using sample_cost_rows [OF flat_stress] by simp
qed

lemma flat_run: "\<exists>sim. vectorized_run fast engine_env light_config sample_strategy (Some flat_frame) flat_panel ''run-1'' = Inr sim \<and> si_metrics sim = flat_metrics"
  using flat_simulated flat_cost_rows by (auto simp: vectorized_run_def with_stress_def light_config_simps)

section \<open>Its report\<close>

lemma sample_hashes: "\<exists>h. params_hash [] = Inr h" "\<exists>h. strategy_spec_hash sample_strategy = Inr h" "\<exists>h. cost_model_hash free_cost_config = Inr h"
proof -
  show "\<exists>h. params_hash [] = Inr h" using canonical_json_hash_finite [of "JObj []"] by (auto simp: params_hash_def)
  show "\<exists>h. strategy_spec_hash sample_strategy = Inr h" using sample_spec_hash by blast
  show "\<exists>h. cost_model_hash free_cost_config = Inr h"
    using canonical_json_hash_finite [of "JObj (filter (\<lambda>(k, _). k \<notin> {''research_only'', ''observe_only''}) (cost_config_json free_cost_config))"]
    by (auto simp: cost_model_hash_def cost_config_json_def free_cost_config_def default_cost_config_def)
qed

lemma light_reportable: "reportable sample_renv light_config sample_strategy []"
proof -
  have "is_digest (re_platform sample_renv)" "re_timings sample_renv s = []" for s by (simp_all add: sample_renv_def is_digest_def)
  moreover have "normal_text ''lenient'' = ''lenient''" by code_simp
  then have "validate_run_config light_config = Inr light_config"
    unfolding validate_run_config_def validate_model_Inr_iff
    by (simp add: run_config_fields_def normalise_run_config_def light_config_def sample_run_config_def is_digest_def unit_share_def utc_ok_def
      benchmark_entries_def free_cost_config_def default_cost_config_def f_le_def)
  moreover have "f_gt (cc_notional free_cost_config) (Fin 0)" by (simp add: free_cost_config_def)
  ultimately show ?thesis
    using sample_hashes by (simp add: reportable_def light_config_simps) (simp add: light_config_def sample_run_config_def sample_strategy_def free_cost_config_def default_cost_config_def)
qed

lemma flat_hash: "\<exists>h. panel_hash flat_panel = Inr h"
  by (simp add: panel_hash_def flat_panel_def row_text_def flat_bar_def sorted_by_def)

lemma stress_row_entries [simp]:
  "row_entry ''scenario_id'' (stress_row_of c h s b m) = Inr (JStr (scenario_value s))"
  "row_entry ''net_return'' (stress_row_of c h s b m) = Inr (JFloat (mt_net_return m))"
  by (simp_all add: row_entry_def stress_row_of_def)

lemma flat_cost_manifest:
  assumes "cost_stress_rows light_config flat_metrics curve = Inr rows"
  shows "\<exists>m. run_cost_manifest light_config rows spreads = Inr m"
proof -
  obtain h where h: "cost_model_hash free_cost_config = Inr h" using sample_hashes(3) by blast
  from assms obtain a b c where "rows = [stress_row_of free_cost_config h BASE flat_metrics a, stress_row_of free_cost_config h STRESS_2X flat_metrics b,
      stress_row_of free_cost_config h STRESS_3X flat_metrics c]"
    by (auto simp: cost_stress_rows_def light_config_simps bindE_Inr_iff h)
  then show ?thesis
    by (simp add: run_cost_manifest_def light_config_simps build_cost_manifest_def rows_by_scenario_def net_return_of_def dict_of_def h Let_def text_str_def)
qed

lemma flat_context:
  assumes "vectorized_run fast env c spec frame panel i = Inr sim" "rn_lane c = VECTORIZED"
  shows "cx_start (si_context sim) < cx_end (si_context sim)" "0 \<le> cx_instruments (si_context sim)"
  using assms by (auto simp: vectorized_run_def bindE_Inr_iff with_stress_def simulate_vectorized_def finish_simulation_def validate_context_def
      validate_model_Inr_iff Let_def)

lemma flat_report:
  "\<exists>r. run_vectorized_backtest sample_renv light_config sample_strategy flat_panel (Some flat_frame) [] = Inr r
    \<and> rm_status (rr_manifest r) = RUN_SUCCEEDED \<and> rr_metrics r = Some flat_metrics"
proof -
  obtain h where h: "panel_hash flat_panel = Inr h" using flat_hash by blast
  have d: "run_dir (re_cwd sample_renv) (rn_output_root light_config) ''run-1'' = Inr [''data'', ''out'', ''run-1'']"
    by (simp add: sample_renv_def light_config_def sample_run_config_def) code_simp
  obtain sim where s: "vectorized_run (re_fast sample_renv) (re_senv sample_renv) light_config sample_strategy (Some flat_frame) flat_panel ''run-1'' = Inr sim"
    "si_metrics sim = flat_metrics" using flat_run by (auto simp: sample_renv_def)
  obtain st where st: "cost_stress_rows light_config flat_metrics (si_curve sim) = Inr (si_stress sim)"
    using s by (auto simp: vectorized_run_def bindE_Inr_iff with_stress_def light_config_simps)
  obtain cm where cm: "run_cost_manifest light_config (si_stress sim) (Some (si_spreads sim)) = Inr cm" using flat_cost_manifest [OF st] by blast
  obtain as where as: "common_artifacts sample_renv light_config ''run-1'' sample_strategy [] (int (length flat_panel)) h (validation_manifest_json light_config RUN_SUCCEEDED None) cm
      (metrics_json (si_metrics sim)) (Some sim) (success_log light_config ''run-1'') = Inr as" using failure_artifacts [OF light_reportable] by blast
  obtain sh ph ch where p: "strategy_spec_hash sample_strategy = Inr sh" "params_hash [] = Inr ph" "cost_model_hash free_cost_config = Inr ch"
    using sample_hashes by blast
  have digests: "is_digest sh" "is_digest ph" "is_digest ch"
    using p canonical_json_hash_length unfolding is_digest_def strategy_spec_hash_def params_hash_def cost_model_hash_def by blast+
  have lane: "light_config\<lparr>rn_lane := VECTORIZED\<rparr> = light_config" by (simp add: light_config_def sample_run_config_def)
  have obs: "\<not> list_ex (\<lambda>(k, v). f_lt v (Fin 0)) (observations sample_renv light_config (rn_benchmarks light_config) RUN_SUCCEEDED)"
    by (rule observations_nonneg) (simp_all add: light_config_def sample_run_config_def sample_renv_def)
  let ?m = "manifest_of sample_renv (light_config\<lparr>rn_lane := VECTORIZED\<rparr>) sample_strategy sh ph ''run-1'' free_cost_config ch RUN_SUCCEEDED (si_context sim) (Some (si_metrics sim)) as
      (observations sample_renv light_config (rn_benchmarks light_config) RUN_SUCCEEDED) None"
  have "validate_manifest ?m = Inr ?m"
    by (rule manifest_valid [OF light_reportable _ flat_context(2,1) [OF s(1)] artifacts_required(2) [OF as] artifacts_required(4) [OF as] _ digests])
      (use obs in \<open>simp_all add: light_config_simps\<close>)
  from this [unfolded lane] show ?thesis
    using h d s cm as p by (simp add: run_vectorized_backtest_def run_id_of_def light_config_simps report_run_def write_run_artifacts_def build_manifest_def)
       (simp add: manifest_of_def)
qed

section \<open>Witnesses\<close>



lemma unreadable_timestamp_leaves_no_report_witness:
  "\<exists>e. run_vectorized_backtest sample_renv light_config sample_strategy [[(''ts'', VInt 0)]] (Some flat_frame) [] = Inl e"
  by (rule unreadable_timestamp_leaves_no_report [where row = "[(''ts'', VInt 0)]" and v = "VInt 0"]) (simp_all add: engine_timestamp_def light_config_simps)
end
