(* ===== verification/Ledger.thy ===== *)
theory Ledger
  imports RunArtifacts Overfit
begin

text \<open>
  \<open>ledger/schemas.py\<close> and the rows of \<open>ledger/service.py\<close>: the request and the row of the experiment ledger
  with their validators, the checks of a run manifest and of a validation gate manifest, the row made
  from a manifest with its digest, and the leaderboard.  Artifacts are read through an environment of
  file contents; the power of two doubles and \<open>str\<close> of a JSON value are arguments.
\<close>

section \<open>Requests and rows\<close>

record append_request =
  lq_manifest :: string
  lq_validation :: "string option"
  lq_ledger :: string
  lq_mode :: string
  lq_notes :: string
  lq_max_rows :: int

definition validate_append_request :: "append_request \<Rightarrow> append_request result" where
  "validate_append_request q = validate_model
     [(lq_manifest q \<noteq> [], ''run_manifest_path''), (lq_ledger q \<noteq> [], ''ledger_path''),
      (normal_text (lq_mode q) \<in> {''sandbox_diagnostic'', ''accepted_research''}, ''evidence_mode''), (1 \<le> lq_max_rows q, ''max_part_rows'')]
     [] (q\<lparr>lq_mode := normal_text (lq_mode q)\<rparr>)"

record ledger_row =
  lr_schema :: string
  lr_index :: int
  lr_hash :: "string option"
  lr_run_id :: string
  lr_experiment :: string
  lr_trial :: int
  lr_agent :: string
  lr_created :: "pydatetime option"
  lr_status :: string
  lr_mode :: string
  lr_git_sha :: string
  lr_environment_hash :: string
  lr_strategy_id :: string
  lr_strategy_version :: string
  lr_strategy_hash :: string
  lr_params_hash :: string
  lr_strategy_lane :: string
  lr_archive_snapshot :: string
  lr_universe_snapshot :: string
  lr_feature_snapshot :: string
  lr_universe_mode :: string
  lr_venue_scope :: string
  lr_instruments :: int
  lr_timeframe :: string
  lr_start :: "pydatetime option"
  lr_end :: "pydatetime option"
  lr_months :: int
  lr_lockbox_policy :: string
  lr_lockbox_start :: "pydatetime option"
  lr_lockbox_end :: "pydatetime option"
  lr_coverage_min :: pyfloat
  lr_spec_hash :: string
  lr_cost_model_id :: string
  lr_cost_model_hash :: string
  lr_gross_return :: "pyfloat option"
  lr_validation :: string
  lr_net_return :: "pyfloat option"
  lr_roi :: "pyfloat option"
  lr_annualized :: "pyfloat option"
  lr_vol :: "pyfloat option"
  lr_sharpe :: "pyfloat option"
  lr_sortino :: "pyfloat option"
  lr_drawdown :: "pyfloat option"
  lr_calmar :: "pyfloat option"
  lr_turnover :: "pyfloat option"
  lr_daily_trades :: "pyfloat option"
  lr_fee :: "pyfloat option"
  lr_funding :: "pyfloat option"
  lr_slippage :: "pyfloat option"
  lr_impact :: "pyfloat option"
  lr_walk_forward :: "bool option"
  lr_pbo :: "pyfloat option"
  lr_trials :: int
  lr_folds :: int
  lr_stability :: "pyfloat option"
  lr_family_median :: "pyfloat option"
  lr_median_gap :: "pyfloat option"
  lr_failure :: "string option"
  lr_diminishing :: bool
  lr_concentration :: bool
  lr_trade_frequency :: "bool option"
  lr_monthly :: "bool option"
  lr_fragile :: bool
  lr_survivorship :: string
  lr_artifact_path :: string
  lr_artifact_sha :: string
  lr_validation_path :: string
  lr_metrics_path :: string
  lr_notes :: string
  lr_gross_only :: bool
  lr_blockers :: "string list"
  lr_flags :: flags

text \<open>The row that is dumped has every timestamp in UTC.\<close>

definition utc_point :: "pydatetime \<Rightarrow> instant" where
  "utc_point d = (case ensure_utc d of Inr t \<Rightarrow> t | Inl e \<Rightarrow> local_us d)"

definition opt_time_json :: "pydatetime option \<Rightarrow> json" where
  "opt_time_json d = (case d of None \<Rightarrow> JNull | Some t \<Rightarrow> JStr (iso_of_instant (utc_point t)))"

definition opt_float_json :: "pyfloat option \<Rightarrow> json" where
  "opt_float_json x = (case x of None \<Rightarrow> JNull | Some f \<Rightarrow> JFloat f)"

definition opt_bool_json :: "bool option \<Rightarrow> json" where
  "opt_bool_json b = (case b of None \<Rightarrow> JNull | Some v \<Rightarrow> JBool v)"

definition ledger_row_json :: "ledger_row \<Rightarrow> (string \<times> json) list" where
  "ledger_row_json r =
     [(''schema_version'', JStr (lr_schema r)), (''ledger_index'', JInt (lr_index r)), (''run_id'', JStr (lr_run_id r)),
      (''experiment_id'', JStr (lr_experiment r)), (''trial_index'', JInt (lr_trial r)), (''agent_or_user'', JStr (lr_agent r)),
      (''created_at'', opt_time_json (lr_created r)), (''row_status'', JStr (lr_status r)), (''evidence_mode'', JStr (lr_mode r)),
      (''git_sha'', JStr (lr_git_sha r)), (''environment_hash'', JStr (lr_environment_hash r)), (''strategy_id'', JStr (lr_strategy_id r)),
      (''strategy_version'', JStr (lr_strategy_version r)), (''strategy_hash'', JStr (lr_strategy_hash r)),
      (''params_hash'', JStr (lr_params_hash r)), (''strategy_lane'', JStr (lr_strategy_lane r)),
      (''archive_snapshot_id'', JStr (lr_archive_snapshot r)), (''universe_snapshot_id'', JStr (lr_universe_snapshot r)),
      (''feature_snapshot_id'', JStr (lr_feature_snapshot r)), (''universe_mode'', JStr (lr_universe_mode r)),
      (''venue_scope'', JStr (lr_venue_scope r)), (''instrument_count'', JInt (lr_instruments r)), (''timeframe'', JStr (lr_timeframe r)),
      (''backtest_start'', opt_time_json (lr_start r)), (''backtest_end'', opt_time_json (lr_end r)),
      (''usable_months'', JInt (lr_months r)), (''lockbox_policy_id'', JStr (lr_lockbox_policy r)),
      (''lockbox_start'', opt_time_json (lr_lockbox_start r)), (''lockbox_end'', opt_time_json (lr_lockbox_end r)),
      (''data_coverage_min'', JFloat (lr_coverage_min r)), (''strategy_spec_hash'', JStr (lr_spec_hash r)),
      (''cost_model_id'', JStr (lr_cost_model_id r)), (''cost_model_hash'', JStr (lr_cost_model_hash r)),
      (''gross_return'', opt_float_json (lr_gross_return r)), (''validation_status'', JStr (lr_validation r)),
      (''net_return'', opt_float_json (lr_net_return r)), (''roi_observed'', opt_float_json (lr_roi r)),
      (''annualized_return'', opt_float_json (lr_annualized r)), (''annualized_vol'', opt_float_json (lr_vol r)),
      (''sharpe'', opt_float_json (lr_sharpe r)), (''sortino'', opt_float_json (lr_sortino r)),
      (''max_drawdown'', opt_float_json (lr_drawdown r)), (''calmar'', opt_float_json (lr_calmar r)),
      (''turnover'', opt_float_json (lr_turnover r)), (''avg_daily_trades'', opt_float_json (lr_daily_trades r)),
      (''fee_paid'', opt_float_json (lr_fee r)), (''funding_pnl'', opt_float_json (lr_funding r)),
      (''slippage_cost'', opt_float_json (lr_slippage r)), (''impact_cost'', opt_float_json (lr_impact r)),
      (''walk_forward_pass'', opt_bool_json (lr_walk_forward r)), (''pbo_score'', opt_float_json (lr_pbo r)),
      (''trial_count'', JInt (lr_trials r)), (''fold_count'', JInt (lr_folds r)),
      (''fold_stability_score'', opt_float_json (lr_stability r)), (''family_median_net_return'', opt_float_json (lr_family_median r)),
      (''best_vs_median_gap'', opt_float_json (lr_median_gap r)), (''failure_reason'', opt_json (lr_failure r)),
      (''diminishing_returns_warning'', JBool (lr_diminishing r)), (''profit_concentration_warning'', JBool (lr_concentration r)),
      (''minimum_trade_frequency_pass'', opt_bool_json (lr_trade_frequency r)), (''monthly_stability_pass'', opt_bool_json (lr_monthly r)),
      (''cost_fragile_warning'', JBool (lr_fragile r)), (''survivorship_bias_status'', JStr (lr_survivorship r)),
      (''artifact_path'', JStr (lr_artifact_path r)), (''artifact_sha256'', JStr (lr_artifact_sha r)),
      (''validation_manifest_path'', JStr (lr_validation_path r)), (''metrics_path'', JStr (lr_metrics_path r)),
      (''notes'', JStr (lr_notes r)), (''gross_only'', JBool (lr_gross_only r)),
      (''blocker_reasons'', JList (map JStr (lr_blockers r)))] @ boundary_dump (lr_flags r)"

definition ledger_row_hash :: "ledger_row \<Rightarrow> string result" where
  "ledger_row_hash r = canonical_json_hash (JObj (ledger_row_json r))"

definition ledger_digests :: "ledger_row \<Rightarrow> (string \<times> string) list" where
  "ledger_digests r = [(lr_environment_hash r, ''environment_hash''), (lr_strategy_hash r, ''strategy_hash''), (lr_params_hash r, ''params_hash''),
     (lr_spec_hash r, ''strategy_spec_hash''), (lr_cost_model_hash r, ''cost_model_hash''), (lr_artifact_sha r, ''artifact_sha256'')]"

definition validate_ledger_row :: "ledger_row \<Rightarrow> ledger_row result" where
  "validate_ledger_row r = validate_model
     ([(0 \<le> lr_index r, ''ledger_index''), (case lr_hash r of None \<Rightarrow> True | Some h \<Rightarrow> is_digest h, ''row_hash''), (lr_run_id r \<noteq> [], ''run_id''),
       (0 \<le> lr_trial r, ''trial_index''), (utc_ok (lr_created r), ''created_at''), (lr_archive_snapshot r \<noteq> [], ''archive_snapshot_id''),
       (lr_universe_snapshot r \<noteq> [], ''universe_snapshot_id''), (0 \<le> lr_instruments r, ''instrument_count''), (utc_ok (lr_start r), ''backtest_start''),
       (utc_ok (lr_end r), ''backtest_end''), (0 \<le> lr_months r, ''usable_months''), (utc_ok (lr_lockbox_start r), ''lockbox_start''),
       (utc_ok (lr_lockbox_end r), ''lockbox_end''), (unit_share (lr_coverage_min r), ''data_coverage_min''), (lr_cost_model_id r \<noteq> [], ''cost_model_id''),
       (0 \<le> lr_trials r, ''trial_count''), (0 \<le> lr_folds r, ''fold_count''),
       (case lr_stability r of None \<Rightarrow> True | Some s \<Rightarrow> unit_share s, ''fold_stability_score'')]
      @ map (\<lambda>(h, f). (is_digest h, f)) (ledger_digests r))
     [(lr_gross_only r, ''ledger rows cannot be gross-only''), boundary_entry ''ledger row'' (lr_flags r),
      (lr_status r = ''succeeded'' \<and> lr_net_return r = None, ''succeeded ledger rows require net_return''),
      (lr_validation r = [], ''ledger rows require validation_status'')]
     (r\<lparr>lr_created := map_option to_utc (lr_created r), lr_start := map_option to_utc (lr_start r), lr_end := map_option to_utc (lr_end r),
        lr_lockbox_start := map_option to_utc (lr_lockbox_start r), lr_lockbox_end := map_option to_utc (lr_lockbox_end r)\<rparr>)"

section \<open>What an append reads\<close>

text \<open>
  The manifest file of a run: whether its JSON names a validation status, the manifest it parses to, and
  the digest of its bytes.
\<close>

record manifest_file =
  mf_has_status :: bool
  mf_parsed :: "run_manifest result"
  mf_sha :: string

record ledger_env =
  le_senv :: senv
  le_cwd :: "string list"
  le_manifest :: "string list \<Rightarrow> manifest_file option"
  le_json :: "string list \<Rightarrow> (string \<times> json) list result option"
  le_rows :: "string list \<Rightarrow> pyrow list option"
  le_pow :: "pyfloat \<Rightarrow> pyfloat \<Rightarrow> pyfloat result"
  le_str :: "json \<Rightarrow> string"
  le_error_text :: "py_error \<Rightarrow> string"
  le_encode :: "ledger_row list \<Rightarrow> string"
  le_clock :: "nat \<Rightarrow> instant"
  le_mtime :: "nat \<Rightarrow> int"

definition windows_overlap :: "instant \<Rightarrow> instant \<Rightarrow> pydatetime option \<Rightarrow> pydatetime option \<Rightarrow> bool" where
  "windows_overlap st en ls le = (case (ls, le) of (Some a, Some b) \<Rightarrow> max st (utc_point a) < min en (utc_point b) | _ \<Rightarrow> False)"

definition validate_manifest_for_ledger :: "run_manifest \<Rightarrow> string \<Rightarrow> unit result" where
  "validate_manifest_for_ledger m mode =
     (if \<not> research_only (rm_flags m) \<or> \<not> observe_only (rm_flags m) \<or> promotion_ready (rm_flags m) then Inl (LedgerError ''run_manifest_boundary_violation'')
      else if rm_status m = RUN_SUCCEEDED \<and> rm_metrics m = None then Inl (LedgerError ''metrics_missing'')
      else if (case rm_metrics m of None \<Rightarrow> False | Some x \<Rightarrow> mt_gross_only x) then Inl (LedgerError ''gross_only_metrics_rejected'')
      else if mode = ''accepted_research'' then raise_first
        [(rm_start m < midnight (2024, 1, 1), LedgerError ''backtest_start_before_2024''),
         (rm_months m < 6, LedgerError ''usable_months_below_accepted_floor''),
         (rm_universe_mode m = ''current'', LedgerError ''current_universe_cannot_be_accepted_research''),
         (windows_overlap (rm_start m) (rm_end m) (rm_lockbox_start m) (rm_lockbox_end m), LedgerError ''run_overlaps_lockbox'')]
      else Inr ())"

definition FORBIDDEN_FLAGS :: "string list" where
  "FORBIDDEN_FLAGS = [''promotion_ready'', ''candidate_evidence'', ''candidate_pack_eligible'', ''live_signal'', ''paper_signal'',
     ''sizing_instruction'', ''order_placement_instruction'', ''runtime_mode_change'']"

text \<open>
  \<open>str(raw.get(key, ""))\<close> is compared with two words only, so a value that is not text may read as empty.
\<close>

definition gate_status :: "(string \<times> json) list \<Rightarrow> string" where
  "gate_status raw = normal_text (text_str (json_get raw ''validation_status''))"

definition check_gate_manifest :: "(string \<times> json) list \<Rightarrow> run_manifest \<Rightarrow> string \<Rightarrow> unit result" where
  "check_gate_manifest raw m sha =
     (let blockers = (case map_of raw ''blocker_reasons'' of Some (JList xs) \<Rightarrow> Some xs | _ \<Rightarrow> None) in raise_first
       [(json_get raw ''schema_version'' \<noteq> JStr ''validation_gate_manifest_v1'', LedgerError ''invalid_validation_manifest_schema''),
        (json_get raw ''run_id'' \<noteq> JStr (rm_run_id m), LedgerError ''validation_manifest_run_id_mismatch''),
        (json_get raw ''run_manifest_sha256'' \<noteq> JStr sha, LedgerError ''validation_manifest_run_manifest_sha256_mismatch''),
        (gate_status raw \<notin> {''pass'', ''fail''}, LedgerError ''validation_manifest_status_invalid''),
        (blockers = None, LedgerError ''validation_manifest_blocker_reasons_invalid''),
        (gate_status raw = ''pass'' \<and> blockers \<noteq> Some [], LedgerError ''validation_manifest_pass_with_blockers''),
        (gate_status raw = ''fail'' \<and> blockers = Some [], LedgerError ''validation_manifest_fail_without_blockers''),
        (\<not> json_truthy (json_get raw ''research_only'') \<or> \<not> json_truthy (json_get raw ''observe_only''), LedgerError ''validation_manifest_boundary_violation''),
        (list_ex (\<lambda>f. json_truthy (json_get raw f)) FORBIDDEN_FLAGS, LedgerError ''validation_manifest_boundary_violation'')])"

definition read_validation_gate_manifest :: "ledger_env \<Rightarrow> string list \<Rightarrow> run_manifest \<Rightarrow> string \<Rightarrow> (string \<times> json) list result" where
  "read_validation_gate_manifest env p m sha = (case le_json env p of
     None \<Rightarrow> Inl (LedgerError ''validation_manifest_missing'')
   | Some r \<Rightarrow> bindE r (\<lambda>raw. bindE (check_gate_manifest raw m sha) (\<lambda>_. Inr raw)))"

text \<open>An artifact lies below the directory of its manifest.\<close>

definition artifact_place :: "string list \<Rightarrow> artifact_ref \<Rightarrow> string list" where
  "artifact_place dir a = p_parts (path_join (Path True dir) (parse_path (af_path a)))"

definition read_artifact_json :: "ledger_env \<Rightarrow> string list \<Rightarrow> run_manifest \<Rightarrow> string \<Rightarrow> (string \<times> json) list result" where
  "read_artifact_json env dir m name = (case map_of (rm_artifacts m) name of None \<Rightarrow> Inr []
     | Some a \<Rightarrow> (case le_json env (artifact_place dir a) of None \<Rightarrow> Inr [] | Some r \<Rightarrow> r))"

definition artifact_rows :: "ledger_env \<Rightarrow> string list \<Rightarrow> run_manifest \<Rightarrow> string \<Rightarrow> pyrow list option" where
  "artifact_rows env dir m name = (case map_of (rm_artifacts m) name of None \<Rightarrow> None | Some a \<Rightarrow> le_rows env (artifact_place dir a))"

definition artifact_path_of :: "run_manifest \<Rightarrow> string \<Rightarrow> string" where
  "artifact_path_of m name = (case map_of (rm_artifacts m) name of None \<Rightarrow> [] | Some a \<Rightarrow> af_path a)"

definition cost_fragile_warning :: "(string \<times> json) list \<Rightarrow> bool" where
  "cost_fragile_warning manifest = (case map_of manifest ''cost_sensitivity'' of
     Some (JObj d) \<Rightarrow> json_truthy (json_get d ''cost_fragile_warning'') \<or> json_truthy (json_get d ''cost_dependent_failure'')
   | _ \<Rightarrow> False)"

section \<open>The row of a run\<close>

text \<open>\<open>int(value)\<close> and \<open>float(value)\<close> of a JSON value.\<close>

fun json_int :: "senv \<Rightarrow> json \<Rightarrow> int result" where
  "json_int env (JInt i) = Inr i"
| "json_int env (JBool b) = Inr (if b then 1 else 0)"
| "json_int env (JFloat x) = int_of_float x"
| "json_int env (JStr s) = int_of_text env s"
| "json_int env v = Inl (TypeError ''int() argument must be a string or a real number'')"

fun json_float :: "senv \<Rightarrow> json \<Rightarrow> pyfloat result" where
  "json_float env (JInt i) = float_of_int i"
| "json_float env (JBool b) = Inr (if b then Fin 1 else Fin 0)"
| "json_float env (JFloat x) = Inr x"
| "json_float env (JStr s) = float_of_text (base_env env) s"
| "json_float env v = Inl (TypeError ''float() argument must be a string or a real number'')"

definition monthly_validation_rows :: "pyrow list \<Rightarrow> pyrow list" where
  "monthly_validation_rows rows = filter (\<lambda>row.
     normal_text (case map_of row ''fold_family'' of None \<Rightarrow> ''monthly_validation'' | Some v \<Rightarrow> py_str v) = ''monthly_validation'' \<and>
     normal_text (case map_of row ''fold_id'' of None \<Rightarrow> [] | Some v \<Rightarrow> py_str v) \<noteq> ''full_window'') rows"

definition fold_summary :: "ledger_env \<Rightarrow> string list \<Rightarrow> run_manifest \<Rightarrow> (int \<times> pyfloat option) result" where
  "fold_summary env dir m = (case artifact_rows env dir m ''fold_metrics'' of None \<Rightarrow> Inr (0, None)
     | Some all \<Rightarrow> let rows = monthly_validation_rows all; n = int (length rows) in
         if rows = [] then Inr (0, None)
         else bindE (mapE (\<lambda>row. py_float (base_env (le_senv env)) (row_get row ''net_return'')) (filter (\<lambda>row. row_get row ''net_return'' \<noteq> VNone) rows)) (\<lambda>net.
           if net = [] then Inr (n, None)
           else bindE (int_truediv (int (length (filter (\<lambda>v. f_gt v (Fin 0)) net))) (int (length net))) (\<lambda>share. Inr (n, Some share))))"

text \<open>The running peak and the deepest fall below it.\<close>

fun drawdown_step :: "pyenv \<Rightarrow> pyrow \<Rightarrow> pyfloat option \<times> pyfloat \<Rightarrow> (pyfloat option \<times> pyfloat) result" where
  "drawdown_step env row (peak, deepest) = (if row_get row ''net_equity'' = VNone then Inr (peak, deepest)
     else bindE (py_float env (row_get row ''net_equity'')) (\<lambda>equity.
       let top = (case peak of None \<Rightarrow> equity | Some p \<Rightarrow> f_max p equity) in
       if f_gt top (Fin 0) then bindE (f_div equity top) (\<lambda>q. Inr (Some top, f_min deepest (f_sub q (Fin 1))))
       else Inr (Some top, deepest)))"

definition max_drawdown :: "ledger_env \<Rightarrow> string list \<Rightarrow> run_manifest \<Rightarrow> pyfloat option result" where
  "max_drawdown env dir m = (case artifact_rows env dir m ''equity_curve'' of None \<Rightarrow> Inr None
     | Some rows \<Rightarrow> bindE (foldE (drawdown_step (base_env (le_senv env))) rows (None, Fin 0)) (\<lambda>(peak, deepest). Inr (Some deepest)))"

definition annualized_return :: "ledger_env \<Rightarrow> pyfloat \<Rightarrow> pyfloat \<Rightarrow> pyfloat option result" where
  "annualized_return env net days = (if f_le net (Fin (-1)) then Inr None
     else bindE (f_div (Fin 365) (f_max days (Fin 1))) (\<lambda>years. case le_pow env (f_add (Fin 1) net) years of
         Inr v \<Rightarrow> Inr (if isfinite (f_sub v (Fin 1)) then Some (f_sub v (Fin 1)) else None)
       | Inl (OverflowError e) \<Rightarrow> Inr None
       | Inl e \<Rightarrow> if is_value_error e then Inr None else Inl e))"

definition run_days :: "run_manifest \<Rightarrow> pyfloat result" where
  "run_days m = bindE (f_div (total_seconds (rm_end m - rm_start m)) (Fin 86400)) (\<lambda>d. Inr (f_max (Fin 1) d))"

definition calmar_of :: "pyfloat option \<Rightarrow> pyfloat option \<Rightarrow> pyfloat option result" where
  "calmar_of annualized drawdown = (case (annualized, drawdown) of
     (Some a, Some d) \<Rightarrow> if f_lt d (Fin 0) then bindE (f_div a (f_abs d)) (\<lambda>q. Inr (Some q)) else Inr None
   | _ \<Rightarrow> Inr None)"

fun run_validation_value :: "run_validation \<Rightarrow> string" where
  "run_validation_value RV_PASS = ''pass''"
| "run_validation_value RV_FAIL = ''fail''"
| "run_validation_value RV_QUARANTINE = ''quarantine''"

definition validation_status_of :: "run_manifest \<Rightarrow> (string \<times> json) list option \<Rightarrow> string" where
  "validation_status_of m gate = (case gate of Some raw \<Rightarrow> gate_status raw | None \<Rightarrow> run_validation_value (rm_validation m))"

definition row_blockers :: "ledger_env \<Rightarrow> run_manifest \<Rightarrow> (string \<times> json) list option \<Rightarrow> string list" where
  "row_blockers env m gate = (let status = validation_status_of m gate in uniq
     ((if text_given (rm_failure m) then [the (rm_failure m)] else []) @
      (if rm_status m \<noteq> RUN_SUCCEEDED then [''run_status_'' @ run_status_value (rm_status m)] else []) @
      (if status \<noteq> ''pass'' then [''validation_status_'' @ status] else []) @
      (case gate of Some raw \<Rightarrow> (case map_of raw ''blocker_reasons'' of Some (JList xs) \<Rightarrow> map (le_str env) xs | _ \<Rightarrow> []) | None \<Rightarrow> [])))"

text \<open>The fold figures of the gate manifest replace those of the run.\<close>

definition gate_folds :: "ledger_env \<Rightarrow> (string \<times> json) list option \<Rightarrow> int \<times> pyfloat option \<Rightarrow> (int \<times> pyfloat option) result" where
  "gate_folds env gate folds = (case gate of None \<Rightarrow> Inr folds
     | Some raw \<Rightarrow> bindE (case map_of raw ''fold_count'' of None \<Rightarrow> Inr (fst folds) | Some v \<Rightarrow> json_int (le_senv env) v) (\<lambda>n.
         bindE (if json_get raw ''fold_stability_score'' = JNull then Inr (snd folds)
           else bindE (json_float (le_senv env) (json_get raw ''fold_stability_score'')) (\<lambda>s. Inr (Some s))) (\<lambda>s. Inr (n, s))))"

record row_figures =
  fg_cost :: "(string \<times> json) list"
  fg_folds :: "int \<times> pyfloat option"
  fg_drawdown :: "pyfloat option"
  fg_annualized :: "pyfloat option"
  fg_calmar :: "pyfloat option"
  fg_daily_trades :: "pyfloat option"

definition figures_of :: "ledger_env \<Rightarrow> string list \<Rightarrow> run_manifest \<Rightarrow> (string \<times> json) list option \<Rightarrow> row_figures result" where
  "figures_of env dir m gate =
     bindE (read_artifact_json env dir m ''cost_manifest'') (\<lambda>cost.
     bindE (fold_summary env dir m) (\<lambda>summary. bindE (gate_folds env gate summary) (\<lambda>folds.
     bindE (max_drawdown env dir m) (\<lambda>drawdown. bindE (run_days m) (\<lambda>days.
     bindE (case rm_metrics m of None \<Rightarrow> Inr None | Some x \<Rightarrow> annualized_return env (mt_net_return x) days) (\<lambda>annualized.
     bindE (calmar_of annualized drawdown) (\<lambda>calmar.
     bindE (case rm_metrics m of None \<Rightarrow> Inr None
       | Some x \<Rightarrow> bindE (float_of_int (mt_trades x)) (\<lambda>n. bindE (f_div n days) (\<lambda>q. Inr (Some q)))) (\<lambda>trades.
     Inr \<lparr>fg_cost = cost, fg_folds = folds, fg_drawdown = drawdown, fg_annualized = annualized, fg_calmar = calmar, fg_daily_trades = trades\<rparr>))))))))"

definition row_of_manifest ::
  "ledger_env \<Rightarrow> run_manifest \<Rightarrow> string list \<Rightarrow> string \<Rightarrow> (string \<times> json) list option \<Rightarrow> string list option \<Rightarrow> int \<Rightarrow> string \<Rightarrow> string \<Rightarrow> row_figures \<Rightarrow> ledger_row" where
  "row_of_manifest env m path sha gate gate_path index mode notes g =
     (let status = validation_status_of m gate; metric = (\<lambda>f. map_option f (rm_metrics m)) in
      \<lparr>lr_schema = ''ledger_row_v1'', lr_index = index, lr_hash = None, lr_run_id = rm_run_id m, lr_experiment = rm_experiment m, lr_trial = rm_trial m,
       lr_agent = rm_agent m, lr_created = Some (Aware (rm_created m) 0), lr_status = run_status_value (rm_status m), lr_mode = mode,
       lr_git_sha = rm_git_sha m, lr_environment_hash = rm_environment_hash m, lr_strategy_id = rm_strategy_id m,
       lr_strategy_version = rm_strategy_version m, lr_strategy_hash = rm_strategy_hash m, lr_params_hash = rm_params_hash m,
       lr_strategy_lane = rm_strategy_lane m, lr_archive_snapshot = rm_archive_snapshot m, lr_universe_snapshot = rm_universe_snapshot m,
       lr_feature_snapshot = rm_data_manifest m, lr_universe_mode = rm_universe_mode m, lr_venue_scope = rm_venue_scope m,
       lr_instruments = rm_instruments m, lr_timeframe = rm_timeframe m, lr_start = Some (Aware (rm_start m) 0), lr_end = Some (Aware (rm_end m) 0),
       lr_months = rm_months m, lr_lockbox_policy = rm_lockbox_policy m, lr_lockbox_start = rm_lockbox_start m, lr_lockbox_end = rm_lockbox_end m,
       lr_coverage_min = rm_coverage_min m, lr_spec_hash = rm_strategy_spec_hash m, lr_cost_model_id = rm_cost_model_id m,
       lr_cost_model_hash = rm_cost_model_hash m, lr_gross_return = metric mt_gross_return, lr_validation = status,
       lr_net_return = metric mt_net_return, lr_roi = metric mt_net_return, lr_annualized = fg_annualized g, lr_vol = None, lr_sharpe = None,
       lr_sortino = None, lr_drawdown = fg_drawdown g, lr_calmar = fg_calmar g, lr_turnover = metric mt_turnover,
       lr_daily_trades = fg_daily_trades g, lr_fee = metric mt_fee, lr_funding = metric mt_funding, lr_slippage = metric mt_slippage,
       lr_impact = metric mt_impact, lr_walk_forward = Some (status = ''pass''), lr_pbo = None, lr_trials = 1, lr_folds = fst (fg_folds g),
       lr_stability = snd (fg_folds g), lr_family_median = None, lr_median_gap = None, lr_failure = rm_failure m, lr_diminishing = False,
       lr_concentration = False, lr_trade_frequency = map_option (\<lambda>x. 0 < mt_trades x) (rm_metrics m), lr_monthly = None,
       lr_fragile = (cost_fragile_warning (fg_cost g) \<or> (case gate of None \<Rightarrow> False | Some raw \<Rightarrow> json_truthy (json_get raw ''cost_fragile_warning''))),
       lr_survivorship = ''not_evaluated'', lr_artifact_path = path_text (Path True path), lr_artifact_sha = sha,
       lr_validation_path = (case gate_path of Some p \<Rightarrow> path_text (Path True p) | None \<Rightarrow> artifact_path_of m ''validation_manifest''),
       lr_metrics_path = artifact_path_of m ''metrics'', lr_notes = notes,
       lr_gross_only = (case rm_metrics m of None \<Rightarrow> False | Some x \<Rightarrow> mt_gross_only x), lr_blockers = row_blockers env m gate, lr_flags = rm_flags m\<rparr>)"

definition ledger_row_from_manifest ::
  "ledger_env \<Rightarrow> run_manifest \<Rightarrow> string list \<Rightarrow> string \<Rightarrow> (string \<times> json) list option \<Rightarrow> string list option \<Rightarrow> int \<Rightarrow> string \<Rightarrow> string \<Rightarrow> ledger_row result" where
  "ledger_row_from_manifest env m path sha gate gate_path index mode notes =
     bindE (figures_of env (butlast path) m gate) (\<lambda>g. validate_ledger_row (row_of_manifest env m path sha gate gate_path index mode notes g))"

section \<open>The leaderboard\<close>

definition family_key :: "ledger_row \<Rightarrow> string \<times> string" where
  "family_key r = (lr_experiment r, lr_strategy_id r)"

definition family_count :: "ledger_row list \<Rightarrow> string \<times> string \<Rightarrow> int" where
  "family_count rows k = int (length (filter (\<lambda>r. family_key r = k) rows))"

definition family_median :: "ledger_row list \<Rightarrow> string \<times> string \<Rightarrow> pyfloat option" where
  "family_median rows k = (let net = List.map_filter lr_net_return (filter (\<lambda>r. family_key r = k) rows) in
     if net = [] then None else Some (median_of (sorted_by id net)))"

definition eligible_row :: "bool \<Rightarrow> bool \<Rightarrow> ledger_row \<Rightarrow> bool" where
  "eligible_row require_pass exclude_sandbox r \<longleftrightarrow> lr_status r = ''succeeded'' \<and> lr_net_return r \<noteq> None \<and> \<not> lr_gross_only r \<and>
     (require_pass \<longrightarrow> lr_validation r = ''pass'') \<and> (exclude_sandbox \<longrightarrow> lr_mode r \<noteq> ''sandbox_diagnostic'') \<and> lr_universe_mode r \<noteq> ''current'' \<and>
     \<not> (live_signal (lr_flags r) \<or> paper_signal (lr_flags r) \<or> sizing_instruction (lr_flags r) \<or> order_placement_instruction (lr_flags r))"

definition overfit_warning :: "ledger_row list \<Rightarrow> ledger_row \<Rightarrow> bool" where
  "overfit_warning rows r =
     ((family_count rows (family_key r) \<ge> 20 \<and> (case family_median rows (family_key r) of None \<Rightarrow> False | Some x \<Rightarrow> f_le x (Fin 0)) \<and>
        f_gt (the (lr_net_return r)) (Fin 0)) \<or>
      (case lr_pbo r of None \<Rightarrow> False | Some s \<Rightarrow> f_ge s (Fin (1 / 2))))"

definition composite_score :: "ledger_row list \<Rightarrow> ledger_row \<Rightarrow> pyfloat" where
  "composite_score rows r =
     (let drawdown = f_abs (case lr_drawdown r of None \<Rightarrow> Fin 0 | Some d \<Rightarrow> d);
          s0 = f_sub (the (lr_net_return r)) (f_mul (Fin (1 / 4)) drawdown);
          s1 = (if lr_fragile r then f_sub s0 (fl (5 / 100)) else s0);
          s2 = (case lr_stability r of None \<Rightarrow> s1 | Some st \<Rightarrow> f_sub s1 (f_mul (f_max (Fin 0) (f_sub (Fin (1 / 2)) st)) (fl (1 / 10)))) in
      if overfit_warning rows r then f_sub s2 (fl (5 / 100)) else s2)"

record leader =
  ld_rank :: int
  ld_run_id :: string
  ld_experiment :: string
  ld_strategy :: string
  ld_net_return :: pyfloat
  ld_gross_return :: "pyfloat option"
  ld_drawdown :: "pyfloat option"
  ld_score :: pyfloat
  ld_validation :: string
  ld_mode :: string
  ld_trials :: int
  ld_folds :: int
  ld_stability :: "pyfloat option"
  ld_overfit :: bool
  ld_boundary :: "(string \<times> json) list"

definition validate_leader :: "leader \<Rightarrow> leader result" where
  "validate_leader d = validate_model
     [(1 \<le> ld_rank d, ''rank''), (ld_run_id d \<noteq> [], ''run_id''), (ld_experiment d \<noteq> [], ''experiment_id''), (ld_strategy d \<noteq> [], ''strategy_id''),
      (0 \<le> ld_trials d, ''trial_count''), (0 \<le> ld_folds d, ''fold_count''),
      (case ld_stability d of None \<Rightarrow> True | Some s \<Rightarrow> unit_share s, ''fold_stability_score'')] [] d"

definition leader_of :: "ledger_row list \<Rightarrow> int \<Rightarrow> ledger_row \<Rightarrow> leader" where
  "leader_of rows rank r = \<lparr>ld_rank = rank, ld_run_id = lr_run_id r, ld_experiment = lr_experiment r, ld_strategy = lr_strategy_id r,
     ld_net_return = the (lr_net_return r), ld_gross_return = lr_gross_return r, ld_drawdown = lr_drawdown r, ld_score = composite_score rows r,
     ld_validation = lr_validation r, ld_mode = lr_mode r, ld_trials = family_count rows (family_key r), ld_folds = lr_folds r,
     ld_stability = lr_stability r, ld_overfit = overfit_warning rows r, ld_boundary = boundary_entries\<rparr>"

definition rank_key :: "ledger_row list \<Rightarrow> ledger_row \<Rightarrow> pyfloat \<times> pyfloat \<times> string" where
  "rank_key rows r = (composite_score rows r, the (lr_net_return r), lr_run_id r)"

definition ranked_leaders :: "bool \<Rightarrow> bool \<Rightarrow> ledger_row list \<Rightarrow> leader list result" where
  "ranked_leaders require_pass exclude_sandbox rows =
     (let ranked = sorted_desc (rank_key rows) (filter (eligible_row require_pass exclude_sandbox) rows) in
      mapE (\<lambda>(k, r). validate_leader (leader_of rows (int k) r)) (zip [1..<length ranked + 1] ranked))"
end
