(* ===== verification/LedgerStore.thy ===== *)
theory LedgerStore
  imports Ledger
begin

text \<open>
  \<open>ledger/service.py\<close>, the files of a ledger: its parquet table or compacted table, the parts that appends
  write, the index beside them and the append log; the append of a run, the reading back with its checks, the
  compaction and the leaderboard of a ledger.  A parquet file is the list of its rows with a
  modification time; its bytes are the encoding that the environment supplies.  Paths are resolved component
  lists, and a ledger path names a file.
\<close>

section \<open>Files\<close>

record part_ref =
  pt_path :: "string list"
  pt_start :: int
  pt_rows :: int
  pt_sha :: string
  pt_run_ids :: "string list"

record part_index =
  px_rows :: int
  px_run_ids :: "(string \<times> int) list"
  px_compacted :: "string list option"
  px_compacted_sha :: "string option"
  px_compacted_rows :: int
  px_parts :: "part_ref list"

record flat_index =
  fx_rows :: int
  fx_run_ids :: "(string \<times> int) list"
  fx_size :: int
  fx_mtime :: int

text \<open>
  An index is one of the two kinds the code writes, a JSON document of another kind, a part index with a
  missing or mistyped field, or no JSON at all.
\<close>

datatype index_file = PartIndex part_index | FlatIndex flat_index | ForeignIndex | MalformedIndex | BrokenIndex

datatype log_event =
    AppendedRow string int "string option" "string list" int int string instant
  | Bootstrapped int "(string \<times> int) list" instant
  | ForeignEvent
  | MalformedEvent
  | BrokenLine

record ledger_fs =
  fs_tables :: "string list \<Rightarrow> (ledger_row list \<times> int) option"
  fs_indexes :: "string list \<Rightarrow> index_file option"
  fs_logs :: "string list \<Rightarrow> log_event list option"
  fs_dirs :: "string list \<Rightarrow> bool"
  fs_ticks :: nat

definition no_files :: ledger_fs where
  "no_files = \<lparr>fs_tables = (\<lambda>p. None), fs_indexes = (\<lambda>p. None), fs_logs = (\<lambda>p. None), fs_dirs = (\<lambda>p. False), fs_ticks = 0\<rparr>"

text \<open>\<open>path.with_suffix\<close>: a suffix starts at the last dot, which is neither the first nor the last character.\<close>

definition name_stem :: "string \<Rightarrow> string" where
  "name_stem name = (let tail = takeWhile (\<lambda>c. c \<noteq> CHR ''.'') (rev name) in
     if CHR ''.'' \<in> set name \<and> tail \<noteq> [] \<and> length tail + 1 < length name then take (length name - length tail - 1) name else name)"

definition with_suffix :: "string list \<Rightarrow> string \<Rightarrow> string list" where
  "with_suffix p s = butlast p @ [name_stem (last p) @ s]"

definition part_root :: "string list \<Rightarrow> string list" where
  "part_root p = with_suffix p ''.parts''"

definition append_log_path :: "string list \<Rightarrow> string list" where
  "append_log_path p = part_root p @ [''append_log.jsonl'']"

definition index_path :: "string list \<Rightarrow> string list" where
  "index_path p = with_suffix p ''.index.json''"

definition part_path :: "string list \<Rightarrow> int \<Rightarrow> string list" where
  "part_path p i = part_root p @ [''parts'', ''ledger_part_'' @ zero_pad 6 i @ ''.parquet'']"

definition compacted_default :: "string list \<Rightarrow> string list" where
  "compacted_default p = part_root p @ [''compacted'', ''current.parquet'']"

definition table_sha :: "ledger_env \<Rightarrow> ledger_row list \<Rightarrow> string" where
  "table_sha env rows = sha256_hexdigest (le_encode env rows)"

definition file_sha :: "ledger_env \<Rightarrow> ledger_fs \<Rightarrow> string list \<Rightarrow> string option" where
  "file_sha env f p = (case fs_tables f p of None \<Rightarrow> None | Some (rows, t) \<Rightarrow> Some (table_sha env rows))"

definition make_dirs :: "string list \<Rightarrow> ledger_fs \<Rightarrow> ledger_fs" where
  "make_dirs p f = f\<lparr>fs_dirs := (\<lambda>d. fs_dirs f d \<or> take (length d) p = d)\<rparr>"

definition write_table :: "ledger_env \<Rightarrow> string list \<Rightarrow> ledger_row list \<Rightarrow> ledger_fs \<Rightarrow> ledger_fs" where
  "write_table env p rows f = (let g = make_dirs (butlast p) f in
     g\<lparr>fs_tables := (fs_tables g)(p := Some (rows, le_mtime env (fs_ticks g))), fs_ticks := fs_ticks g + 1\<rparr>)"

definition write_index :: "string list \<Rightarrow> index_file \<Rightarrow> ledger_fs \<Rightarrow> ledger_fs" where
  "write_index p ix f = (let g = make_dirs (butlast (index_path p)) f in g\<lparr>fs_indexes := (fs_indexes g)(index_path p := Some ix)\<rparr>)"

definition append_ledger_log :: "ledger_env \<Rightarrow> string list \<Rightarrow> (instant \<Rightarrow> log_event) \<Rightarrow> ledger_fs \<Rightarrow> ledger_fs" where
  "append_ledger_log env p ev f = (let g = make_dirs (part_root p) f; old = (case fs_logs g (append_log_path p) of None \<Rightarrow> [] | Some es \<Rightarrow> es) in
     g\<lparr>fs_logs := (fs_logs g)(append_log_path p := Some (old @ [ev (le_clock env (fs_ticks g))])), fs_ticks := fs_ticks g + 1\<rparr>)"

section \<open>Indexes\<close>

definition by_index :: "(string \<times> int) list \<Rightarrow> (string \<times> int) list" where
  "by_index ids = sorted_by snd ids"

definition run_ids_of :: "ledger_row list \<Rightarrow> (string \<times> int) list" where
  "run_ids_of rows = dict_of (map (\<lambda>r. (lr_run_id r, lr_index r)) rows)"

definition infer_compacted_rows :: "int \<Rightarrow> string list option \<Rightarrow> part_ref list \<Rightarrow> int" where
  "infer_compacted_rows n compacted parts = (if compacted = None then 0 else case parts of [] \<Rightarrow> n | q # qs \<Rightarrow> pt_start q)"

definition write_ledger_part_index ::
  "ledger_env \<Rightarrow> string list \<Rightarrow> int \<Rightarrow> (string \<times> int) list \<Rightarrow> string list option \<Rightarrow> part_ref list \<Rightarrow> ledger_fs \<Rightarrow> ledger_fs" where
  "write_ledger_part_index env p n ids compacted parts f = write_index p (PartIndex
     \<lparr>px_rows = n, px_run_ids = by_index ids, px_compacted = compacted,
      px_compacted_sha = (case compacted of None \<Rightarrow> None | Some q \<Rightarrow> file_sha env f q),
      px_compacted_rows = infer_compacted_rows n compacted parts, px_parts = parts\<rparr>) f"

definition write_ledger_index :: "ledger_env \<Rightarrow> string list \<Rightarrow> int \<Rightarrow> (string \<times> int) list \<Rightarrow> ledger_fs \<Rightarrow> ledger_fs" where
  "write_ledger_index env p n ids f = (case fs_tables f p of None \<Rightarrow> f
     | Some (rows, t) \<Rightarrow> write_index p (FlatIndex \<lparr>fx_rows = n, fx_run_ids = by_index ids, fx_size = int (length (le_encode env rows)), fx_mtime = t\<rparr>) f)"

definition write_ledger_rows :: "ledger_env \<Rightarrow> string list \<Rightarrow> ledger_row list \<Rightarrow> ledger_fs \<Rightarrow> ledger_fs" where
  "write_ledger_rows env p rows f = write_ledger_index env p (int (length rows)) (run_ids_of rows) (write_table env p rows f)"

text \<open>The flat index counts only while size and modification time of the table are those it was written for.\<close>

definition read_valid_ledger_index :: "ledger_env \<Rightarrow> string list \<Rightarrow> ledger_fs \<Rightarrow> (int \<times> (string \<times> int) list) option" where
  "read_valid_ledger_index env p f = (case (fs_tables f p, fs_indexes f (index_path p)) of
     (Some (rows, t), Some (FlatIndex x)) \<Rightarrow>
       if fx_size x \<noteq> int (length (le_encode env rows)) \<or> fx_mtime x \<noteq> t then None
       else if fx_rows x < 0 \<or> list_ex (\<lambda>(r, i). i < 0) (fx_run_ids x) then None
       else Some (fx_rows x, fx_run_ids x)
   | _ \<Rightarrow> None)"

text \<open>The parts follow each other from the end of the compacted rows to the end of the ledger.\<close>

definition part_offsets_ok :: "(string \<times> int) list \<Rightarrow> part_ref \<Rightarrow> bool" where
  "part_offsets_ok ids q = list_all (\<lambda>(k, r). map_of ids r = Some (pt_start q + int k)) (zip [0..<length (pt_run_ids q)] (pt_run_ids q))"

definition check_part :: "ledger_env \<Rightarrow> ledger_fs \<Rightarrow> int \<Rightarrow> (string \<times> int) list \<Rightarrow> part_ref \<Rightarrow> int \<Rightarrow> int result" where
  "check_part env f n ids q expected = bindE (raise_first
     [(pt_start q \<noteq> expected, LedgerError ''ledger_part_index_part_order_invalid''),
      (pt_rows q \<le> 0 \<or> pt_start q + pt_rows q > n, LedgerError ''ledger_part_index_part_range_invalid''),
      (int (length (pt_run_ids q)) \<noteq> pt_rows q \<or> \<not> distinct (pt_run_ids q), LedgerError ''ledger_part_index_part_run_ids_invalid''),
      (\<not> part_offsets_ok ids q, LedgerError ''ledger_part_index_part_run_ids_mismatch''),
      (fs_tables f (pt_path q) = None, LedgerError (''ledger_part_missing: '' @ path_text (Path True (pt_path q)))),
      (file_sha env f (pt_path q) \<noteq> Some (pt_sha q), LedgerError (''ledger_part_hash_mismatch: '' @ path_text (Path True (pt_path q))))])
     (\<lambda>_. Inr (pt_start q + pt_rows q))"

definition validate_ledger_part_refs :: "ledger_env \<Rightarrow> ledger_fs \<Rightarrow> int \<Rightarrow> (string \<times> int) list \<Rightarrow> int \<Rightarrow> part_ref list \<Rightarrow> unit result" where
  "validate_ledger_part_refs env f n ids compacted parts =
     bindE (foldE (check_part env f n ids) parts compacted) (\<lambda>last. guardE (last = n) (LedgerError ''ledger_part_index_part_coverage_invalid''))"

definition record_log_id :: "string \<times> int \<Rightarrow> (string \<times> int) list \<Rightarrow> (string \<times> int) list result" where
  "record_log_id ri seen = (case map_of seen (fst ri) of
     Some i \<Rightarrow> if i \<noteq> snd ri then Inl (LedgerError ''ledger_append_log_duplicate_run_id'') else Inr (AList.update (fst ri) (snd ri) seen)
   | None \<Rightarrow> Inr (AList.update (fst ri) (snd ri) seen))"

fun read_log_event :: "nat \<times> log_event \<Rightarrow> (string \<times> int) list \<Rightarrow> (string \<times> int) list result" where
  "read_log_event (n, AppendedRow r i h p s k d t) seen = record_log_id (r, i) seen"
| "read_log_event (n, Bootstrapped k ids t) seen = foldE record_log_id ids seen"
| "read_log_event (n, ForeignEvent) seen = Inr seen"
| "read_log_event (n, MalformedEvent) seen = Inl (LedgerError ''ledger_append_log_invalid'')"
| "read_log_event (n, BrokenLine) seen = Inl (LedgerError (''ledger_append_log_invalid: line='' @ string_of_nat n))"

definition validate_append_log :: "string list \<Rightarrow> (string \<times> int) list \<Rightarrow> ledger_fs \<Rightarrow> unit result" where
  "validate_append_log p ids f = (case fs_logs f (append_log_path p) of None \<Rightarrow> Inr ()
     | Some es \<Rightarrow> bindE (foldE read_log_event (zip [1..<length es + 1] es) []) (\<lambda>seen.
         guardE (list_all (\<lambda>(r, i). map_of ids r = Some i) seen) (LedgerError ''ledger_part_index_append_log_mismatch'')))"

definition check_part_index :: "ledger_env \<Rightarrow> string list \<Rightarrow> ledger_fs \<Rightarrow> part_index \<Rightarrow> part_index result" where
  "check_part_index env p f x =
     (let n = px_rows x; ids = px_run_ids x; k = infer_compacted_rows n (px_compacted x) (px_parts x) in
      bindE (raise_first
        [(n < 0, LedgerError ''ledger_part_index_invalid''),
         (sorted_by id (map snd ids) \<noteq> map int [0..<nat n], LedgerError ''ledger_part_index_run_ids_invalid''),
         (px_compacted x = None \<and> k \<noteq> 0, LedgerError ''ledger_part_index_compacted_count_invalid''),
         (px_compacted x \<noteq> None \<and> \<not> (0 \<le> k \<and> k \<le> n), LedgerError ''ledger_part_index_compacted_count_invalid'')]) (\<lambda>_.
      bindE (validate_ledger_part_refs env f n ids k (px_parts x)) (\<lambda>_.
      bindE (case (px_compacted x, px_compacted_sha x) of
          (Some q, Some h) \<Rightarrow> raise_first
            [(fs_tables f q = None, LedgerError (''ledger_compacted_missing: '' @ path_text (Path True q))),
             (file_sha env f q \<noteq> Some h, LedgerError (''ledger_compacted_hash_mismatch: '' @ path_text (Path True q)))]
        | _ \<Rightarrow> Inr ()) (\<lambda>_.
      bindE (validate_append_log p ids f) (\<lambda>_. Inr (x\<lparr>px_compacted_rows := k\<rparr>))))))"

definition read_valid_ledger_part_index :: "ledger_env \<Rightarrow> string list \<Rightarrow> ledger_fs \<Rightarrow> part_index option result" where
  "read_valid_ledger_part_index env p f = (case fs_indexes f (index_path p) of
     None \<Rightarrow> if fs_dirs f (part_root p) then Inl (LedgerError ''ledger_part_index_missing'') else Inr None
   | Some BrokenIndex \<Rightarrow> if fs_dirs f (part_root p) then Inl (LedgerError ''ledger_part_index_invalid'') else Inr None
   | Some MalformedIndex \<Rightarrow> Inl (LedgerError ''ledger_part_index_invalid'')
   | Some (PartIndex x) \<Rightarrow> bindE (check_part_index env p f x) (\<lambda>y. Inr (Some y))
   | Some _ \<Rightarrow> Inr None)"

section \<open>Reading\<close>

definition row_intact :: "ledger_row \<Rightarrow> unit result" where
  "row_intact r = bindE (ledger_row_hash r) (\<lambda>h. guardE (lr_hash r = Some h) (LedgerError (''ledger_row_hash_mismatch: '' @ lr_run_id r)))"

definition row_in_place :: "nat \<times> ledger_row \<Rightarrow> unit result" where
  "row_in_place kr = (case kr of (k, r) \<Rightarrow> guardE (lr_index r = int k)
     (LedgerError (''ledger_index_mismatch: expected='' @ string_of_nat k @ '' observed='' @ string_of_int (lr_index r))))"

definition check_row :: "nat \<times> ledger_row \<Rightarrow> (string \<times> int) list \<Rightarrow> (string \<times> int) list result" where
  "check_row kr seen = bindE (row_in_place kr) (\<lambda>_.
     bindE (guardE (map_of seen (lr_run_id (snd kr)) = None) (LedgerError (''duplicate_run_id: '' @ lr_run_id (snd kr)))) (\<lambda>_.
     bindE (row_intact (snd kr)) (\<lambda>_. Inr (seen @ [(lr_run_id (snd kr), lr_index (snd kr))]))))"

definition same_dict :: "(string \<times> int) list \<Rightarrow> (string \<times> int) list \<Rightarrow> bool" where
  "same_dict d e \<longleftrightarrow> list_all (\<lambda>(k, v). map_of e k = Some v) d \<and> list_all (\<lambda>(k, v). map_of d k = Some v) e"

definition read_part :: "ledger_env \<Rightarrow> ledger_fs \<Rightarrow> part_ref \<Rightarrow> ledger_row list result" where
  "read_part env f q = (case fs_tables f (pt_path q) of
     None \<Rightarrow> Inl (LedgerError (''ledger_part_missing: '' @ path_text (Path True (pt_path q))))
   | Some (rows, t) \<Rightarrow> if table_sha env rows \<noteq> pt_sha q then Inl (LedgerError (''ledger_part_hash_mismatch: '' @ path_text (Path True (pt_path q)))) else Inr rows)"

definition read_compacted :: "ledger_env \<Rightarrow> ledger_fs \<Rightarrow> part_index \<Rightarrow> ledger_row list list result" where
  "read_compacted env f x = (case px_compacted x of None \<Rightarrow> Inr []
     | Some q \<Rightarrow> (case fs_tables f q of None \<Rightarrow> Inr []
       | Some (rows, t) \<Rightarrow> if px_compacted_sha x \<noteq> None \<and> px_compacted_sha x \<noteq> Some (table_sha env rows)
           then Inl (LedgerError (''ledger_compacted_hash_mismatch: '' @ path_text (Path True q))) else Inr [rows]))"

definition read_ledger_parts :: "ledger_env \<Rightarrow> ledger_fs \<Rightarrow> part_index \<Rightarrow> ledger_row list result" where
  "read_ledger_parts env f x =
     bindE (read_compacted env f x) (\<lambda>base. bindE (mapE (read_part env f) (px_parts x)) (\<lambda>parts.
     if base @ parts = [] then Inr []
     else bindE (mapE validate_ledger_row (sorted_by lr_index (concat (base @ parts)))) (\<lambda>rows.
       bindE (foldE check_row (zip [0..<length rows] rows) []) (\<lambda>seen.
       bindE (guardE (int (length rows) = px_rows x) (LedgerError ''ledger_part_index_row_count_mismatch'')) (\<lambda>_.
       bindE (guardE (same_dict seen (px_run_ids x)) (LedgerError ''ledger_part_index_run_ids_mismatch'')) (\<lambda>_. Inr rows))))))"

definition read_ledger :: "ledger_env \<Rightarrow> string list \<Rightarrow> ledger_fs \<Rightarrow> ledger_row list result" where
  "read_ledger env p f = bindE (read_valid_ledger_part_index env p f) (\<lambda>ix. case ix of
     Some x \<Rightarrow> read_ledger_parts env f x
   | None \<Rightarrow> (case fs_tables f p of None \<Rightarrow> Inr []
     | Some (stored, t) \<Rightarrow> bindE (mapE validate_ledger_row stored) (\<lambda>rows.
         bindE (mapE (\<lambda>kr. bindE (row_in_place kr) (\<lambda>_. row_intact (snd kr))) (zip [0..<length rows] rows)) (\<lambda>_. Inr rows))))"

section \<open>Appending\<close>

definition bootstrap_part_index ::
  "ledger_env \<Rightarrow> string list \<Rightarrow> string list option \<Rightarrow> int \<Rightarrow> (string \<times> int) list \<Rightarrow> (ledger_fs, part_index) prog" where
  "bootstrap_part_index env p compacted n ids = (\<lambda>f.
     let fresh = (compacted = None \<and> fs_tables f p = None);
         g = (if fresh then write_table env p [] f else f); place = (if fresh then Some p else compacted);
         h = write_ledger_part_index env p n ids place [] g in
     (Inr \<lparr>px_rows = n, px_run_ids = ids, px_compacted = place, px_compacted_sha = None, px_compacted_rows = 0, px_parts = []\<rparr>,
      if ids = [] then h else append_ledger_log env p (Bootstrapped n ids) h))"

text \<open>
  The last part is extended while it is short, ends where the row belongs and has the digest of its
  reference; otherwise a new part begins.
\<close>

definition extendable :: "ledger_env \<Rightarrow> ledger_fs \<Rightarrow> int \<Rightarrow> int \<Rightarrow> part_ref list \<Rightarrow> (part_ref \<times> ledger_row list) option" where
  "extendable env f index limit parts = (if parts = [] then None else let q = last parts in
     if pt_rows q < limit \<and> pt_start q + pt_rows q = index then (case fs_tables f (pt_path q) of None \<Rightarrow> None
       | Some (rows, t) \<Rightarrow> if table_sha env rows = pt_sha q then Some (q, rows) else None) else None)"

definition append_row_part :: "ledger_env \<Rightarrow> string list \<Rightarrow> ledger_row \<Rightarrow> part_index \<Rightarrow> int \<Rightarrow> (ledger_fs, bool) prog" where
  "append_row_part env p row x limit = (\<lambda>f.
     if lr_index row \<noteq> px_rows x then (Inr False, f)
     else if lr_run_id row \<in> fst ` set (px_run_ids x) then (Inl (LedgerError (''duplicate_run_id: '' @ lr_run_id row)), f)
     else let g = make_dirs (part_root p @ [''parts'']) f;
       (q, old, earlier) = (case extendable env g (lr_index row) limit (px_parts x) of
          Some (q, rows) \<Rightarrow> (q, rows, butlast (px_parts x))
        | None \<Rightarrow> (\<lparr>pt_path = part_path p (lr_index row), pt_start = lr_index row, pt_rows = 0, pt_sha = [], pt_run_ids = []\<rparr>, [], px_parts x));
       rows = old @ [row]; h = write_table env (pt_path q) rows g;
       q' = q\<lparr>pt_sha := table_sha env rows, pt_rows := int (length rows), pt_run_ids := pt_run_ids q @ [lr_run_id row]\<rparr>;
       k = append_ledger_log env p (AppendedRow (lr_run_id row) (lr_index row) (lr_hash row) (pt_path q') (pt_start q') (pt_rows q') (pt_sha q')) h in
     (Inr True, write_ledger_part_index env p (px_rows x + 1) (AList.update (lr_run_id row) (lr_index row) (px_run_ids x)) (px_compacted x) (earlier @ [q']) k))"

text \<open>The index to append to: the one of the parts, one made from the flat index, or one made from the rows.\<close>

definition index_for_append :: "ledger_env \<Rightarrow> string list \<Rightarrow> string \<Rightarrow> (ledger_fs, part_index) prog" where
  "index_for_append env p run_id = (let dup = LedgerError (''duplicate_run_id: '' @ run_id) in
     bindS (\<lambda>f. (read_valid_ledger_part_index env p f, f)) (\<lambda>ix. case ix of
       Some x \<Rightarrow> if run_id \<in> fst ` set (px_run_ids x) then raiseS dup else retS x
     | None \<Rightarrow> bindS (getS (read_valid_ledger_index env p)) (\<lambda>flat. case flat of
         Some (n, ids) \<Rightarrow> if run_id \<in> fst ` set ids then raiseS dup else bootstrap_part_index env p (Some p) n ids
       | None \<Rightarrow> bindS (\<lambda>f. (read_ledger env p f, f)) (\<lambda>rows.
           if run_id \<in> lr_run_id ` set rows then raiseS dup
           else bindS (getS (\<lambda>f. fs_tables f p \<noteq> None)) (\<lambda>there.
             bootstrap_part_index env p (if there then Some p else None) (int (length rows)) (run_ids_of rows))))))"

text \<open>The manifest with its digest, and the gate manifest with its path, checked before the ledger is touched.\<close>

definition run_to_append :: "ledger_env \<Rightarrow> append_request \<Rightarrow> (run_manifest \<times> string \<times> (string \<times> json) list option \<times> string list option) result" where
  "run_to_append env q = (case le_manifest env (resolved_root (le_cwd env) (lq_manifest q)) of
     None \<Rightarrow> Inl (LedgerError ''run_manifest_missing'')
   | Some mf \<Rightarrow> bindE (guardE (mf_has_status mf) (LedgerError ''validation_status_missing'')) (\<lambda>_.
       bindE (case mf_parsed mf of Inr m \<Rightarrow> Inr m | Inl e \<Rightarrow> Inl (LedgerError (''invalid_run_manifest: '' @ le_error_text env e))) (\<lambda>m.
       bindE (validate_manifest_for_ledger m (lq_mode q)) (\<lambda>_.
       if text_given (lq_validation q)
       then let g = resolved_root (le_cwd env) (the (lq_validation q)) in
         bindE (read_validation_gate_manifest env g m (mf_sha mf)) (\<lambda>raw. Inr (m, mf_sha mf, Some raw, Some g))
       else Inr (m, mf_sha mf, None, None)))))"

definition hashed_row :: "ledger_row \<Rightarrow> ledger_row result" where
  "hashed_row r = bindE (ledger_row_hash r) (\<lambda>h. Inr (r\<lparr>lr_hash := Some h\<rparr>))"

definition append_run_to_ledger :: "ledger_env \<Rightarrow> append_request \<Rightarrow> (ledger_fs, ledger_row) prog" where
  "append_run_to_ledger env request =
     bindS (liftS (validate_append_request request)) (\<lambda>q.
     bindS (liftS (run_to_append env q)) (\<lambda>(m, sha, gate, gate_path).
     let p = resolved_root (le_cwd env) (lq_ledger q) in
     bindS (index_for_append env p (rm_run_id m)) (\<lambda>x.
     bindS (liftS (bindE (ledger_row_from_manifest env m (resolved_root (le_cwd env) (lq_manifest q)) sha gate gate_path (px_rows x) (lq_mode q) (lq_notes q)) hashed_row)) (\<lambda>row.
     bindS (append_row_part env p row x (lq_max_rows q)) (\<lambda>done.
     if done then retS row else raiseS (LedgerError ''ledger_part_append_failed''))))))"

section \<open>Compaction and the leaderboard\<close>

definition compact_ledger_parts :: "ledger_env \<Rightarrow> string list \<Rightarrow> string list option \<Rightarrow> (ledger_fs, string list) prog" where
  "compact_ledger_parts env p output =
     bindS (\<lambda>f. (read_ledger env p f, f)) (\<lambda>rows.
     let out = (case output of None \<Rightarrow> compacted_default p | Some o' \<Rightarrow> o') in
     bindS (modifyS (write_ledger_rows env out rows)) (\<lambda>_.
     bindS (\<lambda>f. (read_valid_ledger_part_index env p f, f)) (\<lambda>ix. case ix of
       None \<Rightarrow> bindS (bootstrap_part_index env p (Some out) (int (length rows)) (run_ids_of rows)) (\<lambda>_. retS out)
     | Some x \<Rightarrow> bindS (modifyS (write_ledger_part_index env p (int (length rows)) (run_ids_of rows) (Some out) [])) (\<lambda>_. retS out))))"

definition leaderboard :: "ledger_env \<Rightarrow> string list \<Rightarrow> bool \<Rightarrow> bool \<Rightarrow> string \<Rightarrow> ledger_fs \<Rightarrow> leader list result" where
  "leaderboard env p require_pass exclude_sandbox rank f =
     bindE (guardE (rank = ''composite_v1'') (LedgerError (''unsupported_leaderboard_rank: '' @ rank))) (\<lambda>_.
     bindE (read_ledger env p f) (ranked_leaders require_pass exclude_sandbox))"
end
