(* ===== verification/LedgerProps.thy ===== *)
theory LedgerProps
  imports LedgerStore FastLaneProps
begin

text \<open>
  What the ledger keeps: a sound ledger is read back in the order of its appends, whatever the requests; a reading
  vouches for every row; the leaderboard ranks exactly the rows it may; and the second compaction breaks
  the ledger.
\<close>

section \<open>Part names\<close>

definition decimal_value :: "string \<Rightarrow> nat" where
  "decimal_value s = fold (\<lambda>c a. 10 * a + (of_char c - 48)) s 0"

lemma decimal_value_string_of_nat: "decimal_value (string_of_nat n) = n"
proof (induction n rule: string_of_nat.induct)
  case (1 n)
  have d: "(of_char (digit_char k) :: nat) - 48 = k" if "k < 10" for k
    using that by (simp add: digit_char_def take_bit_eq_mod)
  show ?case
  proof (cases "n < 10")
    case True
    then show ?thesis using d by (subst string_of_nat.simps) (simp add: decimal_value_def)
  next
    case False
    then show ?thesis using 1 d by (subst string_of_nat.simps) (simp add: decimal_value_def mult.commute)
  qed
qed

lemma decimal_value_zeros: "decimal_value (replicate k CHR ''0'' @ s) = decimal_value s"
  by (induction k) (simp_all add: decimal_value_def)

lemma zero_pad_inj: "0 \<le> i \<Longrightarrow> 0 \<le> j \<Longrightarrow> zero_pad w i = zero_pad w j \<Longrightarrow> i = j"
proof -
  assume i: "0 \<le> i" "0 \<le> j" and eq: "zero_pad w i = zero_pad w j"
  have v: "decimal_value (zero_pad w k) = nat k" if "0 \<le> k" for k
    using that by (simp add: zero_pad_def pad_left_def decimal_value_zeros decimal_value_string_of_nat string_of_int_def)
  then show "i = j" using v [OF i(1)] v [OF i(2)] i eq by (metis eq_nat_nat_iff)
qed

lemma part_path_inj: "0 \<le> i \<Longrightarrow> 0 \<le> j \<Longrightarrow> part_path p i = part_path p j \<longleftrightarrow> i = j"
  using zero_pad_inj [of i j 6] by (auto simp: part_path_def)

lemma part_path_other: "part_path p i \<noteq> p" "part_path p i \<noteq> compacted_default p"
proof -
  have "length (part_path p i) = length (butlast p) + 3" by (simp add: part_path_def part_root_def with_suffix_def)
  then have "length (part_path p i) > length p" by simp
  then show "part_path p i \<noteq> p" by auto
  show "part_path p i \<noteq> compacted_default p" by (simp add: part_path_def compacted_default_def)
qed

section \<open>Sound ledgers\<close>

definition row_id :: "ledger_row \<Rightarrow> string \<times> int" where
  "row_id r = (lr_run_id r, lr_index r)"

definition good_row :: "ledger_row \<Rightarrow> bool" where
  "good_row r \<longleftrightarrow> validate_ledger_row r = Inr r \<and> (\<exists>h. ledger_row_hash r = Inr h \<and> lr_hash r = Some h)"

definition good_rows :: "ledger_row list \<Rightarrow> bool" where
  "good_rows rows \<longleftrightarrow> list_all good_row rows \<and> map lr_index rows = map int [0..<length rows] \<and> distinct (map lr_run_id rows)"

text \<open>The references of consecutive groups of rows from an index on, and their files.\<close>

definition ref_of :: "ledger_env \<Rightarrow> string list \<Rightarrow> nat \<Rightarrow> ledger_row list \<Rightarrow> part_ref" where
  "ref_of env p k ys = \<lparr>pt_path = part_path p (int k), pt_start = int k, pt_rows = int (length ys), pt_sha = table_sha env ys,
     pt_run_ids = map lr_run_id ys\<rparr>"

fun refs_of :: "ledger_env \<Rightarrow> string list \<Rightarrow> nat \<Rightarrow> ledger_row list list \<Rightarrow> part_ref list" where
  "refs_of env p k [] = []"
| "refs_of env p k (ys # gs) = ref_of env p k ys # refs_of env p (k + length ys) gs"

fun parts_stored :: "ledger_fs \<Rightarrow> string list \<Rightarrow> nat \<Rightarrow> ledger_row list list \<Rightarrow> bool" where
  "parts_stored f p k [] = True"
| "parts_stored f p k (ys # gs) = (ys \<noteq> [] \<and> (\<exists>t. fs_tables f (part_path p (int k)) = Some (ys, t)) \<and> parts_stored f p (k + length ys) gs)"

fun event_ids :: "log_event \<Rightarrow> (string \<times> int) list" where
  "event_ids (AppendedRow r i h q s k d t) = [(r, i)]"
| "event_ids (Bootstrapped k ids t) = ids"
| "event_ids e = []"

definition good_log :: "log_event list \<Rightarrow> (string \<times> int) list \<Rightarrow> bool" where
  "good_log es ids \<longleftrightarrow> (\<forall>e \<in> set es. e \<notin> {MalformedEvent, BrokenLine} \<and> set (event_ids e) \<subseteq> set ids)"

definition index_of_groups :: "ledger_env \<Rightarrow> string list \<Rightarrow> string list \<Rightarrow> ledger_row list \<Rightarrow> ledger_row list list \<Rightarrow> part_index" where
  "index_of_groups env p c base gs = (let rows = base @ concat gs in
     \<lparr>px_rows = int (length rows), px_run_ids = map row_id rows, px_compacted = Some c, px_compacted_sha = Some (table_sha env base),
      px_compacted_rows = int (length base), px_parts = refs_of env p (length base) gs\<rparr>)"

definition sound_at :: "ledger_env \<Rightarrow> string list \<Rightarrow> ledger_fs \<Rightarrow> string list \<Rightarrow> ledger_row list \<Rightarrow> ledger_row list list \<Rightarrow> bool" where
  "sound_at env p f c base gs \<longleftrightarrow> fs_indexes f (index_path p) = Some (PartIndex (index_of_groups env p c base gs)) \<and>
     (\<exists>t. fs_tables f c = Some (base, t)) \<and> (\<forall>i. part_path p i \<noteq> c) \<and> parts_stored f p (length base) gs \<and>
     (case fs_logs f (append_log_path p) of None \<Rightarrow> True | Some es \<Rightarrow> good_log es (map row_id (base @ concat gs))) \<and> good_rows (base @ concat gs)"

definition sound :: "ledger_env \<Rightarrow> string list \<Rightarrow> string list \<Rightarrow> ledger_row list \<Rightarrow> ledger_fs \<Rightarrow> ledger_row list \<Rightarrow> bool" where
  "sound env p c base f rows \<longleftrightarrow> (\<exists>gs. sound_at env p f c base gs \<and> rows = base @ concat gs)"

lemma good_rows_append:
  "good_rows (rows @ [r]) \<longleftrightarrow> good_rows rows \<and> good_row r \<and> lr_index r = int (length rows) \<and> lr_run_id r \<notin> lr_run_id ` set rows"
  by (auto simp: good_rows_def)

lemma refs_of_append: "refs_of env p k (gs @ [ys]) = refs_of env p k gs @ [ref_of env p (k + length (concat gs)) ys]"
  by (induction gs arbitrary: k) (simp_all add: add.assoc)

lemma parts_stored_append:
  "parts_stored f p k (gs @ [ys]) \<longleftrightarrow> parts_stored f p k gs \<and> ys \<noteq> [] \<and> (\<exists>t. fs_tables f (part_path p (int (k + length (concat gs)))) = Some (ys, t))"
  by (induction gs arbitrary: k) (auto simp: add.assoc)

lemma parts_stored_cong:
  assumes "parts_stored f p k gs" "\<And>j. k \<le> j \<Longrightarrow> j < k + length (concat gs) \<Longrightarrow> fs_tables g (part_path p (int j)) = fs_tables f (part_path p (int j))"
  shows "parts_stored g p k gs"
  using assms
proof (induction gs arbitrary: k)
  case (Cons ys gs)
  have "fs_tables g (part_path p (int k)) = fs_tables f (part_path p (int k))" using Cons.prems by simp
  moreover have "parts_stored g p (k + length ys) gs" using Cons.prems by (intro Cons.IH) auto
  ultimately show ?case using Cons.prems by auto
qed simp

section \<open>Reading a sound ledger\<close>

lemma row_ids_distinct: "good_rows rows \<Longrightarrow> distinct (map fst (map row_id rows))"
  by (simp add: good_rows_def row_id_def comp_def)

lemma row_ids_map_of: "good_rows rows \<Longrightarrow> map_of (map row_id rows) r = Some i \<longleftrightarrow> (r, i) \<in> set (map row_id rows)"
  using row_ids_distinct by (metis map_of_eq_Some_iff)

lemma good_rows_nth: "good_rows rows \<Longrightarrow> k < length rows \<Longrightarrow> lr_index (rows ! k) = int k"
proof -
  assume g: "good_rows rows" and k: "k < length rows"
  have "map lr_index rows ! k = map int [0..<length rows] ! k" using g by (simp add: good_rows_def)
  then show ?thesis using k by simp
qed

lemma check_ref:
  assumes rows: "rows = pre @ ys @ post" "good_rows rows" and ys: "ys \<noteq> []" "fs_tables f (part_path p (int (length pre))) = Some (ys, t)"
  shows "check_part env f (int (length rows)) (map row_id rows) (ref_of env p (length pre) ys) (int (length pre)) = Inr (int (length pre + length ys))"
proof -
  have "map_of (map row_id rows) (lr_run_id (ys ! j)) = Some (int (length pre) + int j)" if "j < length ys" for j
  proof -
    have n: "ys ! j = rows ! (length pre + j)" "length pre + j < length rows" using rows(1) that by (simp_all add: nth_append)
    have "lr_index (ys ! j) = int (length pre + j)" using good_rows_nth [OF rows(2) n(2)] n(1) by simp
    moreover have "ys ! j \<in> set rows" using n by simp
    ultimately have "(lr_run_id (ys ! j), int (length pre) + int j) \<in> set (map row_id rows)" by (force simp: row_id_def)
    then show ?thesis using row_ids_map_of [OF rows(2)] by blast
  qed
  then have offsets: "part_offsets_ok (map row_id rows) (ref_of env p (length pre) ys)"
    by (auto simp: part_offsets_ok_def ref_of_def list_all_iff set_zip)
  have "distinct (map lr_run_id ys)" using rows by (auto simp: good_rows_def)
  then show ?thesis using offsets ys rows(1) by (auto simp: check_part_def ref_of_def file_sha_def bindE_Inr_iff)
qed

lemma check_refs:
  assumes "rows = pre @ concat gs" "good_rows rows" "parts_stored f p (length pre) gs"
  shows "foldE (check_part env f (int (length rows)) (map row_id rows)) (refs_of env p (length pre) gs) (int (length pre)) = Inr (int (length rows))"
  using assms
proof (induction gs arbitrary: pre)
  case (Cons ys gs)
  obtain t where ys: "ys \<noteq> []" "fs_tables f (part_path p (int (length pre))) = Some (ys, t)" using Cons.prems(3) by auto
  have "rows = (pre @ ys) @ concat gs" using Cons.prems(1) by simp
  from Cons.IH [OF this Cons.prems(2)] have "foldE (check_part env f (int (length rows)) (map row_id rows)) (refs_of env p (length pre + length ys) gs) (int (length pre + length ys)) = Inr (int (length rows))"
    using Cons.prems(3) by simp
  then show ?case using check_ref [OF _ Cons.prems(2) ys, of "concat gs" env] Cons.prems(1) by simp
qed simp

lemma update_subset: "set (AList.update k v d) \<subseteq> insert (k, v) (set d)"
  by (induction d) auto

lemma log_ids:
  assumes "distinct (map fst ids)" "set ris \<subseteq> set ids" "set seen \<subseteq> set ids"
  shows "\<exists>seen'. foldE record_log_id ris seen = Inr seen' \<and> set seen' \<subseteq> set ids"
  using assms(2,3)
proof (induction ris arbitrary: seen)
  case (Cons ri ris)
  have "map_of seen (fst ri) = Some i \<Longrightarrow> i = snd ri" for i
  proof -
    assume "map_of seen (fst ri) = Some i"
    then have "(fst ri, i) \<in> set ids" using Cons.prems(2) by (auto dest: map_of_SomeD)
    then show "i = snd ri" using Cons.prems(1) assms(1) by (cases ri) (auto simp: eq_key_imp_eq_value)
  qed
  then have "record_log_id ri seen = Inr (AList.update (fst ri) (snd ri) seen)" by (auto simp: record_log_id_def split: option.splits)
  moreover have "set (AList.update (fst ri) (snd ri) seen) \<subseteq> set ids"
    using Cons.prems update_subset [of "fst ri" "snd ri" seen] by auto
  ultimately show ?case using Cons.IH Cons.prems(1) by auto
qed simp

lemma log_events:
  assumes "distinct (map fst ids)" "good_log es ids" "set seen \<subseteq> set ids"
  shows "\<exists>seen'. foldE read_log_event (zip ns es) seen = Inr seen' \<and> set seen' \<subseteq> set ids"
  using assms(2,3)
proof (induction es arbitrary: ns seen)
  case (Cons e es)
  show ?case
  proof (cases ns)
    case (Cons n ms)
    have rest: "good_log es ids" using Cons.prems(1) by (simp add: good_log_def)
    have "set (event_ids e) \<subseteq> set ids" "e \<notin> {MalformedEvent, BrokenLine}" using Cons.prems(1) by (auto simp: good_log_def)
    then have "\<exists>s. read_log_event (n, e) seen = Inr s \<and> set s \<subseteq> set ids"
      using log_ids [OF assms(1) _ Cons.prems(2), of "event_ids e"] Cons.prems(2) by (cases e) (auto simp: bindE_def split: sum.splits)
    then show ?thesis using Cons.IH [OF rest] Cons by auto
  qed (use Cons.prems in simp)
qed simp

lemma good_append_log:
  assumes "good_rows rows" "case fs_logs f (append_log_path p) of None \<Rightarrow> True | Some es \<Rightarrow> good_log es (map row_id rows)"
  shows "validate_append_log p (map row_id rows) f = Inr ()"
proof (cases "fs_logs f (append_log_path p)")
  case (Some es)
  have "\<exists>seen. foldE read_log_event (zip [1..<length es + 1] es) [] = Inr seen \<and> set seen \<subseteq> set (map row_id rows)"
    by (rule log_events [OF row_ids_distinct [OF assms(1)]]) (use assms(2) Some in simp_all)
  then obtain seen where s: "foldE read_log_event (zip [1..<length es + 1] es) [] = Inr seen" "set seen \<subseteq> set (map row_id rows)" by blast
  have "list_all (\<lambda>(r, i). map_of (map row_id rows) r = Some i) seen"
    using s(2) row_ids_map_of [OF assms(1)] by (auto simp: list_all_iff)
  then show ?thesis using Some s(1) by (simp add: validate_append_log_def)
qed (simp add: validate_append_log_def)

lemma refs_first: "gs \<noteq> [] \<Longrightarrow> \<exists>q qs. refs_of env p k gs = q # qs \<and> pt_start q = int k"
  by (cases gs) (simp_all add: ref_of_def)

text \<open>The index is checked against the digest of the table it names.\<close>

lemma stored_index:
  assumes s: "fs_indexes f (index_path p) = Some (PartIndex (index_of_groups env p c base gs))" "fs_tables f c = Some (stored, t)"
    "parts_stored f p (length base) gs" "case fs_logs f (append_log_path p) of None \<Rightarrow> True | Some es \<Rightarrow> good_log es (map row_id (base @ concat gs))"
    "good_rows (base @ concat gs)"
  shows "read_valid_ledger_part_index env p f = (if table_sha env stored = table_sha env base then Inr (Some (index_of_groups env p c base gs))
    else Inl (LedgerError (''ledger_compacted_hash_mismatch: '' @ path_text (Path True c))))"
proof -
  let ?rows = "base @ concat gs" and ?x = "index_of_groups env p c base gs"
  have k: "infer_compacted_rows (int (length ?rows)) (Some c) (refs_of env p (length base) gs) = int (length base)"
  proof (cases "gs = []")
    case False
    then show ?thesis using refs_first [OF False, of env p "length base"] by (auto simp: infer_compacted_rows_def)
  qed (simp add: infer_compacted_rows_def)
  have "map snd (map row_id ?rows) = map int [0..<length ?rows]" using s(5) by (simp add: good_rows_def row_id_def comp_def)
  moreover have "sorted_by id (map int [0..<n]) = map int [0..<n]" for n by (rule sorted_by_id) (simp add: sorted_map)
  ultimately have ids: "sorted_by id (map snd (map row_id ?rows)) = map int [0..<nat (int (length ?rows))]" by (simp only: nat_int)
  have refs: "validate_ledger_part_refs env f (int (length ?rows)) (map row_id ?rows) (int (length base)) (refs_of env p (length base) gs) = Inr ()"
    using check_refs [OF refl s(5,3), of env] by (simp add: validate_ledger_part_refs_def)
  have sha: "file_sha env f c = Some (table_sha env stored)" "fs_tables f c \<noteq> None" using s(2) by (auto simp: file_sha_def)
  have x: "px_rows ?x = int (length ?rows)" "px_run_ids ?x = map row_id ?rows" "px_compacted ?x = Some c" "px_compacted_sha ?x = Some (table_sha env base)"
    "px_parts ?x = refs_of env p (length base) gs" "?x\<lparr>px_compacted_rows := int (length base)\<rparr> = ?x" by (simp_all add: index_of_groups_def Let_def)
  have "check_part_index env p f ?x = (if table_sha env stored = table_sha env base then Inr ?x
      else Inl (LedgerError (''ledger_compacted_hash_mismatch: '' @ path_text (Path True c))))"
    unfolding check_part_index_def x(1-5) Let_def k
    using ids refs sha good_append_log [OF s(5,4)] x(6) by (simp del: map_map)
  then show ?thesis using s(1) by (simp add: read_valid_ledger_part_index_def)
qed

lemma sound_index:
  assumes "sound_at env p f c base gs"
  shows "read_valid_ledger_part_index env p f = Inr (Some (index_of_groups env p c base gs))"
  using assms stored_index [of f p env c base gs base] by (auto simp: sound_at_def simp del: concat_append map_append)

lemma read_refs: "parts_stored f p k gs \<Longrightarrow> mapE (read_part env f) (refs_of env p k gs) = Inr gs"
  by (induction gs arbitrary: k) (auto simp: read_part_def ref_of_def)

lemma good_rows_prefix: "good_rows (xs @ ys) \<Longrightarrow> good_rows xs"
proof -
  assume g: "good_rows (xs @ ys)"
  have "take (length xs) (map lr_index (xs @ ys)) = take (length xs) (map int [0..<length (xs @ ys)])" using g by (simp only: good_rows_def)
  then have "map lr_index xs = map int [0..<length xs]" by (simp add: take_map)
  then show ?thesis using g by (simp add: good_rows_def)
qed

lemma good_rows_checked:
  assumes "good_rows (pre @ rows)"
  shows "foldE check_row (zip [length pre..<length pre + length rows] rows) (map row_id pre) = Inr (map row_id (pre @ rows))"
  using assms
proof (induction rows arbitrary: pre)
  case (Cons r rows)
  have g: "good_rows ((pre @ [r]) @ rows)" using Cons.prems by simp
  note g = good_rows_prefix [OF g] g
  have r: "good_row r" "lr_index r = int (length pre)" "lr_run_id r \<notin> lr_run_id ` set pre" using g(1) by (simp_all add: good_rows_append)
  have "map_of (map row_id pre) (lr_run_id r) = None" using r(3) by (auto simp: map_of_eq_None_iff row_id_def image_image)
  then have "check_row (length pre, r) (map row_id pre) = Inr (map row_id (pre @ [r]))"
    using r(1,2) by (auto simp: check_row_def row_in_place_def row_intact_def good_row_def row_id_def)
  moreover have "[length pre..<length pre + length (r # rows)] = length pre # [length (pre @ [r])..<length (pre @ [r]) + length rows]"
    by (simp add: upt_conv_Cons del: upt_Suc)
  ultimately show ?case using Cons.IH [OF g(2)] by (simp del: upt_Suc)
qed simp

lemma same_dict_refl: "distinct (map fst d) \<Longrightarrow> same_dict d d"
  by (auto simp: same_dict_def list_all_iff)

text \<open>A sound ledger reads as its rows.\<close>

lemma sound_read:
  assumes "sound env p c base f rows"
  shows "read_ledger env p f = Inr rows"
proof -
  obtain gs where s: "sound_at env p f c base gs" "rows = base @ concat gs" using assms by (auto simp: sound_def)
  have g: "good_rows rows" "\<exists>t. fs_tables f c = Some (base, t)" "parts_stored f p (length base) gs" using s by (auto simp: sound_at_def)
  let ?x = "index_of_groups env p c base gs"
  have x: "px_rows ?x = int (length rows)" "px_run_ids ?x = map row_id rows" "px_compacted ?x = Some c" "px_compacted_sha ?x = Some (table_sha env base)"
    "px_parts ?x = refs_of env p (length base) gs" using s(2) by (simp_all add: index_of_groups_def Let_def)
  have base: "read_compacted env f ?x = Inr [base]" using g(2) x by (auto simp: read_compacted_def)
  have "sorted (map lr_index rows)" using g(1) by (simp add: good_rows_def sorted_map)
  then have sorted: "sorted_by lr_index rows = rows" by (rule sorted_by_id)
  have valid: "mapE validate_ledger_row rows = Inr rows" using mapE_all [of rows validate_ledger_row "\<lambda>r. r"] g(1) by (simp add: good_rows_def list_all_iff good_row_def)
  have rows: "concat ([base] @ gs) = rows" using s(2) by simp
  have "read_ledger_parts env f ?x = Inr rows"
    unfolding read_ledger_parts_def x base read_refs [OF g(3)]
    using good_rows_checked [of "[]" rows] g(1) sorted valid same_dict_refl [OF row_ids_distinct [OF g(1)]]
    by (simp only: bindE_simps rows) simp
  then show ?thesis by (simp add: read_ledger_def sound_index [OF s(1)])
qed

section \<open>Rows made from manifests\<close>

lemma to_utc_idem: "utc_ok (Some x) \<Longrightarrow> to_utc (to_utc x) = to_utc x \<and> utc_ok (Some (to_utc x))"
  by (cases x) (auto simp: utc_ok_def to_utc_def ensure_utc_def split: if_splits)

lemma opt_utc_idem: "utc_ok d \<Longrightarrow> map_option to_utc (map_option to_utc d) = map_option to_utc d \<and> utc_ok (map_option to_utc d)"
  using to_utc_idem by (cases d) auto

lemma row_hash_ignored [simp]: "ledger_row_hash (r\<lparr>lr_hash := h\<rparr>) = ledger_row_hash r"
  by (simp add: ledger_row_hash_def ledger_row_json_def)

lemma validated_row:
  assumes "validate_ledger_row r = Inr r'" "is_digest h"
  shows "validate_ledger_row (r'\<lparr>lr_hash := Some h\<rparr>) = Inr (r'\<lparr>lr_hash := Some h\<rparr>)"
proof -
  let ?n = "r\<lparr>lr_created := map_option to_utc (lr_created r), lr_start := map_option to_utc (lr_start r), lr_end := map_option to_utc (lr_end r),
        lr_lockbox_start := map_option to_utc (lr_lockbox_start r), lr_lockbox_end := map_option to_utc (lr_lockbox_end r)\<rparr>"
  have v: "r' = ?n" "utc_ok (lr_created r)" "utc_ok (lr_start r)" "utc_ok (lr_end r)" "utc_ok (lr_lockbox_start r)" "utc_ok (lr_lockbox_end r)"
    using assms(1) by (auto simp: validate_ledger_row_def validate_model_Inr_iff)
  have ids: "map_option to_utc (lr_created r') = lr_created r'" "map_option to_utc (lr_start r') = lr_start r'" "map_option to_utc (lr_end r') = lr_end r'"
    "map_option to_utc (lr_lockbox_start r') = lr_lockbox_start r'" "map_option to_utc (lr_lockbox_end r') = lr_lockbox_end r'"
    using v opt_utc_idem by auto
  have oks: "utc_ok (lr_created r')" "utc_ok (lr_start r')" "utc_ok (lr_end r')" "utc_ok (lr_lockbox_start r')" "utc_ok (lr_lockbox_end r')"
    using v opt_utc_idem by auto
  have norm: "r'\<lparr>lr_hash := Some h, lr_created := lr_created r', lr_start := lr_start r', lr_end := lr_end r', lr_lockbox_start := lr_lockbox_start r',
      lr_lockbox_end := lr_lockbox_end r'\<rparr> = r'\<lparr>lr_hash := Some h\<rparr>" by simp
  have rest: "lr_index r' = lr_index r" "lr_run_id r' = lr_run_id r" "lr_trial r' = lr_trial r" "lr_archive_snapshot r' = lr_archive_snapshot r"
    "lr_universe_snapshot r' = lr_universe_snapshot r" "lr_instruments r' = lr_instruments r" "lr_months r' = lr_months r" "lr_coverage_min r' = lr_coverage_min r"
    "lr_cost_model_id r' = lr_cost_model_id r" "lr_trials r' = lr_trials r" "lr_folds r' = lr_folds r" "lr_stability r' = lr_stability r"
    "ledger_digests r' = ledger_digests r" "lr_gross_only r' = lr_gross_only r" "lr_flags r' = lr_flags r" "lr_status r' = lr_status r"
    "lr_net_return r' = lr_net_return r" "lr_validation r' = lr_validation r" unfolding v(1) by (simp_all add: ledger_digests_def)
  have digests: "ledger_digests (r'\<lparr>lr_hash := Some h\<rparr>) = ledger_digests r'" by (simp add: ledger_digests_def)
  note f = assms(1) [unfolded validate_ledger_row_def validate_model_Inr_iff]
  show ?thesis unfolding validate_ledger_row_def validate_model_Inr_iff digests
    using f [THEN conjunct2] assms(2) by (simp add: ids oks norm rest)
qed

lemma appended_row_good:
  assumes "ledger_row_from_manifest env m path sha gate gp i mode notes = Inr r" "hashed_row r = Inr row"
  shows "good_row row" "lr_index row = i" "lr_run_id row = rm_run_id m"
proof -
  obtain g where g: "validate_ledger_row (row_of_manifest env m path sha gate gp i mode notes g) = Inr r"
    using assms(1) by (auto simp: ledger_row_from_manifest_def bindE_Inr_iff)
  obtain h where h: "ledger_row_hash r = Inr h" "row = r\<lparr>lr_hash := Some h\<rparr>" using assms(2) by (auto simp: hashed_row_def bindE_Inr_iff)
  have "is_digest h" using h(1) canonical_json_hash_length unfolding ledger_row_hash_def is_digest_def by blast
  then show "good_row row" using validated_row [OF g] h by (simp add: good_row_def)
  show "lr_index row = i" "lr_run_id row = rm_run_id m"
    using g h(2) by (auto simp: validate_ledger_row_def validate_model_Inr_iff row_of_manifest_def Let_def)
qed

section \<open>Appending to a sound ledger\<close>

lemma file_steps [simp]:
  "fs_indexes (make_dirs d f) = fs_indexes f" "fs_tables (make_dirs d f) = fs_tables f" "fs_logs (make_dirs d f) = fs_logs f"
  "fs_indexes (write_table env q rows f) = fs_indexes f" "fs_logs (write_table env q rows f) = fs_logs f"
  "fs_tables (write_index p ix f) = fs_tables f" "fs_logs (write_index p ix f) = fs_logs f" "fs_indexes (write_index p ix f) = (fs_indexes f)(index_path p := Some ix)"
  "fs_tables (append_ledger_log env p ev f) = fs_tables f" "fs_indexes (append_ledger_log env p ev f) = fs_indexes f"
  by (simp_all add: make_dirs_def write_table_def write_index_def append_ledger_log_def Let_def)

lemma write_table_tables: "\<exists>t. fs_tables (write_table env q rows f) = (fs_tables f)(q := Some (rows, t))"
  by (auto simp: write_table_def Let_def)

lemma append_log_logs: "\<exists>t. fs_logs (append_ledger_log env p ev f) = (fs_logs f)(append_log_path p :=
    Some ((case fs_logs f (append_log_path p) of None \<Rightarrow> [] | Some es \<Rightarrow> es) @ [ev t]))"
  by (auto simp: append_ledger_log_def Let_def)

lemma by_index_good: "good_rows rows \<Longrightarrow> by_index (map row_id rows) = map row_id rows"
  unfolding by_index_def by (rule sorted_by_id) (simp add: good_rows_def row_id_def comp_def sorted_map)

lemma update_fresh: "k \<notin> fst ` set d \<Longrightarrow> AList.update k v d = d @ [(k, v)]"
  by (induction d) auto

text \<open>Writing the part that takes a row, the log event and the index.\<close>

definition part_written :: "ledger_env \<Rightarrow> string list \<Rightarrow> string list \<Rightarrow> ledger_row list \<Rightarrow> ledger_row list list \<Rightarrow> ledger_row list \<Rightarrow> ledger_row \<Rightarrow> ledger_fs \<Rightarrow> ledger_fs" where
  "part_written env p c base hs ys row f =
     (let k = length base + length (concat hs); q = ref_of env p k (ys @ [row]);
          h = write_table env (pt_path q) (ys @ [row]) (make_dirs (part_root p @ [''parts'']) f);
          g = append_ledger_log env p (AppendedRow (lr_run_id row) (lr_index row) (lr_hash row) (pt_path q) (pt_start q) (pt_rows q) (pt_sha q)) h in
      write_ledger_part_index env p (int (length (base @ concat hs @ ys)) + 1)
        (AList.update (lr_run_id row) (lr_index row) (map row_id (base @ concat hs @ ys))) (Some c) (refs_of env p (length base) hs @ [q]) g)"

lemma part_written_sound:
  assumes s: "sound_at env p f c base gs" and gs: "concat gs = concat hs @ ys" "parts_stored f p (length base) hs"
    and row: "good_rows (base @ concat gs @ [row])"
  shows "sound_at env p (part_written env p c base hs ys row f) c base (hs @ [ys @ [row]])"
proof -
  let ?k = "length base + length (concat hs)" and ?rows = "base @ concat hs @ ys"
  let ?q = "ref_of env p ?k (ys @ [row])"
  let ?h = "write_table env (pt_path ?q) (ys @ [row]) (make_dirs (part_root p @ [''parts'']) f)"
  let ?g = "append_ledger_log env p (AppendedRow (lr_run_id row) (lr_index row) (lr_hash row) (pt_path ?q) (pt_start ?q) (pt_rows ?q) (pt_sha ?q)) ?h"
  let ?f = "part_written env p c base hs ys row f"
  have sep: "\<And>i. part_path p i \<noteq> c" and base: "\<exists>t. fs_tables f c = Some (base, t)" using s by (auto simp: sound_at_def)
  have f': "?f = write_ledger_part_index env p (int (length ?rows) + 1) (AList.update (lr_run_id row) (lr_index row) (map row_id ?rows)) (Some c)
      (refs_of env p (length base) hs @ [?q]) ?g" by (simp add: part_written_def Let_def)
  obtain t where t: "fs_tables ?f = (fs_tables f)(part_path p (int ?k) := Some (ys @ [row], t))"
    using write_table_tables [of env "pt_path ?q" "ys @ [row]" "make_dirs (part_root p @ [''parts'']) f"]
    unfolding f' write_ledger_part_index_def by (auto simp: ref_of_def)
  have tables: "fs_tables ?g = fs_tables ?f" unfolding f' by (simp add: write_ledger_part_index_def)
  have good: "good_rows (base @ concat (hs @ [ys @ [row]]))" "good_rows ((base @ concat hs @ ys) @ [row])" using row gs(1) by simp_all
  have fresh: "lr_run_id row \<notin> fst ` set (map row_id ?rows)" using good_rows_append [THEN iffD1, OF good(2)] by (auto simp: row_id_def)
  have ids: "by_index (AList.update (lr_run_id row) (lr_index row) (map row_id ?rows)) = map row_id (base @ concat (hs @ [ys @ [row]]))"
    using by_index_good [OF good(1)] update_fresh [OF fresh, of "lr_index row"] by (simp add: row_id_def)
  have refs: "refs_of env p (length base) hs @ [?q] = refs_of env p (length base) (hs @ [ys @ [row]])" by (simp add: refs_of_append)
  have first: "infer_compacted_rows n (Some c) (refs_of env p (length base) (hs @ [ys @ [row]])) = int (length base)" for n
    using refs_first [of "hs @ [ys @ [row]]" env p "length base"] by (auto simp: infer_compacted_rows_def)
  have sha: "file_sha env ?g c = Some (table_sha env base)" using base t sep [of "int ?k"] unfolding file_sha_def tables by auto
  have index: "fs_indexes ?f (index_path p) = Some (PartIndex (index_of_groups env p c base (hs @ [ys @ [row]])))"
    unfolding f' write_ledger_part_index_def refs ids first by (simp add: sha index_of_groups_def Let_def)
  have logs: "fs_logs ?f = fs_logs ?g" unfolding f' write_ledger_part_index_def by simp
  obtain u where u: "fs_logs ?g = (fs_logs f)(append_log_path p := Some ((case fs_logs f (append_log_path p) of None \<Rightarrow> [] | Some es \<Rightarrow> es) @
      [AppendedRow (lr_run_id row) (lr_index row) (lr_hash row) (pt_path ?q) (pt_start ?q) (pt_rows ?q) (pt_sha ?q) u]))"
    using append_log_logs [of env p "AppendedRow (lr_run_id row) (lr_index row) (lr_hash row) (pt_path ?q) (pt_start ?q) (pt_rows ?q) (pt_sha ?q)" ?h] by auto
  have "case fs_logs f (append_log_path p) of None \<Rightarrow> True | Some es \<Rightarrow> good_log es (map row_id ?rows)"
    using s unfolding sound_at_def gs(1) by (elim conjE)
  then have log: "case fs_logs ?f (append_log_path p) of None \<Rightarrow> True | Some es \<Rightarrow> good_log es (map row_id (base @ concat (hs @ [ys @ [row]])))"
    unfolding logs u by (auto simp: good_log_def row_id_def split: option.splits)
  have "parts_stored ?f p (length base) hs"
    by (rule parts_stored_cong [OF gs(2)]) (simp add: t part_path_inj)
  then have parts: "parts_stored ?f p (length base) (hs @ [ys @ [row]])" by (auto simp: parts_stored_append t)
  show ?thesis unfolding sound_at_def using index base sep parts log good(1) t by (auto simp: eq_commute [of c])
qed

lemma extendable_cases:
  assumes "parts_stored f p (length base) gs" "extendable env f i limit (refs_of env p (length base) gs) = Some (q, rows)"
  shows "\<exists>hs. gs = hs @ [rows] \<and> q = ref_of env p (length base + length (concat hs)) rows"
proof (cases gs rule: rev_cases)
  case (snoc hs ys)
  then obtain t where "fs_tables f (part_path p (int (length base + length (concat hs)))) = Some (ys, t)"
    using assms(1) by (auto simp: parts_stored_append)
  then show ?thesis using assms(2) snoc by (auto simp: extendable_def refs_of_append ref_of_def Let_def split: if_splits)
qed (use assms(2) in \<open>simp add: extendable_def\<close>)

lemma extendable_make_dirs [simp]: "extendable env (make_dirs d f) = extendable env f"
  by (intro ext) (simp add: extendable_def Let_def)

lemma append_row_part_sound:
  assumes s: "sound_at env p f c base gs" and row: "good_rows ((base @ concat gs) @ [row])"
    and x: "px_rows x = int (length (base @ concat gs))" "px_run_ids x = map row_id (base @ concat gs)" "px_compacted x = Some c"
      "px_parts x = refs_of env p (length base) gs"
  shows "\<exists>f'. append_row_part env p row x limit f = (Inr True, f') \<and> sound env p c base f' ((base @ concat gs) @ [row])"
proof -
  have stored: "parts_stored f p (length base) gs" using s by (simp add: sound_at_def)
  have at: "lr_index row = px_rows x" "lr_run_id row \<notin> fst ` set (px_run_ids x)" using good_rows_append [THEN iffD1, OF row] x by (auto simp: row_id_def)
  have row': "good_rows (base @ concat gs @ [row])" using row by simp
  show ?thesis
  proof (cases "extendable env f (lr_index row) limit (px_parts x)")
    case None
    have "append_row_part env p row x limit f = (Inr True, part_written env p c base gs [] row f)"
      using at None x by (simp add: append_row_part_def part_written_def ref_of_def Let_def)
    then show ?thesis using part_written_sound [OF s _ stored row', of "[]"] by (force simp: sound_def)
  next
    case (Some qr)
    obtain q ys where qr: "qr = (q, ys)" by (cases qr)
    obtain hs where hs: "gs = hs @ [ys]" "q = ref_of env p (length base + length (concat hs)) ys"
      using extendable_cases [OF stored, of env "lr_index row" limit q ys] Some unfolding x(4) qr by blast
    have "append_row_part env p row x limit f = (Inr True, part_written env p c base hs ys row f)"
      using at Some x qr hs by (simp add: append_row_part_def part_written_def ref_of_def refs_of_append Let_def)
    moreover have "parts_stored f p (length base) hs" using stored hs(1) by (simp add: parts_stored_append)
    ultimately show ?thesis using part_written_sound [OF s _ _ row', of hs ys] hs(1) by (force simp: sound_def)
  qed
qed

section \<open>Appends, in any number\<close>

definition fresh_place :: "string list \<Rightarrow> ledger_fs \<Rightarrow> bool" where
  "fresh_place p f \<longleftrightarrow> fs_tables f p = None \<and> fs_indexes f (index_path p) = None \<and> fs_logs f (append_log_path p) = None \<and> \<not> fs_dirs f (part_root p)"

definition ledger_holds :: "ledger_env \<Rightarrow> string list \<Rightarrow> string list \<Rightarrow> ledger_row list \<Rightarrow> ledger_fs \<Rightarrow> ledger_row list \<Rightarrow> bool" where
  "ledger_holds env p c base f rows \<longleftrightarrow> sound env p c base f rows \<or> fresh_place p f \<and> rows = [] \<and> base = [] \<and> c = p"

definition ready_index :: "ledger_env \<Rightarrow> string list \<Rightarrow> string list \<Rightarrow> ledger_row list \<Rightarrow> ledger_fs \<Rightarrow> ledger_row list \<Rightarrow> part_index \<Rightarrow> bool" where
  "ready_index env p c base f rows x \<longleftrightarrow> (\<exists>gs. sound_at env p f c base gs \<and> rows = base @ concat gs \<and> px_rows x = int (length rows) \<and>
     px_run_ids x = map row_id rows \<and> px_compacted x = Some c \<and> px_parts x = refs_of env p (length base) gs)"

lemma ready_sound: "ready_index env p c base f rows x \<Longrightarrow> sound env p c base f rows"
  by (auto simp: ready_index_def sound_def)

lemma fresh_read: "fresh_place p f \<Longrightarrow> read_valid_ledger_part_index env p f = Inr None \<and> read_ledger env p f = Inr []"
  by (simp add: fresh_place_def read_valid_ledger_part_index_def read_ledger_def)

lemma holds_read: "ledger_holds env p c base f rows \<Longrightarrow> read_ledger env p f = Inr rows"
  using sound_read fresh_read by (auto simp: ledger_holds_def)

lemma fresh_bootstrap:
  assumes "fresh_place p f"
  shows "\<exists>x f'. bootstrap_part_index env p None 0 [] f = (Inr x, f') \<and> ready_index env p p [] f' [] x"
proof -
  let ?w = "write_table env p [] f"
  let ?f = "write_ledger_part_index env p 0 [] (Some p) [] ?w"
  obtain t where t: "fs_tables ?w = (fs_tables f)(p := Some ([], t))" using write_table_tables by blast
  have i: "fs_indexes ?f (index_path p) = Some (PartIndex (index_of_groups env p p [] []))"
    using t by (simp add: write_ledger_part_index_def index_of_groups_def by_index_def sorted_by_def infer_compacted_rows_def file_sha_def)
  have r: "fs_tables ?f = fs_tables ?w" "fs_logs ?f = fs_logs f" by (simp_all add: write_ledger_part_index_def)
  have "sound_at env p ?f p [] []" unfolding sound_at_def i r using assms t part_path_other by (simp add: fresh_place_def good_rows_def)
  then have "ready_index env p p [] ?f [] \<lparr>px_rows = 0, px_run_ids = [], px_compacted = Some p, px_compacted_sha = None, px_compacted_rows = 0, px_parts = []\<rparr>"
    unfolding ready_index_def by (intro exI [of _ "[]"]) simp
  then show ?thesis using assms by (simp add: bootstrap_part_index_def fresh_place_def Let_def)
qed

lemma index_for_append_holds:
  assumes "ledger_holds env p c base f rows"
  shows "if run_id \<in> lr_run_id ` set rows then index_for_append env p run_id f = (Inl (LedgerError (''duplicate_run_id: '' @ run_id)), f)
    else \<exists>x f'. index_for_append env p run_id f = (Inr x, f') \<and> ready_index env p c base f' rows x"
proof (cases "fresh_place p f \<and> rows = [] \<and> base = [] \<and> c = p")
  case True
  have "read_valid_ledger_index env p f = None" using True by (simp add: fresh_place_def read_valid_ledger_index_def)
  moreover have "fs_tables f p = None" using True by (simp add: fresh_place_def)
  ultimately have "index_for_append env p run_id f = bootstrap_part_index env p None 0 [] f"
    using fresh_read [of p f env] True by (simp add: index_for_append_def bindS_def getS_def run_ids_of_def dict_of_def Let_def)
  then show ?thesis using fresh_bootstrap [of p f env] True by simp
next
  case False
  then obtain gs where s: "sound_at env p f c base gs" "rows = base @ concat gs" using assms by (auto simp: ledger_holds_def sound_def)
  let ?x = "index_of_groups env p c base gs"
  have ids: "px_run_ids ?x = map row_id rows" using s(2) by (simp add: index_of_groups_def Let_def)
  have "ready_index env p c base f rows ?x" using s by (auto simp: ready_index_def index_of_groups_def Let_def)
  moreover have "run_id \<in> fst ` set (px_run_ids ?x) \<longleftrightarrow> run_id \<in> lr_run_id ` set rows" unfolding ids by (simp add: row_id_def image_image)
  ultimately show ?thesis using sound_index [OF s(1)] by (auto simp: index_for_append_def bindS_def raiseS_def retS_def Let_def)
qed

lemma append_row_ready:
  assumes "ready_index env p c base f rows x" "good_row row" "lr_index row = px_rows x" "lr_run_id row \<notin> lr_run_id ` set rows"
  shows "\<exists>f'. append_row_part env p row x limit f = (Inr True, f') \<and> sound env p c base f' (rows @ [row])"
proof -
  obtain gs where r: "sound_at env p f c base gs" "rows = base @ concat gs" "px_rows x = int (length rows)" "px_run_ids x = map row_id rows"
    "px_compacted x = Some c" "px_parts x = refs_of env p (length base) gs" using assms(1) by (auto simp: ready_index_def)
  have "good_rows rows" using r(1,2) by (simp add: sound_at_def)
  then have "good_rows ((base @ concat gs) @ [row])" using assms(2-4) r(2,3) by (simp only: good_rows_append) simp
  from append_row_part_sound [OF r(1) this, of x limit] show ?thesis using r(2-6) by simp
qed

text \<open>The ledger as a list: the row a request adds to given rows, with the files left out.\<close>

definition next_row :: "ledger_env \<Rightarrow> append_request \<Rightarrow> ledger_row list \<Rightarrow> ledger_row result" where
  "next_row env request rows = bindE (validate_append_request request) (\<lambda>q. bindE (run_to_append env q) (\<lambda>(m, sha, gate, gp).
     if rm_run_id m \<in> lr_run_id ` set rows then Inl (LedgerError (''duplicate_run_id: '' @ rm_run_id m))
     else bindE (ledger_row_from_manifest env m (resolved_root (le_cwd env) (lq_manifest q)) sha gate gp (int (length rows)) (lq_mode q) (lq_notes q)) hashed_row))"

definition add_row :: "ledger_row list \<Rightarrow> ledger_row result \<Rightarrow> ledger_row list" where
  "add_row rows r = (case r of Inl e \<Rightarrow> rows | Inr row \<Rightarrow> rows @ [row])"

lemma add_row_simps [simp]: "add_row rows (Inl e) = rows" "add_row rows (Inr row) = rows @ [row]"
  by (simp_all add: add_row_def)

definition ledger_of :: "ledger_env \<Rightarrow> append_request list \<Rightarrow> ledger_row list" where
  "ledger_of env qs = foldl (\<lambda>rows q. add_row rows (next_row env q rows)) [] qs"

text \<open>One append adds its row or leaves the rows of the ledger alone.\<close>

lemma append_step:
  assumes h: "ledger_holds env p c base f rows" and p: "resolved_root (le_cwd env) (lq_ledger q) = p"
  shows "\<exists>f'. append_run_to_ledger env q f = (next_row env q rows, f') \<and> ledger_holds env p c base f' (add_row rows (next_row env q rows))"
proof (cases "validate_append_request q")
  case (Inl e)
  then show ?thesis using h by (simp add: append_run_to_ledger_def bindS_def liftS_def next_row_def)
next
  case v: (Inr q')
  have p': "resolved_root (le_cwd env) (lq_ledger q') = p" using v p by (auto simp: validate_append_request_def validate_model_Inr_iff)
  show ?thesis
  proof (cases "run_to_append env q'")
    case (Inl e)
    then show ?thesis using h v by (simp add: append_run_to_ledger_def bindS_def liftS_def next_row_def)
  next
    case (Inr run)
    obtain m sha gate gp where run: "run = (m, sha, gate, gp)" by (cases run)
    note steps = append_run_to_ledger_def bindS_def liftS_def Let_def retS_def raiseS_def
    show ?thesis
    proof (cases "rm_run_id m \<in> lr_run_id ` set rows")
      case True
      then show ?thesis using index_for_append_holds [OF h, of "rm_run_id m"] h v Inr run p' by (simp add: steps next_row_def)
    next
      case False
      then obtain x f' where x: "index_for_append env p (rm_run_id m) f = (Inr x, f')" "ready_index env p c base f' rows x"
        using index_for_append_holds [OF h, of "rm_run_id m"] by auto
      have h': "ledger_holds env p c base f' rows" using ready_sound [OF x(2)] by (simp add: ledger_holds_def)
      have n: "px_rows x = int (length rows)" using x(2) by (auto simp: ready_index_def)
      let ?row = "bindE (ledger_row_from_manifest env m (resolved_root (le_cwd env) (lq_manifest q')) sha gate gp (px_rows x) (lq_mode q') (lq_notes q')) hashed_row"
      show ?thesis
      proof (cases ?row)
        case (Inl e)
        then show ?thesis using h' v Inr run p' x(1) n False by (simp add: steps next_row_def)
      next
        case row: (Inr row)
        then have g: "good_row row" "lr_index row = px_rows x" "lr_run_id row = rm_run_id m"
          using appended_row_good by (auto simp: bindE_Inr_iff)
        obtain f'' where "append_row_part env p row x (lq_max_rows q') f' = (Inr True, f'')" "sound env p c base f'' (rows @ [row])"
          using append_row_ready [OF x(2) g(1,2)] False g(3) by metis
        then show ?thesis using v Inr run p' x(1) row n False by (simp add: steps next_row_def ledger_holds_def)
      qed
    qed
  qed
qed

text \<open>A sequence of requests, with the rows that were appended.\<close>

fun append_runs :: "ledger_env \<Rightarrow> append_request list \<Rightarrow> ledger_fs \<Rightarrow> ledger_row list \<times> ledger_fs" where
  "append_runs env [] f = ([], f)"
| "append_runs env (q # qs) f = (case append_run_to_ledger env q f of (r, g) \<Rightarrow> case append_runs env qs g of (rows, h) \<Rightarrow>
     ((case r of Inl e \<Rightarrow> [] | Inr row \<Rightarrow> [row]) @ rows, h))"

lemma append_runs_hold:
  assumes "ledger_holds env p c base f rows" "\<And>q. q \<in> set qs \<Longrightarrow> resolved_root (le_cwd env) (lq_ledger q) = p"
  shows "ledger_holds env p c base (snd (append_runs env qs f)) (rows @ fst (append_runs env qs f))
    \<and> rows @ fst (append_runs env qs f) = foldl (\<lambda>rows q. add_row rows (next_row env q rows)) rows qs"
  using assms
proof (induction qs arbitrary: f rows)
  case (Cons q qs)
  obtain g where a: "append_run_to_ledger env q f = (next_row env q rows, g)" "ledger_holds env p c base g (add_row rows (next_row env q rows))"
    using append_step [OF Cons.prems(1), of q] Cons.prems(2) by auto
  have r: "add_row rows r = rows @ (case r of Inl e \<Rightarrow> [] | Inr row \<Rightarrow> [row])" for r by (cases r) simp_all
  from Cons.IH [OF a(2)] Cons.prems(2) show ?case using a(1) r [of "next_row env q rows"] by (auto split: prod.splits)
qed simp

lemma no_files_fresh: "fresh_place p no_files"
  by (simp add: fresh_place_def no_files_def)

lemma holds_good: "ledger_holds env p c base f rows \<Longrightarrow> good_rows rows"
  by (auto simp: ledger_holds_def sound_def sound_at_def good_rows_def)

section \<open>Compactions\<close>

lemma index_path_compacted: "index_path (compacted_default p) \<noteq> index_path p"
proof -
  have "length (index_path (compacted_default p)) = length (butlast p) + 3"
    by (simp add: index_path_def with_suffix_def compacted_default_def part_root_def butlast_append)
  moreover have "length (index_path p) = length (butlast p) + 1" by (simp add: index_path_def with_suffix_def)
  ultimately show ?thesis by (metis add_left_cancel numeral_One one_neq_zero numeral_eq_iff semiring_norm(84))
qed

lemma write_rows_steps:
  "\<exists>t. fs_tables (write_ledger_rows env (compacted_default p) rows f) = (fs_tables f)(compacted_default p := Some (rows, t))"
  "fs_indexes (write_ledger_rows env (compacted_default p) rows f) (index_path p) = fs_indexes f (index_path p)"
  "fs_logs (write_ledger_rows env (compacted_default p) rows f) = fs_logs f"
  using write_table_tables [of env "compacted_default p" rows f] index_path_compacted [of p]
  by (auto simp: write_ledger_rows_def write_ledger_index_def split: option.splits prod.splits)

text \<open>After the rows are written over, the index that is still in force decides.\<close>

lemma rows_written_over:
  assumes s: "sound_at env p f c base gs"
  shows "read_valid_ledger_part_index env p (write_ledger_rows env (compacted_default p) rows f) =
    (if c = compacted_default p \<and> table_sha env rows \<noteq> table_sha env base
     then Inl (LedgerError (''ledger_compacted_hash_mismatch: '' @ path_text (Path True c))) else Inr (Some (index_of_groups env p c base gs)))"
proof -
  let ?w = "write_ledger_rows env (compacted_default p) rows f"
  obtain t where t: "fs_tables ?w = (fs_tables f)(compacted_default p := Some (rows, t))" using write_rows_steps(1) by blast
  obtain u where u: "fs_tables f c = Some (base, u)" using s by (auto simp: sound_at_def)
  have parts: "parts_stored ?w p (length base) gs"
    by (rule parts_stored_cong [of f]) (use s part_path_other(2) in \<open>simp_all add: sound_at_def t\<close>)
  have index: "fs_indexes ?w (index_path p) = Some (PartIndex (index_of_groups env p c base gs))" and good: "good_rows (base @ concat gs)"
    and log: "case fs_logs ?w (append_log_path p) of None \<Rightarrow> True | Some es \<Rightarrow> good_log es (map row_id (base @ concat gs))"
    using s unfolding sound_at_def write_rows_steps by (blast, blast, blast)
  show ?thesis
  proof (cases "c = compacted_default p")
    case True
    have "fs_tables ?w c = Some (rows, t)" using t True by simp
    from stored_index [OF index this parts log good] show ?thesis using True by simp
  next
    case False
    have "fs_tables ?w c = Some (base, u)" using t u False by simp
    from stored_index [OF index this parts log good] show ?thesis using False by simp
  qed
qed

lemma dict_of_distinct: "distinct (map fst d) \<Longrightarrow> dict_of d = d"
proof -
  have "distinct (map fst (e @ d)) \<Longrightarrow> fold (\<lambda>(k, v) d. AList.update k v d) d e = e @ d" for e
    by (induction d arbitrary: e) (auto simp: update_fresh)
  from this [of "[]"] show "distinct (map fst d) \<Longrightarrow> dict_of d = d" by (simp add: dict_of_def)
qed

lemma run_ids_good: "good_rows rows \<Longrightarrow> run_ids_of rows = map row_id rows"
  by (simp add: run_ids_of_def good_rows_def row_id_def [abs_def] dict_of_distinct comp_def)

lemma compacted_index_sound:
  assumes s: "sound_at env p f c base gs" and rows: "rows = base @ concat gs"
  shows "sound env p (compacted_default p) rows (write_ledger_part_index env p (int (length rows)) (run_ids_of rows) (Some (compacted_default p)) []
    (write_ledger_rows env (compacted_default p) rows f)) rows"
proof -
  let ?w = "write_ledger_rows env (compacted_default p) rows f"
  let ?g = "write_ledger_part_index env p (int (length rows)) (run_ids_of rows) (Some (compacted_default p)) [] ?w"
  have good: "good_rows rows" using s rows by (simp add: sound_at_def)
  obtain t where t: "fs_tables ?w = (fs_tables f)(compacted_default p := Some (rows, t))" using write_rows_steps(1) by blast
  have g: "fs_tables ?g = fs_tables ?w" "fs_logs ?g = fs_logs f" by (simp_all add: write_ledger_part_index_def write_rows_steps)
  have "fs_indexes ?g (index_path p) = Some (PartIndex (index_of_groups env p (compacted_default p) rows []))"
    using t run_ids_good [OF good] by_index_good [OF good]
    by (simp add: write_ledger_part_index_def index_of_groups_def infer_compacted_rows_def file_sha_def)
  moreover have "case fs_logs f (append_log_path p) of None \<Rightarrow> True | Some es \<Rightarrow> good_log es (map row_id (rows @ concat []))"
    using s unfolding sound_at_def rows concat.simps append_Nil2 by blast
  ultimately have "sound_at env p ?g (compacted_default p) rows []"
    unfolding sound_at_def g using t good part_path_other by simp
  then show ?thesis by (force simp: sound_def)
qed

lemma compact_sound:
  assumes "sound env p c base f rows"
  shows "\<exists>g. compact_ledger_parts env p None f = (if c = compacted_default p \<and> table_sha env rows \<noteq> table_sha env base
      then Inl (LedgerError (''ledger_compacted_hash_mismatch: '' @ path_text (Path True c))) else Inr (compacted_default p), g) \<and>
    (if c = compacted_default p \<and> table_sha env rows \<noteq> table_sha env base
     then read_ledger env p g = Inl (LedgerError (''ledger_compacted_hash_mismatch: '' @ path_text (Path True c)))
     else sound env p (compacted_default p) rows g rows)"
proof -
  obtain gs where s: "sound_at env p f c base gs" "rows = base @ concat gs" using assms by (auto simp: sound_def)
  note steps = compact_ledger_parts_def bindS_def modifyS_def retS_def sound_read [OF assms] Let_def
  show ?thesis
  proof (cases "c = compacted_default p \<and> table_sha env rows \<noteq> table_sha env base")
    case True
    let ?w = "write_ledger_rows env (compacted_default p) rows f"
    let ?e = "LedgerError (''ledger_compacted_hash_mismatch: '' @ path_text (Path True c))"
    have "read_valid_ledger_part_index env p ?w = Inl ?e" using rows_written_over [OF s(1), of rows] True by (simp only: if_P simp_thms)
    then have "compact_ledger_parts env p None f = (Inl ?e, ?w)" "read_ledger env p ?w = Inl ?e"
      by (simp_all only: steps) (simp_all add: read_ledger_def)
    then show ?thesis using True by (simp only: if_P simp_thms) blast
  next
    case False
    then show ?thesis using rows_written_over [OF s(1), of rows] compacted_index_sound [OF s] by (simp add: steps) (use False in blast)
  qed
qed

section \<open>Properties\<close>

lemma appends_hold:
  assumes "\<And>q. q \<in> set qs \<Longrightarrow> resolved_root (le_cwd env) (lq_ledger q) = p"
  shows "ledger_holds env p p [] (snd (append_runs env qs no_files)) (ledger_of env qs)" "fst (append_runs env qs no_files) = ledger_of env qs"
proof -
  have "ledger_holds env p p [] no_files []" using no_files_fresh by (simp add: ledger_holds_def)
  note h = append_runs_hold [OF this, of qs, OF assms, unfolded append_Nil]
  show "ledger_holds env p p [] (snd (append_runs env qs no_files)) (ledger_of env qs)" "fst (append_runs env qs no_files) = ledger_of env qs"
    by (simp_all only: ledger_of_def h [THEN conjunct2, symmetric] h [THEN conjunct1])
qed




lemma foldE_steps: "foldE f xs s = Inr t \<Longrightarrow> x \<in> set xs \<Longrightarrow> \<exists>u v. f x u = Inr v"
  by (induction xs arbitrary: s) (auto simp: bindE_Inr_iff)

text \<open>
  C14: whatever the files of a ledger hold, a reading that succeeds vouches for its rows: each one is numbered by its
  place, passed the validator of rows and so is neither gross-only nor outside the research boundary,
  and carries the digest of its own content.
\<close>

theorem read_rows_are_intact:
  assumes "read_ledger env p f = Inr rows"
  shows "map lr_index rows = map int [0..<length rows] \<and> list_all (\<lambda>r. \<exists>h. ledger_row_hash r = Inr h \<and> lr_hash r = Some h) rows
    \<and> list_all (\<lambda>r. \<not> lr_gross_only r \<and> boundary_ok (lr_flags r)
        \<and> list_all is_digest (map fst (ledger_digests r)) \<and> (lr_status r = ''succeeded'' \<longrightarrow> lr_net_return r \<noteq> None)) rows"
proof -
  have placed: "map lr_index rows = map int [0..<length rows]"
    if "\<And>kr. kr \<in> set (zip [0..<length rows] rows) \<Longrightarrow> row_in_place kr = Inr ()"
  proof (intro nth_equalityI)
    fix i assume "i < length (map lr_index rows)"
    then show "map lr_index rows ! i = map int [0..<length rows] ! i" using that [of "(i, rows ! i)"] by (force simp: set_zip row_in_place_def)
  qed simp
  have each: "r \<in> set rows \<Longrightarrow> \<exists>k. (k, r) \<in> set (zip [0..<length rows] rows)" for r
    by (auto simp: in_set_conv_nth set_zip)
  obtain stored where stored: "mapE validate_ledger_row stored = Inr rows"
    and steps: "\<And>kr. kr \<in> set (zip [0..<length rows] rows) \<Longrightarrow> row_in_place kr = Inr () \<and> row_intact (snd kr) = Inr ()"
  proof -
    consider x where "read_ledger_parts env f x = Inr rows" "rows \<noteq> []" | "rows = []" |
      st where "mapE validate_ledger_row st = Inr rows"
        "\<exists>us. mapE (\<lambda>kr. bindE (row_in_place kr) (\<lambda>_. row_intact (snd kr))) (zip [0..<length rows] rows) = Inr us"
      using assms by (auto simp: read_ledger_def bindE_Inr_iff split: option.splits)
    then show thesis
    proof cases
      case 1
      then obtain st seen where "mapE validate_ledger_row st = Inr rows" "foldE check_row (zip [0..<length rows] rows) [] = Inr seen"
        by (auto simp: read_ledger_parts_def bindE_Inr_iff split: if_splits)
      then show thesis using foldE_steps [of check_row] by (intro that) (fastforce simp: check_row_def bindE_Inr_iff)+
    next
      case 2
      then show thesis by (intro that [of "[]"]) simp_all
    next
      case 3
      then show thesis using mapE_member by (intro that) (fastforce simp: bindE_Inr_iff)+
    qed
  qed
  have hash: "\<exists>h. ledger_row_hash r = Inr h \<and> lr_hash r = Some h" if "r \<in> set rows" for r
    using steps each [OF that] by (force simp: row_intact_def bindE_Inr_iff)
  have valid: "\<exists>s. validate_ledger_row s = Inr r" if "r \<in> set rows" for r
    using stored that by (auto simp: mapE_Inr_iff list_all2_conv_all_nth in_set_conv_nth)
  have fields: "\<not> lr_gross_only r \<and> boundary_ok (lr_flags r)
      \<and> list_all is_digest (map fst (ledger_digests r)) \<and> (lr_status r = ''succeeded'' \<longrightarrow> lr_net_return r \<noteq> None)" if "validate_ledger_row s = Inr r" for s r
    using that fst_boundary_entry [of "''ledger row''" "lr_flags s"] unfolding validate_ledger_row_def validate_model_Inr_iff ledger_digests_def
    by (auto simp: boundary_ok_iff_default case_prod_unfold)
  have all: "list_all P rows" if "\<And>r. r \<in> set rows \<Longrightarrow> P r" for P using that by (simp add: list_all_iff)
  show ?thesis
  proof (intro conjI all)
    show "map lr_index rows = map int [0..<length rows]" using steps by (intro placed) blast
  next
    fix r assume r: "r \<in> set rows"
    from hash [OF r] show "\<exists>h. ledger_row_hash r = Inr h \<and> lr_hash r = Some h" .
    obtain s where "validate_ledger_row s = Inr r" using valid [OF r] by blast
    from fields [OF this] show "\<not> lr_gross_only r" "boundary_ok (lr_flags r)" "list_all is_digest (map fst (ledger_digests r))"
      "lr_status r = ''succeeded'' \<longrightarrow> lr_net_return r \<noteq> None" by blast+
  qed
qed

lemma sorted_desc_facts: "mset (sorted_desc k xs) = mset xs" "sorted_wrt (\<lambda>a b. k b \<le> k a) (sorted_desc k xs)"
proof -
  have "sorted (map k (sorted_by k (rev xs)))" by (simp add: sorted_by_def)
  then have "sorted_wrt (\<lambda>a b. k a \<le> k b) (sorted_by k (rev xs))" by (simp add: sorted_map)
  then show "sorted_wrt (\<lambda>a b. k b \<le> k a) (sorted_desc k xs)" by (simp add: sorted_desc_def sorted_wrt_rev)
  show "mset (sorted_desc k xs) = mset xs" by (simp add: sorted_desc_def sorted_by_def)
qed

lemma ranked_leaders_exact:
  assumes "ranked_leaders rp xs rows = Inr ls" "ranked = sorted_desc (rank_key rows) (filter (eligible_row rp xs) rows)"
  shows "ls = map (\<lambda>(k, r). leader_of rows (int k) r) (zip [1..<length ranked + 1] ranked)"
proof -
  have "list_all2 (\<lambda>kr l. l = (\<lambda>(k, r). leader_of rows (int k) r) kr) (zip [1..<length ranked + 1] ranked) ls"
    using assms(1) unfolding ranked_leaders_def Let_def assms(2) [symmetric] mapE_Inr_iff
    by (rule list_all2_mono) (auto simp: validate_leader_def validate_model_Inr_iff)
  then show ?thesis by (simp add: list_all2_conv_all_nth nth_equalityI del: upt_Suc)
qed

text \<open>
  C13: a leaderboard ranks exactly the rows of the ledger it may rank: the entries are numbered from one, their runs are
  those of the eligible rows with their multiplicity, no entry beats an earlier one in score, return and
  run, and every entry comes from a succeeded net row outside the current universe, validated and
  outside the sandbox as far as that was asked, with the trials of its family counted over all rows.
\<close>

theorem leaderboard_exact:
  assumes "leaderboard env p rp xs rank f = Inr ls"
  shows "\<exists>rows. read_ledger env p f = Inr rows \<and> map ld_rank ls = map int [1..<length ls + 1]
    \<and> mset (map ld_run_id ls) = mset (map lr_run_id (filter (eligible_row rp xs) rows))
    \<and> sorted_wrt (\<lambda>a b. (ld_score b, ld_net_return b, ld_run_id b) \<le> (ld_score a, ld_net_return a, ld_run_id a)) ls
    \<and> list_all (\<lambda>l. \<exists>r \<in> set rows. l = leader_of rows (ld_rank l) r \<and> lr_status r = ''succeeded'' \<and> lr_net_return r = Some (ld_net_return l)
        \<and> \<not> lr_gross_only r \<and> lr_universe_mode r \<noteq> ''current'' \<and> (rp \<longrightarrow> ld_validation l = ''pass'') \<and> (xs \<longrightarrow> ld_mode l \<noteq> ''sandbox_diagnostic'')
        \<and> ld_trials l = int (length (filter (\<lambda>s. lr_experiment s = ld_experiment l \<and> lr_strategy_id s = ld_strategy l) rows))) ls"
proof -
  obtain rows where rows: "read_ledger env p f = Inr rows" "ranked_leaders rp xs rows = Inr ls"
    using assms by (auto simp: leaderboard_def bindE_Inr_iff)
  define ranked where "ranked = sorted_desc (rank_key rows) (filter (eligible_row rp xs) rows)"
  have ls: "ls = map (\<lambda>(k, r). leader_of rows (int k) r) (zip [1..<length ranked + 1] ranked)" using ranked_leaders_exact [OF rows(2) ranked_def] .
  have len: "length ls = length ranked" by (simp add: ls del: upt_Suc)
  have nth: "ls ! i = leader_of rows (int i + 1) (ranked ! i)" if "i < length ranked" for i using that by (simp add: ls add.commute del: upt_Suc)
  have ids: "map ld_run_id ls = map lr_run_id ranked" by (rule nth_equalityI) (simp_all add: len nth leader_of_def)
  have "map ld_rank ls = map int [1..<length ls + 1]" by (rule nth_equalityI) (simp_all add: len nth leader_of_def del: upt_Suc)
  moreover have "mset (map ld_run_id ls) = mset (map lr_run_id (filter (eligible_row rp xs) rows))"
    unfolding ids mset_map by (simp only: ranked_def sorted_desc_facts)
  moreover have "sorted_wrt (\<lambda>a b. rank_key rows b \<le> rank_key rows a) ranked" unfolding ranked_def by (rule sorted_desc_facts)
  then have "sorted_wrt (\<lambda>a b. (ld_score b, ld_net_return b, ld_run_id b) \<le> (ld_score a, ld_net_return a, ld_run_id a)) ls"
    by (simp add: sorted_wrt_iff_nth_less len nth leader_of_def rank_key_def del: less_eq_prod_simp)
  moreover have "list_all (\<lambda>l. \<exists>r \<in> set rows. l = leader_of rows (ld_rank l) r \<and> lr_status r = ''succeeded'' \<and> lr_net_return r = Some (ld_net_return l)
        \<and> \<not> lr_gross_only r \<and> lr_universe_mode r \<noteq> ''current'' \<and> (rp \<longrightarrow> ld_validation l = ''pass'') \<and> (xs \<longrightarrow> ld_mode l \<noteq> ''sandbox_diagnostic'')
        \<and> ld_trials l = int (length (filter (\<lambda>s. lr_experiment s = ld_experiment l \<and> lr_strategy_id s = ld_strategy l) rows))) ls"
    unfolding list_all_length len
  proof (intro allI impI)
    fix i assume i: "i < length ranked"
    have "ranked ! i \<in> set_mset (mset ranked)" using i by simp
    then have "ranked ! i \<in> set rows" "eligible_row rp xs (ranked ! i)" unfolding ranked_def sorted_desc_facts(1) by simp_all
    then show "\<exists>r \<in> set rows. ls ! i = leader_of rows (ld_rank (ls ! i)) r \<and> lr_status r = ''succeeded'' \<and> lr_net_return r = Some (ld_net_return (ls ! i))
        \<and> \<not> lr_gross_only r \<and> lr_universe_mode r \<noteq> ''current'' \<and> (rp \<longrightarrow> ld_validation (ls ! i) = ''pass'') \<and> (xs \<longrightarrow> ld_mode (ls ! i) \<noteq> ''sandbox_diagnostic'')
        \<and> ld_trials (ls ! i) = int (length (filter (\<lambda>s. lr_experiment s = ld_experiment (ls ! i) \<and> lr_strategy_id s = ld_strategy (ls ! i)) rows))"
      by (intro bexI [of _ "ranked ! i"]) (auto simp: nth [OF i] leader_of_def eligible_row_def family_count_def family_key_def)
  qed
  ultimately show ?thesis using rows(1) by blast
qed
end
