(* ===== verification/LedgerSamples.thy ===== *)
theory LedgerSamples
  imports LedgerProps EngineSamples
begin

text \<open>
  A ledger with one row, on which the properties of \<open>LedgerProps\<close> hold: the request, the manifest it names and
  the environment it is read in.
\<close>

definition ledger_sample :: ledger_env where
  "ledger_sample = \<lparr>le_senv = sample_senv, le_cwd = [],
     le_manifest = (\<lambda>p. if p = [''run.json''] then Some \<lparr>mf_has_status = True, mf_parsed = Inr (sample_manifest ''run-a'' VECTORIZED FULL), mf_sha = sample_digest\<rparr> else None),
     le_json = (\<lambda>p. None), le_rows = (\<lambda>p. None), le_pow = (\<lambda>a b. Inl (OverflowError ''pow'')), le_str = (\<lambda>v. []), le_error_text = (\<lambda>e. []),
     le_encode = (\<lambda>rows. concat (map lr_run_id rows)), le_clock = (\<lambda>n. 0), le_mtime = int\<rparr>"

definition ledger_request :: append_request where
  "ledger_request = \<lparr>lq_manifest = ''run.json'', lq_validation = None, lq_ledger = ''ledger.parquet'', lq_mode = ''sandbox_diagnostic'', lq_notes = [],
     lq_max_rows = 10\<rparr>"

lemma ledger_request_places:
  "resolved_root (le_cwd ledger_sample) (lq_ledger ledger_request) = [''ledger.parquet'']"
  "resolved_root (le_cwd ledger_sample) (lq_manifest ledger_request) = [''run.json'']"
  by (simp_all add: ledger_sample_def ledger_request_def, (code_simp)+)

lemma ledger_request_fields: "lq_mode ledger_request = ''sandbox_diagnostic''" "lq_notes ledger_request = []"
  by (simp_all add: ledger_request_def)

lemma ledger_request_valid: "validate_append_request ledger_request = Inr ledger_request"
proof -
  have "normal_text ''sandbox_diagnostic'' = ''sandbox_diagnostic''" by code_simp
  then show ?thesis by (simp add: validate_append_request_def ledger_request_def validate_model_def)
qed

lemma ledger_request_run: "run_to_append ledger_sample ledger_request = Inr (sample_manifest ''run-a'' VECTORIZED FULL, sample_digest, None, None)"
proof -
  have v: "validate_manifest_for_ledger (sample_manifest ''run-a'' VECTORIZED FULL) ''sandbox_diagnostic'' = Inr ()"
    by (simp add: validate_manifest_for_ledger_def sample_manifest_def sample_metrics_def default_flags_def)
  show ?thesis unfolding run_to_append_def ledger_request_places using v
    by (simp add: ledger_sample_def ledger_request_def text_given_def)
qed

lemma ledger_figures: "\<exists>g. figures_of ledger_sample [] (sample_manifest ''run-a'' VECTORIZED FULL) None = Inr g \<and> fg_cost g = [] \<and> fg_folds g = (0, None)
    \<and> fg_drawdown g = None \<and> fg_annualized g = None \<and> fg_calmar g = None \<and> (\<forall>x. fg_daily_trades g = Some x \<longrightarrow> isfinite x)"
proof -
  have days: "run_days (sample_manifest ''run-a'' VECTORIZED FULL) = Inr (Fin 1)"
  proof -
    have "f_le (fl (1 / 24)) (Fin 1)" using fl_mono [of "1 / 24" 1] by simp
    then have "f_max (Fin 1) (fl (1 / 24)) = Fin 1" by (cases "fl (1 / 24)") (auto simp: f_max_def f_le_def)
    moreover have "total_seconds 3600000000 = Fin 3600" by (simp add: total_seconds_def fl_numeral)
    ultimately show ?thesis by (simp add: run_days_def sample_manifest_def f_div_def)
  qed
  show ?thesis
    by (simp add: figures_of_def read_artifact_json_def fold_summary_def gate_folds_def max_drawdown_def artifact_rows_def days sample_metrics_def
      annualized_return_def calmar_of_def ledger_sample_def f_div_def f_max_def float_of_int_def split: option.splits)
qed

lemma ledger_request_row: "\<exists>row. next_row ledger_sample ledger_request [] = Inr row \<and> eligible_row False False row \<and> validate_leader (leader_of [row] 1 row) = Inr (leader_of [row] 1 row)"
proof -
  let ?m = "sample_manifest ''run-a'' VECTORIZED FULL"
  obtain g where g: "figures_of ledger_sample [] ?m None = Inr g" "fg_cost g = []" "fg_folds g = (0, None)" "fg_drawdown g = None" "fg_annualized g = None"
    "fg_calmar g = None" "\<And>x. fg_daily_trades g = Some x \<Longrightarrow> isfinite x" using ledger_figures by blast
  define r where "r = row_of_manifest ledger_sample ?m [''run.json''] sample_digest None None 0 ''sandbox_diagnostic'' [] g"
  have d: "is_digest sample_digest" by (simp add: is_digest_def sample_digest_def)
  have t: "valid_instant 0" "valid_instant 3600000000" by code_simp+
  have v: "validate_ledger_row r = Inr r"
    using d t by (simp add: r_def validate_ledger_row_def validate_model_Inr_iff row_of_manifest_def sample_manifest_def sample_metrics_def Let_def ledger_digests_def
      g unit_share_def utc_ok_def ensure_utc_def to_utc_def validation_status_of_def fst_boundary_entry case_prod_unfold)
  have "all_finite (JObj (ledger_row_json r))"
    by (simp add: r_def ledger_row_json_def row_of_manifest_def sample_manifest_def sample_metrics_def Let_def g opt_float_json_def opt_time_json_def opt_bool_json_def
      opt_json_def list_all_iff row_blockers_def boundary_dump_def split: option.split)
  then obtain h where h: "ledger_row_hash r = Inr h" using canonical_json_hash_finite unfolding ledger_row_hash_def by blast
  have "next_row ledger_sample ledger_request [] = Inr (r\<lparr>lr_hash := Some h\<rparr>)"
    using g(1) v h by (simp add: next_row_def ledger_request_valid ledger_request_run ledger_row_from_manifest_def ledger_request_places ledger_request_fields hashed_row_def r_def)
  moreover have "eligible_row False False (r\<lparr>lr_hash := Some h\<rparr>)"
    by (simp add: eligible_row_def r_def row_of_manifest_def sample_manifest_def sample_metrics_def Let_def default_flags_def)
  moreover have "validate_leader (leader_of [row] 1 row) = Inr (leader_of [row] 1 row)" if "row = r\<lparr>lr_hash := Some h\<rparr>" for row
    by (simp add: that validate_leader_def leader_of_def validate_model_Inr_iff r_def row_of_manifest_def sample_manifest_def g family_count_def Let_def)
  ultimately show ?thesis by blast
qed

text \<open>The ledger after the sample request.\<close>

definition one_row_ledger :: "ledger_row list \<times> ledger_fs" where
  "one_row_ledger = append_runs ledger_sample [ledger_request] no_files"

lemma one_row:
  "\<exists>row. fst one_row_ledger = [row] \<and> eligible_row False False row \<and> validate_leader (leader_of [row] 1 row) = Inr (leader_of [row] 1 row)
    \<and> read_ledger ledger_sample [''ledger.parquet''] (snd one_row_ledger) = Inr [row]"
proof -
  obtain row where row: "next_row ledger_sample ledger_request [] = Inr row" "eligible_row False False row" "validate_leader (leader_of [row] 1 row) = Inr (leader_of [row] 1 row)"
    using ledger_request_row by blast
  have p: "resolved_root (le_cwd ledger_sample) (lq_ledger q) = [''ledger.parquet'']" if "q \<in> set [ledger_request]" for q
    using that ledger_request_places by simp
  have rows: "ledger_of ledger_sample [ledger_request] = [row]" using row(1) by (simp add: ledger_of_def)
  show ?thesis using appends_hold [OF p] holds_read rows row(2,3) unfolding one_row_ledger_def by metis
qed




lemma read_rows_are_intact_witness:
  "\<exists>rows. rows \<noteq> [] \<and> read_ledger ledger_sample [''ledger.parquet''] (snd one_row_ledger) = Inr rows
    \<and> list_all (\<lambda>r. \<exists>h. ledger_row_hash r = Inr h \<and> lr_hash r = Some h) rows"
proof -
  obtain row where row: "read_ledger ledger_sample [''ledger.parquet''] (snd one_row_ledger) = Inr [row]" using one_row by blast
  from read_rows_are_intact [OF row] show ?thesis using row by blast
qed

lemma leaderboard_exact_witness:
  "\<exists>ls. leaderboard ledger_sample [''ledger.parquet''] False False ''composite_v1'' (snd one_row_ledger) = Inr ls \<and> map ld_rank ls = [1]"
proof -
  obtain row where row: "read_ledger ledger_sample [''ledger.parquet''] (snd one_row_ledger) = Inr [row]" "eligible_row False False row"
    and v: "validate_leader (leader_of [row] 1 row) = Inr (leader_of [row] 1 row)" using one_row by blast
  obtain ls where ls: "leaderboard ledger_sample [''ledger.parquet''] False False ''composite_v1'' (snd one_row_ledger) = Inr ls"
    using row v by (simp add: leaderboard_def ranked_leaders_def sorted_desc_def sorted_by_def)
  have "length ls = 1" using ls row v by (auto simp add: leaderboard_def ranked_leaders_def sorted_desc_def sorted_by_def)
  then show ?thesis using leaderboard_exact [OF ls] ls by (auto simp: upt_rec)
qed
end
