(* ===== verification/Spec2Isabelle.thy ===== *)
theory Spec2Isabelle
  imports WorkerClaims CoverageStore WalkForwardProps Overfit LeadGates FinalTest UniverseProps ReplaySamples LedgerSamples
begin

text \<open>
  A verification development of the second-generation research engine, the Python package
  \<open>src/tradingbotsuite/v2\<close> of this repository: a research platform that collects market data into an
  archive, measures its coverage, runs durable worker jobs, validates strategies on walk-forward
  folds and overfitting diagnostics, and keeps promising ideas as non-promotable leads on their way
  to a final hard test.  Nothing it produces may trade, and every record carries the flags that say
  so.

  \<^bold>\<open>How the parts interact.\<close>  Worker jobs (\<open>workers/\<close>) are the unit of work: a job is enqueued, claimed
  by a worker, run by a job module and succeeds, fails or is queued again.  Collectors write raw files
  under the layout of \<open>archive/layout.py\<close> and register them in the manifests of
  \<open>archive/manifest_store.py\<close>; \<open>data_quality/\<close> measures each series against the bars its window should
  have and stores reports; \<open>backtest_data/\<close> gates evidence on those reports and excludes the lockbox;
  \<open>validation/\<close> splits rows into folds, summarises their stability and estimates overfitting; \<open>costs/\<close>
  charges a change of weight; \<open>lead_book/\<close> holds the ideas, their human inspection and approval, and
  \<open>validation/final_hard_test.py\<close> admits at most three of them to the final test.  \<open>strategy_specs/\<close> compiles
  a declarative strategy and a panel of rows into signals, and \<open>backtest_engine/\<close> simulates the signals
  with those costs; \<open>ledger/\<close> keeps a row of every run and ranks them.

  \<^bold>\<open>Foundations.\<close>
  \<^item> Prelude: the exceptions as values (\<open>py_error\<close>), \<open>result\<close> for code that may raise, \<open>prog\<close> for code
    that also reads the clock and writes a store, construction of validated records
    (\<open>validate_model\<close>), and Python's lists, dictionaries and text operations.
  \<^item> PyFloat: binary64 doubles as rationals with round-half-even rounding, overflow, infinities and
    NaN; the contract of a rounding is the locale \<open>rounding\<close>.  PyTime: UTC instants in microseconds,
    naive and aware datetimes, the proleptic Gregorian calendar.
  \<^item> Hashing (\<open>archive/hashing.py\<close>): canonical JSON text, SHA-256, manifest digests.  Boundary
    (\<open>config/schemas.py\<close>, \<open>security/boundary.py\<close>): the ten flags and the central policy.
  \<^item> Tables: manifest tables whose rows are replaced by key and kept in an order that determines the
    key; the locale \<open>keyed_table\<close> has nine interpretations in the theories below.

  \<^bold>\<open>Components.\<close>
  \<^item> WorkerModels, WorkerStore, WorkerRunner (\<open>workers/models.py\<close>, \<open>job_store.py\<close>, \<open>runner.py\<close>): the
    records with their validators, every operation of the store as a transaction on its four
    tables, the dispatch of a job to its module.  WorkerProps, WorkerSafety, WorkerMachine and
    WorkerClaims prove that every reachable store loads, that each call refines the abstract state
    machine of a job, that claims take the first queued job and are exclusive, what failing,
    retrying and staleness do, that a failed call is rolled back, and two ways to break the store.
  \<^item> ArchiveLayout, ArchiveStore, ArchiveProps (\<open>archive/layout.py\<close>, \<open>schemas.py\<close>, \<open>manifest_store.py\<close>,
    \<open>snapshots.py\<close>, \<open>security/path_policy.py\<close>): paths stay inside the root and name their partition
    values; upserts refine a map update; batches commute; validation finds exactly the files that
    disagree with their manifest; snapshots are functions of the manifest.
  \<^item> QualityModels, QualityChecks, Coverage, CoverageProps, CoverageStore (\<open>data_quality/\<close>): the six
    detectors against reference definitions, the report on a series against the set of expected
    bars, the store of reports and its query.
  \<^item> Universe, UniverseProps (\<open>universe/\<close>): instruments and contexts read from a payload, the eligibility of
    each instrument, the tables and the queries; a payload that parses is decided, a selection as of a day
    cannot see later days, the identity of a snapshot does not depend on order or time.
  \<^item> Lockbox (\<open>validation/policies.py\<close>, \<open>backtest_data/lockbox.py\<close>, \<open>coverage_gate.py\<close>): the last full
    calendar months, overlap as a common instant, the gate on evidence.
  \<^item> WalkForward, WalkForwardProps (\<open>validation/walk_forward.py\<close>): the folds in closed form, no row of a
    validation window or its embargo in the training rows before it, stability in exact arithmetic,
    months that tile a window.
  \<^item> Overfit (\<open>validation/overfit.py\<close>): the sweep and the report on a family of trials.
  \<^item> CostModel (\<open>costs/models.py\<close>): costs under stress are no cheaper, in rounded arithmetic.
  \<^item> StrategySpec, Signals, SignalsProps (\<open>strategy_specs/\<close>): the specification and its validators, the
    compiler for every type of strategy; a signal never depends on a later row, its weight keeps the limits
    of the specification, and every row of the panel gets one signal.
  \<^item> RunModels, Engine, EngineRun, EngineProps, EngineSamples (\<open>backtest_engine/artifacts.py\<close>, \<open>engine.py\<close>):
    the records of a run, the loop over bars and instruments, its results and stress rows; the future
    cannot change the past of a run, positions lag their targets by a bar, curve, totals and trades are
    what the positions say, harder stress is no cheaper, and the stress rows lose the initial equity.
  \<^item> FastLane, FastLaneProps (\<open>fast_lane.py\<close>): the audit of a fast run against its reference, the plans of
    reruns and replays, the verification of a replay and the choice of runs to audit; parity and
    verification pass exactly on runs that agree, and a sample is exact and monotone in its rate.
  \<^item> RunArtifacts, RunArtifactsProps (the rest of \<open>engine.py\<close>): run ids and directories, the documents, artifacts
    and manifest of a run, the report of a failure and the three entry points; a run writes below its
    output root, every run with readable timestamps ends in a report, and one with an unreadable timestamp does not.
    ReplayProps and ReplaySamples join the two: the planned replay of a light run passes its verification.
  \<^item> Ledger, LedgerStore, LedgerProps, LedgerSamples (\<open>ledger/schemas.py\<close>, \<open>service.py\<close>): requests and rows, the row made
    from a run manifest, the parts, index and log of a ledger with append, reading, compaction and leaderboard.
    The files refine a list of rows under any appends; a reading vouches for its rows; the leaderboard ranks
    exactly the rows it may; a second compaction, or one before the first append, breaks the ledger.
  \<^item> LeadModels, LeadBook, LeadProps, LeadGates (\<open>lead_book/schemas.py\<close>, \<open>service.py\<close>): rows, store,
    workflow, gates, creation, queue scan.  FinalTest (\<open>validation/final_hard_test.py\<close>): scorecards,
    the lock of one running validation, the three slots.

  \<^bold>\<open>Conventions.\<close>  A pydantic model is a record with a validator that returns the record or the failing
  fields, or the first message of the model validator.  \<open>model_copy\<close> is a record update: it does not
  validate.  A table read from a file is \<open>None\<close> when the file is missing.  Sets and frozensets whose
  order is visible only through \<open>sorted\<close> are lists.  The clock is an argument or a stream in the
  store.  What the code calls outside the repository is a parameter: parsing of text as a float or a
  datetime, job modules, the content of files, \<open>str\<close> of a metric value, the Git revision and the
  platform of a run.  \<open>sum\<close> of doubles adds from left to
  right, as CPython 3.11 does (PyMath), and a power of two is the rounded product.

  \<^bold>\<open>Bounds and fuel.\<close>  Recursion is structural or has a measure.  The month windows recurse on the
  number of folds the caller allows, which is the bound of the code's own loop, and the bars of a window on their
  number, which the code computes first.  Statements about quotients of counts name the range in
  which rounding cannot change the answer.

  \<^bold>\<open>Not modelled.\<close>  SQL text and parquet or zstd encodings, network access, rendering, the command
  line; the scans of repository files in \<open>audit/\<close>; the worker modules that unpack payloads; and, for
  later extensions, the validation gate of \<open>validation/jobs.py\<close>, the exports of the ledger, the archive inventory, the
  fast lane of a backtest on numpy matrices and the bytes of its parquet files (arguments of the model), and panels
  given as arrow tables.  The
  packages outside \<open>v2\<close> are the first generation, scripts over dataframes and files that \<open>v2\<close>
  replaces.
\<close>

end
